(* ===== verification/Prelude.thy ===== *)
theory Prelude
  imports Main "HOL-Library.Monad_Syntax" "HOL-Library.AList" "HOL-Library.Word" "HOL-Library.Multiset"
begin

text \<open>
  Shared vocabulary of the development: how Go values and Go control flow are written in HOL.

  \<^item> A pointer is an option: \<open>None\<close> is \<open>nil\<close>, \<open>Some v\<close> points to \<open>v\<close>. Dereferencing \<open>*p\<close> is
    binding \<open>p\<close> in the option monad, so a nil dereference makes the whole call \<open>None\<close>.
  \<^item> A slice is an optional list: \<open>None\<close> is the nil slice, which ranges like the empty one.
  \<^item> A Go call that does not return normally has the value \<open>None\<close>: it panicked (nil
    dereference) or it never stops (a paging loop). A call that returns has the value
    \<open>Some (result, world)\<close>, where an \<open>error\<close> result is part of the returned tuple.
  \<^item> A map is an association list with distinct keys. Go leaves the order of \<open>range\<close> over a map
    open, so every \<open>range\<close> takes the order of the keys from a parameter \<open>ord\<close>.
\<close>

subsection \<open>Pointers, slices, loops\<close>

type_synonym 'a ptr = "'a option"
type_synonym 'a slice = "'a list option"

definition elems :: "'a slice \<Rightarrow> 'a list" where
  "elems s = (case s of None \<Rightarrow> [] | Some xs \<Rightarrow> xs)"

lemma elems_simps [simp]: "elems None = []" "elems (Some xs) = xs"
  by (simp_all add: elems_def)

text \<open>\<open>for _, x := range xs { if err := f(x); err != nil { return err } }; return nil\<close>\<close>

primrec for_each ::
  "('a \<Rightarrow> 'w \<Rightarrow> ('e option \<times> 'w) option) \<Rightarrow> 'a list \<Rightarrow> 'w \<Rightarrow> ('e option \<times> 'w) option" where
  "for_each f [] w = Some (None, w)"
| "for_each f (x # xs) w = do {
     (err, w) \<leftarrow> f x w;
     (case err of Some e \<Rightarrow> Some (Some e, w) | None \<Rightarrow> for_each f xs w)
   }"

text \<open>\<open>for _, x := range xs { out = append(out, g(x)) }\<close>, where \<open>g\<close> may dereference nil.\<close>

primrec traverse :: "('a \<Rightarrow> 'b option) \<Rightarrow> 'a list \<Rightarrow> 'b list option" where
  "traverse g [] = Some []"
| "traverse g (x # xs) = do { y \<leftarrow> g x; ys \<leftarrow> traverse g xs; Some (y # ys) }"

text \<open>\<open>for _, x := range xs { if p(x) { out = append(out, x) } }\<close>\<close>

primrec select :: "('a \<Rightarrow> bool option) \<Rightarrow> 'a list \<Rightarrow> 'a list option" where
  "select p [] = Some []"
| "select p (x # xs) = do { b \<leftarrow> p x; ys \<leftarrow> select p xs; Some (if b then x # ys else ys) }"

text \<open>\<open>for _, x := range xs { if p(x) { return true } }; return false\<close>\<close>

primrec search :: "('a \<Rightarrow> bool option) \<Rightarrow> 'a list \<Rightarrow> bool option" where
  "search p [] = Some False"
| "search p (x # xs) = do { b \<leftarrow> p x; if b then Some True else search p xs }"

lemma traverse_total: "(\<And>x. x \<in> set xs \<Longrightarrow> g x = Some (h x)) \<Longrightarrow> traverse g xs = Some (map h xs)"
  by (induction xs) auto

lemma traverse_None: "x \<in> set xs \<Longrightarrow> g x = None \<Longrightarrow> traverse g xs = None"
  by (induction xs) (auto split: Option.bind_splits)

lemma traverse_Some_id: "traverse (\<lambda>x. x) (map Some xs) = Some xs"
  by (induction xs) auto

lemma traverse_Some_idD: "traverse (\<lambda>x. x) xs = Some ys \<Longrightarrow> xs = map Some ys"
  by (induction xs arbitrary: ys) (auto split: Option.bind_splits)

lemma select_total: "(\<And>x. x \<in> set xs \<Longrightarrow> p x = Some (q x)) \<Longrightarrow> select p xs = Some (filter q xs)"
  by (induction xs) auto

lemma search_total: "(\<And>x. x \<in> set xs \<Longrightarrow> p x = Some (q x)) \<Longrightarrow> search p xs = Some (\<exists>x\<in>set xs. q x)"
  by (induction xs) auto

lemma for_each_Cons_None: "for_each f (x # xs) w = Some (None, w') \<longleftrightarrow> (\<exists>u. f x w = Some (None, u) \<and> for_each f xs u = Some (None, w'))"
  by (auto split: Option.bind_splits option.splits)

lemma for_each_invariant:
  assumes "for_each f xs w = Some (None, w')" and "I w"
    and "\<And>x u u'. x \<in> set xs \<Longrightarrow> I u \<Longrightarrow> f x u = Some (None, u') \<Longrightarrow> I u'"
  shows "I w'"
  using assms
proof (induction xs arbitrary: w)
  case Nil
  then show ?case by simp
next
  case (Cons x xs)
  then obtain u where "f x w = Some (None, u)" "for_each f xs u = Some (None, w')"
    by (auto split: Option.bind_splits option.splits)
  with Cons show ?case by (metis list.set_intros)
qed

lemma for_each_returns:
  assumes "\<And>x u. x \<in> set xs \<Longrightarrow> \<exists>err u'. f x u = Some (err, u')"
  shows "\<exists>err w'. for_each f xs w = Some (err, w')"
  using assms
proof (induction xs arbitrary: w)
  case Nil
  then show ?case by simp
next
  case (Cons x xs)
  then obtain err u where "f x w = Some (err, u)" by fastforce
  with Cons show ?case by (cases err) auto
qed

text \<open>An invariant that every call keeps, failed or not, holds when the loop returns.\<close>

lemma for_each_keeps:
  assumes "for_each f xs w = Some (err, w')" and "I w"
    and "\<And>x u err u'. x \<in> set xs \<Longrightarrow> I u \<Longrightarrow> f x u = Some (err, u') \<Longrightarrow> I u'"
  shows "I w'"
  using assms
proof (induction xs arbitrary: w)
  case Nil
  then show ?case by simp
next
  case (Cons x xs)
  then obtain e u where f: "f x w = Some (e, u)" by (auto split: Option.bind_splits)
  with Cons.prems have "I u" by (metis list.set_intros(1))
  show ?case
  proof (cases e)
    case None
    with Cons.prems(1) f have "for_each f xs u = Some (err, w')" by simp
    then show ?thesis by (rule Cons.IH) (use \<open>I u\<close> Cons.prems(3) in auto)
  next
    case (Some e')
    with Cons.prems(1) f \<open>I u\<close> show ?thesis by simp
  qed
qed

lemma for_each_map: "for_each f (map g xs) w = for_each (\<lambda>x. f (g x)) xs w"
  by (induction xs arbitrary: w) (auto split: Option.bind_splits option.splits)

lemma for_each_no_op: "(\<And>x u. x \<in> set xs \<Longrightarrow> f x u = Some (None, u)) \<Longrightarrow> for_each f xs w = Some (None, w)"
  by (induction xs arbitrary: w) auto

lemma for_each_filter:
  assumes "\<And>x u. f x u = (if p x then g x u else Some (None, u))"
  shows "for_each f xs w = for_each g (filter p xs) w"
  by (induction xs arbitrary: w) (auto simp: assms split: Option.bind_splits option.splits)

lemma for_each_append:
  "for_each f (xs @ ys) w = do {
     (err, w) \<leftarrow> for_each f xs w;
     (case err of Some e \<Rightarrow> Some (Some e, w) | None \<Rightarrow> for_each f ys w) }"
  by (induction xs arbitrary: w) (auto split: Option.bind_splits option.splits)

text \<open>
  A loop stops at the first error: the elements after it are not touched, those before it
  have been handled.
\<close>

lemma for_each_error:
  assumes "for_each f xs w = Some (Some e, w')"
  shows "\<exists>ys x zs u. xs = ys @ x # zs \<and> for_each f ys w = Some (None, u) \<and> f x u = Some (Some e, w')"
  using assms
proof (induction xs arbitrary: w)
  case Nil
  then show ?case by simp
next
  case (Cons x xs)
  then obtain err u where f: "f x w = Some (err, u)"
    by (auto split: Option.bind_splits)
  show ?case
  proof (cases err)
    case None
    with Cons f obtain ys y zs v where "xs = ys @ y # zs" "for_each f ys u = Some (None, v)"
        "f y v = Some (Some e, w')" by force
    with f None show ?thesis by (intro exI [of _ "x # ys"]) auto
  next
    case (Some e')
    with Cons.prems f show ?thesis by (intro exI [of _ "[]"]) auto
  qed
qed

subsection \<open>Maps and the order of range\<close>

type_synonym ('k, 'v) gomap = "('k \<times> 'v) list"

abbreviation keys :: "('k, 'v) gomap \<Rightarrow> 'k list" where
  "keys m \<equiv> map fst m"

abbreviation wf_map :: "('k, 'v) gomap \<Rightarrow> bool" where
  "wf_map m \<equiv> distinct (keys m)"

definition valid_order :: "('k list \<Rightarrow> 'k list) \<Rightarrow> bool" where
  "valid_order ord \<longleftrightarrow> (\<forall>ks. mset (ord ks) = mset ks)"

definition range_pairs :: "('k list \<Rightarrow> 'k list) \<Rightarrow> ('k, 'v) gomap \<Rightarrow> ('k \<times> 'v) list" where
  "range_pairs ord m = List.map_filter (\<lambda>k. map_option (Pair k) (map_of m k)) (ord (keys m))"

lemma valid_order_set [simp]: "valid_order ord \<Longrightarrow> set (ord ks) = set ks"
  by (metis set_mset_mset valid_order_def)

lemma valid_order_distinct [simp]: "valid_order ord \<Longrightarrow> distinct (ord ks) = distinct ks"
  by (metis mset_eq_imp_distinct_iff valid_order_def)

lemma valid_order_id [simp]: "valid_order (\<lambda>ks. ks)" "valid_order rev"
  by (simp_all add: valid_order_def)

lemma range_pairs_alt:
  assumes "valid_order ord"
  shows "range_pairs ord m = map (\<lambda>k. (k, the (map_of m k))) (ord (keys m))"
proof -
  have *: "\<exists>v. map_of m k = Some v" if "k \<in> set (ord (keys m))" for k
    using that assms by (auto intro: weak_map_of_SomeI)
  have "List.map_filter (\<lambda>k. map_option (Pair k) (map_of m k)) ks = map (\<lambda>k. (k, the (map_of m k))) ks"
    if "set ks \<subseteq> set (ord (keys m))" for ks
    using that
  proof (induction ks)
    case Nil
    then show ?case by (simp add: List.map_filter_def)
  next
    case (Cons k ks)
    from Cons.prems obtain v where "map_of m k = Some v" using * by auto
    with Cons show ?case by (simp add: List.map_filter_def)
  qed
  then show ?thesis by (simp add: range_pairs_def)
qed

lemma keys_range_pairs: "valid_order ord \<Longrightarrow> keys (range_pairs ord m) = ord (keys m)"
  by (simp add: range_pairs_alt comp_def)

lemma set_range_pairs:
  assumes "valid_order ord" and "wf_map m"
  shows "set (range_pairs ord m) = set m"
proof -
  have "set (range_pairs ord m) = (\<lambda>k. (k, the (map_of m k))) ` fst ` set m"
    using assms by (simp add: range_pairs_alt)
  also have "\<dots> = set m" using assms(2) by (force simp: image_iff)
  finally show ?thesis .
qed

lemma wf_map_update [simp]: "wf_map m \<Longrightarrow> wf_map (AList.update k v m)"
  by (rule distinct_update)

lemma wf_map_delete [simp]: "wf_map m \<Longrightarrow> wf_map (AList.delete k m)"
  by (rule distinct_delete)

lemma wf_map_range [simp]: "valid_order ord \<Longrightarrow> wf_map m \<Longrightarrow> wf_map (range_pairs ord m)"
  by (simp add: keys_range_pairs)

lemma map_of_range_pairs [simp]:
  assumes "valid_order ord" and "wf_map m"
  shows "map_of (range_pairs ord m) = map_of m"
  using assms by (intro map_of_inject_set [THEN iffD2]) (auto simp: set_range_pairs)

lemma map_of_rev: "wf_map m \<Longrightarrow> map_of (rev m) = map_of m"
  by (rule map_of_inject_set [THEN iffD2]) (simp_all flip: rev_map)

end
