(* ===== verification/Ack.thy ===== *)
theory Ack
  imports Prelude
begin

text \<open>
  The vocabulary this controller shares with the ACK runtime, the AWS SDK and Kubernetes:
  error values, conditions, resource metadata, references, and the two things a call can
  change outside its own objects (the AWS backend and the metrics). The functions of those
  libraries are not part of the repository: they are the fields of the record \<open>ack_rt\<close>
  (and, for comparisons, \<open>compare_rt\<close>), arguments of every definition that calls them. What
  the code relies on is named by the predicates at the end (\<open>in_string_ok\<close>, \<open>delta_ok\<close>, ...),
  which only appear as hypotheses of the theorems that need them.
\<close>

subsection \<open>Errors\<close>

text \<open>
  An \<open>error\<close> interface value is one of the runtime's sentinel values, compared by identity, or a
  value with a dynamic type, the text \<open>Error()\<close> gives, and the error \<open>Unwrap()\<close> gives, if any.
\<close>

datatype error_kind = APIError string | TerminalError | OtherError

datatype error =
    NotFound | Terminal | SecretTypeNotSupported | SecretNotFound | MissingNameIdentifier
  | Error error_kind string "error option"

text \<open>\<open>errors.As\<close> of the standard library: the first error of the chain with the target's type.\<close>

fun errors_As :: "(error_kind \<Rightarrow> bool) \<Rightarrow> error \<Rightarrow> error option" where
  "errors_As is_target (Error k msg cause) =
     (if is_target k then Some (Error k msg cause)
      else (case cause of None \<Rightarrow> None | Some e \<Rightarrow> errors_As is_target e))"
| "errors_As is_target _ = None"

fun is_TerminalError :: "error_kind \<Rightarrow> bool" where
  "is_TerminalError TerminalError = True"
| "is_TerminalError _ = False"

fun is_APIError :: "error_kind \<Rightarrow> bool" where
  "is_APIError (APIError _) = True"
| "is_APIError _ = False"

text \<open>\<open>smithy.APIError.ErrorCode()\<close> of the API error in the chain, if there is one.\<close>

definition ErrorCode :: "error \<Rightarrow> string option" where
  "ErrorCode err = (case errors_As is_APIError err of
     Some (Error (APIError code) _ _) \<Rightarrow> Some code | _ \<Rightarrow> None)"

abbreviation Errorf :: "string \<Rightarrow> error" where
  "Errorf msg \<equiv> Error OtherError msg None"

subsection \<open>Conditions, metadata, references\<close>

datatype ConditionType =
    ConditionTypeTerminal | ConditionTypeRecoverable | ConditionTypeResourceSynced
  | ConditionTypeLateInitialized | ConditionTypeOther string

datatype ConditionStatus = ConditionTrue | ConditionFalse | ConditionUnknown

record condition =
  Type :: ConditionType
  Status :: "ConditionStatus option" \<comment> \<open>\<open>None\<close> is the zero value of a fresh condition\<close>
  Message :: "string ptr"
  Reason :: "string ptr"

record ResourceMetadata =
  ARN :: "string ptr"
  OwnerAccountID :: "string ptr"
  Region :: "string ptr"
  Partition :: "string ptr"

definition emptyMetadata :: ResourceMetadata where
  "emptyMetadata = \<lparr>ARN = None, OwnerAccountID = None, Region = None, Partition = None\<rparr>"

record AWSResourceReference =
  ref_Name :: "string ptr"
  ref_Namespace :: "string ptr"

record AWSResourceReferenceWrapper =
  From :: "AWSResourceReference ptr"

type_synonym time = int \<comment> \<open>an instant, in nanoseconds\<close>
type_synonym int64 = "64 word"
type_synonym int32 = "32 word"

subsection \<open>The world a call acts on\<close>

text \<open>
  \<open>aws\<close> is the state of the AWS service behind the SDK client, of a type the model leaves open.
  \<open>api_calls\<close> is what \<open>metrics.RecordAPICall\<close> was told, in order.
\<close>

record 'b world =
  aws :: 'b
  api_calls :: "(string \<times> string \<times> error option) list"

type_synonym ('b, 'a) go = "'b world \<Rightarrow> ('a \<times> 'b world) option"

definition sdk_call :: "('b \<Rightarrow> 'r \<times> 'b) \<Rightarrow> 'b world \<Rightarrow> 'r \<times> 'b world" where
  "sdk_call f w = (let (r, b) = f (aws w) in (r, w\<lparr>aws := b\<rparr>))"

definition RecordAPICall :: "string \<Rightarrow> string \<Rightarrow> error option \<Rightarrow> 'b world \<Rightarrow> 'b world" where
  "RecordAPICall opType opID err w = w\<lparr>api_calls := api_calls w @ [(opType, opID, err)]\<rparr>"

lemma aws_RecordAPICall [simp]: "aws (RecordAPICall t i e w) = aws w"
  by (simp add: RecordAPICall_def)

lemma api_calls_RecordAPICall [simp]: "api_calls (RecordAPICall t i e w) = api_calls w @ [(t, i, e)]"
  by (simp add: RecordAPICall_def)

lemma sdk_call_eq [simp]: "sdk_call f w = (fst (f (aws w)), w\<lparr>aws := snd (f (aws w))\<rparr>)"
  by (simp add: sdk_call_def split_beta)

subsection \<open>The runtime's functions\<close>

record ack_rt =
  EscapeError_text :: "string \<Rightarrow> string"         \<comment> \<open>\<open>Error()\<close> of a \<open>url.EscapeError\<close>\<close>
  sentinel_text :: "error \<Rightarrow> string"             \<comment> \<open>\<open>Error()\<close> of the runtime's sentinel errors\<close>
  AWSError :: "error \<Rightarrow> error option"           \<comment> \<open>\<open>ackerr.AWSError\<close>\<close>
  NewTerminalError :: "error \<Rightarrow> error"
  RequeueNeeded :: "error \<Rightarrow> error"             \<comment> \<open>\<open>ackrequeue.Needed\<close>\<close>
  RequeueNeededAfter :: "error option \<Rightarrow> nat \<Rightarrow> error" \<comment> \<open>\<open>ackrequeue.NeededAfter\<close>, seconds\<close>
  ResourceReferenceAndIDNotSupportedFor :: "string \<Rightarrow> string \<Rightarrow> error"
  ResourceReferenceTerminalFor :: "string \<Rightarrow> string \<Rightarrow> string \<Rightarrow> error"
  ResourceReferenceNotSyncedFor :: "string \<Rightarrow> string \<Rightarrow> string \<Rightarrow> error"
  ResourceReferenceMissingTargetFieldFor :: "string \<Rightarrow> string \<Rightarrow> string \<Rightarrow> string \<Rightarrow> error"
  ResolveCrossNamespaceReference :: "bool \<Rightarrow> condition slice \<Rightarrow> string \<Rightarrow> string ptr \<Rightarrow> string \<Rightarrow>
     (string \<times> error option) \<times> condition slice"
  SetSynced :: "condition slice \<Rightarrow> ConditionStatus \<Rightarrow> string ptr \<Rightarrow> string ptr \<Rightarrow> condition slice"
  SetLateInitialized :: "condition slice \<Rightarrow> ConditionStatus \<Rightarrow> string ptr \<Rightarrow> string ptr \<Rightarrow> condition slice"
  InStrings :: "string \<Rightarrow> string list \<Rightarrow> bool"
  InStringPs :: "string \<Rightarrow> string ptr list \<Rightarrow> bool"
  GetDefaultTags :: "(string, string) gomap"
  MergeTags :: "(string, string) gomap \<Rightarrow> (string, string) gomap \<Rightarrow> (string, string) gomap"
  ToPairs :: "(string, string) gomap \<Rightarrow> (string \<times> string) list"  \<comment> \<open>\<open>lo.ToPairs\<close>\<close>
  Difference :: "(string \<times> string) list \<Rightarrow> (string \<times> string) list \<Rightarrow>
     (string \<times> string) list \<times> (string \<times> string) list"           \<comment> \<open>\<open>lo.Difference\<close>\<close>
  Find :: "(string \<times> string) list \<Rightarrow> (string \<times> string \<Rightarrow> bool) \<Rightarrow> bool" \<comment> \<open>the flag of \<open>lo.Find\<close>\<close>
  map_order :: "string list \<Rightarrow> string list"       \<comment> \<open>the order Go's \<open>range\<close> takes the keys of a map\<close>

text \<open>\<open>err.Error()\<close>\<close>

fun error_text :: "ack_rt \<Rightarrow> error \<Rightarrow> string" where
  "error_text rt (Error k msg cause) = msg"
| "error_text rt e = sentinel_text rt e"

text \<open>The fields of a \<open>resourceManager\<close> the code reads; each resource adds its SDK client.\<close>

record resourceManager =
  rt :: ack_rt
  EnableCrossNamespace :: bool
  awsAccountID :: string
  awsRegion :: string
  awsPartition :: string

text \<open>
  \<open>ackcompare\<close>: a delta and the comparison helpers. The values given to \<open>delta.Add\<close> are only
  reported, never read back by this code, so the model keeps the path alone.
\<close>

record 'd compare_rt =
  NewDelta :: 'd
  delta_Add :: "'d \<Rightarrow> string \<Rightarrow> 'd"
  DifferentAt :: "'d \<Rightarrow> string \<Rightarrow> bool"
  DifferentExcept :: "'d \<Rightarrow> string list \<Rightarrow> bool"
  HasNilDifference :: "string ptr \<Rightarrow> string ptr \<Rightarrow> bool"
  HasNilDifferenceInt64 :: "int64 ptr \<Rightarrow> int64 ptr \<Rightarrow> bool"
  SliceStringPEqual :: "string ptr list \<Rightarrow> string ptr list \<Rightarrow> bool"
  MapStringStringPEqual :: "(string, string ptr) gomap \<Rightarrow> (string, string ptr) gomap \<Rightarrow> bool"
  MapStringStringEqual :: "(string, string) gomap \<Rightarrow> (string, string) gomap \<Rightarrow> bool"
  IAMPolicyDocumentEqual :: "string \<Rightarrow> string \<Rightarrow> bool \<times> error option"
  DeepEqualRef :: "AWSResourceReferenceWrapper ptr \<Rightarrow> AWSResourceReferenceWrapper ptr \<Rightarrow> bool"
  DeepEqualRefs :: "AWSResourceReferenceWrapper ptr slice \<Rightarrow> AWSResourceReferenceWrapper ptr slice \<Rightarrow> bool"

subsection \<open>What the code relies on\<close>

definition in_string_ok :: "ack_rt \<Rightarrow> bool" where
  "in_string_ok r \<longleftrightarrow> (\<forall>s xs. InStrings r s xs = (s \<in> set xs)) \<and>
     (\<forall>s ps. InStringPs r s ps = (Some s \<in> set ps))"

text \<open>
  \<open>lo.ToPairs\<close> lists the entries of a map; \<open>lo.Difference\<close> gives what only the left and only the
  right list holds; \<open>lo.Find\<close> says whether an element satisfies the predicate.
\<close>

definition lo_ok :: "ack_rt \<Rightarrow> bool" where
  "lo_ok r \<longleftrightarrow> (\<forall>m. wf_map m \<longrightarrow> mset (ToPairs r m) = mset m) \<and>
     (\<forall>xs ys. Difference r xs ys = (filter (\<lambda>x. x \<notin> set ys) xs, filter (\<lambda>y. y \<notin> set xs) ys)) \<and>
     (\<forall>xs p. Find r xs p = (\<exists>x\<in>set xs. p x))"

text \<open>A path is reported when it was added; adding a path reports no other top-level field.\<close>

definition delta_ok :: "'d compare_rt \<Rightarrow> string set \<Rightarrow> bool" where
  "delta_ok c paths \<longleftrightarrow> (\<forall>p\<in>paths. \<not> DifferentAt c (NewDelta c) p) \<and>
     (\<forall>d p q. p \<in> paths \<longrightarrow> q \<in> paths \<longrightarrow>
        DifferentAt c (delta_Add c d p) q = (DifferentAt c d q \<or> p = q))"

text \<open>
  \<open>HasNilDifference\<close> never reports two values or two nils, and reports nil against a non-empty
  value (nil against the zero value is left open).
\<close>

definition nil_difference_ok :: "'d compare_rt \<Rightarrow> bool" where
  "nil_difference_ok c \<longleftrightarrow> (\<forall>x y. \<not> HasNilDifference c (Some x) (Some y)) \<and>
     \<not> HasNilDifference c None None \<and>
     (\<forall>x. x \<noteq> [] \<longrightarrow> HasNilDifference c None (Some x) \<and> HasNilDifference c (Some x) None)"

text \<open>\<open>acktags.Merge\<close>: the first map's value wins.\<close>

definition merge_ok :: "ack_rt \<Rightarrow> bool" where
  "merge_ok r \<longleftrightarrow> (\<forall>a b. wf_map a \<longrightarrow> wf_map b \<longrightarrow>
     wf_map (MergeTags r a b) \<and> map_of (MergeTags r a b) = map_of b ++ map_of a)"

text \<open>\<open>ackerr.AWSError\<close> finds an API error exactly when \<open>errors.As\<close> does.\<close>

definition aws_error_ok :: "ack_rt \<Rightarrow> bool" where
  "aws_error_ok r \<longleftrightarrow> (\<forall>e. (AWSError r e = None) = (errors_As is_APIError e = None))"

end
