(* ===== verification/Conditions.thy ===== *)
theory Conditions
  imports Ack
begin

text \<open>
  The part of every custom resource the generated code of all seven packages shares: the object
  metadata, \<open>Status.ACKResourceMetadata\<close> and \<open>Status.Conditions\<close>, with \<open>setStatusDefaults\<close>,
  \<open>terminalAWSError\<close> and \<open>updateConditions\<close> of \<open>sdk.go\<close> and \<open>onError\<close>, \<open>onSuccess\<close> of
  \<open>manager.go\<close>. These functions are the same text in each package but for the list of terminal
  error codes, which is the parameter \<open>codes\<close> here; the line numbers of the manifest are those of
  the role package, and each resource's theory fixes its own codes.
\<close>

record ack_object =
  Namespace :: string
  DeletionTimestamp :: "time ptr"
  Finalizers :: "string list"
  Annotations :: "(string, string) gomap"
  Status_ACKResourceMetadata :: "ResourceMetadata ptr"
  Status_Conditions :: "condition slice"

definition newCondition :: "ConditionType \<Rightarrow> condition" where
  "newCondition ty = \<lparr>Type = ty, Status = None, Message = None, Reason = None\<rparr>"

definition or_default :: "'a \<Rightarrow> 'a ptr \<Rightarrow> 'a ptr" where
  "or_default d p = (if p = None then Some d else p)"

definition setStatusDefaults :: "'m resourceManager_scheme \<Rightarrow> 'a ack_object_scheme \<Rightarrow> 'a ack_object_scheme" where
  "setStatusDefaults rm ko =
     (let md = (case Status_ACKResourceMetadata ko of None \<Rightarrow> emptyMetadata | Some md \<Rightarrow> md);
          md = md\<lparr>Region := or_default (awsRegion rm) (Region md)\<rparr>;
          md = md\<lparr>Partition := or_default (awsPartition rm) (Partition md)\<rparr>;
          md = md\<lparr>OwnerAccountID := or_default (awsAccountID rm) (OwnerAccountID md)\<rparr>
      in ko\<lparr>Status_ACKResourceMetadata := Some md,
            Status_Conditions := or_default [] (Status_Conditions ko)\<rparr>)"

text \<open>
  The first assignments of every \<open>sdkFind\<close> and \<open>sdkCreate\<close>: the metadata struct is made when it
  is missing, and the ARN is taken over when the response has one.
\<close>

definition setARN :: "string ptr \<Rightarrow> 'a ack_object_scheme \<Rightarrow> 'a ack_object_scheme" where
  "setARN arn ko =
     (let md = (case Status_ACKResourceMetadata ko of None \<Rightarrow> emptyMetadata | Some md \<Rightarrow> md)
      in ko\<lparr>Status_ACKResourceMetadata :=
           Some (case arn of None \<Rightarrow> md | Some a \<Rightarrow> md\<lparr>ARN := Some a\<rparr>)\<rparr>)"

definition terminalAWSError :: "string list \<Rightarrow> error option \<Rightarrow> bool" where
  "terminalAWSError codes err = (case err of
     None \<Rightarrow> False
   | Some e \<Rightarrow> (case ErrorCode e of None \<Rightarrow> False | Some code \<Rightarrow> code \<in> set codes))"

text \<open>\<open>err == SecretTypeNotSupported || err == SecretNotFound || errors.As(err, &termError)\<close>\<close>

definition runtimeTerminal :: "error option \<Rightarrow> bool" where
  "runtimeTerminal err = (case err of
     None \<Rightarrow> False
   | Some e \<Rightarrow> e = SecretTypeNotSupported \<or> e = SecretNotFound \<or> errors_As is_TerminalError e \<noteq> None)"

definition has_condition :: "ConditionType \<Rightarrow> condition list \<Rightarrow> bool" where
  "has_condition ty conds \<longleftrightarrow> (\<exists>c\<in>set conds. Type c = ty)"

text \<open>
  The search loop keeps a pointer to the last condition of a type; assigning through it changes
  that element. \<open>ensure\<close> is the \<open>append\<close> of a fresh condition when the pointer is nil.
\<close>

primrec upd_last :: "ConditionType \<Rightarrow> (condition \<Rightarrow> condition) \<Rightarrow> condition list \<Rightarrow> condition list" where
  "upd_last ty f [] = []"
| "upd_last ty f (c # conds) =
     (if has_condition ty conds then c # upd_last ty f conds
      else if Type c = ty then f c # conds else c # conds)"

definition ensure :: "ConditionType \<Rightarrow> condition list \<Rightarrow> condition list" where
  "ensure ty conds = (if has_condition ty conds then conds else conds @ [newCondition ty])"

definition updateConditions ::
  "'m resourceManager_scheme \<Rightarrow> string list \<Rightarrow> 'a ack_object_scheme \<Rightarrow> bool \<Rightarrow> error option \<Rightarrow>
     ('a ack_object_scheme ptr \<times> bool) option" where
  "updateConditions rm codes r onSuccess err =
     (let ko = setStatusDefaults rm r;
          conds = elems (Status_Conditions ko)
      in if terminalAWSError codes err \<or> runtimeTerminal err then do {
           e \<leftarrow> err;
           errorMessage \<leftarrow> (if runtimeTerminal err then Some (error_text (rt rm) e)
                           else do { awsErr \<leftarrow> AWSError (rt rm) e; Some (error_text (rt rm) awsErr) });
           let conds = upd_last ConditionTypeTerminal
             (\<lambda>c. c\<lparr>Status := Some ConditionTrue, Message := Some errorMessage\<rparr>)
             (ensure ConditionTypeTerminal conds);
           Some (Some (ko\<lparr>Status_Conditions := Some conds\<rparr>), True)
         }
         else
           (let conds = upd_last ConditionTypeTerminal
                  (\<lambda>c. c\<lparr>Status := Some ConditionFalse, Message := None\<rparr>) conds;
                conds = (case err of
                    Some e \<Rightarrow>
                      (let errorMessage = (case AWSError (rt rm) e of
                             Some awsErr \<Rightarrow> error_text (rt rm) awsErr | None \<Rightarrow> error_text (rt rm) e)
                       in upd_last ConditionTypeRecoverable
                            (\<lambda>c. c\<lparr>Status := Some ConditionTrue, Message := Some errorMessage\<rparr>)
                            (ensure ConditionTypeRecoverable conds))
                  | None \<Rightarrow> upd_last ConditionTypeRecoverable
                      (\<lambda>c. c\<lparr>Status := Some ConditionFalse, Message := None\<rparr>) conds)
            in if has_condition ConditionTypeTerminal conds \<or> has_condition ConditionTypeRecoverable conds
                  \<or> has_condition ConditionTypeResourceSynced conds
               then Some (Some (ko\<lparr>Status_Conditions := Some conds\<rparr>), True)
               else Some (None, False)))"

definition onError ::
  "'m resourceManager_scheme \<Rightarrow> string list \<Rightarrow> 'a ack_object_scheme ptr \<Rightarrow> error option \<Rightarrow>
     ('a ack_object_scheme ptr \<times> error option) option" where
  "onError rm codes r err = (case r of
     None \<Rightarrow> Some (None, err)
   | Some r \<Rightarrow> do {
       (r1, updated) \<leftarrow> updateConditions rm codes r False err;
       if \<not> updated then Some (Some r, err)
       else do {
         ko \<leftarrow> r1;
         if (\<exists>c \<in> set (elems (Status_Conditions ko)).
               Type c = ConditionTypeTerminal \<and> Status c = Some ConditionTrue)
         then Some (Some ko, Some Terminal)
         else Some (Some ko, err)
       }
     })"

definition onSuccess ::
  "'m resourceManager_scheme \<Rightarrow> string list \<Rightarrow> 'a ack_object_scheme ptr \<Rightarrow>
     ('a ack_object_scheme ptr \<times> error option) option" where
  "onSuccess rm codes r = (case r of
     None \<Rightarrow> Some (None, None)
   | Some r \<Rightarrow> do {
       (r1, updated) \<leftarrow> updateConditions rm codes r True None;
       if \<not> updated then Some (Some r, None) else Some (r1, None)
     })"

subsection \<open>Lists of conditions\<close>

definition status_of :: "ConditionType \<Rightarrow> condition list \<Rightarrow> (ConditionStatus option \<times> string ptr) option" where
  "status_of ty conds = map_option (\<lambda>c. (Status c, Message c)) (find (\<lambda>c. Type c = ty) conds)"

text \<open>No two conditions of one type: what every operation keeps.\<close>

definition unique_conditions :: "condition list \<Rightarrow> bool" where
  "unique_conditions conds \<longleftrightarrow> distinct (map Type conds)"

lemma has_condition_simps [simp]:
  "\<not> has_condition ty []"
  "has_condition ty (c # conds) \<longleftrightarrow> Type c = ty \<or> has_condition ty conds"
  "has_condition ty (xs @ ys) \<longleftrightarrow> has_condition ty xs \<or> has_condition ty ys"
  by (auto simp: has_condition_def)

lemma Type_newCondition [simp]: "Type (newCondition ty) = ty"
  by (simp add: newCondition_def)

lemma types_upd_last [simp]: "(\<And>c. Type (f c) = Type c) \<Longrightarrow> map Type (upd_last ty f conds) = map Type conds"
  by (induction conds) auto

lemma has_condition_map: "has_condition ty conds \<longleftrightarrow> ty \<in> set (map Type conds)"
  by (auto simp: has_condition_def)

lemma has_upd_last [simp]:
  assumes "\<And>c. Type (f c) = Type c"
  shows "has_condition ty' (upd_last ty f conds) = has_condition ty' conds"
  using types_upd_last [of f ty conds] assms by (simp add: has_condition_map)

lemma has_ensure [simp]: "has_condition ty' (ensure ty conds) \<longleftrightarrow> ty' = ty \<or> has_condition ty' conds"
  by (auto simp: ensure_def)

lemma unique_ensure [simp]: "unique_conditions (ensure ty conds) = unique_conditions conds"
  by (auto simp: ensure_def unique_conditions_def has_condition_def)

lemma unique_upd_last [simp]:
  "(\<And>c. Type (f c) = Type c) \<Longrightarrow> unique_conditions (upd_last ty f conds) = unique_conditions conds"
  by (simp add: unique_conditions_def)

lemma status_of_None_iff: "status_of ty conds = None \<longleftrightarrow> \<not> has_condition ty conds"
  by (auto simp: status_of_def find_None_iff has_condition_def)

lemma status_of_absent [simp]: "\<not> has_condition ty conds \<Longrightarrow> status_of ty conds = None"
  by (simp add: status_of_None_iff)

lemma status_of_other:
  assumes "\<And>c. Type (f c) = Type c" and "ty' \<noteq> ty"
  shows "status_of ty' (upd_last ty f conds) = status_of ty' conds"
  using assms(2) by (induction conds) (auto simp: status_of_def assms(1))

lemma status_of_ensure_other: "ty' \<noteq> ty \<Longrightarrow> status_of ty' (ensure ty conds) = status_of ty' conds"
  by (induction conds) (auto simp: status_of_def ensure_def)

lemma status_of_same:
  assumes "\<And>c. Type (f c) = Type c" and "\<And>c. (Status (f c), Message (f c)) = sm"
    and "unique_conditions conds" and "has_condition ty conds"
  shows "status_of ty (upd_last ty f conds) = Some sm"
  using assms(3,4)
proof (induction conds)
  case Nil
  then show ?case by simp
next
  case (Cons c conds)
  have "Type c = ty \<Longrightarrow> \<not> has_condition ty conds"
    using Cons.prems(1) by (simp add: unique_conditions_def has_condition_map)
  moreover have "unique_conditions conds" using Cons.prems(1) by (simp add: unique_conditions_def)
  ultimately show ?case
    using Cons.IH Cons.prems(2) by (auto simp: status_of_def assms(1,2))
qed

lemma terminal_true_iff:
  assumes "unique_conditions conds"
  shows "(\<exists>c\<in>set conds. Type c = ty \<and> Status c = s) \<longleftrightarrow> (\<exists>m. status_of ty conds = Some (s, m))"
  using assms
proof (induction conds)
  case Nil
  then show ?case by (simp add: status_of_def)
next
  case (Cons c conds)
  show ?case
  proof (cases "Type c = ty")
    case True
    with Cons.prems have "\<forall>d\<in>set conds. Type d \<noteq> ty" by (metis distinct.simps(2) image_eqI list.set_map list.simps(9) unique_conditions_def)
    with True show ?thesis by (auto simp: status_of_def)
  next
    case False
    with Cons show ?thesis by (simp add: status_of_def unique_conditions_def)
  qed
qed

subsection \<open>What an update of the conditions does\<close>

definition conditions_of :: "'a ack_object_scheme \<Rightarrow> condition list" where
  "conditions_of ko = elems (Status_Conditions ko)"

lemma conditions_setStatusDefaults [simp]: "conditions_of (setStatusDefaults rm ko) = conditions_of ko"
  by (simp add: conditions_of_def setStatusDefaults_def or_default_def Let_def)

text \<open>Only the status of the object changes, and after the call nothing in it is missing.\<close>

lemma setStatusDefaults_frame [simp]:
  "ack_object.more (setStatusDefaults rm ko) = ack_object.more ko"
  "Namespace (setStatusDefaults rm ko) = Namespace ko"
  "Finalizers (setStatusDefaults rm ko) = Finalizers ko"
  "Annotations (setStatusDefaults rm ko) = Annotations ko"
  "DeletionTimestamp (setStatusDefaults rm ko) = DeletionTimestamp ko"
  by (simp_all add: setStatusDefaults_def Let_def)

lemma setStatusDefaults_idem: "setStatusDefaults rm (setStatusDefaults rm ko) = setStatusDefaults rm ko"
  by (simp add: setStatusDefaults_def or_default_def Let_def)

lemma setStatusDefaults_metadata:
  "\<exists>md. Status_ACKResourceMetadata (setStatusDefaults rm ko) = Some md \<and>
     ARN md = Option.bind (Status_ACKResourceMetadata ko) ARN \<and>
     Region md = Some (case Option.bind (Status_ACKResourceMetadata ko) Region of None \<Rightarrow> awsRegion rm | Some x \<Rightarrow> x) \<and>
     Partition md = Some (case Option.bind (Status_ACKResourceMetadata ko) Partition of None \<Rightarrow> awsPartition rm | Some x \<Rightarrow> x) \<and>
     OwnerAccountID md = Some (case Option.bind (Status_ACKResourceMetadata ko) OwnerAccountID of
        None \<Rightarrow> awsAccountID rm | Some x \<Rightarrow> x)"
  by (auto simp: setStatusDefaults_def or_default_def Let_def emptyMetadata_def split: option.splits)

text \<open>The metadata with the manager's region, partition and account where it has none.\<close>

definition defaulted :: "'m resourceManager_scheme \<Rightarrow> ResourceMetadata ptr \<Rightarrow> ResourceMetadata" where
  "defaulted rm p = \<lparr>ARN = Option.bind p ARN, OwnerAccountID = or_default (awsAccountID rm) (Option.bind p OwnerAccountID),
     Region = or_default (awsRegion rm) (Option.bind p Region), Partition = or_default (awsPartition rm) (Option.bind p Partition)\<rparr>"

lemma setStatusDefaults_whole:
  "setStatusDefaults rm ko = ko\<lparr>Status_ACKResourceMetadata := Some (defaulted rm (Status_ACKResourceMetadata ko)),
     Status_Conditions := or_default [] (Status_Conditions ko)\<rparr>"
  by (cases "Status_ACKResourceMetadata ko")
    (simp_all add: setStatusDefaults_def defaulted_def Let_def emptyMetadata_def)

definition terminal_error :: "string list \<Rightarrow> error option \<Rightarrow> bool" where
  "terminal_error codes err \<longleftrightarrow> terminalAWSError codes err \<or> runtimeTerminal err"

lemma terminal_error_None [simp]: "\<not> terminal_error codes None"
  by (simp add: terminal_error_def terminalAWSError_def runtimeTerminal_def)

definition error_message :: "ack_rt \<Rightarrow> error \<Rightarrow> string" where
  "error_message r e = (case AWSError r e of Some awsErr \<Rightarrow> error_text r awsErr | None \<Rightarrow> error_text r e)"

definition terminal_message :: "ack_rt \<Rightarrow> error \<Rightarrow> string" where
  "terminal_message r e = (if runtimeTerminal (Some e) then error_text r e else error_message r e)"

lemma ErrorCode_api: "ErrorCode e = Some c \<Longrightarrow> errors_As is_APIError e \<noteq> None"
  by (auto simp: ErrorCode_def split: option.splits)

text \<open>A terminal error: the Terminal condition is True with the error's text, nothing else moves.\<close>

lemma updateConditions_terminal:
  assumes "aws_error_ok (rt rm)" and "terminal_error codes (Some e)"
  shows "updateConditions rm codes r s (Some e) = Some (Some ((setStatusDefaults rm r)\<lparr>Status_Conditions :=
     Some (upd_last ConditionTypeTerminal
       (\<lambda>c. c\<lparr>Status := Some ConditionTrue, Message := Some (terminal_message (rt rm) e)\<rparr>)
       (ensure ConditionTypeTerminal (conditions_of r)))\<rparr>), True)"
proof -
  have "AWSError (rt rm) e \<noteq> None" if "\<not> runtimeTerminal (Some e)"
  proof -
    from that assms(2) obtain c where "ErrorCode e = Some c"
      by (auto simp: terminal_error_def terminalAWSError_def split: option.splits)
    then show ?thesis using assms(1) ErrorCode_api by (auto simp: aws_error_ok_def)
  qed
  moreover have "elems (Status_Conditions (setStatusDefaults rm r)) = conditions_of r"
    using conditions_setStatusDefaults [of rm r] by (simp add: conditions_of_def)
  ultimately show ?thesis
    using assms(2)
    by (auto simp: updateConditions_def terminal_error_def Let_def terminal_message_def error_message_def)
qed

text \<open>Any other outcome: Terminal is cleared, Recoverable follows the error.\<close>

definition nonterminal_conditions :: "ack_rt \<Rightarrow> error option \<Rightarrow> condition list \<Rightarrow> condition list" where
  "nonterminal_conditions r err conds =
     (let conds = upd_last ConditionTypeTerminal (\<lambda>c. c\<lparr>Status := Some ConditionFalse, Message := None\<rparr>) conds
      in case err of
        Some e \<Rightarrow> upd_last ConditionTypeRecoverable
          (\<lambda>c. c\<lparr>Status := Some ConditionTrue, Message := Some (error_message r e)\<rparr>)
          (ensure ConditionTypeRecoverable conds)
      | None \<Rightarrow> upd_last ConditionTypeRecoverable (\<lambda>c. c\<lparr>Status := Some ConditionFalse, Message := None\<rparr>) conds)"

lemma updateConditions_other:
  assumes "\<not> terminal_error codes err"
  shows "updateConditions rm codes r s err =
    (let conds = nonterminal_conditions (rt rm) err (conditions_of r)
     in if has_condition ConditionTypeTerminal conds \<or> has_condition ConditionTypeRecoverable conds
          \<or> has_condition ConditionTypeResourceSynced conds
        then Some (Some ((setStatusDefaults rm r)\<lparr>Status_Conditions := Some conds\<rparr>), True) else Some (None, False))"
proof -
  have "elems (Status_Conditions (setStatusDefaults rm r)) = conditions_of r"
    using conditions_setStatusDefaults [of rm r] by (simp add: conditions_of_def)
  then show ?thesis
    using assms(1)
    unfolding nonterminal_conditions_def terminal_error_def updateConditions_def error_message_def
    by (cases err) (simp_all add: Let_def)
qed

lemma has_nonterminal [simp]:
  "has_condition ty (nonterminal_conditions r err conds) \<longleftrightarrow>
     has_condition ty conds \<or> (err \<noteq> None \<and> ty = ConditionTypeRecoverable)"
  by (cases err) (auto simp: nonterminal_conditions_def)

lemma unique_nonterminal [simp]:
  "unique_conditions (nonterminal_conditions r err conds) = unique_conditions conds"
  by (cases err) (simp_all add: nonterminal_conditions_def)

lemma status_nonterminal:
  assumes "unique_conditions conds"
  shows "status_of ty (nonterminal_conditions r err conds) =
    (if ty = ConditionTypeTerminal \<and> has_condition ty conds then Some (Some ConditionFalse, None)
     else if ty = ConditionTypeRecoverable then
       (case err of Some e \<Rightarrow> Some (Some ConditionTrue, Some (error_message r e))
        | None \<Rightarrow> if has_condition ty conds then Some (Some ConditionFalse, None) else None)
     else status_of ty conds)"
proof -
  consider "ty = ConditionTypeTerminal" | "ty = ConditionTypeRecoverable"
    | "ty \<noteq> ConditionTypeTerminal" "ty \<noteq> ConditionTypeRecoverable" by blast
  then show ?thesis
  proof cases
    case 1
    then show ?thesis using assms
      by (cases err) (auto simp: nonterminal_conditions_def status_of_other status_of_ensure_other
          status_of_same [of _ "(Some ConditionFalse, None)"])
  next
    case 2
    show ?thesis
    proof (cases err)
      case None
      with 2 assms show ?thesis
        by (auto simp: nonterminal_conditions_def status_of_same [of _ "(Some ConditionFalse, None)"] status_of_None_iff)
    next
      case (Some e)
      with 2 assms show ?thesis
        by (simp add: nonterminal_conditions_def status_of_same [of _ "(Some ConditionTrue, Some (error_message r e))"])
    qed
  next
    case 3
    then show ?thesis
      by (cases err) (simp_all add: nonterminal_conditions_def status_of_other status_of_ensure_other)
  qed
qed

lemma status_terminal:
  assumes "unique_conditions conds"
  shows "status_of ty (upd_last ConditionTypeTerminal
      (\<lambda>c. c\<lparr>Status := Some ConditionTrue, Message := Some m\<rparr>) (ensure ConditionTypeTerminal conds)) =
    (if ty = ConditionTypeTerminal then Some (Some ConditionTrue, Some m) else status_of ty conds)"
  using assms
  by (simp add: status_of_same [of _ "(Some ConditionTrue, Some m)"] status_of_other status_of_ensure_other)

text \<open>The conditions of the other types, in their order.\<close>

definition other_conditions :: "ConditionType \<Rightarrow> condition list \<Rightarrow> condition list" where
  "other_conditions ty conds = filter (\<lambda>c. Type c \<noteq> ty) conds"

lemma other_conditions_kept:
  assumes "\<And>c. Type (f c) = Type c"
  shows "other_conditions ty (upd_last ty f (ensure ty conds)) = other_conditions ty conds"
proof -
  have "other_conditions ty (upd_last ty f cs) = other_conditions ty cs" for cs
    by (induction cs) (simp_all add: other_conditions_def assms)
  then show ?thesis by (simp add: ensure_def other_conditions_def)
qed

subsection \<open>What the entry points report\<close>

lemma terminal_error_whole:
  assumes "aws_error_ok (rt rm)" and "unique_conditions (conditions_of r)" and "terminal_error codes (Some e)"
  shows "\<exists>conds. onError rm codes (Some r) (Some e) = Some (Some (r\<lparr>
      Status_ACKResourceMetadata := Some (defaulted rm (Status_ACKResourceMetadata r)),
      Status_Conditions := Some conds\<rparr>), Some Terminal) \<and>
    other_conditions ConditionTypeTerminal conds = other_conditions ConditionTypeTerminal (conditions_of r) \<and>
    unique_conditions conds \<and>
    (\<forall>ty. status_of ty conds =
       (if ty = ConditionTypeTerminal then Some (Some ConditionTrue, Some (terminal_message (rt rm) e))
        else status_of ty (conditions_of r)))"
proof -
  define conds where "conds = upd_last ConditionTypeTerminal
       (\<lambda>c. c\<lparr>Status := Some ConditionTrue, Message := Some (terminal_message (rt rm) e)\<rparr>)
       (ensure ConditionTypeTerminal (conditions_of r))"
  have st: "status_of ty conds = (if ty = ConditionTypeTerminal
      then Some (Some ConditionTrue, Some (terminal_message (rt rm) e)) else status_of ty (conditions_of r))" for ty
    using assms(2) by (simp add: conds_def status_terminal)
  have u: "unique_conditions conds" using assms(2) by (simp add: conds_def)
  have kept: "other_conditions ConditionTypeTerminal conds = other_conditions ConditionTypeTerminal (conditions_of r)"
    unfolding conds_def by (rule other_conditions_kept) simp
  have "\<exists>c\<in>set conds. Type c = ConditionTypeTerminal \<and> Status c = Some ConditionTrue"
    by (subst terminal_true_iff [OF u]) (simp add: st)
  then have "onError rm codes (Some r) (Some e) =
      Some (Some ((setStatusDefaults rm r)\<lparr>Status_Conditions := Some conds\<rparr>), Some Terminal)"
    using updateConditions_terminal [OF assms(1,3), of r False, folded conds_def]
    by (auto simp: onError_def)
  with st u kept show ?thesis by (auto simp: setStatusDefaults_whole)
qed

lemma terminal_error_D:
  assumes "aws_error_ok (rt rm)" and "unique_conditions (conditions_of r)" and "terminal_error codes (Some e)"
  shows "\<exists>ko. onError rm codes (Some r) (Some e) = Some (Some ko, Some Terminal) \<and>
    ack_object.more ko = ack_object.more r \<and> unique_conditions (conditions_of ko) \<and>
    (\<forall>ty. status_of ty (conditions_of ko) =
       (if ty = ConditionTypeTerminal then Some (Some ConditionTrue, Some (terminal_message (rt rm) e))
        else status_of ty (conditions_of r)))"
  using terminal_error_whole [OF assms] by (auto simp: conditions_of_def)

lemma nonterminal_error_D:
  assumes "unique_conditions (conditions_of r)" and "\<not> terminal_error codes (Some e)"
  shows "\<exists>ko. onError rm codes (Some r) (Some e) = Some (Some ko, Some e) \<and>
    ack_object.more ko = ack_object.more r \<and>
    conditions_of ko = nonterminal_conditions (rt rm) (Some e) (conditions_of r)"
proof -
  let ?conds = "nonterminal_conditions (rt rm) (Some e) (conditions_of r)"
  have u: "unique_conditions ?conds" using assms(1) by simp
  have "\<not> (\<exists>c\<in>set ?conds. Type c = ConditionTypeTerminal \<and> Status c = Some ConditionTrue)"
    by (subst terminal_true_iff [OF u]) (auto simp: status_nonterminal [OF assms(1)])
  then have "onError rm codes (Some r) (Some e) =
      Some (Some ((setStatusDefaults rm r)\<lparr>Status_Conditions := Some ?conds\<rparr>), Some e)"
    by (auto simp: onError_def updateConditions_other [OF assms(2)])
  then show ?thesis by (auto simp: conditions_of_def)
qed

text \<open>Given a resource, both return one, and an error stays an error.\<close>

lemma onSuccess_some: "onSuccess rm codes (Some r) = Some (out, err) \<Longrightarrow> out \<noteq> None"
  by (auto simp: onSuccess_def updateConditions_def Let_def split: if_splits option.splits)

lemma onError_some: "onError rm codes (Some r) (Some e) = Some (out, err) \<Longrightarrow> out \<noteq> None \<and> err \<noteq> None"
  by (auto simp: onError_def split: if_splits option.splits Option.bind_splits)

lemma success_D:
  assumes "unique_conditions (conditions_of r)"
  shows "\<exists>ko. onSuccess rm codes (Some r) = Some (Some ko, None) \<and>
    ack_object.more ko = ack_object.more r \<and> unique_conditions (conditions_of ko) \<and>
    (\<forall>ty. status_of ty (conditions_of ko) =
       (if ty \<in> {ConditionTypeTerminal, ConditionTypeRecoverable} \<and> has_condition ty (conditions_of r)
        then Some (Some ConditionFalse, None) else status_of ty (conditions_of r)))"
proof -
  let ?conds = "nonterminal_conditions (rt rm) None (conditions_of r)"
  have eq: "onSuccess rm codes (Some r) = Some (Some
     (if has_condition ConditionTypeTerminal (conditions_of r) \<or> has_condition ConditionTypeRecoverable (conditions_of r)
          \<or> has_condition ConditionTypeResourceSynced (conditions_of r)
      then (setStatusDefaults rm r)\<lparr>Status_Conditions := Some ?conds\<rparr> else r), None)"
    by (simp add: onSuccess_def updateConditions_other)
  have "status_of ty ?conds = (if ty \<in> {ConditionTypeTerminal, ConditionTypeRecoverable} \<and> has_condition ty (conditions_of r)
        then Some (Some ConditionFalse, None) else status_of ty (conditions_of r))" for ty
    using assms by (auto simp: status_nonterminal)
  with eq assms show ?thesis by (auto simp: conditions_of_def)
qed

end
