(* ===== verification/Util.thy ===== *)
theory Util
  imports Ack
begin

text \<open>
  \<open>pkg/util\<close>: comparison of tag lists and the copy of a map of string pointers. The comparison
  decides whether the controller calls the IAM tagging APIs at all, so its result is compared
  with equality of the tag sets.
\<close>

record Tag =
  Key :: "string ptr"
  Value :: "string ptr"

abbreviation mkTag :: "string \<Rightarrow> string \<Rightarrow> Tag" where
  "mkTag k v \<equiv> \<lparr>Key = Some k, Value = Some v\<rparr>"

subsection \<open>tags.go\<close>

definition equalStrings :: "string ptr \<Rightarrow> string ptr \<Rightarrow> bool option" where
  "equalStrings a b = (case a of
     None \<Rightarrow> (case b of None \<Rightarrow> Some True | Some t \<Rightarrow> Some (t = []))
   | Some s \<Rightarrow> if s = [] \<and> b = None then Some True else do { t \<leftarrow> b; Some (s = t) })"

text \<open>The inner loop: the first element of \<open>b\<close> with the key of \<open>aElement\<close>.\<close>

primrec matching :: "Tag \<Rightarrow> Tag list \<Rightarrow> Tag option option" where
  "matching aElement [] = Some None"
| "matching aElement (bElement # b) = do {
     same \<leftarrow> equalStrings (Key aElement) (Key bElement);
     if same then Some (Some bElement) else matching aElement b }"

text \<open>\<open>mainLoop\<close>: the visited keys, and what it appends to \<open>addedOrUpdated\<close> and to \<open>removed\<close>.\<close>

primrec mainLoop :: "Tag list \<Rightarrow> Tag list \<Rightarrow> (string list \<times> Tag list \<times> string ptr list) option" where
  "mainLoop b [] = Some ([], [], [])"
| "mainLoop b (aElement # a) = do {
     key \<leftarrow> Key aElement;
     found \<leftarrow> matching aElement b;
     (updated, gone) \<leftarrow> (case found of
        Some bElement \<Rightarrow> do {
          same \<leftarrow> equalStrings (Value aElement) (Value bElement);
          Some (if same then [] else [bElement], []) }
      | None \<Rightarrow> Some ([], [Key aElement]));
     (visited, addedOrUpdated, removed) \<leftarrow> mainLoop b a;
     Some (key # visited, updated @ addedOrUpdated, gone @ removed) }"

definition computeTagsDelta :: "ack_rt \<Rightarrow> Tag list \<Rightarrow> Tag list \<Rightarrow> (Tag list \<times> string ptr list) option" where
  "computeTagsDelta r a b = do {
     (visitedIndexes, addedOrUpdated, removed) \<leftarrow> mainLoop b a;
     added \<leftarrow> select (\<lambda>bElement. do { key \<leftarrow> Key bElement; Some (\<not> InStrings r key visitedIndexes) }) b;
     Some (addedOrUpdated @ added, removed) }"

definition EqualTags :: "ack_rt \<Rightarrow> Tag list \<Rightarrow> Tag list \<Rightarrow> bool option" where
  "EqualTags r a b = do {
     (addedOrUpdated, removed) \<leftarrow> computeTagsDelta r a b;
     Some (length addedOrUpdated = 0 \<and> length removed = 0) }"

subsection \<open>map.go\<close>

definition MapStringFromMapStringPointers :: "(string, string ptr) gomap \<Rightarrow> (string, string) gomap option" where
  "MapStringFromMapStringPointers subject = traverse (\<lambda>(k, v). do { s \<leftarrow> v; Some (k, s) }) subject"

subsection \<open>Tag lists with no nil pointer\<close>

definition plain_tag :: "Tag \<Rightarrow> bool" where
  "plain_tag t \<longleftrightarrow> Key t \<noteq> None \<and> Value t \<noteq> None"

text \<open>What IAM stores: every key and value present, no key twice.\<close>

definition tag_set :: "Tag list \<Rightarrow> bool" where
  "tag_set ts \<longleftrightarrow> (\<forall>t\<in>set ts. plain_tag t) \<and> distinct (map Key ts)"

definition tag_map :: "Tag list \<Rightarrow> (string \<rightharpoonup> string)" where
  "tag_map ts = map_of (map (\<lambda>t. (the (Key t), the (Value t))) ts)"

lemma tag_set_Nil [simp]: "tag_set []"
  by (simp add: tag_set_def)

lemma plain_tag_mkTag [simp]: "plain_tag (mkTag k v)"
  by (simp add: plain_tag_def)

lemma tag_set_plain: "tag_set ts \<Longrightarrow> t \<in> set ts \<Longrightarrow> plain_tag t"
  by (simp add: tag_set_def)

lemma equalStrings_Some [simp]: "equalStrings (Some s) (Some t) = Some (s = t)"
  by (simp add: equalStrings_def)

lemma equalStrings_plain: "a \<noteq> None \<Longrightarrow> b \<noteq> None \<Longrightarrow> equalStrings a b = Some (a = b)"
  by auto

lemma equalStrings_refl: "equalStrings a a = Some True"
  by (cases a) (simp_all add: equalStrings_def)

lemma matching_plain:
  assumes "plain_tag t" and "\<And>u. u \<in> set b \<Longrightarrow> plain_tag u"
  shows "matching t b = Some (find (\<lambda>u. Key t = Key u) b)"
  using assms(2)
proof (induction b)
  case Nil
  then show ?case by simp
next
  case (Cons u b)
  have "plain_tag u" using Cons.prems by simp
  with assms(1) obtain k k' where "Key u = Some k" "Key t = Some k'"
    unfolding plain_tag_def by blast
  with Cons show ?case by auto
qed

lemma mainLoop_plain:
  assumes "\<And>t. t \<in> set a \<Longrightarrow> plain_tag t" and "\<And>u. u \<in> set b \<Longrightarrow> plain_tag u"
  shows "\<exists>upd gone. mainLoop b a = Some (map (\<lambda>t. the (Key t)) a, upd, gone) \<and>
    (upd = [] \<and> gone = [] \<longleftrightarrow> (\<forall>t\<in>set a. \<exists>u. find (\<lambda>u. Key t = Key u) b = Some u \<and> Value t = Value u))"
  using assms(1)
proof (induction a)
  case Nil
  then show ?case by simp
next
  case (Cons t a)
  then obtain upd gone where IH: "mainLoop b a = Some (map (\<lambda>t. the (Key t)) a, upd, gone)"
    "(upd = [] \<and> gone = []) = (\<forall>t\<in>set a. \<exists>u. find (\<lambda>u. Key t = Key u) b = Some u \<and> Value t = Value u)"
    by auto
  have m: "matching t b = Some (find (\<lambda>u. Key t = Key u) b)"
    using Cons.prems assms(2) by (simp add: matching_plain)
  have "plain_tag t" using Cons.prems by simp
  then obtain k v where t: "Key t = Some k" "Value t = Some v"
    by (auto simp: plain_tag_def)
  show ?case
  proof (cases "find (\<lambda>u. Key t = Key u) b")
    case None
    with IH m t show ?thesis by auto
  next
    case (Some u)
    then have "u \<in> set b" by (auto simp: find_Some_iff)
    with assms(2) obtain v' where "Value u = Some v'" by (auto simp: plain_tag_def)
    with IH m t Some show ?thesis by auto
  qed
qed

lemma find_key_iff:
  fixes t :: Tag
  assumes "distinct (map Key b)"
  shows "(\<exists>u. find (\<lambda>u. Key t = Key u) b = Some u \<and> Value t = Value u) \<longleftrightarrow> t \<in> set b"
  using assms
proof (induction b)
  case Nil
  then show ?case by simp
next
  case (Cons u b)
  have "t \<in> set b \<Longrightarrow> Key t \<noteq> Key u" using Cons.prems by (metis distinct.simps(2) image_eqI list.set_map list.simps(9))
  moreover have "Key t = Key u \<Longrightarrow> Value t = Value u \<Longrightarrow> t = u"
    by (rule Tag.equality) simp_all
  ultimately show ?case using Cons by auto
qed

lemma EqualTags_tag_set:
  assumes "in_string_ok r" and a: "tag_set a" and b: "tag_set b"
  shows "EqualTags r a b = Some (set a = set b)"
proof -
  obtain upd gone where m: "mainLoop b a = Some (map (\<lambda>t. the (Key t)) a, upd, gone)"
    and empty: "(upd = [] \<and> gone = []) = (\<forall>t\<in>set a. \<exists>u. find (\<lambda>u. Key t = Key u) b = Some u \<and> Value t = Value u)"
    using mainLoop_plain [of a b] a b by (auto simp: tag_set_def)
  have s: "select (\<lambda>u. do { key \<leftarrow> Key u; Some (\<not> InStrings r key (map (\<lambda>t. the (Key t)) a)) }) b =
      Some (filter (\<lambda>u. the (Key u) \<notin> (\<lambda>t. the (Key t)) ` set a) b)"
    using assms by (intro select_total) (auto simp: in_string_ok_def tag_set_def plain_tag_def)
  have keys: "the (Key u) \<in> (\<lambda>t. the (Key t)) ` set a \<longleftrightarrow> Key u \<in> Key ` set a" if "u \<in> set b" for u
    using that a b by (force simp: tag_set_def plain_tag_def image_iff)
  have eq: "set a = set b \<longleftrightarrow> set a \<subseteq> set b \<and> (\<forall>u\<in>set b. Key u \<in> Key ` set a)"
  proof (rule iffI)
    assume *: "set a \<subseteq> set b \<and> (\<forall>u\<in>set b. Key u \<in> Key ` set a)"
    have "u \<in> set a" if "u \<in> set b" for u
    proof -
      from * that obtain t where "t \<in> set a" "Key t = Key u" by auto
      with * that b show ?thesis by (auto simp: tag_set_def distinct_map dest: inj_onD)
    qed
    with * show "set a = set b" by blast
  qed auto
  have "EqualTags r a b = Some ((upd = [] \<and> gone = []) \<and> (\<forall>u\<in>set b. Key u \<in> Key ` set a))"
    using m s keys by (auto simp: EqualTags_def computeTagsDelta_def filter_empty_conv)
  also have "(upd = [] \<and> gone = []) = (set a \<subseteq> set b)"
    unfolding empty using b by (auto simp: tag_set_def find_key_iff)
  finally show ?thesis using eq by simp
qed

lemma tag_of_pair:
  assumes "plain_tag t"
  shows "t = mkTag (the (Key t)) (the (Value t))"
  using assms by (auto simp: plain_tag_def intro!: Tag.equality)

lemma tag_map_keys:
  assumes "tag_set ts"
  shows "distinct (map fst (map (\<lambda>t. (the (Key t), the (Value t))) ts))"
proof -
  have "map Key ts = map Some (map fst (map (\<lambda>t. (the (Key t), the (Value t))) ts))"
    using assms by (auto simp: tag_set_def plain_tag_def)
  with assms show ?thesis by (metis distinct_map tag_set_def)
qed

lemma tag_map_Some_iff:
  assumes "tag_set ts"
  shows "tag_map ts k = Some v \<longleftrightarrow> mkTag k v \<in> set ts"
proof -
  have "tag_map ts k = Some v \<longleftrightarrow> (k, v) \<in> (\<lambda>t. (the (Key t), the (Value t))) ` set ts"
    using tag_map_keys [OF assms] by (simp add: tag_map_def)
  also have "\<dots> \<longleftrightarrow> mkTag k v \<in> set ts"
    using assms tag_of_pair by (force simp: tag_set_def image_iff)
  finally show ?thesis .
qed

lemma tag_map_eq_iff:
  assumes a: "tag_set a" and b: "tag_set b"
  shows "tag_map a = tag_map b \<longleftrightarrow> set a = set b"
proof
  assume eq: "tag_map a = tag_map b"
  have "t \<in> set a \<longleftrightarrow> t \<in> set b" if "plain_tag t" for t
    using tag_of_pair [OF that] eq by (metis tag_map_Some_iff [OF a] tag_map_Some_iff [OF b])
  with a b show "set a = set b" by (auto simp: tag_set_def)
next
  assume "set a = set b"
  then have "tag_map a k = Some v \<longleftrightarrow> tag_map b k = Some v" for k v
    by (simp add: tag_map_Some_iff a b)
  then show "tag_map a = tag_map b" by (metis (no_types) ext option.exhaust)
qed

lemma tag_map_dom:
  assumes "tag_set ts"
  shows "k \<in> dom (tag_map ts) \<longleftrightarrow> Some k \<in> Key ` set ts"
proof
  assume "k \<in> dom (tag_map ts)"
  then obtain v where "mkTag k v \<in> set ts" using assms by (auto simp: tag_map_Some_iff)
  then show "Some k \<in> Key ` set ts" by force
next
  assume "Some k \<in> Key ` set ts"
  then obtain t where t: "t \<in> set ts" "Key t = Some k" by auto
  with assms have "mkTag k (the (Value t)) \<in> set ts"
    using tag_of_pair [of t] by (simp add: tag_set_def)
  then show "k \<in> dom (tag_map ts)" using assms by (auto simp flip: tag_map_Some_iff)
qed

lemma tag_map_Cons:
  assumes "Key t = Some k" and "Value t = Some v"
  shows "tag_map (t # ts) = (tag_map ts)(k \<mapsto> v)"
  using assms by (simp add: tag_map_def)

lemma tag_set_Cons:
  "tag_set (t # ts) \<longleftrightarrow> plain_tag t \<and> Key t \<notin> Key ` set ts \<and> tag_set ts"
  by (auto simp: tag_set_def)

subsection \<open>What the tag hooks add and remove\<close>

lemma search_tag:
  assumes "\<And>t. t \<in> set ts \<Longrightarrow> plain_tag t"
  shows "search (\<lambda>t. do { k \<leftarrow> Key t;
     if k = key then do { v \<leftarrow> Value t; Some (v = value) } else Some False }) ts
   = Some (mkTag key value \<in> set ts)"
  using assms
proof (induction ts)
  case Nil
  then show ?case by simp
next
  case (Cons t ts)
  have "plain_tag t" using Cons.prems by simp
  then obtain k v where t: "t = mkTag k v" using tag_of_pair by blast
  from Cons.IH Cons.prems show ?case unfolding t by auto
qed

lemma select_not_in:
  assumes "\<And>t. t \<in> set xs \<Longrightarrow> plain_tag t" and "\<And>k v. isin k v ys = Some (mkTag k v \<in> set ys)"
  shows "select (\<lambda>t. do { k \<leftarrow> Key t; v \<leftarrow> Value t; b \<leftarrow> isin k v ys; Some (\<not> b) }) xs
     = Some (filter (\<lambda>t. t \<notin> set ys) xs)"
proof (rule select_total)
  fix t assume "t \<in> set xs"
  then obtain k v where "t = mkTag k v" using assms(1) tag_of_pair by blast
  then show "do { k \<leftarrow> Key t; v \<leftarrow> Value t; b \<leftarrow> isin k v ys; Some (\<not> b) } = Some (t \<notin> set ys)"
    using assms(2) by simp
qed

definition tag_keys :: "Tag list \<Rightarrow> string list" where
  "tag_keys ts = map (\<lambda>t. the (Key t)) ts"

lemma traverse_Key: "tag_set ts \<Longrightarrow> traverse Key ts = Some (tag_keys ts)"
  unfolding tag_keys_def by (rule traverse_total) (auto simp: tag_set_def plain_tag_def)

lemma tag_set_filter: "tag_set ts \<Longrightarrow> tag_set (filter P ts)"
  by (auto simp: tag_set_def distinct_map_filter)

lemma tag_keys_dom: "tag_set ts \<Longrightarrow> set (tag_keys ts) = dom (tag_map ts)"
  by (simp add: tag_keys_def tag_map_def dom_map_of_conv_image_fst image_image)

lemma tag_map_filter:
  assumes "tag_set ts"
  shows "tag_map (filter P ts) k = (case tag_map ts k of None \<Rightarrow> None
     | Some v \<Rightarrow> if P (mkTag k v) then Some v else None)"
proof -
  have *: "tag_map (filter P ts) k = Some v \<longleftrightarrow> tag_map ts k = Some v \<and> P (mkTag k v)" for v
    using assms by (auto simp: tag_map_Some_iff tag_set_filter)
  show ?thesis
  proof (cases "tag_map (filter P ts) k")
    case None
    with * show ?thesis by (cases "tag_map ts k") fastforce+
  next
    case (Some v)
    with * [of v] show ?thesis by simp
  qed
qed

lemma tag_map_minus:
  assumes "tag_set xs" and "tag_set ys"
  shows "tag_map (filter (\<lambda>t. t \<notin> set ys) xs) k = (if tag_map xs k = tag_map ys k then None else tag_map xs k)"
  using tag_map_Some_iff [OF assms(2), of k, symmetric]
  by (auto simp: tag_map_filter [OF assms(1)] split: option.splits)

text \<open>Adding first and removing second loses every key whose value changed ...\<close>

lemma add_then_remove:
  assumes "tag_set ls" and "tag_set ds"
  shows "(tag_map ls ++ tag_map (filter (\<lambda>t. t \<notin> set ls) ds)) |` (- set (tag_keys (filter (\<lambda>t. t \<notin> set ds) ls)))
     = (\<lambda>k. if tag_map ls k \<noteq> None \<and> tag_map ls k \<noteq> tag_map ds k then None else tag_map ds k)"
  using assms
  by (auto simp: fun_eq_iff tag_keys_dom tag_set_filter tag_map_minus restrict_map_def domIff map_add_def
      split: option.splits if_splits)

text \<open>... while removing first and adding second arrives at the desired tags.\<close>

lemma remove_then_add:
  assumes "tag_set ls" and "tag_set ds"
  shows "(tag_map ls |` (- set (tag_keys (filter (\<lambda>t. t \<notin> set ds) ls)))) ++ tag_map (filter (\<lambda>t. t \<notin> set ls) ds)
     = tag_map ds"
  using assms
  by (auto simp: fun_eq_iff tag_keys_dom tag_set_filter tag_map_minus restrict_map_def domIff map_add_def
      split: option.splits if_splits)

lemma MapStringFromMapStringPointers_total:
  "(\<And>k v. (k, v) \<in> set m \<Longrightarrow> v \<noteq> None) \<Longrightarrow>
   MapStringFromMapStringPointers m = Some (map (\<lambda>(k, v). (k, the v)) m)"
  unfolding MapStringFromMapStringPointers_def by (rule traverse_total) fastforce

lemma tag_map_append: "tag_map (ts @ us) = tag_map us ++ tag_map ts"
  by (simp add: tag_map_def)

lemma tag_map_without: "tag_map (filter (\<lambda>t. the (Key t) \<notin> set ks) ts) = tag_map ts |` (- set ks)"
  by (induction ts) (auto simp: tag_map_def restrict_map_def fun_eq_iff)

end
