(* ===== verification/Compare.thy ===== *)
theory Compare
  imports Conditions
begin

text \<open>
  The field comparisons the seven generated \<open>delta.go\<close> files repeat, each a step from one delta to
  the next, and what they report under the documented behaviour of \<open>ackcompare\<close>.
\<close>

definition compareStringField :: "'d compare_rt \<Rightarrow> string \<Rightarrow> string ptr \<Rightarrow> string ptr \<Rightarrow> 'd \<Rightarrow> 'd" where
  "compareStringField c path a b delta =
     (if HasNilDifference c a b then delta_Add c delta path
      else (case (a, b) of
         (Some x, Some y) \<Rightarrow> if x \<noteq> y then delta_Add c delta path else delta
       | _ \<Rightarrow> delta))"

definition compareInt64Field :: "'d compare_rt \<Rightarrow> string \<Rightarrow> int64 ptr \<Rightarrow> int64 ptr \<Rightarrow> 'd \<Rightarrow> 'd" where
  "compareInt64Field c path a b delta =
     (if HasNilDifferenceInt64 c a b then delta_Add c delta path
      else (case (a, b) of
         (Some x, Some y) \<Rightarrow> if x \<noteq> y then delta_Add c delta path else delta
       | _ \<Rightarrow> delta))"

definition comparePolicyField :: "'d compare_rt \<Rightarrow> string \<Rightarrow> string ptr \<Rightarrow> string ptr \<Rightarrow> 'd \<Rightarrow> 'd" where
  "comparePolicyField c path a b delta =
     (if HasNilDifference c a b then delta_Add c delta path
      else (case (a, b) of
         (Some x, Some y) \<Rightarrow>
           (let (equal, err) = IAMPolicyDocumentEqual c x y
            in if err \<noteq> None \<or> \<not> equal then delta_Add c delta path else delta)
       | _ \<Rightarrow> delta))"

definition compareStringsField :: "'d compare_rt \<Rightarrow> string \<Rightarrow> string ptr slice \<Rightarrow> string ptr slice \<Rightarrow> 'd \<Rightarrow> 'd" where
  "compareStringsField c path a b delta =
     (if length (elems a) \<noteq> length (elems b) then delta_Add c delta path
      else if length (elems a) > 0 \<and> \<not> SliceStringPEqual c (elems a) (elems b) then delta_Add c delta path
      else delta)"

definition compareMapField ::
  "'d compare_rt \<Rightarrow> string \<Rightarrow> (string, string ptr) gomap \<Rightarrow> (string, string ptr) gomap \<Rightarrow> 'd \<Rightarrow> 'd" where
  "compareMapField c path a b delta =
     (if length a \<noteq> length b then delta_Add c delta path
      else if length a > 0 \<and> \<not> MapStringStringPEqual c a b then delta_Add c delta path
      else delta)"

definition addWhen :: "'d compare_rt \<Rightarrow> string \<Rightarrow> bool \<Rightarrow> 'd \<Rightarrow> 'd" where
  "addWhen c path different delta = (if different then delta_Add c delta path else delta)"

subsection \<open>Acting on a delta\<close>

text \<open>\<open>if delta.DifferentAt(path) { err = f(); if err != nil { return nil, err } }\<close>\<close>

definition when_different ::
  "'d compare_rt \<Rightarrow> 'd \<Rightarrow> string \<Rightarrow> ('b, error option) go \<Rightarrow> ('b, error option) go" where
  "when_different c delta path f w = (if DifferentAt c delta path then f w else Some (None, w))"

subsection \<open>What is reported\<close>

definition stringDiffers :: "'d compare_rt \<Rightarrow> string ptr \<Rightarrow> string ptr \<Rightarrow> bool" where
  "stringDiffers c a b \<longleftrightarrow> HasNilDifference c a b \<or> (a \<noteq> None \<and> b \<noteq> None \<and> a \<noteq> b)"

definition int64Differs :: "'d compare_rt \<Rightarrow> int64 ptr \<Rightarrow> int64 ptr \<Rightarrow> bool" where
  "int64Differs c a b \<longleftrightarrow> HasNilDifferenceInt64 c a b \<or> (a \<noteq> None \<and> b \<noteq> None \<and> a \<noteq> b)"

definition policyDiffers :: "'d compare_rt \<Rightarrow> string ptr \<Rightarrow> string ptr \<Rightarrow> bool" where
  "policyDiffers c a b \<longleftrightarrow> HasNilDifference c a b \<or>
     (\<exists>x y. a = Some x \<and> b = Some y \<and> IAMPolicyDocumentEqual c x y \<noteq> (True, None))"

definition stringsDiffer :: "'d compare_rt \<Rightarrow> string ptr slice \<Rightarrow> string ptr slice \<Rightarrow> bool" where
  "stringsDiffer c a b \<longleftrightarrow> length (elems a) \<noteq> length (elems b) \<or>
     (elems a \<noteq> [] \<and> \<not> SliceStringPEqual c (elems a) (elems b))"

definition mapsDiffer :: "'d compare_rt \<Rightarrow> (string, string ptr) gomap \<Rightarrow> (string, string ptr) gomap \<Rightarrow> bool" where
  "mapsDiffer c a b \<longleftrightarrow> length a \<noteq> length b \<or> (a \<noteq> [] \<and> \<not> MapStringStringPEqual c a b)"

text \<open>Every step is \<open>addWhen\<close> of its condition, so a delta is a sequence of independent reports.\<close>

lemma compare_addWhen:
  "compareStringField c path s t delta = addWhen c path (stringDiffers c s t) delta"
  "compareInt64Field c path i j delta = addWhen c path (int64Differs c i j) delta"
  "comparePolicyField c path s t delta = addWhen c path (policyDiffers c s t) delta"
  "compareStringsField c path u v delta = addWhen c path (stringsDiffer c u v) delta"
  "compareMapField c path m n delta = addWhen c path (mapsDiffer c m n) delta"
  by (auto simp: compareStringField_def compareInt64Field_def comparePolicyField_def compareStringsField_def
      compareMapField_def addWhen_def stringDiffers_def int64Differs_def policyDiffers_def stringsDiffer_def
      mapsDiffer_def split_beta prod_eq_iff split: option.splits)

lemma DifferentAt_addWhen:
  assumes "delta_ok c paths" and "p \<in> paths" and "q \<in> paths"
  shows "DifferentAt c (addWhen c p different delta) q = (DifferentAt c delta q \<or> (different \<and> p = q))"
  using assms by (auto simp: addWhen_def delta_ok_def)

lemma DifferentAt_NewDelta: "delta_ok c paths \<Longrightarrow> q \<in> paths \<Longrightarrow> \<not> DifferentAt c (NewDelta c) q"
  by (simp add: delta_ok_def)

text \<open>A whole \<open>newResourceDelta\<close>: a table of paths and whether each one differs.\<close>

definition report :: "'d compare_rt \<Rightarrow> (string \<times> bool) list \<Rightarrow> 'd" where
  "report c table = fold (\<lambda>(path, different). addWhen c path different) table (NewDelta c)"

lemma DifferentAt_fold:
  assumes "delta_ok c paths" and "fst ` set table \<subseteq> paths" and "q \<in> paths"
  shows "DifferentAt c (fold (\<lambda>(path, different). addWhen c path different) table delta) q
    \<longleftrightarrow> DifferentAt c delta q \<or> (q, True) \<in> set table"
  using assms(2)
  by (induction table arbitrary: delta) (auto simp: DifferentAt_addWhen [OF assms(1) _ assms(3)])

lemma DifferentAt_report:
  assumes "delta_ok c paths" and "fst ` set table \<subseteq> paths" and "q \<in> paths"
  shows "DifferentAt c (report c table) q \<longleftrightarrow> (q, True) \<in> set table"
  using assms by (simp add: report_def DifferentAt_fold DifferentAt_NewDelta)

text \<open>\<open>nil\<close> and the empty string may be taken for one another; otherwise strings differ as they do.\<close>

lemma stringDiffers_iff:
  assumes "nil_difference_ok c" and "a \<noteq> Some []" and "b \<noteq> Some []"
  shows "stringDiffers c a b \<longleftrightarrow> a \<noteq> b"
  using assms by (cases a; cases b) (auto simp: stringDiffers_def nil_difference_ok_def)

text \<open>The comparison of two policy lists finds a difference unless they have the same elements.\<close>

definition slices_equal_ok :: "'d compare_rt \<Rightarrow> bool" where
  "slices_equal_ok c \<longleftrightarrow> (\<forall>a b. SliceStringPEqual c a b \<longrightarrow> set a = set b)"

text \<open>
  \<open>SliceStringPEqual\<close> and \<open>MapStringStringPEqual\<close> compare the values, the former without regard to
  the order.
\<close>

definition lists_equal_ok :: "'d compare_rt \<Rightarrow> bool" where
  "lists_equal_ok c \<longleftrightarrow>
     (\<forall>a b. distinct a \<longrightarrow> distinct b \<longrightarrow> SliceStringPEqual c (map Some a) (map Some b) = (set a = set b)) \<and>
     (\<forall>a b. wf_map a \<longrightarrow> wf_map b \<longrightarrow> MapStringStringPEqual c a b = (map_of a = map_of b))"

lemma stringsDiffer_iff:
  assumes "lists_equal_ok c" and "elems a = map Some as" "distinct as" and "elems b = map Some bs" "distinct bs"
  shows "stringsDiffer c a b \<longleftrightarrow> set as \<noteq> set bs"
  using assms by (auto simp: stringsDiffer_def lists_equal_ok_def) (metis distinct_card)

lemma mapsDiffer_iff:
  assumes "lists_equal_ok c" and "wf_map a" and "wf_map b"
  shows "mapsDiffer c a b \<longleftrightarrow> map_of a \<noteq> map_of b"
proof -
  have "length a = length b" if "map_of a = map_of b"
    using that assms(2,3) by (metis distinct_card distinct_map length_map map_of_inject_set)
  with assms show ?thesis by (auto simp: mapsDiffer_def lists_equal_ok_def)
qed

text \<open>Two strings that do not differ stand for the same value when \<open>nil\<close> and the empty string are one.\<close>

definition nonempty :: "string ptr \<Rightarrow> string option" where
  "nonempty p = (if p = Some [] then None else p)"

lemma stringDiffers_nonempty:
  assumes "nil_difference_ok c" and "\<not> stringDiffers c a b"
  shows "nonempty a = nonempty b"
  using assms by (cases a; cases b) (auto simp: stringDiffers_def nil_difference_ok_def nonempty_def)

text \<open>\<open>MapStringStringEqual\<close> compares two maps of strings.\<close>

definition string_maps_equal_ok :: "'d compare_rt \<Rightarrow> bool" where
  "string_maps_equal_ok c \<longleftrightarrow>
     (\<forall>a b. wf_map a \<longrightarrow> wf_map b \<longrightarrow> MapStringStringEqual c a b = (map_of a = map_of b))"

end
