(* ===== verification/TagHooks.thy ===== *)
theory TagHooks
  imports Util Compare
begin

text \<open>
  What the tag hooks of the packages share: a page of tags as the SDK returns it, the membership
  test of \<open>syncTags\<close>, and \<open>compareTags\<close>. The functions are the same text in the role, user and
  policy packages; \<open>compareTags\<close> also in the others that have tags.
\<close>

record ListTagsOutput =
  Tags :: "Tag list"
  IsTruncated :: bool
  Marker :: "string ptr"

text \<open>The list the SDK's tags are copied to, and back, field by field.\<close>

definition copyTag :: "Tag \<Rightarrow> Tag" where
  "copyTag t = \<lparr>Key = Key t, Value = Value t\<rparr>"

lemma copyTag_id [simp]: "copyTag t = t"
  by (simp add: copyTag_def)

lemma map_copyTag [simp]: "map copyTag ts = ts"
  by (simp add: map_idI)

lemma map_option_copyTag [simp]: "map_option (map copyTag) ts = ts"
  by (cases ts) simp_all

definition inTags :: "string \<Rightarrow> string \<Rightarrow> Tag list \<Rightarrow> bool option" where
  "inTags key value tags = search (\<lambda>t. do {
     k \<leftarrow> Key t;
     if k = key then do { v \<leftarrow> Value t; Some (v = value) } else Some False }) tags"

text \<open>\<open>for _, t := range ts { if !inTags(*t.Key, *t.Value, us) { out = append(out, t) } }\<close>\<close>

definition notInTags :: "Tag list \<Rightarrow> Tag list \<Rightarrow> Tag list option" where
  "notInTags ts us = select (\<lambda>t. do { k \<leftarrow> Key t; v \<leftarrow> Value t; b \<leftarrow> inTags k v us; Some (\<not> b) }) ts"

text \<open>\<open>compareTags\<close>, on the two tag lists.\<close>

definition compareTagLists :: "ack_rt \<Rightarrow> 'd compare_rt \<Rightarrow> 'd \<Rightarrow> Tag list \<Rightarrow> Tag list \<Rightarrow> 'd option" where
  "compareTagLists r c delta as bs =
     (if length as \<noteq> length bs then Some (delta_Add c delta ''Spec.Tags'')
      else if length as > 0 then do {
        equal \<leftarrow> EqualTags r as bs;
        Some (if \<not> equal then delta_Add c delta ''Spec.Tags'' else delta) }
      else Some delta)"

lemma inTags_plain: "(\<And>t. t \<in> set ts \<Longrightarrow> plain_tag t) \<Longrightarrow> inTags k v ts = Some (mkTag k v \<in> set ts)"
  unfolding inTags_def by (rule search_tag)

lemma notInTags_tag_set:
  assumes "tag_set ts" and "tag_set us"
  shows "notInTags ts us = Some (filter (\<lambda>t. t \<notin> set us) ts)"
  unfolding notInTags_def using assms
  by (intro select_not_in inTags_plain) (auto simp: tag_set_def)

text \<open>On tag sets the comparison adds the path exactly when the sets differ.\<close>

lemma compareTagLists_tag_set:
  assumes "in_string_ok r" and "tag_set as" and "tag_set bs"
  shows "compareTagLists r c delta as bs = Some (addWhen c ''Spec.Tags'' (set as \<noteq> set bs) delta)"
proof -
  have len: "set as = set bs \<Longrightarrow> length as = length bs"
    using assms(2,3) by (metis distinct_card distinct_map tag_set_def)
  show ?thesis
  proof (cases "length as = length bs")
    case False
    with len show ?thesis by (auto simp: compareTagLists_def addWhen_def)
  next
    case True
    then show ?thesis using EqualTags_tag_set [OF assms] by (auto simp: compareTagLists_def addWhen_def)
  qed
qed

end
