(* ===== verification/Sync.thy ===== *)
theory Sync
  imports Ack
begin

text \<open>
  The two contracts between the hooks and the IAM API that several packages share.

  \<open>api_sync\<close>: the \<open>sync...\<close> hooks run one API call per element to add and one per element to
  remove. If each successful call changes the part of the backend the hook manages in a known
  way, a successful hook changes it by the composition. It is interpreted on the attach and
  detach calls of managed policies, on the put and delete calls of inline policies, and on the
  client id calls, each in the theory that defines them.

  \<open>pager\<close>: the \<open>get...\<close> hooks collect the pages of a listing until one is not truncated. It is
  interpreted on every hand-written paging loop.
\<close>

subsection \<open>One API call per element\<close>

locale api_fold =
  fixes ok :: "'e \<Rightarrow> bool"
    and call :: "'e \<Rightarrow> 'x \<Rightarrow> 'b world \<Rightarrow> (error option \<times> 'b world) option"
    and view :: "'e \<Rightarrow> 'b \<Rightarrow> 's"
    and effect :: "'e \<Rightarrow> 'x \<Rightarrow> 's \<Rightarrow> 's"
  assumes call_effect: "ok e \<Longrightarrow> call e x w = Some (None, w') \<Longrightarrow> view e (aws w') = effect e x (view e (aws w))"
begin

lemma each_effect:
  assumes "ok e" and "for_each (call e) xs w = Some (None, w')"
  shows "view e (aws w') = fold (effect e) xs (view e (aws w))"
  using assms(2)
proof (induction xs arbitrary: w)
  case Nil
  then show ?case by simp
next
  case (Cons x xs)
  then obtain u where "call e x w = Some (None, u)" "for_each (call e) xs u = Some (None, w')"
    by (auto split: Option.bind_splits option.splits)
  with Cons.IH call_effect [OF assms(1)] show ?case by simp
qed

end

locale api_sync =
  add: api_fold ok add view add_effect + remove: api_fold ok remove view remove_effect
  for ok :: "'e \<Rightarrow> bool"
    and add :: "'e \<Rightarrow> 'x \<Rightarrow> 'b world \<Rightarrow> (error option \<times> 'b world) option"
    and view :: "'e \<Rightarrow> 'b \<Rightarrow> 's"
    and add_effect :: "'e \<Rightarrow> 'x \<Rightarrow> 's \<Rightarrow> 's"
    and remove :: "'e \<Rightarrow> 'y \<Rightarrow> 'b world \<Rightarrow> (error option \<times> 'b world) option"
    and remove_effect :: "'e \<Rightarrow> 'y \<Rightarrow> 's \<Rightarrow> 's"
begin

lemma sync_effect:
  assumes "ok e"
    and "do { (err, w) \<leftarrow> for_each (add e) xs w;
              (case err of Some x \<Rightarrow> Some (Some x, w) | None \<Rightarrow> for_each (remove e) ys w) } = Some (None, w')"
  shows "view e (aws w') = fold (remove_effect e) ys (fold (add_effect e) xs (view e (aws w)))"
proof -
  from assms(2) obtain u where "for_each (add e) xs w = Some (None, u)" "for_each (remove e) ys u = Some (None, w')"
    by (auto split: Option.bind_splits option.splits)
  then show ?thesis
    using add.each_effect [OF assms(1)] remove.each_effect [OF assms(1)] by simp
qed

end

lemma fold_insert_at:
  "fold (\<lambda>p s. s(n := insert p (s n))) ps s = s(n := s n \<union> set ps)"
  by (induction ps arbitrary: s) auto

lemma fold_remove_at:
  "fold (\<lambda>p s. s(n := s n - {p})) ps s = s(n := s n - set ps)"
  by (induction ps arbitrary: s) (simp_all flip: Diff_insert2)

lemma fold_put_at:
  "fold (\<lambda>(k, d) s. s(n := (s n)(k \<mapsto> d))) ps s = s(n := s n ++ map_of (rev ps))"
  by (induction ps arbitrary: s) (auto simp: map_add_def fun_eq_iff split: option.splits)

lemma fold_delete_at:
  "fold (\<lambda>k s. s(n := (s n)(k := None))) ks s = s(n := s n |` (- set ks))"
  by (induction ks arbitrary: s) (auto simp: restrict_map_def fun_eq_iff)

subsection \<open>Reading a listing page by page\<close>

text \<open>
  What one turn of a paging loop finds: it stops (an error, or no response), it has the last page,
  or a page and the marker of the next one, or it panics on a page.
\<close>

datatype ('x, 'm) page = Stop "error option" | Last "'x list" | More "'x list" 'm | Crash

text \<open>
  \<open>serves fetch m w pages w'\<close>: from marker \<open>m\<close> the service hands out the pages \<open>pages\<close>, the last
  of them not truncated. \<open>breaks fetch m w pages err w'\<close>: after \<open>pages\<close> the listing breaks off.
\<close>

inductive serves :: "('m \<Rightarrow> 'w \<Rightarrow> ('x, 'm) page \<times> 'w) \<Rightarrow> 'm \<Rightarrow> 'w \<Rightarrow> 'x list list \<Rightarrow> 'w \<Rightarrow> bool"
  for fetch where
  last: "fetch m w = (Last xs, w') \<Longrightarrow> serves fetch m w [xs] w'"
| more: "fetch m w = (More xs m', u) \<Longrightarrow> serves fetch m' u pages w' \<Longrightarrow> serves fetch m w (xs # pages) w'"

inductive breaks :: "('m \<Rightarrow> 'w \<Rightarrow> ('x, 'm) page \<times> 'w) \<Rightarrow> 'm \<Rightarrow> 'w \<Rightarrow> 'x list list \<Rightarrow> error option \<Rightarrow> 'w \<Rightarrow> bool"
  for fetch where
  stop: "fetch m w = (Stop err, w') \<Longrightarrow> breaks fetch m w [] err w'"
| skip: "fetch m w = (More xs m', u) \<Longrightarrow> breaks fetch m' u pages err w' \<Longrightarrow> breaks fetch m w (xs # pages) err w'"

locale pager =
  fixes loop :: "'e \<Rightarrow> 'm \<Rightarrow> 'x list \<Rightarrow> 'w \<Rightarrow> (('x list \<times> error option) \<times> 'w) option"
    and fetch :: "'e \<Rightarrow> 'm \<Rightarrow> 'w \<Rightarrow> ('x, 'm) page \<times> 'w"
  assumes loop_eq: "loop e m res w = (case fetch e m w of
     (Stop err, w') \<Rightarrow> Some ((res, err), w')
   | (Last xs, w') \<Rightarrow> Some ((res @ xs, None), w')
   | (More xs m', w') \<Rightarrow> loop e m' (res @ xs) w'
   | (Crash, w') \<Rightarrow> None)"
begin

lemma loop_serves: "serves (fetch e) m w pages w' \<Longrightarrow> loop e m res w = Some ((res @ concat pages, None), w')"
proof (induction arbitrary: res rule: serves.induct)
  case (last m w xs w')
  then show ?case by (subst loop_eq) simp
next
  case (more m w xs m' u pages w')
  then show ?case by (subst loop_eq) simp
qed

lemma loop_breaks:
  "breaks (fetch e) m w pages err w' \<Longrightarrow> loop e m res w = Some ((res @ concat pages, err), w')"
proof (induction arbitrary: res rule: breaks.induct)
  case (stop m w err w')
  then show ?case by (subst loop_eq) simp
next
  case (skip m w xs m' u pages err w')
  then show ?case by (subst loop_eq) simp
qed

end

subsection \<open>Reading a listing with a paginator\<close>

text \<open>
  The SDK's paginators: \<open>HasMorePages\<close> asks the paginator, \<open>NextPage\<close> moves it and calls the API.
  \<open>lists more next p w pages w'\<close>: from paginator \<open>p\<close> every call succeeds and hands out \<open>pages\<close>
  until there are no more. \<open>fails_at\<close>: the call after \<open>pages\<close> returns an error.
\<close>

inductive lists ::
  "('p \<Rightarrow> bool) \<Rightarrow> ('p \<Rightarrow> 'w \<Rightarrow> ('p \<times> 'x list ptr \<times> error option) \<times> 'w) \<Rightarrow> 'p \<Rightarrow> 'w \<Rightarrow> 'x list list \<Rightarrow> 'w \<Rightarrow> bool"
  for has_more and next_page where
  no_more: "\<not> has_more p \<Longrightarrow> lists has_more next_page p w [] w"
| page: "has_more p \<Longrightarrow> next_page p w = ((p', Some xs, None), u) \<Longrightarrow> lists has_more next_page p' u pages w' \<Longrightarrow>
    lists has_more next_page p w (xs # pages) w'"

inductive fails_at ::
  "('p \<Rightarrow> bool) \<Rightarrow> ('p \<Rightarrow> 'w \<Rightarrow> ('p \<times> 'x list ptr \<times> error option) \<times> 'w) \<Rightarrow> 'p \<Rightarrow> 'w \<Rightarrow> error \<Rightarrow> 'w \<Rightarrow> bool"
  for has_more and next_page where
  now: "has_more p \<Longrightarrow> next_page p w = ((p', pg, Some err), w') \<Longrightarrow> fails_at has_more next_page p w err w'"
| later: "has_more p \<Longrightarrow> next_page p w = ((p', Some xs, None), u) \<Longrightarrow> fails_at has_more next_page p' u err w' \<Longrightarrow>
    fails_at has_more next_page p w err w'"

locale paged_listing =
  fixes loop :: "'e \<Rightarrow> 'p \<Rightarrow> 'r \<Rightarrow> 'w \<Rightarrow> ((error + 'r) \<times> 'w) option"
    and has_more :: "'e \<Rightarrow> 'p \<Rightarrow> bool"
    and next_page :: "'e \<Rightarrow> 'p \<Rightarrow> 'w \<Rightarrow> ('p \<times> 'x list ptr \<times> error option) \<times> 'w"
    and absorb :: "'e \<Rightarrow> 'x list \<Rightarrow> 'r \<Rightarrow> 'r"
  assumes loop_eq: "loop e p res w =
    (if has_more e p then (case next_page e p w of
        ((p', pg, Some err), w') \<Rightarrow> Some (Inl err, w')
      | ((p', None, None), w') \<Rightarrow> None
      | ((p', Some xs, None), w') \<Rightarrow> loop e p' (absorb e xs res) w')
     else Some (Inr res, w))"
begin

lemma loop_lists:
  "lists (has_more e) (next_page e) p w pages w' \<Longrightarrow> loop e p res w = Some (Inr (fold (absorb e) pages res), w')"
proof (induction arbitrary: res rule: lists.induct)
  case (no_more p w)
  then show ?case by (subst loop_eq) simp
next
  case (page p w p' xs u pages w')
  then show ?case by (subst loop_eq) simp
qed

lemma loop_fails: "fails_at (has_more e) (next_page e) p w err w' \<Longrightarrow> loop e p res w = Some (Inl err, w')"
proof (induction arbitrary: res rule: fails_at.induct)
  case (now p w p' pg err w')
  then show ?case by (subst loop_eq) (cases pg; simp)
next
  case (later p w p' xs u err w')
  then show ?case by (subst loop_eq) simp
qed

end

end
