(* ===== verification/PolicySync.thy ===== *)
theory PolicySync
  imports Sync Util
begin

text \<open>
  What the policy hooks of the role, user and group packages share. The three packages state
  their hooks in the same words over different SDK calls; the facts about comparing a desired
  with an observed list or map of policies, and about reading the documents of the inline policies,
  are proved here once.
\<close>

subsection \<open>Managed policies\<close>

text \<open>\<open>for _, p := range xs { if !ackutil.InStringPs(*p, ys) { out = append(out, p) } }\<close>\<close>

lemma select_InStringPs:
  assumes "in_string_ok r"
  shows "select (\<lambda>p. do { arn \<leftarrow> p; Some (\<not> InStringPs r arn (map Some ys)) }) (map Some xs)
    = Some (map Some (filter (\<lambda>p. p \<notin> set ys) xs))"
  using assms by (induction xs) (auto simp: in_string_ok_def)

text \<open>Attaching what is missing and detaching what is not wanted, on the set that is attached.\<close>

lemma attach_detach:
  "fold (\<lambda>p s. s - {p}) (filter (\<lambda>p. p \<notin> set ds) ls) (fold insert (filter (\<lambda>p. p \<notin> set ls) ds) (set ls)) = set ds"
proof -
  have "fold (\<lambda>p s. s - {p}) xs A = A - set xs" for xs :: "'a list" and A
    by (induction xs arbitrary: A) (simp_all flip: Diff_insert2)
  moreover have "fold insert xs A = set xs \<union> A" for xs :: "'a list" and A
    by (simp add: union_set_fold)
  ultimately show ?thesis by auto
qed

subsection \<open>Inline policies\<close>

abbreviation point_at :: "(string \<times> string) list \<Rightarrow> (string, string ptr) gomap" where
  "point_at m \<equiv> map (\<lambda>(k, d). (k, Some d)) m"

lemma point_at_strings: "MapStringFromMapStringPointers (point_at m) = Some m"
  by (subst MapStringFromMapStringPointers_total) (auto simp: comp_def split_beta)

lemma map_of_point_at: "map_of (point_at m) k = map_option Some (map_of m k)"
  by (induction m) auto

lemma point_at_map_of: "map_of (point_at m) = map_of (point_at m') \<longleftrightarrow> map_of m = map_of m'"
proof -
  have "map_option Some s = map_option Some t \<longleftrightarrow> s = t" for s t :: "string option"
    by (cases s; cases t) simp_all
  then show ?thesis by (simp add: fun_eq_iff map_of_point_at)
qed

lemma point_at_witness:
  assumes "wf_map res" and "map_of res = map_option Some \<circ> f"
  shows "\<exists>m. res = point_at m \<and> wf_map m \<and> map_of m = f"
proof -
  let ?m = "map (\<lambda>(k, p). (k, the p)) res"
  have ne: "p \<noteq> None" if "(k, p) \<in> set res" for k p
  proof -
    have "map_of res k = Some p" using that assms(1) by simp
    then show ?thesis using assms(2) by (auto simp: fun_eq_iff)
  qed
  have "point_at ?m = map (\<lambda>x. x) res"
    unfolding map_map by (rule map_cong) (use ne in force)+
  then have eq: "res = point_at ?m" by simp
  moreover have "wf_map ?m" using assms(1) by (simp add: comp_def split_beta)
  moreover have "map_of ?m = f"
  proof
    fix k
    have "map_option Some (map_of ?m k) = map_option Some (f k)"
      using eq assms(2) map_of_point_at [of ?m k] by simp
    then show "map_of ?m k = f k" by (cases "map_of ?m k"; cases "f k") simp_all
  qed
  ultimately show ?thesis by blast
qed

text \<open>The entries only one of two maps holds, whatever order the helper library lists them in.\<close>

lemma lo_difference:
  assumes lo: "lo_ok r" and "wf_map ls" and "wf_map ds"
  obtains toDelete toAdd where
    "Difference r (ToPairs r ls) (ToPairs r ds) = (toDelete, toAdd)"
    "set toAdd = set ds - set ls" "set toDelete = set ls - set ds" "wf_map toAdd"
proof -
  have ls: "mset (ToPairs r ls) = mset ls" and ds: "mset (ToPairs r ds) = mset ds"
    using assms by (auto simp: lo_ok_def)
  then have sets: "set (ToPairs r ls) = set ls" "set (ToPairs r ds) = set ds"
    by (metis set_mset_mset)+
  have "mset (keys (ToPairs r ds)) = mset (keys ds)" using ds by (metis mset_map)
  then have "wf_map (ToPairs r ds)" using assms(3) mset_eq_imp_distinct_iff by metis
  then have "wf_map (filter (\<lambda>y. y \<notin> set ls) (ToPairs r ds))" by (rule distinct_map_filter)
  with sets that show ?thesis using lo by (auto simp: lo_ok_def)
qed

text \<open>The names to remove: those of the stale entries that were not just put again.\<close>

definition stale :: "(string \<times> 'a) list \<Rightarrow> (string \<times> 'a) list \<Rightarrow> string list" where
  "stale toAdd toDelete = map fst (filter (\<lambda>x. fst x \<notin> fst ` set toAdd) toDelete)"

lemma stale_simps [simp]: "stale [] toDelete = map fst toDelete" "stale toAdd [] = []"
  by (simp_all add: stale_def)

lemma fold_at: "fold (\<lambda>x s. s(n := f x (s n))) xs s = s(n := fold f xs (s n))"
  by (induction xs arbitrary: s) auto

lemma fold_inline_at:
  fixes s :: "'c \<Rightarrow> ('b \<Rightarrow> 'a option)"
  shows "fold (\<lambda>k s. s(n := (s n)(k := None))) ks (fold (\<lambda>(k, d) s. s(n := (s n)(k \<mapsto> f d))) xs s)
    = s(n := fold (\<lambda>k m. m(k := None)) ks (fold (\<lambda>(k, d) m. m(k \<mapsto> f d)) xs (s n)))"
proof -
  have "fold (\<lambda>k s. s(n := (s n)(k := None))) ks t = t(n := fold (\<lambda>k m. m(k := None)) ks (t n))"
    for t :: "'c \<Rightarrow> ('b \<Rightarrow> 'a option)" by (rule fold_at)
  moreover have "fold (\<lambda>(k, d) s. s(n := (s n)(k \<mapsto> f d))) xs s = s(n := fold (\<lambda>(k, d) m. m(k \<mapsto> f d)) xs (s n))"
    unfolding case_prod_unfold by (rule fold_at)
  ultimately show ?thesis by simp
qed

lemma set_stale:
  assumes "wf_map ls" and "set toAdd = set ds - set ls" and "set toDelete = set ls - set ds"
  shows "set (stale toAdd toDelete) = dom (map_of ls) - dom (map_of ds)"
proof -
  have keys: "dom (map_of m) = fst ` set m" for m :: "(string \<times> 'a) list" by (rule dom_map_of_conv_image_fst)
  have "d = d'" if "(k, d) \<in> set ls" "(k, d') \<in> set ls" for k d d'
    using that assms(1) by (metis eq_key_imp_eq_value)
  then show ?thesis
    unfolding keys by (auto simp: stale_def assms(2,3) image_iff) (metis DiffI fst_conv)
qed

text \<open>
  Putting what is new or changed, each document through \<open>f\<close>, and removing the stale names leaves
  the desired entries: the unchanged ones as they were, the others through \<open>f\<close>.
\<close>

definition put_documents :: "('a \<Rightarrow> 'a) \<Rightarrow> (string \<rightharpoonup> 'a) \<Rightarrow> (string \<rightharpoonup> 'a) \<Rightarrow> (string \<rightharpoonup> 'a)" where
  "put_documents f old goal = (\<lambda>k. case goal k of None \<Rightarrow> None | Some d \<Rightarrow> Some (if old k = Some d then d else f d))"

lemma put_documents_same [simp]: "put_documents f m m = m"
  by (auto simp: put_documents_def fun_eq_iff split: option.splits)

lemma map_of_difference:
  assumes "wf_map ds" and "wf_map ls" and "set toAdd = set ds - set ls" and "wf_map toAdd"
  shows "map_of toAdd k = (case map_of ds k of None \<Rightarrow> None
    | Some d \<Rightarrow> if map_of ls k = Some d then None else Some d)"
proof -
  have *: "map_of toAdd k = Some d \<longleftrightarrow> map_of ds k = Some d \<and> map_of ls k \<noteq> Some d" for d
    using assms by (metis DiffD1 DiffD2 DiffI map_of_eq_Some_iff)
  show ?thesis
  proof (cases "map_of toAdd k")
    case None
    with * have "map_of ds k = Some d \<Longrightarrow> map_of ls k = Some d" for d by fastforce
    with None show ?thesis by (simp split: option.splits)
  next
    case (Some d)
    with * [of d] show ?thesis by simp
  qed
qed

lemma inline_put_delete:
  assumes ds: "wf_map ds" and ls: "wf_map ls" and add: "set toAdd = set ds - set ls" "wf_map toAdd"
    and del: "set toDelete = set ls - set ds"
  shows "fold (\<lambda>k m. m(k := None)) (stale toAdd toDelete) (fold (\<lambda>(k, d) m. m(k \<mapsto> f d)) toAdd (map_of ls))
    = put_documents f (map_of ls) (map_of ds)"
proof -
  have put: "fold (\<lambda>(k, d) m. m(k \<mapsto> f d)) xs m = (\<lambda>k. case map_of xs k of None \<Rightarrow> m k | Some d \<Rightarrow> Some (f d))"
    if "wf_map xs" for xs and m :: "string \<rightharpoonup> 'a"
    using that
  proof (induction xs arbitrary: m)
    case Nil
    then show ?case by simp
  next
    case (Cons x xs)
    then have "map_of xs (fst x) = None" by (simp add: map_of_eq_None_iff)
    with Cons show ?case by (cases x) (auto simp: fun_eq_iff simp del: map_of_eq_None_iff split: option.splits)
  qed
  have gone: "fold (\<lambda>k m. m(k := None)) ks m = m |` (- set ks)" for ks and m :: "string \<rightharpoonup> 'a"
    by (induction ks arbitrary: m) (auto simp: restrict_map_def fun_eq_iff)
  show ?thesis
    unfolding put [OF add(2)] gone set_stale [OF ls add(1) del] put_documents_def
    using map_of_difference [OF ds ls add]
    by (auto simp: fun_eq_iff restrict_map_def domIff split: option.splits)
qed

subsection \<open>Reading the pages of a listing into a slice or a map\<close>

lemma fold_append: "fold (\<lambda>xs res. res @ xs) pages res = res @ concat pages"
  by (induction pages arbitrary: res) auto

lemma fold_update_map:
  "map_of (fold (\<lambda>p res. AList.update p (v p) res) names res) =
     (\<lambda>k. if k \<in> set names then Some (v k) else map_of res k)"
  by (induction names arbitrary: res) (auto simp: update_conv' fun_eq_iff)

lemma fold_update_wf: "wf_map res \<Longrightarrow> wf_map (fold (\<lambda>p res. AList.update p (v p) res) names res)"
  by (induction names arbitrary: res) auto

lemma fold_update_pages:
  "fold (fold (\<lambda>p res. AList.update p (v p) res)) pages res = fold (\<lambda>p res. AList.update p (v p) res) (concat pages) res"
  by (induction pages arbitrary: res) auto

lemma set_keys_dom: "set (keys m) = dom (map_of m)"
  by (simp add: dom_map_of_conv_image_fst)

text \<open>
  The second loop of \<open>getInlinePolicies\<close>: one \<open>Get...Policy\<close> call per name. \<open>stored\<close> reads the
  inline policies off the backend.
\<close>

locale inline_docs =
  fixes loop :: "'e \<Rightarrow> string list \<Rightarrow> (string, string ptr) gomap \<Rightarrow> 'b world \<Rightarrow>
      ((error + (string, string ptr) gomap) \<times> 'b world) option"
    and ok :: "'e \<Rightarrow> bool"
    and stored :: "'e \<Rightarrow> 'b \<Rightarrow> (string \<rightharpoonup> string)"
  assumes loop_Nil: "loop e [] res w = Some (Inr res, w)"
    and loop_Cons: "ok e \<Longrightarrow> stored e (aws w) p = Some d \<Longrightarrow>
      \<exists>u. aws u = aws w \<and> loop e (p # ps) res w = loop e ps (AList.update p (Some d) res) u"
begin

lemma docs_read:
  assumes "ok e" and "set names \<subseteq> dom (stored e (aws w))"
  shows "\<exists>w'. loop e names res w =
      Some (Inr (fold (\<lambda>p res. AList.update p (Some (the (stored e (aws w) p))) res) names res), w') \<and> aws w' = aws w"
  using assms(2)
proof (induction names arbitrary: res w)
  case Nil
  then show ?case by (simp add: loop_Nil)
next
  case (Cons p names)
  then obtain d where d: "stored e (aws w) p = Some d" by auto
  from loop_Cons [OF assms(1) this] obtain u where
    u: "aws u = aws w" "loop e (p # names) res w = loop e names (AList.update p (Some d) res) u" by blast
  with Cons.IH [of u "AList.update p (Some d) res"] Cons.prems d show ?case by simp
qed

lemma all_docs_read:
  assumes ord: "valid_order ord" and "ok e" and all: "set (concat pages) = dom (stored e (aws w))"
    and names: "names = fold (\<lambda>p res. AList.update p (None :: string ptr) res) (concat pages) []"
  shows "\<exists>res w'. loop e (ord (keys names)) names w = Some (Inr res, w') \<and> wf_map res \<and>
    map_of res = map_option Some \<circ> stored e (aws w) \<and> aws w' = aws w"
proof -
  have "dom (map_of names) = set (concat pages)" by (auto simp: names fold_update_map split: if_splits)
  then have dom: "set (ord (keys names)) = dom (stored e (aws w))"
    using ord all by (simp only: valid_order_set set_keys_dom)
  have wf: "wf_map names" by (simp add: names fold_update_wf)
  have "map_of names k = None" if "k \<notin> dom (stored e (aws w))" for k
    using that dom ord by (simp add: map_of_eq_None_iff)
  moreover from docs_read [OF assms(2), of "ord (keys names)" w names] obtain w' where
    "loop e (ord (keys names)) names w = Some (Inr (fold (\<lambda>p res. AList.update p
       (Some (the (stored e (aws w) p))) res) (ord (keys names)) names), w')" "aws w' = aws w"
    unfolding dom by blast
  ultimately show ?thesis using wf dom
    by (auto simp: fold_update_map fold_update_wf fun_eq_iff domIff)
qed

end

end
