(* ===== verification/Url.thy ===== *)
theory Url
  imports Ack
begin

text \<open>
  \<open>url.QueryUnescape\<close> of the standard library, which the hooks use to decode the policy
  documents IAM returns (\<open>decodeDocument\<close>), and the percent-encoding of RFC 3986 in which the
  IAM documentation says they are returned.
\<close>

definition hex_digits :: string where
  "hex_digits = ''0123456789ABCDEF''"

definition lower_digits :: string where
  "lower_digits = ''0123456789abcdef''"

primrec index_of :: "'a list \<Rightarrow> 'a \<Rightarrow> nat option" where
  "index_of [] c = None"
| "index_of (x # xs) c = (if c = x then Some 0 else map_option Suc (index_of xs c))"

definition unhex :: "char \<Rightarrow> nat option" where
  "unhex c = (case index_of hex_digits c of Some n \<Rightarrow> Some n | None \<Rightarrow> index_of lower_digits c)"

text \<open>\<open>Inl\<close> is the malformed escape, at most three bytes of it, as in \<open>url.EscapeError\<close>.\<close>

fun unescape :: "string \<Rightarrow> string + string" where
  "unescape [] = Inr []"
| "unescape (c # s) =
     (if c = CHR ''%'' then
        (case s of
           h # l # s' \<Rightarrow>
             (case (unhex h, unhex l) of
                (Some hi, Some lo) \<Rightarrow> map_sum id (Cons (char_of (16 * hi + lo))) (unescape s')
              | _ \<Rightarrow> Inl (take 3 (c # s)))
         | _ \<Rightarrow> Inl (take 3 (c # s)))
      else map_sum id (Cons (if c = CHR ''+'' then CHR '' '' else c)) (unescape s))"

definition QueryUnescape :: "ack_rt \<Rightarrow> string \<Rightarrow> string \<times> error option" where
  "QueryUnescape r s = (case unescape s of
     Inr t \<Rightarrow> (t, None)
   | Inl bad \<Rightarrow> ([], Some (Errorf (EscapeError_text r bad))))"

subsection \<open>Decoding inverts percent-encoding\<close>

definition unreserved :: "char \<Rightarrow> bool" where
  "unreserved c \<longleftrightarrow> c \<in> set ''ABCDEFGHIJKLMNOPQRSTUVWXYZabcdefghijklmnopqrstuvwxyz0123456789-_.~''"

definition pct_char :: "char \<Rightarrow> string" where
  "pct_char c = (if unreserved c then [c]
     else [CHR ''%'', hex_digits ! (of_char c div 16), hex_digits ! (of_char c mod 16)])"

definition pct_encode :: "string \<Rightarrow> string" where
  "pct_encode s = concat (map pct_char s)"

lemma unhex_digit: "n < 16 \<Longrightarrow> unhex (hex_digits ! n) = Some n"
  by (simp add: unhex_def hex_digits_def nth_Cons' numeral_eq_Suc less_Suc_eq)
    (elim disjE; simp)

lemma unescape_pct_char: "unescape (pct_char c @ s) = map_sum id (Cons c) (unescape s)"
proof (cases "unreserved c")
  case True
  then have "c \<noteq> CHR ''%''" "c \<noteq> CHR ''+''" by (auto simp: unreserved_def)
  with True show ?thesis by (simp add: pct_char_def)
next
  case False
  have "of_char c div 16 < (16::nat)" by (simp add: less_mult_imp_div_less)
  moreover have "16 * (of_char c div 16) + of_char c mod 16 = (of_char c :: nat)" by simp
  ultimately show ?thesis using False by (simp add: pct_char_def unhex_digit)
qed

lemma unescape_pct_encode: "unescape (pct_encode s) = Inr s"
proof (induction s)
  case Nil
  then show ?case by (simp add: pct_encode_def)
next
  case (Cons c s)
  have "pct_encode (c # s) = pct_char c @ pct_encode s" by (simp add: pct_encode_def)
  with Cons show ?case by (simp add: unescape_pct_char)
qed

lemma QueryUnescape_pct_encode: "QueryUnescape r (pct_encode s) = (s, None)"
  by (simp add: QueryUnescape_def unescape_pct_encode)

subsection \<open>When decoding changes nothing\<close>

lemma map_sum_Inr_iff: "map_sum id f x = Inr t \<longleftrightarrow> (\<exists>u. x = Inr u \<and> t = f u)"
  by (cases x) auto

lemma unescape_pct_Inr:
  "unescape (CHR ''%'' # s) = Inr t \<Longrightarrow> \<exists>h l s' c u. s = h # l # s' \<and> unescape s' = Inr u \<and> t = c # u"
  by (auto simp: map_sum_Inr_iff split: list.splits option.splits)

lemma unescape_other_Inr:
  "c \<noteq> CHR ''%'' \<Longrightarrow> unescape (c # s) = Inr t \<longleftrightarrow>
     (\<exists>u. unescape s = Inr u \<and> t = (if c = CHR ''+'' then CHR '' '' else c) # u)"
  by (simp add: map_sum_Inr_iff)

lemma unescape_length: "unescape s = Inr t \<Longrightarrow> length t \<le> length s"
proof (induction "length s" arbitrary: s t rule: less_induct)
  case less
  show ?case
  proof (cases s)
    case Nil
    with less.prems show ?thesis by simp
  next
    case (Cons c s')
    show ?thesis
    proof (cases "c = CHR ''%''")
      case True
      with less.prems Cons obtain h l s'' d u where "s' = h # l # s''" "unescape s'' = Inr u" "t = d # u"
        using unescape_pct_Inr by blast
      with less.hyps [of s'' u] Cons show ?thesis by simp
    next
      case False
      with less.prems Cons obtain u where "unescape s' = Inr u" "length t = Suc (length u)"
        by (metis length_Cons unescape_other_Inr)
      with less.hyps [of s' u] Cons show ?thesis by simp
    qed
  qed
qed

lemma unescape_id_iff: "unescape s = Inr s \<longleftrightarrow> CHR ''%'' \<notin> set s \<and> CHR ''+'' \<notin> set s"
proof (induction s)
  case Nil
  then show ?case by simp
next
  case (Cons c s)
  show ?case
  proof (cases "c = CHR ''%''")
    case True
    have "unescape (c # s) \<noteq> Inr (c # s)"
    proof
      assume "unescape (c # s) = Inr (c # s)"
      with True obtain h l s' u where "s = h # l # s'" "unescape s' = Inr u" "s = u"
        using unescape_pct_Inr [of s "c # s"] by blast
      with unescape_length [of s' u] show False by simp
    qed
    with True show ?thesis by simp
  next
    case False
    with Cons show ?thesis by (auto simp: unescape_other_Inr simp del: unescape.simps)
  qed
qed

lemma QueryUnescape_id_iff:
  "QueryUnescape r s = (s, None) \<longleftrightarrow> CHR ''%'' \<notin> set s \<and> CHR ''+'' \<notin> set s"
  by (auto simp: QueryUnescape_def simp flip: unescape_id_iff split: sum.splits)

lemma unescape_error: "unescape s = Inl bad \<Longrightarrow> s \<noteq> []"
  by (cases s) auto

text \<open>The text returned is the argument exactly when the argument has nothing to decode.\<close>

lemma fst_QueryUnescape_id_iff:
  "fst (QueryUnescape r s) = s \<longleftrightarrow> CHR ''%'' \<notin> set s \<and> CHR ''+'' \<notin> set s"
proof (cases "unescape s")
  case (Inl bad)
  then have "unescape s \<noteq> Inr s" "s \<noteq> []" by (simp_all add: unescape_error)
  then show ?thesis using Inl unescape_id_iff [of s] by (auto simp: QueryUnescape_def)
next
  case (Inr t)
  then show ?thesis using unescape_id_iff [of s] by (auto simp: QueryUnescape_def)
qed

end
