(* ===== verification/Holder.thy ===== *)
theory Holder
  imports Conditions TagHooks PolicySync Url
begin

text \<open>
  Policy holders: what the custom resources for roles, users and groups have in common. The
  struct fields all three declare are one record, which \<open>Role\<close>, \<open>User\<close> and \<open>Group\<close> extend; the
  fields only roles and users have are a second one. The policy hooks, which the three packages
  state in the same words over different SDK calls, are defined here over the calls, and each
  package's hooks are instances of them.
\<close>

record policy_holder = ack_object +
  Spec_InlinePolicies :: "(string, string ptr) gomap"
  Spec_Name :: "string ptr"
  Spec_Path :: "string ptr"
  Spec_Policies :: "string ptr slice"
  Spec_PolicyRefs :: "AWSResourceReferenceWrapper ptr slice"
  Status_CreateDate :: "time ptr"

record bounded_holder = policy_holder +
  Spec_PermissionsBoundary :: "string ptr"
  Spec_PermissionsBoundaryRef :: "AWSResourceReferenceWrapper ptr"
  Spec_Tags :: "Tag slice"

subsection \<open>Managed policies\<close>

text \<open>\<open>syncManagedPolicies\<close> over the package's \<open>addManagedPolicy\<close> and \<open>removeManagedPolicy\<close>.\<close>

definition sync_managed_policies ::
  "ack_rt \<Rightarrow> (string ptr \<Rightarrow> ('b, error option) go) \<Rightarrow> (string ptr \<Rightarrow> ('b, error option) go) \<Rightarrow>
     'a policy_holder_scheme \<Rightarrow> 'a policy_holder_scheme \<Rightarrow> ('b, error option) go" where
  "sync_managed_policies r add remove desired latest w = do {
     let existingPolicies = elems (Spec_Policies latest);
     toAdd \<leftarrow> select (\<lambda>p. do { arn \<leftarrow> p; Some (\<not> InStringPs r arn existingPolicies) })
       (elems (Spec_Policies desired));
     toDelete \<leftarrow> select (\<lambda>p. do { arn \<leftarrow> p; Some (\<not> InStringPs r arn (elems (Spec_Policies desired))) })
       existingPolicies;
     (err, w) \<leftarrow> for_each add toAdd w;
     (case err of Some e \<Rightarrow> Some (Some e, w)
      | None \<Rightarrow> for_each remove toDelete w)
   }"

text \<open>
  The paginator loops: \<open>has_more\<close> is the paginator's \<open>HasMorePages\<close>, \<open>next_page\<close> its \<open>NextPage\<close>,
  \<open>absorb\<close> the loop over the page's elements; \<open>Inl\<close> is the early return with an error.
\<close>

partial_function (option) list_pages ::
  "('p \<Rightarrow> bool) \<Rightarrow> ('p \<Rightarrow> 'b \<Rightarrow> ('p \<times> 'x list ptr \<times> error option) \<times> 'b) \<Rightarrow> ('x list \<Rightarrow> 'r \<Rightarrow> 'r) \<Rightarrow>
     'p \<Rightarrow> 'r \<Rightarrow> 'b world \<Rightarrow> ((error + 'r) \<times> 'b world) option" where
  "list_pages has_more next_page absorb paginator res w =
     (if has_more paginator then do {
        let ((paginator, page, err), w) = sdk_call (next_page paginator) w;
        (case err of
           Some e \<Rightarrow> Some (Inl e, w)
         | None \<Rightarrow> do {
             xs \<leftarrow> page;
             list_pages has_more next_page absorb paginator (absorb xs res) w })
      }
      else Some (Inr res, w))"

text \<open>\<open>getManagedPolicies\<close>; \<open>opID\<close> is what it tells \<open>RecordAPICall\<close>.\<close>

definition get_managed_policies ::
  "('p \<Rightarrow> bool) \<Rightarrow> ('p \<Rightarrow> 'b \<Rightarrow> ('p \<times> string ptr list ptr \<times> error option) \<times> 'b) \<Rightarrow> 'p \<Rightarrow> string \<Rightarrow>
     ('b, string ptr slice \<times> error option) go" where
  "get_managed_policies has_more next_page paginator opID w = do {
     (res, w) \<leftarrow> list_pages has_more next_page (\<lambda>xs res. res @ xs) paginator [] w;
     (case res of
        Inl e \<Rightarrow> Some ((None, Some e), w)
      | Inr res \<Rightarrow> Some ((Some res, None), RecordAPICall ''READ_MANY'' opID None w))
   }"

subsection \<open>Inline policies\<close>

definition decodeDocument :: "ack_rt \<Rightarrow> string \<Rightarrow> string \<times> error option" where
  "decodeDocument r encoded = QueryUnescape r encoded"

text \<open>
  The body of the second loop of \<open>syncInlinePolicies\<close>: an entry that was just put under the same
  name is skipped.
\<close>

definition remove_stale ::
  "ack_rt \<Rightarrow> (string \<Rightarrow> ('b, error option) go) \<Rightarrow> (string \<times> string) list \<Rightarrow> string \<times> string \<Rightarrow> ('b, error option) go" where
  "remove_stale r remove toAdd pair w =
     (if Find r toAdd (\<lambda>entry. fst entry = fst pair) then Some (None, w)
      else remove (fst pair) w)"

definition sync_inline_policies ::
  "ack_rt \<Rightarrow> (string \<Rightarrow> string ptr \<Rightarrow> ('b, error option) go) \<Rightarrow> (string \<Rightarrow> ('b, error option) go) \<Rightarrow>
     'a policy_holder_scheme \<Rightarrow> 'a policy_holder_scheme \<Rightarrow> ('b, error option) go" where
  "sync_inline_policies r add remove desired latest w = do {
     existing \<leftarrow> MapStringFromMapStringPointers (Spec_InlinePolicies latest);
     let existingPairs = ToPairs r existing;
     wanted \<leftarrow> MapStringFromMapStringPointers (Spec_InlinePolicies desired);
     let desiredPairs = ToPairs r wanted;
     let (toDelete, toAdd) = Difference r existingPairs desiredPairs;
     (err, w) \<leftarrow> for_each (\<lambda>(polName, polDoc). add polName (Some polDoc)) toAdd w;
     (case err of
        Some e \<Rightarrow> Some (Some e, w)
      | None \<Rightarrow> for_each (remove_stale r remove toAdd) toDelete w)
   }"

text \<open>
  The second loop of \<open>getInlinePolicies\<close>, a document per name. \<open>get\<close> is the package's
  \<open>Get...Policy\<close> call for the resource's name, \<open>opID\<close> what it tells \<open>RecordAPICall\<close>.
\<close>

primrec inline_policy_docs ::
  "ack_rt \<Rightarrow> (string ptr \<Rightarrow> 'b \<Rightarrow> (string ptr ptr \<times> error option) \<times> 'b) \<Rightarrow> string \<Rightarrow>
     string list \<Rightarrow> (string, string ptr) gomap \<Rightarrow> 'b world \<Rightarrow> ((error + (string, string ptr) gomap) \<times> 'b world) option" where
  "inline_policy_docs r get opID [] res w = Some (Inr res, w)"
| "inline_policy_docs r get opID (polName # polNames) res w = do {
     let ((resp, err), w) = sdk_call (get (Some polName)) w;
     let w = RecordAPICall ''READ_ONE'' opID err w;
     (case err of
        Some e \<Rightarrow> Some (Inl e, w)
      | None \<Rightarrow> do {
          policyDocument \<leftarrow> resp;
          doc \<leftarrow> policyDocument;
          let (cleanedDoc, err) = decodeDocument r doc;
          (case err of
             Some e \<Rightarrow> Some (Inl e, w)
           | None \<Rightarrow> inline_policy_docs r get opID polNames (AList.update polName (Some cleanedDoc) res) w) })
   }"

text \<open>\<open>getInlinePolicies\<close>: the names, page by page, then a document per name.\<close>

definition get_inline_policies ::
  "ack_rt \<Rightarrow> ('p \<Rightarrow> bool) \<Rightarrow> ('p \<Rightarrow> 'b \<Rightarrow> ('p \<times> string list ptr \<times> error option) \<times> 'b) \<Rightarrow> 'p \<Rightarrow> string \<Rightarrow>
     (string ptr \<Rightarrow> 'b \<Rightarrow> (string ptr ptr \<times> error option) \<times> 'b) \<Rightarrow> string \<Rightarrow>
     ('b, (string, string ptr) gomap \<times> error option) go" where
  "get_inline_policies r has_more next_page paginator listID get getID w = do {
     (res, w) \<leftarrow> list_pages has_more next_page (fold (\<lambda>p res. AList.update p None res)) paginator [] w;
     (case res of
        Inl e \<Rightarrow> Some (([], Some e), w)
      | Inr res \<Rightarrow> do {
          let w = RecordAPICall ''READ_MANY'' listID None w;
          (docs, w) \<leftarrow> inline_policy_docs r get getID (map_order r (keys res)) res w;
          (case docs of Inl e \<Rightarrow> Some (([], Some e), w) | Inr res \<Rightarrow> Some ((res, None), w)) })
   }"

subsection \<open>What the hooks do, in terms of the calls\<close>

lemma sync_managed_eq:
  assumes "in_string_ok r"
    and "elems (Spec_Policies desired) = map Some ds" and "elems (Spec_Policies latest) = map Some ls"
  shows "sync_managed_policies r add remove desired latest w = do {
     (err, w) \<leftarrow> for_each (\<lambda>p. add (Some p)) (filter (\<lambda>p. p \<notin> set ls) ds) w;
     (case err of Some e \<Rightarrow> Some (Some e, w)
      | None \<Rightarrow> for_each (\<lambda>p. remove (Some p)) (filter (\<lambda>p. p \<notin> set ds) ls) w) }"
  by (simp add: sync_managed_policies_def assms(2,3) select_InStringPs [OF assms(1)] for_each_map cong: option.case_cong)

lemma sync_inline_eq:
  assumes "lo_ok r"
    and "Spec_InlinePolicies desired = point_at ds" and "Spec_InlinePolicies latest = point_at ls"
    and "Difference r (ToPairs r ls) (ToPairs r ds) = (toDelete, toAdd)"
  shows "sync_inline_policies r add remove desired latest w = do {
     (err, w) \<leftarrow> for_each (\<lambda>(k, d). add k (Some d)) toAdd w;
     (case err of Some e \<Rightarrow> Some (Some e, w)
      | None \<Rightarrow> for_each remove (stale toAdd toDelete) w) }"
proof -
  have "for_each (remove_stale r remove toAdd) xs u = for_each remove (stale toAdd xs) u" for xs u
    unfolding stale_def for_each_map
    by (rule for_each_filter) (use assms(1) in \<open>auto simp: remove_stale_def lo_ok_def image_iff\<close>)
  with assms show ?thesis
    by (simp add: sync_inline_policies_def point_at_strings cong: option.case_cong)
qed

text \<open>A listing that \<open>lists\<close> its pages is read to the end, one that \<open>fails_at\<close> a page gives its error.\<close>

lemma list_pages_eq:
  "list_pages has_more next_page absorb p res w =
    (if has_more p then (case sdk_call (next_page p) w of
        ((p', pg, Some err), w') \<Rightarrow> Some (Inl err, w')
      | ((p', None, None), w') \<Rightarrow> None
      | ((p', Some xs, None), w') \<Rightarrow> list_pages has_more next_page absorb p' (absorb xs res) w')
     else Some (Inr res, w))"
  by (subst list_pages.simps) (auto simp: split_beta Let_def split: option.splits prod.splits)

interpretation listing: paged_listing
  "\<lambda>e. list_pages (fst e) (fst (snd e)) (snd (snd e))" fst "\<lambda>e p. sdk_call (fst (snd e) p)" "\<lambda>e. snd (snd e)"
  by unfold_locales (rule list_pages_eq)

lemma get_managed_policies_lists:
  assumes "lists has_more (\<lambda>p. sdk_call (next_page p)) p w pages w'"
  shows "get_managed_policies has_more next_page p opID w =
    Some ((Some (concat pages), None), RecordAPICall ''READ_MANY'' opID None w')"
  using listing.loop_lists [of "(has_more, next_page, \<lambda>xs res. res @ xs)" p w pages w' "[]"] assms
  by (simp add: get_managed_policies_def fold_append)

lemma get_managed_policies_fails:
  assumes "fails_at has_more (\<lambda>p. sdk_call (next_page p)) p w err w'"
  shows "get_managed_policies has_more next_page p opID w = Some ((None, Some err), w')"
  using listing.loop_fails [of "(has_more, next_page, \<lambda>xs res. res @ xs)" p w err w' "[]"] assms
  by (simp add: get_managed_policies_def)

text \<open>\<open>Get...Policy\<close> returns the stored document percent-encoded, and changes nothing.\<close>

definition reads_inline ::
  "(string ptr \<Rightarrow> 'b \<Rightarrow> (string ptr ptr \<times> error option) \<times> 'b) \<Rightarrow> ('b \<Rightarrow> (string \<rightharpoonup> string)) \<Rightarrow> bool" where
  "reads_inline get stored \<longleftrightarrow> (\<forall>p d b. stored b p = Some d \<longrightarrow> get (Some p) b = ((Some (Some (pct_encode d)), None), b))"

interpretation docs: inline_docs
  "\<lambda>(r, get, opID, stored). inline_policy_docs r get opID"
  "\<lambda>(r, get, opID, stored). reads_inline get stored" "\<lambda>(r, get, opID, stored). stored"
  by unfold_locales
    (auto simp: reads_inline_def decodeDocument_def QueryUnescape_pct_encode
      intro: exI [of _ "RecordAPICall t i e w" for t i e w])

lemma get_inline_policies_reads:
  assumes ord: "valid_order (map_order r)" and ok: "reads_inline get stored"
    and run: "lists has_more (\<lambda>p. sdk_call (next_page p)) p w pages w'"
    and all: "set (concat pages) = dom (stored (aws w'))"
  shows "\<exists>res w''. get_inline_policies r has_more next_page p listID get getID w = Some ((res, None), w'') \<and> wf_map res \<and>
    map_of res = map_option Some \<circ> stored (aws w') \<and> aws w'' = aws w'"
proof -
  define names where "names = fold (\<lambda>p res. AList.update p (None :: string ptr) res) (concat pages) []"
  have first: "list_pages has_more next_page (fold (\<lambda>p res. AList.update p None res)) p [] w = Some (Inr names, w')"
    using listing.loop_lists [of "(has_more, next_page, fold (\<lambda>p res. AList.update p None res))" p w pages w' "[]"] run
    by (simp add: names_def fold_update_pages)
  from docs.all_docs_read [OF ord, of "(r, get, getID, stored)" pages "RecordAPICall ''READ_MANY'' listID None w'" names]
  show ?thesis using first ok all by (auto simp: get_inline_policies_def Let_def names_def)
qed

end
