(* ===== verification/RoleApi.thy ===== *)
theory RoleApi
  imports Holder
begin

text \<open>
  The data of the role package: the \<open>Role\<close> custom resource of \<open>apis/v1alpha1/role.go\<close>
  (the field \<open>ko.Spec.X\<close> is \<open>Spec_X\<close>, \<open>ko.Status.X\<close> is \<open>Status_X\<close>; the nested structs are one
  record, the fields it shares with the other policy holders are those of \<open>bounded_holder\<close>), the parts of the SDK's types the code reads and writes, and the record \<open>role_sdk\<close> of
  the SDK client's operations the package calls. Each operation takes the request's fields and
  the backend's state and returns the response pointer, the error, and the next state.
\<close>

record RoleLastUsed =
  LastUsedDate :: "time ptr"
  LastUsedRegion :: "string ptr"

record Role = bounded_holder +
  Spec_AssumeRolePolicyDocument :: "string ptr"
  Spec_Description :: "string ptr"
  Spec_MaxSessionDuration :: "int64 ptr"
  Status_RoleID :: "string ptr"
  Status_RoleLastUsed :: "RoleLastUsed ptr"

text \<open>\<open>svcsdktypes.Role\<close>, as \<open>GetRole\<close> and \<open>CreateRole\<close> return it.\<close>

record SdkRole =
  Role_Arn :: "string ptr"
  Role_AssumeRolePolicyDocument :: "string ptr"
  Role_CreateDate :: "time ptr"
  Role_Description :: "string ptr"
  Role_MaxSessionDuration :: "int32 ptr"
  Role_Path :: "string ptr"
  Role_PermissionsBoundary :: "string ptr ptr" \<comment> \<open>the struct's \<open>PermissionsBoundaryArn\<close>\<close>
  Role_RoleId :: "string ptr"
  Role_RoleLastUsed :: "RoleLastUsed ptr"
  Role_RoleName :: "string ptr"
  Role_Tags :: "Tag slice"

record CreateRoleInput =
  Create_AssumeRolePolicyDocument :: "string ptr"
  Create_Description :: "string ptr"
  Create_MaxSessionDuration :: "int32 ptr"
  Create_Path :: "string ptr"
  Create_PermissionsBoundary :: "string ptr"
  Create_RoleName :: "string ptr"
  Create_Tags :: "Tag slice"

record UpdateRoleInput =
  Update_Description :: "string ptr"
  Update_MaxSessionDuration :: "int32 ptr"
  Update_RoleName :: "string ptr"

record ('b, 'p) role_sdk =
  GetRole :: "string ptr \<Rightarrow> 'b \<Rightarrow> (SdkRole ptr ptr \<times> error option) \<times> 'b"
  CreateRole :: "CreateRoleInput \<Rightarrow> 'b \<Rightarrow> (SdkRole ptr ptr \<times> error option) \<times> 'b"
  UpdateRole :: "UpdateRoleInput \<Rightarrow> 'b \<Rightarrow> error option \<times> 'b"
  DeleteRole :: "string ptr \<Rightarrow> 'b \<Rightarrow> error option \<times> 'b"
  PutRolePermissionsBoundary :: "string ptr \<Rightarrow> string ptr \<Rightarrow> 'b \<Rightarrow> error option \<times> 'b"
  DeleteRolePermissionsBoundary :: "string ptr \<Rightarrow> 'b \<Rightarrow> error option \<times> 'b"
  UpdateAssumeRolePolicy :: "string ptr \<Rightarrow> string ptr \<Rightarrow> 'b \<Rightarrow> error option \<times> 'b"
  AttachRolePolicy :: "string ptr \<Rightarrow> string ptr \<Rightarrow> 'b \<Rightarrow> error option \<times> 'b"
  DetachRolePolicy :: "string ptr \<Rightarrow> string ptr \<Rightarrow> 'b \<Rightarrow> error option \<times> 'b"
  PutRolePolicy :: "string ptr \<Rightarrow> string ptr \<Rightarrow> string ptr \<Rightarrow> 'b \<Rightarrow> error option \<times> 'b"
  DeleteRolePolicy :: "string ptr \<Rightarrow> string ptr \<Rightarrow> 'b \<Rightarrow> error option \<times> 'b"
  GetRolePolicy :: "string ptr \<Rightarrow> string ptr \<Rightarrow> 'b \<Rightarrow> (string ptr ptr \<times> error option) \<times> 'b"
  TagRole :: "string ptr \<Rightarrow> Tag list \<Rightarrow> 'b \<Rightarrow> error option \<times> 'b"
  UntagRole :: "string ptr \<Rightarrow> string list \<Rightarrow> 'b \<Rightarrow> error option \<times> 'b"
  ListRoleTags :: "string ptr \<Rightarrow> string ptr \<Rightarrow> 'b \<Rightarrow> (ListTagsOutput ptr \<times> error option) \<times> 'b"
  NewListAttachedRolePoliciesPaginator :: "string ptr \<Rightarrow> 'p"
  AttachedRolePolicies_HasMorePages :: "'p \<Rightarrow> bool"
  AttachedRolePolicies_NextPage :: "'p \<Rightarrow> 'b \<Rightarrow> ('p \<times> string ptr list ptr \<times> error option) \<times> 'b"
  NewListRolePoliciesPaginator :: "string ptr \<Rightarrow> 'p"
  RolePolicies_HasMorePages :: "'p \<Rightarrow> bool"
  RolePolicies_NextPage :: "'p \<Rightarrow> 'b \<Rightarrow> ('p \<times> string list ptr \<times> error option) \<times> 'b"

record ('b, 'p) role_manager = resourceManager +
  sdkapi :: "('b, 'p) role_sdk"

end
