(* ===== verification/RoleHooks.thy ===== *)
theory RoleHooks
  imports RoleApi
begin

text \<open>
  \<open>pkg/resource/role/hooks.go\<close>: the hand-written part of the role package, which keeps the
  managed policies, inline policies, tags, permissions boundary and trust policy of an IAM role
  in line with the custom resource. A \<open>*resource\<close> argument is the \<open>Role\<close> its \<open>ko\<close> points to.
\<close>

type_synonym ('b, 'p) rm = "('b, 'p) role_manager"

subsection \<open>Permissions boundary and trust policy\<close>

definition putRolePermissionsBoundary :: "('b, 'p) rm \<Rightarrow> Role \<Rightarrow> ('b, error option) go" where
  "putRolePermissionsBoundary rm r w =
     (let (err, w) = sdk_call (PutRolePermissionsBoundary (sdkapi rm) (Spec_Name r) (Spec_PermissionsBoundary r)) w
      in Some (err, RecordAPICall ''UPDATE'' ''PutRolePermissionsBoundary'' err w))"

definition deleteRolePermissionsBoundary :: "('b, 'p) rm \<Rightarrow> Role \<Rightarrow> ('b, error option) go" where
  "deleteRolePermissionsBoundary rm r w =
     (let (err, w) = sdk_call (DeleteRolePermissionsBoundary (sdkapi rm) (Spec_Name r)) w
      in Some (err, RecordAPICall ''UPDATE'' ''DeleteRolePermissionsBoundary'' err w))"

definition syncRolePermissionsBoundary :: "('b, 'p) rm \<Rightarrow> Role \<Rightarrow> ('b, error option) go" where
  "syncRolePermissionsBoundary rm r w =
     (if Spec_PermissionsBoundary r = None \<or> Spec_PermissionsBoundary r = Some []
      then deleteRolePermissionsBoundary rm r w
      else putRolePermissionsBoundary rm r w)"

definition putAssumeRolePolicy :: "('b, 'p) rm \<Rightarrow> Role \<Rightarrow> ('b, error option) go" where
  "putAssumeRolePolicy rm r w =
     (let (err, w) = sdk_call (UpdateAssumeRolePolicy (sdkapi rm) (Spec_Name r) (Spec_AssumeRolePolicyDocument r)) w
      in Some (err, RecordAPICall ''UPDATE'' ''UpdateAssumeRolePolicy'' err w))"

subsection \<open>Managed policies\<close>

definition addManagedPolicy :: "('b, 'p) rm \<Rightarrow> Role \<Rightarrow> string ptr \<Rightarrow> ('b, error option) go" where
  "addManagedPolicy rm r policyARN w =
     (let (err, w) = sdk_call (AttachRolePolicy (sdkapi rm) (Spec_Name r) policyARN) w
      in Some (err, RecordAPICall ''UPDATE'' ''AttachRolePolicy'' err w))"

definition removeManagedPolicy :: "('b, 'p) rm \<Rightarrow> Role \<Rightarrow> string ptr \<Rightarrow> ('b, error option) go" where
  "removeManagedPolicy rm r policyARN w =
     (let (err, w) = sdk_call (DetachRolePolicy (sdkapi rm) (Spec_Name r) policyARN) w
      in Some (err, RecordAPICall ''UPDATE'' ''DetachRolePolicy'' err w))"

definition syncManagedPolicies :: "('b, 'p) rm \<Rightarrow> Role \<Rightarrow> Role \<Rightarrow> ('b, error option) go" where
  "syncManagedPolicies rm desired latest w =
     sync_managed_policies (rt rm) (addManagedPolicy rm desired) (removeManagedPolicy rm desired) desired latest w"

definition getManagedPolicies :: "('b, 'p) rm \<Rightarrow> Role \<Rightarrow> ('b, string ptr slice \<times> error option) go" where
  "getManagedPolicies rm r w =
     get_managed_policies (AttachedRolePolicies_HasMorePages (sdkapi rm)) (AttachedRolePolicies_NextPage (sdkapi rm))
       (NewListAttachedRolePoliciesPaginator (sdkapi rm) (Spec_Name r)) ''ListAttachedRolePolicies'' w"

subsection \<open>Inline policies\<close>

definition addInlinePolicy :: "('b, 'p) rm \<Rightarrow> Role \<Rightarrow> string \<Rightarrow> string ptr \<Rightarrow> ('b, error option) go" where
  "addInlinePolicy rm r policyName policyDoc w = do {
     doc \<leftarrow> policyDoc;
     let (cleanedDoc, err) = decodeDocument (rt rm) doc;
     (case err of
        Some e \<Rightarrow> Some (Some e, w)
      | None \<Rightarrow>
          (let (err, w) = sdk_call (PutRolePolicy (sdkapi rm) (Spec_Name r) (Some policyName) (Some cleanedDoc)) w
           in Some (err, RecordAPICall ''UPDATE'' ''PutRolePolicy'' err w)))
   }"

definition removeInlinePolicy :: "('b, 'p) rm \<Rightarrow> Role \<Rightarrow> string \<Rightarrow> ('b, error option) go" where
  "removeInlinePolicy rm r policyName w =
     (let (err, w) = sdk_call (DeleteRolePolicy (sdkapi rm) (Spec_Name r) (Some policyName)) w
      in Some (err, RecordAPICall ''UPDATE'' ''DeleteRolePolicy'' err w))"

definition syncInlinePolicies :: "('b, 'p) rm \<Rightarrow> Role \<Rightarrow> Role \<Rightarrow> ('b, error option) go" where
  "syncInlinePolicies rm desired latest w =
     sync_inline_policies (rt rm) (addInlinePolicy rm desired) (removeInlinePolicy rm desired) desired latest w"

definition getInlinePolicies :: "('b, 'p) rm \<Rightarrow> Role \<Rightarrow> ('b, (string, string ptr) gomap \<times> error option) go" where
  "getInlinePolicies rm r w =
     get_inline_policies (rt rm) (RolePolicies_HasMorePages (sdkapi rm)) (RolePolicies_NextPage (sdkapi rm))
       (NewListRolePoliciesPaginator (sdkapi rm) (Spec_Name r)) ''ListRolePolicies''
       (GetRolePolicy (sdkapi rm) (Spec_Name r)) ''GetRolePolicy'' w"

subsection \<open>Tags\<close>

definition compareTags :: "ack_rt \<Rightarrow> 'd compare_rt \<Rightarrow> 'd \<Rightarrow> Role \<Rightarrow> Role \<Rightarrow> 'd option" where
  "compareTags r c delta a b = compareTagLists r c delta (elems (Spec_Tags a)) (elems (Spec_Tags b))"

definition customPreCompare :: "ack_rt \<Rightarrow> 'd compare_rt \<Rightarrow> 'd \<Rightarrow> Role \<Rightarrow> Role \<Rightarrow> 'd option" where
  "customPreCompare r c delta a b = compareTags r c delta a b"

definition addTags :: "('b, 'p) rm \<Rightarrow> Role \<Rightarrow> Tag list \<Rightarrow> ('b, error option) go" where
  "addTags rm r tags w =
     (let (err, w) = sdk_call (TagRole (sdkapi rm) (Spec_Name r) (map copyTag tags)) w
      in Some (err, RecordAPICall ''UPDATE'' ''TagRole'' err w))"

definition removeTags :: "('b, 'p) rm \<Rightarrow> Role \<Rightarrow> Tag list \<Rightarrow> ('b, error option) go" where
  "removeTags rm r tags w = do {
     inTagKeys \<leftarrow> traverse Key tags;
     let (err, w) = sdk_call (UntagRole (sdkapi rm) (Spec_Name r) inTagKeys) w;
     Some (err, RecordAPICall ''UPDATE'' ''UntagRole'' err w) }"

definition syncTags :: "('b, 'p) rm \<Rightarrow> Role \<Rightarrow> Role \<Rightarrow> ('b, error option) go" where
  "syncTags rm desired latest w = do {
     let existingTags = elems (Spec_Tags latest);
     toAdd \<leftarrow> notInTags (elems (Spec_Tags desired)) existingTags;
     toDelete \<leftarrow> notInTags existingTags (elems (Spec_Tags desired));
     (err, w) \<leftarrow> (if length toAdd > 0 then addTags rm desired toAdd w else Some (None, w));
     (case err of
        Some e \<Rightarrow> Some (Some e, w)
      | None \<Rightarrow> if length toDelete > 0 then removeTags rm desired toDelete w else Some (None, w))
   }"

text \<open>The \<open>for\<close> loop of \<open>getTags\<close>; \<open>marker\<close> is \<open>input.Marker\<close>, nil at the start.\<close>

partial_function (option) tagPages ::
  "('b, 'p) rm \<Rightarrow> string ptr \<Rightarrow> string ptr \<Rightarrow> Tag list \<Rightarrow> 'b world \<Rightarrow> ((Tag list \<times> error option) \<times> 'b world) option" where
  "tagPages rm name marker res w = do {
     let ((resp, err), w) = sdk_call (ListRoleTags (sdkapi rm) name marker) w;
     (case (err, resp) of
        (None, Some resp) \<Rightarrow> do {
          let res = res @ map copyTag (Tags resp);
          if \<not> IsTruncated resp then Some ((res, err), w)
          else tagPages rm name (Marker resp) res w }
      | _ \<Rightarrow> Some ((res, err), w))
   }"

definition getTags :: "('b, 'p) rm \<Rightarrow> Role \<Rightarrow> ('b, Tag slice \<times> error option) go" where
  "getTags rm r w = do {
     ((res, err), w) \<leftarrow> tagPages rm (Spec_Name r) None [] w;
     Some ((Some res, err), RecordAPICall ''READ_MANY'' ''ListRoleTags'' err w) }"

end
