(* ===== verification/RoleSync.thy ===== *)
theory RoleSync
  imports RoleHooks
begin

text \<open>
  What the role hooks achieve. IAM itself is not part of the repository: the theorems take the
  documented effect of the API calls as named hypotheses about the SDK client, relative to a
  function that reads the attached policies (\<open>attach_ok\<close>), the inline policies (\<open>inline_ok\<close>) or
  the tags (\<open>tagging_ok\<close>) of a role off the backend's state.
\<close>

subsection \<open>The documented effect of the API calls\<close>

definition attach_ok :: "('b, 'p) role_sdk \<Rightarrow> ('b \<Rightarrow> string \<Rightarrow> string set) \<Rightarrow> bool" where
  "attach_ok sdk attached \<longleftrightarrow>
     (\<forall>n p b b'. AttachRolePolicy sdk (Some n) (Some p) b = (None, b') \<longrightarrow>
        attached b' = (attached b)(n := insert p (attached b n))) \<and>
     (\<forall>n p b b'. DetachRolePolicy sdk (Some n) (Some p) b = (None, b') \<longrightarrow>
        attached b' = (attached b)(n := attached b n - {p}))"

text \<open>A failing attach or detach call changes nothing.\<close>

definition attach_atomic :: "('b, 'p) role_sdk \<Rightarrow> ('b \<Rightarrow> string \<Rightarrow> string set) \<Rightarrow> bool" where
  "attach_atomic sdk attached \<longleftrightarrow>
     (\<forall>n p b e b'. AttachRolePolicy sdk n p b = (Some e, b') \<longrightarrow> attached b' = attached b) \<and>
     (\<forall>n p b e b'. DetachRolePolicy sdk n p b = (Some e, b') \<longrightarrow> attached b' = attached b)"

definition inline_ok :: "('b, 'p) role_sdk \<Rightarrow> ('b \<Rightarrow> string \<Rightarrow> (string \<rightharpoonup> string)) \<Rightarrow> bool" where
  "inline_ok sdk inline \<longleftrightarrow>
     (\<forall>n p d b b'. PutRolePolicy sdk (Some n) (Some p) (Some d) b = (None, b') \<longrightarrow>
        inline b' = (inline b)(n := (inline b n)(p \<mapsto> d))) \<and>
     (\<forall>n p b b'. DeleteRolePolicy sdk (Some n) (Some p) b = (None, b') \<longrightarrow>
        inline b' = (inline b)(n := (inline b n)(p := None)))"

definition tagging_ok :: "('b, 'p) role_sdk \<Rightarrow> ('b \<Rightarrow> string \<Rightarrow> (string \<rightharpoonup> string)) \<Rightarrow> bool" where
  "tagging_ok sdk tags \<longleftrightarrow>
     (\<forall>n ts b b'. tag_set ts \<longrightarrow> TagRole sdk (Some n) ts b = (None, b') \<longrightarrow>
        tags b' = (tags b)(n := tags b n ++ tag_map ts)) \<and>
     (\<forall>n ks b b'. UntagRole sdk (Some n) ks b = (None, b') \<longrightarrow>
        tags b' = (tags b)(n := tags b n |` (- set ks)))"

subsection \<open>Managed policies\<close>

text \<open>The attach and detach calls meet the contract of \<open>api_sync\<close>.\<close>

interpretation role_policies: api_sync
  "\<lambda>(rm, r, n, attached). attach_ok (sdkapi rm) attached \<and> Spec_Name r = Some n"
  "\<lambda>(rm, r, n, attached) p. addManagedPolicy rm r (Some p)"
  "\<lambda>(rm, r, n, attached). attached"
  "\<lambda>(rm, r, n, attached) p s. s(n := insert p (s n))"
  "\<lambda>(rm, r, n, attached) p. removeManagedPolicy rm r (Some p)"
  "\<lambda>(rm, r, n, attached) p s. s(n := s n - {p})"
  by unfold_locales
    (auto simp: attach_ok_def addManagedPolicy_def removeManagedPolicy_def prod_eq_iff)

lemma syncManagedPolicies_eq:
  assumes "in_string_ok (rt rm)"
    and "elems (Spec_Policies desired) = map Some ds" and "elems (Spec_Policies latest) = map Some ls"
  shows "syncManagedPolicies rm desired latest w = do {
     (err, w) \<leftarrow> for_each (\<lambda>p. addManagedPolicy rm desired (Some p)) (filter (\<lambda>p. p \<notin> set ls) ds) w;
     (case err of Some e \<Rightarrow> Some (Some e, w)
      | None \<Rightarrow> for_each (\<lambda>p. removeManagedPolicy rm desired (Some p)) (filter (\<lambda>p. p \<notin> set ds) ls) w) }"
  using sync_managed_eq [OF assms] by (simp add: syncManagedPolicies_def cong: option.case_cong)

lemma syncManagedPolicies_attached:
  assumes "in_string_ok (rt rm)" and "attach_ok (sdkapi rm) attached" and "Spec_Name desired = Some n"
    and "elems (Spec_Policies desired) = map Some ds" and "elems (Spec_Policies latest) = map Some ls"
    and "syncManagedPolicies rm desired latest w = Some (None, w')"
  shows "attached (aws w') = (attached (aws w))(n := (attached (aws w) n \<union> (set ds - set ls)) - (set ls - set ds))"
proof -
  have "attached (aws w') = fold (\<lambda>p s. s(n := s n - {p})) (filter (\<lambda>p. p \<notin> set ds) ls)
      (fold (\<lambda>p s. s(n := insert p (s n))) (filter (\<lambda>p. p \<notin> set ls) ds) (attached (aws w)))"
    using role_policies.sync_effect [of "(rm, desired, n, attached)" "filter (\<lambda>p. p \<notin> set ls) ds" w
        "filter (\<lambda>p. p \<notin> set ds) ls" w'] assms(2,3,6)
    by (simp add: syncManagedPolicies_eq [OF assms(1,4,5)] cong: option.case_cong)
  also have "\<dots> = (attached (aws w))(n := (attached (aws w) n \<union> set (filter (\<lambda>p. p \<notin> set ls) ds))
      - set (filter (\<lambda>p. p \<notin> set ds) ls))"
    by (simp only: fold_insert_at fold_remove_at fun_upd_same fun_upd_upd)
  finally show ?thesis by (simp add: set_diff_eq)
qed

lemma addManagedPolicy_returns: "\<exists>err w'. addManagedPolicy rm r p w = Some (err, w')"
  by (simp add: addManagedPolicy_def)

lemma removeManagedPolicy_returns: "\<exists>err w'. removeManagedPolicy rm r p w = Some (err, w')"
  by (simp add: removeManagedPolicy_def)

lemma syncManagedPolicies_returns:
  assumes "in_string_ok (rt rm)"
    and "elems (Spec_Policies desired) = map Some ds" and "elems (Spec_Policies latest) = map Some ls"
  shows "\<exists>err w'. syncManagedPolicies rm desired latest w = Some (err, w')"
proof -
  obtain err u where add: "for_each (\<lambda>p. addManagedPolicy rm desired (Some p)) (filter (\<lambda>p. p \<notin> set ls) ds) w = Some (err, u)"
    using for_each_returns addManagedPolicy_returns by metis
  obtain err' u' where "for_each (\<lambda>p. removeManagedPolicy rm desired (Some p)) (filter (\<lambda>p. p \<notin> set ds) ls) u = Some (err', u')"
    using for_each_returns removeManagedPolicy_returns by metis
  with add show ?thesis
    by (simp add: syncManagedPolicies_eq [OF assms] split: option.splits)
qed

lemma addManagedPolicy_cases:
  assumes "attach_ok (sdkapi rm) attached" and "attach_atomic (sdkapi rm) attached" and "Spec_Name r = Some n"
    and "addManagedPolicy rm r (Some p) w = Some (err, w')"
  shows "attached (aws w') = attached (aws w) \<or> attached (aws w') = (attached (aws w))(n := insert p (attached (aws w) n))"
  using assms
  by (cases "AttachRolePolicy (sdkapi rm) (Some n) (Some p) (aws w)"; cases "fst (AttachRolePolicy (sdkapi rm) (Some n) (Some p) (aws w))")
     (auto simp: addManagedPolicy_def attach_ok_def attach_atomic_def)

lemma removeManagedPolicy_cases:
  assumes "attach_ok (sdkapi rm) attached" and "attach_atomic (sdkapi rm) attached" and "Spec_Name r = Some n"
    and "removeManagedPolicy rm r (Some p) w = Some (err, w')"
  shows "attached (aws w') = attached (aws w) \<or> attached (aws w') = (attached (aws w))(n := attached (aws w) n - {p})"
  using assms
  by (cases "DetachRolePolicy (sdkapi rm) (Some n) (Some p) (aws w)"; cases "fst (DetachRolePolicy (sdkapi rm) (Some n) (Some p) (aws w))")
     (auto simp: removeManagedPolicy_def attach_ok_def attach_atomic_def)

lemma syncManagedPolicies_bounds:
  assumes "in_string_ok (rt rm)" and ok: "attach_ok (sdkapi rm) attached" "attach_atomic (sdkapi rm) attached"
    "Spec_Name desired = Some n"
    and "elems (Spec_Policies desired) = map Some ds" and "elems (Spec_Policies latest) = map Some ls"
    and "attached (aws w) n = set ls"
    and run: "syncManagedPolicies rm desired latest w = Some (err, w')"
  shows "set ds \<inter> set ls \<subseteq> attached (aws w') n \<and> attached (aws w') n \<subseteq> set ds \<union> set ls \<and>
    (\<forall>m. m \<noteq> n \<longrightarrow> attached (aws w') m = attached (aws w) m)"
proof -
  define I where "I u \<longleftrightarrow> set ds \<inter> set ls \<subseteq> attached (aws u) n \<and> attached (aws u) n \<subseteq> set ds \<union> set ls \<and>
    (\<forall>m. m \<noteq> n \<longrightarrow> attached (aws u) m = attached (aws w) m)" for u :: "'a world"
  have add: "I u'" if "p \<in> set (filter (\<lambda>p. p \<notin> set ls) ds)" "I u" "addManagedPolicy rm desired (Some p) u = Some (e, u')" for p u e u'
    using addManagedPolicy_cases [OF ok that(3)] that(1,2) by (auto simp: I_def)
  have remove: "I u'" if "p \<in> set (filter (\<lambda>p. p \<notin> set ds) ls)" "I u" "removeManagedPolicy rm desired (Some p) u = Some (e, u')" for p u e u'
    using removeManagedPolicy_cases [OF ok that(3)] that(1,2) by (auto simp: I_def)
  obtain e u where first: "for_each (\<lambda>p. addManagedPolicy rm desired (Some p)) (filter (\<lambda>p. p \<notin> set ls) ds) w = Some (e, u)"
    using run by (auto simp: syncManagedPolicies_eq [OF assms(1,5,6)] split: Option.bind_splits)
  have "I w" using assms(7) by (auto simp: I_def)
  from first this have u: "I u" by (rule for_each_keeps [where I = I]) (rule add)
  have "I w'"
  proof (cases e)
    case None
    with run first have "for_each (\<lambda>p. removeManagedPolicy rm desired (Some p)) (filter (\<lambda>p. p \<notin> set ds) ls) u = Some (err, w')"
      by (simp add: syncManagedPolicies_eq [OF assms(1,5,6)])
    then show ?thesis using u by (rule for_each_keeps [where I = I]) (rule remove)
  next
    case (Some x)
    with run first u show ?thesis by (simp add: syncManagedPolicies_eq [OF assms(1,5,6)])
  qed
  then show ?thesis by (simp add: I_def)
qed

subsection \<open>Inline policies\<close>

interpretation role_inline: api_sync
  "\<lambda>(rm, r, n, inline). inline_ok (sdkapi rm) inline \<and> Spec_Name r = Some n"
  "\<lambda>(rm, r, n, inline) (k, d). addInlinePolicy rm r k (Some d)"
  "\<lambda>(rm, r, n, inline). inline"
  "\<lambda>(rm, r, n, inline) (k, d) s. s(n := (s n)(k \<mapsto> fst (decodeDocument (rt rm) d)))"
  "\<lambda>(rm, r, n, inline) k. removeInlinePolicy rm r k"
  "\<lambda>(rm, r, n, inline) k s. s(n := (s n)(k := None))"
  by unfold_locales
    (auto simp: inline_ok_def addInlinePolicy_def removeInlinePolicy_def prod_eq_iff split_beta
      split: option.splits)

lemma syncInlinePolicies_eq:
  assumes "lo_ok (rt rm)"
    and "Spec_InlinePolicies desired = point_at ds" and "Spec_InlinePolicies latest = point_at ls"
    and "Difference (rt rm) (ToPairs (rt rm) ls) (ToPairs (rt rm) ds) = (toDelete, toAdd)"
  shows "syncInlinePolicies rm desired latest w = do {
     (err, w) \<leftarrow> for_each (\<lambda>(k, d). addInlinePolicy rm desired k (Some d)) toAdd w;
     (case err of Some e \<Rightarrow> Some (Some e, w)
      | None \<Rightarrow> for_each (removeInlinePolicy rm desired) (stale toAdd toDelete) w) }"
  using sync_inline_eq [OF assms] by (simp add: syncInlinePolicies_def cong: option.case_cong)

lemma syncInlinePolicies_inline:
  assumes lo: "lo_ok (rt rm)" and ok: "inline_ok (sdkapi rm) inline" and n: "Spec_Name desired = Some n"
    and ds: "Spec_InlinePolicies desired = point_at ds" "wf_map ds"
    and ls: "Spec_InlinePolicies latest = point_at ls" "wf_map ls" "inline (aws w) n = map_of ls"
    and run: "syncInlinePolicies rm desired latest w = Some (None, w')"
  shows "inline (aws w') = (inline (aws w))(n := (\<lambda>k. case map_of ds k of
      None \<Rightarrow> None
    | Some d \<Rightarrow> Some (if map_of ls k = Some d then d else fst (decodeDocument (rt rm) d))))"
proof -
  obtain toDelete toAdd where diff: "Difference (rt rm) (ToPairs (rt rm) ls) (ToPairs (rt rm) ds) = (toDelete, toAdd)"
    and add: "set toAdd = set ds - set ls" "wf_map toAdd" and del: "set toDelete = set ls - set ds"
    using lo_difference [OF lo ls(2) ds(2)] by metis
  have "inline (aws w') = fold (\<lambda>k s. s(n := (s n)(k := None))) (stale toAdd toDelete)
      (fold (\<lambda>(k, d) s. s(n := (s n)(k \<mapsto> fst (decodeDocument (rt rm) d)))) toAdd (inline (aws w)))"
    using role_inline.sync_effect [of "(rm, desired, n, inline)" toAdd w "stale toAdd toDelete" w'] ok n run
    by (simp add: syncInlinePolicies_eq [OF lo ds(1) ls(1) diff] stale_def cong: option.case_cong)
  then show ?thesis
    using inline_put_delete [OF ds(2) ls(2) add del, of "\<lambda>d. fst (decodeDocument (rt rm) d)"] ls(3)
    by (simp only: fold_inline_at put_documents_def)
qed

lemma syncInlinePolicies_exact:
  assumes lo: "lo_ok (rt rm)" and ok: "inline_ok (sdkapi rm) inline" and n: "Spec_Name desired = Some n"
    and ds: "Spec_InlinePolicies desired = point_at ds" "wf_map ds"
    and ls: "Spec_InlinePolicies latest = point_at ls" "wf_map ls" "inline (aws w) n = map_of ls"
    and run: "syncInlinePolicies rm desired latest w = Some (None, w')"
  shows "inline (aws w') n = map_of ds \<longleftrightarrow>
    (\<forall>(k, d) \<in> set ds - set ls. CHR ''%'' \<notin> set d \<and> CHR ''+'' \<notin> set d)"
proof -
  let ?put = "\<lambda>k d. if map_of ls k = Some d then d else fst (decodeDocument (rt rm) d)"
  have "inline (aws w') n = map_of ds \<longleftrightarrow> (\<forall>k d. map_of ds k = Some d \<longrightarrow> ?put k d = d)"
    unfolding syncInlinePolicies_inline [OF assms] by (auto simp: fun_eq_iff split: option.splits)
  also have "\<dots> \<longleftrightarrow> (\<forall>(k, d) \<in> set ds. (k, d) \<in> set ls \<or> fst (decodeDocument (rt rm) d) = d)"
    using ds(2) ls(2) by (simp add: Ball_def) metis
  finally show ?thesis by (auto simp: decodeDocument_def fst_QueryUnescape_id_iff)
qed

subsection \<open>Tags\<close>

lemma syncTags_eq:
  assumes ds: "tag_set (elems (Spec_Tags desired))" and ls: "tag_set (elems (Spec_Tags latest))"
  defines "toAdd \<equiv> filter (\<lambda>t. t \<notin> set (elems (Spec_Tags latest))) (elems (Spec_Tags desired))"
    and "toDelete \<equiv> filter (\<lambda>t. t \<notin> set (elems (Spec_Tags desired))) (elems (Spec_Tags latest))"
  shows "syncTags rm desired latest w = do {
     (err, w) \<leftarrow> (if toAdd \<noteq> [] then addTags rm desired toAdd w else Some (None, w));
     (case err of Some e \<Rightarrow> Some (Some e, w)
      | None \<Rightarrow> if toDelete \<noteq> [] then removeTags rm desired toDelete w else Some (None, w)) }"
  using ds ls by (simp add: syncTags_def toAdd_def toDelete_def Let_def notInTags_tag_set cong: option.case_cong)

lemma addTags_effect:
  assumes "tagging_ok (sdkapi rm) tags" and "Spec_Name r = Some n" and "tag_set ts"
    and "addTags rm r ts w = Some (None, w')"
  shows "tags (aws w') = (tags (aws w))(n := tags (aws w) n ++ tag_map ts)"
  using assms by (auto simp: addTags_def tagging_ok_def prod_eq_iff)

lemma removeTags_effect:
  assumes "tagging_ok (sdkapi rm) tags" and "Spec_Name r = Some n" and "tag_set ts"
    and "removeTags rm r ts w = Some (None, w')"
  shows "tags (aws w') = (tags (aws w))(n := tags (aws w) n |` (- set (tag_keys ts)))"
  using assms by (auto simp: removeTags_def traverse_Key tagging_ok_def prod_eq_iff)

lemma syncTags_tags:
  assumes ok: "tagging_ok (sdkapi rm) tags" and n: "Spec_Name desired = Some n"
    and ds: "elems (Spec_Tags desired) = ds" "tag_set ds"
    and ls: "elems (Spec_Tags latest) = ls" "tag_set ls" "tags (aws w) n = tag_map ls"
    and run: "syncTags rm desired latest w = Some (None, w')"
  shows "tags (aws w') = (tags (aws w))(n := (\<lambda>k.
     if tag_map ls k \<noteq> None \<and> tag_map ls k \<noteq> tag_map ds k then None else tag_map ds k))"
proof -
  let ?add = "filter (\<lambda>t. t \<notin> set ls) ds" and ?del = "filter (\<lambda>t. t \<notin> set ds) ls"
  have sets: "tag_set ?add" "tag_set ?del" using ds ls by (simp_all add: tag_set_filter)
  obtain u where add: "(if ?add \<noteq> [] then addTags rm desired ?add w else Some (None, w)) = Some (None, u)"
    and del: "(if ?del \<noteq> [] then removeTags rm desired ?del u else Some (None, u)) = Some (None, w')"
    using run ds ls by (auto simp: syncTags_eq split: Option.bind_splits option.splits)
  have "tags (aws u) = (tags (aws w))(n := tag_map ls ++ tag_map ?add)"
    using add addTags_effect [OF ok n sets(1)] ls(3)
    by (cases "?add = []") (auto simp: tag_map_def fun_upd_idem)
  moreover have "tags (aws w') = (tags (aws u))(n := tags (aws u) n |` (- set (tag_keys ?del)))"
    using del removeTags_effect [OF ok n sets(2)]
    by (cases "?del = []") (auto simp: tag_keys_def restrict_map_def)
  ultimately show ?thesis using add_then_remove [OF ls(2) ds(2)] by simp
qed

subsection \<open>Reading the tags\<close>

text \<open>One turn of the loop of \<open>getTags\<close>.\<close>

definition tagFetch :: "('b, 'p) rm \<times> string ptr \<Rightarrow> string ptr \<Rightarrow> 'b world \<Rightarrow> (Tag, string ptr) page \<times> 'b world" where
  "tagFetch e marker w =
     (let ((resp, err), w) = sdk_call (ListRoleTags (sdkapi (fst e)) (snd e) marker) w
      in (case (err, resp) of
            (None, Some resp) \<Rightarrow> (if IsTruncated resp then More (Tags resp) (Marker resp) else Last (Tags resp))
          | _ \<Rightarrow> Stop err, w))"

interpretation role_tag_pages: pager "\<lambda>e. tagPages (fst e) (snd e)" tagFetch
proof unfold_locales
  fix e m res w
  show "tagPages (fst e) (snd e) m res w = (case tagFetch e m w of
     (Stop err, w') \<Rightarrow> Some ((res, err), w')
   | (Last xs, w') \<Rightarrow> Some ((res @ xs, None), w')
   | (More xs m', w') \<Rightarrow> tagPages (fst e) (snd e) m' (res @ xs) w'
   | (Crash, w') \<Rightarrow> None)"
    by (subst tagPages.simps) (auto simp: tagFetch_def split_beta Let_def split: option.splits)
qed

lemma getTags_serves:
  assumes "serves (tagFetch (rm, Spec_Name r)) None w pages w'"
  shows "getTags rm r w = Some ((Some (concat pages), None), RecordAPICall ''READ_MANY'' ''ListRoleTags'' None w')"
  using role_tag_pages.loop_serves [of "(rm, Spec_Name r)" None w pages w' "[]"] assms
  by (simp add: getTags_def)

lemma getTags_breaks:
  assumes "breaks (tagFetch (rm, Spec_Name r)) None w pages err w'"
  shows "getTags rm r w = Some ((Some (concat pages), err), RecordAPICall ''READ_MANY'' ''ListRoleTags'' err w')"
  using role_tag_pages.loop_breaks [of "(rm, Spec_Name r)" None w pages err w' "[]"] assms
  by (simp add: getTags_def)

subsection \<open>Reading the policies\<close>

text \<open>One call of a paginator: the paginator moves, and a page of the response is handed out.\<close>

definition attachedPage ::
  "('b, 'p) rm \<Rightarrow> 'p \<Rightarrow> 'b world \<Rightarrow> ('p \<times> string ptr list ptr \<times> error option) \<times> 'b world" where
  "attachedPage rm p w = sdk_call (AttachedRolePolicies_NextPage (sdkapi rm) p) w"

lemma getManagedPolicies_lists:
  assumes "lists (AttachedRolePolicies_HasMorePages (sdkapi rm)) (attachedPage rm)
      (NewListAttachedRolePoliciesPaginator (sdkapi rm) (Spec_Name r)) w pages w'"
  shows "getManagedPolicies rm r w =
    Some ((Some (concat pages), None), RecordAPICall ''READ_MANY'' ''ListAttachedRolePolicies'' None w')"
  using get_managed_policies_lists assms unfolding attachedPage_def getManagedPolicies_def by fast

lemma getManagedPolicies_fails:
  assumes "fails_at (AttachedRolePolicies_HasMorePages (sdkapi rm)) (attachedPage rm)
      (NewListAttachedRolePoliciesPaginator (sdkapi rm) (Spec_Name r)) w err w'"
  shows "getManagedPolicies rm r w = Some ((None, Some err), w')"
  using get_managed_policies_fails assms unfolding attachedPage_def getManagedPolicies_def by fast

definition inlinePage ::
  "('b, 'p) rm \<Rightarrow> 'p \<Rightarrow> 'b world \<Rightarrow> ('p \<times> string list ptr \<times> error option) \<times> 'b world" where
  "inlinePage rm p w = sdk_call (RolePolicies_NextPage (sdkapi rm) p) w"

text \<open>\<open>GetRolePolicy\<close> returns the stored document percent-encoded, and changes nothing.\<close>

definition read_inline_ok :: "('b, 'p) role_sdk \<Rightarrow> ('b \<Rightarrow> string \<Rightarrow> (string \<rightharpoonup> string)) \<Rightarrow> bool" where
  "read_inline_ok sdk inline \<longleftrightarrow> (\<forall>n p d b. inline b n p = Some d \<longrightarrow>
     GetRolePolicy sdk (Some n) (Some p) b = ((Some (Some (pct_encode d)), None), b))"

lemma getInlinePolicies_reads:
  assumes ord: "valid_order (map_order (rt rm))"
    and ok: "read_inline_ok (sdkapi rm) inline" and n: "Spec_Name r = Some n"
    and run: "lists (RolePolicies_HasMorePages (sdkapi rm)) (inlinePage rm)
      (NewListRolePoliciesPaginator (sdkapi rm) (Some n)) w pages w'"
    and all: "set (concat pages) = dom (inline (aws w') n)"
  shows "\<exists>res w''. getInlinePolicies rm r w = Some ((res, None), w'') \<and> wf_map res \<and>
    map_of res = map_option Some \<circ> inline (aws w') n \<and> aws w'' = aws w'"
proof -
  have "reads_inline (GetRolePolicy (sdkapi rm) (Some n)) (\<lambda>b. inline b n)"
    using ok by (simp add: read_inline_ok_def reads_inline_def)
  from get_inline_policies_reads [OF ord this run [unfolded inlinePage_def] all] show ?thesis
    by (simp add: getInlinePolicies_def n)
qed

end
