(* ===== verification/RoleSdk.thy ===== *)
theory RoleSdk
  imports RoleHooks Compare
begin

text \<open>
  \<open>pkg/resource/role/sdk.go\<close>: reading, creating, updating and deleting an IAM role. A
  \<open>*resource\<close> result is the pointer to the \<open>Role\<close> it wraps. The assignments of the form
  \<open>if resp.X != nil { ko.X = resp.X } else { ko.X = nil }\<close> are plain copies. \<open>DeepCopy\<close> is the
  identity, since records are values.
\<close>

subsection \<open>Reading\<close>

definition requiredFieldsMissingFromReadOneInput :: "Role \<Rightarrow> bool" where
  "requiredFieldsMissingFromReadOneInput r \<longleftrightarrow> Spec_Name r = None"

definition newDescribeRequestPayload :: "Role \<Rightarrow> string ptr" where
  "newDescribeRequestPayload r = Spec_Name r"

definition copyRoleLastUsed :: "RoleLastUsed \<Rightarrow> RoleLastUsed" where
  "copyRoleLastUsed u = \<lparr>LastUsedDate = LastUsedDate u, LastUsedRegion = LastUsedRegion u\<rparr>"

text \<open>What \<open>sdkFind\<close> takes over from the response of \<open>GetRole\<close>.\<close>

definition fromGetRole :: "SdkRole \<Rightarrow> Role \<Rightarrow> Role" where
  "fromGetRole role ko = (setARN (Role_Arn role) ko)\<lparr>
     Spec_AssumeRolePolicyDocument := Role_AssumeRolePolicyDocument role,
     Status_CreateDate := Role_CreateDate role,
     Spec_Description := Role_Description role,
     Spec_MaxSessionDuration := map_option scast (Role_MaxSessionDuration role),
     Spec_Path := Role_Path role,
     Spec_PermissionsBoundary := (case Role_PermissionsBoundary role of Some arn \<Rightarrow> arn | None \<Rightarrow> None),
     Status_RoleID := Role_RoleId role,
     Status_RoleLastUsed := map_option copyRoleLastUsed (Role_RoleLastUsed role),
     Spec_Name := Role_RoleName role,
     Spec_Tags := map_option (map copyTag) (Role_Tags role)\<rparr>"

text \<open>Decoding \<open>ko.Spec.AssumeRolePolicyDocument\<close> in place; \<open>Inl\<close> is the early return.\<close>

definition decodeTrustPolicy :: "ack_rt \<Rightarrow> Role \<Rightarrow> error + Role" where
  "decodeTrustPolicy r ko = (case Spec_AssumeRolePolicyDocument ko of
     None \<Rightarrow> Inr ko
   | Some d \<Rightarrow> (case decodeDocument r d of
        (_, Some err) \<Rightarrow> Inl err
      | (doc, None) \<Rightarrow> Inr (ko\<lparr>Spec_AssumeRolePolicyDocument := Some doc\<rparr>)))"

definition sdkFind :: "('b, 'p) rm \<Rightarrow> Role \<Rightarrow> ('b, Role ptr \<times> error option) go" where
  "sdkFind rm r w =
     (if requiredFieldsMissingFromReadOneInput r then Some ((None, Some NotFound), w)
      else do {
        let input = newDescribeRequestPayload r;
        let ((resp, err), w) = sdk_call (GetRole (sdkapi rm) input) w;
        let w = RecordAPICall ''READ_ONE'' ''GetRole'' err w;
        (case err of
           Some e \<Rightarrow> Some ((None, Some (if ErrorCode e = Some ''NoSuchEntity'' then NotFound else e)), w)
         | None \<Rightarrow> do {
             output \<leftarrow> resp;
             role \<leftarrow> output;
             let ko = setStatusDefaults rm (fromGetRole role r);
             (case decodeTrustPolicy (rt rm) ko of
                Inl e \<Rightarrow> Some ((None, Some e), w)
              | Inr ko \<Rightarrow> do {
                  ((policies, err), w) \<leftarrow> getManagedPolicies rm ko w;
                  let ko = ko\<lparr>Spec_Policies := policies\<rparr>;
                  (case err of
                     Some e \<Rightarrow> Some ((None, Some e), w)
                   | None \<Rightarrow> do {
                       ((inlinePolicies, err), w) \<leftarrow> getInlinePolicies rm ko w;
                       let ko = ko\<lparr>Spec_InlinePolicies := inlinePolicies\<rparr>;
                       (case err of
                          Some e \<Rightarrow> Some ((None, Some e), w)
                        | None \<Rightarrow> do {
                            ((tags, err), w) \<leftarrow> getTags rm ko w;
                            (case err of
                               Some e \<Rightarrow> Some ((None, Some e), w)
                             | None \<Rightarrow> Some ((Some (ko\<lparr>Spec_Tags := tags\<rparr>), None), w)) }) }) }) })
      })"

subsection \<open>Creating\<close>

text \<open>The range check and conversion of \<open>MaxSessionDuration\<close>; \<open>Inl\<close> is the early return.\<close>

definition int32_of_int64 :: "int64 \<Rightarrow> error + int32" where
  "int32_of_int64 d = (if sint d > 2147483647 \<or> sint d < -2147483648
     then Inl (Errorf ''error: field MaxSessionDuration is of type int32'') else Inr (scast d))"

definition maxSessionDurationInput :: "int64 ptr \<Rightarrow> error + int32 ptr" where
  "maxSessionDurationInput p = (case p of None \<Rightarrow> Inr None
     | Some d \<Rightarrow> (case int32_of_int64 d of Inl e \<Rightarrow> Inl e | Inr i \<Rightarrow> Inr (Some i)))"

definition newCreateRequestPayload :: "Role \<Rightarrow> error + CreateRoleInput" where
  "newCreateRequestPayload r = (case maxSessionDurationInput (Spec_MaxSessionDuration r) of
     Inl e \<Rightarrow> Inl e
   | Inr duration \<Rightarrow> Inr \<lparr>
       Create_AssumeRolePolicyDocument = Spec_AssumeRolePolicyDocument r,
       Create_Description = Spec_Description r,
       Create_MaxSessionDuration = duration,
       Create_Path = Spec_Path r,
       Create_PermissionsBoundary = Spec_PermissionsBoundary r,
       Create_RoleName = Spec_Name r,
       Create_Tags = map_option (map copyTag) (Spec_Tags r)\<rparr>)"

text \<open>What \<open>sdkCreate\<close> takes over from the response of \<open>CreateRole\<close>: not the description.\<close>

definition fromCreateRole :: "SdkRole \<Rightarrow> Role \<Rightarrow> Role" where
  "fromCreateRole role ko = (setARN (Role_Arn role) ko)\<lparr>
     Spec_AssumeRolePolicyDocument := Role_AssumeRolePolicyDocument role,
     Status_CreateDate := Role_CreateDate role,
     Spec_MaxSessionDuration := map_option scast (Role_MaxSessionDuration role),
     Spec_Path := Role_Path role,
     Spec_PermissionsBoundary := (case Role_PermissionsBoundary role of Some arn \<Rightarrow> arn | None \<Rightarrow> None),
     Status_RoleID := Role_RoleId role,
     Status_RoleLastUsed := map_option copyRoleLastUsed (Role_RoleLastUsed role),
     Spec_Name := Role_RoleName role,
     Spec_Tags := map_option (map copyTag) (Role_Tags role)\<rparr>"

definition sdkCreate :: "('b, 'p) rm \<Rightarrow> Role \<Rightarrow> ('b, Role ptr \<times> error option) go" where
  "sdkCreate rm desired w = (case newCreateRequestPayload desired of
     Inl e \<Rightarrow> Some ((None, Some e), w)
   | Inr input \<Rightarrow> do {
       let ((resp, err), w) = sdk_call (CreateRole (sdkapi rm) input) w;
       let w = RecordAPICall ''CREATE'' ''CreateRole'' err w;
       (case err of
          Some e \<Rightarrow> Some ((None, Some e), w)
        | None \<Rightarrow> do {
            output \<leftarrow> resp;
            role \<leftarrow> output;
            let ko = setStatusDefaults rm (fromCreateRole role desired);
            (case decodeTrustPolicy (rt rm) ko of
               Inl e \<Rightarrow> Some ((None, Some e), w)
             | Inr ko \<Rightarrow> Some ((Some ko,
                 Some (RequeueNeeded (rt rm) (Errorf ''role created, requeuing to trigger updates''))), w)) })
     })"

subsection \<open>Updating\<close>

definition newUpdateRequestPayload :: "Role \<Rightarrow> error + UpdateRoleInput" where
  "newUpdateRequestPayload r = (case maxSessionDurationInput (Spec_MaxSessionDuration r) of
     Inl e \<Rightarrow> Inl e
   | Inr duration \<Rightarrow> Inr \<lparr>
       Update_Description = Spec_Description r,
       Update_MaxSessionDuration = duration,
       Update_RoleName = Spec_Name r\<rparr>)"

definition sdkUpdate ::
  "('b, 'p) rm \<Rightarrow> 'd compare_rt \<Rightarrow> Role \<Rightarrow> Role \<Rightarrow> 'd \<Rightarrow> ('b, Role ptr \<times> error option) go" where
  "sdkUpdate rm c desired latest delta w = do {
     (err, w) \<leftarrow> for_each (\<lambda>(path, f). when_different c delta path f)
       [(''Spec.Policies'', syncManagedPolicies rm desired latest),
        (''Spec.InlinePolicies'', syncInlinePolicies rm desired latest),
        (''Spec.Tags'', syncTags rm desired latest),
        (''Spec.PermissionsBoundary'', syncRolePermissionsBoundary rm desired),
        (''Spec.AssumeRolePolicyDocument'', putAssumeRolePolicy rm desired)] w;
     (case err of
        Some e \<Rightarrow> Some ((None, Some e), w)
      | None \<Rightarrow>
          if \<not> DifferentExcept c delta [''Spec.Tags'', ''Spec.Policies'', ''Spec.InlinePolicies'',
               ''Spec.PermissionsBoundary'', ''Spec.AssumeRolePolicyDocument'']
          then Some ((Some desired, None), w)
          else (case newUpdateRequestPayload desired of
             Inl e \<Rightarrow> Some ((None, Some e), w)
           | Inr input \<Rightarrow>
               (let (err, w) = sdk_call (UpdateRole (sdkapi rm) input) w;
                    w = RecordAPICall ''UPDATE'' ''UpdateRole'' err w
                in case err of
                     Some e \<Rightarrow> Some ((None, Some e), w)
                   | None \<Rightarrow> Some ((Some (setStatusDefaults rm desired), None), w))))
   }"

subsection \<open>Deleting\<close>

definition newDeleteRequestPayload :: "Role \<Rightarrow> string ptr" where
  "newDeleteRequestPayload r = Spec_Name r"

definition sdkDelete :: "('b, 'p) rm \<Rightarrow> Role \<Rightarrow> ('b, Role ptr \<times> error option) go" where
  "sdkDelete rm r w = do {
     let roleCpy = r\<lparr>Spec_Policies := None\<rparr>;
     (err, w) \<leftarrow> syncManagedPolicies rm roleCpy r w;
     (case err of
        Some e \<Rightarrow> Some ((None, Some e), w)
      | None \<Rightarrow> do {
          let roleCpy = roleCpy\<lparr>Spec_InlinePolicies := []\<rparr>;
          (err, w) \<leftarrow> syncInlinePolicies rm roleCpy r w;
          (case err of
             Some e \<Rightarrow> Some ((None, Some e), w)
           | None \<Rightarrow>
               (let input = newDeleteRequestPayload r;
                    (err, w) = sdk_call (DeleteRole (sdkapi rm) input) w;
                    w = RecordAPICall ''DELETE'' ''DeleteRole'' err w
                in Some ((None, err), w))) })
   }"

text \<open>The \<open>Terminal\<close> exception codes of the package.\<close>

definition terminalCodes :: "string list" where
  "terminalCodes = [''InvalidInput'', ''MalformedPolicyDocument'']"

end
