(* ===== verification/RoleCrud.thy ===== *)
theory RoleCrud
  imports RoleSync RoleSdk
begin

text \<open>
  What the CRUD calls of the role package do, composed from the facts about the hooks in
  \<open>RoleSync\<close>: what \<open>sdkFind\<close> observes, which requests \<open>sdkCreate\<close> and \<open>sdkUpdate\<close> make, in which
  state of the backend \<open>sdkDelete\<close> deletes the role.
\<close>

subsection \<open>The session duration\<close>

lemma int32_of_int64_Inr:
  "int32_of_int64 d = Inr i \<longleftrightarrow> -2147483648 \<le> sint d \<and> sint d \<le> 2147483647 \<and> i = scast d"
  by (auto simp: int32_of_int64_def)

lemma scast_int32:
  assumes "-2147483648 \<le> sint (d :: int64)" and "sint d \<le> 2147483647"
  shows "sint (scast d :: int32) = sint d" and "scast (scast d :: int32) = d"
proof -
  have "sint (word_of_int (sint d) :: int32) = sint d"
    unfolding sint_sbintrunc' using assms by (intro signed_take_bit_int_eq_self) simp_all
  then show *: "sint (scast d :: int32) = sint d" by (simp only: scast_eq)
  then show "scast (scast d :: int32) = d" by (metis scast_eq scast_id)
qed

text \<open>
  The conversion accepts a duration exactly when an \<open>int32\<close> can hold it, and what it sends reads
  back as the same duration.
\<close>

lemma maxSessionDurationInput_Inr:
  "maxSessionDurationInput p = Inr q \<longleftrightarrow>
     (\<forall>d. p = Some d \<longrightarrow> -2147483648 \<le> sint d \<and> sint d \<le> 2147483647) \<and> q = map_option scast p"
  by (auto simp: maxSessionDurationInput_def int32_of_int64_def split: option.splits)

lemma maxSessionDurationInput_back:
  assumes "maxSessionDurationInput p = Inr q"
  shows "map_option scast q = p"
  using assms by (cases p) (auto simp: maxSessionDurationInput_Inr scast_int32(2))

lemma newCreateRequestPayload_Inr:
  "newCreateRequestPayload r = Inr input \<longleftrightarrow>
     (\<exists>d. maxSessionDurationInput (Spec_MaxSessionDuration r) = Inr d \<and> input = \<lparr>
       Create_AssumeRolePolicyDocument = Spec_AssumeRolePolicyDocument r, Create_Description = Spec_Description r,
       Create_MaxSessionDuration = d, Create_Path = Spec_Path r, Create_PermissionsBoundary = Spec_PermissionsBoundary r,
       Create_RoleName = Spec_Name r, Create_Tags = Spec_Tags r\<rparr>)"
  by (auto simp: newCreateRequestPayload_def split: sum.splits)

subsection \<open>Reading a role\<close>

text \<open>
  What IAM answers about the role \<open>n\<close> in the backend state \<open>b\<close>: the role itself, the pages of its
  attached policies, inline policy names and tags, none of these calls changing anything.
\<close>

definition describes_role ::
  "('b, 'p) rm \<Rightarrow> 'b \<Rightarrow> string \<Rightarrow> SdkRole \<Rightarrow> string ptr list \<Rightarrow> (string \<rightharpoonup> string) \<Rightarrow> Tag list \<Rightarrow> bool" where
  "describes_role rm b n role attached inline tags \<longleftrightarrow>
     GetRole (sdkapi rm) (Some n) b = ((Some (Some role), None), b) \<and>
     (\<forall>w. aws w = b \<longrightarrow> (\<exists>pages. lists (AttachedRolePolicies_HasMorePages (sdkapi rm)) (attachedPage rm)
        (NewListAttachedRolePoliciesPaginator (sdkapi rm) (Some n)) w pages w \<and> concat pages = attached)) \<and>
     (\<forall>w. aws w = b \<longrightarrow> (\<exists>pages. lists (RolePolicies_HasMorePages (sdkapi rm)) (inlinePage rm)
        (NewListRolePoliciesPaginator (sdkapi rm) (Some n)) w pages w \<and> set (concat pages) = dom inline)) \<and>
     (\<forall>w. aws w = b \<longrightarrow> (\<exists>pages. serves (tagFetch (rm, Some n)) None w pages w \<and> concat pages = tags))"

lemma sdkFind_describes:
  assumes ord: "valid_order (map_order (rt rm))" and ok: "read_inline_ok (sdkapi rm) inline"
    and d: "describes_role rm (aws w) n role attached (inline (aws w) n) tags"
    and n: "Spec_Name r = Some n" "Role_RoleName role = Some n"
    and doc: "Role_AssumeRolePolicyDocument role = Some (pct_encode doc)"
  shows "\<exists>res w'. sdkFind rm r w = Some ((Some ((setStatusDefaults rm (fromGetRole role r))\<lparr>
       Spec_AssumeRolePolicyDocument := Some doc, Spec_Policies := Some attached, Spec_InlinePolicies := res,
       Spec_Tags := Some tags\<rparr>), None), w') \<and> aws w' = aws w \<and> wf_map res \<and>
     map_of res = map_option Some \<circ> inline (aws w) n"
proof -
  let ?w1 = "RecordAPICall ''READ_ONE'' ''GetRole'' None w"
  let ?ko1 = "(setStatusDefaults rm (fromGetRole role r))\<lparr>Spec_AssumeRolePolicyDocument := Some doc\<rparr>"
  have frame: "ack_object.more (setStatusDefaults rm ko) = ack_object.more ko" for ko :: Role by simp
  have spec: "Spec_Name (setStatusDefaults rm ko) = Spec_Name ko"
    "Spec_AssumeRolePolicyDocument (setStatusDefaults rm ko) = Spec_AssumeRolePolicyDocument ko" for ko :: Role
    by (simp_all add: setStatusDefaults_def Let_def)
  have get: "GetRole (sdkapi rm) (Some n) (aws w) = ((Some (Some role), None), aws w)"
    using d by (simp add: describes_role_def)
  have trust: "decodeTrustPolicy (rt rm) (setStatusDefaults rm (fromGetRole role r)) = Inr ?ko1"
    by (simp add: decodeTrustPolicy_def spec fromGetRole_def doc decodeDocument_def QueryUnescape_pct_encode)
  have name: "Spec_Name ?ko1 = Some n" by (simp add: spec fromGetRole_def n)
  obtain pages where "lists (AttachedRolePolicies_HasMorePages (sdkapi rm)) (attachedPage rm)
      (NewListAttachedRolePoliciesPaginator (sdkapi rm) (Some n)) ?w1 pages ?w1" "concat pages = attached"
    using d unfolding describes_role_def by (metis aws_RecordAPICall)
  then have managed: "getManagedPolicies rm ?ko1 ?w1 = Some ((Some attached, None),
      RecordAPICall ''READ_MANY'' ''ListAttachedRolePolicies'' None ?w1)"
    using getManagedPolicies_lists [of rm ?ko1 ?w1 pages ?w1] name by simp
  let ?w2 = "RecordAPICall ''READ_MANY'' ''ListAttachedRolePolicies'' None ?w1"
  let ?ko2 = "?ko1\<lparr>Spec_Policies := Some attached\<rparr>"
  obtain ipages where ip: "lists (RolePolicies_HasMorePages (sdkapi rm)) (inlinePage rm)
      (NewListRolePoliciesPaginator (sdkapi rm) (Some n)) ?w2 ipages ?w2" "set (concat ipages) = dom (inline (aws ?w2) n)"
    using d unfolding describes_role_def by (metis aws_RecordAPICall)
  have "Spec_Name ?ko2 = Some n" using name by simp
  from getInlinePolicies_reads [OF ord ok this ip] obtain res w3 where
    inl: "getInlinePolicies rm ?ko2 ?w2 = Some ((res, None), w3)" "wf_map res"
      "map_of res = map_option Some \<circ> inline (aws ?w2) n" "aws w3 = aws ?w2" by blast
  let ?ko3 = "?ko2\<lparr>Spec_InlinePolicies := res\<rparr>"
  have "aws w3 = aws w" using inl(4) by simp
  with d obtain tpages where tp: "serves (tagFetch (rm, Some n)) None w3 tpages w3" "concat tpages = tags"
    unfolding describes_role_def by metis
  have "Spec_Name ?ko3 = Some n" using name by simp
  with tp have "getTags rm ?ko3 w3 = Some ((Some tags, None), RecordAPICall ''READ_MANY'' ''ListRoleTags'' None w3)"
    using getTags_serves [of rm ?ko3 w3 tpages w3] by simp
  then show ?thesis
    using get trust managed inl
    by (intro exI [of _ res])
      (simp add: sdkFind_def requiredFieldsMissingFromReadOneInput_def newDescribeRequestPayload_def n)
qed

subsection \<open>Deleting a role\<close>

text \<open>The calls on managed policies leave the inline policies alone, and the other way round.\<close>

definition policies_apart ::
  "('b, 'p) role_sdk \<Rightarrow> ('b \<Rightarrow> string \<Rightarrow> string set) \<Rightarrow> ('b \<Rightarrow> string \<Rightarrow> (string \<rightharpoonup> string)) \<Rightarrow> bool" where
  "policies_apart sdk attached inline \<longleftrightarrow>
     (\<forall>n p b. inline (snd (DetachRolePolicy sdk n p b)) = inline b) \<and>
     (\<forall>n p b. attached (snd (DeleteRolePolicy sdk n p b)) = attached b)"

lemma sdkDelete_bare:
  assumes rt: "in_string_ok (rt rm)" "lo_ok (rt rm)"
    and ok: "attach_ok (sdkapi rm) attached" "inline_ok (sdkapi rm) inline" "policies_apart (sdkapi rm) attached inline"
    and n: "Spec_Name r = Some n"
    and ps: "elems (Spec_Policies r) = map Some ps" "attached (aws w) n = set ps"
    and ls: "Spec_InlinePolicies r = point_at ls" "wf_map ls" "inline (aws w) n = map_of ls"
    and run: "sdkDelete rm r w = Some ((res, None), w')"
  shows "\<exists>b. DeleteRole (sdkapi rm) (Some n) b = (None, aws w') \<and> attached b n = {} \<and> inline b n = Map.empty"
proof -
  let ?cpy = "r\<lparr>Spec_Policies := None\<rparr>"
  let ?cpy2 = "?cpy\<lparr>Spec_InlinePolicies := []\<rparr>"
  obtain u v where first: "syncManagedPolicies rm ?cpy r w = Some (None, u)"
    and second: "syncInlinePolicies rm ?cpy2 r u = Some (None, v)"
    and last: "DeleteRole (sdkapi rm) (Some n) (aws v) = (None, aws w')"
    using run n by (auto simp: sdkDelete_def newDeleteRequestPayload_def Let_def prod_eq_iff
        split: Option.bind_splits option.splits)
  have att: "attached (aws u) = (attached (aws w))(n := {})"
    using syncManagedPolicies_attached [OF rt(1) ok(1) _ _ ps(1) first, of n "[]"] n ps(2) by simp
  have "for_each (\<lambda>p. removeManagedPolicy rm ?cpy (Some p)) ps w = Some (None, u)"
    using first syncManagedPolicies_eq [OF rt(1), of ?cpy "[]" r ps w] ps(1) by simp
  then have inl: "inline (aws u) n = map_of ls"
  proof (rule for_each_invariant)
    show "inline (aws w) n = map_of ls" by (rule ls(3))
    show "inline (aws u') n = map_of ls"
      if "inline (aws x) n = map_of ls" "removeManagedPolicy rm ?cpy (Some p) x = Some (None, u')" for p x u'
      using that ok(3) by (auto simp: removeManagedPolicy_def policies_apart_def)
  qed
  have inl': "inline (aws v) n = Map.empty"
    using syncInlinePolicies_inline [OF rt(2) ok(2) _ _ _ ls(1,2) inl second, of "[]"] n by (simp add: fun_eq_iff)
  obtain toDelete toAdd where diff: "Difference (rt rm) (ToPairs (rt rm) ls) (ToPairs (rt rm) []) = (toDelete, toAdd)"
    and "set toAdd = set [] - set ls"
    using lo_difference [OF rt(2) ls(2), of "[]"] by (metis distinct.simps(1) list.map(1))
  then have diff': "Difference (rt rm) (ToPairs (rt rm) ls) (ToPairs (rt rm) []) = (toDelete, [])" by simp
  have "for_each (removeInlinePolicy rm ?cpy2) (map fst toDelete) u = Some (None, v)"
    using second syncInlinePolicies_eq [OF rt(2) _ ls(1) diff', of ?cpy2 u] by simp
  then have "attached (aws v) n = {}"
  proof (rule for_each_invariant)
    show "attached (aws u) n = {}" by (simp add: att)
    show "attached (aws u') n = {}"
      if "attached (aws x) n = {}" "removeInlinePolicy rm ?cpy2 p x = Some (None, u')" for p x u'
      using that ok(3) by (auto simp: removeInlinePolicy_def policies_apart_def)
  qed
  with last inl' show ?thesis by blast
qed

end
