(* ===== verification/AckTags.thy ===== *)
theory AckTags
  imports Util
begin

text \<open>
  \<open>tags.go\<close>: the conversion between the tag list of a custom resource and the runtime's map of
  tags, and the two map operations on it. The file is the same, up to the package name, in the
  role, user, policy, instance_profile and open_id_connect_provider packages.
\<close>

definition HasPrefix :: "string \<Rightarrow> string \<Rightarrow> bool" where
  "HasPrefix s pre \<longleftrightarrow> take (length pre) s = pre"

abbreviation aws_key :: "string \<Rightarrow> bool" where
  "aws_key k \<equiv> HasPrefix k ''aws:''"

subsection \<open>The code\<close>

primrec convert_loop :: "Tag list \<Rightarrow> (string, string) gomap \<Rightarrow> string list \<Rightarrow> (string, string) gomap \<times> string list" where
  "convert_loop [] result keyOrder = (result, keyOrder)"
| "convert_loop (t # tags) result keyOrder = (case Key t of
     None \<Rightarrow> convert_loop tags result keyOrder
   | Some k \<Rightarrow> convert_loop tags
       (AList.update k (case Value t of Some v \<Rightarrow> v | None \<Rightarrow> []) result) (keyOrder @ [k]))"

definition convertToOrderedACKTags :: "Tag slice \<Rightarrow> (string, string) gomap \<times> string list" where
  "convertToOrderedACKTags tags =
     (if length (elems tags) = 0 then ([], []) else convert_loop (elems tags) [] [])"

text \<open>The first loop of \<open>fromACKTags\<close>: what it appends to the result, and the map it leaves.\<close>

primrec takeOrdered :: "(string, string) gomap \<Rightarrow> string list \<Rightarrow> Tag list \<times> (string, string) gomap" where
  "takeOrdered tags [] = ([], tags)"
| "takeOrdered tags (k # keyOrder) = (case map_of tags k of
     Some v \<Rightarrow> (let (result, tags) = takeOrdered (AList.delete k tags) keyOrder in (mkTag k v # result, tags))
   | None \<Rightarrow> takeOrdered tags keyOrder)"

definition fromACKTags :: "ack_rt \<Rightarrow> (string, string) gomap \<Rightarrow> string list \<Rightarrow> Tag slice" where
  "fromACKTags r tags keyOrder =
     (let (result, tags) = takeOrdered tags keyOrder
      in Some (result @ map (\<lambda>(k, v). mkTag k v) (range_pairs (map_order r) tags)))"

definition ignoreSystemTags :: "ack_rt \<Rightarrow> (string, string) gomap \<Rightarrow> string list \<Rightarrow> (string, string) gomap" where
  "ignoreSystemTags r tags systemTags =
     foldl (\<lambda>tags k. if aws_key k \<or> k \<in> set systemTags then AList.delete k tags else tags)
       tags (map_order r (keys tags))"

definition syncAWSTags :: "ack_rt \<Rightarrow> (string, string) gomap \<Rightarrow> (string, string) gomap \<Rightarrow> (string, string) gomap" where
  "syncAWSTags r a b =
     foldl (\<lambda>a (k, v). if aws_key k then AList.update k v a else a) a (range_pairs (map_order r) b)"

subsection \<open>From a tag list to a map\<close>

text \<open>The map a tag list stands for: a nil key is dropped, a nil value is empty, the last value wins.\<close>

definition ack_map :: "Tag list \<Rightarrow> (string \<rightharpoonup> string)" where
  "ack_map ts = map_of (rev (List.map_filter
     (\<lambda>t. map_option (\<lambda>k. (k, case Value t of Some v \<Rightarrow> v | None \<Rightarrow> [])) (Key t)) ts))"

lemma ack_map_Nil [simp]: "ack_map [] = Map.empty"
  by (simp add: ack_map_def List.map_filter_def)

lemma ack_map_append: "ack_map (ts @ us) = ack_map ts ++ ack_map us"
  by (simp add: ack_map_def List.map_filter_def)

lemma ack_map_Cons: "ack_map (t # ts) = (case Key t of None \<Rightarrow> Map.empty
    | Some k \<Rightarrow> [k \<mapsto> (case Value t of Some v \<Rightarrow> v | None \<Rightarrow> [])]) ++ ack_map ts"
  by (simp add: ack_map_def List.map_filter_def split: option.splits)

lemma convert_loop:
  assumes "wf_map m"
  shows "wf_map (fst (convert_loop ts m ks))"
    and "map_of (fst (convert_loop ts m ks)) = map_of m ++ ack_map ts"
    and "snd (convert_loop ts m ks) = ks @ List.map_filter Key ts"
  using assms
proof (induction ts arbitrary: m ks)
  case Nil
  { case 1 then show ?case by simp }
  { case 2 then show ?case by simp }
  { case 3 then show ?case by (simp add: List.map_filter_def) }
next
  case (Cons t ts)
  { case 1 then show ?case using Cons by (simp split: option.splits) }
  { case 2 then show ?case using Cons
      by (simp add: ack_map_Cons update_conv' map_add_def fun_upd_def fun_eq_iff split: option.splits) }
  { case 3 then show ?case using Cons by (simp add: List.map_filter_def split: option.splits) }
qed

lemma convertToOrderedACKTags:
  shows "wf_map (fst (convertToOrderedACKTags ts))"
    and "map_of (fst (convertToOrderedACKTags ts)) = ack_map (elems ts)"
    and "snd (convertToOrderedACKTags ts) = List.map_filter Key (elems ts)"
  unfolding convertToOrderedACKTags_def by (auto simp: convert_loop List.map_filter_def)

lemma ack_map_dom: "dom (ack_map ts) = set (List.map_filter Key ts)"
  by (induction ts) (auto simp: ack_map_Cons List.map_filter_def split: option.splits)

lemma map_filter_Key: "tag_set ts \<Longrightarrow> List.map_filter Key ts = map (\<lambda>t. the (Key t)) ts"
  by (induction ts) (auto simp: List.map_filter_def tag_set_def plain_tag_def)

lemma ack_map_tag_map: "tag_set ts \<Longrightarrow> ack_map ts = tag_map ts"
proof (induction ts)
  case Nil
  then show ?case by (simp add: tag_map_def)
next
  case (Cons t ts)
  then obtain k v where t: "Key t = Some k" "Value t = Some v"
    by (auto simp: tag_set_def plain_tag_def)
  from Cons.prems have ts: "tag_set ts" "Key t \<notin> Key ` set ts" by (simp_all add: tag_set_Cons)
  then have "k \<notin> dom (tag_map ts)" using t by (simp add: tag_map_dom)
  with Cons.IH ts t show ?case
    by (auto simp: ack_map_Cons tag_map_Cons fun_eq_iff map_add_def domIff split: option.splits)
qed

subsection \<open>From a map back to a tag list\<close>

lemma takeOrdered:
  assumes "wf_map m"
  shows "tag_set (fst (takeOrdered m ks))"
    and "tag_map (fst (takeOrdered m ks)) = map_of m |` set ks"
    and "map_of (snd (takeOrdered m ks)) = map_of m |` (- set ks)"
    and "wf_map (snd (takeOrdered m ks))"
proof -
  have "tag_set (fst (takeOrdered m ks)) \<and> tag_map (fst (takeOrdered m ks)) = map_of m |` set ks \<and>
      map_of (snd (takeOrdered m ks)) = map_of m |` (- set ks) \<and> wf_map (snd (takeOrdered m ks))"
    using assms
  proof (induction ks arbitrary: m)
    case Nil
    then show ?case by (simp add: tag_map_def)
  next
    case (Cons k ks)
    show ?case
    proof (cases "map_of m k")
      case None
      have "map_of m |` set (k # ks) = map_of m |` set ks"
        using None by (auto simp: restrict_map_def)
      moreover have "map_of m |` (- set (k # ks)) = map_of m |` (- set ks)"
        using None by (auto simp: restrict_map_def)
      ultimately show ?thesis using Cons None by simp
    next
      case (Some v)
      let ?m = "AList.delete k m"
      let ?r = "takeOrdered ?m ks"
      have IH: "tag_set (fst ?r)" "tag_map (fst ?r) = map_of ?m |` set ks"
        "map_of (snd ?r) = map_of ?m |` (- set ks)" "wf_map (snd ?r)"
        using Cons.IH [of ?m] Cons.prems by simp_all
      have "k \<notin> dom (tag_map (fst ?r))" by (simp add: IH(2) delete_conv')
      then have new: "Some k \<notin> Key ` set (fst ?r)"
        using IH(1) by (simp add: tag_map_dom)
      have "tag_map (mkTag k v # fst ?r) = map_of m |` set (k # ks)"
        using Some IH(2) by (auto simp: tag_map_Cons restrict_map_def delete_conv' fun_eq_iff)
      moreover have "map_of (snd ?r) = map_of m |` (- set (k # ks))"
        using IH(3) by (auto simp: restrict_map_def delete_conv' fun_eq_iff)
      ultimately show ?thesis
        using Some IH new by (simp add: split_beta tag_set_Cons)
    qed
  qed
  then show "tag_set (fst (takeOrdered m ks))" "tag_map (fst (takeOrdered m ks)) = map_of m |` set ks"
    "map_of (snd (takeOrdered m ks)) = map_of m |` (- set ks)" "wf_map (snd (takeOrdered m ks))"
    by blast+
qed

lemma takeOrdered_exact:
  "distinct ks \<Longrightarrow> fst (takeOrdered m ks) =
     map (\<lambda>k. mkTag k (the (map_of m k))) (filter (\<lambda>k. map_of m k \<noteq> None) ks)"
proof (induction ks arbitrary: m)
  case Nil
  then show ?case by simp
next
  case (Cons k ks)
  then have "map_of (AList.delete k m) k' = map_of m k'" if "k' \<in> set ks" for k'
    using that by (intro map_of_delete) auto
  with Cons show ?case
    by (auto simp: split_beta cong: map_cong filter_cong split: option.splits)
qed

lemma tag_set_append:
  "tag_set (ts @ us) \<longleftrightarrow> tag_set ts \<and> tag_set us \<and> Key ` set ts \<inter> Key ` set us = {}"
  by (auto simp: tag_set_def)

lemma tag_set_pairs: "wf_map m \<Longrightarrow> tag_set (map (\<lambda>(k, v). mkTag k v) m)"
  by (induction m) (auto simp: tag_set_Cons rev_image_eqI)

lemma tag_map_pairs: "tag_map (map (\<lambda>(k, v). mkTag k v) m) = map_of m"
  by (simp add: tag_map_def comp_def split_beta)

text \<open>
  Whatever the key order and the order of \<open>range\<close>, the list made from a map has every key once
  and stands for that map.
\<close>

lemma fromACKTags_map:
  assumes ord: "valid_order (map_order r)" and m: "wf_map m"
  shows "tag_set (elems (fromACKTags r m ks)) \<and> tag_map (elems (fromACKTags r m ks)) = map_of m"
proof -
  let ?res = "fst (takeOrdered m ks)"
  let ?rest = "range_pairs (map_order r) (snd (takeOrdered m ks))"
  note t = takeOrdered [OF m, of ks]
  have out: "elems (fromACKTags r m ks) = ?res @ map (\<lambda>(k, v). mkTag k v) ?rest"
    by (simp add: fromACKTags_def split_beta)
  have rest: "tag_set (map (\<lambda>(k, v). mkTag k v) ?rest)"
    "tag_map (map (\<lambda>(k, v). mkTag k v) ?rest) = map_of m |` (- set ks)"
    using ord t by (simp_all add: tag_set_pairs tag_map_pairs)
  have "Some k \<notin> Key ` set (map (\<lambda>(k, v). mkTag k v) ?rest)" if "Some k \<in> Key ` set ?res" for k
  proof -
    from that have "k \<in> dom (map_of m |` set ks)" using t by (simp flip: tag_map_dom)
    then have "k \<notin> dom (tag_map (map (\<lambda>(k, v). mkTag k v) ?rest))" by (simp add: rest(2))
    then show ?thesis using rest(1) by (simp add: tag_map_dom)
  qed
  moreover have "None \<notin> Key ` set ?res" using t(1) by (force simp: tag_set_def plain_tag_def)
  ultimately have "Key ` set ?res \<inter> Key ` set (map (\<lambda>(k, v). mkTag k v) ?rest) = {}"
    unfolding disjoint_iff by (metis (no_types, lifting) option.exhaust)
  moreover have "map_of m |` (- set ks) ++ map_of m |` set ks = map_of m"
    by (auto simp: map_add_def restrict_map_def fun_eq_iff split: option.splits)
  ultimately show ?thesis using t rest by (simp add: out tag_set_append tag_map_append)
qed

lemma fromACKTags_exact:
  assumes "distinct ks" and "wf_map m" and "dom (map_of m) \<subseteq> set ks"
  shows "fromACKTags r m ks = Some (map (\<lambda>k. mkTag k (the (map_of m k))) (filter (\<lambda>k. map_of m k \<noteq> None) ks))"
proof -
  have "map_of (snd (takeOrdered m ks)) = Map.empty"
    using takeOrdered(3) [OF assms(2)] assms(3) by (auto simp: restrict_map_def fun_eq_iff domIff)
  then have "snd (takeOrdered m ks) = []" by simp
  moreover from this have "range_pairs (map_order r) (snd (takeOrdered m ks)) = []"
    by (simp add: range_pairs_def List.map_filter_def)
  ultimately show ?thesis
    using takeOrdered_exact [OF assms(1), of m] by (simp add: fromACKTags_def split_beta)
qed

subsection \<open>The two map operations\<close>

lemma foldl_delete:
  "map_of (foldl (\<lambda>m k. if P k then AList.delete k m else m) m ks) = map_of m |` (- {k \<in> set ks. P k})"
  "wf_map m \<Longrightarrow> wf_map (foldl (\<lambda>m k. if P k then AList.delete k m else m) m ks)"
  by (induction ks arbitrary: m) (auto simp: delete_conv' restrict_map_def fun_eq_iff)

lemma foldl_update:
  "map_of (foldl (\<lambda>a (k, v). if P k then AList.update k v a else a) a kvs) =
     map_of a ++ map_of (rev (filter (P \<circ> fst) kvs))"
  "wf_map a \<Longrightarrow> wf_map (foldl (\<lambda>a (k, v). if P k then AList.update k v a else a) a kvs)"
  by (induction kvs arbitrary: a) (auto simp: update_conv' map_add_def fun_eq_iff split: option.splits)

definition system_key :: "string list \<Rightarrow> string \<Rightarrow> bool" where
  "system_key systemTags k \<longleftrightarrow> aws_key k \<or> k \<in> set systemTags"

lemma ignoreSystemTags_map:
  assumes "valid_order (map_order r)"
  shows "map_of (ignoreSystemTags r m sys) = map_of m |` {k. \<not> system_key sys k}"
    and "wf_map m \<Longrightarrow> wf_map (ignoreSystemTags r m sys)"
proof -
  have "map_of m |` (- {k \<in> fst ` set m. aws_key k \<or> k \<in> set sys}) = map_of m |` {k. \<not> system_key sys k}"
    by (auto simp: restrict_map_def fun_eq_iff system_key_def map_of_eq_None_iff image_iff)
  then show "map_of (ignoreSystemTags r m sys) = map_of m |` {k. \<not> system_key sys k}"
    using assms by (simp add: ignoreSystemTags_def foldl_delete)
qed (simp add: ignoreSystemTags_def foldl_delete)

lemma map_of_filter_key: "map_of (filter (P \<circ> fst) m) = map_of m |` {k. P k}"
  by (induction m) (auto simp: restrict_map_def fun_eq_iff)

lemma syncAWSTags_map:
  assumes "valid_order (map_order r)" and "wf_map b"
  shows "map_of (syncAWSTags r a b) = map_of a ++ (map_of b |` {k. aws_key k})"
    and "wf_map a \<Longrightarrow> wf_map (syncAWSTags r a b)"
proof -
  let ?l = "range_pairs (map_order r) b"
  have "wf_map (filter (aws_key \<circ> fst) ?l)"
    using assms by (simp add: distinct_map_filter)
  then have "map_of (rev (filter (aws_key \<circ> fst) ?l)) = map_of b |` {k. aws_key k}"
    using assms by (simp add: map_of_rev map_of_filter_key)
  then show "map_of (syncAWSTags r a b) = map_of a ++ (map_of b |` {k. aws_key k})"
    by (simp add: syncAWSTags_def foldl_update)
qed (simp add: syncAWSTags_def foldl_update)

end
