(* ===== verification/Manager.thy ===== *)
theory Manager
  imports AckTags Conditions
begin

text \<open>
  \<open>manager.go\<close>: the entry points the ACK reconciler calls. The seven files are one text but for
  the resource type, the late-initialized fields and the tags, so each entry point is defined
  once here over the package's own functions, and each package's theory gives it those. A
  resource argument is its \<open>ko\<close> pointer; a call on a nil \<open>ko\<close> panics. An entry point that changes
  the resource it was given returns the changed one too.
\<close>

subsection \<open>Reading, creating, updating, deleting\<close>

text \<open>
  The end of every entry point: the resource the operation returned, or else the one it was
  called with, gets its conditions from the error.
\<close>

definition finish ::
  "'m resourceManager_scheme \<Rightarrow> string list \<Rightarrow> 'a ack_object_scheme \<Rightarrow> 'a ack_object_scheme ptr \<Rightarrow> error option \<Rightarrow>
     ('a ack_object_scheme ptr \<times> error option) option" where
  "finish rm codes r out err = (case err of
     Some e \<Rightarrow> (case out of Some o1 \<Rightarrow> onError rm codes (Some o1) (Some e) | None \<Rightarrow> onError rm codes (Some r) (Some e))
   | None \<Rightarrow> onSuccess rm codes out)"

definition read_one ::
  "('m resourceManager_scheme \<Rightarrow> 'a ack_object_scheme \<Rightarrow> ('b, 'a ack_object_scheme ptr \<times> error option) go) \<Rightarrow>
   ('m resourceManager_scheme \<Rightarrow> 'a ack_object_scheme \<Rightarrow> 'a ack_object_scheme ptr \<Rightarrow> 'a ack_object_scheme) \<Rightarrow> string list \<Rightarrow>
   'm resourceManager_scheme \<Rightarrow> 'a ack_object_scheme ptr \<Rightarrow>
   ('b, ('a ack_object_scheme ptr \<times> error option) \<times> 'a ack_object_scheme) go" where
  "read_one sdkFind mirror codes rm res w = do {
     r \<leftarrow> res;
     ((observed, err), w) \<leftarrow> sdkFind rm r w;
     let r = mirror rm r observed;
     ret \<leftarrow> finish rm codes r observed err;
     Some ((ret, r), w) }"

definition create_or_delete ::
  "('m resourceManager_scheme \<Rightarrow> 'a ack_object_scheme \<Rightarrow> ('b, 'a ack_object_scheme ptr \<times> error option) go) \<Rightarrow>
   string list \<Rightarrow> 'm resourceManager_scheme \<Rightarrow> 'a ack_object_scheme ptr \<Rightarrow>
   ('b, 'a ack_object_scheme ptr \<times> error option) go" where
  "create_or_delete operation codes rm res w = do {
     r \<leftarrow> res;
     ((out, err), w) \<leftarrow> operation rm r w;
     ret \<leftarrow> finish rm codes r out err;
     Some (ret, w) }"

definition update_with ::
  "('m resourceManager_scheme \<Rightarrow> 'a ack_object_scheme \<Rightarrow> 'a ack_object_scheme \<Rightarrow> 'd \<Rightarrow>
      ('b, 'a ack_object_scheme ptr \<times> error option) go) \<Rightarrow>
   string list \<Rightarrow> 'm resourceManager_scheme \<Rightarrow> 'a ack_object_scheme ptr \<Rightarrow> 'a ack_object_scheme ptr \<Rightarrow> 'd \<Rightarrow>
   ('b, 'a ack_object_scheme ptr \<times> error option) go" where
  "update_with sdkUpdate codes rm resDesired resLatest delta w = do {
     desired \<leftarrow> resDesired;
     latest \<leftarrow> resLatest;
     ((updated, err), w) \<leftarrow> sdkUpdate rm desired latest delta w;
     ret \<leftarrow> finish rm codes latest updated err;
     Some (ret, w) }"

definition ARNFromName :: "'m resourceManager_scheme \<Rightarrow> string \<Rightarrow> string" where
  "ARNFromName rm name =
     ''arn:'' @ awsPartition rm @ '':iam:'' @ awsRegion rm @ '':'' @ awsAccountID rm @ '':'' @ name"

definition IsSynced :: "'a ptr \<Rightarrow> (bool \<times> error option) option" where
  "IsSynced res = do { r \<leftarrow> res; Some (True, None) }"

subsection \<open>Late initialization\<close>

definition setConditions ::
  "(condition slice \<Rightarrow> condition slice) \<Rightarrow> 'a ack_object_scheme \<Rightarrow> 'a ack_object_scheme" where
  "setConditions f ko = ko\<lparr>Status_Conditions := f (Status_Conditions ko)\<rparr>"

text \<open>
  \<open>fieldNames\<close> is the package's \<open>lateInitializeFieldNames\<close>, \<open>fill\<close> its
  \<open>lateInitializeFromReadOneOutput\<close>, \<open>incomplete\<close> its \<open>incompleteLateInitialization\<close>.
\<close>

definition late_initialize ::
  "string list \<Rightarrow>
   ('a ack_object_scheme ptr \<Rightarrow> ('b, ('a ack_object_scheme ptr \<times> error option) \<times> 'a ack_object_scheme) go) \<Rightarrow>
   ('a ack_object_scheme \<Rightarrow> 'a ack_object_scheme \<Rightarrow> 'a ack_object_scheme) \<Rightarrow> ('a ack_object_scheme \<Rightarrow> bool) \<Rightarrow>
   'm resourceManager_scheme \<Rightarrow> 'a ack_object_scheme ptr \<Rightarrow> ('b, 'a ack_object_scheme ptr \<times> error option) go" where
  "late_initialize fieldNames ReadOne fill incomplete rm latest w =
     (if length fieldNames = 0 then Some ((latest, None), w)
      else do {
        (((observed, err), latestCopy), w) \<leftarrow> ReadOne latest w;
        (case err of
           Some e \<Rightarrow> Some ((Some (setConditions (\<lambda>cs. SetSynced (rt rm) cs ConditionFalse None None)
             (setConditions (\<lambda>cs. SetLateInitialized (rt rm) cs ConditionFalse
                (Some ''Unable to complete Read operation required for late initialization'')
                (Some ''Late Initialization Failure'')) latestCopy)), Some e), w)
         | None \<Rightarrow> do {
             observedKo \<leftarrow> observed;
             let lateInitializedRes = fill observedKo latestCopy;
             if incomplete lateInitializedRes
             then Some ((Some (setConditions (\<lambda>cs. SetSynced (rt rm) cs ConditionFalse None None)
               (setConditions (\<lambda>cs. SetLateInitialized (rt rm) cs ConditionFalse
                  (Some ''Late initialization did not complete, requeuing with delay of 5 seconds'')
                  (Some ''Delayed Late Initialization'')) lateInitializedRes)),
               Some (RequeueNeededAfter (rt rm) None 5)), w)
             else Some ((Some (setConditions (\<lambda>cs. SetLateInitialized (rt rm) cs ConditionTrue
                  (Some ''Late initialization successful'')
                  (Some ''Late initialization successful'')) lateInitializedRes), None), w) }) })"

text \<open>\<open>if observed.X != nil && latest.X == nil { latest.X = observed.X }\<close>\<close>

definition late_field :: "'x ptr \<Rightarrow> 'x ptr \<Rightarrow> 'x ptr" where
  "late_field observed latest = (if observed \<noteq> None \<and> latest = None then observed else latest)"

subsection \<open>Tags\<close>

text \<open>
  What \<open>EnsureTags\<close>, \<open>FilterSystemTags\<close> and \<open>mirrorAWSTags\<close> assign to \<open>Spec.Tags\<close> in the
  packages whose resources have tags.
\<close>

definition ensuredTags :: "ack_rt \<Rightarrow> Tag slice \<Rightarrow> Tag slice" where
  "ensuredTags r existingTags =
     (let (resourceTags, keyOrder) = convertToOrderedACKTags existingTags;
          tags = MergeTags r resourceTags (GetDefaultTags r)
      in fromACKTags r tags keyOrder)"

definition filteredTags :: "ack_rt \<Rightarrow> string list \<Rightarrow> Tag slice \<Rightarrow> Tag slice" where
  "filteredTags r systemTags existingTags =
     (let (resourceTags, tagKeyOrder) = convertToOrderedACKTags existingTags
      in fromACKTags r (ignoreSystemTags r resourceTags systemTags) tagKeyOrder)"

definition mirroredTags :: "ack_rt \<Rightarrow> Tag slice \<Rightarrow> Tag slice \<Rightarrow> Tag slice" where
  "mirroredTags r existingDesiredTags existingLatestTags =
     (let (desiredTags, desiredTagKeyOrder) = convertToOrderedACKTags existingDesiredTags;
          (latestTags, _) = convertToOrderedACKTags existingLatestTags
      in fromACKTags r (syncAWSTags r desiredTags latestTags) desiredTagKeyOrder)"

lemma ensuredTags_map:
  assumes "valid_order (map_order r)" and "merge_ok r" and "wf_map (GetDefaultTags r)"
  shows "tag_set (elems (ensuredTags r ts))"
    and "tag_map (elems (ensuredTags r ts)) = map_of (GetDefaultTags r) ++ ack_map (elems ts)"
  using assms(2,3) fromACKTags_map [OF assms(1), of "MergeTags r (fst (convertToOrderedACKTags ts)) (GetDefaultTags r)"]
  by (auto simp: ensuredTags_def split_beta merge_ok_def convertToOrderedACKTags)

lemma filteredTags_map:
  assumes "valid_order (map_order r)"
  shows "tag_set (elems (filteredTags r sys ts))"
    and "tag_map (elems (filteredTags r sys ts)) = ack_map (elems ts) |` {k. \<not> system_key sys k}"
  using assms fromACKTags_map [OF assms, of "ignoreSystemTags r (fst (convertToOrderedACKTags ts)) sys"]
  by (auto simp: filteredTags_def split_beta ignoreSystemTags_map convertToOrderedACKTags)

lemma mirroredTags_map:
  assumes "valid_order (map_order r)"
  shows "tag_set (elems (mirroredTags r ds ls))"
    and "tag_map (elems (mirroredTags r ds ls)) = ack_map (elems ds) ++ (ack_map (elems ls) |` {k. aws_key k})"
  using assms
    fromACKTags_map [OF assms, of "syncAWSTags r (fst (convertToOrderedACKTags ds)) (fst (convertToOrderedACKTags ls))"]
  by (auto simp: mirroredTags_def split_beta syncAWSTags_map convertToOrderedACKTags)

subsection \<open>What an entry point returns\<close>

text \<open>An entry point never swallows an error: it returns it, or \<open>Terminal\<close> for a terminal one.\<close>

lemma finish_error:
  assumes "aws_error_ok (rt rm)" and "unique_conditions (conditions_of (case out of Some x \<Rightarrow> x | None \<Rightarrow> r))"
  shows "\<exists>ko. finish rm codes r out (Some e) =
      Some (Some ko, Some (if terminal_error codes (Some e) then Terminal else e)) \<and>
    ack_object.more ko = ack_object.more (case out of Some x \<Rightarrow> x | None \<Rightarrow> r)"
  using assms terminal_error_D [OF assms(1), of _ codes e] nonterminal_error_D [of _ codes e rm]
  unfolding finish_def
  by (cases "terminal_error codes (Some e)"; cases out; fastforce)

lemma finish_success:
  assumes "unique_conditions (conditions_of ko)"
  shows "\<exists>ko'. finish rm codes r (Some ko) None = Some (Some ko', None) \<and> ack_object.more ko' = ack_object.more ko"
  using success_D [OF assms, of rm codes] by (auto simp: finish_def)

lemma finish_nothing: "finish rm codes r None None = Some (None, None)"
  by (simp add: finish_def onSuccess_def)

text \<open>So an entry point that returns no error ran its operation without one.\<close>

lemma update_with_success:
  assumes "aws_error_ok (rt rm)" and "unique_conditions (conditions_of latest)"
    and "\<And>out e u. sdkUpdate rm desired latest delta w = Some ((out, Some e), u) \<Longrightarrow> out = None"
    and "update_with sdkUpdate codes rm (Some desired) (Some latest) delta w = Some ((res, None), w')"
  shows "\<exists>out. sdkUpdate rm desired latest delta w = Some ((out, None), w')"
proof -
  obtain out err u where run: "sdkUpdate rm desired latest delta w = Some ((out, err), u)"
    and fin: "finish rm codes latest out err = Some (res, None)" "u = w'"
    using assms(4) by (auto simp: update_with_def split: Option.bind_splits)
  have "err = None"
  proof (rule ccontr)
    assume "err \<noteq> None"
    then obtain e where e: "err = Some e" by blast
    then have "out = None" using assms(3) run by blast
    with finish_error [OF assms(1), where out = None and r = latest and codes = codes and e = e] fin(1) e assms(2) show False by auto
  qed
  with run fin show ?thesis by auto
qed

lemma create_or_delete_success:
  assumes "aws_error_ok (rt rm)" and "unique_conditions (conditions_of r)"
    and "\<And>out e u. operation rm r w = Some ((out, Some e), u) \<Longrightarrow> out = None"
    and "create_or_delete operation codes rm (Some r) w = Some ((res, None), w')"
  shows "\<exists>out. operation rm r w = Some ((out, None), w')"
proof -
  obtain out err u where run: "operation rm r w = Some ((out, err), u)"
    and fin: "finish rm codes r out err = Some (res, None)" "u = w'"
    using assms(4) by (auto simp: create_or_delete_def split: Option.bind_splits)
  have "err = None"
  proof (rule ccontr)
    assume "err \<noteq> None"
    then obtain e where e: "err = Some e" by blast
    then have "out = None" using assms(3) run by blast
    with finish_error [OF assms(1), where out = None and r = r and codes = codes and e = e] fin(1) e assms(2) show False by auto
  qed
  with run fin show ?thesis by auto
qed

end
