(* ===== verification/Resource.thy ===== *)
theory Resource
  imports Conditions
begin

text \<open>
  \<open>resource.go\<close>, \<open>identifiers.go\<close> and \<open>descriptor.go\<close>: what the reconciler asks of a custom
  resource and the marks it leaves on it. The files are the same in all packages but for the
  finalizer string and the identifying field; the latter is in each package's own theory.
\<close>

subsection \<open>identifiers.go\<close>

definition Identifiers :: "'a ack_object_scheme \<Rightarrow> ResourceMetadata ptr" where
  "Identifiers r = Status_ACKResourceMetadata r"

definition Identifiers_ARN :: "ResourceMetadata ptr \<Rightarrow> string ptr" where
  "Identifiers_ARN meta = (case meta of Some md \<Rightarrow> ARN md | None \<Rightarrow> None)"

definition Identifiers_OwnerAccountID :: "ResourceMetadata ptr \<Rightarrow> string ptr" where
  "Identifiers_OwnerAccountID meta = (case meta of Some md \<Rightarrow> OwnerAccountID md | None \<Rightarrow> None)"

definition Identifiers_Region :: "ResourceMetadata ptr \<Rightarrow> string ptr" where
  "Identifiers_Region meta = (case meta of Some md \<Rightarrow> Region md | None \<Rightarrow> None)"

definition Identifiers_Partition :: "ResourceMetadata ptr \<Rightarrow> string ptr" where
  "Identifiers_Partition meta = (case meta of Some md \<Rightarrow> Partition md | None \<Rightarrow> None)"

subsection \<open>resource.go\<close>

text \<open>\<open>metav1.Time.IsZero\<close>: nil, or the zero instant of Go, January 1 of year 1.\<close>

definition zero_time :: time where
  "zero_time = -62135596800000000000"

definition IsZero :: "time ptr \<Rightarrow> bool" where
  "IsZero t \<longleftrightarrow> t = None \<or> t = Some zero_time"

definition IsBeingDeleted :: "'a ack_object_scheme \<Rightarrow> bool" where
  "IsBeingDeleted r \<longleftrightarrow> \<not> IsZero (DeletionTimestamp r)"

definition Conditions :: "'a ack_object_scheme \<Rightarrow> condition slice" where
  "Conditions r = Status_Conditions r"

definition ReplaceConditions :: "condition slice \<Rightarrow> 'a ack_object_scheme \<Rightarrow> 'a ack_object_scheme" where
  "ReplaceConditions conditions r = r\<lparr>Status_Conditions := conditions\<rparr>"

text \<open>\<open>&ackv1alpha1.ResourceMetadata{}\<close> when there is none, then its ARN is set: how
  the resources that IAM knows by their ARN are identified.\<close>

definition withARN :: "string ptr \<Rightarrow> 'a ack_object_scheme \<Rightarrow> 'a ack_object_scheme" where
  "withARN arn r = (let md = (case Status_ACKResourceMetadata r of None \<Rightarrow> emptyMetadata | Some md \<Rightarrow> md)
     in r\<lparr>Status_ACKResourceMetadata := Some (md\<lparr>ARN := arn\<rparr>)\<rparr>)"

subsection \<open>descriptor.go\<close>

text \<open>
  \<open>GroupVersion\<close> of \<open>apis/v1alpha1/groupversion_info.go\<close>, a group and a version; \<open>WithKind\<close> and
  \<open>WithResource\<close> of apimachinery only put a name behind it.
\<close>

definition GroupVersion :: "string \<times> string" where
  "GroupVersion = (''iam.services.k8s.aws'', ''v1alpha1'')"

definition WithKind :: "string \<times> string \<Rightarrow> string \<Rightarrow> string \<times> string \<times> string" where
  "WithKind gv kind = (fst gv, snd gv, kind)"

definition WithResource :: "string \<times> string \<Rightarrow> string \<Rightarrow> string \<times> string \<times> string" where
  "WithResource gv resource = (fst gv, snd gv, resource)"

text \<open>
  The finalizer helpers of controller-runtime and the name of the adoption annotation are
  parameters.
\<close>

record k8s_rt =
  AddFinalizer :: "string list \<Rightarrow> string \<Rightarrow> string list"
  RemoveFinalizer :: "string list \<Rightarrow> string \<Rightarrow> string list"
  AnnotationAdopted :: string

primrec containsFinalizer_loop :: "string list \<Rightarrow> string \<Rightarrow> bool" where
  "containsFinalizer_loop [] finalizer = False"
| "containsFinalizer_loop (e # f) finalizer = (if e = finalizer then True else containsFinalizer_loop f finalizer)"

definition containsFinalizer :: "'a ack_object_scheme \<Rightarrow> string \<Rightarrow> bool" where
  "containsFinalizer obj finalizer = containsFinalizer_loop (Finalizers obj) finalizer"

definition IsManaged :: "string \<Rightarrow> 'a ack_object_scheme \<Rightarrow> bool" where
  "IsManaged FinalizerString obj = containsFinalizer obj FinalizerString"

definition MarkManaged :: "k8s_rt \<Rightarrow> string \<Rightarrow> 'a ack_object_scheme \<Rightarrow> 'a ack_object_scheme" where
  "MarkManaged k FinalizerString obj = obj\<lparr>Finalizers := AddFinalizer k (Finalizers obj) FinalizerString\<rparr>"

definition MarkUnmanaged :: "k8s_rt \<Rightarrow> string \<Rightarrow> 'a ack_object_scheme \<Rightarrow> 'a ack_object_scheme" where
  "MarkUnmanaged k FinalizerString obj = obj\<lparr>Finalizers := RemoveFinalizer k (Finalizers obj) FinalizerString\<rparr>"

definition MarkAdopted :: "k8s_rt \<Rightarrow> 'a ack_object_scheme \<Rightarrow> 'a ack_object_scheme" where
  "MarkAdopted k obj = obj\<lparr>Annotations := AList.update (AnnotationAdopted k) ''true'' (Annotations obj)\<rparr>"

text \<open>
  Controller-runtime adds a finalizer at the end unless it is there, and removes every
  occurrence.
\<close>

definition finalizers_ok :: "k8s_rt \<Rightarrow> bool" where
  "finalizers_ok k \<longleftrightarrow> (\<forall>fs f. AddFinalizer k fs f = (if f \<in> set fs then fs else fs @ [f])) \<and>
     (\<forall>fs f. RemoveFinalizer k fs f = filter (\<lambda>g. g \<noteq> f) fs)"

lemma containsFinalizer_iff: "containsFinalizer obj f \<longleftrightarrow> f \<in> set (Finalizers obj)"
proof -
  have "containsFinalizer_loop fs f \<longleftrightarrow> f \<in> set fs" for fs by (induction fs) auto
  then show ?thesis by (simp add: containsFinalizer_def)
qed

lemma IsManaged_MarkManaged:
  assumes "finalizers_ok k"
  shows "IsManaged f (MarkManaged k f obj)" and "\<not> IsManaged f (MarkUnmanaged k f obj)"
    and "g \<noteq> f \<Longrightarrow> IsManaged g (MarkManaged k f obj) = IsManaged g obj"
    and "g \<noteq> f \<Longrightarrow> IsManaged g (MarkUnmanaged k f obj) = IsManaged g obj"
  using assms
  by (auto simp: IsManaged_def containsFinalizer_iff MarkManaged_def MarkUnmanaged_def finalizers_ok_def)

lemma MarkUnmanaged_MarkManaged:
  assumes "finalizers_ok k" and "\<not> IsManaged f obj"
  shows "MarkUnmanaged k f (MarkManaged k f obj) = obj"
proof -
  have "filter (\<lambda>g. g \<noteq> f) (Finalizers obj) = Finalizers obj"
    using assms(2) by (auto simp: IsManaged_def containsFinalizer_iff filter_id_conv)
  with assms show ?thesis
    by (simp add: IsManaged_def containsFinalizer_iff MarkManaged_def MarkUnmanaged_def finalizers_ok_def)
qed

end
