(* ===== verification/RoleDelta.thy ===== *)
theory RoleDelta
  imports RoleHooks Compare
begin

text \<open>
  \<open>pkg/resource/role/delta.go\<close>: the comparison of a desired with an observed role whose result
  decides which hooks \<open>sdkUpdate\<close> runs.
\<close>

definition newResourceDelta :: "ack_rt \<Rightarrow> 'd compare_rt \<Rightarrow> Role ptr \<Rightarrow> Role ptr \<Rightarrow> 'd option" where
  "newResourceDelta r c a b =
     (if (a = None \<and> b \<noteq> None) \<or> (a \<noteq> None \<and> b = None) then Some (delta_Add c (NewDelta c) [])
      else do {
        a \<leftarrow> a;
        b \<leftarrow> b;
        delta \<leftarrow> customPreCompare r c (NewDelta c) a b;
        let delta = comparePolicyField c ''Spec.AssumeRolePolicyDocument''
          (Spec_AssumeRolePolicyDocument a) (Spec_AssumeRolePolicyDocument b) delta;
        let delta = compareStringField c ''Spec.Description'' (Spec_Description a) (Spec_Description b) delta;
        let delta = compareMapField c ''Spec.InlinePolicies'' (Spec_InlinePolicies a) (Spec_InlinePolicies b) delta;
        let delta = compareInt64Field c ''Spec.MaxSessionDuration''
          (Spec_MaxSessionDuration a) (Spec_MaxSessionDuration b) delta;
        let delta = compareStringField c ''Spec.Name'' (Spec_Name a) (Spec_Name b) delta;
        let delta = compareStringField c ''Spec.Path'' (Spec_Path a) (Spec_Path b) delta;
        let delta = compareStringField c ''Spec.PermissionsBoundary''
          (Spec_PermissionsBoundary a) (Spec_PermissionsBoundary b) delta;
        let delta = addWhen c ''Spec.PermissionsBoundaryRef''
          (\<not> DeepEqualRef c (Spec_PermissionsBoundaryRef a) (Spec_PermissionsBoundaryRef b)) delta;
        let delta = compareStringsField c ''Spec.Policies'' (Spec_Policies a) (Spec_Policies b) delta;
        let delta = addWhen c ''Spec.PolicyRefs''
          (\<not> DeepEqualRefs c (Spec_PolicyRefs a) (Spec_PolicyRefs b)) delta;
        Some delta
      })"

definition tagsDiffer :: "Role \<Rightarrow> Role \<Rightarrow> bool" where
  "tagsDiffer a b \<longleftrightarrow> set (elems (Spec_Tags a)) \<noteq> set (elems (Spec_Tags b))"

definition differences :: "'d compare_rt \<Rightarrow> Role \<Rightarrow> Role \<Rightarrow> (string \<times> bool) list" where
  "differences c a b =
     [(''Spec.Tags'', tagsDiffer a b),
      (''Spec.AssumeRolePolicyDocument'', policyDiffers c (Spec_AssumeRolePolicyDocument a) (Spec_AssumeRolePolicyDocument b)),
      (''Spec.Description'', stringDiffers c (Spec_Description a) (Spec_Description b)),
      (''Spec.InlinePolicies'', mapsDiffer c (Spec_InlinePolicies a) (Spec_InlinePolicies b)),
      (''Spec.MaxSessionDuration'', int64Differs c (Spec_MaxSessionDuration a) (Spec_MaxSessionDuration b)),
      (''Spec.Name'', stringDiffers c (Spec_Name a) (Spec_Name b)),
      (''Spec.Path'', stringDiffers c (Spec_Path a) (Spec_Path b)),
      (''Spec.PermissionsBoundary'', stringDiffers c (Spec_PermissionsBoundary a) (Spec_PermissionsBoundary b)),
      (''Spec.PermissionsBoundaryRef'', \<not> DeepEqualRef c (Spec_PermissionsBoundaryRef a) (Spec_PermissionsBoundaryRef b)),
      (''Spec.Policies'', stringsDiffer c (Spec_Policies a) (Spec_Policies b)),
      (''Spec.PolicyRefs'', \<not> DeepEqualRefs c (Spec_PolicyRefs a) (Spec_PolicyRefs b))]"

definition delta_paths :: "string set" where
  "delta_paths = {''Spec.Tags'', ''Spec.AssumeRolePolicyDocument'', ''Spec.Description'', ''Spec.InlinePolicies'',
     ''Spec.MaxSessionDuration'', ''Spec.Name'', ''Spec.Path'', ''Spec.PermissionsBoundary'',
     ''Spec.PermissionsBoundaryRef'', ''Spec.Policies'', ''Spec.PolicyRefs''}"

lemma paths_of_differences: "fst ` set (differences c a b) = delta_paths"
  by (simp add: differences_def delta_paths_def)

lemma compareTags_tag_set:
  assumes "in_string_ok r" and "tag_set (elems (Spec_Tags a))" and "tag_set (elems (Spec_Tags b))"
  shows "compareTags r c delta a b = Some (addWhen c ''Spec.Tags'' (tagsDiffer a b) delta)"
  using compareTagLists_tag_set [OF assms] by (simp add: compareTags_def tagsDiffer_def)

lemma newResourceDelta_report:
  assumes "in_string_ok r" and "tag_set (elems (Spec_Tags a))" and "tag_set (elems (Spec_Tags b))"
  shows "newResourceDelta r c (Some a) (Some b) = Some (report c (differences c a b))"
  by (simp add: newResourceDelta_def customPreCompare_def compareTags_tag_set [OF assms] compare_addWhen
      Let_def report_def differences_def)

end
