(* ===== verification/RoleManager.thy ===== *)
theory RoleManager
  imports RoleCrud Manager Resource RoleDelta
begin

text \<open>
  \<open>pkg/resource/role/manager.go\<close>, \<open>resource.go\<close> and \<open>descriptor.go\<close>: the entry points of
  \<open>Manager\<close> over the role's own functions, and the fields that identify a role.
\<close>

subsection \<open>manager.go\<close>

definition lateInitializeFieldNames :: "string list" where
  "lateInitializeFieldNames = [''MaxSessionDuration'', ''Path'']"

definition mirrorAWSTags :: "ack_rt \<Rightarrow> Role \<Rightarrow> Role ptr \<Rightarrow> Role" where
  "mirrorAWSTags r a b = (case b of
     None \<Rightarrow> a
   | Some b \<Rightarrow> a\<lparr>Spec_Tags := mirroredTags r (Spec_Tags a) (Spec_Tags b)\<rparr>)"

definition ReadOne :: "('b, 'p) rm \<Rightarrow> Role ptr \<Rightarrow> ('b, (Role ptr \<times> error option) \<times> Role) go" where
  "ReadOne rm res w = read_one sdkFind (\<lambda>rm. mirrorAWSTags (rt rm)) terminalCodes rm res w"

definition Create :: "('b, 'p) rm \<Rightarrow> Role ptr \<Rightarrow> ('b, Role ptr \<times> error option) go" where
  "Create rm res w = create_or_delete sdkCreate terminalCodes rm res w"

definition Update ::
  "('b, 'p) rm \<Rightarrow> 'd compare_rt \<Rightarrow> Role ptr \<Rightarrow> Role ptr \<Rightarrow> 'd \<Rightarrow> ('b, Role ptr \<times> error option) go" where
  "Update rm c resDesired resLatest delta w =
     update_with (\<lambda>rm desired latest delta. sdkUpdate rm c desired latest delta) terminalCodes rm resDesired resLatest delta w"

definition Delete :: "('b, 'p) rm \<Rightarrow> Role ptr \<Rightarrow> ('b, Role ptr \<times> error option) go" where
  "Delete rm res w = create_or_delete sdkDelete terminalCodes rm res w"

definition incompleteLateInitialization :: "Role \<Rightarrow> bool" where
  "incompleteLateInitialization ko =
     (if Spec_MaxSessionDuration ko = None then True else if Spec_Path ko = None then True else False)"

definition lateInitializeFromReadOneOutput :: "Role \<Rightarrow> Role \<Rightarrow> Role" where
  "lateInitializeFromReadOneOutput observedKo latestKo = latestKo\<lparr>
     Spec_MaxSessionDuration := late_field (Spec_MaxSessionDuration observedKo) (Spec_MaxSessionDuration latestKo),
     Spec_Path := late_field (Spec_Path observedKo) (Spec_Path latestKo)\<rparr>"

definition LateInitialize :: "('b, 'p) rm \<Rightarrow> Role ptr \<Rightarrow> ('b, Role ptr \<times> error option) go" where
  "LateInitialize rm latest w =
     late_initialize lateInitializeFieldNames (ReadOne rm) lateInitializeFromReadOneOutput
       incompleteLateInitialization rm latest w"

definition EnsureTags :: "('b, 'p) rm \<Rightarrow> Role ptr \<Rightarrow> (Role \<times> error option) option" where
  "EnsureTags rm res = do {
     ko \<leftarrow> res;
     Some (ko\<lparr>Spec_Tags := ensuredTags (rt rm) (Spec_Tags ko)\<rparr>, None) }"

definition FilterSystemTags :: "('b, 'p) rm \<Rightarrow> Role ptr \<Rightarrow> string list \<Rightarrow> Role ptr" where
  "FilterSystemTags rm res systemTags = (case res of
     None \<Rightarrow> None
   | Some ko \<Rightarrow> Some (ko\<lparr>Spec_Tags := filteredTags (rt rm) systemTags (Spec_Tags ko)\<rparr>))"

subsection \<open>resource.go and descriptor.go\<close>

definition FinalizerString :: string where
  "FinalizerString = ''finalizers.iam.services.k8s.aws/Role''"

definition SetStatus :: "Role \<Rightarrow> Role \<Rightarrow> Role" where
  "SetStatus desired r = r\<lparr>Status_ACKResourceMetadata := Status_ACKResourceMetadata desired,
     Status_Conditions := Status_Conditions desired, Status_CreateDate := Status_CreateDate desired,
     Status_RoleID := Status_RoleID desired, Status_RoleLastUsed := Status_RoleLastUsed desired\<rparr>"

definition SetIdentifiers :: "string \<Rightarrow> Role \<Rightarrow> Role \<times> error option" where
  "SetIdentifiers nameOrID r =
     (if nameOrID = [] then (r, Some MissingNameIdentifier) else (r\<lparr>Spec_Name := Some nameOrID\<rparr>, None))"

definition PopulateResourceFromAnnotation :: "ack_rt \<Rightarrow> (string, string) gomap \<Rightarrow> Role \<Rightarrow> Role \<times> error option" where
  "PopulateResourceFromAnnotation q annotation r = (case map_of annotation ''name'' of
     None \<Rightarrow> (r, Some (NewTerminalError q (Errorf ''required field missing: name'')))
   | Some f0 \<Rightarrow> (r\<lparr>Spec_Name := Some f0\<rparr>, None))"

definition Delta :: "ack_rt \<Rightarrow> 'd compare_rt \<Rightarrow> Role ptr \<Rightarrow> Role ptr \<Rightarrow> 'd option" where
  "Delta r c a b = newResourceDelta r c a b"

subsection \<open>What the entry points do\<close>

text \<open>The fields that reconciling may change on its own: status, tags, late-initialized fields.\<close>

lemma late_field_cases: "late_field observed latest = (if latest = None then observed else latest)"
  by (simp add: late_field_def)

lemma ReadOne_copy_mirrored:
  assumes "ReadOne rm (Some r) w = Some ((ret, copy), w')"
  shows "\<exists>obs. copy = mirrorAWSTags (rt rm) r obs"
  using assms by (auto simp: ReadOne_def read_one_def Let_def split: Option.bind_splits)

lemma sdkFind_found: "sdkFind rm r w = Some ((out, None), w') \<Longrightarrow> out \<noteq> None"
  unfolding sdkFind_def
  by (auto simp: Let_def split: if_splits option.splits Option.bind_splits sum.splits prod.splits)

lemma ReadOne_found:
  assumes "ReadOne rm (Some r) w = Some (((out, err), copy), w')"
  shows "out \<noteq> None"
proof -
  obtain obs e u r' where run: "sdkFind rm r w = Some ((obs, e), u)" and fin: "finish rm terminalCodes r' obs e = Some (out, err)"
    using assms by (auto simp: ReadOne_def read_one_def Let_def split: Option.bind_splits)
  show ?thesis
  proof (cases e)
    case None
    with run sdkFind_found obtain x where "obs = Some x" by blast
    with fin None show ?thesis by (auto simp: finish_def dest: onSuccess_some)
  next
    case (Some e')
    with fin show ?thesis by (cases obs) (auto simp: finish_def dest: onError_some)
  qed
qed

lemma LateInitialize_fills:
  assumes "ReadOne rm (Some latest) w = Some (((res, err), copy), w')"
  shows "\<exists>ko err'. LateInitialize rm (Some latest) w = Some ((Some ko, err'), w') \<and>
    ko = latest\<lparr>Status_Conditions := Status_Conditions ko, Spec_Tags := Spec_Tags ko,
      Spec_MaxSessionDuration := (if err = None \<and> Spec_MaxSessionDuration latest = None
        then Option.bind res Spec_MaxSessionDuration else Spec_MaxSessionDuration latest),
      Spec_Path := (if err = None \<and> Spec_Path latest = None then Option.bind res Spec_Path else Spec_Path latest)\<rparr> \<and>
    (\<exists>obs. Spec_Tags ko = Spec_Tags (mirrorAWSTags (rt rm) latest obs)) \<and>
    (if err = None then err' = None \<longleftrightarrow> Spec_MaxSessionDuration ko \<noteq> None \<and> Spec_Path ko \<noteq> None else err' = err)"
proof -
  obtain observed where res: "res = Some observed" using ReadOne_found [OF assms] by blast
  obtain obs where copy: "copy = mirrorAWSTags (rt rm) latest obs" using ReadOne_copy_mirrored [OF assms] by blast
  have old: "copy = latest\<lparr>Spec_Tags := Spec_Tags copy\<rparr>"
    by (simp add: copy mirrorAWSTags_def split: option.splits)
  have "\<exists>ko err'. LateInitialize rm (Some latest) w = Some ((Some ko, err'), w') \<and>
    ko = copy\<lparr>Status_Conditions := Status_Conditions ko,
      Spec_MaxSessionDuration := (if err = None \<and> Spec_MaxSessionDuration copy = None
        then Spec_MaxSessionDuration observed else Spec_MaxSessionDuration copy),
      Spec_Path := (if err = None \<and> Spec_Path copy = None then Spec_Path observed else Spec_Path copy)\<rparr> \<and>
    (if err = None then err' = None \<longleftrightarrow> Spec_MaxSessionDuration ko \<noteq> None \<and> Spec_Path ko \<noteq> None else err' = err)"
    using assms res
    by (cases err) (auto simp: LateInitialize_def late_initialize_def lateInitializeFieldNames_def setConditions_def Let_def
      lateInitializeFromReadOneOutput_def incompleteLateInitialization_def late_field_cases)
  then obtain ko err' where out: "LateInitialize rm (Some latest) w = Some ((Some ko, err'), w')"
    "ko = copy\<lparr>Status_Conditions := Status_Conditions ko,
      Spec_MaxSessionDuration := (if err = None \<and> Spec_MaxSessionDuration copy = None
        then Spec_MaxSessionDuration observed else Spec_MaxSessionDuration copy),
      Spec_Path := (if err = None \<and> Spec_Path copy = None then Spec_Path observed else Spec_Path copy)\<rparr>"
    "if err = None then err' = None \<longleftrightarrow> Spec_MaxSessionDuration ko \<noteq> None \<and> Spec_Path ko \<noteq> None else err' = err"
    by blast
  have tags: "Spec_Tags ko = Spec_Tags copy" by (subst out(2)) simp
  have "ko = latest\<lparr>Status_Conditions := Status_Conditions ko, Spec_Tags := Spec_Tags ko,
      Spec_MaxSessionDuration := (if err = None \<and> Spec_MaxSessionDuration latest = None
        then Option.bind res Spec_MaxSessionDuration else Spec_MaxSessionDuration latest),
      Spec_Path := (if err = None \<and> Spec_Path latest = None then Option.bind res Spec_Path else Spec_Path latest)\<rparr>"
    using out(2) old tags res by (cases ko; cases copy; cases latest) simp
  with out copy tags show ?thesis by blast
qed

lemma sdkFind_not_found:
  assumes "Spec_Name r = None \<or> (\<exists>e. fst (GetRole (sdkapi rm) (Spec_Name r) (aws w)) = (resp, Some e)
    \<and> ErrorCode e = Some ''NoSuchEntity'')"
  shows "\<exists>w'. sdkFind rm r w = Some ((None, Some NotFound), w') \<and> (Spec_Name r = None \<longrightarrow> w' = w)"
  using assms
  by (auto simp: sdkFind_def requiredFieldsMissingFromReadOneInput_def newDescribeRequestPayload_def)

lemma sdkFind_api_error:
  assumes "Spec_Name r \<noteq> None" and "fst (GetRole (sdkapi rm) (Spec_Name r) (aws w)) = (resp, Some e)"
    and "ErrorCode e \<noteq> Some ''NoSuchEntity''"
  shows "\<exists>w'. sdkFind rm r w = Some ((None, Some e), w') \<and> api_calls w' = api_calls w @ [(''READ_ONE'', ''GetRole'', Some e)]"
  using assms
  by (auto simp: sdkFind_def requiredFieldsMissingFromReadOneInput_def newDescribeRequestPayload_def)

lemma sdkUpdate_nothing:
  assumes "\<forall>p \<in> {''Spec.Policies'', ''Spec.InlinePolicies'', ''Spec.Tags'', ''Spec.PermissionsBoundary'',
      ''Spec.AssumeRolePolicyDocument''}. \<not> DifferentAt c delta p"
    and "\<not> DifferentExcept c delta [''Spec.Tags'', ''Spec.Policies'', ''Spec.InlinePolicies'',
               ''Spec.PermissionsBoundary'', ''Spec.AssumeRolePolicyDocument'']"
  shows "sdkUpdate rm c desired latest delta w = Some ((Some desired, None), w)"
  using assms by (simp add: sdkUpdate_def when_different_def)

lemma sdkCreate_created:
  assumes "newCreateRequestPayload desired = Inr input"
    and "CreateRole (sdkapi rm) input (aws w) = ((Some (Some role), None), b)"
    and "Role_AssumeRolePolicyDocument role = Some (pct_encode doc)"
  shows "sdkCreate rm desired w = Some ((Some ((setStatusDefaults rm (fromCreateRole role desired))\<lparr>
      Spec_AssumeRolePolicyDocument := Some doc\<rparr>),
      Some (RequeueNeeded (rt rm) (Errorf ''role created, requeuing to trigger updates''))),
    RecordAPICall ''CREATE'' ''CreateRole'' None (w\<lparr>aws := b\<rparr>))"
proof -
  have "Spec_AssumeRolePolicyDocument (setStatusDefaults rm ko) = Spec_AssumeRolePolicyDocument ko" for ko :: Role
    by (simp add: setStatusDefaults_def Let_def)
  then show ?thesis using assms
    by (simp add: sdkCreate_def decodeTrustPolicy_def fromCreateRole_def decodeDocument_def QueryUnescape_pct_encode)
qed

subsection \<open>A successful update\<close>

text \<open>Only the attach and detach calls change which policies are attached.\<close>

definition attached_apart :: "('b, 'p) role_sdk \<Rightarrow> ('b \<Rightarrow> string \<Rightarrow> string set) \<Rightarrow> bool" where
  "attached_apart sdk attached \<longleftrightarrow>
     (\<forall>n p d b. attached (snd (PutRolePolicy sdk n p d b)) = attached b) \<and>
     (\<forall>n p b. attached (snd (DeleteRolePolicy sdk n p b)) = attached b) \<and>
     (\<forall>n ts b. attached (snd (TagRole sdk n ts b)) = attached b) \<and>
     (\<forall>n ks b. attached (snd (UntagRole sdk n ks b)) = attached b) \<and>
     (\<forall>n p b. attached (snd (PutRolePermissionsBoundary sdk n p b)) = attached b) \<and>
     (\<forall>n b. attached (snd (DeleteRolePermissionsBoundary sdk n b)) = attached b) \<and>
     (\<forall>n d b. attached (snd (UpdateAssumeRolePolicy sdk n d b)) = attached b) \<and>
     (\<forall>input b. attached (snd (UpdateRole sdk input b)) = attached b)"

lemma hooks_keep_attached:
  assumes "attached_apart (sdkapi rm) attached"
  shows "addInlinePolicy rm r k d w = Some (err, w') \<Longrightarrow> attached (aws w') = attached (aws w)"
    and "removeInlinePolicy rm r k w = Some (err, w') \<Longrightarrow> attached (aws w') = attached (aws w)"
    and "remove_stale (rt rm) (removeInlinePolicy rm r) toAdd x w = Some (err, w') \<Longrightarrow> attached (aws w') = attached (aws w)"
    and "addTags rm r ts w = Some (err, w') \<Longrightarrow> attached (aws w') = attached (aws w)"
    and "removeTags rm r ts w = Some (err, w') \<Longrightarrow> attached (aws w') = attached (aws w)"
    and "syncRolePermissionsBoundary rm r w = Some (err, w') \<Longrightarrow> attached (aws w') = attached (aws w)"
    and "putAssumeRolePolicy rm r w = Some (err, w') \<Longrightarrow> attached (aws w') = attached (aws w)"
  using assms
  by (auto simp: attached_apart_def addInlinePolicy_def removeInlinePolicy_def remove_stale_def addTags_def removeTags_def
      syncRolePermissionsBoundary_def putRolePermissionsBoundary_def deleteRolePermissionsBoundary_def
      putAssumeRolePolicy_def Let_def split_beta split: Option.bind_splits option.splits if_splits)

lemma syncInlinePolicies_keeps_attached:
  assumes ok: "attached_apart (sdkapi rm) attached" and run: "syncInlinePolicies rm desired latest w = Some (err, w')"
  shows "attached (aws w') = attached (aws w)"
proof -
  obtain toDelete toAdd e u where
    add: "for_each (\<lambda>(k, d). addInlinePolicy rm desired k (Some d)) toAdd w = Some (e, u)"
    and del: "e = None \<Longrightarrow> for_each (remove_stale (rt rm) (removeInlinePolicy rm desired) toAdd) toDelete u = Some (err, w')"
    and stop: "e \<noteq> None \<Longrightarrow> w' = u"
    using run by (fastforce simp: syncInlinePolicies_def sync_inline_policies_def Let_def split_beta split: Option.bind_splits option.splits)
  have u: "attached (aws u) = attached (aws w)"
    by (rule for_each_keeps [OF add]) (auto dest: hooks_keep_attached(1) [OF ok])
  show ?thesis
  proof (cases e)
    case None
    show ?thesis
      by (rule for_each_keeps [OF del [OF None]]) (auto simp: u dest: hooks_keep_attached(3) [OF ok])
  next
    case (Some x)
    with stop u show ?thesis by simp
  qed
qed

lemma syncTags_keeps_attached:
  assumes ok: "attached_apart (sdkapi rm) attached" and run: "syncTags rm desired latest w = Some (err, w')"
  shows "attached (aws w') = attached (aws w)"
  using run
  by (auto simp: syncTags_def Let_def dest!: hooks_keep_attached(4,5) [OF ok]
      split: Option.bind_splits option.splits if_splits)

lemma no_policies_difference:
  assumes "in_string_ok r" and "tag_set (elems (Spec_Tags a))" and "tag_set (elems (Spec_Tags b))"
    and "delta_ok c delta_paths" and "slices_equal_ok c"
    and "newResourceDelta r c (Some a) (Some b) = Some delta" and "\<not> DifferentAt c delta ''Spec.Policies''"
  shows "set (elems (Spec_Policies a)) = set (elems (Spec_Policies b))"
proof -
  have "delta = report c (differences c a b)"
    using newResourceDelta_report [OF assms(1-3), of c] assms(6) by simp
  then have "\<not> stringsDiffer c (Spec_Policies a) (Spec_Policies b)"
    using assms(7) DifferentAt_report [OF assms(4), of "differences c a b" "''Spec.Policies''"] paths_of_differences [of c a b]
    by (auto simp: delta_paths_def differences_def)
  with assms(5) show ?thesis by (auto simp: stringsDiffer_def slices_equal_ok_def)
qed

lemma sdkUpdate_attached:
  assumes rt: "in_string_ok (rt rm)" and ok: "attach_ok (sdkapi rm) attached" "attached_apart (sdkapi rm) attached"
    and n: "Spec_Name desired = Some n"
    and ts: "tag_set (elems (Spec_Tags desired))" "tag_set (elems (Spec_Tags latest))"
    and ds: "elems (Spec_Policies desired) = map Some ds"
    and ls: "elems (Spec_Policies latest) = map Some ls" "attached (aws w) n = set ls"
    and c: "delta_ok c delta_paths" "slices_equal_ok c"
    and delta: "newResourceDelta (rt rm) c (Some desired) (Some latest) = Some delta"
    and run: "sdkUpdate rm c desired latest delta w = Some ((res, None), w')"
  shows "attached (aws w') n = set ds"
proof -
  define others where "others = [(''Spec.InlinePolicies'', syncInlinePolicies rm desired latest),
        (''Spec.Tags'', syncTags rm desired latest),
        (''Spec.PermissionsBoundary'', syncRolePermissionsBoundary rm desired),
        (''Spec.AssumeRolePolicyDocument'', putAssumeRolePolicy rm desired)]"
  obtain u where first: "when_different c delta ''Spec.Policies'' (syncManagedPolicies rm desired latest) w = Some (None, u)"
    and rest: "\<exists>v. for_each (\<lambda>(path, f). when_different c delta path f) others u = Some (None, v) \<and>
      attached (aws w') = attached (aws v)"
    using run ok(2)
    by (auto simp: sdkUpdate_def others_def attached_apart_def Let_def simp del: for_each.simps(2)
        split: Option.bind_splits option.splits sum.splits if_splits)
      (auto split: Option.bind_splits option.splits)
  have "attached (aws u) n = set ds"
  proof (cases "DifferentAt c delta ''Spec.Policies''")
    case True
    with first have "syncManagedPolicies rm desired latest w = Some (None, u)" by (simp add: when_different_def)
    then show ?thesis using syncManagedPolicies_attached [OF rt ok(1) n ds ls(1)] ls(2) by auto
  next
    case False
    then have "set (elems (Spec_Policies desired)) = set (elems (Spec_Policies latest))"
      using no_policies_difference [OF rt ts c delta] by simp
    then have "set ds = set ls" by (simp add: ds ls(1) inj_image_eq_iff)
    with False first ls(2) show ?thesis by (simp add: when_different_def)
  qed
  moreover have "attached (aws w') = attached (aws u)"
  proof -
    have "attached (aws v') = attached (aws u)"
      if "(path, f) \<in> set others" "attached (aws v) = attached (aws u)" "when_different c delta path f v = Some (err, v')"
      for path f v err v'
      using that
      by (auto simp: others_def when_different_def split: if_splits
          dest: syncInlinePolicies_keeps_attached [OF ok(2)] syncTags_keeps_attached [OF ok(2)] hooks_keep_attached(6,7) [OF ok(2)])
    with rest show ?thesis
      by (metis (mono_tags, lifting) case_prod_conv for_each_keeps [where I = "\<lambda>v. attached (aws v) = attached (aws u)"] surj_pair)
  qed
  ultimately show ?thesis by simp
qed

end
