(* ===== verification/References.thy ===== *)
theory References
  imports Conditions
begin

text \<open>
  The parts of \<open>references.go\<close> the packages share: looking up the \<open>Policy\<close> custom resource a
  reference names, and resolving one reference to its ARN. The Kubernetes reader is a parameter:
  given a namespace and a name it returns an error or the object, of which only the shared part
  is read. (The \<open>Policy\<close> is the target in the role, group and user packages.)
\<close>

type_synonym reader = "string \<Rightarrow> string \<Rightarrow> error + ack_object"

definition getReferencedResourceState_Policy :: "ack_rt \<Rightarrow> reader \<Rightarrow> string \<Rightarrow> string \<Rightarrow> error + ack_object" where
  "getReferencedResourceState_Policy r apiReader name namespace = (case apiReader namespace name of
     Inl err \<Rightarrow> Inl err
   | Inr obj \<Rightarrow>
       if (\<exists>cond \<in> set (conditions_of obj). Type cond = ConditionTypeTerminal \<and> Status cond = Some ConditionTrue)
       then Inl (ResourceReferenceTerminalFor r ''Policy'' namespace name)
       else if \<not> (\<exists>cond \<in> set (conditions_of obj). Type cond = ConditionTypeResourceSynced \<and> Status cond = Some ConditionTrue)
       then Inl (ResourceReferenceNotSyncedFor r ''Policy'' namespace name)
       else if Status_ACKResourceMetadata obj = None \<or> Option.bind (Status_ACKResourceMetadata obj) ARN = None
       then Inl (ResourceReferenceMissingTargetFieldFor r ''Policy'' namespace name ''Status.ACKResourceMetadata.ARN'')
       else Inr obj)"

text \<open>
  The body every resolver runs for a reference \<open>arr\<close>: the error or what the reference stands for, and
  the resource, whose conditions the runtime's namespace check may extend. \<open>lookup\<close> finds the
  object of a name and a namespace.
\<close>

definition resolve_reference ::
  "'m resourceManager_scheme \<Rightarrow> (string \<Rightarrow> string \<Rightarrow> error + string ptr) \<Rightarrow> string \<Rightarrow> AWSResourceReference \<Rightarrow>
     'a ack_object_scheme \<Rightarrow> (error + string ptr) \<times> 'a ack_object_scheme" where
  "resolve_reference rm lookup refField arr ko = (case ref_Name arr of
     None \<Rightarrow> (Inl (Errorf (''provided resource reference is nil or empty: '' @ refField)), ko)
   | Some name \<Rightarrow>
       if name = [] then (Inl (Errorf (''provided resource reference is nil or empty: '' @ refField)), ko)
       else
         (let ((namespace, err), conds) = ResolveCrossNamespaceReference (rt rm) (EnableCrossNamespace rm)
                (Status_Conditions ko) (Namespace ko) (ref_Namespace arr) name;
              ko = ko\<lparr>Status_Conditions := conds\<rparr>
          in case err of
               Some e \<Rightarrow> (Inl e, ko)
             | None \<Rightarrow> (lookup name namespace, ko)))"

text \<open>A policy reference stands for the ARN of the \<open>Policy\<close>.\<close>

definition resolvePolicyReference ::
  "'m resourceManager_scheme \<Rightarrow> reader \<Rightarrow> string \<Rightarrow> AWSResourceReference \<Rightarrow> 'a ack_object_scheme \<Rightarrow>
     (error + string ptr) \<times> 'a ack_object_scheme" where
  "resolvePolicyReference rm apiReader refField arr ko =
     resolve_reference rm (\<lambda>name namespace. case getReferencedResourceState_Policy (rt rm) apiReader name namespace of
         Inl e \<Rightarrow> Inl e
       | Inr obj \<Rightarrow> Inr (Option.bind (Status_ACKResourceMetadata obj) ARN)) refField arr ko"

lemma getReferencedResourceState_Policy_ok:
  assumes "getReferencedResourceState_Policy r apiReader name namespace = Inr obj"
  shows "apiReader namespace name = Inr obj \<and>
    \<not> (\<exists>c \<in> set (conditions_of obj). Type c = ConditionTypeTerminal \<and> Status c = Some ConditionTrue) \<and>
    (\<exists>c \<in> set (conditions_of obj). Type c = ConditionTypeResourceSynced \<and> Status c = Some ConditionTrue) \<and>
    (\<exists>arn. Option.bind (Status_ACKResourceMetadata obj) ARN = Some arn)"
  using assms unfolding getReferencedResourceState_Policy_def
  by (auto split: sum.splits if_splits)

text \<open>A reference resolves to an ARN only through a synced, non-terminal \<open>Policy\<close>.\<close>

lemma resolvePolicyReference_ok:
  assumes "resolvePolicyReference rm apiReader refField arr ko = (Inr p, ko')"
  shows "\<exists>name namespace obj arn. ref_Name arr = Some name \<and> name \<noteq> [] \<and>
    apiReader namespace name = Inr obj \<and> p = Some arn \<and> Option.bind (Status_ACKResourceMetadata obj) ARN = Some arn \<and>
    (\<exists>c \<in> set (conditions_of obj). Type c = ConditionTypeResourceSynced \<and> Status c = Some ConditionTrue) \<and>
    \<not> (\<exists>c \<in> set (conditions_of obj). Type c = ConditionTypeTerminal \<and> Status c = Some ConditionTrue)"
proof -
  from assms obtain name namespace obj where *: "ref_Name arr = Some name" "name \<noteq> []"
    "getReferencedResourceState_Policy (rt rm) apiReader name namespace = Inr obj"
    "p = Option.bind (Status_ACKResourceMetadata obj) ARN"
    by (auto simp: resolvePolicyReference_def resolve_reference_def Let_def split_beta split: option.splits if_splits sum.splits)
  then show ?thesis using getReferencedResourceState_Policy_ok [OF *(3)] by auto
qed

text \<open>Resolving changes nothing of the resource but its conditions.\<close>

lemma resolvePolicyReference_frame:
  "(snd (resolvePolicyReference rm apiReader refField arr ko))\<lparr>Status_Conditions := cs\<rparr> = ko\<lparr>Status_Conditions := cs\<rparr>"
  by (auto simp: resolvePolicyReference_def resolve_reference_def Let_def split_beta split: option.splits sum.splits)

end
