(* ===== verification/HolderReferences.thy ===== *)
theory HolderReferences
  imports Holder References
begin

text \<open>
  \<open>references.go\<close> of the packages whose resources hold policies: replacing references to \<open>Policy\<close>
  custom resources by their ARNs before a resource is reconciled, and taking them out again
  before it is stored. The role and the user package state the same functions for the permissions
  boundary and the policies, the group package those for the policies alone.
\<close>

definition clear_resolved_references :: "'a bounded_holder_scheme \<Rightarrow> 'a bounded_holder_scheme" where
  "clear_resolved_references res =
     (let ko = res;
          ko = (if Spec_PermissionsBoundaryRef ko \<noteq> None then ko\<lparr>Spec_PermissionsBoundary := None\<rparr> else ko);
          ko = (if length (elems (Spec_PolicyRefs ko)) > 0 then ko\<lparr>Spec_Policies := None\<rparr> else ko)
      in ko)"

definition validate_reference_fields :: "ack_rt \<Rightarrow> 'a bounded_holder_scheme \<Rightarrow> error option" where
  "validate_reference_fields r ko =
     (if Spec_PermissionsBoundaryRef ko \<noteq> None \<and> Spec_PermissionsBoundary ko \<noteq> None
      then Some (ResourceReferenceAndIDNotSupportedFor r ''PermissionsBoundary'' ''PermissionsBoundaryRef'')
      else if length (elems (Spec_PolicyRefs ko)) > 0 \<and> length (elems (Spec_Policies ko)) > 0
      then Some (ResourceReferenceAndIDNotSupportedFor r ''Policies'' ''PolicyRefs'')
      else None)"

definition resolve_boundary_reference ::
  "'m resourceManager_scheme \<Rightarrow> reader \<Rightarrow> 'a bounded_holder_scheme \<Rightarrow> (bool \<times> error option) \<times> 'a bounded_holder_scheme" where
  "resolve_boundary_reference rm apiReader ko =
     (case Option.bind (Spec_PermissionsBoundaryRef ko) From of
        None \<Rightarrow> ((False, None), ko)
      | Some arr \<Rightarrow> (case resolvePolicyReference rm apiReader ''PermissionsBoundaryRef'' arr ko of
           (Inl e, ko) \<Rightarrow> ((True, Some e), ko)
         | (Inr arn, ko) \<Rightarrow> ((True, None), ko\<lparr>Spec_PermissionsBoundary := arn\<rparr>)))"

text \<open>The loop over \<open>ko.Spec.PolicyRefs\<close>; \<open>has\<close> is \<open>hasReferences\<close> so far.\<close>

primrec resolve_policy_refs ::
  "'m resourceManager_scheme \<Rightarrow> reader \<Rightarrow> AWSResourceReferenceWrapper ptr list \<Rightarrow> bool \<Rightarrow> 'a policy_holder_scheme \<Rightarrow>
     (bool \<times> error option) \<times> 'a policy_holder_scheme" where
  "resolve_policy_refs rm apiReader [] has ko = ((has, None), ko)"
| "resolve_policy_refs rm apiReader (f0iter # refs) has ko = (case Option.bind f0iter From of
     None \<Rightarrow> resolve_policy_refs rm apiReader refs has ko
   | Some arr \<Rightarrow> (case resolvePolicyReference rm apiReader ''PolicyRefs'' arr ko of
        (Inl e, ko) \<Rightarrow> ((True, Some e), ko)
      | (Inr arn, ko) \<Rightarrow> resolve_policy_refs rm apiReader refs True
          (ko\<lparr>Spec_Policies := Some (elems (Spec_Policies ko) @ [arn])\<rparr>)))"

definition resolve_policies_reference ::
  "'m resourceManager_scheme \<Rightarrow> reader \<Rightarrow> 'a policy_holder_scheme \<Rightarrow> (bool \<times> error option) \<times> 'a policy_holder_scheme" where
  "resolve_policies_reference rm apiReader ko =
     resolve_policy_refs rm apiReader (elems (Spec_PolicyRefs ko)) False ko"

definition resolve_references ::
  "'m resourceManager_scheme \<Rightarrow> reader \<Rightarrow> 'a bounded_holder_scheme \<Rightarrow> 'a bounded_holder_scheme \<times> bool \<times> error option" where
  "resolve_references rm apiReader res =
     (let ko = res;
          err = validate_reference_fields (rt rm) ko
      in case resolve_boundary_reference rm apiReader ko of
           ((fieldHasReferences, Some e), ko) \<Rightarrow> (ko, False \<or> fieldHasReferences, Some e)
         | ((fieldHasReferences, None), ko) \<Rightarrow>
             (let resourceHasReferences = False \<or> fieldHasReferences
              in case resolve_policies_reference rm apiReader ko of
                   ((fieldHasReferences, Some e), ko) \<Rightarrow> (ko, resourceHasReferences \<or> fieldHasReferences, Some e)
                 | ((fieldHasReferences, None), ko) \<Rightarrow> (ko, resourceHasReferences \<or> fieldHasReferences, err)))"

subsection \<open>Resolving and clearing\<close>

text \<open>A reference stands for the ARN of a synced, non-terminal \<open>Policy\<close> the reader finds.\<close>

definition resolves_to :: "reader \<Rightarrow> AWSResourceReference \<Rightarrow> string ptr \<Rightarrow> bool" where
  "resolves_to apiReader arr p \<longleftrightarrow> (\<exists>name namespace obj arn. ref_Name arr = Some name \<and> name \<noteq> [] \<and>
    apiReader namespace name = Inr obj \<and> p = Some arn \<and> Option.bind (Status_ACKResourceMetadata obj) ARN = Some arn \<and>
    (\<exists>c \<in> set (conditions_of obj). Type c = ConditionTypeResourceSynced \<and> Status c = Some ConditionTrue) \<and>
    \<not> (\<exists>c \<in> set (conditions_of obj). Type c = ConditionTypeTerminal \<and> Status c = Some ConditionTrue))"

definition wrapped :: "AWSResourceReferenceWrapper ptr list \<Rightarrow> AWSResourceReference list" where
  "wrapped refs = List.map_filter (\<lambda>f. Option.bind f From) refs"

lemma wrapped_simps [simp]:
  "wrapped [] = []"
  "wrapped (f # refs) = (case Option.bind f From of None \<Rightarrow> wrapped refs | Some arr \<Rightarrow> arr # wrapped refs)"
  by (simp_all add: wrapped_def List.map_filter_def split: option.splits)

text \<open>
  Resolving touches the conditions, the policies and the boundary. What is equal but for the
  conditions is compared with the conditions taken out.
\<close>

abbreviation without_conditions :: "'a ack_object_scheme \<Rightarrow> 'a ack_object_scheme" where
  "without_conditions ko \<equiv> ko\<lparr>Status_Conditions := None\<rparr>"

lemma policies_cong:
  fixes a b :: "'a policy_holder_scheme"
  assumes "without_conditions a = without_conditions b"
  shows "without_conditions (a\<lparr>Spec_Policies := x\<rparr>) = without_conditions (b\<lparr>Spec_Policies := x\<rparr>)"
    and "Spec_Policies a = Spec_Policies b" and "Spec_PolicyRefs a = Spec_PolicyRefs b"
  using assms by (cases a; cases b; simp)+

lemma boundary_cong:
  fixes a b :: "'a bounded_holder_scheme"
  assumes "without_conditions a = without_conditions b"
  shows "without_conditions (a\<lparr>Spec_PermissionsBoundary := y\<rparr>) = without_conditions (b\<lparr>Spec_PermissionsBoundary := y\<rparr>)"
    and "Spec_PermissionsBoundary a = Spec_PermissionsBoundary b"
    and "Spec_PermissionsBoundaryRef a = Spec_PermissionsBoundaryRef b"
  using assms by (cases a; cases b; simp)+

lemma resolvePolicyReference_without:
  "resolvePolicyReference rm apiReader refField arr ko = (res, ko') \<Longrightarrow> without_conditions ko' = without_conditions ko"
  using resolvePolicyReference_frame [of None rm apiReader refField arr ko] by simp

lemma resolve_policy_refs_result:
  assumes "resolve_policy_refs rm apiReader refs has ko = ((b, err), ko')"
  shows "\<exists>arns. without_conditions (ko'\<lparr>Spec_Policies := None\<rparr>) = without_conditions (ko\<lparr>Spec_Policies := None\<rparr>) \<and>
    elems (Spec_Policies ko') = elems (Spec_Policies ko) @ arns \<and>
    (wrapped refs = [] \<longrightarrow> without_conditions ko' = without_conditions ko) \<and>
    (err = None \<longrightarrow> list_all2 (resolves_to apiReader) (wrapped refs) arns)"
  using assms
proof (induction refs arbitrary: has ko)
  case Nil
  then show ?case by simp
next
  case (Cons f refs)
  show ?case
  proof (cases "Option.bind f From")
    case None
    with Cons show ?thesis by auto
  next
    case (Some arr)
    obtain res ko1 where one: "resolvePolicyReference rm apiReader ''PolicyRefs'' arr ko = (res, ko1)" by fastforce
    then have m: "without_conditions ko1 = without_conditions ko" by (rule resolvePolicyReference_without)
    show ?thesis
    proof (cases res)
      case (Inl e)
      with Cons.prems one Some m policies_cong [OF m] show ?thesis by auto
    next
      case (Inr arn)
      let ?ko2 = "ko1\<lparr>Spec_Policies := Some (elems (Spec_Policies ko1) @ [arn])\<rparr>"
      have "resolve_policy_refs rm apiReader refs True ?ko2 = ((b, err), ko')"
        using Cons.prems one Some Inr by simp
      from Cons.IH [OF this] obtain arns where
        *: "without_conditions (ko'\<lparr>Spec_Policies := None\<rparr>) = without_conditions (?ko2\<lparr>Spec_Policies := None\<rparr>)"
          "elems (Spec_Policies ko') = elems (Spec_Policies ?ko2) @ arns"
          "err = None \<longrightarrow> list_all2 (resolves_to apiReader) (wrapped refs) arns" by blast
      have "resolves_to apiReader arr arn"
        using resolvePolicyReference_ok [of rm apiReader _ arr ko arn ko1] one Inr
        unfolding resolves_to_def by blast
      with * Some policies_cong [OF m] show ?thesis
        by (intro exI [of _ "arn # arns"]) simp
    qed
  qed
qed

lemma boundary_result:
  assumes "resolve_boundary_reference rm apiReader ko = ((b, err), ko')"
  shows "without_conditions (ko'\<lparr>Spec_PermissionsBoundary := None\<rparr>) = without_conditions (ko\<lparr>Spec_PermissionsBoundary := None\<rparr>) \<and>
    (Spec_PermissionsBoundaryRef ko = None \<longrightarrow> without_conditions ko' = without_conditions ko) \<and>
    (\<forall>arr. err = None \<longrightarrow> Option.bind (Spec_PermissionsBoundaryRef ko) From = Some arr \<longrightarrow>
       resolves_to apiReader arr (Spec_PermissionsBoundary ko'))"
proof (cases "Option.bind (Spec_PermissionsBoundaryRef ko) From")
  case None
  with assms show ?thesis by (auto simp: resolve_boundary_reference_def)
next
  case (Some arr)
  obtain res ko1 where one: "resolvePolicyReference rm apiReader ''PermissionsBoundaryRef'' arr ko = (res, ko1)" by fastforce
  then have m: "without_conditions ko1 = without_conditions ko" by (rule resolvePolicyReference_without)
  have "resolves_to apiReader arr arn" if "res = Inr arn" for arn
    using resolvePolicyReference_ok [of rm apiReader _ arr ko arn ko1] one that unfolding resolves_to_def by blast
  with assms Some one boundary_cong [OF m] show ?thesis
    by (cases res) (auto simp: resolve_boundary_reference_def)
qed

lemma resolve_references_clear:
  assumes valid: "validate_reference_fields (rt rm) res = None"
    and run: "resolve_references rm apiReader res = (ko, has, err)"
  shows "clear_resolved_references ko = res\<lparr>Status_Conditions := Status_Conditions ko,
      Spec_Policies := if elems (Spec_PolicyRefs res) = [] then Spec_Policies res else None\<rparr> \<and>
    elems (Spec_Policies (clear_resolved_references ko)) = elems (Spec_Policies res)"
proof -
  obtain b1 e1 ko1 where one: "resolve_boundary_reference rm apiReader res = ((b1, e1), ko1)" by (metis surj_pair)
  obtain b2 e2 ko2 where two: "resolve_policies_reference rm apiReader ko1 = ((b2, e2), ko2)" by (metis surj_pair)
  have ko: "ko = ko1 \<or> ko = ko2" using run one two by (auto simp: resolve_references_def Let_def split: option.splits)
  note B = boundary_result [OF one]
  from resolve_policy_refs_result two obtain arns where
    P: "without_conditions (ko2\<lparr>Spec_Policies := None\<rparr>) = without_conditions (ko1\<lparr>Spec_Policies := None\<rparr>)"
      "wrapped (elems (Spec_PolicyRefs ko1)) = [] \<longrightarrow> without_conditions ko2 = without_conditions ko1"
    unfolding resolve_policies_reference_def by metis
  have same: "Spec_PermissionsBoundaryRef x = Spec_PermissionsBoundaryRef res \<and> Spec_PolicyRefs x = Spec_PolicyRefs res \<and>
      (Spec_PermissionsBoundaryRef res = None \<longrightarrow> Spec_PermissionsBoundary x = Spec_PermissionsBoundary res) \<and>
      (elems (Spec_PolicyRefs res) = [] \<longrightarrow> Spec_Policies x = Spec_Policies res) \<and>
      without_conditions (x\<lparr>Spec_PermissionsBoundary := None, Spec_Policies := None\<rparr>) =
      without_conditions (res\<lparr>Spec_PermissionsBoundary := None, Spec_Policies := None\<rparr>)" if "x = ko1 \<or> x = ko2" for x
  proof -
    have 1: "Spec_PermissionsBoundaryRef ko1 = Spec_PermissionsBoundaryRef res \<and> Spec_PolicyRefs ko1 = Spec_PolicyRefs res \<and>
      (Spec_PermissionsBoundaryRef res = None \<longrightarrow> Spec_PermissionsBoundary ko1 = Spec_PermissionsBoundary res) \<and>
      Spec_Policies ko1 = Spec_Policies res \<and>
      without_conditions (ko1\<lparr>Spec_PermissionsBoundary := None, Spec_Policies := None\<rparr>) =
      without_conditions (res\<lparr>Spec_PermissionsBoundary := None, Spec_Policies := None\<rparr>)"
      using B by (cases ko1; cases res) auto
    moreover have "Spec_PermissionsBoundaryRef ko2 = Spec_PermissionsBoundaryRef ko1 \<and> Spec_PolicyRefs ko2 = Spec_PolicyRefs ko1 \<and>
      Spec_PermissionsBoundary ko2 = Spec_PermissionsBoundary ko1 \<and>
      (elems (Spec_PolicyRefs ko1) = [] \<longrightarrow> Spec_Policies ko2 = Spec_Policies ko1) \<and>
      without_conditions (ko2\<lparr>Spec_PermissionsBoundary := None, Spec_Policies := None\<rparr>) =
      without_conditions (ko1\<lparr>Spec_PermissionsBoundary := None, Spec_Policies := None\<rparr>)"
      using P by (cases ko1; cases ko2) auto
    ultimately show ?thesis using that by auto
  qed
  have eq: "a = b\<lparr>Status_Conditions := Status_Conditions a, Spec_Policies := Spec_Policies a\<rparr>"
    if "without_conditions (a\<lparr>Spec_PermissionsBoundary := None, Spec_Policies := None\<rparr>) =
      without_conditions (b\<lparr>Spec_PermissionsBoundary := None, Spec_Policies := None\<rparr>)"
      "Spec_PermissionsBoundary a = Spec_PermissionsBoundary b" for a b :: "'a bounded_holder_scheme"
    using that by (cases a; cases b) simp
  let ?ko = "clear_resolved_references ko"
  have "Spec_PermissionsBoundary ?ko = Spec_PermissionsBoundary res \<and> Status_Conditions ?ko = Status_Conditions ko \<and>
      Spec_Policies ?ko = (if elems (Spec_PolicyRefs res) = [] then Spec_Policies res else None)"
    using same [OF ko] valid
    by (auto simp: clear_resolved_references_def validate_reference_fields_def Let_def split: if_splits)
  moreover have "without_conditions (?ko\<lparr>Spec_PermissionsBoundary := None, Spec_Policies := None\<rparr>) =
      without_conditions (res\<lparr>Spec_PermissionsBoundary := None, Spec_Policies := None\<rparr>)"
    using same [OF ko] by (cases ko; cases res) (auto simp: clear_resolved_references_def Let_def)
  moreover have "elems (Spec_PolicyRefs res) = [] \<or> elems (Spec_Policies res) = []"
    using valid by (auto simp: validate_reference_fields_def split: if_splits)
  ultimately show ?thesis using eq [of ?ko res] by auto
qed

lemma resolve_references_resolved:
  assumes run: "resolve_references rm apiReader res = (ko, has, None)"
  shows "\<exists>arns. elems (Spec_Policies ko) = elems (Spec_Policies res) @ arns \<and>
    list_all2 (resolves_to apiReader) (wrapped (elems (Spec_PolicyRefs res))) arns \<and>
    (\<forall>arr. Option.bind (Spec_PermissionsBoundaryRef res) From = Some arr \<longrightarrow>
       resolves_to apiReader arr (Spec_PermissionsBoundary ko))"
proof -
  obtain b1 ko1 where one: "resolve_boundary_reference rm apiReader res = ((b1, None), ko1)"
    using run by (auto simp: resolve_references_def Let_def split: option.splits prod.splits)
  obtain b2 where two: "resolve_policy_refs rm apiReader (elems (Spec_PolicyRefs ko1)) False ko1 = ((b2, None), ko)"
    using run one by (auto simp: resolve_references_def resolve_policies_reference_def Let_def split: option.splits prod.splits)
  have B: "Spec_PolicyRefs ko1 = Spec_PolicyRefs res \<and> Spec_Policies ko1 = Spec_Policies res"
    using boundary_result [OF one] by (cases ko1; cases res) auto
  from resolve_policy_refs_result [OF two] obtain arns where
    "without_conditions (ko\<lparr>Spec_Policies := None\<rparr>) = without_conditions (ko1\<lparr>Spec_Policies := None\<rparr>)"
    "elems (Spec_Policies ko) = elems (Spec_Policies ko1) @ arns"
    "list_all2 (resolves_to apiReader) (wrapped (elems (Spec_PolicyRefs ko1))) arns" by auto
  moreover from this(1) have "Spec_PermissionsBoundary ko = Spec_PermissionsBoundary ko1"
    by (cases ko; cases ko1) simp
  ultimately show ?thesis using B boundary_result [OF one] by auto
qed

end
