(* ===== verification/RoleReferences.thy ===== *)
theory RoleReferences
  imports RoleApi HolderReferences
begin

text \<open>
  \<open>pkg/resource/role/references.go\<close>, the functions of \<open>HolderReferences\<close> for roles.
\<close>

definition ClearResolvedReferences :: "Role \<Rightarrow> Role" where
  "ClearResolvedReferences res = clear_resolved_references res"

definition validateReferenceFields :: "ack_rt \<Rightarrow> Role \<Rightarrow> error option" where
  "validateReferenceFields r ko = validate_reference_fields r ko"

definition resolveReferenceForPermissionsBoundary ::
  "'m resourceManager_scheme \<Rightarrow> reader \<Rightarrow> Role \<Rightarrow> (bool \<times> error option) \<times> Role" where
  "resolveReferenceForPermissionsBoundary rm apiReader ko = resolve_boundary_reference rm apiReader ko"

definition resolveReferenceForPolicies ::
  "'m resourceManager_scheme \<Rightarrow> reader \<Rightarrow> Role \<Rightarrow> (bool \<times> error option) \<times> Role" where
  "resolveReferenceForPolicies rm apiReader ko = resolve_policies_reference rm apiReader ko"

definition ResolveReferences ::
  "'m resourceManager_scheme \<Rightarrow> reader \<Rightarrow> Role \<Rightarrow> Role \<times> bool \<times> error option" where
  "ResolveReferences rm apiReader res = resolve_references rm apiReader res"

lemma role_references_clear:
  assumes "validateReferenceFields (rt rm) res = None" and "ResolveReferences rm apiReader res = (ko, has, err)"
  shows "ClearResolvedReferences ko = res\<lparr>Status_Conditions := Status_Conditions ko,
      Spec_Policies := if elems (Spec_PolicyRefs res) = [] then Spec_Policies res else None\<rparr> \<and>
    elems (Spec_Policies (ClearResolvedReferences ko)) = elems (Spec_Policies res)"
  using resolve_references_clear assms
  unfolding validateReferenceFields_def ResolveReferences_def ClearResolvedReferences_def by blast

end
