(* ===== verification/Samples.thy ===== *)
theory Samples
  imports Conditions Compare
begin

text \<open>
  Concrete instances of the library parameters, on which the witnesses of the properties are
  evaluated. They behave as the libraries document it; no property depends on them.
\<close>

definition set_condition :: "ConditionType \<Rightarrow> condition slice \<Rightarrow> ConditionStatus \<Rightarrow> string ptr \<Rightarrow> string ptr \<Rightarrow> condition slice" where
  "set_condition ty conds st msg reason = Some (upd_last ty
     (\<lambda>c. c\<lparr>Status := Some st, Message := msg, Reason := reason\<rparr>) (ensure ty (elems conds)))"

fun sample_error :: "error \<Rightarrow> error option" where
  "sample_error (Error k m c) = errors_As is_APIError (Error k m c)"
| "sample_error _ = None"

definition sample_rt :: ack_rt where
  "sample_rt = \<lparr>
     EscapeError_text = (\<lambda>s. ''invalid URL escape '' @ s),
     sentinel_text = (\<lambda>e. (case e of NotFound \<Rightarrow> ''resource not found'' | _ \<Rightarrow> ''resource is in terminal condition'')),
     AWSError = sample_error,
     NewTerminalError = (\<lambda>e. Error TerminalError ''terminal'' (Some e)),
     RequeueNeeded = (\<lambda>e. Error OtherError ''requeue'' (Some e)),
     RequeueNeededAfter = (\<lambda>e n. Error OtherError ''requeue after'' e),
     ResourceReferenceAndIDNotSupportedFor = (\<lambda>f g. Error TerminalError (f @ '' and '' @ g) None),
     ResourceReferenceTerminalFor = (\<lambda>k ns n. Errorf (''terminal '' @ n)),
     ResourceReferenceNotSyncedFor = (\<lambda>k ns n. Errorf (''not synced '' @ n)),
     ResourceReferenceMissingTargetFieldFor = (\<lambda>k ns n f. Errorf (''missing '' @ f)),
     ResolveCrossNamespaceReference = (\<lambda>enabled conds ns refns name. (case refns of
        None \<Rightarrow> ((ns, None), conds)
      | Some n \<Rightarrow> if enabled \<or> n = ns then ((n, None), conds) else (([], Some (Errorf ''cross namespace'')), conds))),
     SetSynced = set_condition ConditionTypeResourceSynced,
     SetLateInitialized = set_condition ConditionTypeLateInitialized,
     InStrings = (\<lambda>s xs. s \<in> set xs),
     InStringPs = (\<lambda>s xs. Some s \<in> set xs),
     GetDefaultTags = [(''services.k8s.aws/namespace'', ''default'')],
     MergeTags = (\<lambda>a b. AList.merge b a),
     ToPairs = rev,
     Difference = (\<lambda>xs ys. (filter (\<lambda>x. x \<notin> set ys) xs, filter (\<lambda>y. y \<notin> set xs) ys)),
     Find = (\<lambda>xs p. list_ex p xs),
     map_order = rev\<rparr>"

lemma sample_rt_ok [simp]:
  "in_string_ok sample_rt" "lo_ok sample_rt" "merge_ok sample_rt" "valid_order (map_order sample_rt)"
  by (auto simp: sample_rt_def in_string_ok_def lo_ok_def merge_ok_def list_ex_iff
      distinct_merge merge_conv')


lemma sample_aws_error_ok [simp]: "aws_error_ok sample_rt"
  unfolding aws_error_ok_def
proof
  fix e
  show "(AWSError sample_rt e = None) = (errors_As is_APIError e = None)"
    by (cases e) (simp_all add: sample_rt_def)
qed

text \<open>A delta that is the list of its paths.\<close>

definition sample_compare :: "string list compare_rt" where
  "sample_compare = \<lparr>
     NewDelta = [],
     delta_Add = (\<lambda>d p. d @ [p]),
     DifferentAt = (\<lambda>d p. p \<in> set d),
     DifferentExcept = (\<lambda>d ps. list_ex (\<lambda>p. p \<notin> set ps) d),
     HasNilDifference = (\<lambda>a b. (case (a, b) of (None, Some s) \<Rightarrow> s \<noteq> [] | (Some s, None) \<Rightarrow> s \<noteq> [] | _ \<Rightarrow> False)),
     HasNilDifferenceInt64 = (\<lambda>a b. (case (a, b) of (None, Some s) \<Rightarrow> s \<noteq> 0 | (Some s, None) \<Rightarrow> s \<noteq> 0 | _ \<Rightarrow> False)),
     SliceStringPEqual = (\<lambda>a b. set a = set b),
     MapStringStringPEqual = (\<lambda>a b. set a = set b),
     MapStringStringEqual = (\<lambda>a b. set a = set b),
     IAMPolicyDocumentEqual = (\<lambda>a b. (a = b, None)),
     DeepEqualRef = (\<lambda>a b. a = b),
     DeepEqualRefs = (\<lambda>a b. a = b)\<rparr>"

lemma sample_compare_ok [simp]: "delta_ok sample_compare ps" "nil_difference_ok sample_compare"
  by (auto simp: sample_compare_def delta_ok_def nil_difference_ok_def split: option.splits)

lemma sample_compare_simps [simp]:
  "NewDelta sample_compare = []" "delta_Add sample_compare d p = d @ [p]" "DifferentAt sample_compare d p \<longleftrightarrow> p \<in> set d"
  "DifferentExcept sample_compare d ps \<longleftrightarrow> (\<exists>p\<in>set d. p \<notin> set ps)"
  "HasNilDifference sample_compare (Some s) (Some t) = False" "HasNilDifference sample_compare None None = False"
  "HasNilDifference sample_compare None (Some s) = (s \<noteq> [])" "HasNilDifference sample_compare (Some s) None = (s \<noteq> [])"
  "HasNilDifferenceInt64 sample_compare (Some i) (Some j) = False" "HasNilDifferenceInt64 sample_compare None None = False"
  "HasNilDifferenceInt64 sample_compare None (Some i) = (i \<noteq> 0)" "HasNilDifferenceInt64 sample_compare (Some i) None = (i \<noteq> 0)"
  "SliceStringPEqual sample_compare xs ys = (set xs = set ys)"
  "MapStringStringPEqual sample_compare m n = (set m = set n)"
  "MapStringStringEqual sample_compare u v = (set u = set v)"
  "IAMPolicyDocumentEqual sample_compare s t = (s = t, None)"
  "DeepEqualRef sample_compare a b = (a = b)" "DeepEqualRefs sample_compare as bs = (as = bs)"
  by (simp_all add: sample_compare_def list_ex_iff)

lemma sample_lists_equal [simp]: "lists_equal_ok sample_compare"
proof -
  have "set a = set b \<longleftrightarrow> map_of a = map_of b" if "wf_map a" "wf_map b" for a b :: "(string, string ptr) gomap"
    using map_of_inject_set [OF that] by simp
  then show ?thesis by (auto simp: lists_equal_ok_def inj_image_eq_iff)
qed

end
