(* ===== verification/RoleSamples.thy ===== *)
theory RoleSamples
  imports RoleHooks Samples
begin

text \<open>
  A small IAM backend for roles, on which the witnesses of the role properties are evaluated: it
  keeps the attached policies, inline policies and tags of every role name, the tags as the list
  \<open>ListRoleTags\<close> hands out, one tag on the first page.
\<close>

record iam =
  iam_attached :: "string \<Rightarrow> string set"
  iam_inline :: "string \<Rightarrow> (string \<rightharpoonup> string)"
  iam_tags :: "string \<Rightarrow> Tag list"
  iam_role :: "SdkRole ptr"

definition sample_sdk :: "(iam, nat) role_sdk" where
  "sample_sdk = \<lparr>
     GetRole = (\<lambda>n b. (case iam_role b of
        None \<Rightarrow> ((None, Some (Error (APIError ''NoSuchEntity'') ''no such role'' None)), b)
      | Some r \<Rightarrow> ((Some (Some r), None), b))),
     CreateRole = (\<lambda>input b. let r = \<lparr>Role_Arn = Some ''arn:aws:iam::1:role/r'',
        Role_AssumeRolePolicyDocument = map_option pct_encode (Create_AssumeRolePolicyDocument input), Role_CreateDate = Some 0,
        Role_Description = Create_Description input, Role_MaxSessionDuration = Create_MaxSessionDuration input,
        Role_Path = Create_Path input, Role_PermissionsBoundary = None, Role_RoleId = Some ''AROA'',
        Role_RoleLastUsed = None, Role_RoleName = Create_RoleName input, Role_Tags = Create_Tags input\<rparr>
        in ((Some (Some r), None), b\<lparr>iam_role := Some r\<rparr>)),
     UpdateRole = (\<lambda>input b. (None, b)),
     DeleteRole = (\<lambda>n b. (None, b\<lparr>iam_role := None\<rparr>)),
     PutRolePermissionsBoundary = (\<lambda>n p b. (None, b)),
     DeleteRolePermissionsBoundary = (\<lambda>n b. (None, b)),
     UpdateAssumeRolePolicy = (\<lambda>n p b. (None, b)),
     AttachRolePolicy = (\<lambda>n p b. (None, b\<lparr>iam_attached := (iam_attached b)(the n := insert (the p) (iam_attached b (the n)))\<rparr>)),
     DetachRolePolicy = (\<lambda>n p b. (None, b\<lparr>iam_attached := (iam_attached b)(the n := iam_attached b (the n) - {the p})\<rparr>)),
     PutRolePolicy = (\<lambda>n p d b. (None, b\<lparr>iam_inline := (iam_inline b)(the n := (iam_inline b (the n))(the p \<mapsto> the d))\<rparr>)),
     DeleteRolePolicy = (\<lambda>n p b. (None, b\<lparr>iam_inline := (iam_inline b)(the n := (iam_inline b (the n))(the p := None))\<rparr>)),
     GetRolePolicy = (\<lambda>n p b. ((Some (map_option pct_encode (iam_inline b (the n) (the p))), None), b)),
     TagRole = (\<lambda>n ts b. (None, b\<lparr>iam_tags := (iam_tags b)(the n := ts @ iam_tags b (the n))\<rparr>)),
     UntagRole = (\<lambda>n ks b. (None, b\<lparr>iam_tags := (iam_tags b)(the n := filter (\<lambda>t. the (Key t) \<notin> set ks) (iam_tags b (the n)))\<rparr>)),
     ListRoleTags = (\<lambda>n m b. (case (m, iam_tags b (the n)) of
        (None, t # u # ts) \<Rightarrow> ((Some \<lparr>Tags = [t], IsTruncated = True, Marker = Some ''1''\<rparr>, None), b)
      | (Some _, t # u # ts) \<Rightarrow> ((Some \<lparr>Tags = u # ts, IsTruncated = False, Marker = None\<rparr>, None), b)
      | (_, ts) \<Rightarrow> ((Some \<lparr>Tags = ts, IsTruncated = False, Marker = None\<rparr>, None), b))),
     NewListAttachedRolePoliciesPaginator = (\<lambda>n. 0),
     AttachedRolePolicies_HasMorePages = (\<lambda>p. p < 2),
     AttachedRolePolicies_NextPage = (\<lambda>p b. ((p + 1, Some [if p = 0 then Some ''arn:p0'' else Some ''arn:p1''], None), b)),
     NewListRolePoliciesPaginator = (\<lambda>n. 0),
     RolePolicies_HasMorePages = (\<lambda>p. p < 1),
     RolePolicies_NextPage = (\<lambda>p b. ((p + 1, Some [''inline''], None), b))\<rparr>"

definition sample_rm :: "(iam, nat) rm" where
  "sample_rm = \<lparr>rt = sample_rt, EnableCrossNamespace = False, awsAccountID = ''1'', awsRegion = ''us-east-1'',
     awsPartition = ''aws'', sdkapi = sample_sdk\<rparr>"

definition sample_role :: Role where
  "sample_role = \<lparr>Namespace = ''default'', DeletionTimestamp = None, Finalizers = [], Annotations = [],
     Status_ACKResourceMetadata = None, Status_Conditions = None,
     Spec_InlinePolicies = [], Spec_Name = Some ''r'', Spec_Path = None, Spec_Policies = None, Spec_PolicyRefs = None,
     Status_CreateDate = None, Spec_PermissionsBoundary = None, Spec_PermissionsBoundaryRef = None, Spec_Tags = None,
     Spec_AssumeRolePolicyDocument = Some ''{}'', Spec_Description = None, Spec_MaxSessionDuration = Some 3600,
     Status_RoleID = None, Status_RoleLastUsed = None\<rparr>"

definition sample_iam :: iam where
  "sample_iam = \<lparr>iam_attached = (\<lambda>_. {}), iam_inline = (\<lambda>_. Map.empty), iam_tags = (\<lambda>_. []), iam_role = None\<rparr>"

definition sample_world :: "iam \<Rightarrow> iam world" where
  "sample_world b = \<lparr>aws = b, api_calls = []\<rparr>"

lemma sample_rm_rt [simp]: "rt sample_rm = sample_rt" "sdkapi sample_rm = sample_sdk"
  by (simp_all add: sample_rm_def)

lemma aws_sample_world [simp]: "aws (sample_world b) = b"
  by (simp add: sample_world_def)

lemma sample_role_simps [simp]:
  "Spec_AssumeRolePolicyDocument sample_role = Some ''{}''" "Spec_Description sample_role = None"
  "Spec_InlinePolicies sample_role = []" "Spec_MaxSessionDuration sample_role = Some 3600"
  "Spec_Name sample_role = Some ''r''" "Spec_Path sample_role = None" "Spec_PermissionsBoundary sample_role = None"
  "Spec_PermissionsBoundaryRef sample_role = None" "Spec_Policies sample_role = None"
  "Spec_PolicyRefs sample_role = None" "Spec_Tags sample_role = None" "conditions_of sample_role = []"
  "Status_Conditions sample_role = None" "Namespace sample_role = ''default''"
  by (simp_all add: sample_role_def conditions_of_def)

lemmas sample_defs = sample_sdk_def sample_role_def sample_iam_def sample_world_def

end
