(* ===== verification/RoleProperties.thy ===== *)
theory RoleProperties
  imports RoleManager RoleReferences RoleSamples
begin

text \<open>
  The properties of the role package, each with a witness on the sample backend of
  \<open>RoleSamples\<close>.
\<close>

subsection \<open>The sample backend\<close>

lemma sample_attach_ok: "attach_ok sample_sdk iam_attached"
  by (auto simp: attach_ok_def sample_sdk_def)

lemma sample_attach_atomic: "attach_atomic sample_sdk iam_attached"
  by (auto simp: attach_atomic_def sample_sdk_def)

lemma sample_inline_ok: "inline_ok sample_sdk iam_inline"
  by (auto simp: inline_ok_def sample_sdk_def)

lemma sample_tagging_ok: "tagging_ok sample_sdk (\<lambda>b n. tag_map (iam_tags b n))"
proof -
  have "tag_map (filter (\<lambda>t. the (Key t) \<notin> K) ts) = tag_map ts |` (- K)" for K ts
    by (induction ts) (auto simp: tag_map_def restrict_map_def fun_eq_iff)
  then show ?thesis by (auto simp: tagging_ok_def sample_sdk_def tag_map_def fun_eq_iff)
qed

text \<open>No call of the sample backend fails, so the hooks succeed on it.\<close>

lemma sample_calls:
  "fst (AttachRolePolicy sample_sdk n p b) = None" "fst (DetachRolePolicy sample_sdk n p b) = None"
  "fst (PutRolePolicy sample_sdk n p d b) = None" "fst (DeleteRolePolicy sample_sdk n p b) = None"
  "UpdateRole sample_sdk input b = (None, b)" "DeleteRole sample_sdk n b = (None, b\<lparr>iam_role := None\<rparr>)"
  by (simp_all add: sample_sdk_def)

lemma for_each_succeeds: "(\<And>x u. \<exists>u'. f x u = Some (None, u')) \<Longrightarrow> \<exists>w'. for_each f xs w = Some (None, w')"
proof (induction xs arbitrary: w)
  case Nil
  then show ?case by simp
next
  case (Cons x xs)
  then obtain u where "f x w = Some (None, u)" by blast
  with Cons show ?case by simp
qed

lemma sample_sync_managed:
  assumes "elems (Spec_Policies desired) = map Some ds" and "elems (Spec_Policies latest) = map Some ls"
  shows "\<exists>w'. syncManagedPolicies sample_rm desired latest w = Some (None, w')"
proof -
  have add: "\<exists>u'. addManagedPolicy sample_rm desired (Some p) u = Some (None, u')" for p u
    by (simp add: addManagedPolicy_def sample_calls)
  have remove: "\<exists>u'. removeManagedPolicy sample_rm desired (Some p) u = Some (None, u')" for p u
    by (simp add: removeManagedPolicy_def sample_calls)
  obtain u where "for_each (\<lambda>p. addManagedPolicy sample_rm desired (Some p)) (filter (\<lambda>p. p \<notin> set ls) ds) w = Some (None, u)"
    using for_each_succeeds [of "\<lambda>p. addManagedPolicy sample_rm desired (Some p)"] add by blast
  then show ?thesis
    using for_each_succeeds [of "\<lambda>p. removeManagedPolicy sample_rm desired (Some p)"] remove assms
    by (simp add: syncManagedPolicies_eq)
qed

subsection \<open>Managed policies\<close>

text \<open>
  A successful \<open>syncManagedPolicies\<close> whose observed role is up to date leaves exactly the
  desired policies attached to the role, and touches no other role.
\<close>

theorem managed_policies_converge:
  assumes "in_string_ok (rt rm)" and "attach_ok (sdkapi rm) attached" and "Spec_Name desired = Some n"
    and "elems (Spec_Policies desired) = map Some ds" and "elems (Spec_Policies latest) = map Some ls"
    and "attached (aws w) n = set ls"
    and "syncManagedPolicies rm desired latest w = Some (None, w')"
  shows "attached (aws w') = (attached (aws w))(n := set ds)"
proof -
  have "set ls \<union> (set ds - set ls) - (set ls - set ds) = set ds" by blast
  then show ?thesis using syncManagedPolicies_attached [OF assms(1-5,7)] assms(6) by simp
qed

lemma managed_policies_converge_witness:
  "\<exists>w'. syncManagedPolicies sample_rm (sample_role\<lparr>Spec_Policies := Some [Some ''a'', Some ''b'']\<rparr>)
      (sample_role\<lparr>Spec_Policies := Some [Some ''b'', Some ''c'']\<rparr>)
      (sample_world (sample_iam\<lparr>iam_attached := (\<lambda>_. {''b'', ''c''})\<rparr>)) = Some (None, w')
    \<and> iam_attached (aws w') ''r'' = {''a'', ''b''}"
proof -
  let ?run = "syncManagedPolicies sample_rm (sample_role\<lparr>Spec_Policies := Some [Some ''a'', Some ''b'']\<rparr>)
      (sample_role\<lparr>Spec_Policies := Some [Some ''b'', Some ''c'']\<rparr>)
      (sample_world (sample_iam\<lparr>iam_attached := (\<lambda>_. {''b'', ''c''})\<rparr>))"
  have "\<exists>w'. ?run = Some (None, w')"
    by (rule sample_sync_managed [of _ "[''a'', ''b'']" _ "[''b'', ''c'']"]) simp_all
  then obtain w' where "?run = Some (None, w')" by blast
  moreover have "iam_attached (aws w') = (iam_attached (sample_iam\<lparr>iam_attached := (\<lambda>_. {''b'', ''c''})\<rparr>))(''r'' := set [''a'', ''b''])"
    using managed_policies_converge [OF _ _ _ _ _ _ \<open>?run = _\<close>, of iam_attached "''r''" "[''a'', ''b'']" "[''b'', ''c'']"]
    by (simp add: sample_attach_ok sample_role_def)
  ultimately show ?thesis by auto
qed

text \<open>
  C12. Whatever the outcome of \<open>syncManagedPolicies\<close>, and wherever a failing call stops it, no policy
  both desired and attached is ever detached, nothing but desired policies is attached, and no
  other role is touched, provided a failing IAM call changes nothing.
\<close>

theorem managed_policies_safe:
  assumes "in_string_ok (rt rm)" and "attach_ok (sdkapi rm) attached" and "attach_atomic (sdkapi rm) attached"
    and "Spec_Name desired = Some n"
    and "elems (Spec_Policies desired) = map Some ds" and "elems (Spec_Policies latest) = map Some ls"
    and "attached (aws w) n = set ls"
    and "syncManagedPolicies rm desired latest w = Some (err, w')"
  shows "set ds \<inter> set ls \<subseteq> attached (aws w') n \<and> attached (aws w') n \<subseteq> set ds \<union> set ls \<and>
    (\<forall>m. m \<noteq> n \<longrightarrow> attached (aws w') m = attached (aws w) m)"
  using syncManagedPolicies_bounds [OF assms] .

lemma managed_policies_safe_witness:
  "\<exists>err w'. syncManagedPolicies sample_rm (sample_role\<lparr>Spec_Policies := Some [Some ''a'', Some ''b'']\<rparr>)
      (sample_role\<lparr>Spec_Policies := Some [Some ''b'', Some ''c'']\<rparr>)
      (sample_world (sample_iam\<lparr>iam_attached := (\<lambda>_. {''b'', ''c''})\<rparr>)) = Some (err, w')
    \<and> ''b'' \<in> iam_attached (aws w') ''r''"
proof -
  let ?run = "syncManagedPolicies sample_rm (sample_role\<lparr>Spec_Policies := Some [Some ''a'', Some ''b'']\<rparr>)
      (sample_role\<lparr>Spec_Policies := Some [Some ''b'', Some ''c'']\<rparr>)
      (sample_world (sample_iam\<lparr>iam_attached := (\<lambda>_. {''b'', ''c''})\<rparr>))"
  have "\<exists>w'. ?run = Some (None, w')"
    by (rule sample_sync_managed [of _ "[''a'', ''b'']" _ "[''b'', ''c'']"]) simp_all
  then obtain err w' where "?run = Some (err, w')" by blast
  moreover have "set [''a'', ''b''] \<inter> set [''b'', ''c''] \<subseteq> iam_attached (aws w') ''r''"
    using managed_policies_safe [OF _ _ _ _ _ _ _ \<open>?run = _\<close>, of iam_attached "''r''" "[''a'', ''b'']" "[''b'', ''c'']"]
    by (simp add: sample_attach_ok sample_attach_atomic sample_role_def)
  ultimately show ?thesis by auto
qed

subsection \<open>Inline policies\<close>

lemma sample_read_inline_ok: "read_inline_ok sample_sdk iam_inline"
  by (auto simp: read_inline_ok_def sample_sdk_def)

text \<open>
  C10. After a successful \<open>syncInlinePolicies\<close> the role has the desired inline policies exactly when
  every document that is new or changed contains neither a percent sign nor a plus sign: the
  hook decodes the documents of the custom resource, which are not encoded, before it puts them.
\<close>

theorem inline_policies_exact_iff:
  assumes "lo_ok (rt rm)" and "inline_ok (sdkapi rm) inline" and "Spec_Name desired = Some n"
    and "Spec_InlinePolicies desired = point_at ds" and "wf_map ds"
    and "Spec_InlinePolicies latest = point_at ls" and "wf_map ls" and "inline (aws w) n = map_of ls"
    and "syncInlinePolicies rm desired latest w = Some (None, w')"
  shows "inline (aws w') n = map_of ds \<longleftrightarrow>
    (\<forall>(k, d) \<in> set ds - set ls. CHR ''%'' \<notin> set d \<and> CHR ''+'' \<notin> set d)"
  using syncInlinePolicies_exact [OF assms] .

lemma inline_policies_exact_iff_witness:
  "\<exists>w'. syncInlinePolicies sample_rm (sample_role\<lparr>Spec_InlinePolicies := [(''p'', Some ''a+b'')]\<rparr>) sample_role
      (sample_world sample_iam) = Some (None, w') \<and> iam_inline (aws w') ''r'' \<noteq> [''p'' \<mapsto> ''a+b'']"
proof -
  let ?desired = "sample_role\<lparr>Spec_InlinePolicies := [(''p'', Some ''a+b'')]\<rparr>"
  have "\<exists>w'. syncInlinePolicies sample_rm ?desired sample_role (sample_world sample_iam) = Some (None, w')"
    by (simp add: syncInlinePolicies_def sync_inline_policies_def addInlinePolicy_def MapStringFromMapStringPointers_def decodeDocument_def
        QueryUnescape_def sample_defs sample_rt_def)
  then obtain w' where run: "syncInlinePolicies sample_rm ?desired sample_role (sample_world sample_iam) = Some (None, w')"
    by blast
  have "iam_inline (aws w') ''r'' \<noteq> map_of [(''p'', ''a+b'')]"
    using inline_policies_exact_iff [OF _ _ _ _ _ _ _ _ run, of iam_inline "''r''" "[(''p'', ''a+b'')]" "[]"]
    by (simp add: sample_inline_ok sample_role_def sample_iam_def)
  with run show ?thesis by auto
qed

text \<open>
  C16. \<open>getInlinePolicies\<close> reads back every inline policy IAM stores, byte for byte, when IAM
  returns the documents percent-encoded and the listing names all of them, whatever the
  pages and the order Go ranges over the names.
\<close>

theorem inline_policies_read_back:
  assumes "valid_order (map_order (rt rm))"
    and "read_inline_ok (sdkapi rm) inline" and "Spec_Name r = Some n"
    and "lists (RolePolicies_HasMorePages (sdkapi rm)) (inlinePage rm)
      (NewListRolePoliciesPaginator (sdkapi rm) (Some n)) w pages w'"
    and "set (concat pages) = dom (inline (aws w') n)"
  shows "\<exists>res w''. getInlinePolicies rm r w = Some ((res, None), w'') \<and> wf_map res \<and>
    map_of res = map_option Some \<circ> inline (aws w') n \<and> aws w'' = aws w'"
  using getInlinePolicies_reads [OF assms] .

lemma inline_policies_read_back_witness:
  "\<exists>res w''. getInlinePolicies sample_rm sample_role
      (sample_world (sample_iam\<lparr>iam_inline := (\<lambda>_. [''inline'' \<mapsto> ''{ a+b% }''])\<rparr>)) = Some ((res, None), w'')
    \<and> map_of res ''inline'' = Some (Some ''{ a+b% }'')"
proof -
  let ?w = "sample_world (sample_iam\<lparr>iam_inline := (\<lambda>_. [''inline'' \<mapsto> ''{ a+b% }''])\<rparr>)"
  have "lists (RolePolicies_HasMorePages (sdkapi sample_rm)) (inlinePage sample_rm)
      (NewListRolePoliciesPaginator (sdkapi sample_rm) (Some ''r'')) ?w [[''inline'']] ?w"
    by (rule lists.page [of _ _ _ _ 1 _ ?w], simp_all add: inlinePage_def sample_sdk_def)
      (rule lists.no_more, simp)
  from inline_policies_read_back [OF _ _ _ this, of iam_inline sample_role]
  show ?thesis by (auto simp: sample_read_inline_ok sample_role_def sample_iam_def)
qed

subsection \<open>Tags\<close>

text \<open>
  C9. A successful \<open>syncTags\<close> whose observed role is up to date leaves the desired tags but
  for every key whose value was to change: that tag is removed, because the new value is put
  before the old one is untagged by its key.
\<close>

theorem role_tags_after_sync:
  assumes "tagging_ok (sdkapi rm) tags" and "Spec_Name desired = Some n"
    and "elems (Spec_Tags desired) = ds" and "tag_set ds"
    and "elems (Spec_Tags latest) = ls" and "tag_set ls" and "tags (aws w) n = tag_map ls"
    and "syncTags rm desired latest w = Some (None, w')"
  shows "tags (aws w') = (tags (aws w))(n := (\<lambda>k.
     if tag_map ls k \<noteq> None \<and> tag_map ls k \<noteq> tag_map ds k then None else tag_map ds k))"
  using syncTags_tags [OF assms] .

lemma role_tags_after_sync_witness:
  "\<exists>w'. syncTags sample_rm (sample_role\<lparr>Spec_Tags := Some [mkTag ''team'' ''new'']\<rparr>)
      (sample_role\<lparr>Spec_Tags := Some [mkTag ''team'' ''old'']\<rparr>)
      (sample_world (sample_iam\<lparr>iam_tags := (\<lambda>_. [mkTag ''team'' ''old''])\<rparr>)) = Some (None, w')
    \<and> tag_map (iam_tags (aws w') ''r'') ''team'' = None"
proof -
  let ?desired = "sample_role\<lparr>Spec_Tags := Some [mkTag ''team'' ''new'']\<rparr>"
  let ?latest = "sample_role\<lparr>Spec_Tags := Some [mkTag ''team'' ''old'']\<rparr>"
  let ?w = "sample_world (sample_iam\<lparr>iam_tags := (\<lambda>_. [mkTag ''team'' ''old''])\<rparr>)"
  have "\<exists>w'. syncTags sample_rm ?desired ?latest ?w = Some (None, w')"
    by (simp add: syncTags_def addTags_def removeTags_def notInTags_def inTags_def Let_def sample_defs)
  then obtain w' where run: "syncTags sample_rm ?desired ?latest ?w = Some (None, w')" by blast
  have "tag_map (iam_tags (aws w') ''r'') ''team'' = None"
    using role_tags_after_sync [OF _ _ _ _ _ _ _ run, of "\<lambda>b n. tag_map (iam_tags b n)" "''r''"
        "[mkTag ''team'' ''new'']" "[mkTag ''team'' ''old'']"] sample_tagging_ok
    by (simp add: sample_role_def sample_iam_def tag_set_Cons tag_map_Cons fun_eq_iff)
  with run show ?thesis by blast
qed

text \<open>
  C40. \<open>getTags\<close> returns the tags of all pages, in order, when the listing ends, however many
  pages it has, and records the listing once.
\<close>

theorem get_tags_all_pages:
  assumes "serves (tagFetch (rm, Spec_Name r)) None w pages w'"
  shows "getTags rm r w = Some ((Some (concat pages), None), RecordAPICall ''READ_MANY'' ''ListRoleTags'' None w')"
  using getTags_serves [OF assms] .

lemma get_tags_all_pages_witness:
  "let w = sample_world (sample_iam\<lparr>iam_tags := (\<lambda>_. [mkTag ''a'' ''1'', mkTag ''b'' ''2'', mkTag ''c'' ''3''])\<rparr>)
   in getTags sample_rm sample_role w = Some ((Some [mkTag ''a'' ''1'', mkTag ''b'' ''2'', mkTag ''c'' ''3''], None),
        RecordAPICall ''READ_MANY'' ''ListRoleTags'' None w)"
proof -
  let ?w = "sample_world (sample_iam\<lparr>iam_tags := (\<lambda>_. [mkTag ''a'' ''1'', mkTag ''b'' ''2'', mkTag ''c'' ''3''])\<rparr>)"
  have "serves (tagFetch (sample_rm, Spec_Name sample_role)) None ?w [[mkTag ''a'' ''1''], [mkTag ''b'' ''2'', mkTag ''c'' ''3'']] ?w"
    by (rule serves.more [where m' = "Some ''1''" and u = ?w], simp add: tagFetch_def sample_defs)
      (rule serves.last, simp add: tagFetch_def sample_defs)
  from get_tags_all_pages [OF this] show ?thesis by simp
qed

subsection \<open>Reading and creating a role\<close>

text \<open>
  C14. When IAM knows the role, \<open>sdkFind\<close> returns the custom resource filled from \<open>GetRole\<close>, with
  the trust policy decoded, all attached policies, all inline policies and all tags, and
  changes nothing in IAM.
\<close>

theorem find_observes:
  assumes "valid_order (map_order (rt rm))" and "read_inline_ok (sdkapi rm) inline"
    and "describes_role rm (aws w) n role attached (inline (aws w) n) tags"
    and "Spec_Name r = Some n" and "Role_RoleName role = Some n"
    and "Role_AssumeRolePolicyDocument role = Some (pct_encode doc)"
  shows "\<exists>res w'. sdkFind rm r w = Some ((Some ((setStatusDefaults rm (fromGetRole role r))\<lparr>
       Spec_AssumeRolePolicyDocument := Some doc, Spec_Policies := Some attached, Spec_InlinePolicies := res,
       Spec_Tags := Some tags\<rparr>), None), w') \<and> aws w' = aws w \<and> wf_map res \<and>
     map_of res = map_option Some \<circ> inline (aws w) n"
  using sdkFind_describes [OF assms] .

definition observed_role :: SdkRole where
  "observed_role = \<lparr>Role_Arn = Some ''arn:aws:iam::1:role/r'', Role_AssumeRolePolicyDocument = Some (pct_encode ''{ + }''),
     Role_CreateDate = Some 0, Role_Description = None, Role_MaxSessionDuration = Some 3600, Role_Path = Some ''/'',
     Role_PermissionsBoundary = None, Role_RoleId = Some ''AROA'', Role_RoleLastUsed = None,
     Role_RoleName = Some ''r'', Role_Tags = None\<rparr>"

definition observed_iam :: iam where
  "observed_iam = \<lparr>iam_attached = (\<lambda>_. {''arn:p0'', ''arn:p1''}), iam_inline = (\<lambda>_. [''inline'' \<mapsto> ''{}'']),
     iam_tags = (\<lambda>_. [mkTag ''a'' ''1'', mkTag ''b'' ''2'']), iam_role = Some observed_role\<rparr>"

lemma observed_describes:
  "describes_role sample_rm observed_iam ''r'' observed_role [Some ''arn:p0'', Some ''arn:p1''] [''inline'' \<mapsto> ''{}'']
     [mkTag ''a'' ''1'', mkTag ''b'' ''2'']"
proof -
  have "lists (AttachedRolePolicies_HasMorePages (sdkapi sample_rm)) (attachedPage sample_rm)
      (NewListAttachedRolePoliciesPaginator (sdkapi sample_rm) (Some ''r'')) w [[Some ''arn:p0''], [Some ''arn:p1'']] w" for w
    by (rule lists.page [where p' = 1 and u = w], simp_all add: attachedPage_def sample_sdk_def,
        rule lists.page [where p' = 2 and u = w], simp_all add: attachedPage_def sample_sdk_def,
        rule lists.no_more, simp)
  moreover have "lists (RolePolicies_HasMorePages (sdkapi sample_rm)) (inlinePage sample_rm)
      (NewListRolePoliciesPaginator (sdkapi sample_rm) (Some ''r'')) w [[''inline'']] w" for w
    by (rule lists.page [where p' = 1 and u = w], simp_all add: inlinePage_def sample_sdk_def,
        rule lists.no_more, simp)
  moreover have "serves (tagFetch (sample_rm, Some ''r'')) None w [[mkTag ''a'' ''1''], [mkTag ''b'' ''2'']] w"
    if "aws w = observed_iam" for w
    by (rule serves.more [where m' = "Some ''1''" and u = w], simp add: tagFetch_def sample_sdk_def observed_iam_def that,
        rule serves.last, simp add: tagFetch_def sample_sdk_def observed_iam_def that)
  ultimately show ?thesis
    unfolding describes_role_def
    by (intro conjI allI impI) (simp add: sample_sdk_def observed_iam_def, fastforce, fastforce, fastforce)
qed

lemma find_observes_witness:
  "\<exists>ko w'. sdkFind sample_rm sample_role (sample_world observed_iam) = Some ((Some ko, None), w')
    \<and> Spec_AssumeRolePolicyDocument ko = Some ''{ + }'' \<and> Spec_Policies ko = Some [Some ''arn:p0'', Some ''arn:p1'']"
proof -
  have "Spec_AssumeRolePolicyDocument (k\<lparr>Spec_AssumeRolePolicyDocument := x, Spec_Policies := y, Spec_InlinePolicies := z,
      Spec_Tags := t\<rparr>) = x" for k :: Role and x y z t by simp
  then show ?thesis
    using find_observes [of sample_rm iam_inline "sample_world observed_iam" "''r''" observed_role
      "[Some ''arn:p0'', Some ''arn:p1'']" "[mkTag ''a'' ''1'', mkTag ''b'' ''2'']" sample_role "''{ + }''"]
      observed_describes
    by (auto simp: sample_read_inline_ok sample_role_def observed_iam_def observed_role_def)
qed

text \<open>
  A role is reported as not found exactly as the reconciler needs it: without a name no API
  call is made, and \<open>NoSuchEntity\<close> from \<open>GetRole\<close> becomes \<open>NotFound\<close>.
\<close>

theorem find_not_found:
  assumes "Spec_Name r = None \<or> (\<exists>e. fst (GetRole (sdkapi rm) (Spec_Name r) (aws w)) = (resp, Some e)
    \<and> ErrorCode e = Some ''NoSuchEntity'')"
  shows "\<exists>w'. sdkFind rm r w = Some ((None, Some NotFound), w') \<and> (Spec_Name r = None \<longrightarrow> w' = w)"
  using sdkFind_not_found [OF assms] .

lemma find_not_found_witness:
  "\<exists>w'. sdkFind sample_rm sample_role (sample_world sample_iam) = Some ((None, Some NotFound), w')"
  using find_not_found [of sample_role sample_rm "sample_world sample_iam" None]
  by (auto simp: sample_defs ErrorCode_def)

subsection \<open>Updating and deleting a role\<close>

text \<open>
  End to end for the attached policies alone, with fewer assumptions on IAM: after a successful \<open>sdkUpdate\<close> with the delta \<open>newResourceDelta\<close> computed for
  it, the attached policies are the desired ones, whichever fields differed.
\<close>

theorem update_converges:
  assumes "in_string_ok (rt rm)" and "attach_ok (sdkapi rm) attached" and "attached_apart (sdkapi rm) attached"
    and "Spec_Name desired = Some n"
    and "tag_set (elems (Spec_Tags desired))" and "tag_set (elems (Spec_Tags latest))"
    and "elems (Spec_Policies desired) = map Some ds"
    and "elems (Spec_Policies latest) = map Some ls" and "attached (aws w) n = set ls"
    and "delta_ok c delta_paths" and "slices_equal_ok c"
    and "newResourceDelta (rt rm) c (Some desired) (Some latest) = Some delta"
    and "sdkUpdate rm c desired latest delta w = Some ((res, None), w')"
  shows "attached (aws w') n = set ds"
  using sdkUpdate_attached [OF assms] .

lemma sample_attached_apart: "attached_apart sample_sdk iam_attached"
  by (simp add: attached_apart_def sample_sdk_def)

lemma update_converges_witness:
  "\<exists>delta res w'. newResourceDelta sample_rt sample_compare
        (Some (sample_role\<lparr>Spec_Policies := Some [Some ''a''], Spec_Path := Some ''/x/''\<rparr>)) (Some sample_role) = Some delta \<and>
     sdkUpdate sample_rm sample_compare (sample_role\<lparr>Spec_Policies := Some [Some ''a''], Spec_Path := Some ''/x/''\<rparr>)
       sample_role delta (sample_world sample_iam) = Some ((res, None), w') \<and> iam_attached (aws w') ''r'' = {''a''}"
proof -
  let ?desired = "sample_role\<lparr>Spec_Policies := Some [Some ''a''], Spec_Path := Some ''/x/''\<rparr>"
  have ts: "tag_set (elems (Spec_Tags ?desired))" "tag_set (elems (Spec_Tags sample_role))"
    by simp_all
  have delta: "newResourceDelta sample_rt sample_compare (Some ?desired) (Some sample_role)
      = Some [''Spec.Path'', ''Spec.Policies'']"
    by (simp add: newResourceDelta_report [OF _ ts] report_def differences_def addWhen_def tagsDiffer_def policyDiffers_def
        stringDiffers_def mapsDiffer_def int64Differs_def stringsDiffer_def)
  obtain u where "syncManagedPolicies sample_rm ?desired sample_role (sample_world sample_iam) = Some (None, u)"
    using sample_sync_managed [of ?desired "[''a'']" sample_role "[]"] by auto
  moreover have "\<exists>input. newUpdateRequestPayload ?desired = Inr input"
    by (simp add: newUpdateRequestPayload_def maxSessionDurationInput_def int32_of_int64_def)
  ultimately have "\<exists>res w'. sdkUpdate sample_rm sample_compare ?desired sample_role [''Spec.Path'', ''Spec.Policies'']
      (sample_world sample_iam) = Some ((res, None), w')"
    by (auto simp: sdkUpdate_def when_different_def sample_calls)
  then obtain res w' where run: "sdkUpdate sample_rm sample_compare ?desired sample_role [''Spec.Path'', ''Spec.Policies'']
      (sample_world sample_iam) = Some ((res, None), w')" by blast
  have "slices_equal_ok sample_compare" by (simp add: slices_equal_ok_def sample_compare_def)
  then have "iam_attached (aws w') ''r'' = set [''a'']"
    using update_converges [OF _ _ _ _ ts _ _ _ _ _ _ run, of iam_attached "''r''" "[''a'']" "[]"] delta
    by (simp add: sample_attach_ok sample_attached_apart sample_iam_def)
  with run delta show ?thesis by auto
qed

text \<open>With an empty delta \<open>sdkUpdate\<close> calls no API at all and returns the desired role unchanged.\<close>

theorem update_without_difference:
  assumes "\<forall>p \<in> {''Spec.Policies'', ''Spec.InlinePolicies'', ''Spec.Tags'', ''Spec.PermissionsBoundary'',
      ''Spec.AssumeRolePolicyDocument''}. \<not> DifferentAt c delta p"
    and "\<not> DifferentExcept c delta [''Spec.Tags'', ''Spec.Policies'', ''Spec.InlinePolicies'',
               ''Spec.PermissionsBoundary'', ''Spec.AssumeRolePolicyDocument'']"
  shows "sdkUpdate rm c desired latest delta w = Some ((Some desired, None), w)"
  using sdkUpdate_nothing [OF assms] .

lemma update_without_difference_witness:
  "sdkUpdate sample_rm sample_compare sample_role sample_role [] (sample_world sample_iam)
    = Some ((Some sample_role, None), sample_world sample_iam)"
  by (rule update_without_difference) simp_all

text \<open>
  C13. A successful \<open>sdkDelete\<close> deletes the role in a state in which it has no managed and no
  inline policy left, which IAM requires, if the observed role was up to date.
\<close>

theorem delete_bare_role:
  assumes "in_string_ok (rt rm)" and "lo_ok (rt rm)"
    and "attach_ok (sdkapi rm) attached" and "inline_ok (sdkapi rm) inline" and "policies_apart (sdkapi rm) attached inline"
    and "Spec_Name r = Some n"
    and "elems (Spec_Policies r) = map Some ps" and "attached (aws w) n = set ps"
    and "Spec_InlinePolicies r = point_at ls" and "wf_map ls" and "inline (aws w) n = map_of ls"
    and "sdkDelete rm r w = Some ((res, None), w')"
  shows "\<exists>b. DeleteRole (sdkapi rm) (Some n) b = (None, aws w') \<and> attached b n = {} \<and> inline b n = Map.empty"
  using sdkDelete_bare [OF assms] .

lemma delete_bare_role_witness:
  "\<exists>res w' b. sdkDelete sample_rm (sample_role\<lparr>Spec_Policies := Some [Some ''a'']\<rparr>)
      (sample_world (sample_iam\<lparr>iam_attached := (\<lambda>_. {''a''})\<rparr>)) = Some ((res, None), w') \<and>
    DeleteRole sample_sdk (Some ''r'') b = (None, aws w') \<and> iam_attached b ''r'' = {}"
proof -
  let ?r = "sample_role\<lparr>Spec_Policies := Some [Some ''a'']\<rparr>"
  let ?w = "sample_world (sample_iam\<lparr>iam_attached := (\<lambda>_. {''a''})\<rparr>)"
  have "\<exists>res w'. sdkDelete sample_rm ?r ?w = Some ((res, None), w')"
  proof -
    obtain u where "syncManagedPolicies sample_rm (?r\<lparr>Spec_Policies := None\<rparr>) ?r ?w = Some (None, u)"
      using sample_sync_managed [of "?r\<lparr>Spec_Policies := None\<rparr>" "[]" ?r "[''a'']"] by fastforce
    moreover have "Difference (rt sample_rm) (ToPairs (rt sample_rm) []) (ToPairs (rt sample_rm) []) = ([], [])"
      by (simp add: sample_rt_def)
    then have "syncInlinePolicies sample_rm (?r\<lparr>Spec_Policies := None, Spec_InlinePolicies := []\<rparr>) ?r u = Some (None, u)"
      by (subst syncInlinePolicies_eq [where ds = "[]" and ls = "[]" and toAdd = "[]" and toDelete = "[]"]) simp_all
    ultimately show ?thesis by (simp add: sdkDelete_def sample_calls)
  qed
  then obtain res w' where run: "sdkDelete sample_rm ?r ?w = Some ((res, None), w')" by blast
  have "policies_apart sample_sdk iam_attached iam_inline" by (simp add: policies_apart_def sample_sdk_def)
  then have "\<exists>b. DeleteRole (sdkapi sample_rm) (Some ''r'') b = (None, aws w') \<and> iam_attached b ''r'' = {} \<and>
      iam_inline b ''r'' = Map.empty"
    using delete_bare_role [OF _ _ _ _ _ _ _ _ _ _ _ run, of iam_attached iam_inline "''r''" "[''a'']" "[]"]
    by (simp add: sample_attach_ok sample_inline_ok sample_iam_def)
  with run show ?thesis by auto
qed

text \<open>
  C37. The session duration of a create or update request: a duration that fits an \<open>int32\<close> is
  sent as a value that reads back as the same \<open>int64\<close>, every other one is refused.
\<close>

theorem session_duration_bounds:
  "case maxSessionDurationInput p of
     Inr q \<Rightarrow> map_option scast q = p
   | Inl e \<Rightarrow> (case p of None \<Rightarrow> False | Some d \<Rightarrow> sint d < - (2 ^ 31) \<or> 2 ^ 31 \<le> sint d)"
  using maxSessionDurationInput_back [of p]
  by (auto simp: maxSessionDurationInput_def int32_of_int64_def split: sum.splits option.splits)

subsection \<open>The entry points\<close>

text \<open>
  C34. \<open>LateInitialize\<close> never overwrites a session duration or path of the role it is given: after a
  successful \<open>ReadOne\<close> it fills those that are nil from the role read and reports success exactly when
  both then have a value; after a failed one it leaves both and returns the error of the read. No other
  field changes but the conditions and the tags, which are those \<open>mirrorAWSTags\<close> makes of the given ones.
\<close>

theorem late_initialize_fills:
  assumes "ReadOne rm (Some latest) w = Some (((res, err), copy), w')"
  shows "\<exists>ko err'. LateInitialize rm (Some latest) w = Some ((Some ko, err'), w') \<and>
    ko = latest\<lparr>Status_Conditions := Status_Conditions ko, Spec_Tags := Spec_Tags ko,
      Spec_MaxSessionDuration := (if err = None \<and> Spec_MaxSessionDuration latest = None
        then Option.bind res Spec_MaxSessionDuration else Spec_MaxSessionDuration latest),
      Spec_Path := (if err = None \<and> Spec_Path latest = None then Option.bind res Spec_Path else Spec_Path latest)\<rparr> \<and>
    (\<exists>obs. Spec_Tags ko = Spec_Tags (mirrorAWSTags (rt rm) latest obs)) \<and>
    (if err = None then err' = None \<longleftrightarrow> Spec_MaxSessionDuration ko \<noteq> None \<and> Spec_Path ko \<noteq> None else err' = err)"
  using LateInitialize_fills [OF assms] .

lemma sample_read_one:
  "\<exists>observed copy w'. ReadOne sample_rm (Some sample_role) (sample_world observed_iam) = Some (((Some observed, None), copy), w')
    \<and> Spec_Path observed = Some ''/''"
proof -
  obtain res w1 where find: "sdkFind sample_rm sample_role (sample_world observed_iam) =
      Some ((Some ((setStatusDefaults sample_rm (fromGetRole observed_role sample_role))\<lparr>
       Spec_AssumeRolePolicyDocument := Some ''{ + }'', Spec_Policies := Some [Some ''arn:p0'', Some ''arn:p1''],
       Spec_InlinePolicies := res, Spec_Tags := Some [mkTag ''a'' ''1'', mkTag ''b'' ''2'']\<rparr>), None), w1)"
    using sdkFind_describes [of sample_rm iam_inline "sample_world observed_iam" "''r''" observed_role
      "[Some ''arn:p0'', Some ''arn:p1'']" "[mkTag ''a'' ''1'', mkTag ''b'' ''2'']" sample_role "''{ + }''"]
      observed_describes
    by (auto simp: sample_read_inline_ok observed_iam_def observed_role_def)
  define ko where "ko = (setStatusDefaults sample_rm (fromGetRole observed_role sample_role))\<lparr>
       Spec_AssumeRolePolicyDocument := Some ''{ + }'', Spec_Policies := Some [Some ''arn:p0'', Some ''arn:p1''],
       Spec_InlinePolicies := res, Spec_Tags := Some [mkTag ''a'' ''1'', mkTag ''b'' ''2'']\<rparr>"
  have "conditions_of ko = conditions_of (setStatusDefaults sample_rm (fromGetRole observed_role sample_role))"
    by (simp add: ko_def conditions_of_def)
  also have "\<dots> = conditions_of (fromGetRole observed_role sample_role)" by simp
  also have "\<dots> = []" by (simp add: fromGetRole_def conditions_of_def setARN_def Let_def)
  finally have "unique_conditions (conditions_of ko)" by (simp add: unique_conditions_def)
  from success_D [OF this] obtain ko' where "onSuccess sample_rm terminalCodes (Some ko) = Some (Some ko', None)"
      "ack_object.more ko' = ack_object.more ko" by blast
  then have ko': "finish sample_rm terminalCodes r (Some ko) None = Some (Some ko', None)"
      "ack_object.more ko' = ack_object.more ko" for r by (simp_all add: finish_def)
  have "Spec_Path ko = Some ''/''"
    by (simp add: ko_def setStatusDefaults_def fromGetRole_def observed_role_def Let_def)
  then have "Spec_Path ko' = Some ''/''" using ko'(2) by (cases ko; cases ko') simp
  moreover have "ReadOne sample_rm (Some sample_role) (sample_world observed_iam) =
     Some (((Some ko', None), sample_role\<lparr>Spec_Tags := mirroredTags sample_rt None (Spec_Tags ko)\<rparr>), w1)"
    using find ko'(1) by (simp add: ReadOne_def read_one_def mirrorAWSTags_def ko_def)
  ultimately show ?thesis by simp
qed

lemma late_initialize_fills_witness:
  "\<exists>ko w'. LateInitialize sample_rm (Some sample_role) (sample_world observed_iam) = Some ((Some ko, None), w')
    \<and> Spec_Path ko = Some ''/'' \<and> Spec_MaxSessionDuration ko = Some 3600"
proof -
  have given: "Spec_Path sample_role = None" "Spec_MaxSessionDuration sample_role = Some 3600"
    by (simp_all add: sample_role_def)
  obtain observed copy w' where read: "ReadOne sample_rm (Some sample_role) (sample_world observed_iam) =
      Some (((Some observed, None), copy), w')" and path: "Spec_Path observed = Some ''/''"
    using sample_read_one by blast
  from late_initialize_fills [OF read] obtain ko err' where
    out: "LateInitialize sample_rm (Some sample_role) (sample_world observed_iam) = Some ((Some ko, err'), w')"
    and ko: "ko = sample_role\<lparr>Status_Conditions := Status_Conditions ko, Spec_Tags := Spec_Tags ko,
      Spec_MaxSessionDuration := Some 3600, Spec_Path := Some ''/''\<rparr>"
    and err': "err' = None \<longleftrightarrow> Spec_MaxSessionDuration ko \<noteq> None \<and> Spec_Path ko \<noteq> None"
    using path given by auto
  have "Spec_MaxSessionDuration ko = Some 3600" "Spec_Path ko = Some ''/''"
    by (subst ko, simp)+
  with out err' show ?thesis by simp
qed

text \<open>
  \<open>EnsureTags\<close> leaves a tag list without nil or duplicate keys that holds every tag the user
  gave, with the user's value, and the controller's default tags for the other keys.
\<close>

theorem ensure_tags_adds_defaults:
  assumes "valid_order (map_order (rt rm))" and "merge_ok (rt rm)" and "wf_map (GetDefaultTags (rt rm))"
  shows "\<exists>ko'. EnsureTags rm (Some ko) = Some (ko', None) \<and> ko'\<lparr>Spec_Tags := Spec_Tags ko\<rparr> = ko \<and>
    tag_set (elems (Spec_Tags ko')) \<and>
    tag_map (elems (Spec_Tags ko')) = map_of (GetDefaultTags (rt rm)) ++ ack_map (elems (Spec_Tags ko))"
  using ensuredTags_map [OF assms, of "Spec_Tags ko"] by (simp add: EnsureTags_def)

lemma ensure_tags_adds_defaults_witness:
  "\<exists>ko'. EnsureTags sample_rm (Some sample_role) = Some (ko', None) \<and>
    tag_map (elems (Spec_Tags ko')) ''services.k8s.aws/namespace'' = Some ''default''"
proof -
  have "GetDefaultTags sample_rt = [(''services.k8s.aws/namespace'', ''default'')]" by (simp add: sample_rt_def)
  then show ?thesis using ensure_tags_adds_defaults [of sample_rm sample_role] by auto
qed

text \<open>
  C35. After reading, the tags AWS itself put on a role are copied to the desired role by
  \<open>mirrorAWSTags\<close>, and no tag of the user is lost or changed but one with an \<open>aws:\<close> key; the
  later \<open>FilterSystemTags\<close> takes all of them out again, so what is stored has no \<open>aws:\<close> tag.
\<close>

theorem aws_tags_mirrored_then_filtered:
  assumes "valid_order (map_order (rt rm))"
  shows "let mirrored = mirrorAWSTags (rt rm) desired (Some latest);
             stored = the (FilterSystemTags rm (Some mirrored) systemTags)
    in tag_map (elems (Spec_Tags mirrored)) =
         ack_map (elems (Spec_Tags desired)) ++ (ack_map (elems (Spec_Tags latest)) |` {k. aws_key k}) \<and>
       tag_map (elems (Spec_Tags stored)) = ack_map (elems (Spec_Tags desired)) |` {k. \<not> system_key systemTags k}"
proof -
  let ?m = "mirroredTags (rt rm) (Spec_Tags desired) (Spec_Tags latest)"
  have "ack_map (elems ?m) = tag_map (elems ?m)"
    by (rule ack_map_tag_map) (rule mirroredTags_map [OF assms])
  then have "ack_map (elems ?m) |` {k. \<not> system_key systemTags k} =
      ack_map (elems (Spec_Tags desired)) |` {k. \<not> system_key systemTags k}"
    by (auto simp: mirroredTags_map [OF assms] restrict_map_def fun_eq_iff map_add_def system_key_def)
  then show ?thesis
    by (simp add: mirrorAWSTags_def FilterSystemTags_def mirroredTags_map [OF assms] filteredTags_map [OF assms])
qed

lemma aws_tags_mirrored_then_filtered_witness:
  "tag_map (elems (Spec_Tags (mirrorAWSTags sample_rt (sample_role\<lparr>Spec_Tags := Some [mkTag ''a'' ''1'']\<rparr>)
     (Some (sample_role\<lparr>Spec_Tags := Some [mkTag ''aws:x'' ''2'', mkTag ''b'' ''3'']\<rparr>))))) ''aws:x'' = Some ''2''"
  using aws_tags_mirrored_then_filtered [of sample_rm "sample_role\<lparr>Spec_Tags := Some [mkTag ''a'' ''1'']\<rparr>"
      "sample_role\<lparr>Spec_Tags := Some [mkTag ''aws:x'' ''2'', mkTag ''b'' ''3'']\<rparr>" "[]"]
  by (simp add: Let_def ack_map_Cons HasPrefix_def)

subsection \<open>References and comparison\<close>

text \<open>
  C26. Clearing resolved references undoes resolving them, whether or not that ended in an error:
  of a role that \<open>validateReferenceFields\<close> accepts (no field is given both as a reference and by
  value) every field is as before the round trip, but for the conditions, which the runtime's
  namespace check may extend while resolving, and an empty policy list, which becomes nil when the
  role has policy references.
\<close>

theorem references_round_trip:
  assumes "validateReferenceFields (rt rm) res = None"
    and "ResolveReferences rm apiReader res = (ko, has, err)"
  shows "ClearResolvedReferences ko = res\<lparr>Status_Conditions := Status_Conditions ko,
      Spec_Policies := if elems (Spec_PolicyRefs res) = [] then Spec_Policies res else None\<rparr> \<and>
    elems (Spec_Policies (ClearResolvedReferences ko)) = elems (Spec_Policies res)"
  using role_references_clear [OF assms] .

definition sample_ref :: "AWSResourceReferenceWrapper ptr" where
  "sample_ref = Some \<lparr>From = Some \<lparr>ref_Name = Some ''p'', ref_Namespace = None\<rparr>\<rparr>"

definition sample_policy_object :: ack_object where
  "sample_policy_object = \<lparr>Namespace = ''default'', DeletionTimestamp = None, Finalizers = [], Annotations = [],
     Status_ACKResourceMetadata = Some (emptyMetadata\<lparr>ARN := Some ''arn:p''\<rparr>),
     Status_Conditions = Some [\<lparr>Type = ConditionTypeResourceSynced, Status = Some ConditionTrue, Message = None, Reason = None\<rparr>]\<rparr>"

lemma sample_resolves:
  "\<exists>ko. ResolveReferences sample_rm (\<lambda>_ _. Inr sample_policy_object) (sample_role\<lparr>Spec_PolicyRefs := Some [sample_ref]\<rparr>)
    = (ko, True, None) \<and> Spec_Policies ko = Some [Some ''arn:p'']"
proof -
  have "ResolveCrossNamespaceReference sample_rt b conds ns None name = ((ns, None), conds)" for b conds ns name
    by (simp add: sample_rt_def)
  then show ?thesis
    by (simp add: ResolveReferences_def resolve_references_def validate_reference_fields_def resolve_boundary_reference_def
      resolve_policies_reference_def resolvePolicyReference_def resolve_reference_def getReferencedResourceState_Policy_def Let_def sample_ref_def)
      (simp add: sample_policy_object_def conditions_of_def)
qed

lemma references_round_trip_witness:
  "\<exists>ko. ResolveReferences sample_rm (\<lambda>_ _. Inr sample_policy_object) (sample_role\<lparr>Spec_PolicyRefs := Some [sample_ref]\<rparr>)
    = (ko, True, None) \<and> ClearResolvedReferences ko =
    sample_role\<lparr>Spec_PolicyRefs := Some [sample_ref], Spec_Policies := None, Status_Conditions := Status_Conditions ko\<rparr>"
proof -
  obtain ko where run: "ResolveReferences sample_rm (\<lambda>_ _. Inr sample_policy_object)
      (sample_role\<lparr>Spec_PolicyRefs := Some [sample_ref]\<rparr>) = (ko, True, None)" using sample_resolves by blast
  have "validateReferenceFields (rt sample_rm) (sample_role\<lparr>Spec_PolicyRefs := Some [sample_ref]\<rparr>) = None"
    by (simp add: validateReferenceFields_def validate_reference_fields_def)
  from references_round_trip [OF this run] run show ?thesis by simp
qed

text \<open>
  C27. When \<open>ResolveReferences\<close> reports no error, every policy reference has been replaced, in
  order, by the ARN of a synced \<open>Policy\<close> that is not in a terminal condition, and so has the
  permissions boundary.
\<close>

theorem references_resolved:
  assumes "ResolveReferences rm apiReader res = (ko, has, None)"
  shows "\<exists>arns. elems (Spec_Policies ko) = elems (Spec_Policies res) @ arns \<and>
    list_all2 (resolves_to apiReader) (wrapped (elems (Spec_PolicyRefs res))) arns \<and>
    (\<forall>arr. Option.bind (Spec_PermissionsBoundaryRef res) From = Some arr \<longrightarrow>
       resolves_to apiReader arr (Spec_PermissionsBoundary ko))"
  using resolve_references_resolved [OF assms [unfolded ResolveReferences_def]] .

lemma references_resolved_witness:
  "resolves_to (\<lambda>_ _. Inr sample_policy_object) \<lparr>ref_Name = Some ''p'', ref_Namespace = None\<rparr> (Some ''arn:p'')"
proof -
  obtain ko where run: "ResolveReferences sample_rm (\<lambda>_ _. Inr sample_policy_object)
      (sample_role\<lparr>Spec_PolicyRefs := Some [sample_ref]\<rparr>) = (ko, True, None)" "Spec_Policies ko = Some [Some ''arn:p'']"
    using sample_resolves by blast
  from references_resolved [OF run(1)] run(2) show ?thesis by (simp add: sample_ref_def)
qed

text \<open>
  C33. \<open>newResourceDelta\<close> of two roles reports a path exactly when that field differs, the tags as
  sets.
\<close>

theorem delta_reports_differences:
  assumes "in_string_ok r" and "tag_set (elems (Spec_Tags a))" and "tag_set (elems (Spec_Tags b))"
    and "delta_ok c delta_paths" and "q \<in> delta_paths"
  shows "\<exists>delta. newResourceDelta r c (Some a) (Some b) = Some delta \<and>
    (DifferentAt c delta q \<longleftrightarrow> (q, True) \<in> set (differences c a b))"
  using newResourceDelta_report [OF assms(1-3), of c] DifferentAt_report [OF assms(4) _ assms(5)]
    paths_of_differences [of c a b] by auto

lemma delta_reports_differences_witness:
  "\<exists>delta. newResourceDelta sample_rt sample_compare (Some (sample_role\<lparr>Spec_Path := Some ''/x/''\<rparr>)) (Some sample_role) = Some delta
     \<and> DifferentAt sample_compare delta ''Spec.Path''"
proof -
  have "(''Spec.Path'', True) \<in> set (differences sample_compare (sample_role\<lparr>Spec_Path := Some ''/x/''\<rparr>) sample_role)"
    by (simp add: differences_def stringDiffers_def)
  then show ?thesis
    using delta_reports_differences [of sample_rt "sample_role\<lparr>Spec_Path := Some ''/x/''\<rparr>" sample_role sample_compare "''Spec.Path''"]
    by (auto simp: delta_paths_def simp del: sample_compare_simps)
qed

end
