(* ===== verification/PolicyHooks.thy ===== *)
theory PolicyHooks
  imports Conditions TagHooks Sync Url
begin

text \<open>
  \<open>pkg/resource/policy/hooks.go\<close>: tags and versions of an IAM managed policy. A policy document
  cannot be changed: an update makes a new version, and IAM keeps at most five, so the oldest
  version that is not the default one is deleted first when there are five.
\<close>

subsection \<open>The data and the API calls\<close>

text \<open>
  The data of the policy package: the \<open>Policy\<close> custom resource of \<open>apis/v1alpha1/policy.go\<close>, the
  parts of the SDK's types the code reads and writes, and the record \<open>policy_sdk\<close> of the SDK
  client's operations the package calls.
\<close>

record Policy = ack_object +
  Spec_Description :: "string ptr"
  Spec_Name :: "string ptr"
  Spec_Path :: "string ptr"
  Spec_PolicyDocument :: "string ptr"
  Spec_Tags :: "Tag slice"
  Status_AttachmentCount :: "int64 ptr"
  Status_CreateDate :: "time ptr"
  Status_DefaultVersionID :: "string ptr"
  Status_IsAttachable :: "bool ptr"
  Status_PermissionsBoundaryUsageCount :: "int64 ptr"
  Status_PolicyID :: "string ptr"
  Status_UpdateDate :: "time ptr"

text \<open>\<open>svcsdktypes.Policy\<close> and \<open>svcsdktypes.PolicyVersion\<close>.\<close>

record SdkPolicy =
  Policy_Arn :: "string ptr"
  Policy_AttachmentCount :: "int32 ptr"
  Policy_CreateDate :: "time ptr"
  Policy_DefaultVersionId :: "string ptr"
  Policy_Description :: "string ptr"
  Policy_IsAttachable :: bool
  Policy_Path :: "string ptr"
  Policy_PermissionsBoundaryUsageCount :: "int32 ptr"
  Policy_PolicyId :: "string ptr"
  Policy_PolicyName :: "string ptr"
  Policy_Tags :: "Tag slice"
  Policy_UpdateDate :: "time ptr"

record SdkPolicyVersion =
  VersionId :: "string ptr"
  CreateDate :: "time ptr"
  Document :: "string ptr"
  IsDefaultVersion :: bool

record ListPolicyVersionsOutput =
  Versions :: "SdkPolicyVersion list"
  Versions_IsTruncated :: bool
  Versions_Marker :: "string ptr"

record CreatePolicyInput =
  Create_Description :: "string ptr"
  Create_Path :: "string ptr"
  Create_PolicyDocument :: "string ptr"
  Create_PolicyName :: "string ptr"
  Create_Tags :: "Tag slice"

text \<open>
  The request's fields and the backend's state give the response pointer, the error and the next
  state. \<open>CreatePolicyVersion\<close> takes the ARN, the document and \<open>SetAsDefault\<close>.
\<close>

record 'b policy_sdk =
  GetPolicy :: "string ptr \<Rightarrow> 'b \<Rightarrow> (SdkPolicy ptr ptr \<times> error option) \<times> 'b"
  CreatePolicy :: "CreatePolicyInput \<Rightarrow> 'b \<Rightarrow> (SdkPolicy ptr ptr \<times> error option) \<times> 'b"
  DeletePolicy :: "string ptr \<Rightarrow> 'b \<Rightarrow> error option \<times> 'b"
  ListPolicyTags :: "string ptr \<Rightarrow> string ptr \<Rightarrow> 'b \<Rightarrow> (ListTagsOutput ptr \<times> error option) \<times> 'b"
  TagPolicy :: "string ptr \<Rightarrow> Tag list \<Rightarrow> 'b \<Rightarrow> error option \<times> 'b"
  UntagPolicy :: "string ptr \<Rightarrow> string list \<Rightarrow> 'b \<Rightarrow> error option \<times> 'b"
  CreatePolicyVersion :: "string ptr \<Rightarrow> string ptr \<Rightarrow> bool \<Rightarrow> 'b \<Rightarrow> (SdkPolicyVersion ptr ptr \<times> error option) \<times> 'b"
  GetPolicyVersion :: "string ptr \<Rightarrow> string ptr \<Rightarrow> 'b \<Rightarrow> (SdkPolicyVersion ptr ptr \<times> error option) \<times> 'b"
  ListPolicyVersions :: "string ptr \<Rightarrow> string ptr \<Rightarrow> 'b \<Rightarrow> (ListPolicyVersionsOutput ptr \<times> error option) \<times> 'b"
  DeletePolicyVersion :: "string ptr \<Rightarrow> string ptr \<Rightarrow> 'b \<Rightarrow> error option \<times> 'b"

record 'b policy_manager = resourceManager +
  sdkapi :: "'b policy_sdk"

definition limitPolicyVersions :: nat where
  "limitPolicyVersions = 5"

text \<open>\<open>(*string)(r.ko.Status.ACKResourceMetadata.ARN)\<close>: nil metadata panics.\<close>

definition policyArn :: "'a ack_object_scheme \<Rightarrow> string ptr option" where
  "policyArn r = do { md \<leftarrow> Status_ACKResourceMetadata r; Some (ARN md) }"

subsection \<open>Tags\<close>

definition addTags :: "'b policy_manager \<Rightarrow> Policy \<Rightarrow> Tag list \<Rightarrow> ('b, error option) go" where
  "addTags rm r tags w = do {
     arn \<leftarrow> policyArn r;
     let (err, w) = sdk_call (TagPolicy (sdkapi rm) arn (map copyTag tags)) w;
     Some (err, RecordAPICall ''UPDATE'' ''TagPolicy'' err w) }"

definition removeTags :: "'b policy_manager \<Rightarrow> Policy \<Rightarrow> Tag list \<Rightarrow> ('b, error option) go" where
  "removeTags rm r tags w = do {
     arn \<leftarrow> policyArn r;
     inTagKeys \<leftarrow> traverse Key tags;
     let (err, w) = sdk_call (UntagPolicy (sdkapi rm) arn inTagKeys) w;
     Some (err, RecordAPICall ''UPDATE'' ''UntagPolicy'' err w) }"

definition syncTags :: "'b policy_manager \<Rightarrow> Policy \<Rightarrow> Policy \<Rightarrow> ('b, error option) go" where
  "syncTags rm desired latest w = do {
     let existingTags = elems (Spec_Tags latest);
     toAdd \<leftarrow> notInTags (elems (Spec_Tags desired)) existingTags;
     toDelete \<leftarrow> notInTags existingTags (elems (Spec_Tags desired));
     (err, w) \<leftarrow> (if length toDelete > 0 then removeTags rm desired toDelete w else Some (None, w));
     (case err of
        Some e \<Rightarrow> Some (Some e, w)
      | None \<Rightarrow> if length toAdd > 0 then addTags rm desired toAdd w else Some (None, w))
   }"

definition compareTags :: "ack_rt \<Rightarrow> 'd compare_rt \<Rightarrow> 'd \<Rightarrow> Policy \<Rightarrow> Policy \<Rightarrow> 'd option" where
  "compareTags r c delta a b = compareTagLists r c delta (elems (Spec_Tags a)) (elems (Spec_Tags b))"

text \<open>The \<open>for\<close> loop of \<open>getTags\<close>, which records only the pages after which it goes on.\<close>

partial_function (option) tagPages ::
  "'b policy_manager \<Rightarrow> string ptr \<Rightarrow> string ptr \<Rightarrow> Tag list \<Rightarrow> 'b world \<Rightarrow> ((Tag list \<times> error option) \<times> 'b world) option" where
  "tagPages rm arn marker res w = do {
     let ((resp, err), w) = sdk_call (ListPolicyTags (sdkapi rm) arn marker) w;
     (case (err, resp) of
        (None, Some resp) \<Rightarrow> do {
          let res = res @ map copyTag (Tags resp);
          if \<not> IsTruncated resp then Some ((res, err), w)
          else tagPages rm arn (Marker resp) res (RecordAPICall ''READ_MANY'' ''ListPolicyTags'' err w) }
      | _ \<Rightarrow> Some ((res, err), w))
   }"

definition getTags :: "'b policy_manager \<Rightarrow> Policy \<Rightarrow> ('b, Tag slice \<times> error option) go" where
  "getTags rm r w = do {
     arn \<leftarrow> policyArn r;
     ((res, err), w) \<leftarrow> tagPages rm arn None [] w;
     Some ((Some res, err), w) }"

subsection \<open>Versions\<close>

record policyVersion =
  version :: string
  createDate :: "time ptr"
  document :: string
  isDefault :: bool

definition getPolicyVersion ::
  "'b policy_manager \<Rightarrow> string \<Rightarrow> string \<Rightarrow> ('b, policyVersion ptr \<times> error option) go" where
  "getPolicyVersion rm policyARN ver w = do {
     let ((resp, err), w) = sdk_call (GetPolicyVersion (sdkapi rm) (Some policyARN) (Some ver)) w;
     let w = RecordAPICall ''READ_ONE'' ''GetPolicyVersion'' err w;
     (case err of
        Some e \<Rightarrow> Some ((None, Some e), w)
      | None \<Rightarrow> do {
          output \<leftarrow> resp;
          let pv = \<lparr>version = [], createDate = None, document = [], isDefault = False\<rparr>;
          (case output of
             None \<Rightarrow> Some ((Some pv, None), w)
           | Some v \<Rightarrow>
               (let pv = pv\<lparr>createDate := CreateDate v,
                      version := (case VersionId v of Some i \<Rightarrow> i | None \<Rightarrow> version pv)\<rparr>
                in case Document v of
                     None \<Rightarrow> Some ((Some (pv\<lparr>isDefault := IsDefaultVersion v\<rparr>), None), w)
                   | Some rawDoc \<Rightarrow> (case QueryUnescape (rt rm) rawDoc of
                        (_, Some e) \<Rightarrow> Some ((None, Some e), w)
                      | (doc, None) \<Rightarrow>
                          Some ((Some (pv\<lparr>document := doc, isDefault := IsDefaultVersion v\<rparr>), None), w)))) })
   }"

text \<open>What \<open>getPolicyVersions\<close> keeps of a listed version; a nil version id panics.\<close>

definition toPolicyVersion :: "SdkPolicyVersion \<Rightarrow> policyVersion option" where
  "toPolicyVersion v = do {
     i \<leftarrow> VersionId v;
     Some \<lparr>version = i, createDate = CreateDate v, document = [], isDefault = IsDefaultVersion v\<rparr> }"

partial_function (option) versionPages ::
  "'b policy_manager \<Rightarrow> string \<Rightarrow> string ptr \<Rightarrow> policyVersion list \<Rightarrow> 'b world \<Rightarrow>
     ((policyVersion list \<times> error option) \<times> 'b world) option" where
  "versionPages rm policyARN marker versions w = do {
     let ((resp, err), w) = sdk_call (ListPolicyVersions (sdkapi rm) (Some policyARN) marker) w;
     (case (err, resp) of
        (None, Some resp) \<Rightarrow> do {
          pvs \<leftarrow> traverse toPolicyVersion (Versions resp);
          let versions = versions @ pvs;
          if \<not> Versions_IsTruncated resp then Some ((versions, err), w)
          else versionPages rm policyARN (Versions_Marker resp) versions
            (RecordAPICall ''READ_MANY'' ''ListPolicyVersions'' err w) }
      | _ \<Rightarrow> Some ((versions, err), w))
   }"

text \<open>
  \<open>sort.Slice\<close> by \<open>createDate.Before\<close>. With two or more elements every element is compared, and
  comparing a nil date panics. \<open>sort.Slice\<close> is an insertion sort up to twelve elements, so it
  keeps equal dates in order as \<open>sort_key\<close> does; beyond that their order is open, and no theorem
  depends on it.
\<close>

definition sortVersions :: "policyVersion list \<Rightarrow> policyVersion list option" where
  "sortVersions versions =
     (if length versions > 1 \<and> list_ex (\<lambda>v. createDate v = None) versions then None
      else Some (sort_key (\<lambda>v. case createDate v of Some t \<Rightarrow> t | None \<Rightarrow> 0) versions))"

definition getPolicyVersions ::
  "'b policy_manager \<Rightarrow> string \<Rightarrow> ('b, policyVersion list \<times> error option) go" where
  "getPolicyVersions rm policyARN w = do {
     ((versions, err), w) \<leftarrow> versionPages rm policyARN None [] w;
     sorted \<leftarrow> sortVersions versions;
     Some ((sorted, err), w) }"

definition deletePolicyVersion :: "'b policy_manager \<Rightarrow> string \<Rightarrow> string \<Rightarrow> ('b, error option) go" where
  "deletePolicyVersion rm policyARN ver w =
     (let (err, w) = sdk_call (DeletePolicyVersion (sdkapi rm) (Some policyARN) (Some ver)) w
      in Some (err, RecordAPICall ''UPDATE'' ''DeletePolicyVersion'' err w))"

text \<open>The loop of \<open>ensureVersionsLimitNotExceeded\<close>: the first version that is not the default goes.\<close>

primrec deleteFirstNonDefault :: "'b policy_manager \<Rightarrow> string \<Rightarrow> policyVersion list \<Rightarrow> ('b, error option) go" where
  "deleteFirstNonDefault rm policyARN [] w = Some (None, w)"
| "deleteFirstNonDefault rm policyARN (v # versions) w =
     (if isDefault v then deleteFirstNonDefault rm policyARN versions w
      else deletePolicyVersion rm policyARN (version v) w)"

definition ensureVersionsLimitNotExceeded :: "'b policy_manager \<Rightarrow> string \<Rightarrow> ('b, error option) go" where
  "ensureVersionsLimitNotExceeded rm policyARN w = do {
     ((versions, err), w) \<leftarrow> getPolicyVersions rm policyARN w;
     (case err of
        Some e \<Rightarrow> Some (Some e, w)
      | None \<Rightarrow> if length versions = limitPolicyVersions then deleteFirstNonDefault rm policyARN versions w
                else Some (None, w)) }"

definition updatePolicyDocument :: "'b policy_manager \<Rightarrow> Policy \<Rightarrow> ('b, string \<times> error option) go" where
  "updatePolicyDocument rm r w = do {
     policyARN \<leftarrow> policyArn r;
     arn \<leftarrow> policyARN;
     (err, w) \<leftarrow> ensureVersionsLimitNotExceeded rm arn w;
     (case err of
        Some e \<Rightarrow> Some (([], Some e), w)
      | None \<Rightarrow> do {
          let ((resp, err), w) = sdk_call (CreatePolicyVersion (sdkapi rm) policyARN (Spec_PolicyDocument r) True) w;
          let w = RecordAPICall ''UPDATE'' ''CreatePolicyVersion'' err w;
          (case err of
             Some e \<Rightarrow> Some (([], Some e), w)
           | None \<Rightarrow> do {
               output \<leftarrow> resp;
               v \<leftarrow> output;
               i \<leftarrow> VersionId v;
               Some ((i, None), w) }) }) }"

definition deleteNonDefaultPolicyVersions :: "'b policy_manager \<Rightarrow> Policy \<Rightarrow> ('b, error option) go" where
  "deleteNonDefaultPolicyVersions rm r w = do {
     policyARN \<leftarrow> policyArn r;
     arn \<leftarrow> policyARN;
     ((versions, err), w) \<leftarrow> getPolicyVersions rm arn w;
     (case err of
        Some e \<Rightarrow> Some (Some e, w)
      | None \<Rightarrow> for_each (\<lambda>v w. if isDefault v then Some (None, w) else deletePolicyVersion rm arn (version v) w) versions w) }"

subsection \<open>The update\<close>

definition customUpdatePolicy ::
  "'b policy_manager \<Rightarrow> 'd compare_rt \<Rightarrow> Policy \<Rightarrow> Policy \<Rightarrow> 'd \<Rightarrow> ('b, Policy ptr \<times> error option) go" where
  "customUpdatePolicy rm c desired latest delta w = do {
     let ko = setStatusDefaults rm desired;
     (err, w) \<leftarrow> (if DifferentAt c delta ''Spec.Tags'' then syncTags rm desired latest w else Some (None, w));
     (case err of
        Some e \<Rightarrow> Some ((None, Some e), w)
      | None \<Rightarrow> do {
          ((newVersionID, err), w) \<leftarrow>
            (if DifferentAt c delta ''Spec.PolicyDocument''
             then do { ((i, err), w) \<leftarrow> updatePolicyDocument rm desired w; Some ((Some i, err), w) }
             else Some ((Status_DefaultVersionID ko, None), w));
          (case err of
             Some e \<Rightarrow> Some ((None, Some e), w)
           | None \<Rightarrow>
               Some ((Some (ko\<lparr>Status_DefaultVersionID := newVersionID,
                 Status_Conditions := SetSynced (rt rm) (Status_Conditions ko) ConditionTrue None None\<rparr>), None), w)) }) }"

end
