(* ===== verification/PolicyVersions.thy ===== *)
theory PolicyVersions
  imports PolicyHooks
begin

text \<open>
  What the policy hooks achieve. The documented behaviour of the version and tag calls is a
  named hypothesis about the SDK client, relative to a function that reads the versions
  (\<open>versions_ok\<close>, \<open>lists_versions\<close>) or the tags (\<open>policy_tagging_ok\<close>) of a policy off the
  backend's state.
\<close>

subsection \<open>Sorting\<close>

definition dated :: "policyVersion \<Rightarrow> time" where
  "dated v = (case createDate v of Some t \<Rightarrow> t | None \<Rightarrow> 0)"

lemma sortVersions_None: "sortVersions vs = None \<longleftrightarrow> length vs > 1 \<and> (\<exists>v\<in>set vs. createDate v = None)"
  by (auto simp: sortVersions_def list_ex_iff)

lemma sortVersions_Some:
  assumes "sortVersions vs = Some us"
  shows "mset us = mset vs" and "sorted (map dated us)" and "set us = set vs" and "length us = length vs"
proof -
  have us: "us = sort_key dated vs"
    using assms by (auto simp: sortVersions_def dated_def [abs_def] split: if_splits)
  then show "mset us = mset vs" "sorted (map dated us)" "set us = set vs" "length us = length vs" by simp_all
qed

subsection \<open>Reading the versions\<close>

definition versionFetch ::
  "'b policy_manager \<times> string \<Rightarrow> string ptr \<Rightarrow> 'b world \<Rightarrow> (policyVersion, string ptr) page \<times> 'b world" where
  "versionFetch e marker w =
     (let ((resp, err), w) = sdk_call (ListPolicyVersions (sdkapi (fst e)) (Some (snd e)) marker) w
      in (case (err, resp) of
            (None, Some resp) \<Rightarrow> (case traverse toPolicyVersion (Versions resp) of
               None \<Rightarrow> (Crash, w)
             | Some pvs \<Rightarrow> if Versions_IsTruncated resp
                 then (More pvs (Versions_Marker resp), RecordAPICall ''READ_MANY'' ''ListPolicyVersions'' None w)
                 else (Last pvs, w))
          | _ \<Rightarrow> (Stop err, w)))"

interpretation version_pages: pager "\<lambda>e. versionPages (fst e) (snd e)" versionFetch
proof unfold_locales
  fix e m res w
  show "versionPages (fst e) (snd e) m res w = (case versionFetch e m w of
     (Stop err, w') \<Rightarrow> Some ((res, err), w')
   | (Last xs, w') \<Rightarrow> Some ((res @ xs, None), w')
   | (More xs m', w') \<Rightarrow> versionPages (fst e) (snd e) m' (res @ xs) w'
   | (Crash, w') \<Rightarrow> None)"
    by (subst versionPages.simps) (auto simp: versionFetch_def split_beta Let_def split: option.splits)
qed

text \<open>
  The listing is complete: page by page it names every version of the policy once, each with an
  id and a date.
\<close>

definition lists_versions ::
  "'b policy_manager \<Rightarrow> ('b \<Rightarrow> string \<Rightarrow> policyVersion list) \<Rightarrow> string \<Rightarrow> bool" where
  "lists_versions rm vers arn \<longleftrightarrow> (\<forall>w. \<exists>pages w'. serves (versionFetch (rm, arn)) None w pages w' \<and>
     aws w' = aws w \<and> concat pages = vers (aws w) arn \<and> (\<forall>v \<in> set (vers (aws w) arn). createDate v \<noteq> None))"

text \<open>The same of one reading.\<close>

definition versions_listed ::
  "'b policy_manager \<Rightarrow> ('b \<Rightarrow> string \<Rightarrow> policyVersion list) \<Rightarrow> string \<Rightarrow> 'b world \<Rightarrow> bool" where
  "versions_listed rm vers arn w \<longleftrightarrow> (\<exists>pages w'. serves (versionFetch (rm, arn)) None w pages w' \<and>
     aws w' = aws w \<and> concat pages = vers (aws w) arn \<and> (\<forall>v \<in> set (vers (aws w) arn). createDate v \<noteq> None))"

lemma lists_versions_listed: "lists_versions rm vers arn \<Longrightarrow> versions_listed rm vers arn w"
  by (simp add: lists_versions_def versions_listed_def)

lemma getPolicyVersions_listed:
  assumes "versions_listed rm vers arn w"
  shows "\<exists>us w'. getPolicyVersions rm arn w = Some ((us, None), w') \<and> aws w' = aws w \<and>
    mset us = mset (vers (aws w) arn) \<and> sorted (map dated us)"
proof -
  obtain pages w' where p: "serves (versionFetch (rm, arn)) None w pages w'" "aws w' = aws w"
      "concat pages = vers (aws w) arn" "\<forall>v \<in> set (vers (aws w) arn). createDate v \<noteq> None"
    using assms unfolding versions_listed_def by blast
  have loop: "versionPages rm arn None [] w = Some ((vers (aws w) arn, None), w')"
    using version_pages.loop_serves [OF p(1), of "[]"] p(3) by simp
  obtain us where us: "sortVersions (vers (aws w) arn) = Some us"
    using sortVersions_None [of "vers (aws w) arn"] p(4) by (cases "sortVersions (vers (aws w) arn)") auto
  from loop us p(2) sortVersions_Some [OF us] show ?thesis by (simp add: getPolicyVersions_def)
qed

subsection \<open>The limit on versions\<close>

text \<open>A successful \<open>DeletePolicyVersion\<close> removes the version with that id, of that policy alone.\<close>

definition versions_ok :: "'b policy_sdk \<Rightarrow> ('b \<Rightarrow> string \<Rightarrow> policyVersion list) \<Rightarrow> bool" where
  "versions_ok sdk vers \<longleftrightarrow> (\<forall>arn i b b'. DeletePolicyVersion sdk (Some arn) (Some i) b = (None, b') \<longrightarrow>
     vers b' = (vers b)(arn := filter (\<lambda>v. version v \<noteq> i) (vers b arn)))"

lemma deletePolicyVersion_effect:
  assumes "versions_ok (sdkapi rm) vers" and "deletePolicyVersion rm arn i w = Some (None, w')"
  shows "vers (aws w') = (vers (aws w))(arn := filter (\<lambda>v. version v \<noteq> i) (vers (aws w) arn))"
  using assms by (auto simp: deletePolicyVersion_def versions_ok_def prod_eq_iff)

lemma deleteFirstNonDefault_find:
  "deleteFirstNonDefault rm arn vs w = (case find (\<lambda>v. \<not> isDefault v) vs of
     None \<Rightarrow> Some (None, w) | Some v \<Rightarrow> deletePolicyVersion rm arn (version v) w)"
  by (induction vs) auto

text \<open>The first element of a sorted list that satisfies a predicate is a least one.\<close>

lemma find_sorted_least:
  "sorted (map f xs) \<Longrightarrow> find P xs = Some x \<Longrightarrow> x \<in> set xs \<and> P x \<and> (\<forall>y \<in> set xs. P y \<longrightarrow> f x \<le> f y)"
  by (induction xs) (auto split: if_splits)

lemma filter_one_less:
  assumes "distinct (map f xs)" and "x \<in> set xs"
  shows "Suc (length (filter (\<lambda>y. f y \<noteq> f x) xs)) = length xs"
  using assms
proof (induction xs)
  case Nil
  then show ?case by simp
next
  case (Cons y ys)
  show ?case
  proof (cases "f y = f x")
    case True
    with Cons.prems have "filter (\<lambda>y. f y \<noteq> f x) ys = ys" by (auto simp: filter_id_conv) (metis image_eqI)
    with True show ?thesis by simp
  next
    case False
    with Cons show ?thesis by auto
  qed
qed

text \<open>
  The states of the versions IAM allows: at most five, ids all different, one of them the
  default.
\<close>

definition versions_inv :: "policyVersion list \<Rightarrow> bool" where
  "versions_inv vs \<longleftrightarrow> length vs \<le> limitPolicyVersions \<and> distinct (map version vs) \<and>
     length (filter isDefault vs) = 1"

lemma versions_inv_nondefault:
  assumes "versions_inv vs" and "length vs = limitPolicyVersions"
  obtains v where "v \<in> set vs" "\<not> isDefault v"
proof -
  have "length (filter isDefault vs) < length vs"
    using assms by (simp add: versions_inv_def limitPolicyVersions_def)
  then have "\<not> (\<forall>v\<in>set vs. isDefault v)" by (metis filter_True less_irrefl)
  with that show thesis by blast
qed

text \<open>
  When the listing is read, \<open>ensureVersionsLimitNotExceeded\<close> makes one call that changes the backend
  or none: it asks for the oldest version that is not the default one to be deleted when there are
  five, and returns what this call returned.
\<close>

lemma ensureVersionsLimit_outcome:
  assumes ls: "versions_listed rm vers arn w" and inv: "versions_inv (vers (aws w) arn)"
  shows "\<exists>err w'. ensureVersionsLimitNotExceeded rm arn w = Some (err, w') \<and>
    ((length (vers (aws w) arn) < limitPolicyVersions \<and> err = None \<and> aws w' = aws w) \<or>
     (length (vers (aws w) arn) = limitPolicyVersions \<and>
      (\<exists>v \<in> set (vers (aws w) arn). \<not> isDefault v \<and>
        (\<forall>u \<in> set (vers (aws w) arn). \<not> isDefault u \<longrightarrow> dated v \<le> dated u) \<and>
        DeletePolicyVersion (sdkapi rm) (Some arn) (Some (version v)) (aws w) = (err, aws w'))))"
proof -
  let ?vs = "vers (aws w) arn"
  obtain us u where get: "getPolicyVersions rm arn w = Some ((us, None), u)" "aws u = aws w"
      "mset us = mset ?vs" "sorted (map dated us)"
    using getPolicyVersions_listed [OF ls] by blast
  have len: "length us = length ?vs" and set: "set us = set ?vs" using get(3) by (metis size_mset, metis set_mset_mset)
  show ?thesis
  proof (cases "length us = limitPolicyVersions")
    case False
    with get(1) have "ensureVersionsLimitNotExceeded rm arn w = Some (None, u)"
      by (simp add: ensureVersionsLimitNotExceeded_def)
    with False len inv get(2) show ?thesis by (auto simp: versions_inv_def)
  next
    case True
    obtain x where "x \<in> set us" "\<not> isDefault x" using versions_inv_nondefault [OF inv] True len set by metis
    then obtain v where v: "find (\<lambda>v. \<not> isDefault v) us = Some v" by (metis (no_types, lifting) find_None_iff option.exhaust)
    obtain err b where call: "DeletePolicyVersion (sdkapi rm) (Some arn) (Some (version v)) (aws w) = (err, b)" by fastforce
    with get(1,2) True v obtain w' where "ensureVersionsLimitNotExceeded rm arn w = Some (err, w')" "aws w' = b"
      by (simp add: ensureVersionsLimitNotExceeded_def deleteFirstNonDefault_find deletePolicyVersion_def)
    with find_sorted_least [OF get(4) v] set len True call show ?thesis by auto
  qed
qed

lemma ensureVersionsLimit_calls:
  assumes ls: "lists_versions rm vers arn" and inv: "versions_inv (vers (aws w) arn)"
    and run: "ensureVersionsLimitNotExceeded rm arn w = Some (None, w')"
  shows "(length (vers (aws w) arn) < limitPolicyVersions \<and> aws w' = aws w) \<or>
    (length (vers (aws w) arn) = limitPolicyVersions \<and>
     (\<exists>v \<in> set (vers (aws w) arn). \<not> isDefault v \<and>
        (\<forall>u \<in> set (vers (aws w) arn). \<not> isDefault u \<longrightarrow> dated v \<le> dated u) \<and>
        DeletePolicyVersion (sdkapi rm) (Some arn) (Some (version v)) (aws w) = (None, aws w')))"
  using ensureVersionsLimit_outcome [OF lists_versions_listed [OF ls] inv] run by auto

lemma ensureVersionsLimit_room:
  assumes ok: "versions_ok (sdkapi rm) vers" and ls: "versions_listed rm vers arn w"
    and inv: "versions_inv (vers (aws w) arn)"
    and run: "ensureVersionsLimitNotExceeded rm arn w = Some (None, w')"
  shows "length (vers (aws w') arn) < limitPolicyVersions \<and> versions_inv (vers (aws w') arn) \<and>
    (vers (aws w') = vers (aws w) \<or>
     (\<exists>v \<in> set (vers (aws w) arn). \<not> isDefault v \<and>
        (\<forall>u \<in> set (vers (aws w) arn). \<not> isDefault u \<longrightarrow> dated v \<le> dated u) \<and>
        vers (aws w') = (vers (aws w))(arn := filter (\<lambda>u. version u \<noteq> version v) (vers (aws w) arn))))"
proof -
  let ?vs = "vers (aws w) arn"
  from ensureVersionsLimit_outcome [OF ls inv] run consider
      "length ?vs < limitPolicyVersions" "aws w' = aws w"
    | v where "v \<in> set ?vs" "\<not> isDefault v" "\<forall>u \<in> set ?vs. \<not> isDefault u \<longrightarrow> dated v \<le> dated u"
        "DeletePolicyVersion (sdkapi rm) (Some arn) (Some (version v)) (aws w) = (None, aws w')" by auto
  then show ?thesis
  proof cases
    case 1
    with inv show ?thesis by simp
  next
    case (2 v)
    have eff: "vers (aws w') = (vers (aws w))(arn := filter (\<lambda>u. version u \<noteq> version v) ?vs)"
      using ok 2(4) by (auto simp: versions_ok_def)
    have one: "Suc (length (filter (\<lambda>u. version u \<noteq> version v) ?vs)) = length ?vs"
      using inv 2(1) by (intro filter_one_less) (auto simp: versions_inv_def)
    have "isDefault u \<Longrightarrow> u \<in> set ?vs \<Longrightarrow> version u \<noteq> version v" for u
      using inv 2(1,2) by (metis distinct_map inj_onD versions_inv_def)
    then have "filter isDefault (filter (\<lambda>u. version u \<noteq> version v) ?vs) = filter isDefault ?vs"
      by (auto intro: filter_cong)
    with inv one have "versions_inv (filter (\<lambda>u. version u \<noteq> version v) ?vs)"
      by (auto simp: versions_inv_def distinct_map_filter)
    with eff one inv 2(1-3) show ?thesis by (auto simp: versions_inv_def)
  qed
qed

subsection \<open>Updating the document\<close>

text \<open>
  A \<open>CreatePolicyVersion\<close> with \<open>SetAsDefault\<close> that returns no error returns a version with a new id,
  which has been added and made the only default one. It may fail, for whatever reason IAM has.
\<close>

definition create_version_ok :: "'b policy_sdk \<Rightarrow> ('b \<Rightarrow> string \<Rightarrow> policyVersion list) \<Rightarrow> bool" where
  "create_version_ok sdk vers \<longleftrightarrow> (\<forall>arn doc b resp b'. CreatePolicyVersion sdk (Some arn) doc True b = ((resp, None), b') \<longrightarrow>
     (\<exists>v i d. resp = Some (Some v) \<and> VersionId v = Some i \<and> i \<notin> version ` set (vers b arn) \<and>
        vers b' = (vers b)(arn := map (\<lambda>u. u\<lparr>isDefault := False\<rparr>) (vers b arn) @
          [\<lparr>version = i, createDate = Some d, document = [], isDefault = True\<rparr>])))"

lemma versions_inv_create:
  assumes "versions_inv vs" and "length vs < limitPolicyVersions" and "i \<notin> version ` set vs"
  shows "versions_inv (map (\<lambda>u. u\<lparr>isDefault := False\<rparr>) vs @ [\<lparr>version = i, createDate = d, document = [], isDefault = True\<rparr>])"
  using assms by (simp add: versions_inv_def comp_def filter_map)

lemma updatePolicyDocument_outcome:
  assumes ok: "versions_ok (sdkapi rm) vers" and create: "create_version_ok (sdkapi rm) vers"
    and ls: "versions_listed rm vers arn w" and arn: "policyArn r = Some (Some arn)"
    and inv: "versions_inv (vers (aws w) arn)"
  shows "\<exists>i err w'. updatePolicyDocument rm r w = Some ((i, err), w') \<and> (case err of
      None \<Rightarrow> versions_inv (vers (aws w') arn) \<and> (\<exists>v \<in> set (vers (aws w') arn). isDefault v \<and> version v = i)
    | Some e \<Rightarrow>
        (\<exists>v \<in> set (vers (aws w) arn). \<not> isDefault v \<and>
           (\<forall>u \<in> set (vers (aws w) arn). \<not> isDefault u \<longrightarrow> dated v \<le> dated u) \<and>
           DeletePolicyVersion (sdkapi rm) (Some arn) (Some (version v)) (aws w) = (Some e, aws w')) \<or>
        (\<exists>b resp. length (vers b arn) < limitPolicyVersions \<and>
           (vers b = vers (aws w) \<or> (\<exists>v \<in> set (vers (aws w) arn). \<not> isDefault v \<and>
              (\<forall>u \<in> set (vers (aws w) arn). \<not> isDefault u \<longrightarrow> dated v \<le> dated u) \<and>
              vers b = (vers (aws w))(arn := filter (\<lambda>u. version u \<noteq> version v) (vers (aws w) arn)))) \<and>
           CreatePolicyVersion (sdkapi rm) (Some arn) (Spec_PolicyDocument r) True b = ((resp, Some e), aws w')))"
proof -
  obtain err u where ensure: "ensureVersionsLimitNotExceeded rm arn w = Some (err, u)"
    and why: "\<And>e. err = Some e \<Longrightarrow> \<exists>v \<in> set (vers (aws w) arn). \<not> isDefault v \<and>
        (\<forall>u \<in> set (vers (aws w) arn). \<not> isDefault u \<longrightarrow> dated v \<le> dated u) \<and>
        DeletePolicyVersion (sdkapi rm) (Some arn) (Some (version v)) (aws w) = (Some e, aws u)"
    using ensureVersionsLimit_outcome [OF ls inv] by auto
  show ?thesis
  proof (cases err)
    case (Some e)
    with ensure arn have "updatePolicyDocument rm r w = Some (([], Some e), u)" by (simp add: updatePolicyDocument_def)
    with why [OF Some] show ?thesis by auto
  next
    case None
    with ensure have run: "ensureVersionsLimitNotExceeded rm arn w = Some (None, u)" by simp
    note room = ensureVersionsLimit_room [OF ok ls inv run]
    obtain resp f b' where c: "CreatePolicyVersion (sdkapi rm) (Some arn) (Spec_PolicyDocument r) True (aws u) = ((resp, f), b')"
      by (metis surj_pair)
    let ?w = "RecordAPICall ''UPDATE'' ''CreatePolicyVersion'' f (u\<lparr>aws := b'\<rparr>)"
    show ?thesis
    proof (cases f)
      case (Some e)
      with arn run c have "updatePolicyDocument rm r w = Some (([], Some e), ?w)" by (simp add: updatePolicyDocument_def)
      with room c Some show ?thesis by (intro exI [of _ "[]"] exI [of _ "Some e"] exI [of _ ?w]) auto
    next
      case None
      with create c obtain v i d where v: "resp = Some (Some v)" "VersionId v = Some i" "i \<notin> version ` set (vers (aws u) arn)"
        "vers b' = (vers (aws u))(arn := map (\<lambda>u. u\<lparr>isDefault := False\<rparr>) (vers (aws u) arn) @
           [\<lparr>version = i, createDate = Some d, document = [], isDefault = True\<rparr>])"
        unfolding create_version_ok_def by blast
      have "updatePolicyDocument rm r w = Some ((i, None), ?w)"
        using arn run c None v(1,2) by (simp add: updatePolicyDocument_def)
      moreover have "versions_inv (vers b' arn)"
        unfolding v(4) fun_upd_same using room v(3) by (intro versions_inv_create) auto
      ultimately show ?thesis using v(4) by auto
    qed
  qed
qed

subsection \<open>Deleting the policy\<close>

lemma deleteNonDefault_left:
  assumes ok: "versions_ok (sdkapi rm) vers" and ls: "lists_versions rm vers arn"
    and arn: "policyArn r = Some (Some arn)" and dist: "distinct (map version (vers (aws w) arn))"
    and run: "deleteNonDefaultPolicyVersions rm r w = Some (None, w')"
  shows "vers (aws w') = (vers (aws w))(arn := filter isDefault (vers (aws w) arn))"
proof -
  let ?vs = "vers (aws w) arn"
  obtain us u where get: "getPolicyVersions rm arn w = Some ((us, None), u)" "aws u = aws w" "mset us = mset ?vs"
    using getPolicyVersions_listed [OF lists_versions_listed [OF ls], of w] by blast
  let ?step = "\<lambda>v w. if isDefault v then Some (None, w) else deletePolicyVersion rm arn (version v) w"
  have loop: "for_each ?step us u = Some (None, w')"
    using run get arn by (simp add: deleteNonDefaultPolicyVersions_def)
  have gen: "vers (aws x') = (vers (aws x))(arn := filter (\<lambda>v. version v \<notin> version ` {u \<in> set vs. \<not> isDefault u}) (vers (aws x) arn))"
    if "for_each ?step vs x = Some (None, x')" for vs x x'
    using that
  proof (induction vs arbitrary: x)
    case Nil
    then show ?case by simp
  next
    case (Cons v vs)
    show ?case
    proof (cases "isDefault v")
      case True
      with Cons.prems have "for_each ?step vs x = Some (None, x')" by simp
      note Cons.IH [OF this]
      moreover have "{u \<in> set (v # vs). \<not> isDefault u} = {u \<in> set vs. \<not> isDefault u}" using True by auto
      ultimately show ?thesis by simp
    next
      case False
      with Cons.prems obtain y where y: "deletePolicyVersion rm arn (version v) x = Some (None, y)" "for_each ?step vs y = Some (None, x')"
        by (auto split: Option.bind_splits option.splits)
      from deletePolicyVersion_effect [OF ok y(1)] Cons.IH [OF y(2)]
      have "vers (aws x') = (vers (aws x))(arn := filter (\<lambda>v. version v \<notin> version ` {u \<in> set vs. \<not> isDefault u})
          (filter (\<lambda>u. version u \<noteq> version v) (vers (aws x) arn)))" by (simp only: fun_upd_same fun_upd_upd)
      moreover have "{u \<in> set (v # vs). \<not> isDefault u} = insert v {u \<in> set vs. \<not> isDefault u}" using False by auto
      ultimately show ?thesis by (auto intro!: arg_cong [where f = "fun_upd _ arn"] filter_cong)
    qed
  qed
  have "filter (\<lambda>v. version v \<notin> version ` {u \<in> set us. \<not> isDefault u}) ?vs = filter isDefault ?vs"
  proof (rule filter_cong [OF refl])
    fix v assume "v \<in> set ?vs"
    moreover have "set us = set ?vs" using get(3) by (metis set_mset_mset)
    ultimately show "(version v \<notin> version ` {u \<in> set us. \<not> isDefault u}) = isDefault v"
      using dist by (auto simp: image_iff distinct_map dest: inj_onD)
  qed
  with gen [OF loop] get(2) show ?thesis by simp
qed

subsection \<open>Tags\<close>

definition policy_tagging_ok :: "'b policy_sdk \<Rightarrow> ('b \<Rightarrow> string \<Rightarrow> (string \<rightharpoonup> string)) \<Rightarrow> bool" where
  "policy_tagging_ok sdk tags \<longleftrightarrow>
     (\<forall>n ts b b'. tag_set ts \<longrightarrow> TagPolicy sdk (Some n) ts b = (None, b') \<longrightarrow>
        tags b' = (tags b)(n := tags b n ++ tag_map ts)) \<and>
     (\<forall>n ks b b'. UntagPolicy sdk (Some n) ks b = (None, b') \<longrightarrow>
        tags b' = (tags b)(n := tags b n |` (- set ks)))"

text \<open>The calls a successful \<open>syncTags\<close> makes: the tags to go are removed before the new ones are put.\<close>

lemma syncTags_calls:
  assumes "policyArn desired = Some (Some n)" and "tag_set ds" and "tag_set ls"
    and "elems (Spec_Tags desired) = ds" and "elems (Spec_Tags latest) = ls"
    and run: "syncTags rm desired latest w = Some (None, w')"
  defines "del \<equiv> filter (\<lambda>t. t \<notin> set ds) ls" and "add \<equiv> filter (\<lambda>t. t \<notin> set ls) ds"
  obtains b where "if del = [] then b = aws w else UntagPolicy (sdkapi rm) (Some n) (tag_keys del) (aws w) = (None, b)"
    and "if add = [] then aws w' = b else TagPolicy (sdkapi rm) (Some n) add b = (None, aws w')"
proof -
  have sets: "tag_set del" "tag_set add" using assms(2,3) by (simp_all add: del_def add_def tag_set_filter)
  obtain u where first: "(if del \<noteq> [] then removeTags rm desired del w else Some (None, w)) = Some (None, u)"
    and second: "(if add \<noteq> [] then addTags rm desired add u else Some (None, u)) = Some (None, w')"
    using run unfolding del_def add_def
    by (auto simp: syncTags_def notInTags_tag_set assms(2-5) split: Option.bind_splits option.splits)
  show ?thesis
  proof (rule that [of "aws u"])
    show "if del = [] then aws u = aws w else UntagPolicy (sdkapi rm) (Some n) (tag_keys del) (aws w) = (None, aws u)"
      using first assms(1) by (auto simp: removeTags_def traverse_Key [OF sets(1)] prod_eq_iff)
    show "if add = [] then aws w' = aws u else TagPolicy (sdkapi rm) (Some n) add (aws u) = (None, aws w')"
      using second assms(1) by (auto simp: addTags_def prod_eq_iff)
  qed
qed

lemma syncTags_converges:
  assumes ok: "policy_tagging_ok (sdkapi rm) tags" and n: "policyArn desired = Some (Some n)"
    and ds: "elems (Spec_Tags desired) = ds" "tag_set ds"
    and ls: "elems (Spec_Tags latest) = ls" "tag_set ls" "tags (aws w) n = tag_map ls"
    and run: "syncTags rm desired latest w = Some (None, w')"
  shows "tags (aws w') = (tags (aws w))(n := tag_map ds)"
proof (rule syncTags_calls [OF n ds(2) ls(2) ds(1) ls(1) run])
  let ?add = "filter (\<lambda>t. t \<notin> set ls) ds" and ?del = "filter (\<lambda>t. t \<notin> set ds) ls"
  fix b
  assume del: "if ?del = [] then b = aws w else UntagPolicy (sdkapi rm) (Some n) (tag_keys ?del) (aws w) = (None, b)"
    and add: "if ?add = [] then aws w' = b else TagPolicy (sdkapi rm) (Some n) ?add b = (None, aws w')"
  have "tags b = (tags (aws w))(n := tag_map ls |` (- set (tag_keys ?del)))"
    using del ok ls(3)
    by (cases "?del = []") (auto simp: policy_tagging_ok_def tag_keys_def restrict_map_def fun_upd_idem simp flip: ls(3))
  moreover have "tag_set ?add" using ds by (simp add: tag_set_filter)
  then have "tags (aws w') = (tags b)(n := tags b n ++ tag_map ?add)"
    using add ok by (cases "?add = []") (auto simp: policy_tagging_ok_def tag_map_def fun_upd_idem)
  ultimately show ?thesis using remove_then_add [OF ls(2) ds(2)] by simp
qed

end
