(* ===== verification/PolicySdk.thy ===== *)
theory PolicySdk
  imports PolicyHooks Manager Resource
begin

text \<open>
  \<open>pkg/resource/policy/sdk.go\<close>, \<open>delta.go\<close>, \<open>manager.go\<close>, \<open>references.go\<close> and the parts of
  \<open>resource.go\<close> and \<open>descriptor.go\<close> that name the policy's own fields. A policy has no
  references, so \<open>ResolveReferences\<close> and \<open>ClearResolvedReferences\<close> only copy it.
\<close>

subsection \<open>sdk.go\<close>

definition requiredFieldsMissingFromReadOneInput :: "Policy \<Rightarrow> bool" where
  "requiredFieldsMissingFromReadOneInput r \<longleftrightarrow>
     Status_ACKResourceMetadata r = None \<or> Option.bind (Status_ACKResourceMetadata r) ARN = None"

definition newDescribeRequestPayload :: "Policy \<Rightarrow> string ptr" where
  "newDescribeRequestPayload r = Option.bind (Status_ACKResourceMetadata r) ARN"

text \<open>What \<open>sdkFind\<close> and \<open>sdkCreate\<close> take over from the response; the latter leaves the description.\<close>

definition fromSdkPolicy :: "SdkPolicy \<Rightarrow> Policy \<Rightarrow> Policy" where
  "fromSdkPolicy p ko = (setARN (Policy_Arn p) ko)\<lparr>
     Status_AttachmentCount := map_option scast (Policy_AttachmentCount p),
     Status_CreateDate := Policy_CreateDate p,
     Status_DefaultVersionID := Policy_DefaultVersionId p,
     Status_IsAttachable := Some (Policy_IsAttachable p),
     Spec_Path := Policy_Path p,
     Status_PermissionsBoundaryUsageCount := map_option scast (Policy_PermissionsBoundaryUsageCount p),
     Status_PolicyID := Policy_PolicyId p,
     Spec_Name := Policy_PolicyName p,
     Spec_Tags := map_option (map copyTag) (Policy_Tags p),
     Status_UpdateDate := Policy_UpdateDate p\<rparr>"

definition sdkFind :: "'b policy_manager \<Rightarrow> Policy \<Rightarrow> ('b, Policy ptr \<times> error option) go" where
  "sdkFind rm r w =
     (if requiredFieldsMissingFromReadOneInput r then Some ((None, Some NotFound), w)
      else do {
        let input = newDescribeRequestPayload r;
        let ((resp, err), w) = sdk_call (GetPolicy (sdkapi rm) input) w;
        let w = RecordAPICall ''READ_ONE'' ''GetPolicy'' err w;
        (case err of
           Some e \<Rightarrow> Some ((None, Some (if ErrorCode e = Some ''NoSuchEntity'' then NotFound else e)), w)
         | None \<Rightarrow> do {
             output \<leftarrow> resp;
             p \<leftarrow> output;
             let ko = setStatusDefaults rm ((fromSdkPolicy p r)\<lparr>Spec_Description := Policy_Description p\<rparr>);
             (case (Status_DefaultVersionID ko, Option.bind (Status_ACKResourceMetadata ko) ARN) of
                (Some ver, Some policyARN) \<Rightarrow> do {
                  ((pv, err), w) \<leftarrow> getPolicyVersion rm policyARN ver w;
                  (case err of
                     Some e \<Rightarrow> Some ((None, Some e), w)
                   | None \<Rightarrow> do {
                       pv \<leftarrow> pv;
                       Some ((Some (ko\<lparr>Spec_PolicyDocument := Some (document pv)\<rparr>), None), w) }) }
              | _ \<Rightarrow> Some ((Some ko, None), w)) })
      })"

definition newCreateRequestPayload :: "Policy \<Rightarrow> CreatePolicyInput" where
  "newCreateRequestPayload r = \<lparr>Create_Description = Spec_Description r, Create_Path = Spec_Path r,
     Create_PolicyDocument = Spec_PolicyDocument r, Create_PolicyName = Spec_Name r,
     Create_Tags = map_option (map copyTag) (Spec_Tags r)\<rparr>"

definition sdkCreate :: "'b policy_manager \<Rightarrow> Policy \<Rightarrow> ('b, Policy ptr \<times> error option) go" where
  "sdkCreate rm desired w = do {
     let ((resp, err), w) = sdk_call (CreatePolicy (sdkapi rm) (newCreateRequestPayload desired)) w;
     let w = RecordAPICall ''CREATE'' ''CreatePolicy'' err w;
     (case err of
        Some e \<Rightarrow> Some ((None, Some e), w)
      | None \<Rightarrow> do {
          output \<leftarrow> resp;
          p \<leftarrow> output;
          Some ((Some (setStatusDefaults rm (fromSdkPolicy p desired)), None), w) }) }"

definition sdkUpdate ::
  "'b policy_manager \<Rightarrow> 'd compare_rt \<Rightarrow> Policy \<Rightarrow> Policy \<Rightarrow> 'd \<Rightarrow> ('b, Policy ptr \<times> error option) go" where
  "sdkUpdate rm c desired latest delta w = customUpdatePolicy rm c desired latest delta w"

definition newDeleteRequestPayload :: "Policy \<Rightarrow> string ptr" where
  "newDeleteRequestPayload r = Option.bind (Status_ACKResourceMetadata r) ARN"

definition sdkDelete :: "'b policy_manager \<Rightarrow> Policy \<Rightarrow> ('b, Policy ptr \<times> error option) go" where
  "sdkDelete rm r w = do {
     (err, w) \<leftarrow> deleteNonDefaultPolicyVersions rm r w;
     (case err of
        Some e \<Rightarrow> Some ((Some r, Some e), w)
      | None \<Rightarrow>
          (let input = newDeleteRequestPayload r;
               (err, w) = sdk_call (DeletePolicy (sdkapi rm) input) w;
               w = RecordAPICall ''DELETE'' ''DeletePolicy'' err w
           in Some ((None, err), w))) }"

definition terminalCodes :: "string list" where
  "terminalCodes = [''InvalidInput'', ''MalformedPolicyDocument'']"

subsection \<open>delta.go\<close>

definition newResourceDelta :: "ack_rt \<Rightarrow> 'd compare_rt \<Rightarrow> Policy ptr \<Rightarrow> Policy ptr \<Rightarrow> 'd option" where
  "newResourceDelta r c a b =
     (if (a = None \<and> b \<noteq> None) \<or> (a \<noteq> None \<and> b = None) then Some (delta_Add c (NewDelta c) [])
      else do {
        a \<leftarrow> a;
        b \<leftarrow> b;
        delta \<leftarrow> compareTags r c (NewDelta c) a b;
        let delta = compareStringField c ''Spec.Description'' (Spec_Description a) (Spec_Description b) delta;
        let delta = compareStringField c ''Spec.Name'' (Spec_Name a) (Spec_Name b) delta;
        let delta = compareStringField c ''Spec.Path'' (Spec_Path a) (Spec_Path b) delta;
        let delta = comparePolicyField c ''Spec.PolicyDocument'' (Spec_PolicyDocument a) (Spec_PolicyDocument b) delta;
        Some delta
      })"

subsection \<open>manager.go\<close>

definition lateInitializeFieldNames :: "string list" where
  "lateInitializeFieldNames = [''Path'']"

definition mirrorAWSTags :: "ack_rt \<Rightarrow> Policy \<Rightarrow> Policy ptr \<Rightarrow> Policy" where
  "mirrorAWSTags r a b = (case b of
     None \<Rightarrow> a
   | Some b \<Rightarrow> a\<lparr>Spec_Tags := mirroredTags r (Spec_Tags a) (Spec_Tags b)\<rparr>)"

definition ReadOne :: "'b policy_manager \<Rightarrow> Policy ptr \<Rightarrow> ('b, (Policy ptr \<times> error option) \<times> Policy) go" where
  "ReadOne rm res w = read_one sdkFind (\<lambda>rm. mirrorAWSTags (rt rm)) terminalCodes rm res w"

definition Create :: "'b policy_manager \<Rightarrow> Policy ptr \<Rightarrow> ('b, Policy ptr \<times> error option) go" where
  "Create rm res w = create_or_delete sdkCreate terminalCodes rm res w"

definition Update ::
  "'b policy_manager \<Rightarrow> 'd compare_rt \<Rightarrow> Policy ptr \<Rightarrow> Policy ptr \<Rightarrow> 'd \<Rightarrow> ('b, Policy ptr \<times> error option) go" where
  "Update rm c resDesired resLatest delta w =
     update_with (\<lambda>rm desired latest delta. sdkUpdate rm c desired latest delta) terminalCodes rm resDesired resLatest delta w"

definition Delete :: "'b policy_manager \<Rightarrow> Policy ptr \<Rightarrow> ('b, Policy ptr \<times> error option) go" where
  "Delete rm res w = create_or_delete sdkDelete terminalCodes rm res w"

definition incompleteLateInitialization :: "Policy \<Rightarrow> bool" where
  "incompleteLateInitialization ko = (if Spec_Path ko = None then True else False)"

definition lateInitializeFromReadOneOutput :: "Policy \<Rightarrow> Policy \<Rightarrow> Policy" where
  "lateInitializeFromReadOneOutput observedKo latestKo =
     latestKo\<lparr>Spec_Path := late_field (Spec_Path observedKo) (Spec_Path latestKo)\<rparr>"

definition LateInitialize :: "'b policy_manager \<Rightarrow> Policy ptr \<Rightarrow> ('b, Policy ptr \<times> error option) go" where
  "LateInitialize rm latest w =
     late_initialize lateInitializeFieldNames (ReadOne rm) lateInitializeFromReadOneOutput
       incompleteLateInitialization rm latest w"

definition EnsureTags :: "'b policy_manager \<Rightarrow> Policy ptr \<Rightarrow> (Policy \<times> error option) option" where
  "EnsureTags rm res = do {
     ko \<leftarrow> res;
     Some (ko\<lparr>Spec_Tags := ensuredTags (rt rm) (Spec_Tags ko)\<rparr>, None) }"

definition FilterSystemTags :: "'b policy_manager \<Rightarrow> Policy ptr \<Rightarrow> string list \<Rightarrow> Policy ptr" where
  "FilterSystemTags rm res systemTags = (case res of
     None \<Rightarrow> None
   | Some ko \<Rightarrow> Some (ko\<lparr>Spec_Tags := filteredTags (rt rm) systemTags (Spec_Tags ko)\<rparr>))"

subsection \<open>resource.go, descriptor.go, references.go\<close>

definition FinalizerString :: string where
  "FinalizerString = ''finalizers.iam.services.k8s.aws/Policy''"

definition SetStatus :: "Policy \<Rightarrow> Policy \<Rightarrow> Policy" where
  "SetStatus desired r = r\<lparr>Status_ACKResourceMetadata := Status_ACKResourceMetadata desired,
     Status_Conditions := Status_Conditions desired, Status_AttachmentCount := Status_AttachmentCount desired,
     Status_CreateDate := Status_CreateDate desired, Status_DefaultVersionID := Status_DefaultVersionID desired,
     Status_IsAttachable := Status_IsAttachable desired,
     Status_PermissionsBoundaryUsageCount := Status_PermissionsBoundaryUsageCount desired,
     Status_PolicyID := Status_PolicyID desired, Status_UpdateDate := Status_UpdateDate desired\<rparr>"

definition SetIdentifiers :: "string ptr \<Rightarrow> Policy \<Rightarrow> Policy \<times> error option" where
  "SetIdentifiers identifierARN r = (withARN identifierARN r, None)"

definition PopulateResourceFromAnnotation :: "ack_rt \<Rightarrow> (string, string) gomap \<Rightarrow> Policy \<Rightarrow> Policy \<times> error option" where
  "PopulateResourceFromAnnotation q annotation r = (case map_of annotation ''arn'' of
     None \<Rightarrow> (r, Some (NewTerminalError q (Errorf ''required field missing: arn'')))
   | Some resourceARN \<Rightarrow> (withARN (Some resourceARN) r, None))"

definition Delta :: "ack_rt \<Rightarrow> 'd compare_rt \<Rightarrow> Policy ptr \<Rightarrow> Policy ptr \<Rightarrow> 'd option" where
  "Delta r c a b = newResourceDelta r c a b"

definition ClearResolvedReferences :: "Policy \<Rightarrow> Policy" where
  "ClearResolvedReferences res = res"

definition ResolveReferences :: "Policy \<Rightarrow> Policy \<times> bool \<times> error option" where
  "ResolveReferences res = (res, False, None)"

definition validateReferenceFields :: "Policy \<Rightarrow> error option" where
  "validateReferenceFields ko = None"

end
