(* ===== verification/PolicyRefine.thy ===== *)
theory PolicyRefine
  imports PolicyVersions PolicySdk
begin

text \<open>
  An update of a policy as an operation on the abstract policies of the backend: their versions
  with documents, the default version and the tags. The id and the date of a new version are
  IAM's choice, so the operation on the document is a relation.
\<close>

subsection \<open>The abstract policies\<close>

text \<open>The versions are an association list from the id to the date and the document.\<close>

record stored_policy =
  sp_versions :: "(string \<times> time \<times> string) list"
  sp_default :: string
  sp_tags :: "string \<rightharpoonup> string"

type_synonym policies = "string \<Rightarrow> stored_policy"

definition default_document :: "stored_policy \<Rightarrow> string option" where
  "default_document x = map_option snd (map_of (sp_versions x) (sp_default x))"

text \<open>What IAM keeps: at most five versions, ids all different, the default one among them.\<close>

definition stored_inv :: "stored_policy \<Rightarrow> bool" where
  "stored_inv x \<longleftrightarrow> length (sp_versions x) \<le> limitPolicyVersions \<and> distinct (map fst (sp_versions x)) \<and>
     sp_default x \<in> fst ` set (sp_versions x)"

text \<open>The versions as \<open>ListPolicyVersions\<close> gives them, without the documents.\<close>

definition listed :: "stored_policy \<Rightarrow> policyVersion list" where
  "listed x = map (\<lambda>(i, d, doc). \<lparr>version = i, createDate = Some d, document = [], isDefault = (i = sp_default x)\<rparr>)
     (sp_versions x)"

lemma set_listed:
  "set (listed x) = (\<lambda>v. \<lparr>version = fst v, createDate = Some (fst (snd v)), document = [],
     isDefault = (fst v = sp_default x)\<rparr>) ` set (sp_versions x)"
  by (simp add: listed_def case_prod_beta)

text \<open>Putting a document: room is made by the oldest version that is not the default one.\<close>

definition room_made :: "stored_policy \<Rightarrow> (string \<times> time \<times> string) list \<Rightarrow> bool" where
  "room_made x kept \<longleftrightarrow>
     (length (sp_versions x) < limitPolicyVersions \<and> kept = sp_versions x) \<or>
     (\<exists>v \<in> set (sp_versions x). length (sp_versions x) = limitPolicyVersions \<and> fst v \<noteq> sp_default x \<and>
        (\<forall>u \<in> set (sp_versions x). fst u \<noteq> sp_default x \<longrightarrow> fst (snd v) \<le> fst (snd u)) \<and>
        kept = filter (\<lambda>u. fst u \<noteq> fst v) (sp_versions x))"

definition document_put :: "string \<Rightarrow> stored_policy \<Rightarrow> stored_policy \<Rightarrow> bool" where
  "document_put doc x y \<longleftrightarrow> (\<exists>kept i d. room_made x kept \<and> i \<notin> fst ` set kept \<and>
     y = x\<lparr>sp_versions := kept @ [(i, d, doc)], sp_default := i\<rparr>)"

lemma versions_inv_listed:
  assumes "stored_inv x"
  shows "versions_inv (listed x)"
proof -
  have ids: "map version (listed x) = map fst (sp_versions x)" by (auto simp: listed_def)
  have "length (filter (\<lambda>v. fst v = i) vs) = 1" if "distinct (map fst vs)" "i \<in> fst ` set vs"
    for i and vs :: "(string \<times> time \<times> string) list"
    using that by (induction vs) (auto simp: filter_empty_conv rev_image_eqI)
  moreover have "filter isDefault (listed x) = listed (x\<lparr>sp_versions := filter (\<lambda>v. fst v = sp_default x) (sp_versions x)\<rparr>)"
    by (auto simp: listed_def filter_map comp_def case_prod_beta)
  ultimately have "length (filter isDefault (listed x)) = 1"
    using assms by (simp add: listed_def stored_inv_def)
  with assms ids show ?thesis by (simp add: versions_inv_def stored_inv_def) (simp add: listed_def)
qed

lemma room_made_inv:
  assumes "stored_inv x" and "room_made x kept"
  shows "length kept < limitPolicyVersions" and "distinct (map fst kept)"
proof -
  have "length (filter (\<lambda>u. fst u \<noteq> fst v) (sp_versions x)) < length (sp_versions x)" if "v \<in> set (sp_versions x)" for v
    using filter_one_less [OF _ that, of fst] assms(1) by (simp add: stored_inv_def)
  with assms show "length kept < limitPolicyVersions" "distinct (map fst kept)"
    unfolding room_made_def stored_inv_def by (metis, metis distinct_map_filter)
qed

text \<open>The invariant is kept, the tags stay, and the new document is the default one.\<close>

lemma document_put_inv:
  assumes "stored_inv x" and "document_put doc x y"
  shows "stored_inv y" and "default_document y = Some doc" and "sp_tags y = sp_tags x"
proof -
  obtain kept i d where "room_made x kept" and new: "i \<notin> fst ` set kept"
    and y: "y = x\<lparr>sp_versions := kept @ [(i, d, doc)], sp_default := i\<rparr>"
    using assms(2) by (auto simp: document_put_def)
  from room_made_inv [OF assms(1) this(1)] new show "stored_inv y" by (simp add: y stored_inv_def)
  have "map_of kept i = None" using new by (simp add: map_of_eq_None_iff)
  then show "default_document y = Some doc" "sp_tags y = sp_tags x"
    by (simp_all add: y default_document_def map_add_def)
qed

subsection \<open>The documented effect of the API calls\<close>

definition policy_service :: "'b policy_sdk \<Rightarrow> ('b \<Rightarrow> policies) \<Rightarrow> bool" where
  "policy_service sdk pol \<longleftrightarrow>
     (\<forall>arn doc v b b'. CreatePolicyVersion sdk (Some arn) (Some doc) True b = ((Some (Some v), None), b') \<longrightarrow>
        (\<exists>i d. VersionId v = Some i \<and> i \<notin> fst ` set (sp_versions (pol b arn)) \<and>
           pol b' = (pol b)(arn := (pol b arn)\<lparr>sp_versions := sp_versions (pol b arn) @ [(i, d, doc)], sp_default := i\<rparr>))) \<and>
     (\<forall>arn i b b'. DeletePolicyVersion sdk (Some arn) (Some i) b = (None, b') \<longrightarrow>
        pol b' = (pol b)(arn := (pol b arn)\<lparr>sp_versions := filter (\<lambda>v. fst v \<noteq> i) (sp_versions (pol b arn))\<rparr>)) \<and>
     (\<forall>arn ts b b'. tag_set ts \<longrightarrow> TagPolicy sdk (Some arn) ts b = (None, b') \<longrightarrow>
        pol b' = (pol b)(arn := (pol b arn)\<lparr>sp_tags := sp_tags (pol b arn) ++ tag_map ts\<rparr>)) \<and>
     (\<forall>arn ks b b'. UntagPolicy sdk (Some arn) ks b = (None, b') \<longrightarrow>
        pol b' = (pol b)(arn := (pol b arn)\<lparr>sp_tags := sp_tags (pol b arn) |` (- set ks)\<rparr>))"

text \<open>What IAM answers about the policy \<open>arn\<close>; it encodes the document it returns.\<close>

definition policy_answers :: "'b policy_sdk \<Rightarrow> ('b \<Rightarrow> policies) \<Rightarrow> 'b \<Rightarrow> string \<Rightarrow> bool" where
  "policy_answers sdk pol b arn \<longleftrightarrow> (\<exists>p v. GetPolicy sdk (Some arn) b = ((Some (Some p), None), b) \<and>
     Policy_Arn p = Some arn \<and> Policy_DefaultVersionId p = Some (sp_default (pol b arn)) \<and>
     tag_set (elems (Policy_Tags p)) \<and> tag_map (elems (Policy_Tags p)) = sp_tags (pol b arn) \<and>
     GetPolicyVersion sdk (Some arn) (Some (sp_default (pol b arn))) b = ((Some (Some v), None), b) \<and>
     Document v = map_option pct_encode (default_document (pol b arn)))"

definition describes_policy :: "Policy \<Rightarrow> stored_policy \<Rightarrow> bool" where
  "describes_policy r x \<longleftrightarrow> Spec_PolicyDocument r = default_document x \<and>
     tag_set (elems (Spec_Tags r)) \<and> tag_map (elems (Spec_Tags r)) = sp_tags x"

subsection \<open>The hooks\<close>

lemma policy_syncTags_tags:
  assumes ok: "policy_service (sdkapi rm) pol" and n: "policyArn desired = Some (Some arn)"
    and ds: "tag_set (elems (Spec_Tags desired))" and ls: "tag_set (elems (Spec_Tags latest))"
    and p: "sp_tags (pol (aws w) arn) = tag_map (elems (Spec_Tags latest))"
    and run: "syncTags rm desired latest w = Some (None, w')"
  shows "pol (aws w') = (pol (aws w))(arn := (pol (aws w) arn)\<lparr>sp_tags := tag_map (elems (Spec_Tags desired))\<rparr>)"
proof (rule syncTags_calls [OF n ds ls refl refl run])
  let ?ds = "elems (Spec_Tags desired)" and ?ls = "elems (Spec_Tags latest)"
  let ?add = "filter (\<lambda>t. t \<notin> set ?ls) ?ds" and ?del = "filter (\<lambda>t. t \<notin> set ?ds) ?ls"
  fix b
  assume del: "if ?del = [] then b = aws w else UntagPolicy (sdkapi rm) (Some arn) (tag_keys ?del) (aws w) = (None, b)"
    and add: "if ?add = [] then aws w' = b else TagPolicy (sdkapi rm) (Some arn) ?add b = (None, aws w')"
  have 1: "pol b = (pol (aws w))(arn := (pol (aws w) arn)\<lparr>sp_tags := tag_map ?ls |` (- set (tag_keys ?del))\<rparr>)"
    using del ok p
    by (cases "?del = []") (auto simp: policy_service_def tag_keys_def restrict_map_def fun_upd_idem simp flip: p)
  have "tag_set ?add" using ds by (simp add: tag_set_filter)
  then have "pol (aws w') = (pol b)(arn := (pol b arn)\<lparr>sp_tags := sp_tags (pol b arn) ++ tag_map ?add\<rparr>)"
    using add ok by (cases "?add = []") (auto simp: policy_service_def tag_map_def fun_upd_idem)
  with 1 show ?thesis using remove_then_add [OF ls ds] by simp
qed

lemma ensureVersionsLimit_makes_room:
  assumes ok: "policy_service (sdkapi rm) pol" and ls: "lists_versions rm (\<lambda>b arn. listed (pol b arn)) arn"
    and inv: "stored_inv (pol (aws w) arn)"
    and run: "ensureVersionsLimitNotExceeded rm arn w = Some (None, w')"
  shows "\<exists>kept. room_made (pol (aws w) arn) kept \<and>
    pol (aws w') = (pol (aws w))(arn := (pol (aws w) arn)\<lparr>sp_versions := kept\<rparr>)"
  using ensureVersionsLimit_calls [OF ls versions_inv_listed [OF inv] run]
proof (elim disjE conjE bexE)
  let ?x = "pol (aws w) arn"
  have len: "length (listed ?x) = length (sp_versions ?x)" by (simp add: listed_def)
  show ?thesis if "length (listed ?x) < limitPolicyVersions" "aws w' = aws w"
    using that len by (auto simp: room_made_def fun_upd_idem)
  fix v assume full: "length (listed ?x) = limitPolicyVersions" and v: "v \<in> set (listed ?x)" "\<not> isDefault v"
    and oldest: "\<forall>u \<in> set (listed ?x). \<not> isDefault u \<longrightarrow> dated v \<le> dated u"
    and del: "DeletePolicyVersion (sdkapi rm) (Some arn) (Some (version v)) (aws w) = (None, aws w')"
  from v obtain s where s: "s \<in> set (sp_versions ?x)" "version v = fst s" "dated v = fst (snd s)" "fst s \<noteq> sp_default ?x"
    by (auto simp: listed_def dated_def)
  have "fst (snd s) \<le> fst (snd u)" if "u \<in> set (sp_versions ?x)" "fst u \<noteq> sp_default ?x" for u
  proof -
    have "\<lparr>version = fst u, createDate = Some (fst (snd u)), document = [], isDefault = False\<rparr> \<in> set (listed ?x)"
      unfolding set_listed using that by (intro rev_image_eqI [of u]) simp_all
    with oldest s(3) show ?thesis by (fastforce simp: dated_def)
  qed
  with s full len have "room_made ?x (filter (\<lambda>u. fst u \<noteq> fst s) (sp_versions ?x))" by (auto simp: room_made_def)
  with ok del s(2) show ?thesis by (auto simp: policy_service_def)
qed

lemma updatePolicyDocument_puts:
  assumes ok: "policy_service (sdkapi rm) pol" and ls: "lists_versions rm (\<lambda>b arn. listed (pol b arn)) arn"
    and arn: "policyArn r = Some (Some arn)" and doc: "Spec_PolicyDocument r = Some doc"
    and inv: "stored_inv (pol (aws w) arn)"
    and run: "updatePolicyDocument rm r w = Some ((i, None), w')"
  shows "\<exists>y. document_put doc (pol (aws w) arn) y \<and> pol (aws w') = (pol (aws w))(arn := y)"
proof -
  obtain u v where ensure: "ensureVersionsLimitNotExceeded rm arn w = Some (None, u)"
    and create: "CreatePolicyVersion (sdkapi rm) (Some arn) (Some doc) True (aws u) = ((Some (Some v), None), aws w')"
    using run arn doc
    by (auto simp: updatePolicyDocument_def Let_def split_beta prod_eq_iff split: Option.bind_splits option.splits)
  obtain kept where kept: "room_made (pol (aws w) arn) kept"
      "pol (aws u) = (pol (aws w))(arn := (pol (aws w) arn)\<lparr>sp_versions := kept\<rparr>)"
    using ensureVersionsLimit_makes_room [OF ok ls inv ensure] by blast
  obtain j d where "j \<notin> fst ` set kept"
      "pol (aws w') = (pol (aws w))(arn := (pol (aws w) arn)\<lparr>sp_versions := kept @ [(j, d, doc)], sp_default := j\<rparr>)"
    using ok [unfolded policy_service_def, THEN conjunct1, rule_format, OF create] kept(2) by auto
  with kept(1) show ?thesis by (auto simp: document_put_def)
qed

subsection \<open>The delta\<close>

definition delta_paths :: "string set" where
  "delta_paths = {''Spec.Tags'', ''Spec.Description'', ''Spec.Name'', ''Spec.Path'', ''Spec.PolicyDocument''}"

definition differences :: "'d compare_rt \<Rightarrow> Policy \<Rightarrow> Policy \<Rightarrow> (string \<times> bool) list" where
  "differences c a b =
     [(''Spec.Tags'', set (elems (Spec_Tags a)) \<noteq> set (elems (Spec_Tags b))),
      (''Spec.Description'', stringDiffers c (Spec_Description a) (Spec_Description b)),
      (''Spec.Name'', stringDiffers c (Spec_Name a) (Spec_Name b)),
      (''Spec.Path'', stringDiffers c (Spec_Path a) (Spec_Path b)),
      (''Spec.PolicyDocument'', policyDiffers c (Spec_PolicyDocument a) (Spec_PolicyDocument b))]"

lemma policy_newResourceDelta_report:
  assumes "in_string_ok r" and "tag_set (elems (Spec_Tags a))" and "tag_set (elems (Spec_Tags b))"
  shows "newResourceDelta r c (Some a) (Some b) = Some (report c (differences c a b))"
  by (simp add: newResourceDelta_def compareTags_def compareTagLists_tag_set [OF assms] compare_addWhen Let_def
      report_def differences_def)

lemma policy_delta_reports:
  assumes c: "delta_ok c delta_paths" and r: "in_string_ok r"
    and tags: "tag_set (elems (Spec_Tags a))" "tag_set (elems (Spec_Tags b))"
    and delta: "newResourceDelta r c (Some a) (Some b) = Some delta"
  shows "DifferentAt c delta ''Spec.Tags'' \<longleftrightarrow> tag_map (elems (Spec_Tags a)) \<noteq> tag_map (elems (Spec_Tags b))"
    and "DifferentAt c delta ''Spec.PolicyDocument'' \<longleftrightarrow> policyDiffers c (Spec_PolicyDocument a) (Spec_PolicyDocument b)"
proof -
  have at: "DifferentAt c delta q \<longleftrightarrow> (q, True) \<in> set (differences c a b)" if "q \<in> delta_paths" for q
    using policy_newResourceDelta_report [OF r tags, of c] delta c that DifferentAt_report [of c delta_paths "differences c a b" q]
    by (simp add: differences_def delta_paths_def)
  show "DifferentAt c delta ''Spec.Tags'' \<longleftrightarrow> tag_map (elems (Spec_Tags a)) \<noteq> tag_map (elems (Spec_Tags b))"
    using at [of "''Spec.Tags''"] tag_map_eq_iff [OF tags] by (simp add: delta_paths_def differences_def)
  show "DifferentAt c delta ''Spec.PolicyDocument'' \<longleftrightarrow> policyDiffers c (Spec_PolicyDocument a) (Spec_PolicyDocument b)"
    using at [of "''Spec.PolicyDocument''"] by (simp add: delta_paths_def differences_def)
qed

subsection \<open>The entry points\<close>

text \<open>What an update makes of a policy: the tags are assigned, a document that differs is put.\<close>

definition policy_settled :: "'d compare_rt \<Rightarrow> string \<Rightarrow> (string \<rightharpoonup> string) \<Rightarrow> stored_policy \<Rightarrow> stored_policy \<Rightarrow> bool" where
  "policy_settled c doc tags x y \<longleftrightarrow>
     (if policyDiffers c (Some doc) (default_document x) then document_put doc (x\<lparr>sp_tags := tags\<rparr>) y
      else y = x\<lparr>sp_tags := tags\<rparr>)"

lemma policy_settled_D:
  assumes "stored_inv x" and "policy_settled c doc tags x y"
  shows "stored_inv y" and "sp_tags y = tags"
    and "default_document y = (if policyDiffers c (Some doc) (default_document x) then Some doc else default_document x)"
proof -
  have "stored_inv (x\<lparr>sp_tags := tags\<rparr>)" using assms(1) by (simp add: stored_inv_def)
  moreover have "default_document (x\<lparr>sp_tags := tags\<rparr>) = default_document x" by (simp add: default_document_def)
  ultimately show "stored_inv y" "sp_tags y = tags"
    "default_document y = (if policyDiffers c (Some doc) (default_document x) then Some doc else default_document x)"
    using assms(2) document_put_inv [of "x\<lparr>sp_tags := tags\<rparr>" doc y]
    by (auto simp: policy_settled_def split: if_splits)
qed

lemma policy_sdkUpdate_settles:
  assumes c: "delta_ok c delta_paths" and r: "in_string_ok (rt rm)"
    and ok: "policy_service (sdkapi rm) pol" and ls: "lists_versions rm (\<lambda>b arn. listed (pol b arn)) arn"
    and n: "policyArn desired = Some (Some arn)"
    and doc: "Spec_PolicyDocument desired = Some doc" and ds: "tag_set (elems (Spec_Tags desired))"
    and old: "describes_policy latest (pol (aws w) arn)" "stored_inv (pol (aws w) arn)"
    and delta: "newResourceDelta (rt rm) c (Some desired) (Some latest) = Some delta"
    and run: "sdkUpdate rm c desired latest delta w = Some ((res, None), w')"
  shows "\<exists>y. policy_settled c doc (tag_map (elems (Spec_Tags desired))) (pol (aws w) arn) y \<and>
    pol (aws w') = (pol (aws w))(arn := y)"
proof -
  let ?x = "pol (aws w) arn" and ?tags = "tag_map (elems (Spec_Tags desired))"
  have ls_tags: "tag_set (elems (Spec_Tags latest))" using old by (simp add: describes_policy_def)
  note D = policy_delta_reports [OF c r ds ls_tags delta]
  obtain u where s1: "when_different c delta ''Spec.Tags'' (syncTags rm desired latest) w = Some (None, u)"
    and s2: "(if DifferentAt c delta ''Spec.PolicyDocument'' then \<exists>i. updatePolicyDocument rm desired u = Some ((i, None), w')
      else w' = u)"
    using run by (auto simp: sdkUpdate_def customUpdatePolicy_def when_different_def Let_def
        split: Option.bind_splits option.splits if_splits)
  have 1: "pol (aws u) = (pol (aws w))(arn := ?x\<lparr>sp_tags := ?tags\<rparr>)"
    using s1 policy_syncTags_tags [OF ok n ds ls_tags, of w u] old D(1)
    by (auto simp: when_different_def describes_policy_def fun_upd_idem split: if_splits)
  have "stored_inv (pol (aws u) arn)" using old(2) by (simp add: 1 stored_inv_def)
  then have "document_put doc (pol (aws u) arn) y \<longrightarrow> policy_settled c doc ?tags ?x y"
    if "DifferentAt c delta ''Spec.PolicyDocument''" for y
    using that D(2) doc old(1) by (simp add: 1 policy_settled_def describes_policy_def)
  moreover have "policy_settled c doc ?tags ?x (?x\<lparr>sp_tags := ?tags\<rparr>)" if "\<not> DifferentAt c delta ''Spec.PolicyDocument''"
    using that D(2) doc old(1) by (simp add: policy_settled_def describes_policy_def)
  ultimately show ?thesis
    using s2 updatePolicyDocument_puts [OF ok ls n doc \<open>stored_inv (pol (aws u) arn)\<close>] 1
    by (cases "DifferentAt c delta ''Spec.PolicyDocument''") (fastforce simp: 1)+
qed

lemma policy_Update_settles:
  assumes "delta_ok c delta_paths" and "in_string_ok (rt rm)" and "aws_error_ok (rt rm)"
    and "policy_service (sdkapi rm) pol" and "lists_versions rm (\<lambda>b arn. listed (pol b arn)) arn"
    and "policyArn desired = Some (Some arn)"
    and "Spec_PolicyDocument desired = Some doc" and "tag_set (elems (Spec_Tags desired))"
    and "describes_policy latest (pol (aws w) arn)" and "stored_inv (pol (aws w) arn)"
    and "unique_conditions (conditions_of latest)"
    and "Delta (rt rm) c (Some desired) (Some latest) = Some delta"
    and "Update rm c (Some desired) (Some latest) delta w = Some ((res, None), w')"
  shows "\<exists>y. policy_settled c doc (tag_map (elems (Spec_Tags desired))) (pol (aws w) arn) y \<and>
    pol (aws w') = (pol (aws w))(arn := y)"
proof -
  have "out = None" if "sdkUpdate rm c desired latest delta w = Some ((out, Some e), u)" for out e u
    using that by (auto simp: sdkUpdate_def customUpdatePolicy_def Let_def split: Option.bind_splits option.splits if_splits)
  then obtain out where run: "sdkUpdate rm c desired latest delta w = Some ((out, None), w')"
    using update_with_success [where sdkUpdate = "\<lambda>rm. sdkUpdate rm c", OF assms(3,11)] assms(13) unfolding Update_def by blast
  show ?thesis using policy_sdkUpdate_settles [OF assms(1,2,4-10) _ run] assms(12) by (simp add: Delta_def)
qed

lemma policy_sdkFind_describes:
  assumes ans: "policy_answers (sdkapi rm) pol (aws w) arn" and inv: "stored_inv (pol (aws w) arn)"
    and n: "policyArn r = Some (Some arn)"
  shows "\<exists>ko w'. sdkFind rm r w = Some ((Some ko, None), w') \<and> describes_policy ko (pol (aws w) arn) \<and> aws w' = aws w"
proof -
  obtain md where md: "Status_ACKResourceMetadata r = Some md" "ARN md = Some arn"
    using n by (auto simp: policyArn_def split: Option.bind_splits)
  obtain doc where doc: "default_document (pol (aws w) arn) = Some doc"
    using inv by (auto simp: default_document_def stored_inv_def) (metis image_eqI not_None_eq map_of_eq_None_iff)
  obtain p v where p: "GetPolicy (sdkapi rm) (Some arn) (aws w) = ((Some (Some p), None), aws w)" "Policy_Arn p = Some arn"
      "Policy_DefaultVersionId p = Some (sp_default (pol (aws w) arn))" "tag_set (elems (Policy_Tags p))"
      "tag_map (elems (Policy_Tags p)) = sp_tags (pol (aws w) arn)"
    and v: "GetPolicyVersion (sdkapi rm) (Some arn) (Some (sp_default (pol (aws w) arn))) (aws w) = ((Some (Some v), None), aws w)"
      "Document v = Some (pct_encode doc)"
    using ans doc by (auto simp: policy_answers_def)
  let ?ko = "setStatusDefaults rm ((fromSdkPolicy p r)\<lparr>Spec_Description := Policy_Description p\<rparr>)"
  have "Status_DefaultVersionID ?ko = Some (sp_default (pol (aws w) arn))" "Option.bind (Status_ACKResourceMetadata ?ko) ARN = Some arn"
    "Spec_Tags ?ko = Policy_Tags p"
    by (simp_all add: setStatusDefaults_def fromSdkPolicy_def setARN_def p Let_def)
  with md p v doc show ?thesis
    by (simp add: sdkFind_def requiredFieldsMissingFromReadOneInput_def newDescribeRequestPayload_def
        getPolicyVersion_def QueryUnescape_pct_encode Let_def describes_policy_def)
qed

end
