(* ===== verification/PolicyProperties.thy ===== *)
theory PolicyProperties
  imports PolicyRefine Samples
begin

text \<open>
  The properties of the policy package, with witnesses on a small backend that keeps the versions
  (id, date, whether it is the default one) and the tags of every policy and lists the versions
  in two pages.
\<close>

subsection \<open>The sample backend\<close>

record policy_iam =
  pi_versions :: "string \<Rightarrow> (string \<times> int \<times> bool) list"
  pi_tags :: "string \<Rightarrow> Tag list"

fun to_sdk_version :: "string \<times> int \<times> bool \<Rightarrow> SdkPolicyVersion" where
  "to_sdk_version (i, d, f) = \<lparr>VersionId = Some i, CreateDate = Some d, Document = Some (pct_encode ''{ + }''), IsDefaultVersion = f\<rparr>"

fun to_version :: "string \<times> int \<times> bool \<Rightarrow> policyVersion" where
  "to_version (i, d, f) = \<lparr>version = i, createDate = Some d, document = [], isDefault = f\<rparr>"

definition sample_versions :: "policy_iam \<Rightarrow> string \<Rightarrow> policyVersion list" where
  "sample_versions b arn = map to_version (pi_versions b arn)"

definition fresh_id :: "(string \<times> 'a) list \<Rightarrow> string" where
  "fresh_id vs = concat (map fst vs) @ ''v''"

lemma fresh_id_new: "fresh_id vs \<notin> fst ` set vs"
proof -
  have "length (fst v) \<le> length (concat (map fst vs))" if "v \<in> set vs" for v
    using that by (auto simp: length_concat intro!: member_le_sum_list)
  then show ?thesis by (force simp: fresh_id_def)
qed

definition sample_policy_sdk :: "policy_iam policy_sdk" where
  "sample_policy_sdk = \<lparr>
     GetPolicy = (\<lambda>n b. ((Some (Some \<lparr>Policy_Arn = n, Policy_AttachmentCount = Some 0, Policy_CreateDate = Some 0,
        Policy_DefaultVersionId = Some ''v1'', Policy_Description = None, Policy_IsAttachable = True, Policy_Path = Some ''/'',
        Policy_PermissionsBoundaryUsageCount = Some 0, Policy_PolicyId = None, Policy_PolicyName = Some ''p'',
        Policy_Tags = None, Policy_UpdateDate = None\<rparr>), None), b)),
     CreatePolicy = (\<lambda>input b. ((None, Some (Errorf ''not in the sample'')), b)),
     DeletePolicy = (\<lambda>n b. (None, b)),
     ListPolicyTags = (\<lambda>n m b. ((Some \<lparr>Tags = pi_tags b (the n), IsTruncated = False, Marker = None\<rparr>, None), b)),
     TagPolicy = (\<lambda>n ts b. (None, b\<lparr>pi_tags := (pi_tags b)(the n := ts @ pi_tags b (the n))\<rparr>)),
     UntagPolicy = (\<lambda>n ks b. (None, b\<lparr>pi_tags := (pi_tags b)(the n := filter (\<lambda>t. the (Key t) \<notin> set ks) (pi_tags b (the n)))\<rparr>)),
     CreatePolicyVersion = (\<lambda>n doc f b. let i = fresh_id (pi_versions b (the n)) in
        if doc = None then ((None, Some (Error (APIError ''MalformedPolicyDocument'') ''no document'' None)), b)
        else ((Some (Some (to_sdk_version (i, 0, True))), None),
         b\<lparr>pi_versions := (pi_versions b)(the n := map (\<lambda>(i, d, f). (i, d, False)) (pi_versions b (the n)) @ [(i, 0, True)])\<rparr>)),
     GetPolicyVersion = (\<lambda>n i b. ((Some (Some (to_sdk_version (the i, 0, True))), None), b)),
     ListPolicyVersions = (\<lambda>n m b. (case (m, pi_versions b (the n)) of
        (None, v # u # vs) \<Rightarrow> ((Some \<lparr>Versions = [to_sdk_version v], Versions_IsTruncated = True, Versions_Marker = Some ''1''\<rparr>, None), b)
      | (Some _, v # u # vs) \<Rightarrow> ((Some \<lparr>Versions = map to_sdk_version (u # vs), Versions_IsTruncated = False, Versions_Marker = None\<rparr>, None), b)
      | (_, vs) \<Rightarrow> ((Some \<lparr>Versions = map to_sdk_version vs, Versions_IsTruncated = False, Versions_Marker = None\<rparr>, None), b))),
     DeletePolicyVersion = (\<lambda>n i b. (None, b\<lparr>pi_versions := (pi_versions b)(the n := filter (\<lambda>v. fst v \<noteq> the i) (pi_versions b (the n)))\<rparr>))\<rparr>"

definition sample_policy_rm :: "policy_iam policy_manager" where
  "sample_policy_rm = \<lparr>rt = sample_rt, EnableCrossNamespace = False, awsAccountID = ''1'', awsRegion = ''us-east-1'',
     awsPartition = ''aws'', sdkapi = sample_policy_sdk\<rparr>"

definition sample_policy :: Policy where
  "sample_policy = \<lparr>Namespace = ''default'', DeletionTimestamp = None, Finalizers = [], Annotations = [],
     Status_ACKResourceMetadata = Some (emptyMetadata\<lparr>ARN := Some ''arn:p''\<rparr>), Status_Conditions = None,
     Spec_Description = None, Spec_Name = Some ''p'', Spec_Path = None, Spec_PolicyDocument = Some ''{}'', Spec_Tags = None,
     Status_AttachmentCount = None, Status_CreateDate = None, Status_DefaultVersionID = None, Status_IsAttachable = None,
     Status_PermissionsBoundaryUsageCount = None, Status_PolicyID = None, Status_UpdateDate = None\<rparr>"

definition five_versions :: "policy_iam world" where
  "five_versions = \<lparr>aws = \<lparr>pi_versions = (\<lambda>_. [(''v3'', 30, False), (''v1'', 10, True), (''v2'', 20, False), (''v4'', 40, False),
     (''v5'', 50, False)]), pi_tags = (\<lambda>_. [mkTag ''team'' ''old''])\<rparr>, api_calls = []\<rparr>"

lemma sample_policy_rm_simps [simp]: "rt sample_policy_rm = sample_rt" "sdkapi sample_policy_rm = sample_policy_sdk"
  by (simp_all add: sample_policy_rm_def)

lemma sample_policy_simps [simp]:
  "policyArn sample_policy = Some (Some ''arn:p'')" "policyArn (sample_policy\<lparr>Spec_Tags := ts\<rparr>) = Some (Some ''arn:p'')"
  "Spec_Tags sample_policy = None" "Status_ACKResourceMetadata sample_policy = Some (emptyMetadata\<lparr>ARN := Some ''arn:p''\<rparr>)"
  by (simp_all add: sample_policy_def policyArn_def)

lemma sample_versions_ok: "versions_ok sample_policy_sdk sample_versions"
proof -
  have "map to_version (filter (\<lambda>v. fst v \<noteq> i) vs) = filter (\<lambda>v. version v \<noteq> i) (map to_version vs)" for i vs
    by (induction vs) auto
  then show ?thesis by (auto simp: versions_ok_def sample_policy_sdk_def sample_versions_def fun_eq_iff)
qed

lemma traverse_to_sdk: "traverse toPolicyVersion (map to_sdk_version vs) = Some (map to_version vs)"
  by (induction vs) (auto simp: toPolicyVersion_def)

lemma sample_lists: "lists_versions sample_policy_rm sample_versions arn"
  unfolding lists_versions_def
proof
  fix w :: "policy_iam world"
  let ?vs = "pi_versions (aws w) arn"
  have dates: "\<forall>v \<in> set (sample_versions (aws w) arn). createDate v \<noteq> None" by (auto simp: sample_versions_def)
  show "\<exists>pages w'. serves (versionFetch (sample_policy_rm, arn)) None w pages w' \<and> aws w' = aws w \<and>
     concat pages = sample_versions (aws w) arn \<and> (\<forall>v \<in> set (sample_versions (aws w) arn). createDate v \<noteq> None)"
  proof (cases "\<exists>v u vs. ?vs = v # u # vs")
    case True
    then obtain v u vs where vs: "?vs = v # u # vs" by blast
    let ?w = "RecordAPICall ''READ_MANY'' ''ListPolicyVersions'' None w"
    have "serves (versionFetch (sample_policy_rm, arn)) None w [[to_version v], map to_version (u # vs)] ?w"
      by (rule serves.more [where m' = "Some ''1''" and u = ?w],
          use traverse_to_sdk [of "[v]"] vs in \<open>simp add: versionFetch_def sample_policy_sdk_def\<close>,
          rule serves.last, use traverse_to_sdk [of "u # vs"] vs in \<open>simp add: versionFetch_def sample_policy_sdk_def\<close>)
    moreover have "concat [[to_version v], map to_version (u # vs)] = sample_versions (aws w) arn"
      by (simp add: sample_versions_def vs)
    ultimately show ?thesis using dates aws_RecordAPICall by blast
  next
    case False
    then have "?vs = [] \<or> (\<exists>v. ?vs = [v])" by (metis neq_Nil_conv)
    then have "serves (versionFetch (sample_policy_rm, arn)) None w [map to_version ?vs] w"
      using traverse_to_sdk [of ?vs] by (intro serves.last) (auto simp: versionFetch_def sample_policy_sdk_def)
    moreover have "concat [map to_version ?vs] = sample_versions (aws w) arn" by (simp add: sample_versions_def)
    ultimately show ?thesis using dates by blast
  qed
qed

lemma sample_create_ok: "create_version_ok sample_policy_sdk sample_versions"
  unfolding create_version_ok_def
proof (intro allI impI)
  fix arn doc resp and b b' :: policy_iam
  assume run: "CreatePolicyVersion sample_policy_sdk (Some arn) doc True b = ((resp, None), b')"
  let ?vs = "pi_versions b arn"
  have "fresh_id ?vs \<notin> fst ` set ?vs" by (rule fresh_id_new)
  moreover have "version ` set (sample_versions b arn) = fst ` set ?vs" by (force simp: sample_versions_def image_iff)
  moreover have "map to_version (map (\<lambda>(i, d, f). (i, d, False)) ?vs) = map (\<lambda>u. u\<lparr>isDefault := False\<rparr>) (map to_version ?vs)"
    by auto
  ultimately show "\<exists>v i d. resp = Some (Some v) \<and> VersionId v = Some i \<and> i \<notin> version ` set (sample_versions b arn) \<and>
        sample_versions b' = (sample_versions b)(arn := map (\<lambda>u. u\<lparr>isDefault := False\<rparr>) (sample_versions b arn) @
          [\<lparr>version = i, createDate = Some d, document = [], isDefault = True\<rparr>])"
    using run by (cases doc) (auto simp: sample_policy_sdk_def Let_def sample_versions_def fun_eq_iff)
qed

lemma five_versions_inv: "versions_inv (sample_versions (aws five_versions) ''arn:p'')"
  by (simp add: five_versions_def sample_versions_def versions_inv_def limitPolicyVersions_def)

lemma sample_delete_succeeds: "DeletePolicyVersion sample_policy_sdk n i b \<noteq> (Some e, b')"
  by (simp add: sample_policy_sdk_def)

lemma sample_ensure: "\<exists>u. ensureVersionsLimitNotExceeded sample_policy_rm ''arn:p'' five_versions = Some (None, u)"
  using ensureVersionsLimit_outcome [OF lists_versions_listed [OF sample_lists] five_versions_inv] sample_delete_succeeds
  by (metis not_None_eq sample_policy_rm_simps(2))

subsection \<open>Versions\<close>

text \<open>
  C1. The limit on versions never blocks an update of the document. In every state IAM allows, when
  the versions can be listed, \<open>updatePolicyDocument\<close> returns; if it returns no error the versions are
  again in a state IAM allows and the version it returns is the default one; and if it returns an
  error, this is the error of the one \<open>DeletePolicyVersion\<close> call, made for the oldest version that is
  not the default, or that of \<open>CreatePolicyVersion\<close>, called in a state with fewer than five versions, from
  which at most that one has been deleted. Nothing is assumed of when these calls fail.
\<close>

theorem update_document_never_blocked:
  assumes "versions_ok (sdkapi rm) vers" and "create_version_ok (sdkapi rm) vers"
    and "versions_listed rm vers arn w" and "policyArn r = Some (Some arn)"
    and "versions_inv (vers (aws w) arn)"
  shows "\<exists>i err w'. updatePolicyDocument rm r w = Some ((i, err), w') \<and> (case err of
      None \<Rightarrow> versions_inv (vers (aws w') arn) \<and> (\<exists>v \<in> set (vers (aws w') arn). isDefault v \<and> version v = i)
    | Some e \<Rightarrow>
        (\<exists>v \<in> set (vers (aws w) arn). \<not> isDefault v \<and>
           (\<forall>u \<in> set (vers (aws w) arn). \<not> isDefault u \<longrightarrow> dated v \<le> dated u) \<and>
           DeletePolicyVersion (sdkapi rm) (Some arn) (Some (version v)) (aws w) = (Some e, aws w')) \<or>
        (\<exists>b resp. length (vers b arn) < limitPolicyVersions \<and>
           (vers b = vers (aws w) \<or> (\<exists>v \<in> set (vers (aws w) arn). \<not> isDefault v \<and>
              (\<forall>u \<in> set (vers (aws w) arn). \<not> isDefault u \<longrightarrow> dated v \<le> dated u) \<and>
              vers b = (vers (aws w))(arn := filter (\<lambda>u. version u \<noteq> version v) (vers (aws w) arn)))) \<and>
           CreatePolicyVersion (sdkapi rm) (Some arn) (Spec_PolicyDocument r) True b = ((resp, Some e), aws w')))"
  using updatePolicyDocument_outcome [OF assms] .

text \<open>With a document the fifth version makes room for the new one; without one IAM refuses it.\<close>

lemma update_document_never_blocked_witness:
  "(\<exists>i w'. updatePolicyDocument sample_policy_rm sample_policy five_versions = Some ((i, None), w') \<and>
      length (sample_versions (aws w') ''arn:p'') \<le> 5) \<and>
   (\<exists>b w'. length (sample_versions b ''arn:p'') < 5 \<and>
      updatePolicyDocument sample_policy_rm (sample_policy\<lparr>Spec_PolicyDocument := None\<rparr>) five_versions =
        Some (([], Some (Error (APIError ''MalformedPolicyDocument'') ''no document'' None)), w'))"
  (is "?made \<and> ?refused")
proof
  let ?e = "Error (APIError ''MalformedPolicyDocument'') ''no document'' None"
  note outcome = update_document_never_blocked [of sample_policy_rm sample_versions "''arn:p''" five_versions,
      unfolded sample_policy_rm_simps, OF sample_versions_ok sample_create_ok lists_versions_listed [OF sample_lists] _ five_versions_inv]
  obtain u where u: "ensureVersionsLimitNotExceeded sample_policy_rm ''arn:p'' five_versions = Some (None, u)"
    using sample_ensure by blast
  have "Spec_PolicyDocument sample_policy = Some ''{}''" by (simp add: sample_policy_def)
  with u obtain i w' where run: "updatePolicyDocument sample_policy_rm sample_policy five_versions = Some ((i, None), w')"
    by (simp add: updatePolicyDocument_def sample_policy_sdk_def Let_def)
  from outcome [of sample_policy] run have "versions_inv (sample_versions (aws w') ''arn:p'')" by simp
  with run show ?made by (auto simp: versions_inv_def limitPolicyVersions_def)
  have arn: "policyArn (sample_policy\<lparr>Spec_PolicyDocument := None\<rparr>) = Some (Some ''arn:p'')"
    by (simp add: sample_policy_def policyArn_def)
  with u obtain w' where run: "updatePolicyDocument sample_policy_rm (sample_policy\<lparr>Spec_PolicyDocument := None\<rparr>) five_versions =
      Some (([], Some ?e), w')"
    by (simp add: updatePolicyDocument_def sample_policy_sdk_def Let_def)
  from outcome [OF arn] run sample_delete_succeeds obtain b where "length (sample_versions b ''arn:p'') < limitPolicyVersions"
    by auto
  with run show ?refused by (auto simp: limitPolicyVersions_def)
qed

text \<open>
  C2. A successful \<open>ensureVersionsLimitNotExceeded\<close> leaves room for a new version, and deletes at
  most one: the oldest one that is not the default, however the listing orders and pages them.
\<close>

theorem oldest_version_deleted:
  assumes "versions_ok (sdkapi rm) vers" and "lists_versions rm vers arn"
    and "versions_inv (vers (aws w) arn)"
    and "ensureVersionsLimitNotExceeded rm arn w = Some (None, w')"
  shows "length (vers (aws w') arn) < limitPolicyVersions \<and> versions_inv (vers (aws w') arn) \<and>
    (vers (aws w') = vers (aws w) \<or>
     (\<exists>v \<in> set (vers (aws w) arn). \<not> isDefault v \<and>
        (\<forall>u \<in> set (vers (aws w) arn). \<not> isDefault u \<longrightarrow> dated v \<le> dated u) \<and>
        vers (aws w') = (vers (aws w))(arn := filter (\<lambda>u. version u \<noteq> version v) (vers (aws w) arn))))"
  using ensureVersionsLimit_room [OF assms(1) lists_versions_listed [OF assms(2)] assms(3,4)] .

lemma oldest_version_deleted_witness:
  "\<exists>w'. ensureVersionsLimitNotExceeded sample_policy_rm ''arn:p'' five_versions = Some (None, w') \<and>
    length (sample_versions (aws w') ''arn:p'') < 5"
proof -
  obtain w' where run: "ensureVersionsLimitNotExceeded sample_policy_rm ''arn:p'' five_versions = Some (None, w')"
    using sample_ensure by blast
  then have "length (sample_versions (aws w') ''arn:p'') < limitPolicyVersions"
    using oldest_version_deleted [OF _ sample_lists five_versions_inv run] sample_versions_ok by simp
  with run show ?thesis by (auto simp: limitPolicyVersions_def)
qed

text \<open>
  C15. A successful \<open>sdkDelete\<close> calls \<open>DeletePolicy\<close> in a state in which only the default version
  of the policy is left, which IAM requires.
\<close>

theorem delete_policy_single_version:
  assumes "versions_ok (sdkapi rm) vers" and "lists_versions rm vers arn"
    and "policyArn r = Some (Some arn)" and "distinct (map version (vers (aws w) arn))"
    and "sdkDelete rm r w = Some ((res, None), w')"
  shows "\<exists>b. DeletePolicy (sdkapi rm) (Some arn) b = (None, aws w') \<and> vers b arn = filter isDefault (vers (aws w) arn)"
proof -
  obtain u where first: "deleteNonDefaultPolicyVersions rm r w = Some (None, u)"
    and last: "DeletePolicy (sdkapi rm) (newDeleteRequestPayload r) (aws u) = (None, aws w')"
    using assms(5) by (auto simp: sdkDelete_def Let_def prod_eq_iff split: Option.bind_splits option.splits)
  have "newDeleteRequestPayload r = Some arn"
    using assms(3) by (auto simp: newDeleteRequestPayload_def policyArn_def split: Option.bind_splits)
  with last deleteNonDefault_left [OF assms(1-4) first] show ?thesis by auto
qed

lemma delete_policy_single_version_witness:
  "\<exists>w' b. sdkDelete sample_policy_rm sample_policy five_versions = Some ((None, None), w') \<and>
    DeletePolicy sample_policy_sdk (Some ''arn:p'') b = (None, aws w') \<and> length (sample_versions b ''arn:p'') = 1"
proof -
  obtain us u where "getPolicyVersions sample_policy_rm ''arn:p'' five_versions = Some ((us, None), u)"
    using getPolicyVersions_listed [OF lists_versions_listed [OF sample_lists]] by blast
  moreover have "\<exists>w'. for_each (\<lambda>v w. if isDefault v then Some (None, w) else deletePolicyVersion sample_policy_rm ''arn:p'' (version v) w) us u
      = Some (None, w')"
    by (induction us arbitrary: u) (auto simp: deletePolicyVersion_def sample_policy_sdk_def)
  ultimately obtain w' where run: "sdkDelete sample_policy_rm sample_policy five_versions = Some ((None, None), w')"
    by (auto simp: sdkDelete_def deleteNonDefaultPolicyVersions_def sample_policy_sdk_def)
  have "distinct (map version (sample_versions (aws five_versions) ''arn:p''))"
    using five_versions_inv by (simp add: versions_inv_def)
  then obtain b where b: "DeletePolicy (sdkapi sample_policy_rm) (Some ''arn:p'') b = (None, aws w')"
      "sample_versions b ''arn:p'' = filter isDefault (sample_versions (aws five_versions) ''arn:p'')"
    using delete_policy_single_version [OF _ sample_lists _ _ run] sample_versions_ok by auto
  moreover have "length (filter isDefault (sample_versions (aws five_versions) ''arn:p'')) = 1"
    using five_versions_inv by (simp add: versions_inv_def)
  ultimately show ?thesis using run by auto
qed

subsection \<open>Tags and the document\<close>

text \<open>
  A successful \<open>syncTags\<close> of a policy whose observed tags are up to date leaves exactly the
  desired tags, changed values included: here the old tags are removed before the new are put.
\<close>

theorem policy_tags_converge:
  assumes "policy_tagging_ok (sdkapi rm) tags" and "policyArn desired = Some (Some n)"
    and "elems (Spec_Tags desired) = ds" and "tag_set ds"
    and "elems (Spec_Tags latest) = ls" and "tag_set ls" and "tags (aws w) n = tag_map ls"
    and "syncTags rm desired latest w = Some (None, w')"
  shows "tags (aws w') = (tags (aws w))(n := tag_map ds)"
  using syncTags_converges [OF assms] .

lemma sample_policy_tagging_ok: "policy_tagging_ok sample_policy_sdk (\<lambda>b n. tag_map (pi_tags b n))"
  using tag_map_without
  by (auto simp: policy_tagging_ok_def sample_policy_sdk_def tag_map_def fun_eq_iff)

lemma policy_tags_converge_witness:
  "\<exists>w'. syncTags sample_policy_rm (sample_policy\<lparr>Spec_Tags := Some [mkTag ''team'' ''new'']\<rparr>)
      (sample_policy\<lparr>Spec_Tags := Some [mkTag ''team'' ''old'']\<rparr>) five_versions = Some (None, w')
    \<and> tag_map (pi_tags (aws w') ''arn:p'') ''team'' = Some ''new''"
proof -
  let ?desired = "sample_policy\<lparr>Spec_Tags := Some [mkTag ''team'' ''new'']\<rparr>"
  let ?latest = "sample_policy\<lparr>Spec_Tags := Some [mkTag ''team'' ''old'']\<rparr>"
  have "\<exists>w'. syncTags sample_policy_rm ?desired ?latest five_versions = Some (None, w')"
    by (simp add: syncTags_def addTags_def removeTags_def notInTags_def inTags_def Let_def sample_policy_sdk_def)
  then obtain w' where run: "syncTags sample_policy_rm ?desired ?latest five_versions = Some (None, w')" by blast
  have "tag_map (pi_tags (aws w') ''arn:p'') ''team'' = Some ''new''"
    using policy_tags_converge [OF _ _ _ _ _ _ _ run, of "\<lambda>b n. tag_map (pi_tags b n)" "''arn:p''"
        "[mkTag ''team'' ''new'']" "[mkTag ''team'' ''old'']"] sample_policy_tagging_ok
    by (simp add: five_versions_def tag_set_Cons tag_map_Cons fun_eq_iff)
  with run show ?thesis by blast
qed

text \<open>
  \<open>sdkFind\<close> reads the document of the default version and decodes it: the custom resource gets
  exactly the text that was stored.
\<close>

theorem policy_document_read_back:
  assumes "Option.bind (Status_ACKResourceMetadata r) ARN = Some arn"
    and "GetPolicy (sdkapi rm) (Some arn) (aws w) = ((Some (Some p), None), b)"
    and "Policy_Arn p = Some arn" and "Policy_DefaultVersionId p = Some i"
    and "GetPolicyVersion (sdkapi rm) (Some arn) (Some i) b = ((Some (Some v), None), b')"
    and "Document v = Some (pct_encode doc)"
  shows "\<exists>ko w'. sdkFind rm r w = Some ((Some ko, None), w') \<and> Spec_PolicyDocument ko = Some doc \<and>
    Status_DefaultVersionID ko = Some i \<and> aws w' = b'"
proof -
  have "Status_ACKResourceMetadata r \<noteq> None" using assms(1) by (auto split: Option.bind_splits)
  moreover let ?ko = "setStatusDefaults rm ((fromSdkPolicy p r)\<lparr>Spec_Description := Policy_Description p\<rparr>)"
  have "Status_DefaultVersionID ?ko = Some i" "Option.bind (Status_ACKResourceMetadata ?ko) ARN = Some arn"
    by (simp_all add: setStatusDefaults_def fromSdkPolicy_def setARN_def assms(3,4) Let_def)
  ultimately show ?thesis
    using assms by (simp add: sdkFind_def requiredFieldsMissingFromReadOneInput_def newDescribeRequestPayload_def
        getPolicyVersion_def QueryUnescape_pct_encode Let_def)
qed

lemma policy_document_read_back_witness:
  "\<exists>ko w'. sdkFind sample_policy_rm sample_policy five_versions = Some ((Some ko, None), w') \<and>
    Spec_PolicyDocument ko = Some ''{ + }''"
proof -
  obtain p where p: "GetPolicy (sdkapi sample_policy_rm) (Some ''arn:p'') (aws five_versions) = ((Some (Some p), None), aws five_versions)"
      "Policy_Arn p = Some ''arn:p''" "Policy_DefaultVersionId p = Some ''v1''"
    by (simp add: sample_policy_sdk_def)
  have v: "GetPolicyVersion (sdkapi sample_policy_rm) (Some ''arn:p'') (Some ''v1'') (aws five_versions) =
      ((Some (Some (to_sdk_version (''v1'', 0, True))), None), aws five_versions)"
    by (simp add: sample_policy_sdk_def)
  have "Option.bind (Status_ACKResourceMetadata sample_policy) ARN = Some ''arn:p''" by simp
  from policy_document_read_back [OF this p v, of "''{ + }''"] show ?thesis by auto
qed

subsection \<open>A backend that stores the documents\<close>

text \<open>
  The refinement of an update and the next round of the reconciler, with a witness on a backend that
  stores the versions with their documents and the tags of every policy.
\<close>

record kept_policy =
  k_versions :: "(string \<times> time \<times> string) list"
  k_default :: string
  k_tags :: "Tag list"

definition stored :: "(string \<Rightarrow> kept_policy) \<Rightarrow> policies" where
  "stored b arn = \<lparr>sp_versions = k_versions (b arn), sp_default = k_default (b arn), sp_tags = tag_map (k_tags (b arn))\<rparr>"

definition on_policy :: "string ptr \<Rightarrow> (kept_policy \<Rightarrow> kept_policy) \<Rightarrow> (string \<Rightarrow> kept_policy) \<Rightarrow> error option \<times> (string \<Rightarrow> kept_policy)" where
  "on_policy n f b = (None, b(the n := f (b (the n))))"

definition bare_version :: SdkPolicyVersion where
  "bare_version = \<lparr>VersionId = None, CreateDate = None, Document = None, IsDefaultVersion = False\<rparr>"

definition page_of :: "kept_policy \<Rightarrow> SdkPolicyVersion list" where
  "page_of x = map (\<lambda>(i, d, doc). bare_version\<lparr>VersionId := Some i, CreateDate := Some d, IsDefaultVersion := (i = k_default x)\<rparr>)
     (k_versions x)"

definition stored_sdk :: "(string \<Rightarrow> kept_policy) policy_sdk" where
  "stored_sdk = \<lparr>
     GetPolicy = (\<lambda>n b. ((Some (Some \<lparr>Policy_Arn = n, Policy_AttachmentCount = Some 0, Policy_CreateDate = Some 0,
        Policy_DefaultVersionId = Some (k_default (b (the n))), Policy_Description = None, Policy_IsAttachable = True,
        Policy_Path = Some ''/'', Policy_PermissionsBoundaryUsageCount = Some 0, Policy_PolicyId = None,
        Policy_PolicyName = Some ''p'', Policy_Tags = Some (k_tags (b (the n))), Policy_UpdateDate = None\<rparr>), None), b)),
     CreatePolicy = (\<lambda>input b. ((None, Some (Errorf ''exists'')), b)),
     DeletePolicy = (\<lambda>n b. (None, b)),
     ListPolicyTags = (\<lambda>n m b. ((Some \<lparr>Tags = k_tags (b (the n)), IsTruncated = False, Marker = None\<rparr>, None), b)),
     TagPolicy = (\<lambda>n ts. on_policy n (\<lambda>x. x\<lparr>k_tags := ts @ k_tags x\<rparr>)),
     UntagPolicy = (\<lambda>n ks. on_policy n (\<lambda>x. x\<lparr>k_tags := filter (\<lambda>t. the (Key t) \<notin> set ks) (k_tags x)\<rparr>)),
     CreatePolicyVersion = (\<lambda>n doc f b. let x = b (the n); i = fresh_id (k_versions x) in
        ((Some (Some (bare_version\<lparr>VersionId := Some i\<rparr>)), None),
         b(the n := x\<lparr>k_versions := k_versions x @ [(i, 60, the doc)], k_default := i\<rparr>))),
     GetPolicyVersion = (\<lambda>n i b. ((Some (Some (bare_version\<lparr>VersionId := i,
        Document := map_option (pct_encode \<circ> snd) (map_of (k_versions (b (the n))) (the i))\<rparr>)), None), b)),
     ListPolicyVersions = (\<lambda>n m b. ((Some \<lparr>Versions = page_of (b (the n)), Versions_IsTruncated = False, Versions_Marker = None\<rparr>, None), b)),
     DeletePolicyVersion = (\<lambda>n i. on_policy n (\<lambda>x. x\<lparr>k_versions := filter (\<lambda>v. fst v \<noteq> the i) (k_versions x)\<rparr>))\<rparr>"

definition stored_rm :: "(string \<Rightarrow> kept_policy) policy_manager" where
  "stored_rm = \<lparr>rt = sample_rt, EnableCrossNamespace = False, awsAccountID = ''1'', awsRegion = ''us-east-1'',
     awsPartition = ''aws'', sdkapi = stored_sdk\<rparr>"

lemma stored_rm_simps [simp]: "rt stored_rm = sample_rt" "sdkapi stored_rm = stored_sdk"
  by (simp_all add: stored_rm_def)

lemma stored_service: "policy_service stored_sdk stored"
proof -
  have "stored (b(n := x)) = (stored b)(n := \<lparr>sp_versions = k_versions x, sp_default = k_default x, sp_tags = tag_map (k_tags x)\<rparr>)"
    for b n x by (simp add: stored_def fun_eq_iff)
  moreover have "tag_map (ts @ us) = tag_map us ++ tag_map ts" for ts us by (simp add: tag_map_def)
  moreover have "(fresh_id vs, v) \<notin> set vs" for vs and v :: "time \<times> string" using fresh_id_new [of vs] by force
  ultimately show ?thesis
    by (auto simp: policy_service_def stored_sdk_def on_policy_def bare_version_def Let_def tag_map_without)
      (auto simp: stored_def)
qed

lemma stored_lists: "lists_versions stored_rm (\<lambda>b arn. listed (stored b arn)) arn"
  unfolding lists_versions_def
proof
  fix w :: "(string \<Rightarrow> kept_policy) world"
  have "traverse toPolicyVersion (map (\<lambda>(i, d, doc). bare_version\<lparr>VersionId := Some i, CreateDate := Some d, IsDefaultVersion := (i = k)\<rparr>) vs) =
      Some (map (\<lambda>(i, d, doc). \<lparr>version = i, createDate = Some d, document = [], isDefault = (i = k)\<rparr>) vs)"
    for k and vs :: "(string \<times> time \<times> string) list"
    by (induction vs) (auto simp: toPolicyVersion_def bare_version_def)
  then have "traverse toPolicyVersion (page_of (aws w arn)) = Some (listed (stored (aws w) arn))"
    by (simp add: page_of_def listed_def stored_def)
  then have "serves (versionFetch (stored_rm, arn)) None w [listed (stored (aws w) arn)] w"
    by (intro serves.last) (simp add: versionFetch_def stored_sdk_def)
  then show "\<exists>pages w'. serves (versionFetch (stored_rm, arn)) None w pages w' \<and> aws w' = aws w \<and>
      concat pages = listed (stored (aws w) arn) \<and> (\<forall>v \<in> set (listed (stored (aws w) arn)). createDate v \<noteq> None)"
    by (intro exI [of _ "[listed (stored (aws w) arn)]"] exI [of _ w]) (auto simp: set_listed)
qed

lemma stored_answers: "tag_set (k_tags (b arn)) \<Longrightarrow> policy_answers stored_sdk stored b arn"
  by (simp add: policy_answers_def stored_sdk_def stored_def default_document_def bare_version_def option.map_comp)

subsection \<open>A concrete update\<close>

definition wanted_policy :: Policy where
  "wanted_policy = sample_policy\<lparr>Spec_PolicyDocument := Some ''[]'', Spec_Tags := Some [mkTag ''team'' ''new'']\<rparr>"

definition found_policy :: Policy where
  "found_policy = sample_policy\<lparr>Spec_PolicyDocument := Some ''{}'', Spec_Tags := Some [mkTag ''team'' ''old'']\<rparr>"

definition five_stored :: "(string \<Rightarrow> kept_policy) world" where
  "five_stored = \<lparr>aws = (\<lambda>_. \<lparr>k_versions = [(''v3'', 30, ''3''), (''v1'', 10, ''{}''), (''v2'', 20, ''2''), (''v4'', 40, ''4''),
     (''v5'', 50, ''5'')], k_default = ''v1'', k_tags = [mkTag ''team'' ''old'']\<rparr>), api_calls = []\<rparr>"

lemma wanted_policy_simps [simp]:
  "policyArn wanted_policy = Some (Some ''arn:p'')" "Spec_PolicyDocument wanted_policy = Some ''[]''"
  "Spec_Tags wanted_policy = Some [mkTag ''team'' ''new'']" "Status_Conditions wanted_policy = None"
  "Spec_PolicyDocument found_policy = Some ''{}''" "Spec_Tags found_policy = Some [mkTag ''team'' ''old'']"
  "conditions_of found_policy = []" "Spec_Name wanted_policy = Some ''p''" "Spec_Path wanted_policy = None"
  "Spec_Description wanted_policy = None" "Spec_Name found_policy = Some ''p''" "Spec_Path found_policy = None"
  "Spec_Description found_policy = None"
  by (simp_all add: wanted_policy_def found_policy_def sample_policy_def policyArn_def conditions_of_def)

lemma five_stored_inv: "stored_inv (stored (aws five_stored) arn)"
  by (simp add: stored_inv_def stored_def five_stored_def limitPolicyVersions_def)

lemma found_describes: "describes_policy found_policy (stored (aws five_stored) arn)"
  by (simp add: describes_policy_def stored_def five_stored_def default_document_def tag_set_def)

lemma wanted_policy_delta:
  "Delta sample_rt sample_compare (Some wanted_policy) (Some found_policy) = Some [''Spec.Tags'', ''Spec.PolicyDocument'']"
proof -
  have "in_string_ok sample_rt" by simp
  from policy_newResourceDelta_report [OF this, of wanted_policy found_policy sample_compare] show ?thesis
    by (simp add: Delta_def tag_set_def report_def differences_def addWhen_def stringDiffers_def policyDiffers_def)
qed

lemma stored_document_update:
  assumes "stored_inv (stored (aws w) ''arn:p'')"
  shows "\<exists>i w'. updatePolicyDocument stored_rm wanted_policy w = Some ((i, None), w') \<and>
    k_tags (aws w' ''arn:p'') = k_tags (aws w ''arn:p'')"
proof -
  have "fst (DeletePolicyVersion stored_sdk n i b) = None" for n i b by (simp add: stored_sdk_def on_policy_def)
  then have never: "DeletePolicyVersion stored_sdk n i b \<noteq> (Some e, b')" for n i b e b' by (metis fst_conv option.distinct(1))
  have "versions_inv (listed (stored (aws w) ''arn:p''))" by (rule versions_inv_listed [OF assms])
  from ensureVersionsLimit_outcome [where vers = "\<lambda>b arn. listed (stored b arn)", OF lists_versions_listed [OF stored_lists] this]
  obtain err u where run: "ensureVersionsLimitNotExceeded stored_rm ''arn:p'' w = Some (err, u)" and why: "err = None \<or>
    (\<exists>v \<in> set (listed (stored (aws w) ''arn:p'')). DeletePolicyVersion (sdkapi stored_rm) (Some ''arn:p'') (Some (version v)) (aws w) = (err, aws u))"
    by (elim exE conjE) (rule that, assumption, blast)
  from why never have "err = None" by (cases err) auto
  with run have u: "ensureVersionsLimitNotExceeded stored_rm ''arn:p'' w = Some (None, u)" by simp
  have "k_tags (aws u ''arn:p'') = k_tags (aws w ''arn:p'')"
    using ensureVersionsLimit_calls [OF stored_lists versions_inv_listed [OF assms] u]
    by (auto simp: stored_sdk_def on_policy_def dest!: sym [of _ "aws u"])
  with u show ?thesis
    by (simp add: updatePolicyDocument_def stored_sdk_def bare_version_def Let_def)
qed

lemma wanted_policy_update:
  "\<exists>res w'. Update stored_rm sample_compare (Some wanted_policy) (Some found_policy) [''Spec.Tags'', ''Spec.PolicyDocument'']
      five_stored = Some ((res, None), w') \<and> k_tags (aws w' ''arn:p'') = [mkTag ''team'' ''new'']"
proof -
  have "\<exists>u. syncTags stored_rm wanted_policy found_policy five_stored = Some (None, u) \<and>
      k_tags (aws u ''arn:p'') = [mkTag ''team'' ''new''] \<and> stored_inv (stored (aws u) ''arn:p'')"
    by (simp add: syncTags_def notInTags_def inTags_def removeTags_def addTags_def stored_sdk_def on_policy_def
        five_stored_def Let_def stored_inv_def stored_def limitPolicyVersions_def)
  then obtain u where u: "syncTags stored_rm wanted_policy found_policy five_stored = Some (None, u)"
      "k_tags (aws u ''arn:p'') = [mkTag ''team'' ''new'']" "stored_inv (stored (aws u) ''arn:p'')" by blast
  obtain i w' where w': "updatePolicyDocument stored_rm wanted_policy u = Some ((i, None), w')"
      "k_tags (aws w' ''arn:p'') = k_tags (aws u ''arn:p'')" using stored_document_update [OF u(3)] by blast
  let ?ko = "setStatusDefaults stored_rm wanted_policy"
  let ?out = "?ko\<lparr>Status_DefaultVersionID := Some i,
    Status_Conditions := SetSynced sample_rt (Status_Conditions ?ko) ConditionTrue None None\<rparr>"
  have "sdkUpdate stored_rm sample_compare wanted_policy found_policy [''Spec.Tags'', ''Spec.PolicyDocument''] five_stored =
      Some ((Some ?out, None), w')"
    using u(1) w'(1) by (simp add: sdkUpdate_def customUpdatePolicy_def Let_def)
  moreover have "Status_Conditions ?ko = Some []" by (simp add: setStatusDefaults_def or_default_def Let_def)
  then have "unique_conditions (conditions_of ?out)"
    by (simp add: conditions_of_def unique_conditions_def sample_rt_def set_condition_def ensure_def)
  then obtain ko where "finish stored_rm terminalCodes found_policy (Some ?out) None = Some (Some ko, None)"
    using finish_success by blast
  ultimately show ?thesis using w'(2) u(2) by (simp add: Update_def update_with_def)
qed

subsection \<open>The update\<close>

text \<open>
  C4. When \<open>Update\<close> of a policy returns no error, the abstract policy took one step: its tags are the
  desired ones, and a document that differs was put as the new default version, after the oldest
  version that is not the default one made room if there were five. What IAM keeps of the
  versions still holds and no other policy changes. The next \<open>sdkFind\<close> finds that state, and the
  delta of the desired and the found policy reports neither the tags nor the document again.
\<close>

theorem policy_update_refines:
  assumes "delta_ok c delta_paths" and "nil_difference_ok c" and "in_string_ok (rt rm)" and "aws_error_ok (rt rm)"
    and "policy_service (sdkapi rm) pol" and "lists_versions rm (\<lambda>b arn. listed (pol b arn)) arn"
    and "policyArn desired = Some (Some arn)"
    and "Spec_PolicyDocument desired = Some doc" and "tag_set (elems (Spec_Tags desired))"
    and "IAMPolicyDocumentEqual c doc doc = (True, None)"
    and "describes_policy latest (pol (aws w) arn)" and "stored_inv (pol (aws w) arn)"
    and "unique_conditions (conditions_of latest)"
    and "Delta (rt rm) c (Some desired) (Some latest) = Some delta"
    and "Update rm c (Some desired) (Some latest) delta w = Some ((res, None), w')"
    and "policy_answers (sdkapi rm) pol (aws w') arn"
  shows "\<exists>y. policy_settled c doc (tag_map (elems (Spec_Tags desired))) (pol (aws w) arn) y \<and> stored_inv y \<and>
    pol (aws w') = (pol (aws w))(arn := y) \<and>
    (\<exists>ko delta' w''. sdkFind rm desired w' = Some ((Some ko, None), w'') \<and> describes_policy ko y \<and>
       Delta (rt rm) c (Some desired) (Some ko) = Some delta' \<and>
       \<not> DifferentAt c delta' ''Spec.Tags'' \<and> \<not> DifferentAt c delta' ''Spec.PolicyDocument'')"
proof -
  obtain y where y: "policy_settled c doc (tag_map (elems (Spec_Tags desired))) (pol (aws w) arn) y"
      "pol (aws w') = (pol (aws w))(arn := y)"
    using policy_Update_settles [OF assms(1,3-9,11-15)] by blast
  note D = policy_settled_D [OF assms(12) y(1)]
  obtain ko w'' where ko: "sdkFind rm desired w' = Some ((Some ko, None), w'')" "describes_policy ko y"
    using policy_sdkFind_describes [OF assms(16) _ assms(7)] D(1) y(2) by auto
  then have ts: "tag_set (elems (Spec_Tags ko))" by (simp add: describes_policy_def)
  obtain delta' where delta': "newResourceDelta (rt rm) c (Some desired) (Some ko) = Some delta'"
    using policy_newResourceDelta_report [OF assms(3,9) ts] by blast
  have "\<not> policyDiffers c (Some doc) (Some doc)" using assms(2,10) by (simp add: policyDiffers_def nil_difference_ok_def)
  then have "\<not> policyDiffers c (Some doc) (default_document y)" by (simp add: D(3))
  with policy_delta_reports [OF assms(1,3,9) ts delta'] ko delta' D(1,2) y assms(8) show ?thesis
    by (auto simp: Delta_def describes_policy_def)
qed

lemma policy_update_refines_witness:
  "\<exists>res w' y. Update stored_rm sample_compare (Some wanted_policy) (Some found_policy) [''Spec.Tags'', ''Spec.PolicyDocument'']
      five_stored = Some ((res, None), w') \<and> stored (aws w') ''arn:p'' = y \<and>
     default_document y = Some ''[]'' \<and> sp_tags y = [''team'' \<mapsto> ''new'']"
proof -
  obtain res w' where run: "Update stored_rm sample_compare (Some wanted_policy) (Some found_policy)
      [''Spec.Tags'', ''Spec.PolicyDocument''] five_stored = Some ((res, None), w')"
    and tags: "k_tags (aws w' ''arn:p'') = [mkTag ''team'' ''new'']" using wanted_policy_update by blast
  have ans: "policy_answers stored_sdk stored (aws w') ''arn:p''" by (rule stored_answers) (simp add: tags tag_set_def)
  obtain y where y: "policy_settled sample_compare ''[]'' (tag_map [mkTag ''team'' ''new'']) (stored (aws five_stored) ''arn:p'') y"
      "stored (aws w') = (stored (aws five_stored))(''arn:p'' := y)"
    using policy_update_refines [where pol = stored and arn = "''arn:p''", OF _ _ _ _ _ _ _ _ _ _ found_describes
        five_stored_inv _ _ run]
      stored_service stored_lists wanted_policy_delta ans
    by (auto simp: tag_set_def unique_conditions_def)
  have "policyDiffers sample_compare (Some ''[]'') (default_document (stored (aws five_stored) ''arn:p''))"
    by (simp add: policyDiffers_def default_document_def stored_def five_stored_def)
  with policy_settled_D [OF five_stored_inv y(1)] run y(2) show ?thesis
    by (auto simp: tag_map_def)
qed

end
