(* ===== verification/Factory.thy ===== *)
theory Factory
  imports Ack
begin

text \<open>
  \<open>manager_factory.go\<close>: the cache of resource managers per account, region and role. The look-up
  and the insertion hold the factory's lock each, but not together, so two calls can interleave
  between them: \<open>factory_step\<close> is one critical section of one of the running calls. The manager
  is built by \<open>newResourceManager\<close>, which differs only in the type of the resource; its SDK
  client is a function \<open>client\<close> of the client configuration.
\<close>

record ('cfg, 'cc) manager_call =
  call_cfg :: 'cfg
  call_clientcfg :: 'cc
  call_id :: string
  call_region :: string
  call_roleARN :: string

record ('cfg, 'sdk) managerStruct =
  m_cfg :: 'cfg
  m_awsAccountID :: string
  m_awsRegion :: string
  m_awsPartition :: string
  m_sdkapi :: 'sdk

type_synonym ('cfg, 'sdk) rmCache = "(string, ('cfg, 'sdk) managerStruct) gomap"

text \<open>\<open>partitionOf\<close> reads \<open>cfg.Partition\<close>.\<close>

definition newResourceManager ::
  "('cfg \<Rightarrow> string) \<Rightarrow> ('cc \<Rightarrow> 'sdk) \<Rightarrow> ('cfg, 'cc) manager_call \<Rightarrow> ('cfg, 'sdk) managerStruct" where
  "newResourceManager partitionOf client c = \<lparr>m_cfg = call_cfg c, m_awsAccountID = call_id c,
     m_awsRegion = call_region c, m_awsPartition = partitionOf (call_cfg c), m_sdkapi = client (call_clientcfg c)\<rparr>"

definition rmId :: "('cfg, 'cc) manager_call \<Rightarrow> string" where
  "rmId c = call_id c @ ''/'' @ call_region c @ ''/'' @ call_roleARN c"

text \<open>The two critical sections of \<open>ManagerFor\<close>, and a call that runs alone.\<close>

definition lookupManager :: "('cfg, 'cc) manager_call \<Rightarrow> ('cfg, 'sdk) rmCache \<Rightarrow> ('cfg, 'sdk) managerStruct option" where
  "lookupManager c cache = map_of cache (rmId c)"

definition insertManager ::
  "('cfg \<Rightarrow> string) \<Rightarrow> ('cc \<Rightarrow> 'sdk) \<Rightarrow> ('cfg, 'cc) manager_call \<Rightarrow> ('cfg, 'sdk) rmCache \<Rightarrow>
     ('cfg, 'sdk) managerStruct \<times> ('cfg, 'sdk) rmCache" where
  "insertManager partitionOf client c cache =
     (let rm = newResourceManager partitionOf client c in (rm, AList.update (rmId c) rm cache))"

definition ManagerFor ::
  "('cfg \<Rightarrow> string) \<Rightarrow> ('cc \<Rightarrow> 'sdk) \<Rightarrow> ('cfg, 'cc) manager_call \<Rightarrow> ('cfg, 'sdk) rmCache \<Rightarrow>
     ('cfg, 'sdk) managerStruct \<times> ('cfg, 'sdk) rmCache" where
  "ManagerFor partitionOf client c cache = (case lookupManager c cache of
     Some rm \<Rightarrow> (rm, cache)
   | None \<Rightarrow> insertManager partitionOf client c cache)"

subsection \<open>Concurrent calls\<close>

text \<open>A call has not looked yet, has missed, or has returned a manager.\<close>

datatype 'm progress = Called | MissedCache | Returned 'm

inductive factory_step ::
  "('cfg \<Rightarrow> string) \<Rightarrow> ('cc \<Rightarrow> 'sdk) \<Rightarrow> ('cfg, 'cc) manager_call list \<Rightarrow>
   ('cfg, 'sdk) rmCache \<times> ('cfg, 'sdk) managerStruct progress list \<Rightarrow>
   ('cfg, 'sdk) rmCache \<times> ('cfg, 'sdk) managerStruct progress list \<Rightarrow> bool"
  for partitionOf client calls where
  hit: "i < length calls \<Longrightarrow> ps ! i = Called \<Longrightarrow> lookupManager (calls ! i) cache = Some rm \<Longrightarrow>
    factory_step partitionOf client calls (cache, ps) (cache, ps[i := Returned rm])"
| miss: "i < length calls \<Longrightarrow> ps ! i = Called \<Longrightarrow> lookupManager (calls ! i) cache = None \<Longrightarrow>
    factory_step partitionOf client calls (cache, ps) (cache, ps[i := MissedCache])"
| create: "i < length calls \<Longrightarrow> ps ! i = MissedCache \<Longrightarrow>
    insertManager partitionOf client (calls ! i) cache = (rm, cache') \<Longrightarrow>
    factory_step partitionOf client calls (cache, ps) (cache', ps[i := Returned rm])"

inductive_cases factory_stepE: "factory_step partitionOf client calls s t"

definition factory_reach ::
  "('cfg \<Rightarrow> string) \<Rightarrow> ('cc \<Rightarrow> 'sdk) \<Rightarrow> ('cfg, 'cc) manager_call list \<Rightarrow>
   ('cfg, 'sdk) rmCache \<times> ('cfg, 'sdk) managerStruct progress list \<Rightarrow> bool" where
  "factory_reach partitionOf client calls s \<longleftrightarrow>
     rtranclp (factory_step partitionOf client calls) ([], replicate (length calls) Called) s"

text \<open>A manager that some call with the same key made.\<close>

definition made_for ::
  "('cfg \<Rightarrow> string) \<Rightarrow> ('cc \<Rightarrow> 'sdk) \<Rightarrow> ('cfg, 'cc) manager_call list \<Rightarrow> string \<Rightarrow> ('cfg, 'sdk) managerStruct \<Rightarrow> bool" where
  "made_for partitionOf client calls key rm \<longleftrightarrow>
     (\<exists>c\<in>set calls. rmId c = key \<and> rm = newResourceManager partitionOf client c)"

definition factory_inv ::
  "('cfg \<Rightarrow> string) \<Rightarrow> ('cc \<Rightarrow> 'sdk) \<Rightarrow> ('cfg, 'cc) manager_call list \<Rightarrow>
   ('cfg, 'sdk) rmCache \<times> ('cfg, 'sdk) managerStruct progress list \<Rightarrow> bool" where
  "factory_inv partitionOf client calls s \<longleftrightarrow> length (snd s) = length calls \<and>
     (\<forall>k rm. map_of (fst s) k = Some rm \<longrightarrow> made_for partitionOf client calls k rm) \<and>
     (\<forall>i rm. i < length calls \<longrightarrow> snd s ! i = Returned rm \<longrightarrow> made_for partitionOf client calls (rmId (calls ! i)) rm)"

lemma factory_inv_step:
  assumes "factory_step partitionOf client calls s t" and "factory_inv partitionOf client calls s"
  shows "factory_inv partitionOf client calls t"
  using assms
proof (cases rule: factory_step.cases)
  case (hit i ps cache rm)
  with assms(2) show ?thesis by (auto simp: factory_inv_def nth_list_update lookupManager_def)
next
  case (miss i ps cache)
  with assms(2) show ?thesis by (auto simp: factory_inv_def nth_list_update)
next
  case (create i ps cache rm cache')
  then have made: "made_for partitionOf client calls (rmId (calls ! i)) rm"
    by (auto simp: insertManager_def Let_def made_for_def)
  from create have "map_of cache' = (map_of cache)(rmId (calls ! i) \<mapsto> rm)"
    by (auto simp: insertManager_def Let_def update_conv')
  with create made assms(2) show ?thesis by (auto simp: factory_inv_def nth_list_update)
qed

lemma factory_inv_reach:
  assumes "factory_reach partitionOf client calls s"
  shows "factory_inv partitionOf client calls s"
  using assms unfolding factory_reach_def
proof (induction rule: rtranclp_induct)
  case base
  then show ?case by (simp add: factory_inv_def)
next
  case (step s t)
  then show ?case by (blast intro: factory_inv_step)
qed

text \<open>Account ids and region names have no slash, so the key determines the three parts.\<close>

lemma split_at_slash: "CHR ''/'' \<notin> set a \<Longrightarrow> CHR ''/'' \<notin> set b \<Longrightarrow> a @ ''/'' @ s = b @ ''/'' @ t \<Longrightarrow> a = b \<and> s = t"
proof (induction a arbitrary: b)
  case Nil
  then show ?case by (cases b) auto
next
  case (Cons x a)
  then show ?case by (cases b) auto
qed

definition plain_call :: "('cfg, 'cc) manager_call \<Rightarrow> bool" where
  "plain_call c \<longleftrightarrow> CHR ''/'' \<notin> set (call_id c) \<and> CHR ''/'' \<notin> set (call_region c)"

lemma rmId_inj:
  assumes "plain_call c" and "plain_call d" and "rmId c = rmId d"
  shows "call_id c = call_id d \<and> call_region c = call_region d \<and> call_roleARN c = call_roleARN d"
proof -
  have "call_id c = call_id d \<and> call_region c @ ''/'' @ call_roleARN c = call_region d @ ''/'' @ call_roleARN d"
    using assms by (intro split_at_slash) (simp_all add: plain_call_def rmId_def)
  moreover from this have "call_region c = call_region d \<and> call_roleARN c = call_roleARN d"
    using assms by (intro split_at_slash) (simp_all add: plain_call_def)
  ultimately show ?thesis by simp
qed

lemma returned_manager:
  assumes "factory_reach partitionOf client calls (cache, ps)" and "\<forall>c\<in>set calls. plain_call c"
    and "i < length calls" and "ps ! i = Returned rm"
  shows "\<exists>c\<in>set calls. rm = newResourceManager partitionOf client c \<and> call_id c = call_id (calls ! i) \<and>
    call_region c = call_region (calls ! i) \<and> call_roleARN c = call_roleARN (calls ! i)"
proof -
  have "made_for partitionOf client calls (rmId (calls ! i)) rm"
    using factory_inv_reach [OF assms(1)] assms(3,4) by (simp add: factory_inv_def)
  then obtain c where c: "c \<in> set calls" "rmId c = rmId (calls ! i)" "rm = newResourceManager partitionOf client c"
    by (auto simp: made_for_def)
  with rmId_inj [OF _ _ c(2)] assms(2,3) show ?thesis by (metis nth_mem)
qed

lemma ManagerFor_cached:
  assumes "ManagerFor partitionOf client c cache = (rm, cache')" and "rmId d = rmId c"
  shows "ManagerFor partitionOf client d cache' = (rm, cache')"
  using assms
  by (auto simp: ManagerFor_def lookupManager_def insertManager_def Let_def update_conv' split: option.splits)

lemma ManagerFor_others:
  assumes "ManagerFor partitionOf client c cache = (rm, cache')" and "k \<noteq> rmId c"
  shows "map_of cache' k = map_of cache k"
  using assms
  by (auto simp: ManagerFor_def lookupManager_def insertManager_def Let_def update_conv' split: option.splits)

end
