(* ===== verification/SharedProperties.thy ===== *)
theory SharedProperties
  imports Manager Resource Factory Url Samples
begin

text \<open>
  The properties of the code all packages share, as witnesses on the sample library of
  \<open>Samples\<close> show them not to be vacuous.
\<close>

definition bare_object :: ack_object where
  "bare_object = \<lparr>Namespace = ''default'', DeletionTimestamp = None, Finalizers = [], Annotations = [],
     Status_ACKResourceMetadata = None, Status_Conditions = None\<rparr>"

definition bare_rm :: resourceManager where
  "bare_rm = \<lparr>rt = sample_rt, EnableCrossNamespace = False, awsAccountID = ''1'', awsRegion = ''us-east-1'',
     awsPartition = ''aws''\<rparr>"

lemma bare_simps [simp]: "conditions_of bare_object = []" "rt bare_rm = sample_rt"
  by (simp_all add: bare_object_def conditions_of_def bare_rm_def)

subsection \<open>Conditions and status\<close>

text \<open>
  C28. A terminal error makes \<open>onError\<close> return \<open>Terminal\<close> and the whole resource it was given but for
  two fields of the status: the metadata, made when it is missing, gets the manager's region,
  partition and account where it has none and keeps the rest; the conditions get a Terminal one that is True with
  the error's text, all others keep every field and their order. The resource given has no two
  conditions of one type, nor has the one returned.
\<close>

theorem terminal_errors_reported:
  assumes "aws_error_ok (rt rm)" and "unique_conditions (conditions_of r)" and "terminal_error codes (Some e)"
  shows "\<exists>conds. onError rm codes (Some r) (Some e) = Some (Some (r\<lparr>
      Status_ACKResourceMetadata := Some (defaulted rm (Status_ACKResourceMetadata r)),
      Status_Conditions := Some conds\<rparr>), Some Terminal) \<and>
    other_conditions ConditionTypeTerminal conds = other_conditions ConditionTypeTerminal (conditions_of r) \<and>
    unique_conditions conds \<and>
    (\<forall>ty. status_of ty conds =
       (if ty = ConditionTypeTerminal then Some (Some ConditionTrue, Some (terminal_message (rt rm) e))
        else status_of ty (conditions_of r)))"
  using terminal_error_whole [OF assms] .

lemma terminal_errors_reported_witness:
  "\<exists>conds. onError bare_rm [''InvalidInput''] (Some bare_object) (Some (Error (APIError ''InvalidInput'') ''bad'' None)) =
      Some (Some (bare_object\<lparr>Status_ACKResourceMetadata := Some \<lparr>ARN = None, OwnerAccountID = Some ''1'',
        Region = Some ''us-east-1'', Partition = Some ''aws''\<rparr>, Status_Conditions := Some conds\<rparr>), Some Terminal) \<and>
    status_of ConditionTypeTerminal conds = Some (Some ConditionTrue, Some ''bad'')"
proof -
  let ?e = "Error (APIError ''InvalidInput'') ''bad'' None"
  have "terminal_error [''InvalidInput''] (Some ?e)" "terminal_message sample_rt ?e = ''bad''"
    by (simp_all add: terminal_error_def terminalAWSError_def ErrorCode_def terminal_message_def runtimeTerminal_def
        error_message_def sample_rt_def)
  moreover have "defaulted bare_rm (Status_ACKResourceMetadata bare_object) = \<lparr>ARN = None, OwnerAccountID = Some ''1'',
      Region = Some ''us-east-1'', Partition = Some ''aws''\<rparr>"
    by (simp add: defaulted_def or_default_def bare_object_def bare_rm_def)
  ultimately show ?thesis
    using terminal_errors_reported [of bare_rm bare_object "[''InvalidInput'']" ?e] by (auto simp: unique_conditions_def)
qed

text \<open>
  Any other error is returned as it is; the Recoverable condition becomes True with its text,
  a Terminal condition from before becomes False, and no other condition changes.
\<close>

theorem recoverable_errors_reported:
  assumes "unique_conditions (conditions_of r)" and "\<not> terminal_error codes (Some e)"
  shows "\<exists>ko. onError rm codes (Some r) (Some e) = Some (Some ko, Some e) \<and>
    ack_object.more ko = ack_object.more r \<and>
    (\<forall>ty. status_of ty (conditions_of ko) =
      (if ty = ConditionTypeRecoverable then Some (Some ConditionTrue, Some (error_message (rt rm) e))
       else if ty = ConditionTypeTerminal \<and> has_condition ty (conditions_of r) then Some (Some ConditionFalse, None)
       else status_of ty (conditions_of r)))"
  using nonterminal_error_D [OF assms, of rm] by (auto simp: status_nonterminal [OF assms(1)])

lemma recoverable_errors_reported_witness:
  "\<exists>ko. onError bare_rm [''InvalidInput''] (Some bare_object) (Some (Errorf ''net'')) = Some (Some ko, Some (Errorf ''net'')) \<and>
    status_of ConditionTypeRecoverable (conditions_of ko) = Some (Some ConditionTrue, Some ''net'')"
proof -
  have "\<not> terminal_error [''InvalidInput''] (Some (Errorf ''net''))" "error_message sample_rt (Errorf ''net'') = ''net''"
    by (simp_all add: terminal_error_def terminalAWSError_def ErrorCode_def runtimeTerminal_def error_message_def sample_rt_def)
  then show ?thesis
    using recoverable_errors_reported [of bare_object "[''InvalidInput'']" "Errorf ''net''" bare_rm]
    by (auto simp: unique_conditions_def)
qed

text \<open>
  Success clears the Terminal and Recoverable conditions that are there, adds none, and
  returns no error.
\<close>

theorem success_clears_conditions:
  assumes "unique_conditions (conditions_of r)"
  shows "\<exists>ko. onSuccess rm codes (Some r) = Some (Some ko, None) \<and>
    ack_object.more ko = ack_object.more r \<and> unique_conditions (conditions_of ko) \<and>
    (\<forall>ty. status_of ty (conditions_of ko) =
       (if ty \<in> {ConditionTypeTerminal, ConditionTypeRecoverable} \<and> has_condition ty (conditions_of r)
        then Some (Some ConditionFalse, None) else status_of ty (conditions_of r)))"
  using success_D [OF assms] .

lemma success_clears_conditions_witness:
  "\<exists>ko. onSuccess bare_rm [] (Some (bare_object\<lparr>Status_Conditions := Some [(newCondition ConditionTypeTerminal)\<lparr>Status := Some ConditionTrue\<rparr>]\<rparr>))
      = Some (Some ko, None) \<and> status_of ConditionTypeTerminal (conditions_of ko) = Some (Some ConditionFalse, None)"
proof -
  let ?r = "bare_object\<lparr>Status_Conditions := Some [(newCondition ConditionTypeTerminal)\<lparr>Status := Some ConditionTrue\<rparr>]\<rparr>"
  have conds: "conditions_of ?r = [(newCondition ConditionTypeTerminal)\<lparr>Status := Some ConditionTrue\<rparr>]"
    by (simp add: conditions_of_def)
  have "unique_conditions (conditions_of ?r)" by (simp add: conds unique_conditions_def)
  moreover have "has_condition ConditionTypeTerminal (conditions_of ?r)"
    unfolding conds by (simp add: has_condition_def newCondition_def)
  ultimately show ?thesis using success_clears_conditions [of ?r bare_rm "[]"] by auto
qed

text \<open>
  \<open>setStatusDefaults\<close> fills in the region, partition and account of the manager where they
  are missing, keeps every value that is there, and is idempotent.
\<close>

theorem status_defaults_filled:
  "setStatusDefaults rm (setStatusDefaults rm ko) = setStatusDefaults rm ko \<and>
   ack_object.more (setStatusDefaults rm ko) = ack_object.more ko \<and>
   conditions_of (setStatusDefaults rm ko) = conditions_of ko \<and>
   (\<exists>md. Status_ACKResourceMetadata (setStatusDefaults rm ko) = Some md \<and>
     ARN md = Option.bind (Status_ACKResourceMetadata ko) ARN \<and>
     Region md = Some (case Option.bind (Status_ACKResourceMetadata ko) Region of None \<Rightarrow> awsRegion rm | Some x \<Rightarrow> x) \<and>
     Partition md = Some (case Option.bind (Status_ACKResourceMetadata ko) Partition of None \<Rightarrow> awsPartition rm | Some x \<Rightarrow> x) \<and>
     OwnerAccountID md = Some (case Option.bind (Status_ACKResourceMetadata ko) OwnerAccountID of
        None \<Rightarrow> awsAccountID rm | Some x \<Rightarrow> x))"
  using setStatusDefaults_metadata [of rm ko] by (simp add: setStatusDefaults_idem)

subsection \<open>Tags\<close>

text \<open>
  C32. \<open>EqualTags\<close> decides equality of two tag sets: on lists without nil and without repeated
  keys it returns true exactly when they hold the same tags, in whatever order.
\<close>

theorem equal_tags_iff:
  assumes "in_string_ok r" and "tag_set a" and "tag_set b"
  shows "EqualTags r a b = Some (set a = set b)"
  using EqualTags_tag_set [OF assms] .

lemma equal_tags_iff_witness:
  "EqualTags sample_rt [mkTag ''a'' ''1'', mkTag ''b'' ''2''] [mkTag ''b'' ''2'', mkTag ''a'' ''1''] = Some True"
  by (subst equal_tags_iff) (auto simp: tag_set_def)

text \<open>
  Comparing a tag that has a value with one that has the same key and a nil value makes
  \<open>EqualTags\<close> dereference nil and panic: \<open>equalStrings\<close> checks for nil only when its first
  argument is nil or empty.
\<close>

theorem equal_tags_nil_value_panics:
  assumes "v \<noteq> []"
  shows "EqualTags r (mkTag k v # a) (\<lparr>Key = Some k, Value = None\<rparr> # b) = None"
  using assms by (simp add: EqualTags_def computeTagsDelta_def equalStrings_def)

lemma equal_tags_nil_value_panics_witness:
  "EqualTags sample_rt [mkTag ''a'' ''1''] [\<lparr>Key = Some ''a'', Value = None\<rparr>] = None"
  by (rule equal_tags_nil_value_panics) simp

text \<open>
  C36. Converting a list of tags to the runtime's map and back, with the key order the conversion
  returned, gives the same list, nothing lost, changed or reordered, when every tag has a key and a
  value (neither is nil) and no key is in it twice.
\<close>

theorem ack_tags_round_trip:
  assumes "tag_set (elems ts)"
  shows "elems (fromACKTags r (fst (convertToOrderedACKTags ts)) (snd (convertToOrderedACKTags ts))) = elems ts"
proof -
  let ?m = "fst (convertToOrderedACKTags ts)" and ?ks = "snd (convertToOrderedACKTags ts)"
  have ks: "?ks = map (\<lambda>t. the (Key t)) (elems ts)" using assms by (simp add: convertToOrderedACKTags map_filter_Key)
  have m: "map_of ?m = tag_map (elems ts)" using assms by (simp add: convertToOrderedACKTags ack_map_tag_map)
  have "map Key (elems ts) = map Some ?ks" using assms by (auto simp: ks tag_set_def plain_tag_def)
  then have dist: "distinct ?ks" using assms by (metis distinct_map tag_set_def)
  have "mkTag (the (Key t)) (the (tag_map (elems ts) (the (Key t)))) = t \<and> tag_map (elems ts) (the (Key t)) \<noteq> None"
    if "t \<in> set (elems ts)" for t
  proof -
    from that assms obtain k v where "Key t = Some k" "Value t = Some v" by (auto simp: tag_set_def plain_tag_def)
    then have t: "t = mkTag k v" by (cases t) simp
    with that assms have "tag_map (elems ts) k = Some v" by (simp add: tag_map_Some_iff)
    with t show ?thesis by simp
  qed
  then have "map (\<lambda>k. mkTag k (the (map_of ?m k))) (filter (\<lambda>k. map_of ?m k \<noteq> None) ?ks) = elems ts"
    unfolding ks m by (auto simp: filter_map comp_def intro!: map_idI cong: filter_cong) 
  moreover have "dom (map_of ?m) \<subseteq> set ?ks" using tag_keys_dom [OF assms] by (simp add: ks m tag_keys_def)
  ultimately show ?thesis
    using fromACKTags_exact [OF dist convertToOrderedACKTags(1)] by simp
qed

lemma ack_tags_round_trip_witness:
  "elems (fromACKTags sample_rt (fst (convertToOrderedACKTags (Some [mkTag ''b'' ''2'', mkTag ''a'' ''1''])))
     (snd (convertToOrderedACKTags (Some [mkTag ''b'' ''2'', mkTag ''a'' ''1''])))) = [mkTag ''b'' ''2'', mkTag ''a'' ''1'']"
  by (subst ack_tags_round_trip) (auto simp: tag_set_def)

subsection \<open>Finalizers and resource managers\<close>

text \<open>
  \<open>MarkManaged\<close> makes a resource managed and \<open>MarkUnmanaged\<close> makes it unmanaged, neither
  touches another controller's finalizer, and unmarking undoes marking.
\<close>

theorem finalizers_mark:
  assumes "finalizers_ok k"
  shows "IsManaged f (MarkManaged k f obj) \<and> \<not> IsManaged f (MarkUnmanaged k f obj) \<and>
    (g \<noteq> f \<longrightarrow> IsManaged g (MarkManaged k f obj) = IsManaged g obj \<and> IsManaged g (MarkUnmanaged k f obj) = IsManaged g obj) \<and>
    (\<not> IsManaged f obj \<longrightarrow> MarkUnmanaged k f (MarkManaged k f obj) = obj)"
  by (simp add: IsManaged_MarkManaged [OF assms] MarkUnmanaged_MarkManaged [OF assms])

lemma finalizers_mark_witness:
  "IsManaged ''f'' (MarkManaged \<lparr>AddFinalizer = (\<lambda>fs f. if f \<in> set fs then fs else fs @ [f]),
     RemoveFinalizer = (\<lambda>fs f. filter (\<lambda>g. g \<noteq> f) fs), AnnotationAdopted = ''services.k8s.aws/adopted''\<rparr> ''f'' bare_object)"
  by (rule finalizers_mark [THEN conjunct1]) (simp add: finalizers_ok_def)

text \<open>
  C25. However concurrent calls of \<open>ManagerFor\<close> interleave, every manager returned was made by
  \<open>newResourceManager\<close> for a call with the same account, region and role ARN: no caller gets a
  manager with another account's credentials.
\<close>

theorem managers_isolated:
  assumes "factory_reach partitionOf client calls (cache, ps)" and "\<forall>c\<in>set calls. plain_call c"
    and "i < length calls" and "ps ! i = Returned rm"
  shows "\<exists>c\<in>set calls. rm = newResourceManager partitionOf client c \<and> call_id c = call_id (calls ! i) \<and>
    call_region c = call_region (calls ! i) \<and> call_roleARN c = call_roleARN (calls ! i)"
  using returned_manager [OF assms] .

definition sample_calls :: "(unit, nat) manager_call list" where
  "sample_calls = [\<lparr>call_cfg = (), call_clientcfg = 0, call_id = ''1'', call_region = ''r'', call_roleARN = ''arn:a/b''\<rparr>,
     \<lparr>call_cfg = (), call_clientcfg = 1, call_id = ''2'', call_region = ''r'', call_roleARN = ''arn:a/b''\<rparr>]"

lemma managers_isolated_witness:
  "\<exists>cache ps rm. factory_reach (\<lambda>_. ''aws'') (\<lambda>cc. cc) sample_calls (cache, ps) \<and> ps ! 0 = Returned rm \<and> m_awsAccountID rm = ''1''"
proof -
  let ?rm = "newResourceManager (\<lambda>_. ''aws'') (\<lambda>cc. cc) (sample_calls ! 0)"
  let ?s0 = "([], [Called, Called]) :: (unit, nat) rmCache \<times> _"
  let ?s1 = "([], [MissedCache, Called]) :: (unit, nat) rmCache \<times> _"
  let ?s2 = "([(rmId (sample_calls ! 0), ?rm)], [Returned ?rm, Called])"
  have len: "0 < length sample_calls" by (simp add: sample_calls_def)
  have "factory_step (\<lambda>_. ''aws'') (\<lambda>cc. cc) sample_calls ?s0 ([], [Called, Called][0 := MissedCache])"
    by (rule factory_step.miss [OF len]) (simp_all add: lookupManager_def)
  moreover have "factory_step (\<lambda>_. ''aws'') (\<lambda>cc. cc) sample_calls ?s1
      ([(rmId (sample_calls ! 0), ?rm)], [MissedCache, Called][0 := Returned ?rm])"
    by (rule factory_step.create [OF len]) (simp_all add: insertManager_def Let_def)
  moreover have "replicate (length sample_calls) (Called :: (unit, nat) managerStruct progress) = [Called, Called]" by (simp add: sample_calls_def)
  ultimately have reach: "factory_reach (\<lambda>_. ''aws'') (\<lambda>cc. cc) sample_calls ?s2"
    unfolding factory_reach_def by (auto intro: converse_rtranclp_into_rtranclp)
  have "\<exists>c\<in>set sample_calls. ?rm = newResourceManager (\<lambda>_. ''aws'') (\<lambda>cc. cc) c \<and> call_id c = call_id (sample_calls ! 0) \<and>
    call_region c = call_region (sample_calls ! 0) \<and> call_roleARN c = call_roleARN (sample_calls ! 0)"
    by (rule managers_isolated [OF reach]) (auto simp: sample_calls_def plain_call_def)
  then have "m_awsAccountID ?rm = ''1''" by (auto simp: newResourceManager_def sample_calls_def)
  with reach show ?thesis by force
qed

end
