(* ===== verification/Principal.thy ===== *)
theory Principal
  imports Holder Compare
begin

text \<open>
  The abstract specification of the packages that manage policy holders: a directory of IAM
  principals, each with its attached managed policies, inline policies, permissions boundary and
  tags. An API call is one operation on the principal it names. The hooks of a package refine
  assignments to the parts of a principal: the locale \<open>holder_calls\<close> states what the calls of a
  package promise, and derives what \<open>syncManagedPolicies\<close> and \<open>syncInlinePolicies\<close> achieve.
\<close>

subsection \<open>Principals and their operations\<close>

record principal =
  p_managed :: "string set"
  p_inline :: "string \<rightharpoonup> string"
  p_boundary :: "string option"
  p_tags :: "string \<rightharpoonup> string"

type_synonym directory = "string \<Rightarrow> principal"

definition at :: "string \<Rightarrow> (principal \<Rightarrow> principal) \<Rightarrow> directory \<Rightarrow> directory" where
  "at n f d = d(n := f (d n))"

definition attach :: "string \<Rightarrow> principal \<Rightarrow> principal" where
  "attach p x = x\<lparr>p_managed := insert p (p_managed x)\<rparr>"

definition detach :: "string \<Rightarrow> principal \<Rightarrow> principal" where
  "detach p x = x\<lparr>p_managed := p_managed x - {p}\<rparr>"

definition put_inline :: "string \<Rightarrow> string \<Rightarrow> principal \<Rightarrow> principal" where
  "put_inline k d x = x\<lparr>p_inline := (p_inline x)(k \<mapsto> d)\<rparr>"

definition delete_inline :: "string \<Rightarrow> principal \<Rightarrow> principal" where
  "delete_inline k x = x\<lparr>p_inline := (p_inline x)(k := None)\<rparr>"

definition set_boundary :: "string option \<Rightarrow> principal \<Rightarrow> principal" where
  "set_boundary p x = x\<lparr>p_boundary := p\<rparr>"

definition add_tags :: "(string \<rightharpoonup> string) \<Rightarrow> principal \<Rightarrow> principal" where
  "add_tags m x = x\<lparr>p_tags := p_tags x ++ m\<rparr>"

definition remove_tags :: "string set \<Rightarrow> principal \<Rightarrow> principal" where
  "remove_tags ks x = x\<lparr>p_tags := p_tags x |` (- ks)\<rparr>"

lemmas principal_ops = attach_def detach_def put_inline_def delete_inline_def set_boundary_def add_tags_def remove_tags_def

lemma at_at: "at n g (at n f d) = at n (\<lambda>x. g (f x)) d"
  by (simp add: at_def)

lemma at_id: "f (d n) = d n \<Longrightarrow> at n f d = d"
  by (simp add: at_def)

lemma at_cong: "f (d n) = g (d n) \<Longrightarrow> at n f d = at n g d"
  by (simp add: at_def)

lemma at_no_tags [simp]: "at n (add_tags Map.empty) d = d" "at n (remove_tags {}) d = d"
  by (simp_all add: at_def add_tags_def remove_tags_def restrict_map_def)

lemma fold_op_at: "fold (\<lambda>x. at n (f x)) xs d = at n (fold f xs) d"
  by (induction xs arbitrary: d) (simp_all add: at_def)

lemma fold_attach: "fold attach ps x = x\<lparr>p_managed := fold insert ps (p_managed x)\<rparr>"
  by (induction ps arbitrary: x) (simp_all add: attach_def)

lemma fold_detach: "fold detach ps x = x\<lparr>p_managed := fold (\<lambda>p s. s - {p}) ps (p_managed x)\<rparr>"
  by (induction ps arbitrary: x) (simp_all add: detach_def)

lemma fold_put_inline:
  "fold (\<lambda>(k, d). put_inline k (f d)) xs x = x\<lparr>p_inline := fold (\<lambda>(k, d) m. m(k \<mapsto> f d)) xs (p_inline x)\<rparr>"
  by (induction xs arbitrary: x) (auto simp: put_inline_def)

lemma fold_delete_inline:
  "fold delete_inline ks x = x\<lparr>p_inline := fold (\<lambda>k m. m(k := None)) ks (p_inline x)\<rparr>"
  by (induction ks arbitrary: x) (simp_all add: delete_inline_def)

subsection \<open>Resources that describe a principal\<close>

text \<open>
  The parts a custom resource gives of a principal, with every list free of duplicates: the desired
  state when the user wrote it, the observed one when \<open>sdkFind\<close> returned it. An empty boundary is
  none.
\<close>

definition describes_policies :: "'a policy_holder_scheme \<Rightarrow> principal \<Rightarrow> bool" where
  "describes_policies r x \<longleftrightarrow>
     (\<exists>ps. elems (Spec_Policies r) = map Some ps \<and> distinct ps \<and> set ps = p_managed x) \<and>
     (\<exists>m. Spec_InlinePolicies r = point_at m \<and> wf_map m \<and> map_of m = p_inline x)"

definition describes :: "'a bounded_holder_scheme \<Rightarrow> principal \<Rightarrow> bool" where
  "describes r x \<longleftrightarrow> describes_policies r x \<and> nonempty (Spec_PermissionsBoundary r) = p_boundary x \<and>
     tag_set (elems (Spec_Tags r)) \<and> tag_map (elems (Spec_Tags r)) = p_tags x"

text \<open>
  What an update makes of a principal \<open>old\<close> when \<open>goal\<close> is desired: the policies and the boundary
  are the desired ones, but a document that is new or changed is URL-decoded first, and a tag
  whose value was to change is gone.
\<close>

definition synced_tags :: "(string \<rightharpoonup> string) \<Rightarrow> (string \<rightharpoonup> string) \<Rightarrow> (string \<rightharpoonup> string)" where
  "synced_tags ls ds = (\<lambda>k. if ls k \<noteq> None \<and> ls k \<noteq> ds k then None else ds k)"

lemma synced_tags_same [simp]: "synced_tags m m = m"
  by (auto simp: synced_tags_def)

definition settled :: "ack_rt \<Rightarrow> principal \<Rightarrow> principal \<Rightarrow> principal" where
  "settled r old goal = goal\<lparr>p_inline := put_documents (\<lambda>d. fst (decodeDocument r d)) (p_inline old) (p_inline goal),
     p_tags := synced_tags (p_tags old) (p_tags goal)\<rparr>"

text \<open>The same for a group, of which only the policies are managed.\<close>

definition settled_policies :: "ack_rt \<Rightarrow> principal \<Rightarrow> principal \<Rightarrow> principal" where
  "settled_policies r old goal = old\<lparr>p_managed := p_managed goal,
     p_inline := put_documents (\<lambda>d. fst (decodeDocument r d)) (p_inline old) (p_inline goal)\<rparr>"

text \<open>The goals an update reaches as they are.\<close>

definition reachable_goal :: "principal \<Rightarrow> principal \<Rightarrow> bool" where
  "reachable_goal old goal \<longleftrightarrow>
     (\<forall>k d. p_inline goal k = Some d \<longrightarrow> p_inline old k = Some d \<or> (CHR ''%'' \<notin> set d \<and> CHR ''+'' \<notin> set d)) \<and>
     (\<forall>k v. p_tags old k = Some v \<longrightarrow> p_tags goal k \<in> {None, Some v})"

lemma settled_goal: "settled r old goal = goal \<longleftrightarrow> reachable_goal old goal"
proof -
  have "put_documents (\<lambda>d. fst (decodeDocument r d)) (p_inline old) (p_inline goal) = p_inline goal \<longleftrightarrow>
    (\<forall>k d. p_inline goal k = Some d \<longrightarrow> p_inline old k = Some d \<or> (CHR ''%'' \<notin> set d \<and> CHR ''+'' \<notin> set d))"
    by (auto simp: put_documents_def fun_eq_iff decodeDocument_def fst_QueryUnescape_id_iff split: option.splits)
  moreover have "synced_tags (p_tags old) (p_tags goal) = p_tags goal \<longleftrightarrow>
    (\<forall>k v. p_tags old k = Some v \<longrightarrow> p_tags goal k \<in> {None, Some v})"
    by (force simp: synced_tags_def fun_eq_iff)
  ultimately show ?thesis
    by (cases goal) (simp add: settled_def reachable_goal_def)
qed

lemma describes_same:
  assumes "describes r x" and "describes r y"
  shows "x = y"
  using assms by (auto simp: describes_def describes_policies_def inj_on_def intro: principal.equality)

subsection \<open>Comparing and updating\<close>

definition comparison_ok :: "'d compare_rt \<Rightarrow> string set \<Rightarrow> bool" where
  "comparison_ok c paths \<longleftrightarrow> delta_ok c paths \<and> nil_difference_ok c \<and> lists_equal_ok c"

lemma described_policies_differ:
  assumes c: "comparison_ok c paths" and a: "describes_policies a x" and b: "describes_policies b y"
  shows "stringsDiffer c (Spec_Policies a) (Spec_Policies b) \<longleftrightarrow> p_managed x \<noteq> p_managed y"
    and "mapsDiffer c (Spec_InlinePolicies a) (Spec_InlinePolicies b) \<longleftrightarrow> p_inline x \<noteq> p_inline y"
proof -
  obtain ps qs where ps: "elems (Spec_Policies a) = map Some ps" "distinct ps" "set ps = p_managed x"
    "elems (Spec_Policies b) = map Some qs" "distinct qs" "set qs = p_managed y"
    using a b by (auto simp: describes_policies_def)
  then show "stringsDiffer c (Spec_Policies a) (Spec_Policies b) \<longleftrightarrow> p_managed x \<noteq> p_managed y"
    using stringsDiffer_iff [of c "Spec_Policies a" ps "Spec_Policies b" qs] c by (simp add: comparison_ok_def)
  obtain m m' where m: "Spec_InlinePolicies a = point_at m" "wf_map m" "map_of m = p_inline x"
    "Spec_InlinePolicies b = point_at m'" "wf_map m'" "map_of m' = p_inline y"
    using a b by (auto simp: describes_policies_def)
  then have "wf_map (point_at m)" "wf_map (point_at m')" by (simp_all add: comp_def split_beta)
  with m c show "mapsDiffer c (Spec_InlinePolicies a) (Spec_InlinePolicies b) \<longleftrightarrow> p_inline x \<noteq> p_inline y"
    using mapsDiffer_iff [of c "point_at m" "point_at m'"] point_at_map_of [of m m'] by (simp add: comparison_ok_def)
qed

text \<open>One conditional hook of \<open>sdkUpdate\<close>, as one step on the principal.\<close>

lemma when_different_dir:
  assumes "when_different c delta path f w = Some (None, w')"
    and "DifferentAt c delta path \<Longrightarrow> f w = Some (None, w') \<Longrightarrow> dir (aws w') = at n g (dir (aws w))"
    and "\<not> DifferentAt c delta path \<Longrightarrow> g (dir (aws w) n) = dir (aws w) n"
  shows "dir (aws w') = at n g (dir (aws w))"
  using assms by (auto simp: when_different_def at_id split: if_splits)

text \<open>What \<open>syncTags\<close> does of a user and a role: new tags are added, then stale ones removed by key.\<close>

lemma tags_settle:
  assumes "tag_set ls" and "tag_set ds" and "p_tags (d n) = tag_map ls"
  shows "at n (remove_tags (set (tag_keys (filter (\<lambda>t. t \<notin> set ds) ls))))
      (at n (add_tags (tag_map (filter (\<lambda>t. t \<notin> set ls) ds))) d) =
    at n (\<lambda>x. x\<lparr>p_tags := synced_tags (tag_map ls) (tag_map ds)\<rparr>) d"
  unfolding at_at using add_then_remove [OF assms(1,2)]
  by (intro at_cong) (simp add: remove_tags_def add_tags_def assms(3) synced_tags_def)

text \<open>
  The four hooks of an \<open>sdkUpdate\<close> that keep a principal in line, each called when the delta reports
  its field: together they settle the principal. What each hook does when it is called is a premise.
\<close>

lemma hooks_settle:
  fixes dir :: "'b \<Rightarrow> directory" and f1 f2 f3 f4 :: "'b world \<Rightarrow> (error option \<times> 'b world) option"
  assumes s1: "when_different c delta ''Spec.Policies'' f1 w = Some (None, w1)"
    and s2: "when_different c delta ''Spec.InlinePolicies'' f2 w1 = Some (None, w2)"
    and s3: "when_different c delta ''Spec.Tags'' f3 w2 = Some (None, w3)"
    and s4: "when_different c delta ''Spec.PermissionsBoundary'' f4 w3 = Some (None, w4)"
    and old: "dir (aws w) n = old"
    and h1: "f1 w = Some (None, w1) \<Longrightarrow> dir (aws w1) = at n (\<lambda>x. x\<lparr>p_managed := p_managed goal\<rparr>) (dir (aws w))"
    and h2: "p_inline (dir (aws w1) n) = p_inline old \<Longrightarrow> f2 w1 = Some (None, w2) \<Longrightarrow>
      dir (aws w2) = at n (\<lambda>x. x\<lparr>p_inline := put_documents (\<lambda>d. fst (decodeDocument r d)) (p_inline old) (p_inline goal)\<rparr>) (dir (aws w1))"
    and h3: "p_tags (dir (aws w2) n) = p_tags old \<Longrightarrow> f3 w2 = Some (None, w3) \<Longrightarrow>
      dir (aws w3) = at n (\<lambda>x. x\<lparr>p_tags := synced_tags (p_tags old) (p_tags goal)\<rparr>) (dir (aws w2))"
    and h4: "f4 w3 = Some (None, w4) \<Longrightarrow> dir (aws w4) = at n (set_boundary (p_boundary goal)) (dir (aws w3))"
    and same: "\<not> DifferentAt c delta ''Spec.Policies'' \<Longrightarrow> p_managed goal = p_managed old"
      "\<not> DifferentAt c delta ''Spec.InlinePolicies'' \<Longrightarrow> p_inline goal = p_inline old"
      "\<not> DifferentAt c delta ''Spec.Tags'' \<Longrightarrow> p_tags goal = p_tags old"
      "\<not> DifferentAt c delta ''Spec.PermissionsBoundary'' \<Longrightarrow> p_boundary goal = p_boundary old"
  shows "dir (aws w4) = (dir (aws w))(n := settled r old goal)"
proof -
  have 1: "dir (aws w1) = at n (\<lambda>x. x\<lparr>p_managed := p_managed goal\<rparr>) (dir (aws w))"
    using s1 h1 by (rule when_different_dir) (simp_all add: same old)
  have 2: "dir (aws w2) = at n (\<lambda>x. x\<lparr>p_inline := put_documents (\<lambda>d. fst (decodeDocument r d)) (p_inline old) (p_inline goal)\<rparr>) (dir (aws w1))"
    using s2 h2 by (rule when_different_dir) (simp_all add: same old 1 at_def)
  have 3: "dir (aws w3) = at n (\<lambda>x. x\<lparr>p_tags := synced_tags (p_tags old) (p_tags goal)\<rparr>) (dir (aws w2))"
    using s3 h3 by (rule when_different_dir) (simp_all add: same old 1 2 at_def)
  have 4: "dir (aws w4) = at n (set_boundary (p_boundary goal)) (dir (aws w3))"
    using s4 h4 by (rule when_different_dir) (simp_all add: same old 1 2 3 at_def set_boundary_def)
  show ?thesis
    using old by (cases goal; cases old) (simp add: 1 2 3 4 at_def settled_def set_boundary_def)
qed

subsection \<open>What the calls of a package promise\<close>

text \<open>
  \<open>e\<close> is a manager and a resource, of which \<open>named\<close> gives the name; \<open>dir\<close> reads the directory off
  the backend's state.
\<close>

locale holder_calls =
  fixes ok :: "'e \<Rightarrow> bool"
    and lib :: "'e \<Rightarrow> ack_rt"
    and dir :: "'e \<Rightarrow> 'b \<Rightarrow> directory"
    and named :: "'e \<Rightarrow> string"
    and add_managed :: "'e \<Rightarrow> string ptr \<Rightarrow> 'b world \<Rightarrow> (error option \<times> 'b world) option"
    and remove_managed :: "'e \<Rightarrow> string ptr \<Rightarrow> 'b world \<Rightarrow> (error option \<times> 'b world) option"
    and add_inline :: "'e \<Rightarrow> string \<Rightarrow> string ptr \<Rightarrow> 'b world \<Rightarrow> (error option \<times> 'b world) option"
    and remove_inline :: "'e \<Rightarrow> string \<Rightarrow> 'b world \<Rightarrow> (error option \<times> 'b world) option"
  assumes attaches: "ok e \<Longrightarrow> add_managed e (Some p) w = Some (None, w') \<Longrightarrow>
      dir e (aws w') = at (named e) (attach p) (dir e (aws w))"
    and detaches: "ok e \<Longrightarrow> remove_managed e (Some p) w = Some (None, w') \<Longrightarrow>
      dir e (aws w') = at (named e) (detach p) (dir e (aws w))"
    and puts: "ok e \<Longrightarrow> add_inline e k (Some d) w = Some (None, w') \<Longrightarrow>
      dir e (aws w') = at (named e) (put_inline k (fst (decodeDocument (lib e) d))) (dir e (aws w))"
    and deletes: "ok e \<Longrightarrow> remove_inline e k w = Some (None, w') \<Longrightarrow>
      dir e (aws w') = at (named e) (delete_inline k) (dir e (aws w))"

sublocale holder_calls \<subseteq> managed: api_sync ok "\<lambda>e p. add_managed e (Some p)" dir "\<lambda>e p. at (named e) (attach p)"
    "\<lambda>e p. remove_managed e (Some p)" "\<lambda>e p. at (named e) (detach p)"
  by unfold_locales (fact attaches, fact detaches)

sublocale holder_calls \<subseteq> inlined: api_sync ok "\<lambda>e (k, d). add_inline e k (Some d)" dir
    "\<lambda>e (k, d). at (named e) (put_inline k (fst (decodeDocument (lib e) d)))"
    remove_inline "\<lambda>e k. at (named e) (delete_inline k)"
  by unfold_locales (auto dest: puts deletes)

context holder_calls
begin

lemma sync_managed:
  assumes "ok e" and "in_string_ok r"
    and "elems (Spec_Policies desired) = map Some ds" and "elems (Spec_Policies latest) = map Some ls"
    and "p_managed (dir e (aws w) (named e)) = set ls"
    and "sync_managed_policies r (add_managed e) (remove_managed e) desired latest w = Some (None, w')"
  shows "dir e (aws w') = at (named e) (\<lambda>x. x\<lparr>p_managed := set ds\<rparr>) (dir e (aws w))"
proof -
  have "dir e (aws w') = at (named e) (\<lambda>x. fold detach (filter (\<lambda>p. p \<notin> set ds) ls)
      (fold attach (filter (\<lambda>p. p \<notin> set ls) ds) x)) (dir e (aws w))"
    using managed.sync_effect [OF assms(1), of "filter (\<lambda>p. p \<notin> set ls) ds" w "filter (\<lambda>p. p \<notin> set ds) ls" w']
      sync_managed_eq [OF assms(2-4), of "add_managed e" "remove_managed e" w] assms(6)
    by (simp add: fold_op_at at_at)
  also have "\<dots> = at (named e) (\<lambda>x. x\<lparr>p_managed := set ds\<rparr>) (dir e (aws w))"
    by (rule at_cong) (simp add: fold_attach fold_detach assms(5) attach_detach)
  finally show ?thesis .
qed

lemma sync_inline:
  assumes "ok e" and lo: "lo_ok r"
    and ds: "Spec_InlinePolicies desired = point_at ds" "wf_map ds"
    and ls: "Spec_InlinePolicies latest = point_at ls" "wf_map ls" "p_inline (dir e (aws w) (named e)) = map_of ls"
    and run: "sync_inline_policies r (add_inline e) (remove_inline e) desired latest w = Some (None, w')"
  shows "dir e (aws w') = at (named e) (\<lambda>x. x\<lparr>p_inline := put_documents (\<lambda>d. fst (decodeDocument (lib e) d)) (map_of ls) (map_of ds)\<rparr>)
    (dir e (aws w))"
proof -
  obtain toDelete toAdd where diff: "Difference r (ToPairs r ls) (ToPairs r ds) = (toDelete, toAdd)"
    and add: "set toAdd = set ds - set ls" "wf_map toAdd" and del: "set toDelete = set ls - set ds"
    using lo_difference [OF lo ls(2) ds(2)] by metis
  let ?f = "\<lambda>d. fst (decodeDocument (lib e) d)"
  have "dir e (aws w') = at (named e) (\<lambda>x. fold delete_inline (stale toAdd toDelete)
      (fold (\<lambda>(k, d). put_inline k (?f d)) toAdd x)) (dir e (aws w))"
    using inlined.sync_effect [OF assms(1), of toAdd w "stale toAdd toDelete" w']
      sync_inline_eq [OF lo ds(1) ls(1) diff, of "add_inline e" "remove_inline e" w] run
    by (simp add: case_prod_unfold fold_op_at at_at)
  also have "\<dots> = at (named e) (\<lambda>x. x\<lparr>p_inline := put_documents ?f (map_of ls) (map_of ds)\<rparr>) (dir e (aws w))"
    by (rule at_cong) (simp add: fold_put_inline fold_delete_inline ls(3) inline_put_delete [OF ds(2) ls(2) add del, of ?f])
  finally show ?thesis .
qed

end

end
