(* ===== verification/UserHooks.thy ===== *)
theory UserHooks
  imports Principal
begin

text \<open>
  \<open>pkg/resource/user/hooks.go\<close>: the hand-written part of the user package, which keeps the managed
  policies, inline policies, tags and permissions boundary of an IAM user in line with the custom
  resource. The policy hooks are those of \<open>Holder\<close> over the user's API calls.
\<close>

subsection \<open>The data and the API calls\<close>

text \<open>
  The data of the user package: the \<open>User\<close> custom resource of \<open>apis/v1alpha1/user.go\<close>, the parts
  of the SDK's types the code reads and writes, and the record \<open>user_sdk\<close> of the SDK client's
  operations the package calls.
\<close>

record User = bounded_holder +
  Status_PasswordLastUsed :: "time ptr"
  Status_UserID :: "string ptr"

text \<open>\<open>svcsdktypes.User\<close>, as \<open>GetUser\<close> and \<open>CreateUser\<close> return it.\<close>

record SdkUser =
  User_Arn :: "string ptr"
  User_CreateDate :: "time ptr"
  User_PasswordLastUsed :: "time ptr"
  User_Path :: "string ptr"
  User_PermissionsBoundary :: "string ptr ptr" \<comment> \<open>the struct's \<open>PermissionsBoundaryArn\<close>\<close>
  User_Tags :: "Tag slice"
  User_UserId :: "string ptr"
  User_UserName :: "string ptr"

record CreateUserInput =
  Create_Path :: "string ptr"
  Create_PermissionsBoundary :: "string ptr"
  Create_Tags :: "Tag slice"
  Create_UserName :: "string ptr"

record UpdateUserInput =
  Update_UserName :: "string ptr"
  Update_NewPath :: "string ptr"

text \<open>\<open>ListUserTags\<close> takes the user name and the marker of the request.\<close>

record ('b, 'p) user_sdk =
  GetUser :: "string ptr \<Rightarrow> 'b \<Rightarrow> (SdkUser ptr ptr \<times> error option) \<times> 'b"
  CreateUser :: "CreateUserInput \<Rightarrow> 'b \<Rightarrow> (SdkUser ptr ptr \<times> error option) \<times> 'b"
  UpdateUser :: "UpdateUserInput \<Rightarrow> 'b \<Rightarrow> error option \<times> 'b"
  DeleteUser :: "string ptr \<Rightarrow> 'b \<Rightarrow> error option \<times> 'b"
  PutUserPermissionsBoundary :: "string ptr \<Rightarrow> string ptr \<Rightarrow> 'b \<Rightarrow> error option \<times> 'b"
  DeleteUserPermissionsBoundary :: "string ptr \<Rightarrow> 'b \<Rightarrow> error option \<times> 'b"
  AttachUserPolicy :: "string ptr \<Rightarrow> string ptr \<Rightarrow> 'b \<Rightarrow> error option \<times> 'b"
  DetachUserPolicy :: "string ptr \<Rightarrow> string ptr \<Rightarrow> 'b \<Rightarrow> error option \<times> 'b"
  PutUserPolicy :: "string ptr \<Rightarrow> string ptr \<Rightarrow> string ptr \<Rightarrow> 'b \<Rightarrow> error option \<times> 'b"
  DeleteUserPolicy :: "string ptr \<Rightarrow> string ptr \<Rightarrow> 'b \<Rightarrow> error option \<times> 'b"
  GetUserPolicy :: "string ptr \<Rightarrow> string ptr \<Rightarrow> 'b \<Rightarrow> (string ptr ptr \<times> error option) \<times> 'b"
  TagUser :: "string ptr \<Rightarrow> Tag list \<Rightarrow> 'b \<Rightarrow> error option \<times> 'b"
  UntagUser :: "string ptr \<Rightarrow> string list \<Rightarrow> 'b \<Rightarrow> error option \<times> 'b"
  ListUserTags :: "string ptr \<Rightarrow> string ptr \<Rightarrow> 'b \<Rightarrow> (ListTagsOutput ptr \<times> error option) \<times> 'b"
  NewListAttachedUserPoliciesPaginator :: "string ptr \<Rightarrow> 'p"
  AttachedUserPolicies_HasMorePages :: "'p \<Rightarrow> bool"
  AttachedUserPolicies_NextPage :: "'p \<Rightarrow> 'b \<Rightarrow> ('p \<times> string ptr list ptr \<times> error option) \<times> 'b"
  NewListUserPoliciesPaginator :: "string ptr \<Rightarrow> 'p"
  UserPolicies_HasMorePages :: "'p \<Rightarrow> bool"
  UserPolicies_NextPage :: "'p \<Rightarrow> 'b \<Rightarrow> ('p \<times> string list ptr \<times> error option) \<times> 'b"

record ('b, 'p) user_manager = resourceManager +
  sdkapi :: "('b, 'p) user_sdk"

type_synonym ('b, 'p) rm = "('b, 'p) user_manager"

subsection \<open>Permissions boundary\<close>

definition putUserPermissionsBoundary :: "('b, 'p) rm \<Rightarrow> User \<Rightarrow> ('b, error option) go" where
  "putUserPermissionsBoundary rm r w =
     (let (err, w) = sdk_call (PutUserPermissionsBoundary (sdkapi rm) (Spec_Name r) (Spec_PermissionsBoundary r)) w
      in Some (err, RecordAPICall ''UPDATE'' ''PutUserPermissionsBoundary'' err w))"

definition deleteUserPermissionsBoundary :: "('b, 'p) rm \<Rightarrow> User \<Rightarrow> ('b, error option) go" where
  "deleteUserPermissionsBoundary rm r w =
     (let (err, w) = sdk_call (DeleteUserPermissionsBoundary (sdkapi rm) (Spec_Name r)) w
      in Some (err, RecordAPICall ''UPDATE'' ''DeleteUserPermissionsBoundary'' err w))"

definition syncUserPermissionsBoundary :: "('b, 'p) rm \<Rightarrow> User \<Rightarrow> ('b, error option) go" where
  "syncUserPermissionsBoundary rm r w =
     (if Spec_PermissionsBoundary r = None \<or> Spec_PermissionsBoundary r = Some []
      then deleteUserPermissionsBoundary rm r w
      else putUserPermissionsBoundary rm r w)"

subsection \<open>Managed policies\<close>

definition addManagedPolicy :: "('b, 'p) rm \<Rightarrow> User \<Rightarrow> string ptr \<Rightarrow> ('b, error option) go" where
  "addManagedPolicy rm r policyARN w =
     (let (err, w) = sdk_call (AttachUserPolicy (sdkapi rm) (Spec_Name r) policyARN) w
      in Some (err, RecordAPICall ''UPDATE'' ''AttachUserPolicy'' err w))"

definition removeManagedPolicy :: "('b, 'p) rm \<Rightarrow> User \<Rightarrow> string ptr \<Rightarrow> ('b, error option) go" where
  "removeManagedPolicy rm r policyARN w =
     (let (err, w) = sdk_call (DetachUserPolicy (sdkapi rm) (Spec_Name r) policyARN) w
      in Some (err, RecordAPICall ''UPDATE'' ''DetachUserPolicy'' err w))"

definition syncManagedPolicies :: "('b, 'p) rm \<Rightarrow> User \<Rightarrow> User \<Rightarrow> ('b, error option) go" where
  "syncManagedPolicies rm desired latest w =
     sync_managed_policies (rt rm) (addManagedPolicy rm desired) (removeManagedPolicy rm desired) desired latest w"

definition getManagedPolicies :: "('b, 'p) rm \<Rightarrow> User \<Rightarrow> ('b, string ptr slice \<times> error option) go" where
  "getManagedPolicies rm r w =
     get_managed_policies (AttachedUserPolicies_HasMorePages (sdkapi rm)) (AttachedUserPolicies_NextPage (sdkapi rm))
       (NewListAttachedUserPoliciesPaginator (sdkapi rm) (Spec_Name r)) ''ListAttachedUserPolicies'' w"

subsection \<open>Inline policies\<close>

definition addInlinePolicy :: "('b, 'p) rm \<Rightarrow> User \<Rightarrow> string \<Rightarrow> string ptr \<Rightarrow> ('b, error option) go" where
  "addInlinePolicy rm r policyName policyDoc w = do {
     doc \<leftarrow> policyDoc;
     let (cleanedDoc, err) = decodeDocument (rt rm) doc;
     (case err of
        Some e \<Rightarrow> Some (Some e, w)
      | None \<Rightarrow>
          (let (err, w) = sdk_call (PutUserPolicy (sdkapi rm) (Spec_Name r) (Some policyName) (Some cleanedDoc)) w
           in Some (err, RecordAPICall ''UPDATE'' ''PutUserPolicy'' err w)))
   }"

definition removeInlinePolicy :: "('b, 'p) rm \<Rightarrow> User \<Rightarrow> string \<Rightarrow> ('b, error option) go" where
  "removeInlinePolicy rm r policyName w =
     (let (err, w) = sdk_call (DeleteUserPolicy (sdkapi rm) (Spec_Name r) (Some policyName)) w
      in Some (err, RecordAPICall ''UPDATE'' ''DeleteUserPolicy'' err w))"

definition syncInlinePolicies :: "('b, 'p) rm \<Rightarrow> User \<Rightarrow> User \<Rightarrow> ('b, error option) go" where
  "syncInlinePolicies rm desired latest w =
     sync_inline_policies (rt rm) (addInlinePolicy rm desired) (removeInlinePolicy rm desired) desired latest w"

definition getInlinePolicies :: "('b, 'p) rm \<Rightarrow> User \<Rightarrow> ('b, (string, string ptr) gomap \<times> error option) go" where
  "getInlinePolicies rm r w =
     get_inline_policies (rt rm) (UserPolicies_HasMorePages (sdkapi rm)) (UserPolicies_NextPage (sdkapi rm))
       (NewListUserPoliciesPaginator (sdkapi rm) (Spec_Name r)) ''ListUserPolicies''
       (GetUserPolicy (sdkapi rm) (Spec_Name r)) ''GetUserPolicy'' w"

subsection \<open>Tags\<close>

definition compareTags :: "ack_rt \<Rightarrow> 'd compare_rt \<Rightarrow> 'd \<Rightarrow> User \<Rightarrow> User \<Rightarrow> 'd option" where
  "compareTags r c delta a b = compareTagLists r c delta (elems (Spec_Tags a)) (elems (Spec_Tags b))"

definition addTags :: "('b, 'p) rm \<Rightarrow> User \<Rightarrow> Tag list \<Rightarrow> ('b, error option) go" where
  "addTags rm r tags w =
     (let (err, w) = sdk_call (TagUser (sdkapi rm) (Spec_Name r) (map copyTag tags)) w
      in Some (err, RecordAPICall ''UPDATE'' ''TagUser'' err w))"

definition removeTags :: "('b, 'p) rm \<Rightarrow> User \<Rightarrow> Tag list \<Rightarrow> ('b, error option) go" where
  "removeTags rm r tags w = do {
     inTagKeys \<leftarrow> traverse Key tags;
     let (err, w) = sdk_call (UntagUser (sdkapi rm) (Spec_Name r) inTagKeys) w;
     Some (err, RecordAPICall ''UPDATE'' ''UntagUser'' err w) }"

definition syncTags :: "('b, 'p) rm \<Rightarrow> User \<Rightarrow> User \<Rightarrow> ('b, error option) go" where
  "syncTags rm desired latest w = do {
     let existingTags = elems (Spec_Tags latest);
     toAdd \<leftarrow> notInTags (elems (Spec_Tags desired)) existingTags;
     toDelete \<leftarrow> notInTags existingTags (elems (Spec_Tags desired));
     (err, w) \<leftarrow> (if length toAdd > 0 then addTags rm desired toAdd w else Some (None, w));
     (case err of
        Some e \<Rightarrow> Some (Some e, w)
      | None \<Rightarrow> if length toDelete > 0 then removeTags rm desired toDelete w else Some (None, w))
   }"

text \<open>
  The \<open>for\<close> loop of \<open>getTags\<close>. The request of every turn is the one made before the loop, whose
  \<open>Marker\<close> is nil.
\<close>

partial_function (option) tagPages ::
  "('b, 'p) rm \<Rightarrow> string ptr \<Rightarrow> Tag list \<Rightarrow> 'b world \<Rightarrow> ((Tag list \<times> error option) \<times> 'b world) option" where
  "tagPages rm name res w = do {
     let ((resp, err), w) = sdk_call (ListUserTags (sdkapi rm) name None) w;
     (case (err, resp) of
        (None, Some resp) \<Rightarrow> do {
          let res = res @ map copyTag (Tags resp);
          if \<not> IsTruncated resp then Some ((res, err), w)
          else tagPages rm name res w }
      | _ \<Rightarrow> Some ((res, err), w))
   }"

definition getTags :: "('b, 'p) rm \<Rightarrow> User \<Rightarrow> ('b, Tag slice \<times> error option) go" where
  "getTags rm r w = do {
     ((res, err), w) \<leftarrow> tagPages rm (Spec_Name r) [] w;
     Some ((Some res, err), RecordAPICall ''READ_MANY'' ''ListUserTags'' err w) }"

end
