(* ===== verification/UserSdk.thy ===== *)
theory UserSdk
  imports UserHooks Manager Resource HolderReferences
begin

text \<open>
  \<open>pkg/resource/user\<close> beyond the hooks: \<open>sdk.go\<close>, \<open>delta.go\<close>, \<open>manager.go\<close>, \<open>references.go\<close> and
  the parts of \<open>resource.go\<close> and \<open>descriptor.go\<close> that name the user's own fields.
\<close>

subsection \<open>sdk.go: reading\<close>

definition requiredFieldsMissingFromReadOneInput :: "User \<Rightarrow> bool" where
  "requiredFieldsMissingFromReadOneInput r \<longleftrightarrow> False"

definition newDescribeRequestPayload :: "User \<Rightarrow> string ptr" where
  "newDescribeRequestPayload r = Spec_Name r"

text \<open>What \<open>sdkFind\<close> and \<open>sdkCreate\<close> take over from the response.\<close>

definition fromSdkUser :: "SdkUser \<Rightarrow> User \<Rightarrow> User" where
  "fromSdkUser u ko = (setARN (User_Arn u) ko)\<lparr>
     Status_CreateDate := User_CreateDate u,
     Status_PasswordLastUsed := User_PasswordLastUsed u,
     Spec_Path := User_Path u,
     Spec_PermissionsBoundary := (case User_PermissionsBoundary u of Some arn \<Rightarrow> arn | None \<Rightarrow> None),
     Spec_Tags := map_option (map copyTag) (User_Tags u),
     Status_UserID := User_UserId u,
     Spec_Name := User_UserName u\<rparr>"

definition sdkFind :: "('b, 'p) rm \<Rightarrow> User \<Rightarrow> ('b, User ptr \<times> error option) go" where
  "sdkFind rm r w =
     (if requiredFieldsMissingFromReadOneInput r then Some ((None, Some NotFound), w)
      else do {
        let input = newDescribeRequestPayload r;
        let ((resp, err), w) = sdk_call (GetUser (sdkapi rm) input) w;
        let w = RecordAPICall ''READ_ONE'' ''GetUser'' err w;
        (case err of
           Some e \<Rightarrow> Some ((None, Some (if ErrorCode e = Some ''NoSuchEntity'' then NotFound else e)), w)
         | None \<Rightarrow> do {
             output \<leftarrow> resp;
             u \<leftarrow> output;
             let ko = setStatusDefaults rm (fromSdkUser u r);
             ((policies, err), w) \<leftarrow> getManagedPolicies rm ko w;
             (case err of
                Some e \<Rightarrow> Some ((None, Some e), w)
              | None \<Rightarrow> do {
                  let ko = ko\<lparr>Spec_Policies := policies\<rparr>;
                  ((inlinePolicies, err), w) \<leftarrow> getInlinePolicies rm ko w;
                  let ko = ko\<lparr>Spec_InlinePolicies := inlinePolicies\<rparr>;
                  (case err of
                     Some e \<Rightarrow> Some ((None, Some e), w)
                   | None \<Rightarrow> do {
                       ((tags, err), w) \<leftarrow> getTags rm ko w;
                       (case err of
                          Some e \<Rightarrow> Some ((None, Some e), w)
                        | None \<Rightarrow> Some ((Some (ko\<lparr>Spec_Tags := tags\<rparr>), None), w)) }) }) })
      })"

subsection \<open>sdk.go: creating\<close>

definition newCreateRequestPayload :: "User \<Rightarrow> CreateUserInput" where
  "newCreateRequestPayload r = \<lparr>Create_Path = Spec_Path r, Create_PermissionsBoundary = Spec_PermissionsBoundary r,
     Create_Tags = map_option (map copyTag) (Spec_Tags r), Create_UserName = Spec_Name r\<rparr>"

text \<open>The condition \<open>sdkCreate\<close> sets makes the reconciler come back for the policies and tags.\<close>

definition sdkCreate :: "('b, 'p) rm \<Rightarrow> User \<Rightarrow> ('b, User ptr \<times> error option) go" where
  "sdkCreate rm desired w = do {
     let ((resp, err), w) = sdk_call (CreateUser (sdkapi rm) (newCreateRequestPayload desired)) w;
     let w = RecordAPICall ''CREATE'' ''CreateUser'' err w;
     (case err of
        Some e \<Rightarrow> Some ((None, Some e), w)
      | None \<Rightarrow> do {
          output \<leftarrow> resp;
          u \<leftarrow> output;
          let ko = setStatusDefaults rm (fromSdkUser u desired);
          Some ((Some (setConditions (\<lambda>cs. SetSynced (rt rm) cs ConditionFalse None None) ko), None), w) })
   }"

subsection \<open>sdk.go: updating and deleting\<close>

definition newUpdateRequestPayload :: "User \<Rightarrow> UpdateUserInput" where
  "newUpdateRequestPayload r = \<lparr>Update_UserName = Spec_Name r, Update_NewPath = None\<rparr>"

definition sdkUpdate ::
  "('b, 'p) rm \<Rightarrow> 'd compare_rt \<Rightarrow> User \<Rightarrow> User \<Rightarrow> 'd \<Rightarrow> ('b, User ptr \<times> error option) go" where
  "sdkUpdate rm c desired latest delta w = do {
     (err, w) \<leftarrow> for_each (\<lambda>(path, f). when_different c delta path f)
       [(''Spec.Policies'', syncManagedPolicies rm desired latest),
        (''Spec.InlinePolicies'', syncInlinePolicies rm desired latest),
        (''Spec.Tags'', syncTags rm desired latest),
        (''Spec.PermissionsBoundary'', syncUserPermissionsBoundary rm desired)] w;
     (case err of
        Some e \<Rightarrow> Some ((None, Some e), w)
      | None \<Rightarrow>
          if \<not> DifferentExcept c delta [''Spec.Tags'', ''Spec.Policies'', ''Spec.InlinePolicies'',
               ''Spec.PermissionsBoundary'']
          then Some ((Some desired, None), w)
          else
            (let input = newUpdateRequestPayload desired;
                 input = (if Spec_Path desired \<noteq> None then input\<lparr>Update_NewPath := Spec_Path desired\<rparr> else input);
                 (err, w) = sdk_call (UpdateUser (sdkapi rm) input) w;
                 w = RecordAPICall ''UPDATE'' ''UpdateUser'' err w
             in case err of
                  Some e \<Rightarrow> Some ((None, Some e), w)
                | None \<Rightarrow> Some ((Some (setStatusDefaults rm desired), None), w)))
   }"

definition newDeleteRequestPayload :: "User \<Rightarrow> string ptr" where
  "newDeleteRequestPayload r = Spec_Name r"

definition sdkDelete :: "('b, 'p) rm \<Rightarrow> User \<Rightarrow> ('b, User ptr \<times> error option) go" where
  "sdkDelete rm r w = do {
     let userCpy = r\<lparr>Spec_Policies := None\<rparr>;
     (err, w) \<leftarrow> syncManagedPolicies rm userCpy r w;
     (case err of
        Some e \<Rightarrow> Some ((None, Some e), w)
      | None \<Rightarrow> do {
          let userCpy = userCpy\<lparr>Spec_InlinePolicies := []\<rparr>;
          (err, w) \<leftarrow> syncInlinePolicies rm userCpy r w;
          (case err of
             Some e \<Rightarrow> Some ((None, Some e), w)
           | None \<Rightarrow>
               (let input = newDeleteRequestPayload r;
                    (err, w) = sdk_call (DeleteUser (sdkapi rm) input) w;
                    w = RecordAPICall ''DELETE'' ''DeleteUser'' err w
                in Some ((None, err), w))) })
   }"

definition terminalCodes :: "string list" where
  "terminalCodes = [''InvalidInput'']"

subsection \<open>delta.go\<close>

definition newResourceDelta :: "ack_rt \<Rightarrow> 'd compare_rt \<Rightarrow> User ptr \<Rightarrow> User ptr \<Rightarrow> 'd option" where
  "newResourceDelta r c a b =
     (if (a = None \<and> b \<noteq> None) \<or> (a \<noteq> None \<and> b = None) then Some (delta_Add c (NewDelta c) [])
      else do {
        a \<leftarrow> a;
        b \<leftarrow> b;
        delta \<leftarrow> compareTags r c (NewDelta c) a b;
        let delta = compareMapField c ''Spec.InlinePolicies'' (Spec_InlinePolicies a) (Spec_InlinePolicies b) delta;
        let delta = compareStringField c ''Spec.Name'' (Spec_Name a) (Spec_Name b) delta;
        let delta = compareStringField c ''Spec.Path'' (Spec_Path a) (Spec_Path b) delta;
        let delta = compareStringField c ''Spec.PermissionsBoundary''
          (Spec_PermissionsBoundary a) (Spec_PermissionsBoundary b) delta;
        let delta = addWhen c ''Spec.PermissionsBoundaryRef''
          (\<not> DeepEqualRef c (Spec_PermissionsBoundaryRef a) (Spec_PermissionsBoundaryRef b)) delta;
        let delta = compareStringsField c ''Spec.Policies'' (Spec_Policies a) (Spec_Policies b) delta;
        let delta = addWhen c ''Spec.PolicyRefs''
          (\<not> DeepEqualRefs c (Spec_PolicyRefs a) (Spec_PolicyRefs b)) delta;
        Some delta
      })"

end
