(* ===== verification/UserManager.thy ===== *)
theory UserManager
  imports UserSdk
begin

text \<open>
  \<open>pkg/resource/user/manager.go\<close>, \<open>resource.go\<close>, \<open>descriptor.go\<close> and \<open>references.go\<close>: the entry
  points of \<open>Manager\<close> over the user's own functions, and the fields that identify a user.
\<close>

subsection \<open>manager.go\<close>

definition lateInitializeFieldNames :: "string list" where
  "lateInitializeFieldNames = [''Path'']"

definition mirrorAWSTags :: "ack_rt \<Rightarrow> User \<Rightarrow> User ptr \<Rightarrow> User" where
  "mirrorAWSTags r a b = (case b of
     None \<Rightarrow> a
   | Some b \<Rightarrow> a\<lparr>Spec_Tags := mirroredTags r (Spec_Tags a) (Spec_Tags b)\<rparr>)"

definition ReadOne :: "('b, 'p) rm \<Rightarrow> User ptr \<Rightarrow> ('b, (User ptr \<times> error option) \<times> User) go" where
  "ReadOne rm res w = read_one sdkFind (\<lambda>rm. mirrorAWSTags (rt rm)) terminalCodes rm res w"

definition Create :: "('b, 'p) rm \<Rightarrow> User ptr \<Rightarrow> ('b, User ptr \<times> error option) go" where
  "Create rm res w = create_or_delete sdkCreate terminalCodes rm res w"

definition Update ::
  "('b, 'p) rm \<Rightarrow> 'd compare_rt \<Rightarrow> User ptr \<Rightarrow> User ptr \<Rightarrow> 'd \<Rightarrow> ('b, User ptr \<times> error option) go" where
  "Update rm c resDesired resLatest delta w =
     update_with (\<lambda>rm desired latest delta. sdkUpdate rm c desired latest delta) terminalCodes rm resDesired resLatest delta w"

definition Delete :: "('b, 'p) rm \<Rightarrow> User ptr \<Rightarrow> ('b, User ptr \<times> error option) go" where
  "Delete rm res w = create_or_delete sdkDelete terminalCodes rm res w"

definition incompleteLateInitialization :: "User \<Rightarrow> bool" where
  "incompleteLateInitialization ko = (if Spec_Path ko = None then True else False)"

definition lateInitializeFromReadOneOutput :: "User \<Rightarrow> User \<Rightarrow> User" where
  "lateInitializeFromReadOneOutput observedKo latestKo =
     latestKo\<lparr>Spec_Path := late_field (Spec_Path observedKo) (Spec_Path latestKo)\<rparr>"

definition LateInitialize :: "('b, 'p) rm \<Rightarrow> User ptr \<Rightarrow> ('b, User ptr \<times> error option) go" where
  "LateInitialize rm latest w =
     late_initialize lateInitializeFieldNames (ReadOne rm) lateInitializeFromReadOneOutput
       incompleteLateInitialization rm latest w"

definition EnsureTags :: "('b, 'p) rm \<Rightarrow> User ptr \<Rightarrow> (User \<times> error option) option" where
  "EnsureTags rm res = do {
     ko \<leftarrow> res;
     Some (ko\<lparr>Spec_Tags := ensuredTags (rt rm) (Spec_Tags ko)\<rparr>, None) }"

definition FilterSystemTags :: "('b, 'p) rm \<Rightarrow> User ptr \<Rightarrow> string list \<Rightarrow> User ptr" where
  "FilterSystemTags rm res systemTags = (case res of
     None \<Rightarrow> None
   | Some ko \<Rightarrow> Some (ko\<lparr>Spec_Tags := filteredTags (rt rm) systemTags (Spec_Tags ko)\<rparr>))"

subsection \<open>resource.go and descriptor.go\<close>

definition FinalizerString :: string where
  "FinalizerString = ''finalizers.iam.services.k8s.aws/User''"

definition SetStatus :: "User \<Rightarrow> User \<Rightarrow> User" where
  "SetStatus desired r = r\<lparr>Status_ACKResourceMetadata := Status_ACKResourceMetadata desired,
     Status_Conditions := Status_Conditions desired, Status_CreateDate := Status_CreateDate desired,
     Status_PasswordLastUsed := Status_PasswordLastUsed desired, Status_UserID := Status_UserID desired\<rparr>"

definition SetIdentifiers :: "string \<Rightarrow> User \<Rightarrow> User \<times> error option" where
  "SetIdentifiers nameOrID r =
     (if nameOrID = [] then (r, Some MissingNameIdentifier) else (r\<lparr>Spec_Name := Some nameOrID\<rparr>, None))"

definition PopulateResourceFromAnnotation :: "ack_rt \<Rightarrow> (string, string) gomap \<Rightarrow> User \<Rightarrow> User \<times> error option" where
  "PopulateResourceFromAnnotation q annotation r = (case map_of annotation ''name'' of
     None \<Rightarrow> (r, Some (NewTerminalError q (Errorf ''required field missing: name'')))
   | Some f0 \<Rightarrow> (r\<lparr>Spec_Name := Some f0\<rparr>, None))"

definition Delta :: "ack_rt \<Rightarrow> 'd compare_rt \<Rightarrow> User ptr \<Rightarrow> User ptr \<Rightarrow> 'd option" where
  "Delta r c a b = newResourceDelta r c a b"

subsection \<open>references.go\<close>

definition ClearResolvedReferences :: "User \<Rightarrow> User" where
  "ClearResolvedReferences res = clear_resolved_references res"

definition validateReferenceFields :: "ack_rt \<Rightarrow> User \<Rightarrow> error option" where
  "validateReferenceFields r ko = validate_reference_fields r ko"

definition resolveReferenceForPermissionsBoundary ::
  "'m resourceManager_scheme \<Rightarrow> reader \<Rightarrow> User \<Rightarrow> (bool \<times> error option) \<times> User" where
  "resolveReferenceForPermissionsBoundary rm apiReader ko = resolve_boundary_reference rm apiReader ko"

definition resolveReferenceForPolicies ::
  "'m resourceManager_scheme \<Rightarrow> reader \<Rightarrow> User \<Rightarrow> (bool \<times> error option) \<times> User" where
  "resolveReferenceForPolicies rm apiReader ko = resolve_policies_reference rm apiReader ko"

definition ResolveReferences ::
  "'m resourceManager_scheme \<Rightarrow> reader \<Rightarrow> User \<Rightarrow> User \<times> bool \<times> error option" where
  "ResolveReferences rm apiReader res = resolve_references rm apiReader res"

end
