(* ===== verification/UserSync.thy ===== *)
theory UserSync
  imports UserManager
begin

text \<open>
  What the user package achieves: \<open>sdkUpdate\<close> refines one assignment to the user's entry of the
  directory of \<open>Principal\<close>, \<open>sdkFind\<close> reads that entry back, \<open>sdkDelete\<close> empties it first. IAM is
  not part of the repository; the documented effect of its calls on the directory is the hypothesis
  \<open>user_service\<close>, what its reading calls answer is \<open>user_answers\<close>.
\<close>

subsection \<open>The documented effect of the API calls\<close>

definition user_service :: "('b, 'p) user_sdk \<Rightarrow> ('b \<Rightarrow> directory) \<Rightarrow> bool" where
  "user_service sdk dir \<longleftrightarrow>
     (\<forall>n p b b'. AttachUserPolicy sdk (Some n) (Some p) b = (None, b') \<longrightarrow> dir b' = at n (attach p) (dir b)) \<and>
     (\<forall>n p b b'. DetachUserPolicy sdk (Some n) (Some p) b = (None, b') \<longrightarrow> dir b' = at n (detach p) (dir b)) \<and>
     (\<forall>n k d b b'. PutUserPolicy sdk (Some n) (Some k) (Some d) b = (None, b') \<longrightarrow> dir b' = at n (put_inline k d) (dir b)) \<and>
     (\<forall>n k b b'. DeleteUserPolicy sdk (Some n) (Some k) b = (None, b') \<longrightarrow> dir b' = at n (delete_inline k) (dir b)) \<and>
     (\<forall>n p b b'. PutUserPermissionsBoundary sdk (Some n) (Some p) b = (None, b') \<longrightarrow> dir b' = at n (set_boundary (Some p)) (dir b)) \<and>
     (\<forall>n b b'. DeleteUserPermissionsBoundary sdk (Some n) b = (None, b') \<longrightarrow> dir b' = at n (set_boundary None) (dir b)) \<and>
     (\<forall>n ts b b'. tag_set ts \<longrightarrow> TagUser sdk (Some n) ts b = (None, b') \<longrightarrow> dir b' = at n (add_tags (tag_map ts)) (dir b)) \<and>
     (\<forall>n ks b b'. UntagUser sdk (Some n) ks b = (None, b') \<longrightarrow> dir b' = at n (remove_tags (set ks)) (dir b)) \<and>
     (\<forall>input b b'. UpdateUser sdk input b = (None, b') \<longrightarrow> dir b' = dir b)"

text \<open>The user's policy calls meet the contract of \<open>holder_calls\<close>.\<close>

interpretation user_calls: holder_calls
  "\<lambda>(rm, r, n, dir). user_service (sdkapi rm) dir \<and> Spec_Name r = Some n" "\<lambda>(rm, r, n, dir). rt rm"
  "\<lambda>(rm, r, n, dir). dir" "\<lambda>(rm, r, n, dir). n"
  "\<lambda>(rm, r, n, dir). addManagedPolicy rm r" "\<lambda>(rm, r, n, dir). removeManagedPolicy rm r"
  "\<lambda>(rm, r, n, dir). addInlinePolicy rm r" "\<lambda>(rm, r, n, dir). removeInlinePolicy rm r"
  by unfold_locales
    (auto simp: user_service_def addManagedPolicy_def removeManagedPolicy_def addInlinePolicy_def removeInlinePolicy_def
      prod_eq_iff split_beta split: option.splits)

subsection \<open>The hooks on the directory\<close>

lemma user_syncManagedPolicies_dir:
  assumes "in_string_ok (rt rm)" and "user_service (sdkapi rm) dir" and "Spec_Name desired = Some n"
    and "elems (Spec_Policies desired) = map Some ds" and "elems (Spec_Policies latest) = map Some ls"
    and "p_managed (dir (aws w) n) = set ls"
    and "syncManagedPolicies rm desired latest w = Some (None, w')"
  shows "dir (aws w') = at n (\<lambda>x. x\<lparr>p_managed := set ds\<rparr>) (dir (aws w))"
  using user_calls.sync_managed [of "(rm, desired, n, dir)" "rt rm" desired ds latest ls w w'] assms
  by (simp add: syncManagedPolicies_def)

lemma user_syncInlinePolicies_dir:
  assumes "lo_ok (rt rm)" and "user_service (sdkapi rm) dir" and "Spec_Name desired = Some n"
    and "Spec_InlinePolicies desired = point_at ds" "wf_map ds"
    and "Spec_InlinePolicies latest = point_at ls" "wf_map ls" "p_inline (dir (aws w) n) = map_of ls"
    and "syncInlinePolicies rm desired latest w = Some (None, w')"
  shows "dir (aws w') = at n (\<lambda>x. x\<lparr>p_inline := put_documents (\<lambda>d. fst (decodeDocument (rt rm) d)) (map_of ls) (map_of ds)\<rparr>) (dir (aws w))"
  using user_calls.sync_inline [of "(rm, desired, n, dir)" "rt rm" desired ds latest ls w w'] assms
  by (simp add: syncInlinePolicies_def)

lemma syncUserPermissionsBoundary_dir:
  assumes "user_service (sdkapi rm) dir" and "Spec_Name r = Some n"
    and "syncUserPermissionsBoundary rm r w = Some (None, w')"
  shows "dir (aws w') = at n (set_boundary (nonempty (Spec_PermissionsBoundary r))) (dir (aws w))"
  using assms
  by (cases "Spec_PermissionsBoundary r")
    (auto simp: syncUserPermissionsBoundary_def putUserPermissionsBoundary_def deleteUserPermissionsBoundary_def
      user_service_def nonempty_def prod_eq_iff split: if_splits)

lemma syncTags_dir:
  assumes ok: "user_service (sdkapi rm) dir" and n: "Spec_Name desired = Some n"
    and ds: "tag_set (elems (Spec_Tags desired))" and ls: "tag_set (elems (Spec_Tags latest))"
    and p: "p_tags (dir (aws w) n) = tag_map (elems (Spec_Tags latest))"
    and run: "syncTags rm desired latest w = Some (None, w')"
  shows "dir (aws w') = at n (\<lambda>x. x\<lparr>p_tags := synced_tags (tag_map (elems (Spec_Tags latest)))
    (tag_map (elems (Spec_Tags desired)))\<rparr>) (dir (aws w))"
proof -
  let ?ds = "elems (Spec_Tags desired)" and ?ls = "elems (Spec_Tags latest)"
  let ?add = "filter (\<lambda>t. t \<notin> set ?ls) ?ds" and ?del = "filter (\<lambda>t. t \<notin> set ?ds) ?ls"
  have sets: "tag_set ?add" "tag_set ?del" using ds ls by (simp_all add: tag_set_filter)
  obtain u where add: "(if ?add \<noteq> [] then addTags rm desired ?add w else Some (None, w)) = Some (None, u)"
    and del: "(if ?del \<noteq> [] then removeTags rm desired ?del u else Some (None, u)) = Some (None, w')"
    using run ds ls by (auto simp: syncTags_def Let_def notInTags_tag_set split: Option.bind_splits option.splits)
  have "dir (aws u) = at n (add_tags (tag_map ?add)) (dir (aws w))"
    using add ok n sets(1)
    by (cases "?add = []") (auto simp: addTags_def user_service_def prod_eq_iff tag_map_def)
  moreover have "dir (aws w') = at n (remove_tags (set (tag_keys ?del))) (dir (aws u))"
    using del ok n sets(2)
    by (cases "?del = []")
      (auto simp: removeTags_def traverse_Key user_service_def prod_eq_iff tag_keys_def)
  ultimately show ?thesis using tags_settle [of ?ls ?ds "dir (aws w)" n, OF ls ds p] by simp
qed

subsection \<open>The delta\<close>

definition tagsDiffer :: "User \<Rightarrow> User \<Rightarrow> bool" where
  "tagsDiffer a b \<longleftrightarrow> set (elems (Spec_Tags a)) \<noteq> set (elems (Spec_Tags b))"

definition differences :: "'d compare_rt \<Rightarrow> User \<Rightarrow> User \<Rightarrow> (string \<times> bool) list" where
  "differences c a b =
     [(''Spec.Tags'', tagsDiffer a b),
      (''Spec.InlinePolicies'', mapsDiffer c (Spec_InlinePolicies a) (Spec_InlinePolicies b)),
      (''Spec.Name'', stringDiffers c (Spec_Name a) (Spec_Name b)),
      (''Spec.Path'', stringDiffers c (Spec_Path a) (Spec_Path b)),
      (''Spec.PermissionsBoundary'', stringDiffers c (Spec_PermissionsBoundary a) (Spec_PermissionsBoundary b)),
      (''Spec.PermissionsBoundaryRef'', \<not> DeepEqualRef c (Spec_PermissionsBoundaryRef a) (Spec_PermissionsBoundaryRef b)),
      (''Spec.Policies'', stringsDiffer c (Spec_Policies a) (Spec_Policies b)),
      (''Spec.PolicyRefs'', \<not> DeepEqualRefs c (Spec_PolicyRefs a) (Spec_PolicyRefs b))]"

definition delta_paths :: "string set" where
  "delta_paths = {''Spec.Tags'', ''Spec.InlinePolicies'', ''Spec.Name'', ''Spec.Path'', ''Spec.PermissionsBoundary'',
     ''Spec.PermissionsBoundaryRef'', ''Spec.Policies'', ''Spec.PolicyRefs''}"

lemma user_paths_of_differences: "fst ` set (differences c a b) = delta_paths"
  by (simp add: differences_def delta_paths_def)

lemma user_newResourceDelta_report:
  assumes "in_string_ok r" and "tag_set (elems (Spec_Tags a))" and "tag_set (elems (Spec_Tags b))"
  shows "newResourceDelta r c (Some a) (Some b) = Some (report c (differences c a b))"
  by (simp add: newResourceDelta_def compareTags_def compareTagLists_tag_set [OF assms] compare_addWhen Let_def
      report_def differences_def tagsDiffer_def)

text \<open>What the delta says of the parts the hooks keep in line, for resources that describe principals.\<close>

lemma user_delta_of_described:
  assumes c: "comparison_ok c delta_paths" and r: "in_string_ok r"
    and a: "describes a x" and b: "describes b y"
    and delta: "newResourceDelta r c (Some a) (Some b) = Some delta"
  shows "DifferentAt c delta ''Spec.Policies'' \<longleftrightarrow> p_managed x \<noteq> p_managed y"
    and "DifferentAt c delta ''Spec.InlinePolicies'' \<longleftrightarrow> p_inline x \<noteq> p_inline y"
    and "DifferentAt c delta ''Spec.Tags'' \<longleftrightarrow> p_tags x \<noteq> p_tags y"
    and "\<not> DifferentAt c delta ''Spec.PermissionsBoundary'' \<Longrightarrow> p_boundary x = p_boundary y"
    and "Spec_PermissionsBoundary a = Spec_PermissionsBoundary b \<Longrightarrow> \<not> DifferentAt c delta ''Spec.PermissionsBoundary''"
proof -
  have tags: "tag_set (elems (Spec_Tags a))" "tag_set (elems (Spec_Tags b))" using a b by (simp_all add: describes_def)
  have delta_eq: "delta = report c (differences c a b)" using user_newResourceDelta_report [OF r tags, of c] delta by simp
  have at: "DifferentAt c delta q \<longleftrightarrow> (q, True) \<in> set (differences c a b)" if "q \<in> delta_paths" for q
    unfolding delta_eq using c that by (intro DifferentAt_report) (auto simp: comparison_ok_def user_paths_of_differences)
  have policies: "describes_policies a x" "describes_policies b y" using a b by (simp_all add: describes_def)
  show "DifferentAt c delta ''Spec.Policies'' \<longleftrightarrow> p_managed x \<noteq> p_managed y"
    using at [of "''Spec.Policies''"] described_policies_differ [OF c policies] by (simp add: delta_paths_def differences_def)
  show "DifferentAt c delta ''Spec.InlinePolicies'' \<longleftrightarrow> p_inline x \<noteq> p_inline y"
    using at [of "''Spec.InlinePolicies''"] described_policies_differ [OF c policies] by (simp add: delta_paths_def differences_def)
  show "DifferentAt c delta ''Spec.Tags'' \<longleftrightarrow> p_tags x \<noteq> p_tags y"
    using at [of "''Spec.Tags''"] a b tag_map_eq_iff [OF tags]
    by (simp add: delta_paths_def differences_def tagsDiffer_def describes_def)
  show "p_boundary x = p_boundary y" if "\<not> DifferentAt c delta ''Spec.PermissionsBoundary''"
    using at [of "''Spec.PermissionsBoundary''"] that c a b
      stringDiffers_nonempty [of c "Spec_PermissionsBoundary a" "Spec_PermissionsBoundary b"]
    by (simp add: delta_paths_def differences_def comparison_ok_def describes_def)
  show "\<not> DifferentAt c delta ''Spec.PermissionsBoundary''" if "Spec_PermissionsBoundary a = Spec_PermissionsBoundary b"
    using at [of "''Spec.PermissionsBoundary''"] that c
    by (cases "Spec_PermissionsBoundary b")
      (auto simp: delta_paths_def differences_def comparison_ok_def stringDiffers_def nil_difference_ok_def)
qed

subsection \<open>An update\<close>

lemma sdkUpdate_steps:
  assumes "user_service (sdkapi rm) dir" and "sdkUpdate rm c desired latest delta w = Some ((res, None), w')"
  obtains w1 w2 w3 w4 where
    "when_different c delta ''Spec.Policies'' (syncManagedPolicies rm desired latest) w = Some (None, w1)"
    "when_different c delta ''Spec.InlinePolicies'' (syncInlinePolicies rm desired latest) w1 = Some (None, w2)"
    "when_different c delta ''Spec.Tags'' (syncTags rm desired latest) w2 = Some (None, w3)"
    "when_different c delta ''Spec.PermissionsBoundary'' (syncUserPermissionsBoundary rm desired) w3 = Some (None, w4)"
    "dir (aws w') = dir (aws w4)"
proof -
  have "dir b' = dir b" if "UpdateUser (sdkapi rm) input b = (None, b')" for input b b'
    using assms(1) that by (simp add: user_service_def)
  then obtain w4 where hooks: "for_each (\<lambda>(path, f). when_different c delta path f)
       [(''Spec.Policies'', syncManagedPolicies rm desired latest),
        (''Spec.InlinePolicies'', syncInlinePolicies rm desired latest),
        (''Spec.Tags'', syncTags rm desired latest),
        (''Spec.PermissionsBoundary'', syncUserPermissionsBoundary rm desired)] w = Some (None, w4)"
    and "dir (aws w') = dir (aws w4)"
    using assms(2) unfolding sdkUpdate_def
    by (auto simp del: for_each.simps simp: Let_def prod_eq_iff split: Option.bind_splits option.splits if_splits)
  moreover from hooks obtain w1 w2 w3 where
    "when_different c delta ''Spec.Policies'' (syncManagedPolicies rm desired latest) w = Some (None, w1)"
    "when_different c delta ''Spec.InlinePolicies'' (syncInlinePolicies rm desired latest) w1 = Some (None, w2)"
    "when_different c delta ''Spec.Tags'' (syncTags rm desired latest) w2 = Some (None, w3)"
    "when_different c delta ''Spec.PermissionsBoundary'' (syncUserPermissionsBoundary rm desired) w3 = Some (None, w4)"
    by (auto simp only: for_each_Cons_None for_each.simps(1) prod.case option.inject prod.inject)
  ultimately show ?thesis using that by blast
qed

lemma user_sdkUpdate_settles:
  assumes c: "comparison_ok c delta_paths" and r: "in_string_ok (rt rm)" "lo_ok (rt rm)"
    and ok: "user_service (sdkapi rm) dir" and n: "Spec_Name desired = Some n"
    and goal: "describes desired goal" and old: "describes latest (dir (aws w) n)"
    and delta: "newResourceDelta (rt rm) c (Some desired) (Some latest) = Some delta"
    and run: "sdkUpdate rm c desired latest delta w = Some ((res, None), w')"
  shows "dir (aws w') = (dir (aws w))(n := settled (rt rm) (dir (aws w) n) goal)"
proof -
  let ?old = "dir (aws w) n"
  note D = user_delta_of_described [OF c r(1) goal old delta]
  from sdkUpdate_steps [OF ok run] obtain w1 w2 w3 w4 where
    s1: "when_different c delta ''Spec.Policies'' (syncManagedPolicies rm desired latest) w = Some (None, w1)"
    and s2: "when_different c delta ''Spec.InlinePolicies'' (syncInlinePolicies rm desired latest) w1 = Some (None, w2)"
    and s3: "when_different c delta ''Spec.Tags'' (syncTags rm desired latest) w2 = Some (None, w3)"
    and s4: "when_different c delta ''Spec.PermissionsBoundary'' (syncUserPermissionsBoundary rm desired) w3 = Some (None, w4)"
    and last: "dir (aws w') = dir (aws w4)" .
  obtain ps qs where ps: "elems (Spec_Policies desired) = map Some ps" "set ps = p_managed goal"
    "elems (Spec_Policies latest) = map Some qs" "set qs = p_managed ?old"
    using goal old by (auto simp: describes_def describes_policies_def)
  obtain m m' where m: "Spec_InlinePolicies desired = point_at m" "wf_map m" "map_of m = p_inline goal"
    "Spec_InlinePolicies latest = point_at m'" "wf_map m'" "map_of m' = p_inline ?old"
    using goal old by (auto simp: describes_def describes_policies_def)
  have "dir (aws w4) = (dir (aws w))(n := settled (rt rm) ?old goal)"
    using s1 s2 s3 s4 refl
  proof (rule hooks_settle)
    show "dir (aws w1) = at n (\<lambda>x. x\<lparr>p_managed := p_managed goal\<rparr>) (dir (aws w))"
      if "syncManagedPolicies rm desired latest w = Some (None, w1)"
      using user_syncManagedPolicies_dir [OF r(1) ok n ps(1,3) _ that] ps by simp
    show "dir (aws w2) = at n (\<lambda>x. x\<lparr>p_inline := put_documents (\<lambda>d. fst (decodeDocument (rt rm) d))
        (p_inline ?old) (p_inline goal)\<rparr>) (dir (aws w1))"
      if "p_inline (dir (aws w1) n) = p_inline ?old" "syncInlinePolicies rm desired latest w1 = Some (None, w2)"
      using user_syncInlinePolicies_dir [OF r(2) ok n m(1,2,4,5) _ that(2)] that(1) m(3,6) by simp
    show "dir (aws w3) = at n (\<lambda>x. x\<lparr>p_tags := synced_tags (p_tags ?old) (p_tags goal)\<rparr>) (dir (aws w2))"
      if "p_tags (dir (aws w2) n) = p_tags ?old" "syncTags rm desired latest w2 = Some (None, w3)"
      using syncTags_dir [OF ok n _ _ _ that(2)] that(1) goal old by (simp add: describes_def)
    show "dir (aws w4) = at n (set_boundary (p_boundary goal)) (dir (aws w3))"
      if "syncUserPermissionsBoundary rm desired w3 = Some (None, w4)"
      using syncUserPermissionsBoundary_dir [OF ok n that] goal by (simp add: describes_def)
  qed (simp_all add: D)
  then show ?thesis using last by simp
qed

subsection \<open>Reading a user\<close>

text \<open>
  What IAM answers in the backend state \<open>b\<close> about the user \<open>n\<close> of the directory: the user, the pages
  of its policies, its tags on one page. None of the calls changes anything.
\<close>

definition user_answers :: "('b, 'p) rm \<Rightarrow> ('b \<Rightarrow> directory) \<Rightarrow> 'b \<Rightarrow> string \<Rightarrow> bool" where
  "user_answers rm dir b n \<longleftrightarrow>
     (\<exists>u. GetUser (sdkapi rm) (Some n) b = ((Some (Some u), None), b) \<and> User_UserName u = Some n \<and>
        (case User_PermissionsBoundary u of Some arn \<Rightarrow> arn | None \<Rightarrow> None) = p_boundary (dir b n)) \<and>
     p_boundary (dir b n) \<noteq> Some [] \<and>
     (\<exists>ps. distinct ps \<and> set ps = p_managed (dir b n) \<and> (\<forall>w. aws w = b \<longrightarrow> (\<exists>pages. concat pages = map Some ps \<and>
        lists (AttachedUserPolicies_HasMorePages (sdkapi rm)) (\<lambda>p. sdk_call (AttachedUserPolicies_NextPage (sdkapi rm) p))
          (NewListAttachedUserPoliciesPaginator (sdkapi rm) (Some n)) w pages w))) \<and>
     (\<forall>w. aws w = b \<longrightarrow> (\<exists>pages. set (concat pages) = dom (p_inline (dir b n)) \<and>
        lists (UserPolicies_HasMorePages (sdkapi rm)) (\<lambda>p. sdk_call (UserPolicies_NextPage (sdkapi rm) p))
          (NewListUserPoliciesPaginator (sdkapi rm) (Some n)) w pages w)) \<and>
     reads_inline (GetUserPolicy (sdkapi rm) (Some n)) (\<lambda>b. p_inline (dir b n)) \<and>
     (\<exists>ts. tag_set ts \<and> tag_map ts = p_tags (dir b n) \<and>
        ListUserTags (sdkapi rm) (Some n) None b = ((Some \<lparr>Tags = ts, IsTruncated = False, Marker = None\<rparr>, None), b))"

lemma getTags_single_page:
  assumes "ListUserTags (sdkapi rm) (Spec_Name r) None (aws w) =
    ((Some \<lparr>Tags = ts, IsTruncated = False, Marker = m\<rparr>, None), aws w)"
  shows "getTags rm r w = Some ((Some ts, None), RecordAPICall ''READ_MANY'' ''ListUserTags'' None w)"
  using assms by (simp add: getTags_def tagPages.simps [of rm])

text \<open>
  When every page of the listing is truncated, the loop asks for the first page again and again:
  the call does not return.
\<close>

lemma tagPages_truncated:
  assumes "\<And>b. \<exists>resp. fst (ListUserTags (sdkapi rm) n None b) = (Some resp, None) \<and> IsTruncated resp"
  shows "tagPages rm n res w = None"
proof -
  have never: "rm' = rm \<longrightarrow> n' = n \<longrightarrow> False" if "tagPages rm' n' res w = Some y" for rm' n' res w y
    using that
  proof (rule tagPages.raw_induct [of "\<lambda>rm' n' res w y. rm' = rm \<longrightarrow> n' = n \<longrightarrow> False", rotated])
    fix f :: "('a, 'b) rm \<Rightarrow> string ptr \<Rightarrow> Tag list \<Rightarrow> 'a world \<Rightarrow> ((Tag list \<times> error option) \<times> 'a world) option"
      and rm' n' res w y
    assume IH: "\<And>rm' n' res w y. f rm' n' res w = Some y \<Longrightarrow> rm' = rm \<longrightarrow> n' = n \<longrightarrow> False"
      and body: "do {
         let ((resp, err), w) = sdk_call (ListUserTags (sdkapi rm') n' None) w;
         (case (err, resp) of
            (None, Some resp) \<Rightarrow> do {
              let res = res @ map copyTag (Tags resp);
              if \<not> IsTruncated resp then Some ((res, err), w)
              else f rm' n' res w }
          | _ \<Rightarrow> Some ((res, err), w)) } = Some y"
    show "rm' = rm \<longrightarrow> n' = n \<longrightarrow> False"
      using assms [of "aws w"] body by (cases y) (auto dest: IH)
  qed
  show ?thesis
  proof (cases "tagPages rm n res w")
    case (Some y)
    then show ?thesis using never by blast
  qed
qed

lemma user_sdkFind_describes:
  assumes ord: "valid_order (map_order (rt rm))" and ans: "user_answers rm dir (aws w) n" and n: "Spec_Name r = Some n"
  shows "\<exists>ko w'. sdkFind rm r w = Some ((Some ko, None), w') \<and> describes ko (dir (aws w) n) \<and> Spec_Name ko = Some n \<and>
    Spec_PermissionsBoundary ko = p_boundary (dir (aws w) n) \<and> aws w' = aws w"
proof -
  let ?x = "dir (aws w) n"
  from ans obtain u where u: "GetUser (sdkapi rm) (Some n) (aws w) = ((Some (Some u), None), aws w)" "User_UserName u = Some n"
    "(case User_PermissionsBoundary u of Some arn \<Rightarrow> arn | None \<Rightarrow> None) = p_boundary ?x"
    by (auto simp: user_answers_def)
  let ?w1 = "RecordAPICall ''READ_ONE'' ''GetUser'' None w"
  let ?ko1 = "setStatusDefaults rm (fromSdkUser u r)"
  have spec: "Spec_Name ?ko1 = Some n" "Spec_PermissionsBoundary ?ko1 = p_boundary ?x"
    by (simp_all add: setStatusDefaults_def fromSdkUser_def Let_def u(2,3))
  from ans obtain ps pages where ps: "distinct ps" "set ps = p_managed ?x" "concat pages = map Some ps"
    and lists: "lists (AttachedUserPolicies_HasMorePages (sdkapi rm)) (\<lambda>p. sdk_call (AttachedUserPolicies_NextPage (sdkapi rm) p))
          (NewListAttachedUserPoliciesPaginator (sdkapi rm) (Some n)) ?w1 pages ?w1"
    unfolding user_answers_def by (metis aws_RecordAPICall)
  let ?w2 = "RecordAPICall ''READ_MANY'' ''ListAttachedUserPolicies'' None ?w1"
  have managed: "getManagedPolicies rm ?ko1 ?w1 = Some ((Some (map Some ps), None), ?w2)"
    using get_managed_policies_lists [OF lists] ps(3) by (simp add: getManagedPolicies_def spec)
  let ?ko2 = "?ko1\<lparr>Spec_Policies := Some (map Some ps)\<rparr>"
  have name2: "Spec_Name ?ko2 = Some n" using spec by simp
  from ans obtain ipages where names: "set (concat ipages) = dom (p_inline ?x)"
    and ilists: "lists (UserPolicies_HasMorePages (sdkapi rm)) (\<lambda>p. sdk_call (UserPolicies_NextPage (sdkapi rm) p))
          (NewListUserPoliciesPaginator (sdkapi rm) (Some n)) ?w2 ipages ?w2"
    unfolding user_answers_def by (metis aws_RecordAPICall)
  have "reads_inline (GetUserPolicy (sdkapi rm) (Some n)) (\<lambda>b. p_inline (dir b n))"
    using ans by (simp add: user_answers_def)
  from get_inline_policies_reads [OF ord this ilists, of "''ListUserPolicies''" "''GetUserPolicy''"] names obtain res w3 where
    inl: "getInlinePolicies rm ?ko2 ?w2 = Some ((res, None), w3)" "wf_map res" "map_of res = map_option Some \<circ> p_inline ?x"
      "aws w3 = aws w"
    unfolding getInlinePolicies_def name2 by auto
  from point_at_witness [OF inl(2,3)] obtain m where m: "res = point_at m" "wf_map m" "map_of m = p_inline ?x" by blast
  from ans obtain ts where ts: "tag_set ts" "tag_map ts = p_tags ?x"
    "ListUserTags (sdkapi rm) (Some n) None (aws w) = ((Some \<lparr>Tags = ts, IsTruncated = False, Marker = None\<rparr>, None), aws w)"
    by (auto simp: user_answers_def)
  let ?ko3 = "?ko2\<lparr>Spec_InlinePolicies := res\<rparr>"
  have "getTags rm ?ko3 w3 = Some ((Some ts, None), RecordAPICall ''READ_MANY'' ''ListUserTags'' None w3)"
    using ts(3) inl(4) spec by (intro getTags_single_page) simp
  then have "sdkFind rm r w = Some ((Some (?ko3\<lparr>Spec_Tags := Some ts\<rparr>), None), RecordAPICall ''READ_MANY'' ''ListUserTags'' None w3)"
    using u(1) managed inl(1)
    by (simp add: sdkFind_def requiredFieldsMissingFromReadOneInput_def newDescribeRequestPayload_def n)
  moreover have "describes (?ko3\<lparr>Spec_Tags := Some ts\<rparr>) ?x"
    using ps m ts(1,2) spec ans
    by (auto simp: describes_def describes_policies_def nonempty_def user_answers_def)
  ultimately show ?thesis using spec inl(4) by auto
qed

text \<open>
  The reconciler's round: after a successful update of a goal that can be reached as it is, the
  next \<open>sdkFind\<close> finds it, and the delta calls none of the hooks again.
\<close>

lemma update_find_settled:
  assumes c: "comparison_ok c delta_paths" and r: "in_string_ok (rt rm)" "lo_ok (rt rm)" "valid_order (map_order (rt rm))"
    and ok: "user_service (sdkapi rm) dir" and n: "Spec_Name desired = Some n"
    and goal: "describes desired goal" "Spec_PermissionsBoundary desired \<noteq> Some []" "reachable_goal (dir (aws w) n) goal"
    and old: "describes latest (dir (aws w) n)"
    and delta: "newResourceDelta (rt rm) c (Some desired) (Some latest) = Some delta"
    and run: "sdkUpdate rm c desired latest delta w = Some ((res, None), w')"
    and ans: "user_answers rm dir (aws w') n"
  shows "\<exists>ko delta' w''. sdkFind rm desired w' = Some ((Some ko, None), w'') \<and>
    newResourceDelta (rt rm) c (Some desired) (Some ko) = Some delta' \<and>
    (\<forall>p \<in> {''Spec.Policies'', ''Spec.InlinePolicies'', ''Spec.Tags'', ''Spec.PermissionsBoundary''}. \<not> DifferentAt c delta' p)"
proof -
  have "dir (aws w') n = goal"
    using user_sdkUpdate_settles [OF c r(1,2) ok n goal(1) old delta run] goal(3) by (simp add: settled_goal)
  with user_sdkFind_describes [OF r(3) ans n] obtain ko w'' where
    ko: "sdkFind rm desired w' = Some ((Some ko, None), w'')" "describes ko goal" "Spec_PermissionsBoundary ko = p_boundary goal"
    by auto
  have "Spec_PermissionsBoundary desired = Spec_PermissionsBoundary ko"
    using goal ko(3) by (auto simp: describes_def nonempty_def)
  moreover have "tag_set (elems (Spec_Tags desired))" "tag_set (elems (Spec_Tags ko))"
    using goal ko(2) by (simp_all add: describes_def)
  then obtain delta' where d: "newResourceDelta (rt rm) c (Some desired) (Some ko) = Some delta'"
    using user_newResourceDelta_report [OF r(1)] by blast
  ultimately show ?thesis using ko(1) user_delta_of_described [OF c r(1) goal(1) ko(2) d] by auto
qed

subsection \<open>Through the entry point\<close>

text \<open>An \<open>Update\<close> that returns no error ran \<open>sdkUpdate\<close> without one; \<open>Delta\<close> is the computed one.\<close>

lemma user_Update_run:
  assumes "aws_error_ok (rt rm)" and "unique_conditions (conditions_of latest)"
    and "Update rm c (Some desired) (Some latest) delta w = Some ((res, None), w')"
  obtains out where "sdkUpdate rm c desired latest delta w = Some ((out, None), w')"
proof -
  have "out = None" if "sdkUpdate rm c desired latest delta w = Some ((out, Some e), u)" for out e u
    using that by (auto simp: sdkUpdate_def Let_def prod_eq_iff split: Option.bind_splits option.splits if_splits)
  then show ?thesis
    using that update_with_success [where sdkUpdate = "\<lambda>rm. sdkUpdate rm c", OF assms(1,2)] assms(3) unfolding Update_def by blast
qed

lemma user_Update_settles:
  assumes "comparison_ok c delta_paths" and "in_string_ok (rt rm)" "lo_ok (rt rm)" "aws_error_ok (rt rm)"
    and "user_service (sdkapi rm) dir" and "Spec_Name desired = Some n"
    and "describes desired goal" and "describes latest (dir (aws w) n)" "unique_conditions (conditions_of latest)"
    and "Delta (rt rm) c (Some desired) (Some latest) = Some delta"
    and "Update rm c (Some desired) (Some latest) delta w = Some ((res, None), w')"
  shows "dir (aws w') = (dir (aws w))(n := settled (rt rm) (dir (aws w) n) goal)"
  using user_Update_run [OF assms(4,9,11)] user_sdkUpdate_settles [OF assms(1-3,5-8)] assms(10) by (metis Delta_def)

lemma Update_find_settled:
  assumes "comparison_ok c delta_paths" and "in_string_ok (rt rm)" "lo_ok (rt rm)" "aws_error_ok (rt rm)" "valid_order (map_order (rt rm))"
    and "user_service (sdkapi rm) dir" and "Spec_Name desired = Some n"
    and "describes desired goal" "Spec_PermissionsBoundary desired \<noteq> Some []" "reachable_goal (dir (aws w) n) goal"
    and "describes latest (dir (aws w) n)" "unique_conditions (conditions_of latest)"
    and "Delta (rt rm) c (Some desired) (Some latest) = Some delta"
    and "Update rm c (Some desired) (Some latest) delta w = Some ((res, None), w')"
    and "user_answers rm dir (aws w') n"
  shows "\<exists>ko delta' w''. sdkFind rm desired w' = Some ((Some ko, None), w'') \<and>
    Delta (rt rm) c (Some desired) (Some ko) = Some delta' \<and>
    (\<forall>p \<in> {''Spec.Policies'', ''Spec.InlinePolicies'', ''Spec.Tags'', ''Spec.PermissionsBoundary''}. \<not> DifferentAt c delta' p)"
proof -
  obtain out where run: "sdkUpdate rm c desired latest delta w = Some ((out, None), w')"
    using user_Update_run [OF assms(4,12,14)] .
  show ?thesis
    using update_find_settled [OF assms(1-3,5-11) _ run assms(15)] assms(13) by (simp add: Delta_def)
qed

subsection \<open>Deleting a user\<close>

text \<open>IAM refuses to delete a user that has policies: \<open>DeleteUser\<close> is called when there are none.\<close>

lemma user_sdkDelete_bare:
  assumes r: "in_string_ok (rt rm)" "lo_ok (rt rm)" and ok: "user_service (sdkapi rm) dir" and n: "Spec_Name r = Some n"
    and old: "describes_policies r (dir (aws w) n)"
    and run: "sdkDelete rm r w = Some ((res, None), w')"
  shows "\<exists>b. DeleteUser (sdkapi rm) (Some n) b = (None, aws w') \<and>
    dir b = (dir (aws w))(n := (dir (aws w) n)\<lparr>p_managed := {}, p_inline := Map.empty\<rparr>)"
proof -
  let ?cpy = "r\<lparr>Spec_Policies := None\<rparr>"
  let ?cpy2 = "?cpy\<lparr>Spec_InlinePolicies := []\<rparr>"
  obtain u v where first: "syncManagedPolicies rm ?cpy r w = Some (None, u)"
    and second: "syncInlinePolicies rm ?cpy2 r u = Some (None, v)"
    and last: "DeleteUser (sdkapi rm) (Some n) (aws v) = (None, aws w')"
    using run n by (auto simp: sdkDelete_def newDeleteRequestPayload_def Let_def prod_eq_iff
        split: Option.bind_splits option.splits)
  obtain ps where ps: "elems (Spec_Policies r) = map Some ps" "set ps = p_managed (dir (aws w) n)"
    using old by (auto simp: describes_policies_def)
  obtain m where m: "Spec_InlinePolicies r = point_at m" "wf_map m" "map_of m = p_inline (dir (aws w) n)"
    using old by (auto simp: describes_policies_def)
  have 1: "dir (aws u) = at n (\<lambda>x. x\<lparr>p_managed := {}\<rparr>) (dir (aws w))"
    using user_syncManagedPolicies_dir [OF r(1) ok _ _ ps(1) _ first, of n "[]"] n ps(2) by simp
  have "dir (aws v) = at n (\<lambda>x. x\<lparr>p_inline := Map.empty\<rparr>) (dir (aws u))"
    using user_syncInlinePolicies_dir [OF r(2) ok _ _ _ m(1,2) _ second, of n "[]"] n m(3)
    by (simp add: 1 at_def put_documents_def)
  with 1 last show ?thesis by (auto simp: at_def)
qed

end
