(* ===== verification/UserSamples.thy ===== *)
theory UserSamples
  imports UserSync Samples
begin

text \<open>
  A small IAM backend for users, on which the witnesses of the user properties are evaluated. Its
  listings have one page each; \<open>sample_dir\<close> reads the directory off it.
\<close>

record user_entry =
  u_managed :: "string list"
  u_inline :: "(string \<times> string) list"
  u_boundary :: "string option"
  u_tags :: "Tag list"

type_synonym users = "string \<Rightarrow> user_entry"

definition sample_dir :: "users \<Rightarrow> directory" where
  "sample_dir b n = \<lparr>p_managed = set (u_managed (b n)), p_inline = map_of (u_inline (b n)),
     p_boundary = u_boundary (b n), p_tags = tag_map (u_tags (b n))\<rparr>"

definition sample_user_of :: "users \<Rightarrow> string ptr \<Rightarrow> SdkUser" where
  "sample_user_of b n = \<lparr>User_Arn = Some ''arn:u'', User_CreateDate = Some 0, User_PasswordLastUsed = None,
     User_Path = Some ''/'', User_PermissionsBoundary = map_option Some (u_boundary (b (the n))), User_Tags = None,
     User_UserId = Some ''AIDA'', User_UserName = n\<rparr>"

definition sample_users_sdk :: "(users, string \<times> bool) user_sdk" where
  "sample_users_sdk = \<lparr>
     GetUser = (\<lambda>n b. ((Some (Some (sample_user_of b n)), None), b)),
     CreateUser = (\<lambda>input b. ((Some (Some (sample_user_of b (Create_UserName input))), None), b)),
     UpdateUser = (\<lambda>input b. (None, b)),
     DeleteUser = (\<lambda>n b. (None, b)),
     PutUserPermissionsBoundary = (\<lambda>n p b. (None, b(the n := (b (the n))\<lparr>u_boundary := p\<rparr>))),
     DeleteUserPermissionsBoundary = (\<lambda>n b. (None, b(the n := (b (the n))\<lparr>u_boundary := None\<rparr>))),
     AttachUserPolicy = (\<lambda>n p b. (None, b(the n := (b (the n))\<lparr>u_managed := List.insert (the p) (u_managed (b (the n)))\<rparr>))),
     DetachUserPolicy = (\<lambda>n p b. (None, b(the n := (b (the n))\<lparr>u_managed := removeAll (the p) (u_managed (b (the n)))\<rparr>))),
     PutUserPolicy = (\<lambda>n p d b. (None, b(the n := (b (the n))\<lparr>u_inline := AList.update (the p) (the d) (u_inline (b (the n)))\<rparr>))),
     DeleteUserPolicy = (\<lambda>n p b. (None, b(the n := (b (the n))\<lparr>u_inline := AList.delete (the p) (u_inline (b (the n)))\<rparr>))),
     GetUserPolicy = (\<lambda>n p b. ((Some (map_option pct_encode (map_of (u_inline (b (the n))) (the p))), None), b)),
     TagUser = (\<lambda>n ts b. (None, b(the n := (b (the n))\<lparr>u_tags := ts @ u_tags (b (the n))\<rparr>))),
     UntagUser = (\<lambda>n ks b. (None, b(the n := (b (the n))\<lparr>u_tags := filter (\<lambda>t. the (Key t) \<notin> set ks) (u_tags (b (the n)))\<rparr>))),
     ListUserTags = (\<lambda>n m b. ((Some \<lparr>Tags = u_tags (b (the n)), IsTruncated = False, Marker = None\<rparr>, None), b)),
     NewListAttachedUserPoliciesPaginator = (\<lambda>n. (the n, True)),
     AttachedUserPolicies_HasMorePages = snd,
     AttachedUserPolicies_NextPage = (\<lambda>p b. (((fst p, False), Some (map Some (u_managed (b (fst p)))), None), b)),
     NewListUserPoliciesPaginator = (\<lambda>n. (the n, True)),
     UserPolicies_HasMorePages = snd,
     UserPolicies_NextPage = (\<lambda>p b. (((fst p, False), Some (map fst (u_inline (b (fst p)))), None), b))\<rparr>"

definition sample_user_rm :: "(users, string \<times> bool) rm" where
  "sample_user_rm = \<lparr>rt = sample_rt, EnableCrossNamespace = False, awsAccountID = ''1'', awsRegion = ''us-east-1'',
     awsPartition = ''aws'', sdkapi = sample_users_sdk\<rparr>"

definition sample_user :: User where
  "sample_user = \<lparr>Namespace = ''default'', DeletionTimestamp = None, Finalizers = [], Annotations = [],
     Status_ACKResourceMetadata = None, Status_Conditions = None, Spec_InlinePolicies = [], Spec_Name = Some ''u'',
     Spec_Path = None, Spec_Policies = None, Spec_PolicyRefs = None, Status_CreateDate = None,
     Spec_PermissionsBoundary = None, Spec_PermissionsBoundaryRef = None, Spec_Tags = None,
     Status_PasswordLastUsed = None, Status_UserID = None\<rparr>"

definition no_user :: user_entry where
  "no_user = \<lparr>u_managed = [], u_inline = [], u_boundary = None, u_tags = []\<rparr>"

definition users_world :: "users \<Rightarrow> users world" where
  "users_world b = \<lparr>aws = b, api_calls = []\<rparr>"

lemma users_simps [simp]:
  "rt sample_user_rm = sample_rt" "sdkapi sample_user_rm = sample_users_sdk" "aws (users_world b) = b"
  "Spec_Name sample_user = Some ''u''" "Spec_Policies sample_user = None" "Spec_InlinePolicies sample_user = []"
  "Spec_PermissionsBoundary sample_user = None" "Spec_Tags sample_user = None" "Spec_Path sample_user = None"
  "Spec_PermissionsBoundaryRef sample_user = None" "Spec_PolicyRefs sample_user = None"
  by (simp_all add: sample_user_rm_def users_world_def sample_user_def)

text \<open>Replacing the entry of \<open>n\<close> is an operation on the principal \<open>n\<close>.\<close>

definition principal_of :: "user_entry \<Rightarrow> principal" where
  "principal_of e = \<lparr>p_managed = set (u_managed e), p_inline = map_of (u_inline e),
     p_boundary = u_boundary e, p_tags = tag_map (u_tags e)\<rparr>"

lemma sample_dir_upd: "principal_of e = f (principal_of (b n)) \<Longrightarrow> sample_dir (b(n := e)) = at n f (sample_dir b)"
  by (auto simp: sample_dir_def principal_of_def at_def fun_eq_iff)

lemma sample_user_service: "user_service sample_users_sdk sample_dir"
  unfolding user_service_def
  by (intro conjI allI impI; (simp only: sample_users_sdk_def user_sdk.simps prod.inject option.sel; elim conjE; hypsubst)?;
      (rule sample_dir_upd)?; simp add: principal_of_def principal_ops update_conv' delete_conv' tag_map_without tag_map_append)

lemma user_sample_lists:
  "lists snd (\<lambda>p. sdk_call (\<lambda>b. (((fst p, False), Some (g (b (fst p))), None), b))) (n, True) w [g (aws w n)] w"
  for g :: "user_entry \<Rightarrow> 'x list" and w :: "users world"
  by (rule lists.page [where p' = "(n, False)" and u = w]) (auto intro: lists.no_more)

lemma sample_user_answers:
  assumes "wf_map (u_inline (b n))" and "distinct (u_managed (b n))" and "tag_set (u_tags (b n))" and "u_boundary (b n) \<noteq> Some []"
  shows "user_answers sample_user_rm sample_dir b n"
  unfolding user_answers_def
proof (intro conjI allI impI)
  have "lists (AttachedUserPolicies_HasMorePages (sdkapi sample_user_rm))
      (\<lambda>p. sdk_call (AttachedUserPolicies_NextPage (sdkapi sample_user_rm) p))
      (NewListAttachedUserPoliciesPaginator (sdkapi sample_user_rm) (Some n)) w [map Some (u_managed (b n))] w"
    if "aws w = b" for w
    using that user_sample_lists [of "\<lambda>e. map Some (u_managed e)" n w] by (simp add: sample_users_sdk_def)
  moreover have "concat [map Some (u_managed (b n))] = map Some (u_managed (b n))" by simp
  ultimately show "\<exists>ps. distinct ps \<and> set ps = p_managed (sample_dir b n) \<and> (\<forall>w. aws w = b \<longrightarrow> (\<exists>pages. concat pages = map Some ps \<and>
      lists (AttachedUserPolicies_HasMorePages (sdkapi sample_user_rm))
        (\<lambda>p. sdk_call (AttachedUserPolicies_NextPage (sdkapi sample_user_rm) p))
        (NewListAttachedUserPoliciesPaginator (sdkapi sample_user_rm) (Some n)) w pages w))"
    using assms(2)
    by (intro exI [of _ "u_managed (b n)"]) (auto simp: sample_dir_def intro!: exI [of _ "[map Some (u_managed (b n))]"])
  show "\<exists>pages. set (concat pages) = dom (p_inline (sample_dir b n)) \<and>
      lists (UserPolicies_HasMorePages (sdkapi sample_user_rm)) (\<lambda>p. sdk_call (UserPolicies_NextPage (sdkapi sample_user_rm) p))
        (NewListUserPoliciesPaginator (sdkapi sample_user_rm) (Some n)) w pages w" if "aws w = b" for w
    using that user_sample_lists [of "\<lambda>e. map fst (u_inline e)" n w]
    by (intro exI [of _ "[map fst (u_inline (b n))]"]) (simp add: sample_dir_def sample_users_sdk_def dom_map_of_conv_image_fst)
qed (use assms in \<open>auto simp: sample_users_sdk_def sample_user_of_def sample_dir_def reads_inline_def split: option.splits\<close>)

lemma user_sample_comparison_ok: "comparison_ok sample_compare delta_paths"
  by (simp add: comparison_ok_def)

end
