(* ===== verification/UserProperties.thy ===== *)
theory UserProperties
  imports UserSamples
begin

text \<open>The properties of the user package.\<close>

subsection \<open>A concrete reconcile\<close>

definition wanted_user :: User where
  "wanted_user = sample_user\<lparr>Spec_Policies := Some [Some ''arn:p''], Spec_InlinePolicies := [(''i'', Some ''{}'')],
     Spec_PermissionsBoundary := Some ''arn:b'', Spec_Tags := Some [mkTag ''team'' ''a'']\<rparr>"

definition wanted_principal :: principal where
  "wanted_principal = \<lparr>p_managed = {''arn:p''}, p_inline = [''i'' \<mapsto> ''{}''], p_boundary = Some ''arn:b'',
     p_tags = [''team'' \<mapsto> ''a'']\<rparr>"

definition no_users :: users where
  "no_users = (\<lambda>_. no_user)"

definition wanted_delta :: "string list" where
  "wanted_delta = [''Spec.Tags'', ''Spec.InlinePolicies'', ''Spec.PermissionsBoundary'', ''Spec.Policies'']"

lemma wanted_simps [simp]:
  "Spec_Name wanted_user = Some ''u''" "Spec_Policies wanted_user = Some [Some ''arn:p'']"
  "Spec_InlinePolicies wanted_user = [(''i'', Some ''{}'')]" "Spec_PermissionsBoundary wanted_user = Some ''arn:b''"
  "Spec_Tags wanted_user = Some [mkTag ''team'' ''a'']" "Spec_Path wanted_user = None"
  "Spec_PermissionsBoundaryRef wanted_user = None" "Spec_PolicyRefs wanted_user = None"
  by (simp_all add: wanted_user_def)

lemma no_users_dir: "sample_dir no_users n = \<lparr>p_managed = {}, p_inline = Map.empty, p_boundary = None, p_tags = Map.empty\<rparr>"
  by (simp add: sample_dir_def no_users_def no_user_def tag_map_def)

lemma user_sample_describes: "describes wanted_user wanted_principal" "describes sample_user (sample_dir no_users ''u'')"
proof -
  have "describes_policies wanted_user wanted_principal"
    unfolding describes_policies_def
    by (intro conjI exI [of _ "[''arn:p'']"] exI [of _ "[(''i'', ''{}'')]"]) (simp_all add: wanted_principal_def)
  then show "describes wanted_user wanted_principal"
    by (simp add: describes_def wanted_principal_def nonempty_def tag_set_def tag_map_def)
  show "describes sample_user (sample_dir no_users ''u'')"
    by (simp add: describes_def describes_policies_def no_users_dir nonempty_def tag_set_def tag_map_def)
qed

lemma wanted_delta: "newResourceDelta sample_rt sample_compare (Some wanted_user) (Some sample_user) = Some wanted_delta"
  by (simp add: newResourceDelta_def compareTags_def compareTagLists_def wanted_delta_def
      compareMapField_def compareStringField_def compareStringsField_def addWhen_def)

lemma wanted_hooks:
  "\<exists>w'. syncManagedPolicies sample_user_rm wanted_user sample_user w = Some (None, w') \<and>
     aws w' = (aws w)(''u'' := (aws w ''u'')\<lparr>u_managed := List.insert ''arn:p'' (u_managed (aws w ''u''))\<rparr>)"
  "\<exists>w'. syncInlinePolicies sample_user_rm wanted_user sample_user w = Some (None, w') \<and>
     aws w' = (aws w)(''u'' := (aws w ''u'')\<lparr>u_inline := AList.update ''i'' ''{}'' (u_inline (aws w ''u''))\<rparr>)"
  "\<exists>w'. syncTags sample_user_rm wanted_user sample_user w = Some (None, w') \<and>
     aws w' = (aws w)(''u'' := (aws w ''u'')\<lparr>u_tags := mkTag ''team'' ''a'' # u_tags (aws w ''u'')\<rparr>)"
  "\<exists>w'. syncUserPermissionsBoundary sample_user_rm wanted_user w = Some (None, w') \<and>
     aws w' = (aws w)(''u'' := (aws w ''u'')\<lparr>u_boundary := Some ''arn:b''\<rparr>)"
  by (simp_all add: syncManagedPolicies_def sync_managed_policies_def addManagedPolicy_def syncInlinePolicies_def
      sync_inline_policies_def addInlinePolicy_def MapStringFromMapStringPointers_def decodeDocument_def QueryUnescape_def
      syncTags_def notInTags_def inTags_def addTags_def syncUserPermissionsBoundary_def putUserPermissionsBoundary_def
      sample_users_sdk_def sample_rt_def)

lemma wanted_update:
  "\<exists>w'. sdkUpdate sample_user_rm sample_compare wanted_user sample_user wanted_delta (users_world no_users) =
     Some ((Some wanted_user, None), w') \<and> aws w' ''u'' = \<lparr>u_managed = [''arn:p''], u_inline = [(''i'', ''{}'')],
       u_boundary = Some ''arn:b'', u_tags = [mkTag ''team'' ''a'']\<rparr>"
proof -
  obtain w1 where w1: "syncManagedPolicies sample_user_rm wanted_user sample_user (users_world no_users) = Some (None, w1)"
    "aws w1 ''u'' = no_user\<lparr>u_managed := [''arn:p'']\<rparr>"
    using wanted_hooks(1) [of "users_world no_users"] by (auto simp: no_users_def no_user_def)
  obtain w2 where w2: "syncInlinePolicies sample_user_rm wanted_user sample_user w1 = Some (None, w2)"
    "aws w2 ''u'' = no_user\<lparr>u_managed := [''arn:p''], u_inline := [(''i'', ''{}'')]\<rparr>"
    using wanted_hooks(2) [of w1] w1(2) by (auto simp: no_user_def)
  obtain w3 where w3: "syncTags sample_user_rm wanted_user sample_user w2 = Some (None, w3)"
    "aws w3 ''u'' = (aws w2 ''u'')\<lparr>u_tags := [mkTag ''team'' ''a'']\<rparr>"
    using wanted_hooks(3) [of w2] w2(2) by (auto simp: no_user_def)
  obtain w4 where "syncUserPermissionsBoundary sample_user_rm wanted_user w3 = Some (None, w4)"
    "aws w4 ''u'' = (aws w3 ''u'')\<lparr>u_boundary := Some ''arn:b''\<rparr>"
    using wanted_hooks(4) [of w3] by auto
  with w1 w2 w3 show ?thesis by (simp add: sdkUpdate_def when_different_def wanted_delta_def no_user_def)
qed

lemma user_sample_conditions [simp]:
  "unique_conditions (conditions_of wanted_user)" "unique_conditions (conditions_of sample_user)"
  by (simp_all add: wanted_user_def sample_user_def unique_conditions_def conditions_of_def)

lemma wanted_Update:
  "\<exists>res w'. Update sample_user_rm sample_compare (Some wanted_user) (Some sample_user) wanted_delta (users_world no_users) =
     Some ((Some res, None), w') \<and> aws w' ''u'' = \<lparr>u_managed = [''arn:p''], u_inline = [(''i'', ''{}'')],
       u_boundary = Some ''arn:b'', u_tags = [mkTag ''team'' ''a'']\<rparr>"
proof -
  have "unique_conditions (conditions_of wanted_user)" by simp
  then obtain res where "finish sample_user_rm terminalCodes sample_user (Some wanted_user) None = Some (Some res, None)"
    using finish_success by blast
  with wanted_update show ?thesis by (fastforce simp: Update_def update_with_def)
qed

subsection \<open>The properties\<close>

text \<open>
  C5. An \<open>Update\<close> that returns no error refines one assignment in the directory of principals: the
  user's entry is what the specification \<open>settled\<close> makes of the desired one (the desired policies,
  boundary and tags, but documents that are new or changed are URL-decoded and tags whose value was
  to change are gone), and no other entry has changed. The latest user describes the entry before
  and has no two conditions of one type, the delta is the one \<open>Delta\<close> computed.
\<close>

theorem user_update_refines:
  assumes "comparison_ok c delta_paths" and "in_string_ok (rt rm)" and "lo_ok (rt rm)" and "aws_error_ok (rt rm)"
    and "user_service (sdkapi rm) dir" and "Spec_Name desired = Some n"
    and "describes desired goal" and "describes latest (dir (aws w) n)" and "unique_conditions (conditions_of latest)"
    and "Delta (rt rm) c (Some desired) (Some latest) = Some delta"
    and "Update rm c (Some desired) (Some latest) delta w = Some ((res, None), w')"
  shows "dir (aws w') = (dir (aws w))(n := settled (rt rm) (dir (aws w) n) goal)"
  using user_Update_settles [OF assms] .

lemma user_update_refines_witness:
  "\<exists>res w'. Update sample_user_rm sample_compare (Some wanted_user) (Some sample_user) wanted_delta (users_world no_users) =
     Some ((Some res, None), w') \<and>
   sample_dir (aws w') = (sample_dir no_users)(''u'' := settled sample_rt (sample_dir no_users ''u'') wanted_principal)"
proof -
  obtain res w' where run: "Update sample_user_rm sample_compare (Some wanted_user) (Some sample_user) wanted_delta
     (users_world no_users) = Some ((Some res, None), w')" using wanted_Update by blast
  with user_update_refines [OF user_sample_comparison_ok _ _ _ _ _ user_sample_describes(1) _ _ _ run, of sample_dir "''u''"]
  show ?thesis by (simp add: sample_user_service user_sample_describes wanted_delta Delta_def)
qed

text \<open>
  C17. The rounds of the reconciler of a user converge: after an \<open>Update\<close> that returns no error, towards a
  goal whose new or changed documents have no percent or plus sign and which changes the value of
  no tag, the next \<open>sdkFind\<close> (IAM answering its calls in full) returns a user such that the \<open>Delta\<close> of
  the desired one and it calls none of the four hooks, of the policies, the inline policies, the
  tags and the permissions boundary, again. Nothing is said of the paths Spec.Path and Spec.Name.
\<close>

theorem user_reconcile_converges:
  assumes "comparison_ok c delta_paths" and "in_string_ok (rt rm)" and "lo_ok (rt rm)" and "aws_error_ok (rt rm)"
    and "valid_order (map_order (rt rm))"
    and "user_service (sdkapi rm) dir" and "Spec_Name desired = Some n"
    and "describes desired goal" and "Spec_PermissionsBoundary desired \<noteq> Some []" and "reachable_goal (dir (aws w) n) goal"
    and "describes latest (dir (aws w) n)" and "unique_conditions (conditions_of latest)"
    and "Delta (rt rm) c (Some desired) (Some latest) = Some delta"
    and "Update rm c (Some desired) (Some latest) delta w = Some ((res, None), w')"
    and "user_answers rm dir (aws w') n"
  shows "\<exists>ko delta' w''. sdkFind rm desired w' = Some ((Some ko, None), w'') \<and>
    Delta (rt rm) c (Some desired) (Some ko) = Some delta' \<and>
    (\<forall>p \<in> {''Spec.Policies'', ''Spec.InlinePolicies'', ''Spec.Tags'', ''Spec.PermissionsBoundary''}. \<not> DifferentAt c delta' p)"
  using Update_find_settled [OF assms] .

lemma user_reconcile_converges_witness:
  "\<exists>res w' ko delta' w''. Update sample_user_rm sample_compare (Some wanted_user) (Some sample_user) wanted_delta
     (users_world no_users) = Some ((Some res, None), w') \<and>
   sdkFind sample_user_rm wanted_user w' = Some ((Some ko, None), w'') \<and>
   Delta sample_rt sample_compare (Some wanted_user) (Some ko) = Some delta' \<and> ''Spec.Tags'' \<notin> set delta'"
proof -
  obtain res w' where run: "Update sample_user_rm sample_compare (Some wanted_user) (Some sample_user) wanted_delta
     (users_world no_users) = Some ((Some res, None), w')"
    and w': "aws w' ''u'' = \<lparr>u_managed = [''arn:p''], u_inline = [(''i'', ''{}'')], u_boundary = Some ''arn:b'',
      u_tags = [mkTag ''team'' ''a'']\<rparr>" using wanted_Update by blast
  have goal: "reachable_goal (sample_dir no_users ''u'') wanted_principal"
    by (simp add: reachable_goal_def no_users_dir wanted_principal_def)
  have ans: "user_answers sample_user_rm sample_dir (aws w') ''u''"
    by (rule sample_user_answers) (simp_all add: w' tag_set_def)
  from user_reconcile_converges [OF user_sample_comparison_ok _ _ _ _ _ _ user_sample_describes(1) _ _ _ _ _ run ans]
  show ?thesis using run goal by (force simp: sample_user_service user_sample_describes wanted_delta Delta_def)
qed

text \<open>
  C21. A user whose tags do not fit one page cannot be read: \<open>getTags\<close> never sets the marker of its
  request, so when IAM answers that request with a truncated page, the loop asks for it again
  forever and the call does not return.
\<close>

theorem user_tags_never_returned:
  assumes "\<And>b. \<exists>resp. fst (ListUserTags (sdkapi rm) (Spec_Name r) None b) = (Some resp, None) \<and> IsTruncated resp"
  shows "getTags rm r w = None"
  using tagPages_truncated [of rm "Spec_Name r" "[]" w] assms by (simp add: getTags_def)

lemma user_tags_never_returned_witness:
  "getTags (sample_user_rm\<lparr>sdkapi := sample_users_sdk\<lparr>ListUserTags :=
     (\<lambda>n m b. ((Some \<lparr>Tags = [mkTag ''k'' ''v''], IsTruncated = True, Marker = Some ''2''\<rparr>, None), b))\<rparr>\<rparr>)
     sample_user (users_world no_users) = None"
  by (rule user_tags_never_returned) simp

end
