(* ===== verification/GroupHooks.thy ===== *)
theory GroupHooks
  imports Principal
begin

text \<open>
  \<open>pkg/resource/group/hooks.go\<close>: the hand-written part of the group package, which keeps the managed
  policies and inline policies of an IAM group in line with the custom
  resource. The policy hooks are those of \<open>Holder\<close> over the group's API calls.
\<close>

subsection \<open>The data and the API calls\<close>

text \<open>
  The data of the group package: the \<open>Group\<close> custom resource of \<open>apis/v1alpha1/group.go\<close>, the parts
  of the SDK's types the code reads and writes, and the record \<open>group_sdk\<close> of the SDK client's
  operations the package calls.
\<close>

record Group = policy_holder +
  Status_GroupID :: "string ptr"

text \<open>\<open>svcsdktypes.Group\<close>, as \<open>GetGroup\<close> and \<open>CreateGroup\<close> return it.\<close>

record SdkGroup =
  Group_Arn :: "string ptr"
  Group_CreateDate :: "time ptr"
  Group_GroupId :: "string ptr"
  Group_GroupName :: "string ptr"
  Group_Path :: "string ptr"

record CreateGroupInput =
  Create_GroupName :: "string ptr"
  Create_Path :: "string ptr"

record UpdateGroupInput =
  Update_GroupName :: "string ptr"
  Update_NewPath :: "string ptr"

record ('b, 'p) group_sdk =
  GetGroup :: "string ptr \<Rightarrow> 'b \<Rightarrow> (SdkGroup ptr ptr \<times> error option) \<times> 'b"
  CreateGroup :: "CreateGroupInput \<Rightarrow> 'b \<Rightarrow> (SdkGroup ptr ptr \<times> error option) \<times> 'b"
  UpdateGroup :: "UpdateGroupInput \<Rightarrow> 'b \<Rightarrow> error option \<times> 'b"
  DeleteGroup :: "string ptr \<Rightarrow> 'b \<Rightarrow> error option \<times> 'b"
  AttachGroupPolicy :: "string ptr \<Rightarrow> string ptr \<Rightarrow> 'b \<Rightarrow> error option \<times> 'b"
  DetachGroupPolicy :: "string ptr \<Rightarrow> string ptr \<Rightarrow> 'b \<Rightarrow> error option \<times> 'b"
  PutGroupPolicy :: "string ptr \<Rightarrow> string ptr \<Rightarrow> string ptr \<Rightarrow> 'b \<Rightarrow> error option \<times> 'b"
  DeleteGroupPolicy :: "string ptr \<Rightarrow> string ptr \<Rightarrow> 'b \<Rightarrow> error option \<times> 'b"
  GetGroupPolicy :: "string ptr \<Rightarrow> string ptr \<Rightarrow> 'b \<Rightarrow> (string ptr ptr \<times> error option) \<times> 'b"
  NewListAttachedGroupPoliciesPaginator :: "string ptr \<Rightarrow> 'p"
  AttachedGroupPolicies_HasMorePages :: "'p \<Rightarrow> bool"
  AttachedGroupPolicies_NextPage :: "'p \<Rightarrow> 'b \<Rightarrow> ('p \<times> string ptr list ptr \<times> error option) \<times> 'b"
  NewListGroupPoliciesPaginator :: "string ptr \<Rightarrow> 'p"
  GroupPolicies_HasMorePages :: "'p \<Rightarrow> bool"
  GroupPolicies_NextPage :: "'p \<Rightarrow> 'b \<Rightarrow> ('p \<times> string list ptr \<times> error option) \<times> 'b"

record ('b, 'p) group_manager = resourceManager +
  sdkapi :: "('b, 'p) group_sdk"

type_synonym ('b, 'p) rm = "('b, 'p) group_manager"

subsection \<open>Managed policies\<close>

definition addManagedPolicy :: "('b, 'p) rm \<Rightarrow> Group \<Rightarrow> string ptr \<Rightarrow> ('b, error option) go" where
  "addManagedPolicy rm r policyARN w =
     (let (err, w) = sdk_call (AttachGroupPolicy (sdkapi rm) (Spec_Name r) policyARN) w
      in Some (err, RecordAPICall ''UPDATE'' ''AttachGroupPolicy'' err w))"

definition removeManagedPolicy :: "('b, 'p) rm \<Rightarrow> Group \<Rightarrow> string ptr \<Rightarrow> ('b, error option) go" where
  "removeManagedPolicy rm r policyARN w =
     (let (err, w) = sdk_call (DetachGroupPolicy (sdkapi rm) (Spec_Name r) policyARN) w
      in Some (err, RecordAPICall ''UPDATE'' ''DetachGroupPolicy'' err w))"

definition syncManagedPolicies :: "('b, 'p) rm \<Rightarrow> Group \<Rightarrow> Group \<Rightarrow> ('b, error option) go" where
  "syncManagedPolicies rm desired latest w =
     sync_managed_policies (rt rm) (addManagedPolicy rm desired) (removeManagedPolicy rm desired) desired latest w"

definition getManagedPolicies :: "('b, 'p) rm \<Rightarrow> Group \<Rightarrow> ('b, string ptr slice \<times> error option) go" where
  "getManagedPolicies rm r w =
     get_managed_policies (AttachedGroupPolicies_HasMorePages (sdkapi rm)) (AttachedGroupPolicies_NextPage (sdkapi rm))
       (NewListAttachedGroupPoliciesPaginator (sdkapi rm) (Spec_Name r)) ''ListAttachedGroupPolicies'' w"

subsection \<open>Inline policies\<close>

definition addInlinePolicy :: "('b, 'p) rm \<Rightarrow> Group \<Rightarrow> string \<Rightarrow> string ptr \<Rightarrow> ('b, error option) go" where
  "addInlinePolicy rm r policyName policyDoc w = do {
     doc \<leftarrow> policyDoc;
     let (cleanedDoc, err) = decodeDocument (rt rm) doc;
     (case err of
        Some e \<Rightarrow> Some (Some e, w)
      | None \<Rightarrow>
          (let (err, w) = sdk_call (PutGroupPolicy (sdkapi rm) (Spec_Name r) (Some policyName) (Some cleanedDoc)) w
           in Some (err, RecordAPICall ''UPDATE'' ''PutGroupPolicy'' err w)))
   }"

definition removeInlinePolicy :: "('b, 'p) rm \<Rightarrow> Group \<Rightarrow> string \<Rightarrow> ('b, error option) go" where
  "removeInlinePolicy rm r policyName w =
     (let (err, w) = sdk_call (DeleteGroupPolicy (sdkapi rm) (Spec_Name r) (Some policyName)) w
      in Some (err, RecordAPICall ''UPDATE'' ''DeleteGroupPolicy'' err w))"

definition syncInlinePolicies :: "('b, 'p) rm \<Rightarrow> Group \<Rightarrow> Group \<Rightarrow> ('b, error option) go" where
  "syncInlinePolicies rm desired latest w =
     sync_inline_policies (rt rm) (addInlinePolicy rm desired) (removeInlinePolicy rm desired) desired latest w"

definition getInlinePolicies :: "('b, 'p) rm \<Rightarrow> Group \<Rightarrow> ('b, (string, string ptr) gomap \<times> error option) go" where
  "getInlinePolicies rm r w =
     get_inline_policies (rt rm) (GroupPolicies_HasMorePages (sdkapi rm)) (GroupPolicies_NextPage (sdkapi rm))
       (NewListGroupPoliciesPaginator (sdkapi rm) (Spec_Name r)) ''ListGroupPolicies''
       (GetGroupPolicy (sdkapi rm) (Spec_Name r)) ''GetGroupPolicy'' w"

end
