(* ===== verification/GroupSdk.thy ===== *)
theory GroupSdk
  imports GroupHooks Manager Resource HolderReferences
begin

text \<open>
  \<open>pkg/resource/group\<close> beyond the hooks: \<open>sdk.go\<close>, \<open>delta.go\<close>, \<open>manager.go\<close>, \<open>references.go\<close> and
  the parts of \<open>resource.go\<close> and \<open>descriptor.go\<close> that name the group's own fields.
\<close>

subsection \<open>sdk.go: reading\<close>

definition requiredFieldsMissingFromReadOneInput :: "Group \<Rightarrow> bool" where
  "requiredFieldsMissingFromReadOneInput r \<longleftrightarrow> Spec_Name r = None"

definition newDescribeRequestPayload :: "Group \<Rightarrow> string ptr" where
  "newDescribeRequestPayload r = Spec_Name r"

text \<open>What \<open>sdkFind\<close> and \<open>sdkCreate\<close> take over from the response.\<close>

definition fromSdkGroup :: "SdkGroup \<Rightarrow> Group \<Rightarrow> Group" where
  "fromSdkGroup g ko = (setARN (Group_Arn g) ko)\<lparr>
     Status_CreateDate := Group_CreateDate g,
     Status_GroupID := Group_GroupId g,
     Spec_Name := Group_GroupName g,
     Spec_Path := Group_Path g\<rparr>"

definition sdkFind :: "('b, 'p) rm \<Rightarrow> Group \<Rightarrow> ('b, Group ptr \<times> error option) go" where
  "sdkFind rm r w =
     (if requiredFieldsMissingFromReadOneInput r then Some ((None, Some NotFound), w)
      else do {
        let input = newDescribeRequestPayload r;
        let ((resp, err), w) = sdk_call (GetGroup (sdkapi rm) input) w;
        let w = RecordAPICall ''READ_ONE'' ''GetGroup'' err w;
        (case err of
           Some e \<Rightarrow> Some ((None, Some (if ErrorCode e = Some ''NoSuchEntity'' then NotFound else e)), w)
         | None \<Rightarrow> do {
             output \<leftarrow> resp;
             g \<leftarrow> output;
             let ko = setStatusDefaults rm (fromSdkGroup g r);
             ((policies, err), w) \<leftarrow> getManagedPolicies rm ko w;
             let ko = ko\<lparr>Spec_Policies := policies\<rparr>;
             (case err of
                Some e \<Rightarrow> Some ((None, Some e), w)
              | None \<Rightarrow> do {
                  ((inlinePolicies, err), w) \<leftarrow> getInlinePolicies rm ko w;
                  let ko = ko\<lparr>Spec_InlinePolicies := inlinePolicies\<rparr>;
                  (case err of
                     Some e \<Rightarrow> Some ((None, Some e), w)
                   | None \<Rightarrow> Some ((Some ko, None), w)) }) })
      })"

subsection \<open>sdk.go: creating\<close>

definition newCreateRequestPayload :: "Group \<Rightarrow> CreateGroupInput" where
  "newCreateRequestPayload r = \<lparr>Create_GroupName = Spec_Name r, Create_Path = Spec_Path r\<rparr>"

text \<open>The condition \<open>sdkCreate\<close> sets makes the reconciler come back for the policies.\<close>

definition sdkCreate :: "('b, 'p) rm \<Rightarrow> Group \<Rightarrow> ('b, Group ptr \<times> error option) go" where
  "sdkCreate rm desired w = do {
     let ((resp, err), w) = sdk_call (CreateGroup (sdkapi rm) (newCreateRequestPayload desired)) w;
     let w = RecordAPICall ''CREATE'' ''CreateGroup'' err w;
     (case err of
        Some e \<Rightarrow> Some ((None, Some e), w)
      | None \<Rightarrow> do {
          output \<leftarrow> resp;
          g \<leftarrow> output;
          let ko = setStatusDefaults rm (fromSdkGroup g desired);
          Some ((Some (setConditions (\<lambda>cs. SetSynced (rt rm) cs ConditionFalse None None) ko), None), w) })
   }"

subsection \<open>sdk.go: updating and deleting\<close>

definition newUpdateRequestPayload :: "Group \<Rightarrow> UpdateGroupInput" where
  "newUpdateRequestPayload r = \<lparr>Update_GroupName = Spec_Name r, Update_NewPath = None\<rparr>"

definition sdkUpdate ::
  "('b, 'p) rm \<Rightarrow> 'd compare_rt \<Rightarrow> Group \<Rightarrow> Group \<Rightarrow> 'd \<Rightarrow> ('b, Group ptr \<times> error option) go" where
  "sdkUpdate rm c desired latest delta w = do {
     (err, w) \<leftarrow> for_each (\<lambda>(path, f). when_different c delta path f)
       [(''Spec.Policies'', syncManagedPolicies rm desired latest),
        (''Spec.InlinePolicies'', syncInlinePolicies rm desired latest)] w;
     (case err of
        Some e \<Rightarrow> Some ((None, Some e), w)
      | None \<Rightarrow>
          if \<not> DifferentExcept c delta [''Spec.Tags'', ''Spec.Policies'', ''Spec.InlinePolicies'',
               ''Spec.PermissionsBoundary'']
          then Some ((Some desired, None), w)
          else
            (let input = newUpdateRequestPayload desired;
                 input = (if Spec_Path desired \<noteq> None then input\<lparr>Update_NewPath := Spec_Path desired\<rparr> else input);
                 (err, w) = sdk_call (UpdateGroup (sdkapi rm) input) w;
                 w = RecordAPICall ''UPDATE'' ''UpdateGroup'' err w
             in case err of
                  Some e \<Rightarrow> Some ((None, Some e), w)
                | None \<Rightarrow> Some ((Some (setStatusDefaults rm desired), None), w)))
   }"

definition newDeleteRequestPayload :: "Group \<Rightarrow> string ptr" where
  "newDeleteRequestPayload r = Spec_Name r"

definition sdkDelete :: "('b, 'p) rm \<Rightarrow> Group \<Rightarrow> ('b, Group ptr \<times> error option) go" where
  "sdkDelete rm r w = do {
     let groupCpy = r\<lparr>Spec_Policies := None\<rparr>;
     (err, w) \<leftarrow> syncManagedPolicies rm groupCpy r w;
     (case err of
        Some e \<Rightarrow> Some ((None, Some e), w)
      | None \<Rightarrow> do {
          let groupCpy = groupCpy\<lparr>Spec_InlinePolicies := []\<rparr>;
          (err, w) \<leftarrow> syncInlinePolicies rm groupCpy r w;
          (case err of
             Some e \<Rightarrow> Some ((None, Some e), w)
           | None \<Rightarrow>
               (let input = newDeleteRequestPayload r;
                    (err, w) = sdk_call (DeleteGroup (sdkapi rm) input) w;
                    w = RecordAPICall ''DELETE'' ''DeleteGroup'' err w
                in Some ((None, err), w))) })
   }"

definition terminalCodes :: "string list" where
  "terminalCodes = [''InvalidInput'', ''MalformedPolicyDocument'']"

subsection \<open>delta.go\<close>

definition newResourceDelta :: "'d compare_rt \<Rightarrow> Group ptr \<Rightarrow> Group ptr \<Rightarrow> 'd option" where
  "newResourceDelta c a b =
     (if (a = None \<and> b \<noteq> None) \<or> (a \<noteq> None \<and> b = None) then Some (delta_Add c (NewDelta c) [])
      else do {
        a \<leftarrow> a;
        b \<leftarrow> b;
        let delta = NewDelta c;
        let delta = compareMapField c ''Spec.InlinePolicies'' (Spec_InlinePolicies a) (Spec_InlinePolicies b) delta;
        let delta = compareStringField c ''Spec.Name'' (Spec_Name a) (Spec_Name b) delta;
        let delta = compareStringField c ''Spec.Path'' (Spec_Path a) (Spec_Path b) delta;
        let delta = compareStringsField c ''Spec.Policies'' (Spec_Policies a) (Spec_Policies b) delta;
        let delta = addWhen c ''Spec.PolicyRefs''
          (\<not> DeepEqualRefs c (Spec_PolicyRefs a) (Spec_PolicyRefs b)) delta;
        Some delta
      })"

end
