(* ===== verification/GroupManager.thy ===== *)
theory GroupManager
  imports GroupSdk
begin

text \<open>
  \<open>pkg/resource/group/manager.go\<close>, \<open>resource.go\<close>, \<open>descriptor.go\<close> and \<open>references.go\<close>: the entry
  points of \<open>Manager\<close> over the group's own functions, and the fields that identify a group.
\<close>

subsection \<open>manager.go\<close>

definition lateInitializeFieldNames :: "string list" where
  "lateInitializeFieldNames = [''Path'']"

text \<open>A group has no tags: the three tag functions of \<open>manager.go\<close> leave it as it is.\<close>

definition mirrorAWSTags :: "Group \<Rightarrow> Group ptr \<Rightarrow> Group" where
  "mirrorAWSTags a b = a"

definition ReadOne :: "('b, 'p) rm \<Rightarrow> Group ptr \<Rightarrow> ('b, (Group ptr \<times> error option) \<times> Group) go" where
  "ReadOne rm res w = read_one sdkFind (\<lambda>rm. mirrorAWSTags) terminalCodes rm res w"

definition Create :: "('b, 'p) rm \<Rightarrow> Group ptr \<Rightarrow> ('b, Group ptr \<times> error option) go" where
  "Create rm res w = create_or_delete sdkCreate terminalCodes rm res w"

definition Update ::
  "('b, 'p) rm \<Rightarrow> 'd compare_rt \<Rightarrow> Group ptr \<Rightarrow> Group ptr \<Rightarrow> 'd \<Rightarrow> ('b, Group ptr \<times> error option) go" where
  "Update rm c resDesired resLatest delta w =
     update_with (\<lambda>rm desired latest delta. sdkUpdate rm c desired latest delta) terminalCodes rm resDesired resLatest delta w"

definition Delete :: "('b, 'p) rm \<Rightarrow> Group ptr \<Rightarrow> ('b, Group ptr \<times> error option) go" where
  "Delete rm res w = create_or_delete sdkDelete terminalCodes rm res w"

definition incompleteLateInitialization :: "Group \<Rightarrow> bool" where
  "incompleteLateInitialization ko = (if Spec_Path ko = None then True else False)"

definition lateInitializeFromReadOneOutput :: "Group \<Rightarrow> Group \<Rightarrow> Group" where
  "lateInitializeFromReadOneOutput observedKo latestKo =
     latestKo\<lparr>Spec_Path := late_field (Spec_Path observedKo) (Spec_Path latestKo)\<rparr>"

definition LateInitialize :: "('b, 'p) rm \<Rightarrow> Group ptr \<Rightarrow> ('b, Group ptr \<times> error option) go" where
  "LateInitialize rm latest w =
     late_initialize lateInitializeFieldNames (ReadOne rm) lateInitializeFromReadOneOutput
       incompleteLateInitialization rm latest w"

definition EnsureTags :: "('b, 'p) rm \<Rightarrow> Group ptr \<Rightarrow> Group ptr \<times> error option" where
  "EnsureTags rm res = (res, None)"

definition FilterSystemTags :: "('b, 'p) rm \<Rightarrow> Group ptr \<Rightarrow> string list \<Rightarrow> Group ptr" where
  "FilterSystemTags rm res systemTags = res"

subsection \<open>resource.go and descriptor.go\<close>

definition FinalizerString :: string where
  "FinalizerString = ''finalizers.iam.services.k8s.aws/Group''"

definition SetStatus :: "Group \<Rightarrow> Group \<Rightarrow> Group" where
  "SetStatus desired r = r\<lparr>Status_ACKResourceMetadata := Status_ACKResourceMetadata desired,
     Status_Conditions := Status_Conditions desired, Status_CreateDate := Status_CreateDate desired,
     Status_GroupID := Status_GroupID desired\<rparr>"

definition SetIdentifiers :: "string \<Rightarrow> Group \<Rightarrow> Group \<times> error option" where
  "SetIdentifiers nameOrID r =
     (if nameOrID = [] then (r, Some MissingNameIdentifier) else (r\<lparr>Spec_Name := Some nameOrID\<rparr>, None))"

definition PopulateResourceFromAnnotation :: "ack_rt \<Rightarrow> (string, string) gomap \<Rightarrow> Group \<Rightarrow> Group \<times> error option" where
  "PopulateResourceFromAnnotation q annotation r = (case map_of annotation ''name'' of
     None \<Rightarrow> (r, Some (NewTerminalError q (Errorf ''required field missing: name'')))
   | Some f0 \<Rightarrow> (r\<lparr>Spec_Name := Some f0\<rparr>, None))"

definition Delta :: "'d compare_rt \<Rightarrow> Group ptr \<Rightarrow> Group ptr \<Rightarrow> 'd option" where
  "Delta c a b = newResourceDelta c a b"

subsection \<open>references.go\<close>

definition ClearResolvedReferences :: "Group \<Rightarrow> Group" where
  "ClearResolvedReferences res =
     (let ko = res
      in if length (elems (Spec_PolicyRefs ko)) > 0 then ko\<lparr>Spec_Policies := None\<rparr> else ko)"

definition validateReferenceFields :: "ack_rt \<Rightarrow> Group \<Rightarrow> error option" where
  "validateReferenceFields r ko =
     (if length (elems (Spec_PolicyRefs ko)) > 0 \<and> length (elems (Spec_Policies ko)) > 0
      then Some (ResourceReferenceAndIDNotSupportedFor r ''Policies'' ''PolicyRefs'')
      else None)"

definition resolveReferenceForPolicies ::
  "'m resourceManager_scheme \<Rightarrow> reader \<Rightarrow> Group \<Rightarrow> (bool \<times> error option) \<times> Group" where
  "resolveReferenceForPolicies rm apiReader ko = resolve_policies_reference rm apiReader ko"

definition ResolveReferences ::
  "'m resourceManager_scheme \<Rightarrow> reader \<Rightarrow> Group \<Rightarrow> Group \<times> bool \<times> error option" where
  "ResolveReferences rm apiReader res =
     (let ko = res;
          err = validateReferenceFields (rt rm) ko
      in case resolveReferenceForPolicies rm apiReader ko of
           ((fieldHasReferences, Some e), ko) \<Rightarrow> (ko, False \<or> fieldHasReferences, Some e)
         | ((fieldHasReferences, None), ko) \<Rightarrow> (ko, False \<or> fieldHasReferences, err))"

end
