(* ===== verification/GroupSync.thy ===== *)
theory GroupSync
  imports GroupManager
begin

text \<open>
  What the group package achieves, on the directory of \<open>Principal\<close>: an update assigns the managed
  and inline policies of the group's entry, a deletion empties them first, \<open>sdkFind\<close> reads them back.
\<close>

subsection \<open>The documented effect of the API calls\<close>

definition group_service :: "('b, 'p) group_sdk \<Rightarrow> ('b \<Rightarrow> directory) \<Rightarrow> bool" where
  "group_service sdk dir \<longleftrightarrow>
     (\<forall>n p b b'. AttachGroupPolicy sdk (Some n) (Some p) b = (None, b') \<longrightarrow> dir b' = at n (attach p) (dir b)) \<and>
     (\<forall>n p b b'. DetachGroupPolicy sdk (Some n) (Some p) b = (None, b') \<longrightarrow> dir b' = at n (detach p) (dir b)) \<and>
     (\<forall>n k d b b'. PutGroupPolicy sdk (Some n) (Some k) (Some d) b = (None, b') \<longrightarrow> dir b' = at n (put_inline k d) (dir b)) \<and>
     (\<forall>n k b b'. DeleteGroupPolicy sdk (Some n) (Some k) b = (None, b') \<longrightarrow> dir b' = at n (delete_inline k) (dir b)) \<and>
     (\<forall>input b b'. UpdateGroup sdk input b = (None, b') \<longrightarrow> dir b' = dir b)"

interpretation group_calls: holder_calls
  "\<lambda>(rm, r, n, dir). group_service (sdkapi rm) dir \<and> Spec_Name r = Some n" "\<lambda>(rm, r, n, dir). rt rm"
  "\<lambda>(rm, r, n, dir). dir" "\<lambda>(rm, r, n, dir). n"
  "\<lambda>(rm, r, n, dir). addManagedPolicy rm r" "\<lambda>(rm, r, n, dir). removeManagedPolicy rm r"
  "\<lambda>(rm, r, n, dir). addInlinePolicy rm r" "\<lambda>(rm, r, n, dir). removeInlinePolicy rm r"
  by unfold_locales
    (auto simp: group_service_def addManagedPolicy_def removeManagedPolicy_def addInlinePolicy_def removeInlinePolicy_def
      prod_eq_iff split_beta split: option.splits)

lemma group_syncManagedPolicies_dir:
  assumes "in_string_ok (rt rm)" and "group_service (sdkapi rm) dir" and "Spec_Name desired = Some n"
    and "elems (Spec_Policies desired) = map Some ds" and "elems (Spec_Policies latest) = map Some ls"
    and "p_managed (dir (aws w) n) = set ls"
    and "syncManagedPolicies rm desired latest w = Some (None, w')"
  shows "dir (aws w') = at n (\<lambda>x. x\<lparr>p_managed := set ds\<rparr>) (dir (aws w))"
  using group_calls.sync_managed [of "(rm, desired, n, dir)" "rt rm" desired ds latest ls w w'] assms
  by (simp add: syncManagedPolicies_def)

lemma group_syncInlinePolicies_dir:
  assumes "lo_ok (rt rm)" and "group_service (sdkapi rm) dir" and "Spec_Name desired = Some n"
    and "Spec_InlinePolicies desired = point_at ds" "wf_map ds"
    and "Spec_InlinePolicies latest = point_at ls" "wf_map ls" "p_inline (dir (aws w) n) = map_of ls"
    and "syncInlinePolicies rm desired latest w = Some (None, w')"
  shows "dir (aws w') = at n (\<lambda>x. x\<lparr>p_inline := put_documents (\<lambda>d. fst (decodeDocument (rt rm) d)) (map_of ls) (map_of ds)\<rparr>)
    (dir (aws w))"
  using group_calls.sync_inline [of "(rm, desired, n, dir)" "rt rm" desired ds latest ls w w'] assms
  by (simp add: syncInlinePolicies_def)

subsection \<open>The delta\<close>

definition differences :: "'d compare_rt \<Rightarrow> Group \<Rightarrow> Group \<Rightarrow> (string \<times> bool) list" where
  "differences c a b =
     [(''Spec.InlinePolicies'', mapsDiffer c (Spec_InlinePolicies a) (Spec_InlinePolicies b)),
      (''Spec.Name'', stringDiffers c (Spec_Name a) (Spec_Name b)),
      (''Spec.Path'', stringDiffers c (Spec_Path a) (Spec_Path b)),
      (''Spec.Policies'', stringsDiffer c (Spec_Policies a) (Spec_Policies b)),
      (''Spec.PolicyRefs'', \<not> DeepEqualRefs c (Spec_PolicyRefs a) (Spec_PolicyRefs b))]"

definition delta_paths :: "string set" where
  "delta_paths = {''Spec.InlinePolicies'', ''Spec.Name'', ''Spec.Path'', ''Spec.Policies'', ''Spec.PolicyRefs''}"

lemma group_newResourceDelta_report: "newResourceDelta c (Some a) (Some b) = Some (report c (differences c a b))"
  by (simp add: newResourceDelta_def compare_addWhen Let_def report_def differences_def)

lemma group_delta_of_described:
  assumes c: "comparison_ok c delta_paths" and a: "describes_policies a x" and b: "describes_policies b y"
    and delta: "newResourceDelta c (Some a) (Some b) = Some delta"
  shows "DifferentAt c delta ''Spec.Policies'' \<longleftrightarrow> p_managed x \<noteq> p_managed y"
    and "DifferentAt c delta ''Spec.InlinePolicies'' \<longleftrightarrow> p_inline x \<noteq> p_inline y"
proof -
  have at: "DifferentAt c delta q \<longleftrightarrow> (q, True) \<in> set (differences c a b)" if "q \<in> delta_paths" for q
    using group_newResourceDelta_report [of c a b] delta c that DifferentAt_report [of c delta_paths "differences c a b" q]
    by (simp add: comparison_ok_def differences_def delta_paths_def)
  show "DifferentAt c delta ''Spec.Policies'' \<longleftrightarrow> p_managed x \<noteq> p_managed y"
    using at [of "''Spec.Policies''"] described_policies_differ [OF c a b]
    by (simp add: delta_paths_def differences_def)
  show "DifferentAt c delta ''Spec.InlinePolicies'' \<longleftrightarrow> p_inline x \<noteq> p_inline y"
    using at [of "''Spec.InlinePolicies''"] described_policies_differ [OF c a b]
    by (simp add: delta_paths_def differences_def)
qed

subsection \<open>An update\<close>

lemma group_sdkUpdate_settles:
  assumes c: "comparison_ok c delta_paths" and r: "in_string_ok (rt rm)" "lo_ok (rt rm)"
    and ok: "group_service (sdkapi rm) dir" and n: "Spec_Name desired = Some n"
    and goal: "describes_policies desired goal" and old: "describes_policies latest (dir (aws w) n)"
    and delta: "newResourceDelta c (Some desired) (Some latest) = Some delta"
    and run: "sdkUpdate rm c desired latest delta w = Some ((res, None), w')"
  shows "dir (aws w') = (dir (aws w))(n := settled_policies (rt rm) (dir (aws w) n) goal)"
proof -
  let ?old = "dir (aws w) n"
  note D = group_delta_of_described [OF c goal old delta]
  have "dir b' = dir b" if "UpdateGroup (sdkapi rm) input b = (None, b')" for input b b'
    using ok that by (simp add: group_service_def)
  then obtain w1 w2 where
    s1: "when_different c delta ''Spec.Policies'' (syncManagedPolicies rm desired latest) w = Some (None, w1)"
    and s2: "when_different c delta ''Spec.InlinePolicies'' (syncInlinePolicies rm desired latest) w1 = Some (None, w2)"
    and last: "dir (aws w') = dir (aws w2)"
    using run by (auto simp: sdkUpdate_def Let_def prod_eq_iff split: Option.bind_splits option.splits if_splits)
  obtain ps qs where ps: "elems (Spec_Policies desired) = map Some ps" "set ps = p_managed goal"
    "elems (Spec_Policies latest) = map Some qs" "set qs = p_managed ?old"
    using goal old by (auto simp: describes_policies_def)
  obtain m m' where m: "Spec_InlinePolicies desired = point_at m" "wf_map m" "map_of m = p_inline goal"
    "Spec_InlinePolicies latest = point_at m'" "wf_map m'" "map_of m' = p_inline ?old"
    using goal old by (auto simp: describes_policies_def)
  let ?inline = "put_documents (\<lambda>d. fst (decodeDocument (rt rm) d)) (p_inline ?old) (p_inline goal)"
  have 1: "dir (aws w1) = at n (\<lambda>x. x\<lparr>p_managed := p_managed goal\<rparr>) (dir (aws w))"
    using s1
  proof (rule when_different_dir)
    show "dir (aws w1) = at n (\<lambda>x. x\<lparr>p_managed := p_managed goal\<rparr>) (dir (aws w))"
      if "syncManagedPolicies rm desired latest w = Some (None, w1)"
      using group_syncManagedPolicies_dir [OF r(1) ok n ps(1,3) _ that] ps by simp
  qed (simp add: D)
  have 2: "dir (aws w2) = at n (\<lambda>x. x\<lparr>p_inline := ?inline\<rparr>) (dir (aws w1))"
    using s2
  proof (rule when_different_dir)
    show "dir (aws w2) = at n (\<lambda>x. x\<lparr>p_inline := ?inline\<rparr>) (dir (aws w1))"
      if "syncInlinePolicies rm desired latest w1 = Some (None, w2)"
      using group_syncInlinePolicies_dir [OF r(2) ok n m(1,2,4,5) _ that] m(3,6) by (simp add: 1 at_def)
  qed (simp add: D 1 at_def)
  show ?thesis by (simp add: last 1 2 at_def settled_policies_def)
qed

subsection \<open>The entry points\<close>

lemma group_Update_settles:
  assumes "comparison_ok c delta_paths" and "in_string_ok (rt rm)" "lo_ok (rt rm)" "aws_error_ok (rt rm)"
    and "group_service (sdkapi rm) dir" and "Spec_Name desired = Some n"
    and "describes_policies desired goal" and "describes_policies latest (dir (aws w) n)" "unique_conditions (conditions_of latest)"
    and "Delta c (Some desired) (Some latest) = Some delta"
    and "Update rm c (Some desired) (Some latest) delta w = Some ((res, None), w')"
  shows "dir (aws w') = (dir (aws w))(n := settled_policies (rt rm) (dir (aws w) n) goal)"
proof -
  have "out = None" if "sdkUpdate rm c desired latest delta w = Some ((out, Some e), u)" for out e u
    using that by (auto simp: sdkUpdate_def Let_def prod_eq_iff split: Option.bind_splits option.splits if_splits)
  then obtain out where run: "sdkUpdate rm c desired latest delta w = Some ((out, None), w')"
    using update_with_success [where sdkUpdate = "\<lambda>rm. sdkUpdate rm c", OF assms(4,9)] assms(11) unfolding Update_def by blast
  show ?thesis using group_sdkUpdate_settles [OF assms(1-3,5-8) _ run] assms(10) by (simp add: Delta_def)
qed

lemma group_Delete_bare:
  assumes r: "in_string_ok (rt rm)" "lo_ok (rt rm)" "aws_error_ok (rt rm)"
    and ok: "group_service (sdkapi rm) dir" and n: "Spec_Name r = Some n"
    and old: "describes_policies r (dir (aws w) n)" "unique_conditions (conditions_of r)"
    and run: "Delete rm (Some r) w = Some ((res, None), w')"
  shows "\<exists>b. DeleteGroup (sdkapi rm) (Some n) b = (None, aws w') \<and>
    dir b = (dir (aws w))(n := (dir (aws w) n)\<lparr>p_managed := {}, p_inline := Map.empty\<rparr>)"
proof -
  let ?cpy = "r\<lparr>Spec_Policies := None\<rparr>"
  let ?cpy2 = "?cpy\<lparr>Spec_InlinePolicies := []\<rparr>"
  have "out = None" if "sdkDelete rm r w = Some ((out, e), u)" for out e u
    using that by (auto simp: sdkDelete_def Let_def prod_eq_iff split: Option.bind_splits option.splits)
  then obtain out where "sdkDelete rm r w = Some ((out, None), w')"
    using create_or_delete_success [where operation = sdkDelete, OF r(3) old(2)] run unfolding Delete_def by blast
  then obtain u v where first: "syncManagedPolicies rm ?cpy r w = Some (None, u)"
    and second: "syncInlinePolicies rm ?cpy2 r u = Some (None, v)"
    and last: "DeleteGroup (sdkapi rm) (Some n) (aws v) = (None, aws w')"
    using n by (auto simp: sdkDelete_def newDeleteRequestPayload_def Let_def prod_eq_iff
        split: Option.bind_splits option.splits)
  obtain ps where ps: "elems (Spec_Policies r) = map Some ps" "set ps = p_managed (dir (aws w) n)"
    using old by (auto simp: describes_policies_def)
  obtain m where m: "Spec_InlinePolicies r = point_at m" "wf_map m" "map_of m = p_inline (dir (aws w) n)"
    using old by (auto simp: describes_policies_def)
  have 1: "dir (aws u) = at n (\<lambda>x. x\<lparr>p_managed := {}\<rparr>) (dir (aws w))"
    using group_syncManagedPolicies_dir [OF r(1) ok _ _ ps(1) _ first, of n "[]"] n ps(2) by simp
  have "dir (aws v) = at n (\<lambda>x. x\<lparr>p_inline := Map.empty\<rparr>) (dir (aws u))"
    using group_syncInlinePolicies_dir [OF r(2) ok _ _ _ m(1,2) _ second, of n "[]"] n m(3)
    by (simp add: 1 at_def put_documents_def)
  with 1 last show ?thesis by (auto simp: at_def)
qed

end
