(* ===== verification/GroupProperties.thy ===== *)
theory GroupProperties
  imports GroupSync Samples
begin

text \<open>
  The properties of the group package, and the backend their witnesses are evaluated on: it keeps
  the directory itself, its calls are the operations of \<open>Principal\<close>.
\<close>

subsection \<open>A concrete backend\<close>

definition sample_groups_sdk :: "(directory, unit) group_sdk" where
  "sample_groups_sdk = \<lparr>
     GetGroup = (\<lambda>n b. ((Some (Some \<lparr>Group_Arn = Some ''arn:g'', Group_CreateDate = Some 0, Group_GroupId = Some ''AGPA'',
       Group_GroupName = n, Group_Path = Some ''/''\<rparr>), None), b)),
     CreateGroup = (\<lambda>input b. ((Some (Some \<lparr>Group_Arn = Some ''arn:g'', Group_CreateDate = Some 0, Group_GroupId = Some ''AGPA'',
       Group_GroupName = Create_GroupName input, Group_Path = Create_Path input\<rparr>), None), b)),
     UpdateGroup = (\<lambda>input b. (None, b)),
     DeleteGroup = (\<lambda>n b. (None, b)),
     AttachGroupPolicy = (\<lambda>n p b. (None, at (the n) (attach (the p)) b)),
     DetachGroupPolicy = (\<lambda>n p b. (None, at (the n) (detach (the p)) b)),
     PutGroupPolicy = (\<lambda>n k d b. (None, at (the n) (put_inline (the k) (the d)) b)),
     DeleteGroupPolicy = (\<lambda>n k b. (None, at (the n) (delete_inline (the k)) b)),
     GetGroupPolicy = (\<lambda>n k b. ((Some (map_option pct_encode (p_inline (b (the n)) (the k))), None), b)),
     NewListAttachedGroupPoliciesPaginator = (\<lambda>n. ()),
     AttachedGroupPolicies_HasMorePages = (\<lambda>p. False),
     AttachedGroupPolicies_NextPage = (\<lambda>p b. (((), Some [], None), b)),
     NewListGroupPoliciesPaginator = (\<lambda>n. ()),
     GroupPolicies_HasMorePages = (\<lambda>p. False),
     GroupPolicies_NextPage = (\<lambda>p b. (((), Some [], None), b))\<rparr>"

definition sample_group_rm :: "(directory, unit) rm" where
  "sample_group_rm = \<lparr>rt = sample_rt, EnableCrossNamespace = False, awsAccountID = ''1'', awsRegion = ''us-east-1'',
     awsPartition = ''aws'', sdkapi = sample_groups_sdk\<rparr>"

definition sample_group :: Group where
  "sample_group = \<lparr>Namespace = ''default'', DeletionTimestamp = None, Finalizers = [], Annotations = [],
     Status_ACKResourceMetadata = None, Status_Conditions = None, Spec_InlinePolicies = [], Spec_Name = Some ''g'',
     Spec_Path = None, Spec_Policies = None, Spec_PolicyRefs = None, Status_CreateDate = None, Status_GroupID = None\<rparr>"

definition full_group :: Group where
  "full_group = sample_group\<lparr>Spec_Policies := Some [Some ''arn:p''], Spec_InlinePolicies := [(''i'', Some ''{}'')]\<rparr>"

definition bare :: principal where
  "bare = \<lparr>p_managed = {}, p_inline = Map.empty, p_boundary = None, p_tags = Map.empty\<rparr>"

definition full :: principal where
  "full = bare\<lparr>p_managed := {''arn:p''}, p_inline := [''i'' \<mapsto> ''{}'']\<rparr>"

definition groups_world :: "directory \<Rightarrow> directory world" where
  "groups_world b = \<lparr>aws = b, api_calls = []\<rparr>"

lemma groups_simps [simp]:
  "rt sample_group_rm = sample_rt" "sdkapi sample_group_rm = sample_groups_sdk" "aws (groups_world b) = b"
  "Spec_Name sample_group = Some ''g''" "Spec_Policies sample_group = None" "Spec_InlinePolicies sample_group = []"
  "Spec_Path sample_group = None" "Spec_PolicyRefs sample_group = None" "Status_Conditions sample_group = None"
  "Spec_Name full_group = Some ''g''" "Spec_Policies full_group = Some [Some ''arn:p'']"
  "Spec_InlinePolicies full_group = [(''i'', Some ''{}'')]" "Spec_Path full_group = None" "Spec_PolicyRefs full_group = None"
  "Status_Conditions full_group = None"
  by (simp_all add: sample_group_rm_def groups_world_def sample_group_def full_group_def)

lemma sample_group_service: "group_service sample_groups_sdk (\<lambda>b. b)"
  by (simp add: group_service_def sample_groups_sdk_def)

lemma group_sample_describes: "describes_policies full_group full" "describes_policies sample_group bare"
proof -
  show "describes_policies full_group full"
    unfolding describes_policies_def
    by (intro conjI exI [of _ "[''arn:p'']"] exI [of _ "[(''i'', ''{}'')]"]) (simp_all add: full_def)
  show "describes_policies sample_group bare" by (simp add: describes_policies_def bare_def)
qed

lemma group_sample_comparison_ok: "comparison_ok sample_compare delta_paths"
  by (simp add: comparison_ok_def)

lemma no_conditions: "unique_conditions (conditions_of sample_group)" "unique_conditions (conditions_of full_group)"
  by (simp_all add: conditions_of_def unique_conditions_def)

lemma sample_delta: "Delta sample_compare (Some full_group) (Some sample_group) = Some [''Spec.InlinePolicies'', ''Spec.Policies'']"
  by (simp add: Delta_def newResourceDelta_def compareMapField_def compareStringField_def compareStringsField_def addWhen_def)

lemma sample_hooks:
  "\<exists>w'. syncManagedPolicies sample_group_rm full_group sample_group w = Some (None, w')"
  "\<exists>w'. syncInlinePolicies sample_group_rm full_group sample_group w = Some (None, w')"
  "\<exists>w'. syncManagedPolicies sample_group_rm (full_group\<lparr>Spec_Policies := None\<rparr>) full_group w = Some (None, w')"
  "\<exists>w'. syncInlinePolicies sample_group_rm (full_group\<lparr>Spec_Policies := None, Spec_InlinePolicies := []\<rparr>) full_group w = Some (None, w')"
  by (simp_all add: syncManagedPolicies_def sync_managed_policies_def addManagedPolicy_def removeManagedPolicy_def
      syncInlinePolicies_def sync_inline_policies_def addInlinePolicy_def removeInlinePolicy_def remove_stale_def
      MapStringFromMapStringPointers_def decodeDocument_def QueryUnescape_def sample_groups_sdk_def sample_rt_def)

lemma sample_update:
  "\<exists>res w'. Update sample_group_rm sample_compare (Some full_group) (Some sample_group) [''Spec.InlinePolicies'', ''Spec.Policies'']
     (groups_world (\<lambda>_. bare)) = Some ((res, None), w')"
proof -
  obtain w1 where w1: "syncManagedPolicies sample_group_rm full_group sample_group (groups_world (\<lambda>_. bare)) = Some (None, w1)"
    using sample_hooks by blast
  obtain w2 where w2: "syncInlinePolicies sample_group_rm full_group sample_group w1 = Some (None, w2)"
    using sample_hooks by blast
  from w1 w2 have "sdkUpdate sample_group_rm sample_compare full_group sample_group [''Spec.InlinePolicies'', ''Spec.Policies'']
      (groups_world (\<lambda>_. bare)) = Some ((Some full_group, None), w2)"
    by (simp add: sdkUpdate_def when_different_def)
  moreover obtain ko where "finish sample_group_rm terminalCodes sample_group (Some full_group) None = Some (Some ko, None)"
    using finish_success [OF no_conditions(2)] by blast
  ultimately show ?thesis by (simp add: Update_def update_with_def)
qed

lemma sample_delete: "\<exists>w'. Delete sample_group_rm (Some full_group) (groups_world (\<lambda>_. full)) = Some ((None, None), w')"
proof -
  obtain w1 where w1: "syncManagedPolicies sample_group_rm (full_group\<lparr>Spec_Policies := None\<rparr>) full_group
    (groups_world (\<lambda>_. full)) = Some (None, w1)" using sample_hooks by blast
  obtain w2 where w2: "syncInlinePolicies sample_group_rm (full_group\<lparr>Spec_Policies := None, Spec_InlinePolicies := []\<rparr>) full_group w1
    = Some (None, w2)" using sample_hooks by blast
  from w1 w2 have "\<exists>w'. sdkDelete sample_group_rm full_group (groups_world (\<lambda>_. full)) = Some ((None, None), w')"
    by (simp add: sdkDelete_def Let_def sample_groups_sdk_def)
  then show ?thesis by (auto simp: Delete_def create_or_delete_def finish_nothing)
qed

subsection \<open>The properties\<close>

text \<open>
  C18. The entry point \<open>Update\<close> of the group package refines one assignment in the directory of
  principals: when it returns no error, the group's entry has exactly the desired managed policies
  and the specification's \<open>settled_policies\<close> as its inline ones (a policy for each desired name and
  no other: a document that is new or changed is stored URL-decoded, so one with a percent or
  plus sign is not the desired text, and an unchanged one stays); the rest of the entry and every
  other entry are as before. The delta is the one \<open>Delta\<close> computed.
\<close>

theorem group_update_refines:
  assumes "comparison_ok c delta_paths" and "in_string_ok (rt rm)" and "lo_ok (rt rm)" and "aws_error_ok (rt rm)"
    and "group_service (sdkapi rm) dir" and "Spec_Name desired = Some n"
    and "describes_policies desired goal" and "describes_policies latest (dir (aws w) n)"
    and "unique_conditions (conditions_of latest)"
    and "Delta c (Some desired) (Some latest) = Some delta"
    and "Update rm c (Some desired) (Some latest) delta w = Some ((res, None), w')"
  shows "dir (aws w') = (dir (aws w))(n := settled_policies (rt rm) (dir (aws w) n) goal)"
  using group_Update_settles [OF assms] .

lemma group_update_refines_witness:
  "\<exists>res w'. Update sample_group_rm sample_compare (Some full_group) (Some sample_group) [''Spec.InlinePolicies'', ''Spec.Policies'']
     (groups_world (\<lambda>_. bare)) = Some ((res, None), w') \<and> p_managed (aws w' ''g'') = {''arn:p''}"
proof -
  obtain res w' where run: "Update sample_group_rm sample_compare (Some full_group) (Some sample_group)
    [''Spec.InlinePolicies'', ''Spec.Policies''] (groups_world (\<lambda>_. bare)) = Some ((res, None), w')"
    using sample_update by blast
  from group_update_refines [OF group_sample_comparison_ok _ _ _ _ _ group_sample_describes(1) _ no_conditions(1) sample_delta run,
      of "\<lambda>b. b" "''g''"]
  have "aws w' ''g'' = settled_policies sample_rt bare full"
    by (simp add: sample_group_service group_sample_describes)
  with run show ?thesis by (auto simp: settled_policies_def full_def)
qed

text \<open>
  C19. When the entry point \<open>Delete\<close> of the group package returns no error, \<open>DeleteGroup\<close> was called
  in a state where the group had no managed and no inline policy left, and no other entry of the
  directory had changed: IAM refuses to delete a group that has policies.
\<close>

theorem group_delete_bare:
  assumes "in_string_ok (rt rm)" and "lo_ok (rt rm)" and "aws_error_ok (rt rm)"
    and "group_service (sdkapi rm) dir" and "Spec_Name r = Some n"
    and "describes_policies r (dir (aws w) n)" and "unique_conditions (conditions_of r)"
    and "Delete rm (Some r) w = Some ((res, None), w')"
  shows "\<exists>b. DeleteGroup (sdkapi rm) (Some n) b = (None, aws w') \<and>
    dir b = (dir (aws w))(n := (dir (aws w) n)\<lparr>p_managed := {}, p_inline := Map.empty\<rparr>)"
  using group_Delete_bare [OF assms] .

lemma group_delete_bare_witness:
  "\<exists>w'. Delete sample_group_rm (Some full_group) (groups_world (\<lambda>_. full)) = Some ((None, None), w') \<and> aws w' ''g'' = bare"
proof -
  obtain w' where run: "Delete sample_group_rm (Some full_group) (groups_world (\<lambda>_. full)) = Some ((None, None), w')"
    using sample_delete by blast
  from group_delete_bare [OF _ _ _ _ _ _ no_conditions(2) run, of "\<lambda>b. b" "''g''"] obtain b where
    b: "DeleteGroup sample_groups_sdk (Some ''g'') b = (None, aws w')"
      "b = (\<lambda>_. full)(''g'' := full\<lparr>p_managed := {}, p_inline := Map.empty\<rparr>)"
    by (auto simp: sample_group_service group_sample_describes)
  have "DeleteGroup sample_groups_sdk n d = (None, d)" for n d by (simp add: sample_groups_sdk_def)
  with b(1) have "aws w' = b" by simp
  then have "aws w' ''g'' = bare" using b(2) by (simp add: full_def bare_def)
  with run show ?thesis by blast
qed

end
