(* ===== verification/ProfileHooks.thy ===== *)
theory ProfileHooks
  imports RoleApi
begin

text \<open>
  The data of the instance profile package and \<open>pkg/resource/instance_profile/hooks.go\<close>, which keeps
  the role and the tags of an instance profile in line with the \<open>InstanceProfile\<close> custom resource of
  \<open>apis/v1alpha1/instance_profile.go\<close>. An instance profile holds at most one role.
\<close>

subsection \<open>Data\<close>

record InstanceProfile = ack_object +
  Spec_Name :: "string ptr"
  Spec_Path :: "string ptr"
  Spec_Role :: "string ptr"
  Spec_RoleRef :: "AWSResourceReferenceWrapper ptr"
  Spec_Tags :: "Tag slice"
  Status_CreateDate :: "time ptr"
  Status_InstanceProfileID :: "string ptr"

text \<open>\<open>svcsdktypes.InstanceProfile\<close>; of its roles the code reads the names.\<close>

record SdkInstanceProfile =
  Profile_Arn :: "string ptr"
  Profile_CreateDate :: "time ptr"
  Profile_InstanceProfileId :: "string ptr"
  Profile_InstanceProfileName :: "string ptr"
  Profile_Path :: "string ptr"
  Profile_Roles :: "string ptr list"
  Profile_Tags :: "Tag slice"

record CreateInstanceProfileInput =
  Create_InstanceProfileName :: "string ptr"
  Create_Path :: "string ptr"
  Create_Tags :: "Tag slice"

text \<open>\<open>AddRoleToInstanceProfile\<close> and \<open>RemoveRoleFromInstanceProfile\<close> take the profile and the role name.\<close>

record 'b profile_sdk =
  GetInstanceProfile :: "string ptr \<Rightarrow> 'b \<Rightarrow> (SdkInstanceProfile ptr ptr \<times> error option) \<times> 'b"
  CreateInstanceProfile :: "CreateInstanceProfileInput \<Rightarrow> 'b \<Rightarrow> (SdkInstanceProfile ptr ptr \<times> error option) \<times> 'b"
  DeleteInstanceProfile :: "string ptr \<Rightarrow> 'b \<Rightarrow> error option \<times> 'b"
  AddRoleToInstanceProfile :: "string ptr \<Rightarrow> string ptr \<Rightarrow> 'b \<Rightarrow> error option \<times> 'b"
  RemoveRoleFromInstanceProfile :: "string ptr \<Rightarrow> string ptr \<Rightarrow> 'b \<Rightarrow> error option \<times> 'b"
  TagInstanceProfile :: "string ptr \<Rightarrow> Tag list \<Rightarrow> 'b \<Rightarrow> error option \<times> 'b"
  UntagInstanceProfile :: "string ptr \<Rightarrow> string list \<Rightarrow> 'b \<Rightarrow> error option \<times> 'b"

record 'b profile_manager = resourceManager +
  sdkapi :: "'b profile_sdk"

type_synonym 'b rm = "'b profile_manager"

subsection \<open>The role\<close>

definition attachRole :: "'b rm \<Rightarrow> InstanceProfile \<Rightarrow> ('b, error option) go" where
  "attachRole rm desired w =
     (let (err, w) = sdk_call (AddRoleToInstanceProfile (sdkapi rm) (Spec_Name desired) (Spec_Role desired)) w
      in Some (err, RecordAPICall ''UPDATE'' ''AddRoleToInstanceProfile'' err w))"

definition detachRole :: "'b rm \<Rightarrow> InstanceProfile \<Rightarrow> ('b, error option) go" where
  "detachRole rm latest w =
     (let (err, w) = sdk_call (RemoveRoleFromInstanceProfile (sdkapi rm) (Spec_Name latest) (Spec_Role latest)) w
      in Some (err, RecordAPICall ''UPDATE'' ''RemoveRoleFromInstanceProfile'' err w))"

definition syncRole :: "'b rm \<Rightarrow> InstanceProfile \<Rightarrow> InstanceProfile \<Rightarrow> ('b, error option) go" where
  "syncRole rm desired latest w = (case Spec_Role desired of
     None \<Rightarrow> if Spec_Role latest = None then Some (None, w) else detachRole rm latest w
   | Some desiredRole \<Rightarrow> (case Spec_Role latest of
        None \<Rightarrow> attachRole rm desired w
      | Some latestRole \<Rightarrow>
          if desiredRole = latestRole then Some (None, w)
          else do {
            (err, w) \<leftarrow> detachRole rm latest w;
            (case err of Some e \<Rightarrow> Some (Some e, w) | None \<Rightarrow> attachRole rm desired w) }))"

subsection \<open>Tags\<close>

definition addTags :: "'b rm \<Rightarrow> InstanceProfile \<Rightarrow> Tag list \<Rightarrow> ('b, error option) go" where
  "addTags rm r tags w =
     (let (err, w) = sdk_call (TagInstanceProfile (sdkapi rm) (Spec_Name r) (map copyTag tags)) w
      in Some (err, RecordAPICall ''UPDATE'' ''TagInstanceProfile'' err w))"

definition removeTags :: "'b rm \<Rightarrow> InstanceProfile \<Rightarrow> Tag list \<Rightarrow> ('b, error option) go" where
  "removeTags rm r tags w = do {
     inTagKeys \<leftarrow> traverse Key tags;
     let (err, w) = sdk_call (UntagInstanceProfile (sdkapi rm) (Spec_Name r) inTagKeys) w;
     Some (err, RecordAPICall ''UPDATE'' ''UntagInstanceProfile'' err w) }"

definition syncTags :: "'b rm \<Rightarrow> InstanceProfile \<Rightarrow> InstanceProfile \<Rightarrow> ('b, error option) go" where
  "syncTags rm desired latest w = do {
     let existingTags = elems (Spec_Tags latest);
     toDelete \<leftarrow> notInTags existingTags (elems (Spec_Tags desired));
     toAdd \<leftarrow> notInTags (elems (Spec_Tags desired)) existingTags;
     (err, w) \<leftarrow> (if length toDelete > 0 then removeTags rm desired toDelete w else Some (None, w));
     (case err of
        Some e \<Rightarrow> Some (Some e, w)
      | None \<Rightarrow> if length toAdd > 0 then addTags rm desired toAdd w else Some (None, w))
   }"

definition compareTags :: "ack_rt \<Rightarrow> 'd compare_rt \<Rightarrow> 'd \<Rightarrow> InstanceProfile \<Rightarrow> InstanceProfile \<Rightarrow> 'd option" where
  "compareTags r c delta a b = compareTagLists r c delta (elems (Spec_Tags a)) (elems (Spec_Tags b))"

subsection \<open>The update\<close>

definition customUpdateInstanceProfile ::
  "'b rm \<Rightarrow> 'd compare_rt \<Rightarrow> InstanceProfile \<Rightarrow> InstanceProfile \<Rightarrow> 'd \<Rightarrow>
     ('b, InstanceProfile ptr \<times> error option) go" where
  "customUpdateInstanceProfile rm c desired latest delta w = do {
     (err, w) \<leftarrow> for_each (\<lambda>(path, f). when_different c delta path f)
       [(''Spec.Tags'', syncTags rm desired latest), (''Spec.Role'', syncRole rm desired latest)] w;
     (case err of
        Some e \<Rightarrow> Some ((None, Some e), w)
      | None \<Rightarrow> Some ((Some (setStatusDefaults rm desired), None), w))
   }"

end
