(* ===== verification/ProfileManager.thy ===== *)
theory ProfileManager
  imports ProfileHooks Manager Resource References
begin

text \<open>
  \<open>pkg/resource/instance_profile\<close> beyond the hooks: \<open>sdk.go\<close>, \<open>delta.go\<close>, \<open>manager.go\<close>,
  \<open>references.go\<close> and the parts of \<open>resource.go\<close> and \<open>descriptor.go\<close> that name the instance profile's
  own fields.
\<close>

subsection \<open>sdk.go\<close>

definition requiredFieldsMissingFromReadOneInput :: "InstanceProfile \<Rightarrow> bool" where
  "requiredFieldsMissingFromReadOneInput r \<longleftrightarrow> Spec_Name r = None"

definition newDescribeRequestPayload :: "InstanceProfile \<Rightarrow> string ptr" where
  "newDescribeRequestPayload r = Spec_Name r"

text \<open>What \<open>sdkFind\<close> and \<open>sdkCreate\<close> take over from the response.\<close>

definition fromSdkInstanceProfile :: "SdkInstanceProfile \<Rightarrow> InstanceProfile \<Rightarrow> InstanceProfile" where
  "fromSdkInstanceProfile p ko = (setARN (Profile_Arn p) ko)\<lparr>
     Status_CreateDate := Profile_CreateDate p,
     Status_InstanceProfileID := Profile_InstanceProfileId p,
     Spec_Name := Profile_InstanceProfileName p,
     Spec_Path := Profile_Path p,
     Spec_Tags := map_option (map copyTag) (Profile_Tags p)\<rparr>"

definition sdkFind :: "'b rm \<Rightarrow> InstanceProfile \<Rightarrow> ('b, InstanceProfile ptr \<times> error option) go" where
  "sdkFind rm r w =
     (if requiredFieldsMissingFromReadOneInput r then Some ((None, Some NotFound), w)
      else do {
        let input = newDescribeRequestPayload r;
        let ((resp, err), w) = sdk_call (GetInstanceProfile (sdkapi rm) input) w;
        let w = RecordAPICall ''READ_ONE'' ''GetInstanceProfile'' err w;
        (case err of
           Some e \<Rightarrow> Some ((None, Some (if ErrorCode e = Some ''NoSuchEntity'' then NotFound else e)), w)
         | None \<Rightarrow> do {
             output \<leftarrow> resp;
             p \<leftarrow> output;
             let ko = setStatusDefaults rm (fromSdkInstanceProfile p r);
             let ko = ko\<lparr>Spec_Role := None\<rparr>;
             let attachedRoles = Profile_Roles p;
             let ko = (if length attachedRoles > 0 then ko\<lparr>Spec_Role := attachedRoles ! 0\<rparr> else ko);
             Some ((Some ko, None), w) })
      })"

definition newCreateRequestPayload :: "InstanceProfile \<Rightarrow> CreateInstanceProfileInput" where
  "newCreateRequestPayload r = \<lparr>Create_InstanceProfileName = Spec_Name r, Create_Path = Spec_Path r,
     Create_Tags = map_option (map copyTag) (Spec_Tags r)\<rparr>"

definition sdkCreate :: "'b rm \<Rightarrow> InstanceProfile \<Rightarrow> ('b, InstanceProfile ptr \<times> error option) go" where
  "sdkCreate rm desired w = do {
     let ((resp, err), w) = sdk_call (CreateInstanceProfile (sdkapi rm) (newCreateRequestPayload desired)) w;
     let w = RecordAPICall ''CREATE'' ''CreateInstanceProfile'' err w;
     (case err of
        Some e \<Rightarrow> Some ((None, Some e), w)
      | None \<Rightarrow> do {
          output \<leftarrow> resp;
          p \<leftarrow> output;
          let ko = setStatusDefaults rm (fromSdkInstanceProfile p desired);
          Some ((Some (setConditions (\<lambda>cs. SetSynced (rt rm) cs ConditionFalse None None) ko), None), w) })
   }"

definition sdkUpdate ::
  "'b rm \<Rightarrow> 'd compare_rt \<Rightarrow> InstanceProfile \<Rightarrow> InstanceProfile \<Rightarrow> 'd \<Rightarrow> ('b, InstanceProfile ptr \<times> error option) go" where
  "sdkUpdate rm c desired latest delta w = customUpdateInstanceProfile rm c desired latest delta w"

definition newDeleteRequestPayload :: "InstanceProfile \<Rightarrow> string ptr" where
  "newDeleteRequestPayload r = Spec_Name r"

definition sdkDelete :: "'b rm \<Rightarrow> InstanceProfile \<Rightarrow> ('b, InstanceProfile ptr \<times> error option) go" where
  "sdkDelete rm r w = do {
     (err, w) \<leftarrow> (if Spec_Role r \<noteq> None then detachRole rm r w else Some (None, w));
     (case err of
        Some e \<Rightarrow> Some ((None, Some e), w)
      | None \<Rightarrow>
          (let input = newDeleteRequestPayload r;
               (err, w) = sdk_call (DeleteInstanceProfile (sdkapi rm) input) w;
               w = RecordAPICall ''DELETE'' ''DeleteInstanceProfile'' err w
           in Some ((None, err), w)))
   }"

definition terminalCodes :: "string list" where
  "terminalCodes = [''InvalidInput'']"

subsection \<open>delta.go\<close>

definition newResourceDelta ::
  "ack_rt \<Rightarrow> 'd compare_rt \<Rightarrow> InstanceProfile ptr \<Rightarrow> InstanceProfile ptr \<Rightarrow> 'd option" where
  "newResourceDelta r c a b =
     (if (a = None \<and> b \<noteq> None) \<or> (a \<noteq> None \<and> b = None) then Some (delta_Add c (NewDelta c) [])
      else do {
        a \<leftarrow> a;
        b \<leftarrow> b;
        delta \<leftarrow> compareTags r c (NewDelta c) a b;
        let delta = compareStringField c ''Spec.Name'' (Spec_Name a) (Spec_Name b) delta;
        let delta = compareStringField c ''Spec.Path'' (Spec_Path a) (Spec_Path b) delta;
        let delta = compareStringField c ''Spec.Role'' (Spec_Role a) (Spec_Role b) delta;
        let delta = addWhen c ''Spec.RoleRef'' (\<not> DeepEqualRef c (Spec_RoleRef a) (Spec_RoleRef b)) delta;
        let (desiredACKTags, _) = convertToOrderedACKTags (Spec_Tags a);
        let (latestACKTags, _) = convertToOrderedACKTags (Spec_Tags b);
        let delta = addWhen c ''Spec.Tags'' (\<not> MapStringStringEqual c desiredACKTags latestACKTags) delta;
        Some delta
      })"

subsection \<open>manager.go\<close>

definition lateInitializeFieldNames :: "string list" where
  "lateInitializeFieldNames = [''Path'']"

definition mirrorAWSTags :: "ack_rt \<Rightarrow> InstanceProfile \<Rightarrow> InstanceProfile ptr \<Rightarrow> InstanceProfile" where
  "mirrorAWSTags r a b = (case b of
     None \<Rightarrow> a
   | Some b \<Rightarrow> a\<lparr>Spec_Tags := mirroredTags r (Spec_Tags a) (Spec_Tags b)\<rparr>)"

definition ReadOne ::
  "'b rm \<Rightarrow> InstanceProfile ptr \<Rightarrow> ('b, (InstanceProfile ptr \<times> error option) \<times> InstanceProfile) go" where
  "ReadOne rm res w = read_one sdkFind (\<lambda>rm. mirrorAWSTags (rt rm)) terminalCodes rm res w"

definition Create :: "'b rm \<Rightarrow> InstanceProfile ptr \<Rightarrow> ('b, InstanceProfile ptr \<times> error option) go" where
  "Create rm res w = create_or_delete sdkCreate terminalCodes rm res w"

definition Update ::
  "'b rm \<Rightarrow> 'd compare_rt \<Rightarrow> InstanceProfile ptr \<Rightarrow> InstanceProfile ptr \<Rightarrow> 'd \<Rightarrow>
     ('b, InstanceProfile ptr \<times> error option) go" where
  "Update rm c resDesired resLatest delta w =
     update_with (\<lambda>rm desired latest delta. sdkUpdate rm c desired latest delta) terminalCodes rm resDesired resLatest delta w"

definition Delete :: "'b rm \<Rightarrow> InstanceProfile ptr \<Rightarrow> ('b, InstanceProfile ptr \<times> error option) go" where
  "Delete rm res w = create_or_delete sdkDelete terminalCodes rm res w"

definition incompleteLateInitialization :: "InstanceProfile \<Rightarrow> bool" where
  "incompleteLateInitialization ko = (if Spec_Path ko = None then True else False)"

definition lateInitializeFromReadOneOutput :: "InstanceProfile \<Rightarrow> InstanceProfile \<Rightarrow> InstanceProfile" where
  "lateInitializeFromReadOneOutput observedKo latestKo =
     latestKo\<lparr>Spec_Path := late_field (Spec_Path observedKo) (Spec_Path latestKo)\<rparr>"

definition LateInitialize :: "'b rm \<Rightarrow> InstanceProfile ptr \<Rightarrow> ('b, InstanceProfile ptr \<times> error option) go" where
  "LateInitialize rm latest w =
     late_initialize lateInitializeFieldNames (ReadOne rm) lateInitializeFromReadOneOutput
       incompleteLateInitialization rm latest w"

definition EnsureTags :: "'b rm \<Rightarrow> InstanceProfile ptr \<Rightarrow> (InstanceProfile \<times> error option) option" where
  "EnsureTags rm res = do {
     ko \<leftarrow> res;
     Some (ko\<lparr>Spec_Tags := ensuredTags (rt rm) (Spec_Tags ko)\<rparr>, None) }"

definition FilterSystemTags :: "'b rm \<Rightarrow> InstanceProfile ptr \<Rightarrow> string list \<Rightarrow> InstanceProfile ptr" where
  "FilterSystemTags rm res systemTags = (case res of
     None \<Rightarrow> None
   | Some ko \<Rightarrow> Some (ko\<lparr>Spec_Tags := filteredTags (rt rm) systemTags (Spec_Tags ko)\<rparr>))"

subsection \<open>resource.go and descriptor.go\<close>

definition FinalizerString :: string where
  "FinalizerString = ''finalizers.iam.services.k8s.aws/InstanceProfile''"

definition SetStatus :: "InstanceProfile \<Rightarrow> InstanceProfile \<Rightarrow> InstanceProfile" where
  "SetStatus desired r = r\<lparr>Status_ACKResourceMetadata := Status_ACKResourceMetadata desired,
     Status_Conditions := Status_Conditions desired, Status_CreateDate := Status_CreateDate desired,
     Status_InstanceProfileID := Status_InstanceProfileID desired\<rparr>"

definition SetIdentifiers :: "string \<Rightarrow> InstanceProfile \<Rightarrow> InstanceProfile \<times> error option" where
  "SetIdentifiers nameOrID r =
     (if nameOrID = [] then (r, Some MissingNameIdentifier) else (r\<lparr>Spec_Name := Some nameOrID\<rparr>, None))"

definition PopulateResourceFromAnnotation ::
  "ack_rt \<Rightarrow> (string, string) gomap \<Rightarrow> InstanceProfile \<Rightarrow> InstanceProfile \<times> error option" where
  "PopulateResourceFromAnnotation q annotation r = (case map_of annotation ''name'' of
     None \<Rightarrow> (r, Some (NewTerminalError q (Errorf ''required field missing: name'')))
   | Some f0 \<Rightarrow> (r\<lparr>Spec_Name := Some f0\<rparr>, None))"

definition Delta :: "ack_rt \<Rightarrow> 'd compare_rt \<Rightarrow> InstanceProfile ptr \<Rightarrow> InstanceProfile ptr \<Rightarrow> 'd option" where
  "Delta r c a b = newResourceDelta r c a b"

subsection \<open>references.go\<close>

text \<open>The reader finds \<open>Role\<close> custom resources; a role reference stands for the role's name.\<close>

type_synonym role_reader = "string \<Rightarrow> string \<Rightarrow> error + Role"

definition getReferencedResourceState_Role :: "ack_rt \<Rightarrow> role_reader \<Rightarrow> string \<Rightarrow> string \<Rightarrow> error + Role" where
  "getReferencedResourceState_Role r apiReader name namespace = (case apiReader namespace name of
     Inl err \<Rightarrow> Inl err
   | Inr obj \<Rightarrow>
       if (\<exists>cond \<in> set (conditions_of obj). Type cond = ConditionTypeTerminal \<and> Status cond = Some ConditionTrue)
       then Inl (ResourceReferenceTerminalFor r ''Role'' namespace name)
       else if \<not> (\<exists>cond \<in> set (conditions_of obj). Type cond = ConditionTypeResourceSynced \<and> Status cond = Some ConditionTrue)
       then Inl (ResourceReferenceNotSyncedFor r ''Role'' namespace name)
       else if policy_holder.Spec_Name obj = None
       then Inl (ResourceReferenceMissingTargetFieldFor r ''Role'' namespace name ''Spec.Name'')
       else Inr obj)"

definition ClearResolvedReferences :: "InstanceProfile \<Rightarrow> InstanceProfile" where
  "ClearResolvedReferences res = (let ko = res in if Spec_RoleRef ko \<noteq> None then ko\<lparr>Spec_Role := None\<rparr> else ko)"

definition validateReferenceFields :: "ack_rt \<Rightarrow> InstanceProfile \<Rightarrow> error option" where
  "validateReferenceFields r ko =
     (if Spec_RoleRef ko \<noteq> None \<and> Spec_Role ko \<noteq> None
      then Some (ResourceReferenceAndIDNotSupportedFor r ''Role'' ''RoleRef'')
      else None)"

definition resolveReferenceForRole ::
  "'m resourceManager_scheme \<Rightarrow> role_reader \<Rightarrow> InstanceProfile \<Rightarrow> (bool \<times> error option) \<times> InstanceProfile" where
  "resolveReferenceForRole rm apiReader ko =
     (case Option.bind (Spec_RoleRef ko) From of
        None \<Rightarrow> ((False, None), ko)
      | Some arr \<Rightarrow>
          (case resolve_reference rm (\<lambda>name namespace.
               case getReferencedResourceState_Role (rt rm) apiReader name namespace of
                 Inl e \<Rightarrow> Inl e | Inr obj \<Rightarrow> Inr (policy_holder.Spec_Name obj)) ''RoleRef'' arr ko of
             (Inl e, ko) \<Rightarrow> ((True, Some e), ko)
           | (Inr name, ko) \<Rightarrow> ((True, None), ko\<lparr>Spec_Role := name\<rparr>)))"

definition ResolveReferences ::
  "'m resourceManager_scheme \<Rightarrow> role_reader \<Rightarrow> InstanceProfile \<Rightarrow> InstanceProfile \<times> bool \<times> error option" where
  "ResolveReferences rm apiReader res =
     (let ko = res;
          err = validateReferenceFields (rt rm) ko
      in case resolveReferenceForRole rm apiReader ko of
           ((fieldHasReferences, Some e), ko) \<Rightarrow> (ko, False \<or> fieldHasReferences, Some e)
         | ((fieldHasReferences, None), ko) \<Rightarrow> (ko, False \<or> fieldHasReferences, err))"

end
