(* ===== verification/ProfileSync.thy ===== *)
theory ProfileSync
  imports ProfileManager
begin

text \<open>
  What the instance profile package achieves, as operations on the abstract instance profiles of
  the backend: an update assigns the role and the tags, the next reading finds them, a deletion
  takes the role off first.
\<close>

subsection \<open>The documented effect of the API calls\<close>

record profile =
  prof_role :: "string option"
  prof_tags :: "string \<rightharpoonup> string"

type_synonym profiles = "string \<Rightarrow> profile"

text \<open>\<open>AddRoleToInstanceProfile\<close> succeeds only on a profile without a role.\<close>

definition profile_service :: "'b profile_sdk \<Rightarrow> ('b \<Rightarrow> profiles) \<Rightarrow> bool" where
  "profile_service sdk prof \<longleftrightarrow>
     (\<forall>n r b b'. AddRoleToInstanceProfile sdk (Some n) (Some r) b = (None, b') \<longrightarrow>
        prof_role (prof b n) = None \<and> prof b' = (prof b)(n := (prof b n)\<lparr>prof_role := Some r\<rparr>)) \<and>
     (\<forall>n r b b'. RemoveRoleFromInstanceProfile sdk (Some n) (Some r) b = (None, b') \<longrightarrow>
        prof b' = (prof b)(n := (prof b n)\<lparr>prof_role := None\<rparr>)) \<and>
     (\<forall>n ts b b'. tag_set ts \<longrightarrow> TagInstanceProfile sdk (Some n) ts b = (None, b') \<longrightarrow>
        prof b' = (prof b)(n := (prof b n)\<lparr>prof_tags := prof_tags (prof b n) ++ tag_map ts\<rparr>)) \<and>
     (\<forall>n ks b b'. UntagInstanceProfile sdk (Some n) ks b = (None, b') \<longrightarrow>
        prof b' = (prof b)(n := (prof b n)\<lparr>prof_tags := prof_tags (prof b n) |` (- set ks)\<rparr>))"

text \<open>What IAM answers about the profile \<open>n\<close>: its role, if any, is the only one of the list.\<close>

definition profile_answers :: "'b profile_sdk \<Rightarrow> ('b \<Rightarrow> profiles) \<Rightarrow> 'b \<Rightarrow> string \<Rightarrow> bool" where
  "profile_answers sdk prof b n \<longleftrightarrow> (\<exists>p. GetInstanceProfile sdk (Some n) b = ((Some (Some p), None), b) \<and>
     Profile_InstanceProfileName p = Some n \<and>
     Profile_Roles p = (case prof_role (prof b n) of None \<Rightarrow> [] | Some r \<Rightarrow> [Some r]) \<and>
     tag_set (elems (Profile_Tags p)) \<and> tag_map (elems (Profile_Tags p)) = prof_tags (prof b n))"

definition describes_profile :: "InstanceProfile \<Rightarrow> profile \<Rightarrow> bool" where
  "describes_profile r x \<longleftrightarrow> Spec_Role r = prof_role x \<and> prof_role x \<noteq> Some [] \<and>
     tag_set (elems (Spec_Tags r)) \<and> tag_map (elems (Spec_Tags r)) = prof_tags x"

subsection \<open>The hooks\<close>

lemma syncRole_role:
  assumes "profile_service (sdkapi rm) prof" and "Spec_Name desired = Some n" and "Spec_Name latest = Some n"
    and "Spec_Role latest = prof_role (prof (aws w) n)"
    and "syncRole rm desired latest w = Some (None, w')"
  shows "prof (aws w') = (prof (aws w))(n := (prof (aws w) n)\<lparr>prof_role := Spec_Role desired\<rparr>)"
  using assms
  by (auto simp: syncRole_def attachRole_def detachRole_def profile_service_def prod_eq_iff fun_upd_idem
      split: option.splits if_splits Option.bind_splits)

lemma profile_syncTags_tags:
  assumes ok: "profile_service (sdkapi rm) prof" and n: "Spec_Name desired = Some n"
    and ds: "tag_set (elems (Spec_Tags desired))" and ls: "tag_set (elems (Spec_Tags latest))"
    and p: "prof_tags (prof (aws w) n) = tag_map (elems (Spec_Tags latest))"
    and run: "syncTags rm desired latest w = Some (None, w')"
  shows "prof (aws w') = (prof (aws w))(n := (prof (aws w) n)\<lparr>prof_tags := tag_map (elems (Spec_Tags desired))\<rparr>)"
proof -
  let ?ds = "elems (Spec_Tags desired)" and ?ls = "elems (Spec_Tags latest)"
  let ?add = "filter (\<lambda>t. t \<notin> set ?ls) ?ds" and ?del = "filter (\<lambda>t. t \<notin> set ?ds) ?ls"
  have sets: "tag_set ?add" "tag_set ?del" using ds ls by (simp_all add: tag_set_filter)
  obtain u where del: "(if ?del \<noteq> [] then removeTags rm desired ?del w else Some (None, w)) = Some (None, u)"
    and add: "(if ?add \<noteq> [] then addTags rm desired ?add u else Some (None, u)) = Some (None, w')"
    using run ds ls by (auto simp: syncTags_def Let_def notInTags_tag_set split: Option.bind_splits option.splits)
  have 1: "prof (aws u) = (prof (aws w))(n := (prof (aws w) n)\<lparr>prof_tags := tag_map ?ls |` (- set (tag_keys ?del))\<rparr>)"
    using del ok n sets(2) p
    by (cases "?del = []")
      (auto simp: removeTags_def traverse_Key profile_service_def prod_eq_iff tag_keys_def restrict_map_def fun_upd_idem
        simp flip: p)
  have "prof (aws w') = (prof (aws u))(n := (prof (aws u) n)\<lparr>prof_tags := prof_tags (prof (aws u) n) ++ tag_map ?add\<rparr>)"
    using add ok n sets(1)
    by (cases "?add = []") (auto simp: addTags_def profile_service_def prod_eq_iff tag_map_def fun_upd_idem)
  with 1 show ?thesis using remove_then_add [OF ls ds] by simp
qed

subsection \<open>The delta\<close>

definition delta_paths :: "string set" where
  "delta_paths = {''Spec.Tags'', ''Spec.Name'', ''Spec.Path'', ''Spec.Role'', ''Spec.RoleRef''}"

definition differences :: "'d compare_rt \<Rightarrow> InstanceProfile \<Rightarrow> InstanceProfile \<Rightarrow> (string \<times> bool) list" where
  "differences c a b =
     [(''Spec.Tags'', set (elems (Spec_Tags a)) \<noteq> set (elems (Spec_Tags b))),
      (''Spec.Name'', stringDiffers c (Spec_Name a) (Spec_Name b)),
      (''Spec.Path'', stringDiffers c (Spec_Path a) (Spec_Path b)),
      (''Spec.Role'', stringDiffers c (Spec_Role a) (Spec_Role b)),
      (''Spec.RoleRef'', \<not> DeepEqualRef c (Spec_RoleRef a) (Spec_RoleRef b)),
      (''Spec.Tags'', \<not> MapStringStringEqual c (fst (convertToOrderedACKTags (Spec_Tags a)))
         (fst (convertToOrderedACKTags (Spec_Tags b))))]"

lemma profile_newResourceDelta_report:
  assumes "in_string_ok r" and "tag_set (elems (Spec_Tags a))" and "tag_set (elems (Spec_Tags b))"
  shows "newResourceDelta r c (Some a) (Some b) = Some (report c (differences c a b))"
  by (simp add: newResourceDelta_def compareTags_def compareTagLists_tag_set [OF assms] compare_addWhen Let_def
      report_def differences_def split_beta)

definition profile_comparison_ok :: "'d compare_rt \<Rightarrow> bool" where
  "profile_comparison_ok c \<longleftrightarrow> delta_ok c delta_paths \<and> nil_difference_ok c \<and> string_maps_equal_ok c"

lemma profile_delta_of_described:
  assumes c: "profile_comparison_ok c" and r: "in_string_ok r"
    and a: "describes_profile a x" and b: "describes_profile b y"
    and delta: "newResourceDelta r c (Some a) (Some b) = Some delta"
  shows "DifferentAt c delta ''Spec.Role'' \<longleftrightarrow> prof_role x \<noteq> prof_role y"
    and "DifferentAt c delta ''Spec.Tags'' \<longleftrightarrow> prof_tags x \<noteq> prof_tags y"
proof -
  have tags: "tag_set (elems (Spec_Tags a))" "tag_set (elems (Spec_Tags b))" using a b by (simp_all add: describes_profile_def)
  have at: "DifferentAt c delta q \<longleftrightarrow> (q, True) \<in> set (differences c a b)" if "q \<in> delta_paths" for q
    using profile_newResourceDelta_report [OF r tags, of c] delta c that DifferentAt_report [of c delta_paths "differences c a b" q]
    by (simp add: profile_comparison_ok_def differences_def delta_paths_def)
  show "DifferentAt c delta ''Spec.Role'' \<longleftrightarrow> prof_role x \<noteq> prof_role y"
    using at [of "''Spec.Role''"] a b c stringDiffers_iff [of c "Spec_Role a" "Spec_Role b"]
    by (auto simp: delta_paths_def differences_def describes_profile_def profile_comparison_ok_def)
  have "MapStringStringEqual c (fst (convertToOrderedACKTags (Spec_Tags a))) (fst (convertToOrderedACKTags (Spec_Tags b)))
      \<longleftrightarrow> prof_tags x = prof_tags y"
    using c a b tags
    by (simp add: profile_comparison_ok_def string_maps_equal_ok_def convertToOrderedACKTags ack_map_tag_map describes_profile_def)
  then show "DifferentAt c delta ''Spec.Tags'' \<longleftrightarrow> prof_tags x \<noteq> prof_tags y"
    using at [of "''Spec.Tags''"] a b tag_map_eq_iff [OF tags]
    by (auto simp: delta_paths_def differences_def describes_profile_def)
qed

subsection \<open>The entry points\<close>

lemma profile_sdkUpdate_settles:
  assumes c: "profile_comparison_ok c" and r: "in_string_ok (rt rm)"
    and ok: "profile_service (sdkapi rm) prof" and n: "Spec_Name desired = Some n" "Spec_Name latest = Some n"
    and goal: "describes_profile desired goal" and old: "describes_profile latest (prof (aws w) n)"
    and delta: "newResourceDelta (rt rm) c (Some desired) (Some latest) = Some delta"
    and run: "sdkUpdate rm c desired latest delta w = Some ((res, None), w')"
  shows "prof (aws w') = (prof (aws w))(n := goal)"
proof -
  note D = profile_delta_of_described [OF c r goal old delta]
  obtain u where s1: "when_different c delta ''Spec.Tags'' (syncTags rm desired latest) w = Some (None, u)"
    and s2: "when_different c delta ''Spec.Role'' (syncRole rm desired latest) u = Some (None, w')"
    using run by (auto simp: sdkUpdate_def customUpdateInstanceProfile_def split: Option.bind_splits option.splits)
  have 1: "prof (aws u) = (prof (aws w))(n := (prof (aws w) n)\<lparr>prof_tags := prof_tags goal\<rparr>)"
    using s1 profile_syncTags_tags [OF ok n(1), of latest w u] goal old D
    by (auto simp: when_different_def describes_profile_def fun_upd_idem split: if_splits)
  have "prof (aws w') = (prof (aws u))(n := (prof (aws u) n)\<lparr>prof_role := prof_role goal\<rparr>)"
    using s2 syncRole_role [OF ok n, of u w'] goal old D 1
    by (auto simp: when_different_def describes_profile_def fun_upd_idem split: if_splits)
  then show ?thesis by (cases goal; cases "prof (aws w) n") (simp add: 1)
qed

lemma profile_Update_settles:
  assumes "profile_comparison_ok c" and "in_string_ok (rt rm)" and "aws_error_ok (rt rm)"
    and "profile_service (sdkapi rm) prof" and "Spec_Name desired = Some n" and "Spec_Name latest = Some n"
    and "describes_profile desired goal" and "describes_profile latest (prof (aws w) n)"
    and "unique_conditions (conditions_of latest)"
    and "Delta (rt rm) c (Some desired) (Some latest) = Some delta"
    and "Update rm c (Some desired) (Some latest) delta w = Some ((res, None), w')"
  shows "prof (aws w') = (prof (aws w))(n := goal)"
proof -
  have "out = None" if "sdkUpdate rm c desired latest delta w = Some ((out, Some e), u)" for out e u
    using that by (auto simp: sdkUpdate_def customUpdateInstanceProfile_def split: Option.bind_splits option.splits)
  then obtain out where run: "sdkUpdate rm c desired latest delta w = Some ((out, None), w')"
    using update_with_success [where sdkUpdate = "\<lambda>rm. sdkUpdate rm c", OF assms(3,9)] assms(11) unfolding Update_def by blast
  show ?thesis using profile_sdkUpdate_settles [OF assms(1,2,4-8) _ run] assms(10) by (simp add: Delta_def)
qed

lemma profile_sdkFind_describes:
  assumes ans: "profile_answers (sdkapi rm) prof (aws w) n" and "prof_role (prof (aws w) n) \<noteq> Some []" and n: "Spec_Name r = Some n"
  shows "\<exists>ko w'. sdkFind rm r w = Some ((Some ko, None), w') \<and> describes_profile ko (prof (aws w) n) \<and>
    Spec_Name ko = Some n \<and> aws w' = aws w"
proof -
  from ans obtain p where p: "GetInstanceProfile (sdkapi rm) (Some n) (aws w) = ((Some (Some p), None), aws w)"
    "Profile_InstanceProfileName p = Some n"
    "Profile_Roles p = (case prof_role (prof (aws w) n) of None \<Rightarrow> [] | Some r \<Rightarrow> [Some r])"
    "tag_set (elems (Profile_Tags p))" "tag_map (elems (Profile_Tags p)) = prof_tags (prof (aws w) n)"
    by (auto simp: profile_answers_def)
  have "Spec_Name (setStatusDefaults rm ko) = Spec_Name ko" "Spec_Tags (setStatusDefaults rm ko) = Spec_Tags ko"
    for ko :: InstanceProfile by (simp_all add: setStatusDefaults_def Let_def)
  with p assms(2) show ?thesis
    by (auto simp: sdkFind_def requiredFieldsMissingFromReadOneInput_def newDescribeRequestPayload_def n
        describes_profile_def fromSdkInstanceProfile_def Let_def split: option.splits)
qed

lemma profile_Delete_bare:
  assumes r: "aws_error_ok (rt rm)" and ok: "profile_service (sdkapi rm) prof" and n: "Spec_Name r = Some n"
    and old: "Spec_Role r = prof_role (prof (aws w) n)" "unique_conditions (conditions_of r)"
    and run: "Delete rm (Some r) w = Some ((res, None), w')"
  shows "\<exists>b. DeleteInstanceProfile (sdkapi rm) (Some n) b = (None, aws w') \<and>
    prof b = (prof (aws w))(n := (prof (aws w) n)\<lparr>prof_role := None\<rparr>)"
proof -
  have "out = None" if "sdkDelete rm r w = Some ((out, e), u)" for out e u
    using that by (auto simp: sdkDelete_def Let_def prod_eq_iff split: Option.bind_splits option.splits)
  then obtain out where "sdkDelete rm r w = Some ((out, None), w')"
    using create_or_delete_success [where operation = sdkDelete, OF r old(2)] run unfolding Delete_def by blast
  then obtain u where first: "(if Spec_Role r \<noteq> None then detachRole rm r w else Some (None, w)) = Some (None, u)"
    and last: "DeleteInstanceProfile (sdkapi rm) (Some n) (aws u) = (None, aws w')"
    using n by (auto simp: sdkDelete_def newDeleteRequestPayload_def Let_def prod_eq_iff
        split: Option.bind_splits option.splits)
  have "prof (aws u) = (prof (aws w))(n := (prof (aws w) n)\<lparr>prof_role := None\<rparr>)"
    using first ok n old(1)
    by (auto simp: detachRole_def profile_service_def prod_eq_iff fun_upd_idem split: if_splits)
  with last show ?thesis by blast
qed

end
