(* ===== verification/ProfileProperties.thy ===== *)
theory ProfileProperties
  imports ProfileSync Samples
begin

text \<open>The properties of the instance profile package, and the backend their witnesses are evaluated on.\<close>

subsection \<open>A concrete backend\<close>

record profile_entry =
  e_role :: "string option"
  e_tags :: "Tag list"

type_synonym entries = "string \<Rightarrow> profile_entry"

definition profile_of :: "profile_entry \<Rightarrow> profile" where
  "profile_of e = \<lparr>prof_role = e_role e, prof_tags = tag_map (e_tags e)\<rparr>"

definition sample_prof :: "entries \<Rightarrow> profiles" where
  "sample_prof b n = profile_of (b n)"

lemma sample_prof_upd [simp]: "sample_prof (b(n := e)) = (sample_prof b)(n := profile_of e)"
  by (auto simp: sample_prof_def fun_eq_iff)

definition sdk_profile :: "entries \<Rightarrow> string ptr \<Rightarrow> SdkInstanceProfile" where
  "sdk_profile b n = \<lparr>Profile_Arn = Some ''arn:ip'', Profile_CreateDate = Some 0, Profile_InstanceProfileId = Some ''AIPA'',
     Profile_InstanceProfileName = n, Profile_Path = Some ''/'',
     Profile_Roles = (case e_role (b (the n)) of None \<Rightarrow> [] | Some r \<Rightarrow> [Some r]), Profile_Tags = Some (e_tags (b (the n)))\<rparr>"

definition sample_profiles_sdk :: "entries profile_sdk" where
  "sample_profiles_sdk = \<lparr>
     GetInstanceProfile = (\<lambda>n b. ((Some (Some (sdk_profile b n)), None), b)),
     CreateInstanceProfile = (\<lambda>input b. ((Some (Some (sdk_profile b (Create_InstanceProfileName input))), None), b)),
     DeleteInstanceProfile = (\<lambda>n b. (None, b)),
     AddRoleToInstanceProfile = (\<lambda>n r b. if e_role (b (the n)) = None then (None, b(the n := (b (the n))\<lparr>e_role := r\<rparr>))
       else (Some (Error (APIError ''LimitExceeded'') ''one role'' None), b)),
     RemoveRoleFromInstanceProfile = (\<lambda>n r b. (None, b(the n := (b (the n))\<lparr>e_role := None\<rparr>))),
     TagInstanceProfile = (\<lambda>n ts b. (None, b(the n := (b (the n))\<lparr>e_tags := ts @ e_tags (b (the n))\<rparr>))),
     UntagInstanceProfile = (\<lambda>n ks b. (None, b(the n := (b (the n))\<lparr>e_tags := filter (\<lambda>t. the (Key t) \<notin> set ks) (e_tags (b (the n)))\<rparr>)))\<rparr>"

definition sample_profile_rm :: "entries rm" where
  "sample_profile_rm = \<lparr>rt = sample_rt, EnableCrossNamespace = False, awsAccountID = ''1'', awsRegion = ''us-east-1'',
     awsPartition = ''aws'', sdkapi = sample_profiles_sdk\<rparr>"

definition sample_profile :: InstanceProfile where
  "sample_profile = \<lparr>Namespace = ''default'', DeletionTimestamp = None, Finalizers = [], Annotations = [],
     Status_ACKResourceMetadata = None, Status_Conditions = None, Spec_Name = Some ''p'', Spec_Path = None,
     Spec_Role = Some ''old'', Spec_RoleRef = None, Spec_Tags = Some [mkTag ''k'' ''1''],
     Status_CreateDate = None, Status_InstanceProfileID = None\<rparr>"

definition wanted_profile :: InstanceProfile where
  "wanted_profile = sample_profile\<lparr>Spec_Role := Some ''new'', Spec_Tags := Some [mkTag ''k'' ''2'']\<rparr>"

definition entries_world :: "entries world" where
  "entries_world = \<lparr>aws = (\<lambda>_. \<lparr>e_role = Some ''old'', e_tags = [mkTag ''k'' ''1'']\<rparr>), api_calls = []\<rparr>"

lemma profile_simps [simp]:
  "rt sample_profile_rm = sample_rt" "sdkapi sample_profile_rm = sample_profiles_sdk"
  "Spec_Name sample_profile = Some ''p''" "Spec_Role sample_profile = Some ''old''" "Spec_Path sample_profile = None"
  "Spec_Tags sample_profile = Some [mkTag ''k'' ''1'']" "Spec_RoleRef sample_profile = None"
  "Spec_Name wanted_profile = Some ''p''" "Spec_Role wanted_profile = Some ''new''" "Spec_Path wanted_profile = None"
  "Spec_Tags wanted_profile = Some [mkTag ''k'' ''2'']" "Spec_RoleRef wanted_profile = None"
  "Status_Conditions sample_profile = None" "Status_Conditions wanted_profile = None"
  "aws entries_world = (\<lambda>_. \<lparr>e_role = Some ''old'', e_tags = [mkTag ''k'' ''1'']\<rparr>)"
  by (simp_all add: sample_profile_rm_def sample_profile_def wanted_profile_def entries_world_def)

lemma sample_profile_service: "profile_service sample_profiles_sdk sample_prof"
proof -
  have add: "e_role (b n) = None \<and> b' = b(n := (b n)\<lparr>e_role := Some r\<rparr>)"
    if "AddRoleToInstanceProfile sample_profiles_sdk (Some n) (Some r) b = (None, b')" for n r b b'
    using that by (cases "e_role (b n)") (auto simp: sample_profiles_sdk_def)
  moreover have "RemoveRoleFromInstanceProfile sample_profiles_sdk (Some n) (Some r) b = (None, b(n := (b n)\<lparr>e_role := None\<rparr>))"
    "TagInstanceProfile sample_profiles_sdk (Some n) ts b = (None, b(n := (b n)\<lparr>e_tags := ts @ e_tags (b n)\<rparr>))"
    "UntagInstanceProfile sample_profiles_sdk (Some n) ks b =
       (None, b(n := (b n)\<lparr>e_tags := filter (\<lambda>t. the (Key t) \<notin> set ks) (e_tags (b n))\<rparr>))" for n r ts ks b
    by (simp_all add: sample_profiles_sdk_def)
  moreover have "prof_role (sample_prof b n) = e_role (b n)"
    "profile_of ((b n)\<lparr>e_role := r\<rparr>) = (sample_prof b n)\<lparr>prof_role := r\<rparr>"
    "profile_of ((b n)\<lparr>e_tags := ts @ e_tags (b n)\<rparr>) = (sample_prof b n)\<lparr>prof_tags := prof_tags (sample_prof b n) ++ tag_map ts\<rparr>"
    "profile_of ((b n)\<lparr>e_tags := filter (\<lambda>t. the (Key t) \<notin> set ks) (e_tags (b n))\<rparr>) =
       (sample_prof b n)\<lparr>prof_tags := prof_tags (sample_prof b n) |` (- set ks)\<rparr>" for b n r ts ks
    by (simp_all add: sample_prof_def profile_of_def tag_map_append tag_map_without)
  ultimately show ?thesis by (auto simp: profile_service_def dest!: add)
qed

lemma sample_profile_answers:
  "tag_set (e_tags (b n)) \<Longrightarrow> profile_answers sample_profiles_sdk sample_prof b n"
  by (simp add: profile_answers_def sample_profiles_sdk_def sdk_profile_def sample_prof_def profile_of_def)

lemma sample_describes_profile:
  "describes_profile wanted_profile \<lparr>prof_role = Some ''new'', prof_tags = [''k'' \<mapsto> ''2'']\<rparr>"
  "describes_profile sample_profile \<lparr>prof_role = Some ''old'', prof_tags = [''k'' \<mapsto> ''1'']\<rparr>"
  by (simp_all add: describes_profile_def tag_set_def tag_map_def)

lemma sample_profile_comparison: "profile_comparison_ok sample_compare"
proof -
  have "set a = set b \<longleftrightarrow> map_of a = map_of b" if "wf_map a" "wf_map b" for a b :: "(string, string) gomap"
    using map_of_inject_set [OF that] by simp
  then show ?thesis by (auto simp: profile_comparison_ok_def string_maps_equal_ok_def)
qed

lemma sample_profile_conditions: "unique_conditions (conditions_of sample_profile)" "unique_conditions (conditions_of wanted_profile)"
  by (simp_all add: conditions_of_def unique_conditions_def)

lemma sample_profile_delta: "\<exists>delta. Delta sample_rt sample_compare (Some wanted_profile) (Some sample_profile) = Some delta \<and>
    ''Spec.Tags'' \<in> set delta \<and> ''Spec.Role'' \<in> set delta"
proof -
  have tags: "tag_set (elems (Spec_Tags wanted_profile))" "tag_set (elems (Spec_Tags sample_profile))" by (simp_all add: tag_set_def)
  have "Delta sample_rt sample_compare (Some wanted_profile) (Some sample_profile) =
      Some (report sample_compare (differences sample_compare wanted_profile sample_profile))"
    unfolding Delta_def by (rule profile_newResourceDelta_report [OF _ tags]) simp
  from this [unfolded Delta_def]
    profile_delta_of_described [OF sample_profile_comparison _ sample_describes_profile this [unfolded Delta_def]]
  show ?thesis by (simp add: Delta_def fun_eq_iff)
qed

lemma sample_profile_update:
  assumes "''Spec.Tags'' \<in> set delta" and "''Spec.Role'' \<in> set delta"
  shows "\<exists>res w'. Update sample_profile_rm sample_compare (Some wanted_profile) (Some sample_profile) delta entries_world =
      Some ((res, None), w') \<and> aws w' ''p'' = \<lparr>e_role = Some ''new'', e_tags = [mkTag ''k'' ''2'']\<rparr>"
proof -
  have "\<exists>u. syncTags sample_profile_rm wanted_profile sample_profile entries_world = Some (None, u) \<and>
      aws u ''p'' = \<lparr>e_role = Some ''old'', e_tags = [mkTag ''k'' ''2'']\<rparr>"
    by (simp add: syncTags_def notInTags_def inTags_def removeTags_def addTags_def sample_profiles_sdk_def Let_def)
  then obtain u where u: "syncTags sample_profile_rm wanted_profile sample_profile entries_world = Some (None, u)"
    "aws u ''p'' = \<lparr>e_role = Some ''old'', e_tags = [mkTag ''k'' ''2'']\<rparr>" by blast
  have "\<exists>w'. syncRole sample_profile_rm wanted_profile sample_profile u = Some (None, w') \<and>
      aws w' ''p'' = \<lparr>e_role = Some ''new'', e_tags = [mkTag ''k'' ''2'']\<rparr>"
    using u(2) by (simp add: syncRole_def attachRole_def detachRole_def sample_profiles_sdk_def)
  then obtain w' where w': "syncRole sample_profile_rm wanted_profile sample_profile u = Some (None, w')"
    "aws w' ''p'' = \<lparr>e_role = Some ''new'', e_tags = [mkTag ''k'' ''2'']\<rparr>" by blast
  have "sdkUpdate sample_profile_rm sample_compare wanted_profile sample_profile delta entries_world =
      Some ((Some (setStatusDefaults sample_profile_rm wanted_profile), None), w')"
    using assms u(1) w'(1) by (simp add: sdkUpdate_def customUpdateInstanceProfile_def when_different_def)
  moreover have "unique_conditions (conditions_of (setStatusDefaults sample_profile_rm wanted_profile))"
    using sample_profile_conditions(2) by simp
  then obtain ko where "finish sample_profile_rm terminalCodes sample_profile
      (Some (setStatusDefaults sample_profile_rm wanted_profile)) None = Some (Some ko, None)"
    using finish_success by blast
  ultimately show ?thesis using w'(2) by (simp add: Update_def update_with_def)
qed

subsection \<open>The properties\<close>

text \<open>
  C8. The reconciler's rounds converge for instance profiles: when the entry point \<open>Update\<close> returns no
  error, the profile has exactly the desired role and tags, no other profile has changed, the next
  \<open>sdkFind\<close> finds that, and the delta of the desired and the found profile calls no hook again.
  A profile holds one role, and \<open>AddRoleToInstanceProfile\<close> succeeds only without one, so the role is
  replaced by taking the old one off first.
\<close>

theorem instance_profile_converges:
  assumes "profile_comparison_ok c" and "in_string_ok (rt rm)" and "aws_error_ok (rt rm)"
    and "profile_service (sdkapi rm) prof" and "Spec_Name desired = Some n" and "Spec_Name latest = Some n"
    and "describes_profile desired goal" and "describes_profile latest (prof (aws w) n)"
    and "unique_conditions (conditions_of latest)"
    and "Delta (rt rm) c (Some desired) (Some latest) = Some delta"
    and "Update rm c (Some desired) (Some latest) delta w = Some ((res, None), w')"
    and "profile_answers (sdkapi rm) prof (aws w') n"
  shows "prof (aws w') = (prof (aws w))(n := goal) \<and>
    (\<exists>ko delta' w''. sdkFind rm desired w' = Some ((Some ko, None), w'') \<and>
       Delta (rt rm) c (Some desired) (Some ko) = Some delta' \<and>
       \<not> DifferentAt c delta' ''Spec.Role'' \<and> \<not> DifferentAt c delta' ''Spec.Tags'')"
proof -
  have goal: "prof (aws w') = (prof (aws w))(n := goal)" by (rule profile_Update_settles [OF assms(1-11)])
  with profile_sdkFind_describes [OF assms(12) _ assms(5)] assms(7) obtain ko w'' where
    ko: "sdkFind rm desired w' = Some ((Some ko, None), w'')" "describes_profile ko goal"
    by (auto simp: describes_profile_def)
  then have "tag_set (elems (Spec_Tags desired))" "tag_set (elems (Spec_Tags ko))"
    using assms(7) by (simp_all add: describes_profile_def)
  then obtain delta' where "newResourceDelta (rt rm) c (Some desired) (Some ko) = Some delta'"
    using profile_newResourceDelta_report [OF assms(2)] by blast
  with profile_delta_of_described [OF assms(1,2,7) ko(2) this] goal ko(1) show ?thesis by (auto simp: Delta_def)
qed

lemma instance_profile_converges_witness:
  "\<exists>delta res w'. Delta sample_rt sample_compare (Some wanted_profile) (Some sample_profile) = Some delta \<and>
     Update sample_profile_rm sample_compare (Some wanted_profile) (Some sample_profile) delta entries_world =
      Some ((res, None), w') \<and> e_role (aws w' ''p'') = Some ''new''"
proof -
  obtain delta where delta: "Delta sample_rt sample_compare (Some wanted_profile) (Some sample_profile) = Some delta"
    "''Spec.Tags'' \<in> set delta" "''Spec.Role'' \<in> set delta" using sample_profile_delta by blast
  obtain res w' where run: "Update sample_profile_rm sample_compare (Some wanted_profile) (Some sample_profile) delta entries_world =
      Some ((res, None), w')" and w': "aws w' ''p'' = \<lparr>e_role = Some ''new'', e_tags = [mkTag ''k'' ''2'']\<rparr>"
    using sample_profile_update [OF delta(2,3)] by blast
  have old: "describes_profile sample_profile (sample_prof (aws entries_world) ''p'')"
    using sample_describes_profile(2) by (simp add: sample_prof_def profile_of_def tag_map_def)
  have ans: "profile_answers sample_profiles_sdk sample_prof (aws w') ''p''"
    by (rule sample_profile_answers) (simp add: w' tag_set_def)
  have "sample_prof (aws w') ''p'' = \<lparr>prof_role = Some ''new'', prof_tags = [''k'' \<mapsto> ''2'']\<rparr>"
    using instance_profile_converges [OF sample_profile_comparison, where prof = sample_prof and n = "''p''",
        OF _ _ _ _ _ sample_describes_profile(1) old sample_profile_conditions(1) _ run] sample_profile_service ans delta(1)
    by (simp add: fun_eq_iff)
  with delta(1) run show ?thesis by (auto simp: sample_prof_def profile_of_def)
qed

end
