(* ===== verification/ProviderHooks.thy ===== *)
theory ProviderHooks
  imports Compare TagHooks Sync
begin

text \<open>
  The data of the OpenID Connect provider package and
  \<open>pkg/resource/open_id_connect_provider/hooks.go\<close>, which keeps the thumbprints, the client ids and
  the tags of a provider in line with the \<open>OpenIDConnectProvider\<close> custom resource of
  \<open>apis/v1alpha1/open_id_connect_provider.go\<close>. IAM knows a provider by its ARN. Its client ids can
  only be added and removed one by one.
\<close>

subsection \<open>Data\<close>

record OpenIDConnectProvider = ack_object +
  Spec_ClientIDs :: "string ptr slice"
  Spec_Tags :: "Tag slice"
  Spec_Thumbprints :: "string ptr slice"
  Spec_URL :: "string ptr"

record GetProviderOutput =
  Get_ClientIDList :: "string slice"
  Get_Tags :: "Tag slice"
  Get_ThumbprintList :: "string slice"
  Get_Url :: "string ptr"

record CreateProviderInput =
  Create_ClientIDList :: "string slice"
  Create_Tags :: "Tag slice"
  Create_ThumbprintList :: "string slice"
  Create_Url :: "string ptr"

record CreateProviderOutput =
  Created_OpenIDConnectProviderArn :: "string ptr"
  Created_Tags :: "Tag slice"

text \<open>
  \<open>UpdateOpenIDConnectProviderThumbprint\<close> takes the thumbprints and the ARN, the client id calls the
  client id and the ARN, the tag calls the ARN first. \<open>StringSlice\<close> and \<open>ToStringSlice\<close> are the helpers
  of the SDK that turn a list of strings into one of pointers and back.
\<close>

record 'b provider_sdk =
  GetOpenIDConnectProvider :: "string ptr \<Rightarrow> 'b \<Rightarrow> (GetProviderOutput ptr \<times> error option) \<times> 'b"
  CreateOpenIDConnectProvider :: "CreateProviderInput \<Rightarrow> 'b \<Rightarrow> (CreateProviderOutput ptr \<times> error option) \<times> 'b"
  DeleteOpenIDConnectProvider :: "string ptr \<Rightarrow> 'b \<Rightarrow> error option \<times> 'b"
  UpdateOpenIDConnectProviderThumbprint :: "string slice \<Rightarrow> string ptr \<Rightarrow> 'b \<Rightarrow> error option \<times> 'b"
  AddClientIDToOpenIDConnectProvider :: "string ptr \<Rightarrow> string ptr \<Rightarrow> 'b \<Rightarrow> error option \<times> 'b"
  RemoveClientIDFromOpenIDConnectProvider :: "string ptr \<Rightarrow> string ptr \<Rightarrow> 'b \<Rightarrow> error option \<times> 'b"
  ListOpenIDConnectProviderTags :: "string ptr \<Rightarrow> string ptr \<Rightarrow> 'b \<Rightarrow> (ListTagsOutput ptr \<times> error option) \<times> 'b"
  TagOpenIDConnectProvider :: "string ptr \<Rightarrow> Tag list \<Rightarrow> 'b \<Rightarrow> error option \<times> 'b"
  UntagOpenIDConnectProvider :: "string ptr \<Rightarrow> string list \<Rightarrow> 'b \<Rightarrow> error option \<times> 'b"
  StringSlice :: "string list \<Rightarrow> string ptr list"
  ToStringSlice :: "string ptr list \<Rightarrow> string list"

record 'b provider_manager = resourceManager +
  sdkapi :: "'b provider_sdk"

type_synonym 'b rm = "'b provider_manager"

text \<open>\<open>r.ko.Status.ACKResourceMetadata.ARN\<close>: nil metadata panics.\<close>

definition providerArn :: "OpenIDConnectProvider \<Rightarrow> string ptr option" where
  "providerArn r = do { md \<leftarrow> Status_ACKResourceMetadata r; Some (ARN md) }"

subsection \<open>Requests\<close>

definition newUpdateThumbprintRequestPayload :: "OpenIDConnectProvider \<Rightarrow> (string slice \<times> string ptr) option" where
  "newUpdateThumbprintRequestPayload r = do {
     thumbprints \<leftarrow> (case Spec_Thumbprints r of
         None \<Rightarrow> Some None
       | Some ps \<Rightarrow> do { ts \<leftarrow> traverse (\<lambda>thumbprint. thumbprint) ps; Some (Some ts) });
     arn \<leftarrow> providerArn r;
     Some (thumbprints, arn) }"

definition newAddClientIDRequestPayload :: "OpenIDConnectProvider \<Rightarrow> string ptr \<Rightarrow> (string ptr \<times> string ptr) option" where
  "newAddClientIDRequestPayload r clientId = do { arn \<leftarrow> providerArn r; Some (clientId, arn) }"

definition newRemoveClientIDRequestPayload :: "OpenIDConnectProvider \<Rightarrow> string ptr \<Rightarrow> (string ptr \<times> string ptr) option" where
  "newRemoveClientIDRequestPayload r clientId = do { arn \<leftarrow> providerArn r; Some (clientId, arn) }"

subsection \<open>Tags\<close>

text \<open>\<open>inTags\<close>, which takes a nil value for a value that is not found.\<close>

definition inTags :: "string \<Rightarrow> string \<Rightarrow> Tag list \<Rightarrow> bool option" where
  "inTags key value tags = search (\<lambda>t. do {
     k \<leftarrow> Key t;
     Some (k = key \<and> Value t \<noteq> None \<and> Value t = Some value) }) tags"

definition notInTags :: "Tag list \<Rightarrow> Tag list \<Rightarrow> Tag list option" where
  "notInTags ts us = select (\<lambda>t. do { k \<leftarrow> Key t; v \<leftarrow> Value t; b \<leftarrow> inTags k v us; Some (\<not> b) }) ts"

definition addTags :: "'b rm \<Rightarrow> OpenIDConnectProvider \<Rightarrow> Tag list \<Rightarrow> ('b, error option) go" where
  "addTags rm r tags w = do {
     arn \<leftarrow> providerArn r;
     let (err, w) = sdk_call (TagOpenIDConnectProvider (sdkapi rm) arn (map copyTag tags)) w;
     Some (err, RecordAPICall ''UPDATE'' ''TagOpenIDConnectProvider'' err w) }"

definition removeTags :: "'b rm \<Rightarrow> OpenIDConnectProvider \<Rightarrow> Tag list \<Rightarrow> ('b, error option) go" where
  "removeTags rm r tags w = do {
     arn \<leftarrow> providerArn r;
     inTagKeys \<leftarrow> traverse Key tags;
     let (err, w) = sdk_call (UntagOpenIDConnectProvider (sdkapi rm) arn inTagKeys) w;
     Some (err, RecordAPICall ''UPDATE'' ''UntagOpenIDConnectProvider'' err w) }"

text \<open>The \<open>for\<close> loop of \<open>getTags\<close>, which records only the pages after which it goes on.\<close>

partial_function (option) tagPages ::
  "'b rm \<Rightarrow> string ptr \<Rightarrow> string ptr \<Rightarrow> Tag list \<Rightarrow> 'b world \<Rightarrow> ((Tag list \<times> error option) \<times> 'b world) option" where
  "tagPages rm arn marker res w = do {
     let ((resp, err), w) = sdk_call (ListOpenIDConnectProviderTags (sdkapi rm) arn marker) w;
     (case (err, resp) of
        (None, Some resp) \<Rightarrow> do {
          let res = res @ map copyTag (Tags resp);
          if \<not> IsTruncated resp then Some ((res, err), w)
          else tagPages rm arn (Marker resp) res (RecordAPICall ''READ_MANY'' ''ListOpenIDConnectProviderTags'' err w) }
      | _ \<Rightarrow> Some ((res, err), w))
   }"

definition getTags :: "'b rm \<Rightarrow> OpenIDConnectProvider \<Rightarrow> ('b, Tag slice \<times> error option) go" where
  "getTags rm r w = do {
     arn \<leftarrow> providerArn r;
     ((res, err), w) \<leftarrow> tagPages rm arn None [] w;
     Some ((Some res, err), w) }"

text \<open>\<open>syncTags\<close> reads the tags again, where the other packages compare with the latest resource.\<close>

definition syncTags :: "'b rm \<Rightarrow> OpenIDConnectProvider \<Rightarrow> ('b, error option) go" where
  "syncTags rm r w = do {
     ((existingTags, err), w) \<leftarrow> getTags rm r w;
     (case err of
        Some e \<Rightarrow> Some (Some e, w)
      | None \<Rightarrow> do {
          toAdd \<leftarrow> notInTags (elems (Spec_Tags r)) (elems existingTags);
          toDelete \<leftarrow> notInTags (elems existingTags) (elems (Spec_Tags r));
          (err, w) \<leftarrow> (if length toAdd > 0 then addTags rm r toAdd w else Some (None, w));
          (case err of
             Some e \<Rightarrow> Some (Some e, w)
           | None \<Rightarrow> if length toDelete > 0 then removeTags rm r toDelete w else Some (None, w)) }) }"

subsection \<open>Client ids\<close>

text \<open>\<open>ids := map[string]bool{}; for _, id := range clientIDs { ids[*id] = true }\<close>\<close>

definition clientIDSet :: "string ptr list \<Rightarrow> (string, bool) gomap option" where
  "clientIDSet clientIDs = do {
     ids \<leftarrow> traverse (\<lambda>p. p) clientIDs;
     Some (fold (\<lambda>i. AList.update i True) ids []) }"

definition addClientID :: "'b rm \<Rightarrow> OpenIDConnectProvider \<Rightarrow> string \<Rightarrow> ('b, error option) go" where
  "addClientID rm desired i w = do {
     (clientId, arn) \<leftarrow> newAddClientIDRequestPayload desired (Some i);
     let (err, w) = sdk_call (AddClientIDToOpenIDConnectProvider (sdkapi rm) clientId arn) w;
     Some (err, RecordAPICall ''UPDATE'' ''AddClientIDToOpenIDConnectProvider'' err w) }"

definition removeClientID :: "'b rm \<Rightarrow> OpenIDConnectProvider \<Rightarrow> string \<Rightarrow> ('b, error option) go" where
  "removeClientID rm desired i w = do {
     (clientId, arn) \<leftarrow> newRemoveClientIDRequestPayload desired (Some i);
     let (err, w) = sdk_call (RemoveClientIDFromOpenIDConnectProvider (sdkapi rm) clientId arn) w;
     Some (err, RecordAPICall ''UPDATE'' ''RemoveClientIDFromOpenIDConnectProvider'' err w) }"

text \<open>
  The first loop, over the desired ids: an id the provider lacks is added, one it has is taken out
  of both maps. Deleting the current key does not disturb the \<open>range\<close>. \<open>Inr\<close> is what is left of
  the map of latest ids.
\<close>

primrec addClientIDs ::
  "'b rm \<Rightarrow> OpenIDConnectProvider \<Rightarrow> string list \<Rightarrow> (string, bool) gomap \<Rightarrow> 'b world \<Rightarrow>
     ((error + (string, bool) gomap) \<times> 'b world) option" where
  "addClientIDs rm desired [] latestClientIDs w = Some (Inr latestClientIDs, w)"
| "addClientIDs rm desired (i # ids) latestClientIDs w =
     (if map_of latestClientIDs i = None then do {
        (err, w) \<leftarrow> addClientID rm desired i w;
        (case err of
           Some e \<Rightarrow> Some (Inl e, w)
         | None \<Rightarrow> addClientIDs rm desired ids latestClientIDs w) }
      else addClientIDs rm desired ids (AList.delete i latestClientIDs) w)"

definition syncClientIDs :: "'b rm \<Rightarrow> OpenIDConnectProvider \<Rightarrow> OpenIDConnectProvider \<Rightarrow> ('b, error option) go" where
  "syncClientIDs rm desired latest w = do {
     desiredClientIDs \<leftarrow> clientIDSet (elems (Spec_ClientIDs desired));
     latestClientIDs \<leftarrow> clientIDSet (elems (Spec_ClientIDs latest));
     (res, w) \<leftarrow> addClientIDs rm desired (map_order (rt rm) (keys desiredClientIDs)) latestClientIDs w;
     (case res of
        Inl e \<Rightarrow> Some (Some e, w)
      | Inr latestClientIDs \<Rightarrow>
          for_each (removeClientID rm desired) (map_order (rt rm) (keys latestClientIDs)) w) }"

subsection \<open>The update\<close>

definition updateThumbprint :: "'b rm \<Rightarrow> OpenIDConnectProvider \<Rightarrow> ('b, error option) go" where
  "updateThumbprint rm desired w = do {
     (thumbprints, arn) \<leftarrow> newUpdateThumbprintRequestPayload desired;
     let (err, w) = sdk_call (UpdateOpenIDConnectProviderThumbprint (sdkapi rm) thumbprints arn) w;
     Some (err, RecordAPICall ''UPDATE'' ''UpdateOpenIDConnectProviderThumbprint'' err w) }"

definition customUpdateOpenIDConnectProvider ::
  "'b rm \<Rightarrow> 'd compare_rt \<Rightarrow> OpenIDConnectProvider \<Rightarrow> OpenIDConnectProvider \<Rightarrow> 'd \<Rightarrow>
     ('b, OpenIDConnectProvider ptr \<times> error option) go" where
  "customUpdateOpenIDConnectProvider rm c desired latest delta w = do {
     (err, w) \<leftarrow> for_each (\<lambda>(path, f). when_different c delta path f)
       [(''Spec.Thumbprints'', updateThumbprint rm desired),
        (''Spec.ClientIDs'', syncClientIDs rm desired latest),
        (''Spec.Tags'', syncTags rm desired)] w;
     (case err of
        Some e \<Rightarrow> Some ((None, Some e), w)
      | None \<Rightarrow> Some ((Some (desired\<lparr>Status_Conditions :=
            SetSynced (rt rm) (Status_Conditions desired) ConditionTrue None None\<rparr>), None), w)) }"

subsection \<open>The comparison\<close>

text \<open>\<open>strings.TrimPrefix\<close> of the standard library.\<close>

definition TrimPrefix :: "string \<Rightarrow> string \<Rightarrow> string" where
  "TrimPrefix s prefix = (if take (length prefix) s = prefix then drop (length prefix) s else s)"

definition customPreCompare ::
  "ack_rt \<Rightarrow> 'd compare_rt \<Rightarrow> 'd \<Rightarrow> OpenIDConnectProvider \<Rightarrow> OpenIDConnectProvider \<Rightarrow> 'd option" where
  "customPreCompare r c delta a b = do {
     delta \<leftarrow> compareTagLists r c delta (elems (Spec_Tags a)) (elems (Spec_Tags b));
     Some (if HasNilDifference c (Spec_URL a) (Spec_URL b) then delta_Add c delta ''Spec.URL''
           else (case (Spec_URL a, Spec_URL b) of
              (Some x, Some y) \<Rightarrow>
                if x \<noteq> y then
                  (let aURL = TrimPrefix x ''https://''; bURL = TrimPrefix y ''https://''
                   in if aURL \<noteq> bURL then delta_Add c delta ''Spec.URL'' else delta)
                else delta
            | _ \<Rightarrow> delta)) }"

end
