(* ===== verification/ProviderManager.thy ===== *)
theory ProviderManager
  imports ProviderHooks Manager Resource
begin

text \<open>
  \<open>pkg/resource/open_id_connect_provider\<close> beyond the hooks: \<open>sdk.go\<close>, \<open>delta.go\<close>, \<open>manager.go\<close>,
  \<open>references.go\<close> and the parts of \<open>resource.go\<close> and \<open>descriptor.go\<close> that name the provider's own
  fields. A provider has no references.
\<close>

subsection \<open>sdk.go\<close>

definition requiredFieldsMissingFromReadOneInput :: "OpenIDConnectProvider \<Rightarrow> bool" where
  "requiredFieldsMissingFromReadOneInput r \<longleftrightarrow>
     Status_ACKResourceMetadata r = None \<or> Option.bind (Status_ACKResourceMetadata r) ARN = None"

definition newDescribeRequestPayload :: "OpenIDConnectProvider \<Rightarrow> string ptr" where
  "newDescribeRequestPayload r = Option.bind (Status_ACKResourceMetadata r) ARN"

definition sdkFind :: "'b rm \<Rightarrow> OpenIDConnectProvider \<Rightarrow> ('b, OpenIDConnectProvider ptr \<times> error option) go" where
  "sdkFind rm r w =
     (if requiredFieldsMissingFromReadOneInput r then Some ((None, Some NotFound), w)
      else do {
        let input = newDescribeRequestPayload r;
        let ((resp, err), w) = sdk_call (GetOpenIDConnectProvider (sdkapi rm) input) w;
        let w = RecordAPICall ''READ_ONE'' ''GetOpenIDConnectProvider'' err w;
        (case err of
           Some e \<Rightarrow> Some ((None, Some (if ErrorCode e = Some ''NoSuchEntity'' then NotFound else e)), w)
         | None \<Rightarrow> do {
             output \<leftarrow> resp;
             let ko = r\<lparr>Spec_ClientIDs := map_option (StringSlice (sdkapi rm)) (Get_ClientIDList output),
               Spec_Tags := map_option (map copyTag) (Get_Tags output),
               Spec_Thumbprints := map_option (StringSlice (sdkapi rm)) (Get_ThumbprintList output),
               Spec_URL := Get_Url output\<rparr>;
             let ko = setStatusDefaults rm ko;
             ((tags, err), w) \<leftarrow> getTags rm ko w;
             (case err of
                Some e \<Rightarrow> Some ((None, Some e), w)
              | None \<Rightarrow> Some ((Some (ko\<lparr>Spec_Tags := tags\<rparr>), None), w)) })
      })"

definition newCreateRequestPayload :: "'b provider_sdk \<Rightarrow> OpenIDConnectProvider \<Rightarrow> CreateProviderInput" where
  "newCreateRequestPayload sdk r = \<lparr>Create_ClientIDList = map_option (ToStringSlice sdk) (Spec_ClientIDs r),
     Create_Tags = map_option (map copyTag) (Spec_Tags r),
     Create_ThumbprintList = map_option (ToStringSlice sdk) (Spec_Thumbprints r), Create_Url = Spec_URL r\<rparr>"

definition sdkCreate :: "'b rm \<Rightarrow> OpenIDConnectProvider \<Rightarrow> ('b, OpenIDConnectProvider ptr \<times> error option) go" where
  "sdkCreate rm desired w = do {
     let ((resp, err), w) = sdk_call (CreateOpenIDConnectProvider (sdkapi rm) (newCreateRequestPayload (sdkapi rm) desired)) w;
     let w = RecordAPICall ''CREATE'' ''CreateOpenIDConnectProvider'' err w;
     (case err of
        Some e \<Rightarrow> Some ((None, Some e), w)
      | None \<Rightarrow> do {
          output \<leftarrow> resp;
          let ko = (setARN (Created_OpenIDConnectProviderArn output) desired)\<lparr>
            Spec_Tags := map_option (map copyTag) (Created_Tags output)\<rparr>;
          Some ((Some (setStatusDefaults rm ko), None), w) }) }"

definition sdkUpdate ::
  "'b rm \<Rightarrow> 'd compare_rt \<Rightarrow> OpenIDConnectProvider \<Rightarrow> OpenIDConnectProvider \<Rightarrow> 'd \<Rightarrow>
     ('b, OpenIDConnectProvider ptr \<times> error option) go" where
  "sdkUpdate rm c desired latest delta w = customUpdateOpenIDConnectProvider rm c desired latest delta w"

definition newDeleteRequestPayload :: "OpenIDConnectProvider \<Rightarrow> string ptr" where
  "newDeleteRequestPayload r = Option.bind (Status_ACKResourceMetadata r) ARN"

definition sdkDelete :: "'b rm \<Rightarrow> OpenIDConnectProvider \<Rightarrow> ('b, OpenIDConnectProvider ptr \<times> error option) go" where
  "sdkDelete rm r w =
     (let input = newDeleteRequestPayload r;
          (err, w) = sdk_call (DeleteOpenIDConnectProvider (sdkapi rm) input) w;
          w = RecordAPICall ''DELETE'' ''DeleteOpenIDConnectProvider'' err w
      in Some ((None, err), w))"

definition terminalCodes :: "string list" where
  "terminalCodes = [''InvalidInput'', ''EntityAlreadyExists'']"

subsection \<open>delta.go\<close>

definition newResourceDelta ::
  "ack_rt \<Rightarrow> 'd compare_rt \<Rightarrow> OpenIDConnectProvider ptr \<Rightarrow> OpenIDConnectProvider ptr \<Rightarrow> 'd option" where
  "newResourceDelta r c a b =
     (if (a = None \<and> b \<noteq> None) \<or> (a \<noteq> None \<and> b = None) then Some (delta_Add c (NewDelta c) [])
      else do {
        a \<leftarrow> a;
        b \<leftarrow> b;
        delta \<leftarrow> customPreCompare r c (NewDelta c) a b;
        let delta = compareStringsField c ''Spec.ClientIDs'' (Spec_ClientIDs a) (Spec_ClientIDs b) delta;
        let delta = compareStringsField c ''Spec.Thumbprints'' (Spec_Thumbprints a) (Spec_Thumbprints b) delta;
        Some delta
      })"

subsection \<open>manager.go\<close>

definition lateInitializeFieldNames :: "string list" where
  "lateInitializeFieldNames = [''Thumbprints'']"

definition mirrorAWSTags :: "ack_rt \<Rightarrow> OpenIDConnectProvider \<Rightarrow> OpenIDConnectProvider ptr \<Rightarrow> OpenIDConnectProvider" where
  "mirrorAWSTags r a b = (case b of
     None \<Rightarrow> a
   | Some b \<Rightarrow> a\<lparr>Spec_Tags := mirroredTags r (Spec_Tags a) (Spec_Tags b)\<rparr>)"

definition ReadOne ::
  "'b rm \<Rightarrow> OpenIDConnectProvider ptr \<Rightarrow> ('b, (OpenIDConnectProvider ptr \<times> error option) \<times> OpenIDConnectProvider) go" where
  "ReadOne rm res w = read_one sdkFind (\<lambda>rm. mirrorAWSTags (rt rm)) terminalCodes rm res w"

definition Create :: "'b rm \<Rightarrow> OpenIDConnectProvider ptr \<Rightarrow> ('b, OpenIDConnectProvider ptr \<times> error option) go" where
  "Create rm res w = create_or_delete sdkCreate terminalCodes rm res w"

definition Update ::
  "'b rm \<Rightarrow> 'd compare_rt \<Rightarrow> OpenIDConnectProvider ptr \<Rightarrow> OpenIDConnectProvider ptr \<Rightarrow> 'd \<Rightarrow>
     ('b, OpenIDConnectProvider ptr \<times> error option) go" where
  "Update rm c resDesired resLatest delta w =
     update_with (\<lambda>rm desired latest delta. sdkUpdate rm c desired latest delta) terminalCodes rm resDesired resLatest delta w"

definition Delete :: "'b rm \<Rightarrow> OpenIDConnectProvider ptr \<Rightarrow> ('b, OpenIDConnectProvider ptr \<times> error option) go" where
  "Delete rm res w = create_or_delete sdkDelete terminalCodes rm res w"

definition incompleteLateInitialization :: "OpenIDConnectProvider \<Rightarrow> bool" where
  "incompleteLateInitialization ko = (if Spec_Thumbprints ko = None then True else False)"

definition lateInitializeFromReadOneOutput ::
  "OpenIDConnectProvider \<Rightarrow> OpenIDConnectProvider \<Rightarrow> OpenIDConnectProvider" where
  "lateInitializeFromReadOneOutput observedKo latestKo =
     latestKo\<lparr>Spec_Thumbprints := late_field (Spec_Thumbprints observedKo) (Spec_Thumbprints latestKo)\<rparr>"

definition LateInitialize ::
  "'b rm \<Rightarrow> OpenIDConnectProvider ptr \<Rightarrow> ('b, OpenIDConnectProvider ptr \<times> error option) go" where
  "LateInitialize rm latest w =
     late_initialize lateInitializeFieldNames (ReadOne rm) lateInitializeFromReadOneOutput
       incompleteLateInitialization rm latest w"

definition EnsureTags :: "'b rm \<Rightarrow> OpenIDConnectProvider ptr \<Rightarrow> (OpenIDConnectProvider \<times> error option) option" where
  "EnsureTags rm res = do {
     ko \<leftarrow> res;
     Some (ko\<lparr>Spec_Tags := ensuredTags (rt rm) (Spec_Tags ko)\<rparr>, None) }"

definition FilterSystemTags :: "'b rm \<Rightarrow> OpenIDConnectProvider ptr \<Rightarrow> string list \<Rightarrow> OpenIDConnectProvider ptr" where
  "FilterSystemTags rm res systemTags = (case res of
     None \<Rightarrow> None
   | Some ko \<Rightarrow> Some (ko\<lparr>Spec_Tags := filteredTags (rt rm) systemTags (Spec_Tags ko)\<rparr>))"

subsection \<open>resource.go, descriptor.go, references.go\<close>

definition FinalizerString :: string where
  "FinalizerString = ''finalizers.iam.services.k8s.aws/OpenIDConnectProvider''"

definition SetStatus :: "OpenIDConnectProvider \<Rightarrow> OpenIDConnectProvider \<Rightarrow> OpenIDConnectProvider" where
  "SetStatus desired r = r\<lparr>Status_ACKResourceMetadata := Status_ACKResourceMetadata desired,
     Status_Conditions := Status_Conditions desired\<rparr>"

definition SetIdentifiers :: "string ptr \<Rightarrow> OpenIDConnectProvider \<Rightarrow> OpenIDConnectProvider \<times> error option" where
  "SetIdentifiers identifierARN r = (withARN identifierARN r, None)"

definition PopulateResourceFromAnnotation ::
  "ack_rt \<Rightarrow> (string, string) gomap \<Rightarrow> OpenIDConnectProvider \<Rightarrow> OpenIDConnectProvider \<times> error option" where
  "PopulateResourceFromAnnotation q annotation r = (case map_of annotation ''arn'' of
     None \<Rightarrow> (r, Some (NewTerminalError q (Errorf ''required field missing: arn'')))
   | Some resourceARN \<Rightarrow> (withARN (Some resourceARN) r, None))"

definition Delta :: "ack_rt \<Rightarrow> 'd compare_rt \<Rightarrow> OpenIDConnectProvider ptr \<Rightarrow> OpenIDConnectProvider ptr \<Rightarrow> 'd option" where
  "Delta r c a b = newResourceDelta r c a b"

definition ClearResolvedReferences :: "OpenIDConnectProvider \<Rightarrow> OpenIDConnectProvider" where
  "ClearResolvedReferences res = res"

definition ResolveReferences :: "OpenIDConnectProvider \<Rightarrow> OpenIDConnectProvider \<times> bool \<times> error option" where
  "ResolveReferences res = (res, False, None)"

definition validateReferenceFields :: "OpenIDConnectProvider \<Rightarrow> error option" where
  "validateReferenceFields ko = None"

end
