(* ===== verification/ProviderSync.thy ===== *)
theory ProviderSync
  imports Principal ProviderManager
begin

text \<open>
  What the OpenID Connect provider package achieves, as operations on the abstract providers of
  the backend: an update makes the client ids and the thumbprints the desired ones; of the tags,
  those whose value changes are lost.
\<close>

subsection \<open>The documented effect of the API calls\<close>

record oidc =
  o_clients :: "string set"
  o_thumbprints :: "string set"
  o_tags :: "string \<rightharpoonup> string"

type_synonym oidcs = "string \<Rightarrow> oidc"

definition clients_ok :: "'b provider_sdk \<Rightarrow> ('b \<Rightarrow> oidcs) \<Rightarrow> bool" where
  "clients_ok sdk prov \<longleftrightarrow>
     (\<forall>n i b b'. AddClientIDToOpenIDConnectProvider sdk (Some i) (Some n) b = (None, b') \<longrightarrow>
        prov b' = (prov b)(n := (prov b n)\<lparr>o_clients := insert i (o_clients (prov b n))\<rparr>)) \<and>
     (\<forall>n i b b'. RemoveClientIDFromOpenIDConnectProvider sdk (Some i) (Some n) b = (None, b') \<longrightarrow>
        prov b' = (prov b)(n := (prov b n)\<lparr>o_clients := o_clients (prov b n) - {i}\<rparr>))"

text \<open>One turn of the paging loop of \<open>getTags\<close>.\<close>

definition tagFetch :: "'b rm \<times> string ptr \<Rightarrow> string ptr \<Rightarrow> 'b world \<Rightarrow> (Tag, string ptr) page \<times> 'b world" where
  "tagFetch e m w = (case e of (rm, arn) \<Rightarrow>
     (let ((resp, err), w) = sdk_call (ListOpenIDConnectProviderTags (sdkapi rm) arn m) w
      in case (err, resp) of
           (None, Some out) \<Rightarrow>
             if IsTruncated out then (More (Tags out) (Marker out), RecordAPICall ''READ_MANY'' ''ListOpenIDConnectProviderTags'' err w)
             else (Last (Tags out), w)
         | _ \<Rightarrow> (Stop err, w)))"

text \<open>A listing of the tags of a provider ends, names every tag once, and changes nothing.\<close>

definition lists_tags :: "'b rm \<Rightarrow> ('b \<Rightarrow> oidcs) \<Rightarrow> bool" where
  "lists_tags rm prov \<longleftrightarrow> (\<forall>n w. \<exists>pages w'. serves (tagFetch (rm, Some n)) None w pages w' \<and>
     prov (aws w') = prov (aws w) \<and> tag_set (concat pages) \<and> tag_map (concat pages) = o_tags (prov (aws w) n))"

definition provider_service :: "'b rm \<Rightarrow> ('b \<Rightarrow> oidcs) \<Rightarrow> bool" where
  "provider_service rm prov \<longleftrightarrow> clients_ok (sdkapi rm) prov \<and> lists_tags rm prov \<and>
     (\<forall>n ts b b'. UpdateOpenIDConnectProviderThumbprint (sdkapi rm) (Some ts) (Some n) b = (None, b') \<longrightarrow>
        prov b' = (prov b)(n := (prov b n)\<lparr>o_thumbprints := set ts\<rparr>)) \<and>
     (\<forall>n ts b b'. tag_set ts \<longrightarrow> TagOpenIDConnectProvider (sdkapi rm) (Some n) ts b = (None, b') \<longrightarrow>
        prov b' = (prov b)(n := (prov b n)\<lparr>o_tags := o_tags (prov b n) ++ tag_map ts\<rparr>)) \<and>
     (\<forall>n ks b b'. UntagOpenIDConnectProvider (sdkapi rm) (Some n) ks b = (None, b') \<longrightarrow>
        prov b' = (prov b)(n := (prov b n)\<lparr>o_tags := o_tags (prov b n) |` (- set ks)\<rparr>))"

text \<open>The resource names the provider \<open>n\<close> by its ARN.\<close>

definition names_provider :: "OpenIDConnectProvider \<Rightarrow> string \<Rightarrow> bool" where
  "names_provider r n \<longleftrightarrow> Option.bind (Status_ACKResourceMetadata r) ARN = Some n"

lemma providerArn_names: "names_provider r n \<Longrightarrow> providerArn r = Some (Some n)"
  by (cases "Status_ACKResourceMetadata r") (auto simp: names_provider_def providerArn_def)

subsection \<open>Client ids\<close>

lemma keys_updates: "distinct (ids @ map fst m) \<Longrightarrow> keys (fold (\<lambda>i. AList.update i True) ids m) = keys m @ ids"
proof (induction ids arbitrary: m)
  case Nil
  then show ?case by simp
next
  case (Cons i ids)
  then have upd: "keys (AList.update i True m) = keys m @ [i]" by (simp add: update_keys)
  with Cons.prems have "distinct (ids @ keys (AList.update i True m))" unfolding upd by auto
  from Cons.IH [OF this] show ?case by (simp add: upd)
qed

lemma clientIDSet_distinct:
  assumes "distinct ids"
  shows "\<exists>m. clientIDSet (map Some ids) = Some m \<and> keys m = ids"
  using keys_updates [of ids "[]"] assms by (simp add: clientIDSet_def traverse_Some_id)

text \<open>The first loop adds, in the order of the range, what the provider lacks.\<close>

lemma addClientIDs_eq:
  assumes "distinct ids"
  shows "addClientIDs rm desired ids m w = do {
     (err, w) \<leftarrow> for_each (addClientID rm desired) (filter (\<lambda>i. i \<notin> set (keys m)) ids) w;
     Some (case err of Some e \<Rightarrow> Inl e | None \<Rightarrow> Inr (fold AList.delete ids m), w) }"
  using assms
proof (induction ids arbitrary: m w)
  case Nil
  then show ?case by simp
next
  case (Cons i ids)
  have "fst ` set (AList.delete i m) = fst ` set m - {i}" by (metis delete_keys set_map set_removeAll)
  then have same: "filter (\<lambda>j. j \<notin> fst ` set (AList.delete i m)) ids = filter (\<lambda>j. j \<notin> fst ` set m) ids"
    using Cons.prems by (intro filter_cong) auto
  show ?case
  proof (cases "i \<in> set (keys m)")
    case True
    then obtain v where "map_of m i = Some v" by (metis map_of_eq_None_iff not_None_eq set_map)
    with True Cons show ?thesis by (auto simp: same split: Option.bind_splits option.splits)
  next
    case False
    then have "map_of m i = None" "AList.delete i m = m" by (simp_all add: map_of_eq_None_iff delete_id)
    with False Cons show ?thesis by (auto split: Option.bind_splits option.splits)
  qed
qed

lemma keys_deletes: "keys (fold AList.delete ids m) = filter (\<lambda>i. i \<notin> set ids) (keys m)"
  by (induction ids arbitrary: m) (auto simp: delete_keys removeAll_filter_not_eq intro: filter_cong)

text \<open>The client id calls meet the contract of \<open>api_sync\<close>.\<close>

interpretation provider_clients: api_sync
  "\<lambda>(rm, r, n, prov). clients_ok (sdkapi rm) prov \<and> names_provider r n"
  "\<lambda>(rm, r, n, prov). addClientID rm r"
  "\<lambda>(rm, r, n, prov). prov"
  "\<lambda>(rm, r, n, prov) i s. s(n := (s n)\<lparr>o_clients := insert i (o_clients (s n))\<rparr>)"
  "\<lambda>(rm, r, n, prov). removeClientID rm r"
  "\<lambda>(rm, r, n, prov) i s. s(n := (s n)\<lparr>o_clients := o_clients (s n) - {i}\<rparr>)"
  by unfold_locales
    (auto simp: clients_ok_def addClientID_def removeClientID_def newAddClientIDRequestPayload_def
      newRemoveClientIDRequestPayload_def providerArn_names prod_eq_iff)

lemma fold_clients_at:
  "fold (\<lambda>i s. s(n := (s n)\<lparr>o_clients := insert i (o_clients (s n))\<rparr>)) ids s =
     s(n := (s n)\<lparr>o_clients := o_clients (s n) \<union> set ids\<rparr>)"
  "fold (\<lambda>i s. s(n := (s n)\<lparr>o_clients := o_clients (s n) - {i}\<rparr>)) ids s =
     s(n := (s n)\<lparr>o_clients := o_clients (s n) - set ids\<rparr>)"
  by (induction ids arbitrary: s) (simp_all add: fun_upd_idem flip: Diff_insert2)

lemma syncClientIDs_eq:
  assumes "valid_order (map_order (rt rm))"
    and "elems (Spec_ClientIDs desired) = map Some ds" "distinct ds"
    and "elems (Spec_ClientIDs latest) = map Some ls" "distinct ls"
  shows "syncClientIDs rm desired latest w = do {
     (err, w) \<leftarrow> for_each (addClientID rm desired) (filter (\<lambda>i. i \<notin> set ls) (map_order (rt rm) ds)) w;
     (case err of Some e \<Rightarrow> Some (Some e, w)
      | None \<Rightarrow> for_each (removeClientID rm desired) (map_order (rt rm) (filter (\<lambda>i. i \<notin> set ds) ls)) w) }"
proof -
  obtain dm lm where m: "clientIDSet (map Some ds) = Some dm" "keys dm = ds" "clientIDSet (map Some ls) = Some lm" "keys lm = ls"
    using clientIDSet_distinct assms(3,5) by metis
  then show ?thesis
    using assms by (auto simp: syncClientIDs_def addClientIDs_eq keys_deletes split: Option.bind_splits option.splits)
qed

lemma syncClientIDs_clients:
  assumes ord: "valid_order (map_order (rt rm))" and ok: "clients_ok (sdkapi rm) prov" and n: "names_provider desired n"
    and ds: "elems (Spec_ClientIDs desired) = map Some ds" "distinct ds"
    and ls: "elems (Spec_ClientIDs latest) = map Some ls" "distinct ls"
    and run: "syncClientIDs rm desired latest w = Some (None, w')"
  shows "prov (aws w') = (prov (aws w))(n := (prov (aws w) n)\<lparr>o_clients :=
    (o_clients (prov (aws w) n) \<union> (set ds - set ls)) - (set ls - set ds)\<rparr>)"
proof -
  have "prov (aws w') = fold (\<lambda>i s. s(n := (s n)\<lparr>o_clients := o_clients (s n) - {i}\<rparr>))
      (map_order (rt rm) (filter (\<lambda>i. i \<notin> set ds) ls))
      (fold (\<lambda>i s. s(n := (s n)\<lparr>o_clients := insert i (o_clients (s n))\<rparr>))
        (filter (\<lambda>i. i \<notin> set ls) (map_order (rt rm) ds)) (prov (aws w)))"
    using provider_clients.sync_effect [of "(rm, desired, n, prov)" "filter (\<lambda>i. i \<notin> set ls) (map_order (rt rm) ds)" w
        "map_order (rt rm) (filter (\<lambda>i. i \<notin> set ds) ls)" w'] ok n run
    by (simp add: syncClientIDs_eq [OF ord ds ls] cong: option.case_cong)
  also have "\<dots> = (prov (aws w))(n := (prov (aws w) n)\<lparr>o_clients :=
      (o_clients (prov (aws w) n) \<union> set (filter (\<lambda>i. i \<notin> set ls) (map_order (rt rm) ds))) -
      set (map_order (rt rm) (filter (\<lambda>i. i \<notin> set ds) ls))\<rparr>)"
    by (simp only: fold_clients_at) simp
  finally show ?thesis using ord by (simp add: set_diff_eq)
qed

subsection \<open>Tags\<close>

lemma inTags_tag_set:
  assumes "tag_set ts"
  shows "inTags k v ts = Some (mkTag k v \<in> set ts)"
proof -
  have "(do { k' \<leftarrow> Key t; Some (k' = k \<and> Value t \<noteq> None \<and> Value t = Some v) }) = Some (t = mkTag k v)"
    if "plain_tag t" for t using that by (cases t) (auto simp: plain_tag_def)
  then have "inTags k v ts = Some (\<exists>t\<in>set ts. t = mkTag k v)"
    unfolding inTags_def by (intro search_total) (use assms in \<open>simp add: tag_set_def\<close>)
  then show ?thesis by simp
qed

lemma notInTags_eq:
  assumes "tag_set ts" and "tag_set us"
  shows "notInTags ts us = Some (filter (\<lambda>t. t \<notin> set us) ts)"
  unfolding notInTags_def using assms
  by (intro select_not_in inTags_tag_set) (auto simp: tag_set_def)

interpretation provider_tag_pages: pager "\<lambda>e. tagPages (fst e) (snd e)" tagFetch
proof unfold_locales
  fix e m res w
  show "tagPages (fst e) (snd e) m res w = (case tagFetch e m w of
     (Stop err, w') \<Rightarrow> Some ((res, err), w')
   | (Last xs, w') \<Rightarrow> Some ((res @ xs, None), w')
   | (More xs m', w') \<Rightarrow> tagPages (fst e) (snd e) m' (res @ xs) w'
   | (Crash, w') \<Rightarrow> None)"
    by (subst tagPages.simps) (auto simp: tagFetch_def split_beta Let_def split: option.splits)
qed

lemma getTags_lists:
  assumes "lists_tags rm prov" and "names_provider r n"
  shows "\<exists>ts w'. getTags rm r w = Some ((Some ts, None), w') \<and> prov (aws w') = prov (aws w) \<and>
    tag_set ts \<and> tag_map ts = o_tags (prov (aws w) n)"
proof -
  from assms(1) obtain pages w' where "serves (tagFetch (rm, Some n)) None w pages w'" "prov (aws w') = prov (aws w)"
    "tag_set (concat pages)" "tag_map (concat pages) = o_tags (prov (aws w) n)" unfolding lists_tags_def by blast
  with provider_tag_pages.loop_serves [of "(rm, Some n)" None w pages w' "[]"] providerArn_names [OF assms(2)]
  show ?thesis by (simp add: getTags_def)
qed

lemma syncTags_oidc:
  assumes ok: "provider_service rm prov" and n: "names_provider desired n" and ds: "tag_set (elems (Spec_Tags desired))"
    and run: "syncTags rm desired w = Some (None, w')"
  shows "prov (aws w') = (prov (aws w))(n := (prov (aws w) n)\<lparr>o_tags :=
    synced_tags (o_tags (prov (aws w) n)) (tag_map (elems (Spec_Tags desired)))\<rparr>)"
proof -
  let ?ds = "elems (Spec_Tags desired)" and ?old = "prov (aws w) n"
  obtain ls u where u: "getTags rm desired w = Some ((Some ls, None), u)" "prov (aws u) = prov (aws w)"
    and ls: "tag_set ls" "tag_map ls = o_tags ?old"
    using getTags_lists [OF _ n, of rm prov w] ok by (auto simp: provider_service_def)
  let ?add = "filter (\<lambda>t. t \<notin> set ls) ?ds" and ?del = "filter (\<lambda>t. t \<notin> set ?ds) ls"
  have sets: "tag_set ?add" "tag_set ?del" using ds ls by (simp_all add: tag_set_filter)
  obtain v where add: "(if ?add \<noteq> [] then addTags rm desired ?add u else Some (None, u)) = Some (None, v)"
    and del: "(if ?del \<noteq> [] then removeTags rm desired ?del v else Some (None, v)) = Some (None, w')"
    using run ds ls(1) u(1) by (auto simp: syncTags_def notInTags_eq split: Option.bind_splits option.splits)
  have "prov (aws v) = (prov (aws w))(n := ?old\<lparr>o_tags := tag_map ls ++ tag_map ?add\<rparr>)"
    using add ok n sets(1) u(2)
    by (cases "?add = []")
      (auto simp: addTags_def providerArn_names provider_service_def prod_eq_iff tag_map_def fun_upd_idem simp flip: ls(2))
  moreover have "prov (aws w') = (prov (aws v))(n := (prov (aws v) n)\<lparr>o_tags := o_tags (prov (aws v) n) |` (- set (tag_keys ?del))\<rparr>)"
    using del ok n sets(2)
    by (cases "?del = []")
      (auto simp: removeTags_def providerArn_names traverse_Key provider_service_def prod_eq_iff tag_keys_def
        restrict_map_def fun_upd_idem)
  ultimately show ?thesis
    using add_then_remove [OF ls(1) ds] by (simp add: synced_tags_def flip: ls(2))
qed

lemma updateThumbprint_oidc:
  assumes "provider_service rm prov" and "names_provider desired n" and "Spec_Thumbprints desired = Some (map Some ts)"
    and "updateThumbprint rm desired w = Some (None, w')"
  shows "prov (aws w') = (prov (aws w))(n := (prov (aws w) n)\<lparr>o_thumbprints := set ts\<rparr>)"
  using assms
  by (auto simp: updateThumbprint_def newUpdateThumbprintRequestPayload_def providerArn_names traverse_Some_id
      provider_service_def prod_eq_iff)

subsection \<open>The delta\<close>

text \<open>The parts a custom resource gives of a provider, with every list free of duplicates.\<close>

definition describes_provider :: "OpenIDConnectProvider \<Rightarrow> oidc \<Rightarrow> bool" where
  "describes_provider r x \<longleftrightarrow>
     (\<exists>cs. elems (Spec_ClientIDs r) = map Some cs \<and> distinct cs \<and> set cs = o_clients x) \<and>
     (\<exists>ts. Spec_Thumbprints r = Some (map Some ts) \<and> distinct ts \<and> set ts = o_thumbprints x) \<and>
     tag_set (elems (Spec_Tags r)) \<and> tag_map (elems (Spec_Tags r)) = o_tags x"

definition delta_paths :: "string set" where
  "delta_paths = {''Spec.Tags'', ''Spec.URL'', ''Spec.ClientIDs'', ''Spec.Thumbprints''}"

definition provider_comparison_ok :: "'d compare_rt \<Rightarrow> bool" where
  "provider_comparison_ok c \<longleftrightarrow> delta_ok c delta_paths \<and> nil_difference_ok c \<and> lists_equal_ok c"

text \<open>Two URLs are the same when they agree but for the scheme.\<close>

definition url_key :: "string ptr \<Rightarrow> string ptr" where
  "url_key url = map_option (\<lambda>u. TrimPrefix u ''https://'') url"

definition differences :: "'d compare_rt \<Rightarrow> OpenIDConnectProvider \<Rightarrow> OpenIDConnectProvider \<Rightarrow> (string \<times> bool) list" where
  "differences c a b =
     [(''Spec.Tags'', set (elems (Spec_Tags a)) \<noteq> set (elems (Spec_Tags b))),
      (''Spec.URL'', HasNilDifference c (Spec_URL a) (Spec_URL b) \<or>
         (Spec_URL a \<noteq> None \<and> Spec_URL b \<noteq> None \<and> url_key (Spec_URL a) \<noteq> url_key (Spec_URL b))),
      (''Spec.ClientIDs'', stringsDiffer c (Spec_ClientIDs a) (Spec_ClientIDs b)),
      (''Spec.Thumbprints'', stringsDiffer c (Spec_Thumbprints a) (Spec_Thumbprints b))]"

lemma provider_delta_report:
  assumes "in_string_ok r" and "tag_set (elems (Spec_Tags a))" and "tag_set (elems (Spec_Tags b))"
  shows "newResourceDelta r c (Some a) (Some b) = Some (report c (differences c a b))"
proof -
  let ?url = "HasNilDifference c (Spec_URL a) (Spec_URL b) \<or>
    (Spec_URL a \<noteq> None \<and> Spec_URL b \<noteq> None \<and> url_key (Spec_URL a) \<noteq> url_key (Spec_URL b))"
  let ?tags = "set (elems (Spec_Tags a)) \<noteq> set (elems (Spec_Tags b))"
  have "customPreCompare r c (NewDelta c) a b =
      Some (addWhen c ''Spec.URL'' ?url (addWhen c ''Spec.Tags'' ?tags (NewDelta c)))"
    by (cases "Spec_URL a"; cases "Spec_URL b")
      (simp_all add: customPreCompare_def compareTagLists_tag_set [OF assms] url_key_def Let_def addWhen_def [of _ "''Spec.URL''"])
  then show ?thesis
    by (simp add: newResourceDelta_def compare_addWhen report_def differences_def)
qed

lemma provider_delta:
  assumes c: "provider_comparison_ok c" and r: "in_string_ok r"
    and a: "describes_provider a x" and b: "describes_provider b y"
    and delta: "newResourceDelta r c (Some a) (Some b) = Some delta"
  shows "DifferentAt c delta ''Spec.ClientIDs'' \<longleftrightarrow> o_clients x \<noteq> o_clients y"
    and "DifferentAt c delta ''Spec.Thumbprints'' \<longleftrightarrow> o_thumbprints x \<noteq> o_thumbprints y"
    and "DifferentAt c delta ''Spec.Tags'' \<longleftrightarrow> o_tags x \<noteq> o_tags y"
proof -
  have tags: "tag_set (elems (Spec_Tags a))" "tag_set (elems (Spec_Tags b))" using a b by (simp_all add: describes_provider_def)
  have at: "DifferentAt c delta q \<longleftrightarrow> (q, True) \<in> set (differences c a b)" if "q \<in> delta_paths" for q
    using provider_delta_report [OF r tags, of c] delta c that DifferentAt_report [of c delta_paths "differences c a b" q]
    by (simp add: provider_comparison_ok_def differences_def delta_paths_def)
  have lists: "lists_equal_ok c" using c by (simp add: provider_comparison_ok_def)
  have "stringsDiffer c (Spec_ClientIDs a) (Spec_ClientIDs b) \<longleftrightarrow> o_clients x \<noteq> o_clients y"
    using a b stringsDiffer_iff [OF lists] unfolding describes_provider_def by metis
  with at [of "''Spec.ClientIDs''"] show "DifferentAt c delta ''Spec.ClientIDs'' \<longleftrightarrow> o_clients x \<noteq> o_clients y"
    by (auto simp: delta_paths_def differences_def)
  have "stringsDiffer c (Spec_Thumbprints a) (Spec_Thumbprints b) \<longleftrightarrow> o_thumbprints x \<noteq> o_thumbprints y"
    using a b stringsDiffer_iff [OF lists] unfolding describes_provider_def by (metis elems_simps(2))
  with at [of "''Spec.Thumbprints''"] show "DifferentAt c delta ''Spec.Thumbprints'' \<longleftrightarrow> o_thumbprints x \<noteq> o_thumbprints y"
    by (auto simp: delta_paths_def differences_def)
  show "DifferentAt c delta ''Spec.Tags'' \<longleftrightarrow> o_tags x \<noteq> o_tags y"
    using at [of "''Spec.Tags''"] a b tag_map_eq_iff [OF tags]
    by (auto simp: delta_paths_def differences_def describes_provider_def)
qed

lemma provider_url_delta:
  assumes c: "provider_comparison_ok c" and r: "in_string_ok r"
    and a: "describes_provider a x" and b: "describes_provider b y" and s: "Spec_URL a = Some s" and t: "Spec_URL b = Some t"
    and delta: "newResourceDelta r c (Some a) (Some b) = Some delta"
  shows "DifferentAt c delta ''Spec.URL'' \<longleftrightarrow> TrimPrefix s ''https://'' \<noteq> TrimPrefix t ''https://''"
proof -
  have tags: "tag_set (elems (Spec_Tags a))" "tag_set (elems (Spec_Tags b))" using a b by (simp_all add: describes_provider_def)
  have "\<not> HasNilDifference c (Some s) (Some t)" using c by (simp add: provider_comparison_ok_def nil_difference_ok_def)
  then show ?thesis
    using provider_delta_report [OF r tags, of c] delta c s t DifferentAt_report [of c delta_paths "differences c a b" "''Spec.URL''"]
    by (auto simp: provider_comparison_ok_def differences_def delta_paths_def url_key_def)
qed

subsection \<open>The update\<close>

lemma provider_update_settles:
  assumes c: "provider_comparison_ok c" and r: "in_string_ok (rt rm)" and ord: "valid_order (map_order (rt rm))"
    and ok: "provider_service rm prov" and n: "names_provider desired n"
    and goal: "describes_provider desired goal" and old: "describes_provider latest (prov (aws w) n)"
    and delta: "newResourceDelta (rt rm) c (Some desired) (Some latest) = Some delta"
    and run: "sdkUpdate rm c desired latest delta w = Some ((res, None), w')"
  shows "prov (aws w') = (prov (aws w))(n := goal\<lparr>o_tags := synced_tags (o_tags (prov (aws w) n)) (o_tags goal)\<rparr>)"
proof -
  note D = provider_delta [OF c r goal old delta]
  let ?old = "prov (aws w) n"
  obtain u v where s1: "when_different c delta ''Spec.Thumbprints'' (updateThumbprint rm desired) w = Some (None, u)"
    and s2: "when_different c delta ''Spec.ClientIDs'' (syncClientIDs rm desired latest) u = Some (None, v)"
    and s3: "when_different c delta ''Spec.Tags'' (syncTags rm desired) v = Some (None, w')"
    using run by (auto simp: sdkUpdate_def customUpdateOpenIDConnectProvider_def split: Option.bind_splits option.splits)
  obtain ds ls ts where ds: "elems (Spec_ClientIDs desired) = map Some ds" "distinct ds" "set ds = o_clients goal"
    and ls: "elems (Spec_ClientIDs latest) = map Some ls" "distinct ls" "set ls = o_clients ?old"
    and ts: "Spec_Thumbprints desired = Some (map Some ts)" "set ts = o_thumbprints goal"
    using goal old unfolding describes_provider_def by blast
  have clients: "clients_ok (sdkapi rm) prov" using ok by (simp add: provider_service_def)
  have 1: "prov (aws u) = (prov (aws w))(n := ?old\<lparr>o_thumbprints := o_thumbprints goal\<rparr>)"
    using s1 updateThumbprint_oidc [OF ok n ts(1)] D(2) ts(2) by (auto simp: when_different_def fun_upd_idem split: if_splits)
  have 2: "prov (aws v) = (prov (aws u))(n := (prov (aws u) n)\<lparr>o_clients := o_clients goal\<rparr>)"
  proof (cases "DifferentAt c delta ''Spec.ClientIDs''")
    case True
    have "(set ls \<union> (set ds - set ls)) - (set ls - set ds) = set ds" by blast
    with True show ?thesis
      using s2 syncClientIDs_clients [OF ord clients n ds(1,2) ls(1,2)] 1 ds(3) ls(3) by (simp add: when_different_def)
  next
    case False
    then show ?thesis using s2 D(1) 1 by (auto simp: when_different_def fun_upd_idem)
  qed
  have tags: "tag_set (elems (Spec_Tags desired))" "tag_map (elems (Spec_Tags desired)) = o_tags goal"
    using goal by (simp_all add: describes_provider_def)
  have "prov (aws w') = (prov (aws v))(n := (prov (aws v) n)\<lparr>o_tags := synced_tags (o_tags ?old) (o_tags goal)\<rparr>)"
    using s3 syncTags_oidc [OF ok n tags(1)] D(3) 1 2 tags(2) by (auto simp: when_different_def fun_upd_idem split: if_splits)
  with 1 2 show ?thesis by (cases goal; cases ?old) simp
qed

end
