(* ===== verification/WellFormed.thy ===== *)
theory WellFormed
  imports Manager
begin

text \<open>
  The form of the resources the entry points hand back to the reconciler: the metadata is complete
  but for the ARN, the list of conditions is there and has at most one condition of a type. A
  package's operation only has to return resources on which \<open>setStatusDefaults\<close> was called, or
  whose \<open>ResourceSynced\<close> condition was set; \<open>finish\<close> does the rest.
\<close>

definition well_formed :: "'a ack_object_scheme \<Rightarrow> bool" where
  "well_formed ko \<longleftrightarrow>
     (\<exists>md. Status_ACKResourceMetadata ko = Some md \<and> OwnerAccountID md \<noteq> None \<and> Region md \<noteq> None \<and> Partition md \<noteq> None) \<and>
     Status_Conditions ko \<noteq> None \<and> unique_conditions (conditions_of ko)"

text \<open>\<open>ackcondition.SetSynced\<close> sets the one condition of its type.\<close>

definition synced_ok :: "ack_rt \<Rightarrow> bool" where
  "synced_ok r \<longleftrightarrow> (\<forall>cs s m q. unique_conditions (elems cs) \<longrightarrow> unique_conditions (elems (SetSynced r cs s m q)) \<and>
     has_condition ConditionTypeResourceSynced (elems (SetSynced r cs s m q)))"

lemma well_formed_defaults: "unique_conditions (conditions_of ko) \<Longrightarrow> well_formed (setStatusDefaults rm ko)"
  using setStatusDefaults_metadata [of rm ko] conditions_setStatusDefaults [of rm ko]
  by (auto simp: well_formed_def setStatusDefaults_def Let_def or_default_def split: option.splits)

lemma well_formed_conditions:
  "unique_conditions conds \<Longrightarrow> well_formed ((setStatusDefaults rm ko)\<lparr>Status_Conditions := Some conds\<rparr>)"
  using setStatusDefaults_metadata [of rm ko] by (auto simp: well_formed_def conditions_of_def)

text \<open>What an operation returns that \<open>finish\<close> makes well-formed.\<close>

definition nearly_formed :: "'a ack_object_scheme \<Rightarrow> bool" where
  "nearly_formed ko \<longleftrightarrow> unique_conditions (conditions_of ko) \<and>
     (well_formed ko \<or> has_condition ConditionTypeResourceSynced (conditions_of ko))"

lemma nearly_formed_defaults: "unique_conditions (conditions_of ko) \<Longrightarrow> nearly_formed (setStatusDefaults rm ko)"
  by (simp add: nearly_formed_def well_formed_defaults)

lemma conditions_setARN [simp]: "conditions_of (setARN arn ko) = conditions_of ko"
  by (simp add: setARN_def conditions_of_def Let_def)

lemma onError_well_formed:
  assumes "aws_error_ok (rt rm)" and "unique_conditions (conditions_of r)"
    and "onError rm codes (Some r) (Some e) = Some (Some ko, err)"
  shows "well_formed ko"
proof (cases "terminal_error codes (Some e)")
  case True
  with assms(2,3) show ?thesis
    by (auto simp: onError_def updateConditions_terminal [OF assms(1)] well_formed_conditions split: if_splits)
next
  case False
  with assms(2,3) show ?thesis
    by (auto simp: onError_def updateConditions_other well_formed_conditions Let_def split: if_splits)
qed

lemma onSuccess_well_formed:
  assumes "nearly_formed r" and "onSuccess rm codes (Some r) = Some (Some ko, err)"
  shows "well_formed ko"
  using assms by (auto simp: nearly_formed_def onSuccess_def updateConditions_other well_formed_conditions Let_def split: if_splits)

lemma finish_well_formed:
  assumes "aws_error_ok (rt rm)" and "unique_conditions (conditions_of r)"
    and "\<And>x. out = Some x \<Longrightarrow> nearly_formed x" and "finish rm codes r out err = Some (Some ko, e)"
  shows "well_formed ko"
  using assms onError_well_formed [OF assms(1), of _ codes "the err" ko e] onSuccess_well_formed [of "the out" rm codes ko e]
  by (cases err; cases out) (auto simp: finish_def onSuccess_def nearly_formed_def)

lemma read_one_well_formed:
  assumes "aws_error_ok (rt rm)" and "\<And>observed. unique_conditions (conditions_of (mirror rm r observed))"
    and "\<And>out err u. sdkFind rm r w = Some ((Some out, err), u) \<Longrightarrow> nearly_formed out"
    and "read_one sdkFind mirror codes rm (Some r) w = Some (((Some ko, err), r'), w')"
  shows "well_formed ko"
proof -
  from assms(4) obtain out e u where "sdkFind rm r w = Some ((out, e), u)"
    and fin: "finish rm codes (mirror rm r out) out e = Some (Some ko, err)"
    by (auto simp: read_one_def Let_def split: Option.bind_splits)
  then have "nearly_formed x" if "out = Some x" for x using that assms(3) by blast
  with fin show ?thesis by (rule finish_well_formed [OF assms(1,2), rotated])
qed

lemma create_or_delete_well_formed:
  assumes "aws_error_ok (rt rm)" and "unique_conditions (conditions_of r)"
    and "\<And>out err u. operation rm r w = Some ((Some out, err), u) \<Longrightarrow> nearly_formed out"
    and "create_or_delete operation codes rm (Some r) w = Some ((Some ko, err), w')"
  shows "well_formed ko"
proof -
  from assms(4) obtain out e u where "operation rm r w = Some ((out, e), u)"
    and fin: "finish rm codes r out e = Some (Some ko, err)"
    by (auto simp: create_or_delete_def Let_def split: Option.bind_splits)
  then have "nearly_formed x" if "out = Some x" for x using that assms(3) by blast
  with fin show ?thesis by (rule finish_well_formed [OF assms(1,2), rotated])
qed

lemma update_with_well_formed:
  assumes "aws_error_ok (rt rm)" and "unique_conditions (conditions_of latest)"
    and "\<And>out err u. sdkUpdate rm desired latest delta w = Some ((Some out, err), u) \<Longrightarrow> nearly_formed out"
    and "update_with sdkUpdate codes rm (Some desired) (Some latest) delta w = Some ((Some ko, err), w')"
  shows "well_formed ko"
proof -
  from assms(4) obtain out e u where "sdkUpdate rm desired latest delta w = Some ((out, e), u)"
    and fin: "finish rm codes latest out e = Some (Some ko, err)"
    by (auto simp: update_with_def Let_def split: Option.bind_splits)
  then have "nearly_formed x" if "out = Some x" for x using that assms(3) by blast
  with fin show ?thesis by (rule finish_well_formed [OF assms(1,2), rotated])
qed

end
