(* ===== verification/ProviderProperties.thy ===== *)
theory ProviderProperties
  imports ProviderSync WellFormed Samples
begin

text \<open>The properties of the OpenID Connect provider package, and the backend their witnesses are evaluated on.\<close>

subsection \<open>A concrete backend\<close>

record provider_entry =
  e_clients :: "string set"
  e_thumbprints :: "string set"
  e_tags :: "(string \<times> string) list"

type_synonym providers = "string \<Rightarrow> provider_entry"

definition oidc_of :: "provider_entry \<Rightarrow> oidc" where
  "oidc_of e = \<lparr>o_clients = e_clients e, o_thumbprints = e_thumbprints e, o_tags = map_of (e_tags e)\<rparr>"

definition sample_prov :: "providers \<Rightarrow> oidcs" where
  "sample_prov b n = oidc_of (b n)"

lemma sample_prov_upd [simp]: "sample_prov (b(n := e)) = (sample_prov b)(n := oidc_of e)"
  by (auto simp: sample_prov_def fun_eq_iff)

definition sample_provider_sdk :: "providers provider_sdk" where
  "sample_provider_sdk = \<lparr>
     GetOpenIDConnectProvider = (\<lambda>n b. ((Some \<lparr>Get_ClientIDList = Some [''app''], Get_Tags = None,
        Get_ThumbprintList = Some [''00''], Get_Url = Some ''example.org''\<rparr>, None), b)),
     CreateOpenIDConnectProvider = (\<lambda>input b. ((Some \<lparr>Created_OpenIDConnectProviderArn = Some ''arn:p'',
        Created_Tags = Create_Tags input\<rparr>, None), b)),
     DeleteOpenIDConnectProvider = (\<lambda>n b. (None, b)),
     UpdateOpenIDConnectProviderThumbprint = (\<lambda>ts n b. (None, b(the n := (b (the n))\<lparr>e_thumbprints := set (elems ts)\<rparr>))),
     AddClientIDToOpenIDConnectProvider = (\<lambda>i n b. (None, b(the n := (b (the n))\<lparr>e_clients := insert (the i) (e_clients (b (the n)))\<rparr>))),
     RemoveClientIDFromOpenIDConnectProvider = (\<lambda>i n b. (None, b(the n := (b (the n))\<lparr>e_clients := e_clients (b (the n)) - {the i}\<rparr>))),
     ListOpenIDConnectProviderTags = (\<lambda>n m b. ((Some \<lparr>Tags = map (\<lambda>(k, v). mkTag k v) (AList.clearjunk (e_tags (b (the n)))),
        IsTruncated = False, Marker = None\<rparr>, None), b)),
     TagOpenIDConnectProvider = (\<lambda>n ts b. (None, b(the n := (b (the n))\<lparr>e_tags :=
        map (\<lambda>t. (the (Key t), the (Value t))) ts @ e_tags (b (the n))\<rparr>))),
     UntagOpenIDConnectProvider = (\<lambda>n ks b. (None, b(the n := (b (the n))\<lparr>e_tags :=
        filter (\<lambda>(k, v). k \<notin> set ks) (e_tags (b (the n)))\<rparr>))),
     StringSlice = map Some,
     ToStringSlice = map (\<lambda>p. case p of None \<Rightarrow> [] | Some s \<Rightarrow> s)\<rparr>"

definition sample_provider_rm :: "providers rm" where
  "sample_provider_rm = \<lparr>rt = sample_rt, EnableCrossNamespace = False, awsAccountID = ''1'', awsRegion = ''us-east-1'',
     awsPartition = ''aws'', sdkapi = sample_provider_sdk\<rparr>"

definition sample_provider :: OpenIDConnectProvider where
  "sample_provider = \<lparr>Namespace = ''default'', DeletionTimestamp = None, Finalizers = [], Annotations = [],
     Status_ACKResourceMetadata = Some (emptyMetadata\<lparr>ARN := Some ''p''\<rparr>), Status_Conditions = None,
     Spec_ClientIDs = Some [Some ''old''], Spec_Tags = Some [mkTag ''k'' ''1''], Spec_Thumbprints = Some [Some ''00''],
     Spec_URL = Some ''example.org''\<rparr>"

definition wanted_provider :: OpenIDConnectProvider where
  "wanted_provider = sample_provider\<lparr>Spec_ClientIDs := Some [Some ''new''], Spec_URL := Some ''https://example.org''\<rparr>"

definition providers_world :: "providers world" where
  "providers_world = \<lparr>aws = (\<lambda>_. \<lparr>e_clients = {''old''}, e_thumbprints = {''00''}, e_tags = [(''k'', ''1'')]\<rparr>), api_calls = []\<rparr>"

lemma provider_simps [simp]:
  "rt sample_provider_rm = sample_rt" "sdkapi sample_provider_rm = sample_provider_sdk"
  "Spec_ClientIDs sample_provider = Some [Some ''old'']" "Spec_ClientIDs wanted_provider = Some [Some ''new'']"
  "Spec_Tags sample_provider = Some [mkTag ''k'' ''1'']" "Spec_Tags wanted_provider = Some [mkTag ''k'' ''1'']"
  "Spec_Thumbprints sample_provider = Some [Some ''00'']" "Spec_Thumbprints wanted_provider = Some [Some ''00'']"
  "Spec_URL sample_provider = Some ''example.org''" "Spec_URL wanted_provider = Some ''https://example.org''"
  "Status_Conditions sample_provider = None" "Status_Conditions wanted_provider = None"
  "names_provider sample_provider ''p''" "names_provider wanted_provider ''p''"
  "aws providers_world = (\<lambda>_. \<lparr>e_clients = {''old''}, e_thumbprints = {''00''}, e_tags = [(''k'', ''1'')]\<rparr>)"
  by (simp_all add: sample_provider_rm_def sample_provider_def wanted_provider_def providers_world_def names_provider_def)

lemma sample_lists_tags: "lists_tags sample_provider_rm sample_prov"
proof -
  have "serves (tagFetch (sample_provider_rm, Some n)) None w [map (\<lambda>(k, v). mkTag k v) (AList.clearjunk (e_tags (aws w n)))] w" for n w
    by (rule serves.last) (simp add: tagFetch_def sample_provider_sdk_def)
  then show ?thesis
    unfolding lists_tags_def
    by (intro allI exI conjI, assumption) (simp_all add: tag_set_pairs tag_map_pairs map_of_clearjunk sample_prov_def oidc_of_def)
qed

lemma sample_provider_service: "provider_service sample_provider_rm sample_prov"
proof -
  have without: "map_of (filter (\<lambda>(k, v). k \<notin> set ks) m) = map_of m |` (- set ks)" for ks and m :: "(string \<times> string) list"
    by (induction m) (auto simp: restrict_map_def fun_eq_iff)
  show ?thesis
    using sample_lists_tags
    by (auto simp: provider_service_def clients_ok_def sample_provider_sdk_def oidc_of_def sample_prov_def tag_map_def without)
qed

lemma sample_describes_provider:
  "describes_provider wanted_provider \<lparr>o_clients = {''new''}, o_thumbprints = {''00''}, o_tags = [''k'' \<mapsto> ''1'']\<rparr>"
  "describes_provider sample_provider \<lparr>o_clients = {''old''}, o_thumbprints = {''00''}, o_tags = [''k'' \<mapsto> ''1'']\<rparr>"
  by (auto simp: describes_provider_def tag_set_def tag_map_def intro: exI [of _ "[''new'']"] exI [of _ "[''old'']"] exI [of _ "[''00'']"])

lemma sample_provider_delta:
  "Delta sample_rt sample_compare (Some wanted_provider) (Some sample_provider) = Some [''Spec.ClientIDs'']"
proof -
  have "TrimPrefix ''https://example.org'' ''https://'' = TrimPrefix ''example.org'' ''https://''" by (simp add: TrimPrefix_def)
  moreover have "tag_set (elems (Spec_Tags wanted_provider))" "tag_set (elems (Spec_Tags sample_provider))" by (simp_all add: tag_set_def)
  ultimately show ?thesis
    by (simp add: Delta_def provider_delta_report report_def differences_def url_key_def addWhen_def stringsDiffer_def)
qed

lemma sample_provider_comparison: "provider_comparison_ok sample_compare"
  by (simp add: provider_comparison_ok_def)

lemma sample_provider_update:
  "\<exists>res w'. Update sample_provider_rm sample_compare (Some wanted_provider) (Some sample_provider) [''Spec.ClientIDs''] providers_world =
     Some ((Some res, None), w')"
proof -
  have order: "map_order sample_rt [x] = [x]" "map_order sample_rt [] = []" for x by (simp_all add: sample_rt_def)
  have "\<exists>u. syncClientIDs sample_provider_rm wanted_provider sample_provider providers_world = Some (None, u)"
    by (simp add: syncClientIDs_def clientIDSet_def order addClientID_def removeClientID_def newAddClientIDRequestPayload_def
        newRemoveClientIDRequestPayload_def providerArn_names [where n = "''p''"] sample_provider_sdk_def)
  then obtain u where "syncClientIDs sample_provider_rm wanted_provider sample_provider providers_world = Some (None, u)" ..
  then have "sdkUpdate sample_provider_rm sample_compare wanted_provider sample_provider [''Spec.ClientIDs''] providers_world =
      Some ((Some (wanted_provider\<lparr>Status_Conditions := SetSynced sample_rt None ConditionTrue None None\<rparr>), None), u)"
    by (simp add: sdkUpdate_def customUpdateOpenIDConnectProvider_def when_different_def)
  moreover have "\<exists>ko. finish sample_provider_rm terminalCodes sample_provider
      (Some (wanted_provider\<lparr>Status_Conditions := SetSynced sample_rt None ConditionTrue None None\<rparr>)) None = Some (Some ko, None)"
    by (rule exE [OF finish_success]) (auto simp: sample_rt_def set_condition_def conditions_of_def unique_conditions_def ensure_def)
  ultimately show ?thesis by (auto simp: Update_def update_with_def)
qed

lemma sdkFind_shape:
  assumes "sdkFind rm r w = Some ((Some out, e), u)"
  shows "\<exists>ko tags. out = (setStatusDefaults rm ko)\<lparr>Spec_Tags := tags\<rparr> \<and> Status_Conditions ko = Status_Conditions r"
proof -
  obtain found where found: "fst (GetOpenIDConnectProvider (sdkapi rm) (newDescribeRequestPayload r) (aws w)) = (Some found, None)"
    using assms by (cases "GetOpenIDConnectProvider (sdkapi rm) (newDescribeRequestPayload r) (aws w)")
      (auto simp: sdkFind_def Let_def split: if_splits option.splits Option.bind_splits)
  let ?ko = "r\<lparr>Spec_ClientIDs := map_option (StringSlice (sdkapi rm)) (Get_ClientIDList found), Spec_Tags := map_option (map copyTag) (Get_Tags found),
    Spec_Thumbprints := map_option (StringSlice (sdkapi rm)) (Get_ThumbprintList found), Spec_URL := Get_Url found\<rparr>"
  from assms found obtain tags where "out = (setStatusDefaults rm ?ko)\<lparr>Spec_Tags := tags\<rparr>"
    by (cases "GetOpenIDConnectProvider (sdkapi rm) (newDescribeRequestPayload r) (aws w)")
      (auto simp: sdkFind_def Let_def split: if_splits option.splits Option.bind_splits)
  then show ?thesis by (intro exI [of _ ?ko] exI [of _ tags]) simp
qed

lemma sample_synced_ok: "synced_ok sample_rt"
  by (simp add: synced_ok_def sample_rt_def set_condition_def)

subsection \<open>The properties\<close>

text \<open>
  C6. An update of an OpenID Connect provider refines an assignment to the abstract provider: when
  the entry point \<open>Update\<close> returns no error, the client ids and the thumbprints are exactly the
  desired ones, whatever the order in which Go ranges over the two maps of ids, no other provider
  has changed, and the tags are the desired ones but for those whose value was to change, which are
  lost.
\<close>

theorem provider_update_refines:
  assumes "provider_comparison_ok c" and "in_string_ok (rt rm)" and "valid_order (map_order (rt rm))" and "aws_error_ok (rt rm)"
    and "provider_service rm prov" and "names_provider desired n"
    and "describes_provider desired goal" and "describes_provider latest (prov (aws w) n)"
    and "unique_conditions (conditions_of latest)"
    and "Delta (rt rm) c (Some desired) (Some latest) = Some delta"
    and "Update rm c (Some desired) (Some latest) delta w = Some ((res, None), w')"
  shows "prov (aws w') = (prov (aws w))(n := goal\<lparr>o_tags := synced_tags (o_tags (prov (aws w) n)) (o_tags goal)\<rparr>)"
proof -
  have "out = None" if "sdkUpdate rm c desired latest delta w = Some ((out, Some e), u)" for out e u
    using that by (auto simp: sdkUpdate_def customUpdateOpenIDConnectProvider_def split: Option.bind_splits option.splits)
  then obtain out where "sdkUpdate rm c desired latest delta w = Some ((out, None), w')"
    using update_with_success [where sdkUpdate = "\<lambda>rm. sdkUpdate rm c", OF assms(4,9)] assms(11) unfolding Update_def by blast
  with provider_update_settles [OF assms(1-3,5-8)] assms(10) show ?thesis by (simp add: Delta_def)
qed

lemma provider_update_refines_witness:
  "\<exists>delta res w'. Delta sample_rt sample_compare (Some wanted_provider) (Some sample_provider) = Some delta \<and>
     Update sample_provider_rm sample_compare (Some wanted_provider) (Some sample_provider) delta providers_world =
      Some ((Some res, None), w') \<and> o_clients (sample_prov (aws w') ''p'') = {''new''}"
proof -
  obtain res w' where run: "Update sample_provider_rm sample_compare (Some wanted_provider) (Some sample_provider)
      [''Spec.ClientIDs''] providers_world = Some ((Some res, None), w')" using sample_provider_update by blast
  have old: "describes_provider sample_provider (sample_prov (aws providers_world) ''p'')"
    using sample_describes_provider(2) by (simp add: sample_prov_def oidc_of_def)
  have "unique_conditions (conditions_of sample_provider)" by (simp add: conditions_of_def unique_conditions_def)
  from provider_update_refines [OF sample_provider_comparison, where prov = sample_prov and n = "''p''",
      OF _ _ _ _ _ sample_describes_provider(1) old this _ run]
  have "o_clients (sample_prov (aws w') ''p'') = {''new''}"
    by (simp add: sample_provider_delta sample_provider_service)
  with run sample_provider_delta show ?thesis by blast
qed

text \<open>
  C20. A resource that \<open>ReadOne\<close>, \<open>Create\<close>, \<open>Update\<close> or \<open>Delete\<close> of the OpenID Connect provider package
  returns, with an error or without, is well-formed: its metadata has owner, region and partition,
  its list of conditions is not nil, and no type of condition is in it twice. The resources they are
  given have no type of condition twice. Nothing is said of \<open>LateInitialize\<close>, which returns the
  resource it was given when the read fails, whatever its metadata.
\<close>

theorem provider_results_well_formed:
  assumes "aws_error_ok (rt rm)" and "synced_ok (rt rm)"
    and "unique_conditions (conditions_of r)" and "unique_conditions (conditions_of latest)"
    and "(\<exists>r'. ReadOne rm (Some r) w = Some (((Some ko, err), r'), w')) \<or> Create rm (Some r) w = Some ((Some ko, err), w') \<or>
      Update rm c (Some r) (Some latest) delta w = Some ((Some ko, err), w') \<or> Delete rm (Some r) w = Some ((Some ko, err), w')"
  shows "well_formed ko"
  using assms(5)
proof (elim disjE exE)
  fix r' assume "ReadOne rm (Some r) w = Some (((Some ko, err), r'), w')"
  moreover have "nearly_formed out" if "sdkFind rm r w = Some ((Some out, e), u)" for out e u
  proof -
    from sdkFind_shape [OF that] obtain ko0 tags where out: "out = (setStatusDefaults rm ko0)\<lparr>Spec_Tags := tags\<rparr>"
      and same: "Status_Conditions ko0 = Status_Conditions r" by blast
    from same assms(3) have "unique_conditions (conditions_of ko0)" by (simp add: conditions_of_def)
    with well_formed_defaults [of ko0 rm] show ?thesis
      unfolding out by (auto simp: nearly_formed_def well_formed_def conditions_of_def)
  qed
  moreover have "unique_conditions (conditions_of (mirrorAWSTags (rt rm) r observed))" for observed
    using assms(3) by (simp add: mirrorAWSTags_def conditions_of_def split: option.split)
  ultimately show ?thesis unfolding ReadOne_def by (intro read_one_well_formed [OF assms(1)]) auto
next
  assume "Create rm (Some r) w = Some ((Some ko, err), w')"
  moreover have "nearly_formed out" if "sdkCreate rm r w = Some ((Some out, e), u)" for out e u
  proof -
    have "conditions_of (setARN arn r\<lparr>Spec_Tags := tags\<rparr>) = conditions_of r" for arn tags
      using conditions_setARN [of arn r] by (simp add: conditions_of_def)
    with that assms(3) show ?thesis
      by (cases "CreateOpenIDConnectProvider (sdkapi rm) (newCreateRequestPayload (sdkapi rm) r) (aws w)")
        (auto simp: sdkCreate_def Let_def intro!: nearly_formed_defaults split: Option.bind_splits option.splits)
  qed
  ultimately show ?thesis unfolding Create_def by (intro create_or_delete_well_formed [OF assms(1,3)]) auto
next
  assume "Update rm c (Some r) (Some latest) delta w = Some ((Some ko, err), w')"
  moreover have "nearly_formed out" if "sdkUpdate rm c r latest delta w = Some ((Some out, e), u)" for out e u
    using that assms(2,3)
    by (auto simp: sdkUpdate_def customUpdateOpenIDConnectProvider_def nearly_formed_def synced_ok_def conditions_of_def
        split: Option.bind_splits option.splits)
  ultimately show ?thesis
    unfolding Update_def by (intro update_with_well_formed [OF assms(1,4), where sdkUpdate = "\<lambda>rm. sdkUpdate rm c"]) auto
next
  assume "Delete rm (Some r) w = Some ((Some ko, err), w')"
  then show ?thesis
    unfolding Delete_def by (intro create_or_delete_well_formed [OF assms(1,3)]) (auto simp: sdkDelete_def Let_def)
qed

lemma provider_results_well_formed_witness:
  "\<exists>ko w'. Update sample_provider_rm sample_compare (Some wanted_provider) (Some sample_provider) [''Spec.ClientIDs''] providers_world =
     Some ((Some ko, None), w') \<and> well_formed ko"
proof -
  have u: "unique_conditions (conditions_of sample_provider)" "unique_conditions (conditions_of wanted_provider)"
    by (simp_all add: conditions_of_def unique_conditions_def)
  obtain ko w' where run: "Update sample_provider_rm sample_compare (Some wanted_provider) (Some sample_provider)
      [''Spec.ClientIDs''] providers_world = Some ((Some ko, None), w')" using sample_provider_update by blast
  with provider_results_well_formed [of sample_provider_rm wanted_provider sample_provider providers_world ko None w' sample_compare
      "[''Spec.ClientIDs'']"] u sample_synced_ok
  show ?thesis by auto
qed

text \<open>
  C24. Two providers whose URLs agree but for a leading \<open>https://\<close>, which IAM strips, are not
  different in their URL, and any other two URLs are; the tags, client ids and thumbprints are
  different when their sets are.
\<close>

theorem provider_url_scheme_ignored:
  assumes "provider_comparison_ok c" and "in_string_ok r"
    and "describes_provider a x" and "describes_provider b y" and "Spec_URL a = Some s" and "Spec_URL b = Some t"
    and "Delta r c (Some a) (Some b) = Some delta"
  shows "(DifferentAt c delta ''Spec.URL'' \<longleftrightarrow> TrimPrefix s ''https://'' \<noteq> TrimPrefix t ''https://'') \<and>
    (DifferentAt c delta ''Spec.ClientIDs'' \<longleftrightarrow> o_clients x \<noteq> o_clients y) \<and>
    (DifferentAt c delta ''Spec.Thumbprints'' \<longleftrightarrow> o_thumbprints x \<noteq> o_thumbprints y) \<and>
    (DifferentAt c delta ''Spec.Tags'' \<longleftrightarrow> o_tags x \<noteq> o_tags y)"
  using provider_delta [OF assms(1-4)] provider_url_delta [OF assms(1-6)] assms(7) unfolding Delta_def by blast

lemma provider_url_scheme_ignored_witness:
  "\<exists>delta. Delta sample_rt sample_compare (Some wanted_provider) (Some sample_provider) = Some delta \<and>
     ''Spec.URL'' \<notin> set delta \<and> ''Spec.ClientIDs'' \<in> set delta"
  using provider_url_scheme_ignored [OF sample_provider_comparison _ sample_describes_provider _ _ sample_provider_delta]
  by (simp add: sample_provider_delta TrimPrefix_def)

end
