(* ===== verification/LinkedRole.thy ===== *)
theory LinkedRole
  imports Manager Resource Compare TagHooks
begin

text \<open>
  The service linked role package, \<open>pkg/resource/service_linked_role\<close>: the role an AWS service makes
  for itself on behalf of the account. IAM chooses its name, so the custom resource of
  \<open>apis/v1alpha1/service_linked_role.go\<close> carries the name in its status, and only the description
  can be updated.
\<close>

subsection \<open>Data\<close>

record RoleLastUsed =
  LastUsedDate :: "time ptr"
  LastUsedRegion :: "string ptr"

record AttachedPermissionsBoundary =
  PermissionsBoundaryARN :: "string ptr"
  PermissionsBoundaryType :: "string ptr"

record ServiceLinkedRole = ack_object +
  Spec_AWSServiceName :: "string ptr"
  Spec_CustomSuffix :: "string ptr"
  Spec_Description :: "string ptr"
  Status_AssumeRolePolicyDocument :: "string ptr"
  Status_CreateDate :: "time ptr"
  Status_MaxSessionDuration :: "int64 ptr"
  Status_Path :: "string ptr"
  Status_PermissionsBoundary :: "AttachedPermissionsBoundary ptr"
  Status_RoleID :: "string ptr"
  Status_RoleLastUsed :: "RoleLastUsed ptr"
  Status_RoleName :: "string ptr"
  Status_Tags :: "Tag slice"

text \<open>\<open>svcsdktypes.Role\<close>; the boundary is its ARN and its type, the empty string when there is none.\<close>

record SdkRole =
  Role_Arn :: "string ptr"
  Role_AssumeRolePolicyDocument :: "string ptr"
  Role_CreateDate :: "time ptr"
  Role_Description :: "string ptr"
  Role_MaxSessionDuration :: "int32 ptr"
  Role_Path :: "string ptr"
  Role_PermissionsBoundary :: "(string ptr \<times> string) ptr"
  Role_RoleId :: "string ptr"
  Role_RoleLastUsed :: "RoleLastUsed ptr"
  Role_RoleName :: "string ptr"
  Role_Tags :: "Tag slice"

record CreateServiceLinkedRoleInput =
  Create_AWSServiceName :: "string ptr"
  Create_CustomSuffix :: "string ptr"
  Create_Description :: "string ptr"

text \<open>\<open>UpdateRole\<close> takes the role name and the description.\<close>

record 'b linked_role_sdk =
  GetRole :: "string ptr \<Rightarrow> 'b \<Rightarrow> (SdkRole ptr ptr \<times> error option) \<times> 'b"
  CreateServiceLinkedRole :: "CreateServiceLinkedRoleInput \<Rightarrow> 'b \<Rightarrow> (SdkRole ptr ptr \<times> error option) \<times> 'b"
  UpdateRole :: "string ptr \<Rightarrow> string ptr \<Rightarrow> 'b \<Rightarrow> error option \<times> 'b"
  DeleteServiceLinkedRole :: "string ptr \<Rightarrow> 'b \<Rightarrow> error option \<times> 'b"

record 'b linked_role_manager = resourceManager +
  sdkapi :: "'b linked_role_sdk"

type_synonym 'b rm = "'b linked_role_manager"

subsection \<open>hooks.go\<close>

definition requiredFieldsMissingFromReadOneInput :: "ServiceLinkedRole \<Rightarrow> bool" where
  "requiredFieldsMissingFromReadOneInput r \<longleftrightarrow> Status_RoleName r = None"

definition newDescribeRequestPayload :: "ServiceLinkedRole \<Rightarrow> string ptr" where
  "newDescribeRequestPayload r = (if Spec_AWSServiceName r \<noteq> None then Status_RoleName r else None)"

text \<open>
  What both \<open>customGetServiceLinkedRole\<close> and \<open>sdkCreate\<close> take over from the response, and what only
  the latter does.
\<close>

definition fromSdkRole :: "SdkRole \<Rightarrow> ServiceLinkedRole \<Rightarrow> ServiceLinkedRole" where
  "fromSdkRole p ko = (setARN (Role_Arn p) ko)\<lparr>
     Status_CreateDate := Role_CreateDate p,
     Spec_Description := Role_Description p,
     Status_MaxSessionDuration := map_option scast (Role_MaxSessionDuration p),
     Status_RoleID := Role_RoleId p,
     Status_RoleLastUsed := Role_RoleLastUsed p,
     Status_RoleName := Role_RoleName p\<rparr>"

definition fromCreatedRole :: "SdkRole \<Rightarrow> ServiceLinkedRole \<Rightarrow> ServiceLinkedRole" where
  "fromCreatedRole p ko = (fromSdkRole p ko)\<lparr>
     Status_AssumeRolePolicyDocument := Role_AssumeRolePolicyDocument p,
     Status_Path := Role_Path p,
     Status_PermissionsBoundary := map_option (\<lambda>(arn, ty). \<lparr>PermissionsBoundaryARN = arn,
       PermissionsBoundaryType = (if ty \<noteq> [] then Some ty else None)\<rparr>) (Role_PermissionsBoundary p),
     Status_Tags := map_option (map copyTag) (Role_Tags p)\<rparr>"

definition customGetServiceLinkedRole :: "'b rm \<Rightarrow> ServiceLinkedRole \<Rightarrow> ('b, ServiceLinkedRole ptr \<times> error option) go" where
  "customGetServiceLinkedRole rm r w =
     (if requiredFieldsMissingFromReadOneInput r then Some ((None, Some NotFound), w)
      else do {
        let input = newDescribeRequestPayload r;
        let ((resp, err), w) = sdk_call (GetRole (sdkapi rm) input) w;
        let w = RecordAPICall ''READ_ONE'' ''GetRole'' err w;
        (case err of
           Some e \<Rightarrow> Some ((None, Some (if ErrorCode e = Some ''NoSuchEntity'' then NotFound else e)), w)
         | None \<Rightarrow> do {
             output \<leftarrow> resp;
             p \<leftarrow> output;
             Some ((Some (setStatusDefaults rm (fromSdkRole p r)), None), w) })
      })"

definition newUpdateRequestPayload :: "ServiceLinkedRole \<Rightarrow> string ptr \<times> string ptr" where
  "newUpdateRequestPayload r = (Status_RoleName r, Spec_Description r)"

definition customUpdateServiceLinkedRole ::
  "'b rm \<Rightarrow> ServiceLinkedRole \<Rightarrow> ServiceLinkedRole \<Rightarrow> 'd \<Rightarrow> ('b, ServiceLinkedRole ptr \<times> error option) go" where
  "customUpdateServiceLinkedRole rm desired latest delta w =
     (let (name, description) = newUpdateRequestPayload desired;
          (err, w) = sdk_call (UpdateRole (sdkapi rm) name description) w;
          w = RecordAPICall ''UPDATE'' ''UpdateRole'' err w
      in case err of
           Some e \<Rightarrow> Some ((None, Some e), w)
         | None \<Rightarrow> Some ((Some (setStatusDefaults rm desired), None), w))"

subsection \<open>sdk.go\<close>

definition sdkFind :: "'b rm \<Rightarrow> ServiceLinkedRole \<Rightarrow> ('b, ServiceLinkedRole ptr \<times> error option) go" where
  "sdkFind rm r w = customGetServiceLinkedRole rm r w"

definition newCreateRequestPayload :: "ServiceLinkedRole \<Rightarrow> CreateServiceLinkedRoleInput" where
  "newCreateRequestPayload r = \<lparr>Create_AWSServiceName = Spec_AWSServiceName r,
     Create_CustomSuffix = Spec_CustomSuffix r, Create_Description = Spec_Description r\<rparr>"

definition sdkCreate :: "'b rm \<Rightarrow> ServiceLinkedRole \<Rightarrow> ('b, ServiceLinkedRole ptr \<times> error option) go" where
  "sdkCreate rm desired w = do {
     let ((resp, err), w) = sdk_call (CreateServiceLinkedRole (sdkapi rm) (newCreateRequestPayload desired)) w;
     let w = RecordAPICall ''CREATE'' ''CreateServiceLinkedRole'' err w;
     (case err of
        Some e \<Rightarrow> Some ((None, Some e), w)
      | None \<Rightarrow> do {
          output \<leftarrow> resp;
          p \<leftarrow> output;
          Some ((Some (setStatusDefaults rm (fromCreatedRole p desired)), None), w) }) }"

definition sdkUpdate ::
  "'b rm \<Rightarrow> ServiceLinkedRole \<Rightarrow> ServiceLinkedRole \<Rightarrow> 'd \<Rightarrow> ('b, ServiceLinkedRole ptr \<times> error option) go" where
  "sdkUpdate rm desired latest delta w = customUpdateServiceLinkedRole rm desired latest delta w"

definition newDeleteRequestPayload :: "ServiceLinkedRole \<Rightarrow> string ptr" where
  "newDeleteRequestPayload r = Status_RoleName r"

definition sdkDelete :: "'b rm \<Rightarrow> ServiceLinkedRole \<Rightarrow> ('b, ServiceLinkedRole ptr \<times> error option) go" where
  "sdkDelete rm r w =
     (let input = newDeleteRequestPayload r;
          (err, w) = sdk_call (DeleteServiceLinkedRole (sdkapi rm) input) w;
          w = RecordAPICall ''DELETE'' ''DeleteServiceLinkedRole'' err w
      in Some ((None, err), w))"

definition terminalCodes :: "string list" where
  "terminalCodes = [''InvalidInput'']"

subsection \<open>delta.go\<close>

definition newResourceDelta :: "'d compare_rt \<Rightarrow> ServiceLinkedRole ptr \<Rightarrow> ServiceLinkedRole ptr \<Rightarrow> 'd option" where
  "newResourceDelta c a b =
     (if (a = None \<and> b \<noteq> None) \<or> (a \<noteq> None \<and> b = None) then Some (delta_Add c (NewDelta c) [])
      else do {
        a \<leftarrow> a;
        b \<leftarrow> b;
        let delta = compareStringField c ''Spec.AWSServiceName'' (Spec_AWSServiceName a) (Spec_AWSServiceName b) (NewDelta c);
        let delta = compareStringField c ''Spec.CustomSuffix'' (Spec_CustomSuffix a) (Spec_CustomSuffix b) delta;
        let delta = compareStringField c ''Spec.Description'' (Spec_Description a) (Spec_Description b) delta;
        Some delta
      })"

subsection \<open>manager.go\<close>

text \<open>No field is late-initialized, and the package's resources have no tags of their own.\<close>

definition lateInitializeFieldNames :: "string list" where
  "lateInitializeFieldNames = []"

definition mirrorAWSTags :: "ServiceLinkedRole \<Rightarrow> ServiceLinkedRole ptr \<Rightarrow> ServiceLinkedRole" where
  "mirrorAWSTags a b = a"

definition ReadOne ::
  "'b rm \<Rightarrow> ServiceLinkedRole ptr \<Rightarrow> ('b, (ServiceLinkedRole ptr \<times> error option) \<times> ServiceLinkedRole) go" where
  "ReadOne rm res w = read_one sdkFind (\<lambda>rm. mirrorAWSTags) terminalCodes rm res w"

definition Create :: "'b rm \<Rightarrow> ServiceLinkedRole ptr \<Rightarrow> ('b, ServiceLinkedRole ptr \<times> error option) go" where
  "Create rm res w = create_or_delete sdkCreate terminalCodes rm res w"

definition Update ::
  "'b rm \<Rightarrow> ServiceLinkedRole ptr \<Rightarrow> ServiceLinkedRole ptr \<Rightarrow> 'd \<Rightarrow> ('b, ServiceLinkedRole ptr \<times> error option) go" where
  "Update rm resDesired resLatest delta w = update_with sdkUpdate terminalCodes rm resDesired resLatest delta w"

definition Delete :: "'b rm \<Rightarrow> ServiceLinkedRole ptr \<Rightarrow> ('b, ServiceLinkedRole ptr \<times> error option) go" where
  "Delete rm res w = create_or_delete sdkDelete terminalCodes rm res w"

definition incompleteLateInitialization :: "ServiceLinkedRole \<Rightarrow> bool" where
  "incompleteLateInitialization ko = False"

definition lateInitializeFromReadOneOutput :: "ServiceLinkedRole \<Rightarrow> ServiceLinkedRole \<Rightarrow> ServiceLinkedRole" where
  "lateInitializeFromReadOneOutput observed latest = latest"

definition LateInitialize :: "'b rm \<Rightarrow> ServiceLinkedRole ptr \<Rightarrow> ('b, ServiceLinkedRole ptr \<times> error option) go" where
  "LateInitialize rm latest w =
     late_initialize lateInitializeFieldNames (ReadOne rm) lateInitializeFromReadOneOutput
       incompleteLateInitialization rm latest w"

definition EnsureTags :: "ServiceLinkedRole ptr \<Rightarrow> ServiceLinkedRole ptr \<times> error option" where
  "EnsureTags res = (res, None)"

definition FilterSystemTags :: "ServiceLinkedRole ptr \<Rightarrow> string list \<Rightarrow> ServiceLinkedRole ptr" where
  "FilterSystemTags res systemTags = res"

subsection \<open>resource.go, descriptor.go, references.go\<close>

definition FinalizerString :: string where
  "FinalizerString = ''finalizers.iam.services.k8s.aws/ServiceLinkedRole''"

definition SetStatus :: "ServiceLinkedRole \<Rightarrow> ServiceLinkedRole \<Rightarrow> ServiceLinkedRole" where
  "SetStatus desired r = r\<lparr>Status_ACKResourceMetadata := Status_ACKResourceMetadata desired,
     Status_Conditions := Status_Conditions desired,
     Status_AssumeRolePolicyDocument := Status_AssumeRolePolicyDocument desired,
     Status_CreateDate := Status_CreateDate desired,
     Status_MaxSessionDuration := Status_MaxSessionDuration desired, Status_Path := Status_Path desired,
     Status_PermissionsBoundary := Status_PermissionsBoundary desired, Status_RoleID := Status_RoleID desired,
     Status_RoleLastUsed := Status_RoleLastUsed desired, Status_RoleName := Status_RoleName desired,
     Status_Tags := Status_Tags desired\<rparr>"

text \<open>The identifier's \<open>AdditionalKeys\<close>; the role name goes to the service name of the spec.\<close>

definition SetIdentifiers ::
  "ack_rt \<Rightarrow> (string, string) gomap \<Rightarrow> ServiceLinkedRole \<Rightarrow> ServiceLinkedRole \<times> error option" where
  "SetIdentifiers q additionalKeys r = (case map_of additionalKeys ''roleName'' of
     None \<Rightarrow> (r, Some (NewTerminalError q (Errorf ''required field missing: roleName'')))
   | Some tmp \<Rightarrow> (r\<lparr>Spec_AWSServiceName := Some tmp\<rparr>, None))"

definition PopulateResourceFromAnnotation ::
  "ack_rt \<Rightarrow> (string, string) gomap \<Rightarrow> ServiceLinkedRole \<Rightarrow> ServiceLinkedRole \<times> error option" where
  "PopulateResourceFromAnnotation q annotation r = (case map_of annotation ''roleName'' of
     None \<Rightarrow> (r, Some (NewTerminalError q (Errorf ''required field missing: roleName'')))
   | Some tmp \<Rightarrow> (r\<lparr>Status_RoleName := Some tmp\<rparr>, None))"

definition Delta :: "'d compare_rt \<Rightarrow> ServiceLinkedRole ptr \<Rightarrow> ServiceLinkedRole ptr \<Rightarrow> 'd option" where
  "Delta c a b = newResourceDelta c a b"

definition ClearResolvedReferences :: "ServiceLinkedRole \<Rightarrow> ServiceLinkedRole" where
  "ClearResolvedReferences res = res"

definition ResolveReferences :: "ServiceLinkedRole \<Rightarrow> ServiceLinkedRole \<times> bool \<times> error option" where
  "ResolveReferences res = (res, False, None)"

definition validateReferenceFields :: "ServiceLinkedRole \<Rightarrow> error option" where
  "validateReferenceFields ko = None"

end
