(* ===== verification/LinkedRoleProperties.thy ===== *)
theory LinkedRoleProperties
  imports LinkedRole Samples
begin

text \<open>The properties of the service linked role package, and the backend their witnesses are evaluated on.\<close>

subsection \<open>The documented effect of the API calls\<close>

text \<open>
  \<open>desc\<close> reads the description of a role off the backend. \<open>UpdateRole\<close> without a description leaves
  it as it is; \<open>GetRole\<close> changes nothing.
\<close>

definition linked_role_service :: "'b linked_role_sdk \<Rightarrow> ('b \<Rightarrow> string \<Rightarrow> string ptr) \<Rightarrow> bool" where
  "linked_role_service sdk desc \<longleftrightarrow>
     (\<forall>n d b b'. UpdateRole sdk (Some n) (Some d) b = (None, b') \<longrightarrow> desc b' = (desc b)(n := Some d)) \<and>
     (\<forall>n b b'. UpdateRole sdk (Some n) None b = (None, b') \<longrightarrow> desc b' = desc b)"

definition answers_role :: "'b linked_role_sdk \<Rightarrow> ('b \<Rightarrow> string \<Rightarrow> string ptr) \<Rightarrow> 'b \<Rightarrow> string \<Rightarrow> bool" where
  "answers_role sdk desc b n \<longleftrightarrow> (\<exists>p. GetRole sdk (Some n) b = ((Some (Some p), None), b) \<and>
     Role_RoleName p = Some n \<and> Role_Description p = desc b n)"

definition linked_role_paths :: "string set" where
  "linked_role_paths = {''Spec.AWSServiceName'', ''Spec.CustomSuffix'', ''Spec.Description''}"

lemma linked_role_delta:
  assumes "delta_ok c linked_role_paths" and "Delta c (Some a) (Some b) = Some delta"
  shows "DifferentAt c delta ''Spec.Description'' \<longleftrightarrow> stringDiffers c (Spec_Description a) (Spec_Description b)"
  using assms
  by (auto simp: Delta_def newResourceDelta_def compare_addWhen Let_def DifferentAt_addWhen [OF assms(1)]
      DifferentAt_NewDelta [OF assms(1)] linked_role_paths_def)

subsection \<open>A concrete backend\<close>

definition sample_linked_role_sdk :: "(string \<Rightarrow> string ptr) linked_role_sdk" where
  "sample_linked_role_sdk = \<lparr>
     GetRole = (\<lambda>n b. ((Some (Some \<lparr>Role_Arn = Some ''arn:r'', Role_AssumeRolePolicyDocument = None, Role_CreateDate = Some 0,
        Role_Description = b (the n), Role_MaxSessionDuration = Some 3600, Role_Path = Some ''/aws-service-role/'',
        Role_PermissionsBoundary = None, Role_RoleId = Some ''AROA'', Role_RoleLastUsed = None, Role_RoleName = n,
        Role_Tags = None\<rparr>), None), b)),
     CreateServiceLinkedRole = (\<lambda>input b. ((None, Some (Error (APIError ''InvalidInput'') ''exists'' None)), b)),
     UpdateRole = (\<lambda>n d b. (None, if d = None then b else b(the n := d))),
     DeleteServiceLinkedRole = (\<lambda>n b. (None, b))\<rparr>"

definition sample_linked_role_rm :: "(string \<Rightarrow> string ptr) rm" where
  "sample_linked_role_rm = \<lparr>rt = sample_rt, EnableCrossNamespace = False, awsAccountID = ''1'', awsRegion = ''us-east-1'',
     awsPartition = ''aws'', sdkapi = sample_linked_role_sdk\<rparr>"

definition sample_linked_role :: ServiceLinkedRole where
  "sample_linked_role = \<lparr>Namespace = ''default'', DeletionTimestamp = None, Finalizers = [], Annotations = [],
     Status_ACKResourceMetadata = None, Status_Conditions = None, Spec_AWSServiceName = Some ''eks.amazonaws.com'',
     Spec_CustomSuffix = None, Spec_Description = None, Status_AssumeRolePolicyDocument = None, Status_CreateDate = None,
     Status_MaxSessionDuration = None, Status_Path = None, Status_PermissionsBoundary = None, Status_RoleID = None,
     Status_RoleLastUsed = None, Status_RoleName = Some ''AWSServiceRoleForEKS'', Status_Tags = None\<rparr>"

definition linked_role_world :: "(string \<Rightarrow> string ptr) world" where
  "linked_role_world = \<lparr>aws = (\<lambda>_. Some ''old''), api_calls = []\<rparr>"

lemma sample_linked_role_service:
  "linked_role_service sample_linked_role_sdk (\<lambda>b. b)" "answers_role sample_linked_role_sdk (\<lambda>b. b) b n"
  by (auto simp: linked_role_service_def answers_role_def sample_linked_role_sdk_def)

lemma linked_role_simps [simp]:
  "sdkapi sample_linked_role_rm = sample_linked_role_sdk" "aws linked_role_world = (\<lambda>_. Some ''old'')"
  "Spec_AWSServiceName sample_linked_role = Some ''eks.amazonaws.com''" "Spec_Description sample_linked_role = None"
  "Status_RoleName sample_linked_role = Some ''AWSServiceRoleForEKS''"
  by (simp_all add: sample_linked_role_rm_def linked_role_world_def sample_linked_role_def)

subsection \<open>The properties\<close>

text \<open>
  C22. The description of a service linked role follows the custom resource, but cannot be removed:
  after a successful \<open>sdkUpdate\<close> the next \<open>sdkFind\<close> returns the desired description if the resource
  gives one and the old one otherwise; the delta of the desired and the found resource reports the
  description exactly when none is desired and the old one is not empty.
\<close>

theorem linked_role_description_sticks:
  assumes "delta_ok c linked_role_paths" and "nil_difference_ok c"
    and "linked_role_service (sdkapi rm) desc" and "Spec_AWSServiceName desired \<noteq> None"
    and "Status_RoleName desired = Some n" and "Spec_Description desired \<noteq> Some []"
    and "sdkUpdate rm desired latest delta w = Some ((res, None), w')"
    and "answers_role (sdkapi rm) desc (aws w') n"
  shows "\<exists>ko delta' w''. sdkFind rm desired w' = Some ((Some ko, None), w'') \<and>
    Spec_Description ko = (if Spec_Description desired = None then desc (aws w) n else Spec_Description desired) \<and>
    Delta c (Some desired) (Some ko) = Some delta' \<and>
    (nonempty (desc (aws w) n) = desc (aws w) n \<longrightarrow>
       DifferentAt c delta' ''Spec.Description'' = (Spec_Description desired = None \<and> desc (aws w) n \<noteq> None))"
proof -
  have upd: "UpdateRole (sdkapi rm) (Some n) (Spec_Description desired) (aws w) = (None, aws w')"
    using assms(5,7) by (auto simp: sdkUpdate_def customUpdateServiceLinkedRole_def newUpdateRequestPayload_def Let_def
        prod_eq_iff split: option.splits)
  have now: "desc (aws w') n = (if Spec_Description desired = None then desc (aws w) n else Spec_Description desired)"
    using upd assms(3) by (cases "Spec_Description desired") (auto simp: linked_role_service_def)
  from assms(8) obtain p where p: "GetRole (sdkapi rm) (Some n) (aws w') = ((Some (Some p), None), aws w')"
    "Role_Description p = desc (aws w') n" by (auto simp: answers_role_def)
  let ?ko = "setStatusDefaults rm (fromSdkRole p desired)"
  have desc: "Spec_Description ?ko = desc (aws w') n"
    using p(2) by (simp add: setStatusDefaults_def Let_def fromSdkRole_def)
  have found: "\<exists>w''. sdkFind rm desired w' = Some ((Some ?ko, None), w'')"
    using p(1) assms(4,5) by (simp add: sdkFind_def customGetServiceLinkedRole_def requiredFieldsMissingFromReadOneInput_def
        newDescribeRequestPayload_def Let_def)
  obtain delta' where delta: "Delta c (Some desired) (Some ?ko) = Some delta'"
    by (simp add: Delta_def newResourceDelta_def)
  have "stringDiffers c (Spec_Description desired) (Spec_Description ?ko) \<longleftrightarrow> Spec_Description desired \<noteq> Spec_Description ?ko"
    if "nonempty (desc (aws w) n) = desc (aws w) n"
    using assms(6) that by (intro stringDiffers_iff [OF assms(2)]) (auto simp: desc now nonempty_def split: if_splits)
  with linked_role_delta [OF assms(1) delta] desc now found delta show ?thesis by (auto simp: eq_commute [of None])
qed

lemma linked_role_description_sticks_witness:
  "\<exists>ko delta' w' w''. sdkUpdate sample_linked_role_rm sample_linked_role sample_linked_role [''Spec.Description''] linked_role_world =
      Some ((Some (setStatusDefaults sample_linked_role_rm sample_linked_role), None), w') \<and>
    sdkFind sample_linked_role_rm sample_linked_role w' = Some ((Some ko, None), w'') \<and> Spec_Description ko = Some ''old'' \<and>
    Delta sample_compare (Some sample_linked_role) (Some ko) = Some delta' \<and> ''Spec.Description'' \<in> set delta'"
proof -
  obtain w' where run: "sdkUpdate sample_linked_role_rm sample_linked_role sample_linked_role [''Spec.Description''] linked_role_world =
      Some ((Some (setStatusDefaults sample_linked_role_rm sample_linked_role), None), w')"
    by (simp add: sdkUpdate_def customUpdateServiceLinkedRole_def newUpdateRequestPayload_def sample_linked_role_sdk_def)
  from linked_role_description_sticks [of sample_compare sample_linked_role_rm "\<lambda>b. b" sample_linked_role, OF _ _ _ _ _ _ run]
  show ?thesis using run by (auto simp: sample_linked_role_service nonempty_def)
qed

text \<open>
  C23. An adopted service linked role is never found. Given the key roleName, \<open>SetIdentifiers\<close> writes
  its value into \<open>Spec.AWSServiceName\<close> and nowhere else, with no error; but \<open>sdkFind\<close> looks the role up
  by \<open>Status.RoleName\<close>, and without one it returns \<open>NotFound\<close> with no API call. The adoption annotation
  writes the same value into \<open>Status.RoleName\<close> and nowhere else, which is what the lookup requires.
\<close>

theorem linked_role_adoption_lost:
  assumes "Status_RoleName r = None" and "map_of additionalKeys ''roleName'' = Some name"
  shows "SetIdentifiers q additionalKeys r = (r\<lparr>Spec_AWSServiceName := Some name\<rparr>, None) \<and>
    sdkFind rm (r\<lparr>Spec_AWSServiceName := Some name\<rparr>) w = Some ((None, Some NotFound), w) \<and>
    PopulateResourceFromAnnotation q additionalKeys r = (r\<lparr>Status_RoleName := Some name\<rparr>, None) \<and>
    \<not> requiredFieldsMissingFromReadOneInput (r\<lparr>Status_RoleName := Some name\<rparr>)"
  using assms
  by (auto simp: SetIdentifiers_def PopulateResourceFromAnnotation_def sdkFind_def customGetServiceLinkedRole_def
      requiredFieldsMissingFromReadOneInput_def)

lemma linked_role_adoption_lost_witness:
  "\<exists>r1. SetIdentifiers sample_rt [(''roleName'', ''AWSServiceRoleForEKS'')] (sample_linked_role\<lparr>Status_RoleName := None\<rparr>) = (r1, None) \<and>
     Spec_AWSServiceName r1 = Some ''AWSServiceRoleForEKS'' \<and>
     sdkFind sample_linked_role_rm r1 linked_role_world = Some ((None, Some NotFound), linked_role_world)"
  using linked_role_adoption_lost [of "sample_linked_role\<lparr>Status_RoleName := None\<rparr>" "[(''roleName'', ''AWSServiceRoleForEKS'')]"
      _ sample_rt sample_linked_role_rm linked_role_world]
  by simp

end
