(* ===== verification/GoHeap.thy ===== *)
theory GoHeap
  imports Ack "HOL-Library.Sublist"
begin

text \<open>
  Pointers as addresses. Everywhere else in the development a Go pointer is the value it points
  to, because the code never relies on sharing. Whether that is justified rests on the generated
  \<open>DeepCopyInto\<close> functions of \<open>apis/v1alpha1/zz_generated.deepcopy.go\<close>: they must return a value
  that shares no memory with the original. This theory gives the memory they run on: a heap is
  the list of the allocated cells, an address is a position in it, and allocation appends a cell.
  A type \<open>T\<close> of Go has a \<open>kind\<close>: how a \<open>T\<close> is put in a cell and read back.

  The statements of the generated functions are the combinators \<open>copy_new\<close>, \<open>copy_slice\<close>,
  \<open>copy_dict\<close> and \<open>copy_struct\<close>. A view reads the tree a value unfolds to off the heap, with the
  set of the cells it reads (the footprint). The locale \<open>deep_copier\<close> says that a function copies a
  view into fresh cells, and one lemma per combinator shows that it keeps that law.
\<close>

subsection \<open>Heaps, kinds and references\<close>

type_synonym addr = nat
type_synonym 'c heap = "'c list"

type_synonym 'a ref = "addr option" \<comment> \<open>\<open>*T\<close>; \<open>None\<close> is \<open>nil\<close>\<close>
type_synonym 'a vec = "(addr \<times> nat \<times> nat) option" \<comment> \<open>\<open>[]T\<close>: the array, the first index, the length\<close>
type_synonym 'a dict = "addr option" \<comment> \<open>\<open>map[string]T\<close>\<close>

record ('c, 'x) kind =
  Put :: "'x \<Rightarrow> 'c"
  Get :: "'c \<Rightarrow> 'x option"

locale cell_kind =
  fixes k :: "('c, 'x) kind"
  assumes get_put [simp]: "Get k (Put k x) = Some x"

definition new :: "'c \<Rightarrow> 'c heap \<Rightarrow> addr \<times> 'c heap" where
  "new c h = (length h, h @ [c])"

definition load :: "('c, 'x) kind \<Rightarrow> 'c heap \<Rightarrow> addr \<Rightarrow> 'x option" where
  "load k h a = (if a < length h then Get k (h ! a) else None)"

subsection \<open>The statements of the generated functions\<close>

text \<open>
  A copier is given the source and the heap, and returns what it writes to \<open>*out\<close>. The source is
  never \<open>*out\<close> itself: every caller passes the address of a variable it has just made.
\<close>

type_synonym ('c, 'x) copier = "'x \<Rightarrow> 'c heap \<Rightarrow> 'x \<times> 'c heap"

text \<open>\<open>*out = *in\<close> for a type without pointers\<close>

definition copy_plain :: "('c, 'x) copier" where
  "copy_plain x h = (x, h)"

text \<open>
  \<open>if in.F != nil { *out = new(T); (*in).DeepCopyInto(*out) }\<close>, and with \<open>copy_plain\<close> the statement
  \<open>**out = **in\<close>. \<open>DeepCopyInto\<close> begins with \<open>*out = *in\<close>, hence the first content of the cell.
\<close>

definition copy_new :: "('c, 'x) kind \<Rightarrow> ('c, 'x) copier \<Rightarrow> ('c, 'x ref) copier" where
  "copy_new k into p h = (case Option.bind p (load k h) of
     None \<Rightarrow> (None, h)
   | Some x \<Rightarrow>
       let (a, h) = new (Put k x) h;
           (y, h) = into x h
       in (Some a, h[a := Put k y]))"

text \<open>\<open>for i := range *in { ... (*in)[i] ... (*out)[i] ... }\<close>\<close>

primrec copy_each :: "('c, 'x) copier \<Rightarrow> ('c, 'x list) copier" where
  "copy_each c [] h = ([], h)"
| "copy_each c (x # xs) h =
     (let (y, h) = c x h;
          (ys, h) = copy_each c xs h
      in (y # ys, h))"

text \<open>
  \<open>*out = make([]T, len(*in))\<close> and the loop over it. The elements are written to the new array when
  the loop is over: nothing reads them before.
\<close>

definition copy_slice :: "('c, 'x list) kind \<Rightarrow> ('c, 'x) copier \<Rightarrow> ('c, 'x vec) copier" where
  "copy_slice k elem s h = (case s of
     None \<Rightarrow> (None, h)
   | Some (a, i, n) \<Rightarrow> (case load k h a of
       None \<Rightarrow> (None, h)
     | Some xs \<Rightarrow>
         let (b, h) = new (Put k []) h;
             (ys, h) = copy_each elem (take n (drop i xs)) h
         in (Some (b, 0, n), h[b := Put k ys])))"

text \<open>\<open>*out = make(map[string]T, len(*in)); for key, val := range *in { ... (*out)[key] = outVal }\<close>\<close>

definition copy_entry :: "('c, 'x) copier \<Rightarrow> ('c, string \<times> 'x) copier" where
  "copy_entry c e h = (let (v, h) = c (snd e) h in ((fst e, v), h))"

definition copy_dict ::
  "(string list \<Rightarrow> string list) \<Rightarrow> ('c, (string \<times> 'x) list) kind \<Rightarrow> ('c, 'x) copier \<Rightarrow> ('c, 'x dict) copier" where
  "copy_dict ord k c d h = (case Option.bind d (load k h) of
     None \<Rightarrow> (None, h)
   | Some m \<Rightarrow>
       let (b, h) = new (Put k []) h;
           (m', h) = copy_each (copy_entry c) (range_pairs ord m) h
       in (Some b, h[b := Put k m']))"

text \<open>\<open>*out = *in\<close>, then the statements that copy a field, in order.\<close>

definition copy_field ::
  "('s \<Rightarrow> 'f) \<Rightarrow> (('f \<Rightarrow> 'f) \<Rightarrow> 's \<Rightarrow> 's) \<Rightarrow> ('c, 'f) copier \<Rightarrow> 's \<Rightarrow> 's \<times> 'c heap \<Rightarrow> 's \<times> 'c heap" where
  "copy_field get upd c x s = (let (z, h) = c (get x) (snd s) in (upd (\<lambda>_. z) (fst s), h))"

definition copy_struct :: "('s \<Rightarrow> 's \<times> 'c heap \<Rightarrow> 's \<times> 'c heap) list \<Rightarrow> ('c, 's) copier" where
  "copy_struct steps x h = fold (\<lambda>step. step x) steps (x, h)"

subsection \<open>Views\<close>

text \<open>The tree a Go value unfolds to: what \<open>reflect.DeepEqual\<close> compares.\<close>

datatype val =
    Null
  | Text string
  | Number int64
  | Boolean bool
  | Ptr val
  | Seq "val list"
  | Dict "string \<Rightarrow> val option"
  | Struct "val list"

type_synonym ('c, 'x, 'u) view = "'c heap \<Rightarrow> 'x \<Rightarrow> ('u \<times> addr set) option"

definition view_plain :: "('x \<Rightarrow> 'u) \<Rightarrow> ('c, 'x, 'u) view" where
  "view_plain f h x = Some (f x, {})"

definition view_ref :: "('c, 'x) kind \<Rightarrow> ('c, 'x, val) view \<Rightarrow> ('c, 'x ref, val) view" where
  "view_ref k v h p = (case p of
     None \<Rightarrow> Some (Null, {})
   | Some a \<Rightarrow> do { x \<leftarrow> load k h a; (u, F) \<leftarrow> v h x; Some (Ptr u, insert a F) })"

primrec view_all :: "('c, 'x, 'u) view \<Rightarrow> ('c, 'x list, 'u list) view" where
  "view_all v h [] = Some ([], {})"
| "view_all v h (x # xs) = do {
     (u, F) \<leftarrow> v h x;
     (us, G) \<leftarrow> view_all v h xs;
     Some (u # us, F \<union> G)
   }"

definition view_slice :: "('c, 'x list) kind \<Rightarrow> ('c, 'x, val) view \<Rightarrow> ('c, 'x vec, val) view" where
  "view_slice k v h s = (case s of
     None \<Rightarrow> Some (Null, {})
   | Some (a, i, n) \<Rightarrow> do {
       xs \<leftarrow> load k h a;
       (us, F) \<leftarrow> view_all v h (take n (drop i xs));
       if i + n \<le> length xs then Some (Seq us, insert a F) else None
     })"

definition view_entry :: "('c, 'x, val) view \<Rightarrow> ('c, string \<times> 'x, string \<times> val) view" where
  "view_entry v h e = do { (u, F) \<leftarrow> v h (snd e); Some ((fst e, u), F) }"

definition view_dict :: "('c, (string \<times> 'x) list) kind \<Rightarrow> ('c, 'x, val) view \<Rightarrow> ('c, 'x dict, val) view" where
  "view_dict k v h d = (case d of
     None \<Rightarrow> Some (Null, {})
   | Some a \<Rightarrow> do {
       m \<leftarrow> load k h a;
       (us, F) \<leftarrow> view_all (view_entry v) h m;
       if wf_map m then Some (Dict (map_of us), insert a F) else None
     })"

definition view_field :: "('s \<Rightarrow> 'f) \<Rightarrow> ('c, 'f, val) view \<Rightarrow> ('c, 's, val) view" where
  "view_field get v h x = v h (get x)"

definition view_struct :: "('c, 's, val) view list \<Rightarrow> ('c, 's, val) view" where
  "view_struct fs h x = do { (us, F) \<leftarrow> view_all (\<lambda>h f. f h x) h fs; Some (Struct us, F) }"


subsection \<open>What a deep copy is\<close>

definition agree :: "addr set \<Rightarrow> 'c heap \<Rightarrow> 'c heap \<Rightarrow> bool" where
  "agree F h h' \<longleftrightarrow> (\<forall>a\<in>F. a < length h \<and> a < length h' \<and> h' ! a = h ! a)"

definition fresh_copy :: "('c, 'x, 'u) view \<Rightarrow> 'u \<Rightarrow> nat \<Rightarrow> 'x \<times> 'c heap \<Rightarrow> bool" where
  "fresh_copy v u n r \<longleftrightarrow> (\<exists>F. v (snd r) (fst r) = Some (u, F) \<and> F \<subseteq> {n..<length (snd r)})"

text \<open>A view depends on its footprint alone.\<close>

locale heap_view =
  fixes view :: "('c, 'x, 'u) view"
  assumes footprint: "view h x = Some (u, F) \<Longrightarrow> F \<subseteq> {..<length h}"
    and local_view: "view h x = Some (u, F) \<Longrightarrow> agree F h h' \<Longrightarrow> view h' x = Some (u, F)"

text \<open>A deep copy leaves the heap as it is, extends it, and has the same tree on the new cells alone.\<close>

locale deep_copier = heap_view view for view :: "('c, 'x, 'u) view" +
  fixes copy :: "('c, 'x) copier"
  assumes extends: "view h x = Some (u, F) \<Longrightarrow> prefix h (snd (copy x h))"
    and copies: "view h x = Some (u, F) \<Longrightarrow> fresh_copy view u (length h) (copy x h)"

lemma agree_prefix: "F \<subseteq> {..<length h} \<Longrightarrow> prefix h h' \<Longrightarrow> agree F h h'"
  by (auto simp: agree_def prefix_def nth_append)

lemma agree_update: "F \<subseteq> {..<length h} \<Longrightarrow> a \<notin> F \<Longrightarrow> agree F h (h[a := c])"
  by (auto simp: agree_def) (metis nth_list_update_neq)

lemma agree_sub: "agree F h h' \<Longrightarrow> G \<subseteq> F \<Longrightarrow> agree G h h'"
  by (auto simp: agree_def)

lemma agree_Un: "agree (F \<union> G) h h' \<longleftrightarrow> agree F h h' \<and> agree G h h'"
  by (auto simp: agree_def)

lemma load_agree: "a \<in> F \<Longrightarrow> agree F h h' \<Longrightarrow> load k h' a = load k h a"
  by (auto simp: agree_def load_def)

lemma load_bound: "load k h a = Some x \<Longrightarrow> a < length h"
  by (simp add: load_def split: if_splits)

lemma new_eq: "new c h = (length h, h @ [c])"
  by (simp add: new_def)

lemma prefix_update: "prefix h h' \<Longrightarrow> length h \<le> a \<Longrightarrow> prefix h (h'[a := c])"
  by (auto simp: prefix_def list_update_append)

context heap_view
begin

lemma view_prefix: "view h x = Some (u, F) \<Longrightarrow> prefix h h' \<Longrightarrow> view h' x = Some (u, F)"
  by (rule local_view [OF _ agree_prefix]) (auto dest: footprint)

lemma fresh_prefix:
  assumes "fresh_copy view u n (y, h)" and "prefix h h'" and "m \<le> n"
  shows "fresh_copy view u m (y, h')"
proof -
  from assms(1) obtain F where v: "view h y = Some (u, F)" and F: "F \<subseteq> {n..<length h}"
    unfolding fresh_copy_def by auto
  from F assms(3) have "F \<subseteq> {m..<length h'}"
    using prefix_length_le [OF assms(2)] by fastforce
  with view_prefix [OF v assms(2)] show ?thesis
    unfolding fresh_copy_def by simp
qed

lemma fresh_update:
  assumes "fresh_copy view u n (y, h)" and "a < n"
  shows "fresh_copy view u n (y, h[a := c])"
proof -
  from assms(1) obtain F where v: "view h y = Some (u, F)" and F: "F \<subseteq> {n..<length h}"
    unfolding fresh_copy_def by auto
  then have "agree F h (h[a := c])" using assms(2) by (intro agree_update) auto
  from local_view [OF v this] F show ?thesis unfolding fresh_copy_def by simp
qed

end

context deep_copier
begin

text \<open>Writes to the copy's cells are not seen by the original, nor the other way round.\<close>

lemma isolated:
  assumes "view h x = Some (u, F)" and "copy x h = (y, h')"
  obtains F' where "view h' y = Some (u, F')" and "view h' x = Some (u, F)" and "F \<inter> F' = {}"
    and "\<And>a c. a \<in> F' \<Longrightarrow> view (h'[a := c]) x = Some (u, F)"
    and "\<And>a c. a \<in> F \<Longrightarrow> view (h'[a := c]) y = Some (u, F')"
proof -
  have pre: "prefix h h'" using extends [OF assms(1)] assms(2) by simp
  obtain F' where y: "view h' y = Some (u, F')" and F': "F' \<subseteq> {length h..<length h'}"
    using copies [OF assms(1)] assms(2) unfolding fresh_copy_def by auto
  have x: "view h' x = Some (u, F)" using view_prefix [OF assms(1) pre] .
  have disjoint: "F \<inter> F' = {}" using footprint [OF assms(1)] F' by force
  from y x disjoint show thesis
  proof (rule that)
    fix a c
    show "view (h'[a := c]) x = Some (u, F)" if "a \<in> F'"
      by (rule local_view [OF x agree_update [OF footprint [OF x]]]) (use disjoint that in auto)
    show "view (h'[a := c]) y = Some (u, F')" if "a \<in> F"
      by (rule local_view [OF y agree_update [OF footprint [OF y]]]) (use disjoint that in auto)
  qed
qed

end

subsection \<open>The combinators copy deeply\<close>

lemma view_plain_local: "heap_view (view_plain f)"
  by unfold_locales (auto simp: view_plain_def)

lemma copier_plain: "deep_copier (view_plain f) copy_plain"
  by unfold_locales (auto simp: view_plain_def copy_plain_def fresh_copy_def)


lemma agree_insert: "agree (insert a F) h h' \<Longrightarrow> agree F h h' \<and> load k h' a = load k h a"
  by (auto simp: agree_def load_def)



text \<open>References, slices and maps read one cell and then what the cell refers to.\<close>

lemma view_cell_local:
  assumes w: "heap_view w"
    and view: "\<And>h x. view h x = (case cell x of
      None \<Rightarrow> Some (Null, {})
    | Some a \<Rightarrow> do {
        y \<leftarrow> load k h a;
        (u, F) \<leftarrow> w h (sel x y);
        if ok x y then Some (g u, insert a F) else None
      })"
  shows "heap_view view"
proof -
  have cases: "cell x = None \<and> r = (Null, {}) \<or>
      (\<exists>a y u F. cell x = Some a \<and> load k h a = Some y \<and> w h (sel x y) = Some (u, F) \<and> ok x y \<and>
        r = (g u, insert a F))" if "view h x = Some r" for h x r
    using that by (auto simp: view split: option.splits Option.bind_splits if_splits)
  show ?thesis
  proof
    fix h x u F
    assume "view h x = Some (u, F)"
    from cases [OF this] show "F \<subseteq> {..<length h}"
      using heap_view.footprint [OF w] load_bound by fastforce
  next
    fix h x u F h'
    assume "view h x = Some (u, F)" and agree: "agree F h h'"
    from cases [OF this(1)] show "view h' x = Some (u, F)"
    proof (elim disjE exE conjE)
      fix a y u' G
      assume *: "cell x = Some a" "load k h a = Some y" "w h (sel x y) = Some (u', G)" "ok x y"
        "(u, F) = (g u', insert a G)"
      with agree agree_insert [of a G h h' k] have "load k h' a = Some y" and "agree G h h'" by auto
      with heap_view.local_view [OF w *(3)] * show ?thesis by (simp add: view)
    qed (simp add: view)
  qed
qed

lemma view_ref_local: "heap_view v \<Longrightarrow> heap_view (view_ref k v)"
  by (rule view_cell_local [where w = v and cell = "\<lambda>p. p" and k = k and sel = "\<lambda>p x. x" and ok = "\<lambda>p x. True" and g = Ptr])
    (simp_all add: view_ref_def cong: if_cong split: option.split)

lemma view_all_local:
  assumes v: "heap_view v"
  shows "heap_view (view_all v)"
proof
  fix h xs us F
  assume "view_all v h xs = Some (us, F)"
  then show "F \<subseteq> {..<length h}"
  proof (induction xs arbitrary: us F)
    case (Cons x xs)
    then obtain u G us' H where "v h x = Some (u, G)" "view_all v h xs = Some (us', H)" "F = G \<union> H"
      by (auto split: Option.bind_splits)
    with Cons.IH heap_view.footprint [OF v] show ?case by simp
  qed simp
next
  fix h xs us F h'
  assume "view_all v h xs = Some (us, F)" and "agree F h h'"
  then show "view_all v h' xs = Some (us, F)"
  proof (induction xs arbitrary: us F)
    case (Cons x xs)
    then obtain u G us' H where *: "v h x = Some (u, G)" "view_all v h xs = Some (us', H)"
      "us = u # us'" "F = G \<union> H"
      by (auto split: Option.bind_splits)
    with Cons.prems have "agree G h h'" "agree H h h'" by (auto simp: agree_Un)
    with heap_view.local_view [OF v *(1)] Cons.IH * show ?case by simp
  qed simp
qed

lemma view_slice_local: "heap_view v \<Longrightarrow> heap_view (view_slice k v)"
  by (rule view_cell_local [where w = "view_all v" and cell = "map_option fst" and k = k
        and sel = "\<lambda>s xs. take (snd (snd (the s))) (drop (fst (snd (the s))) xs)"
        and ok = "\<lambda>s xs. fst (snd (the s)) + snd (snd (the s)) \<le> length xs" and g = Seq])
    (simp_all add: view_all_local view_slice_def cong: if_cong split: option.split)

lemma view_entry_local:
  assumes v: "heap_view v"
  shows "heap_view (view_entry v)"
proof
  fix h x r F
  assume "view_entry v h x = Some (r, F)"
  then show "F \<subseteq> {..<length h}"
    using heap_view.footprint [OF v, of h "snd x"]
    by (auto simp: view_entry_def split: Option.bind_splits prod.splits)
next
  fix h x r F h'
  assume "view_entry v h x = Some (r, F)" and agree: "agree F h h'"
  then obtain u where "v h (snd x) = Some (u, F)" "r = (fst x, u)"
    by (auto simp: view_entry_def split: Option.bind_splits)
  with heap_view.local_view [OF v this(1) agree] show "view_entry v h' x = Some (r, F)"
    by (simp add: view_entry_def)
qed

lemma view_dict_local: "heap_view v \<Longrightarrow> heap_view (view_dict k v)"
  by (rule view_cell_local [where w = "view_all (view_entry v)" and cell = "\<lambda>d. d" and k = k
        and sel = "\<lambda>d m. m" and ok = "\<lambda>d m. wf_map m" and g = "\<lambda>us. Dict (map_of us)"])
    (simp_all add: view_all_local view_entry_local view_dict_def split: option.split)

lemma view_fields_local:
  assumes fs: "\<And>f. f \<in> set fs \<Longrightarrow> heap_view f"
  shows "view_all (\<lambda>h f. f h x) h fs = Some (us, F) \<Longrightarrow> F \<subseteq> {..<length h}"
    and "view_all (\<lambda>h f. f h x) h fs = Some (us, F) \<Longrightarrow> agree F h h' \<Longrightarrow>
      view_all (\<lambda>h f. f h x) h' fs = Some (us, F)"
  using fs
proof (induction fs arbitrary: us F)
  case (Cons f fs)
  {
    case 1
    then obtain u G us' H where "f h x = Some (u, G)" "view_all (\<lambda>h f. f h x) h fs = Some (us', H)"
      "F = G \<union> H"
      by (auto split: Option.bind_splits)
    with Cons.IH(1) 1 heap_view.footprint [of f] show ?case by simp
  next
    case 2
    then obtain u G us' H where *: "f h x = Some (u, G)" "view_all (\<lambda>h f. f h x) h fs = Some (us', H)"
      "us = u # us'" "F = G \<union> H"
      by (auto split: Option.bind_splits)
    with 2 have "agree G h h'" "agree H h h'" by (auto simp: agree_Un)
    with heap_view.local_view [of f, OF _ *(1)] Cons.IH(2) 2 * show ?case by simp
  }
qed simp_all

lemma view_struct_local:
  assumes fs: "\<And>f. f \<in> set fs \<Longrightarrow> heap_view f"
  shows "heap_view (view_struct fs)"
proof
  fix h x r F
  assume "view_struct fs h x = Some (r, F)"
  then obtain us where "view_all (\<lambda>h f. f h x) h fs = Some (us, F)"
    by (auto simp: view_struct_def split: Option.bind_splits)
  from view_fields_local(1) [OF fs this] show "F \<subseteq> {..<length h}" .
next
  fix h x r F h'
  assume "view_struct fs h x = Some (r, F)" and agree: "agree F h h'"
  then obtain us where "view_all (\<lambda>h f. f h x) h fs = Some (us, F)" "r = Struct us"
    by (auto simp: view_struct_def split: Option.bind_splits)
  with view_fields_local(2) [OF fs this(1) agree] show "view_struct fs h' x = Some (r, F)"
    by (simp add: view_struct_def)
qed


lemma deep_copierI:
  assumes "heap_view v"
    and "\<And>h x u F. v h x = Some (u, F) \<Longrightarrow>
      prefix h (snd (copy x h)) \<and> fresh_copy v u (length h) (copy x h)"
  shows "deep_copier v copy"
  using assms by (intro deep_copier.intro deep_copier_axioms.intro) auto

lemma deep_copierD:
  assumes "deep_copier v copy" and "v h x = Some (u, F)"
  shows "prefix h (snd (copy x h)) \<and> fresh_copy v u (length h) (copy x h)"
  using deep_copier.extends [OF assms] deep_copier.copies [OF assms] by simp

lemma copier_view: "deep_copier v copy \<Longrightarrow> heap_view v"
  by (rule deep_copier.axioms(1))

text \<open>
  What the allocating statements share: a cell is allocated, the parts are copied, and the copy of
  the parts is written to the cell.
\<close>

lemma copy_to_cell:
  assumes w: "heap_view w" and k: "cell_kind k"
    and part: "w (h @ [c]) y = Some (u, F) \<Longrightarrow> prefix (h @ [c]) h' \<and> fresh_copy w u (Suc (length h)) (y', h')"
    and y: "w h y = Some (u, F)"
  shows "prefix h (h'[length h := Put k y'])"
    and "load k (h'[length h := Put k y']) (length h) = Some y'"
    and "\<exists>F. w (h'[length h := Put k y']) y' = Some (u, F) \<and> insert (length h) F \<subseteq> {length h..<length h'}"
proof -
  have "w (h @ [c]) y = Some (u, F)"
    by (rule heap_view.view_prefix [OF w y]) simp
  from part [OF this] have pre: "prefix (h @ [c]) h'" and f: "fresh_copy w u (Suc (length h)) (y', h')"
    by auto
  from pre have len: "length h < length h'" and "prefix h h'"
    using prefix_length_le [OF pre] by (auto dest: append_prefixD)
  then show "prefix h (h'[length h := Put k y'])" by (simp add: prefix_update)
  from len show "load k (h'[length h := Put k y']) (length h) = Some y'"
    by (simp add: load_def cell_kind.get_put [OF k])
  from heap_view.fresh_update [OF w f] len
  show "\<exists>F. w (h'[length h := Put k y']) y' = Some (u, F) \<and> insert (length h) F \<subseteq> {length h..<length h'}"
    by (fastforce simp: fresh_copy_def)
qed

lemma copier_new:
  assumes k: "cell_kind k" and c: "deep_copier v into"
  shows "deep_copier (view_ref k v) (copy_new k into)"
proof (rule deep_copierI)
  show "heap_view (view_ref k v)" by (rule view_ref_local [OF copier_view [OF c]])
next
  fix h p u F
  assume view: "view_ref k v h p = Some (u, F)"
  show "prefix h (snd (copy_new k into p h)) \<and>
    fresh_copy (view_ref k v) u (length h) (copy_new k into p h)"
  proof (cases p)
    case None
    with view show ?thesis by (auto simp: view_ref_def copy_new_def fresh_copy_def)
  next
    case (Some a)
    with view obtain x t G where x: "load k h a = Some x" and t: "v h x = Some (t, G)" and u: "u = Ptr t"
      by (auto simp: view_ref_def split: Option.bind_splits)
    obtain y h' where into: "into x (h @ [Put k x]) = (y, h')" by fastforce
    have "copy_new k into p h = (Some (length h), h'[length h := Put k y])"
      using Some x into by (simp add: copy_new_def new_eq)
    moreover note copy_to_cell [OF copier_view [OF c] k _ t, of "Put k x" h' y]
    moreover have "prefix (h @ [Put k x]) h' \<and> fresh_copy v t (Suc (length h)) (y, h')"
      if "v (h @ [Put k x]) x = Some (t, G)"
      using deep_copierD [OF c that] into by simp
    ultimately show ?thesis
      by (auto simp: fresh_copy_def view_ref_def u)
  qed
qed

lemma copier_each:
  assumes c: "deep_copier v c"
  shows "deep_copier (view_all v) (copy_each c)"
proof (rule deep_copierI)
  show "heap_view (view_all v)" by (rule view_all_local [OF copier_view [OF c]])
next
  fix h xs us F
  assume "view_all v h xs = Some (us, F)"
  then show "prefix h (snd (copy_each c xs h)) \<and> fresh_copy (view_all v) us (length h) (copy_each c xs h)"
  proof (induction xs arbitrary: h us F)
    case Nil
    then show ?case by (simp add: fresh_copy_def)
  next
    case (Cons x xs)
    then obtain u G us' H where x: "v h x = Some (u, G)" and xs: "view_all v h xs = Some (us', H)"
      and us: "us = u # us'"
      by (auto split: Option.bind_splits)
    obtain y h' where y: "c x h = (y, h')" by fastforce
    with deep_copierD [OF c x] have pre: "prefix h h'" and fy: "fresh_copy v u (length h) (y, h')" by auto
    obtain ys h'' where ys: "copy_each c xs h' = (ys, h'')" by fastforce
    from heap_view.view_prefix [OF view_all_local [OF copier_view [OF c]] xs pre]
    have pre': "prefix h' h''" and fys: "fresh_copy (view_all v) us' (length h') (ys, h'')"
      using Cons.IH ys by fastforce+
    from heap_view.fresh_prefix [OF copier_view [OF c] fy pre' order_refl]
    obtain Fy where Fy: "v h'' y = Some (u, Fy)" "Fy \<subseteq> {length h..<length h''}"
      by (auto simp: fresh_copy_def)
    from fys obtain Fs where Fs: "view_all v h'' ys = Some (us', Fs)" "Fs \<subseteq> {length h'..<length h''}"
      by (auto simp: fresh_copy_def)
    have "Fs \<subseteq> {length h..<length h''}"
      using Fs(2) prefix_length_le [OF pre] by fastforce
    with Fy Fs pre pre' show ?case
      by (auto simp: y ys us fresh_copy_def intro: prefix_order.trans)
  qed
qed


lemma copy_each_length: "length (fst (copy_each c xs h)) = length xs"
  by (induction xs arbitrary: h) (simp_all add: split_beta Let_def)

lemma copier_slice:
  assumes k: "cell_kind k" and c: "deep_copier v c"
  shows "deep_copier (view_slice k v) (copy_slice k c)"
proof (rule deep_copierI)
  show "heap_view (view_slice k v)" by (rule view_slice_local [OF copier_view [OF c]])
next
  fix h s u F
  assume view: "view_slice k v h s = Some (u, F)"
  show "prefix h (snd (copy_slice k c s h)) \<and>
    fresh_copy (view_slice k v) u (length h) (copy_slice k c s h)"
  proof (cases s)
    case None
    with view show ?thesis by (auto simp: view_slice_def copy_slice_def fresh_copy_def)
  next
    case (Some s')
    obtain a i n where s': "s' = (a, i, n)" by (cases s')
    with view Some obtain xs us G where xs: "load k h a = Some xs" "i + n \<le> length xs"
      and us: "view_all v h (take n (drop i xs)) = Some (us, G)" and u: "u = Seq us"
      by (auto simp: view_slice_def split: Option.bind_splits if_splits)
    obtain ys h' where ys: "copy_each c (take n (drop i xs)) (h @ [Put k []]) = (ys, h')" by fastforce
    have "copy_slice k c s h = (Some (length h, 0, n), h'[length h := Put k ys])"
      using Some s' xs ys by (simp add: copy_slice_def new_eq)
    moreover note copy_to_cell [OF copier_view [OF copier_each [OF c]] k _ us, of "Put k []" h' ys]
    moreover have "prefix (h @ [Put k []]) h' \<and> fresh_copy (view_all v) us (Suc (length h)) (ys, h')"
      if "view_all v (h @ [Put k []]) (take n (drop i xs)) = Some (us, G)"
      using deep_copierD [OF copier_each [OF c] that] ys by simp
    moreover have "length ys = n"
      using copy_each_length [of c "take n (drop i xs)" "h @ [Put k []]"] xs ys by simp
    ultimately show ?thesis
      by (auto simp: fresh_copy_def view_slice_def u)
  qed
qed

lemma copier_entry:
  assumes c: "deep_copier v c"
  shows "deep_copier (view_entry v) (copy_entry c)"
proof (rule deep_copierI)
  show "heap_view (view_entry v)" by (rule view_entry_local [OF copier_view [OF c]])
next
  fix h x r F
  assume "view_entry v h x = Some (r, F)"
  then obtain u where x: "v h (snd x) = Some (u, F)" and r: "r = (fst x, u)"
    by (auto simp: view_entry_def split: Option.bind_splits)
  obtain y h' where "c (snd x) h = (y, h')" by fastforce
  with deep_copierD [OF c x]
  show "prefix h (snd (copy_entry c x h)) \<and> fresh_copy (view_entry v) r (length h) (copy_entry c x h)"
    by (auto simp: copy_entry_def fresh_copy_def view_entry_def r)
qed

lemma view_all_map:
  "view_all v h xs = Some (us, F) \<longleftrightarrow>
    (\<forall>x\<in>set xs. v h x \<noteq> None) \<and> us = map (\<lambda>x. fst (the (v h x))) xs \<and> F = (\<Union>x\<in>set xs. snd (the (v h x)))"
proof (induction xs arbitrary: us F)
  case (Cons x xs)
  show ?case
  proof (cases "view_all v h xs")
    case None
    with Cons.IH show ?thesis by (cases "v h x") auto
  next
    case (Some r)
    with Cons.IH [of "fst r" "snd r"] show ?thesis by (cases "v h x"; cases r) auto
  qed
qed auto

text \<open>The order of the keys changes neither the map a dictionary is nor the cells it reads.\<close>

lemma view_entries_order:
  assumes ord: "valid_order ord" and m: "wf_map m" and us: "view_all (view_entry v) h m = Some (us, F)"
  obtains us' where "view_all (view_entry v) h (range_pairs ord m) = Some (us', F)"
    and "map_of us' = map_of us"
proof -
  define g where "g = (\<lambda>x. fst (the (view_entry v h x)))"
  have set_eq: "set (range_pairs ord m) = set m" using ord m by (rule set_range_pairs)
  have us_eq: "us = map g m" and some: "\<forall>x\<in>set m. view_entry v h x \<noteq> None"
    using us by (simp_all add: view_all_map g_def)
  have key: "fst (g x) = fst x" if "x \<in> set m" for x
    using some that by (auto simp: g_def view_entry_def split: Option.bind_splits)
  have keys: "keys (map g es) = keys es" if "set es = set m" for es
    unfolding map_map by (rule map_cong) (use that key in simp_all)
  have "wf_map (map g m)" "wf_map (map g (range_pairs ord m))"
    using ord m by (simp_all only: keys [OF refl] keys [OF set_eq] wf_map_range)
  then have "map_of (map g (range_pairs ord m)) = map_of us"
    by (intro map_of_inject_set [THEN iffD2]) (simp_all only: us_eq set_map set_eq)
  moreover have "view_all (view_entry v) h (range_pairs ord m) = Some (map g (range_pairs ord m), F)"
    using us by (simp add: view_all_map g_def set_eq)
  ultimately show thesis using that by blast
qed

lemma keys_copy_entries: "keys (fst (copy_each (copy_entry c) m h)) = keys m"
  by (induction m arbitrary: h) (simp_all add: copy_entry_def split_beta Let_def)

lemma copier_dict:
  assumes ord: "valid_order ord" and k: "cell_kind k" and c: "deep_copier v c"
  shows "deep_copier (view_dict k v) (copy_dict ord k c)"
proof (rule deep_copierI)
  show "heap_view (view_dict k v)" by (rule view_dict_local [OF copier_view [OF c]])
next
  fix h d u F
  assume view: "view_dict k v h d = Some (u, F)"
  note entries = copier_each [OF copier_entry [OF c]]
  show "prefix h (snd (copy_dict ord k c d h)) \<and>
    fresh_copy (view_dict k v) u (length h) (copy_dict ord k c d h)"
  proof (cases d)
    case None
    with view show ?thesis by (auto simp: view_dict_def copy_dict_def fresh_copy_def)
  next
    case (Some a)
    with view obtain m us G where m: "load k h a = Some m" "wf_map m"
      and us: "view_all (view_entry v) h m = Some (us, G)" and u: "u = Dict (map_of us)"
      by (auto simp: view_dict_def split: Option.bind_splits if_splits)
    obtain us' where us': "view_all (view_entry v) h (range_pairs ord m) = Some (us', G)"
      and map_eq: "map_of us' = map_of us"
      using view_entries_order [OF ord m(2) us] by blast
    obtain m' h' where m': "copy_each (copy_entry c) (range_pairs ord m) (h @ [Put k []]) = (m', h')"
      by fastforce
    have "copy_dict ord k c d h = (Some (length h), h'[length h := Put k m'])"
      using Some m m' by (simp add: copy_dict_def new_eq)
    moreover note copy_to_cell [OF copier_view [OF entries] k _ us', of "Put k []" h' m']
    moreover have "prefix (h @ [Put k []]) h' \<and> fresh_copy (view_all (view_entry v)) us' (Suc (length h)) (m', h')"
      if "view_all (view_entry v) (h @ [Put k []]) (range_pairs ord m) = Some (us', G)"
      using deep_copierD [OF entries that] m' by simp
    moreover have "wf_map m'"
      using keys_copy_entries [of c "range_pairs ord m" "h @ [Put k []]"] ord m m' by simp
    ultimately show ?thesis
      by (auto simp: fresh_copy_def view_dict_def u map_eq)
  qed
qed

subsection \<open>Structs\<close>

text \<open>
  A struct is copied deeply when there is one statement per field, and no statement writes a field
  that another one copies.
\<close>

definition copies_field :: "('s \<Rightarrow> 's \<times> 'c heap \<Rightarrow> 's \<times> 'c heap) \<Rightarrow> ('c, 's, val) view \<Rightarrow> bool" where
  "copies_field step f \<longleftrightarrow> heap_view f \<and> (\<forall>x h0 u F y h. f h0 x = Some (u, F) \<longrightarrow> prefix h0 h \<longrightarrow>
     prefix h (snd (step x (y, h))) \<and> fresh_copy f u (length h) (step x (y, h)))"

definition keeps :: "('s \<Rightarrow> 's \<times> 'c heap \<Rightarrow> 's \<times> 'c heap) list \<Rightarrow> ('c, 's, val) view \<Rightarrow> bool" where
  "keeps steps f \<longleftrightarrow> (\<forall>step\<in>set steps. \<forall>x s h. f h (fst (step x s)) = f h (fst s))"

inductive struct_copier ::
  "('s \<Rightarrow> 's \<times> 'c heap \<Rightarrow> 's \<times> 'c heap) list \<Rightarrow> ('c, 's, val) view list \<Rightarrow> bool" where
  no_field: "struct_copier [] []"
| next_field: "copies_field step f \<Longrightarrow> keeps steps f \<Longrightarrow> struct_copier steps fs \<Longrightarrow>
    struct_copier (step # steps) (f # fs)"

lemma copies_fieldI:
  assumes c: "deep_copier v c" and field: "\<And>x z. get (upd (\<lambda>_. z) x) = z"
  shows "copies_field (copy_field get upd c) (view_field get v)"
proof -
  note view = copier_view [OF c]
  have "heap_view (view_field get v)"
    by unfold_locales (auto simp: view_field_def dest: heap_view.footprint [OF view, THEN subsetD]
      intro: heap_view.local_view [OF view])
  moreover have "prefix h (snd (copy_field get upd c x (y, h))) \<and>
      fresh_copy (view_field get v) u (length h) (copy_field get upd c x (y, h))"
    if u: "view_field get v h0 x = Some (u, F)" and pre: "prefix h0 h" for x h0 u F y h
  proof -
    obtain z h' where "c (get x) h = (z, h')" by fastforce
    with deep_copierD [OF c heap_view.view_prefix [OF view u [unfolded view_field_def] pre]]
    have "prefix h h'" and "fresh_copy v u (length h) (z, h')" by simp_all
    moreover have "copy_field get upd c x (y, h) = (upd (\<lambda>_. z) y, h')"
      using \<open>c (get x) h = (z, h')\<close> by (simp add: copy_field_def)
    ultimately show ?thesis by (simp add: fresh_copy_def view_field_def field)
  qed
  ultimately show ?thesis by (auto simp: copies_field_def)
qed

lemma keeps_none: "keeps [] f"
  by (simp add: keeps_def)

lemma keeps_next:
  assumes "\<And>z s. get (upd (\<lambda>_. z) s) = get s" and "keeps steps (view_field get v)"
  shows "keeps (copy_field g upd c # steps) (view_field get v)"
  using assms by (auto simp: keeps_def copy_field_def view_field_def split_beta)

lemma keeps_fold: "keeps steps f \<Longrightarrow> f h (fst (fold (\<lambda>step. step x) steps s)) = f h (fst s)"
  by (induction steps arbitrary: s) (auto simp: keeps_def)

lemma struct_copier_views: "struct_copier steps fs \<Longrightarrow> f \<in> set fs \<Longrightarrow> heap_view f"
  by (induction rule: struct_copier.induct) (auto simp: copies_field_def)

lemma struct_steps:
  assumes "struct_copier steps fs" and "view_all (\<lambda>h f. f h x) h0 fs = Some (us, F)"
    and "prefix h0 h" and "fold (\<lambda>step. step x) steps (y, h) = (y', h')"
  shows "prefix h h' \<and> (\<exists>F'. view_all (\<lambda>h f. f h y') h' fs = Some (us, F') \<and> F' \<subseteq> {length h..<length h'})"
  using assms
proof (induction arbitrary: us F y h rule: struct_copier.induct)
  case no_field
  then show ?case by simp
next
  case (next_field step f steps fs)
  from next_field.prems(1) obtain u G us' H where u: "f h0 x = Some (u, G)"
    and rest: "view_all (\<lambda>h f. f h x) h0 fs = Some (us', H)" and us: "us = u # us'"
    by (auto split: Option.bind_splits)
  from next_field.hyps(1) have view: "heap_view f" by (simp add: copies_field_def)
  obtain y1 h1 where step: "step x (y, h) = (y1, h1)" by fastforce
  have "prefix h (snd (step x (y, h))) \<and> fresh_copy f u (length h) (step x (y, h))"
    using next_field.hyps(1) u next_field.prems(2) unfolding copies_field_def by blast
  then have pre1: "prefix h h1" and fresh: "fresh_copy f u (length h) (y1, h1)"
    using step by simp_all
  have steps: "fold (\<lambda>step. step x) steps (y1, h1) = (y', h')"
    using next_field.prems(3) step by simp
  from next_field.IH [OF rest prefix_order.trans [OF next_field.prems(2) pre1] steps]
  obtain Fs where pre2: "prefix h1 h'" and Fs: "view_all (\<lambda>h f. f h y') h' fs = Some (us', Fs)"
    "Fs \<subseteq> {length h1..<length h'}"
    by auto
  from heap_view.fresh_prefix [OF view fresh pre2 order_refl]
  obtain Ff where Ff: "f h' y1 = Some (u, Ff)" "Ff \<subseteq> {length h..<length h'}"
    by (auto simp: fresh_copy_def)
  have "f h' y' = f h' y1"
    using keeps_fold [OF next_field.hyps(2), of h' x "(y1, h1)"] steps by simp
  moreover have "Fs \<subseteq> {length h..<length h'}"
    using Fs(2) prefix_length_le [OF pre1] by fastforce
  ultimately show ?case
    using Ff Fs(1) pre1 pre2 by (auto simp: us intro: prefix_order.trans)
qed

lemma copier_struct:
  assumes "struct_copier steps fs"
  shows "deep_copier (view_struct fs) (copy_struct steps)"
proof (rule deep_copierI)
  show "heap_view (view_struct fs)"
    by (rule view_struct_local) (rule struct_copier_views [OF assms])
next
  fix h x r F
  assume "view_struct fs h x = Some (r, F)"
  then obtain us where us: "view_all (\<lambda>h f. f h x) h fs = Some (us, F)" and r: "r = Struct us"
    by (auto simp: view_struct_def split: Option.bind_splits)
  obtain y h' where steps: "fold (\<lambda>step. step x) steps (x, h) = (y, h')" by fastforce
  from struct_steps [OF assms us prefix_order.refl steps] steps
  show "prefix h (snd (copy_struct steps x h)) \<and>
    fresh_copy (view_struct fs) r (length h) (copy_struct steps x h)"
    by (auto simp: copy_struct_def fresh_copy_def view_struct_def r)
qed

end
