(* ===== verification/ApiTypes.thy ===== *)
theory ApiTypes
  imports GoHeap
begin

text \<open>
  The structs of \<open>apis/v1alpha1\<close> as Go lays them out: one record per struct, with the source's
  fields in the source's order (the field \<open>F\<close> of the struct \<open>S\<close> is \<open>S_F\<close>), a pointer being an
  address. The structs of the libraries are not opened: \<open>metav1.TypeMeta\<close>, \<open>ObjectMeta\<close> and
  \<open>ListMeta\<close>, held by value, have the type \<open>'l\<close>, and the others are only pointed to.
\<close>

type_synonym Time_ref = "addr option" \<comment> \<open>\<open>*metav1.Time\<close>\<close>
type_synonym ResourceMetadata_ref = "addr option" \<comment> \<open>\<open>*ackv1alpha1.ResourceMetadata\<close>\<close>
type_synonym AWSResourceReferenceWrapper_ref = "addr option"
type_synonym Condition_vec = "addr option vec" \<comment> \<open>\<open>[]*ackv1alpha1.Condition\<close>\<close>
type_synonym AWSResourceReferenceWrapper_vec = "addr option vec"

subsection \<open>The data types (\<open>types.go\<close>)\<close>

record AccessDetail =
  AccessDetail_LastAuthenticatedTime :: "Time_ref"
  AccessDetail_Region :: "string ref"

record AccessKey =
  AccessKey_CreateDate :: "Time_ref"
  AccessKey_UserName :: "string ref"

record AccessKeyLastUsed =
  AccessKeyLastUsed_LastUsedDate :: "Time_ref"
  AccessKeyLastUsed_Region :: "string ref"
  AccessKeyLastUsed_ServiceName :: "string ref"

record AccessKeyMetadata =
  AccessKeyMetadata_CreateDate :: "Time_ref"
  AccessKeyMetadata_UserName :: "string ref"

record AttachedPermissionsBoundary =
  AttachedPermissionsBoundary_PermissionsBoundaryARN :: "string ref"
  AttachedPermissionsBoundary_PermissionsBoundaryType :: "string ref"

record AttachedPolicy =
  AttachedPolicy_PolicyARN :: "string ref"
  AttachedPolicy_PolicyName :: "string ref"

record EntityDetails =
  EntityDetails_LastAuthenticated :: "Time_ref"

record EntityInfo =
  EntityInfo_ARN :: "string ref"
  EntityInfo_ID :: "string ref"
  EntityInfo_Name :: "string ref"
  EntityInfo_Path :: "string ref"

record ErrorDetails =
  ErrorDetails_Code :: "string ref"
  ErrorDetails_Message :: "string ref"

record GroupDetail =
  GroupDetail_ARN :: "string ref"
  GroupDetail_CreateDate :: "Time_ref"
  GroupDetail_GroupID :: "string ref"
  GroupDetail_GroupName :: "string ref"
  GroupDetail_Path :: "string ref"

record Group_SDK =
  Group_SDK_ARN :: "string ref"
  Group_SDK_CreateDate :: "Time_ref"
  Group_SDK_GroupID :: "string ref"
  Group_SDK_GroupName :: "string ref"
  Group_SDK_Path :: "string ref"

record Tag =
  Tag_Key :: "string ref"
  Tag_Value :: "string ref"

record InstanceProfile_SDK =
  InstanceProfile_SDK_ARN :: "string ref"
  InstanceProfile_SDK_CreateDate :: "Time_ref"
  InstanceProfile_SDK_InstanceProfileID :: "string ref"
  InstanceProfile_SDK_InstanceProfileName :: "string ref"
  InstanceProfile_SDK_Path :: "string ref"
  InstanceProfile_SDK_Tags :: "Tag ref vec"

record LoginProfile =
  LoginProfile_CreateDate :: "Time_ref"
  LoginProfile_PasswordResetRequired :: "bool ref"
  LoginProfile_UserName :: "string ref"

record MFADevice =
  MFADevice_EnableDate :: "Time_ref"
  MFADevice_UserName :: "string ref"

record ManagedPolicyDetail =
  ManagedPolicyDetail_ARN :: "string ref"
  ManagedPolicyDetail_AttachmentCount :: "int64 ref"
  ManagedPolicyDetail_CreateDate :: "Time_ref"
  ManagedPolicyDetail_DefaultVersionID :: "string ref"
  ManagedPolicyDetail_Description :: "string ref"
  ManagedPolicyDetail_IsAttachable :: "bool ref"
  ManagedPolicyDetail_Path :: "string ref"
  ManagedPolicyDetail_PermissionsBoundaryUsageCount :: "int64 ref"
  ManagedPolicyDetail_PolicyID :: "string ref"
  ManagedPolicyDetail_PolicyName :: "string ref"
  ManagedPolicyDetail_UpdateDate :: "Time_ref"

record OpenIDConnectProviderListEntry =
  OpenIDConnectProviderListEntry_ARN :: "string ref"

record OrganizationsDecisionDetail =
  OrganizationsDecisionDetail_AllowedByOrganizations :: "bool ref"

record PasswordPolicy =
  PasswordPolicy_AllowUsersToChangePassword :: "bool ref"
  PasswordPolicy_ExpirePasswords :: "bool ref"
  PasswordPolicy_RequireLowercaseCharacters :: "bool ref"
  PasswordPolicy_RequireNumbers :: "bool ref"
  PasswordPolicy_RequireSymbols :: "bool ref"
  PasswordPolicy_RequireUppercaseCharacters :: "bool ref"

record PermissionsBoundaryDecisionDetail =
  PermissionsBoundaryDecisionDetail_AllowedByPermissionsBoundary :: "bool ref"

record PolicyDetail =
  PolicyDetail_PolicyDocument :: "string ref"
  PolicyDetail_PolicyName :: "string ref"

record PolicyGrantingServiceAccess =
  PolicyGrantingServiceAccess_PolicyARN :: "string ref"
  PolicyGrantingServiceAccess_PolicyName :: "string ref"

record PolicyGroup =
  PolicyGroup_GroupID :: "string ref"
  PolicyGroup_GroupName :: "string ref"

record PolicyRole =
  PolicyRole_RoleID :: "string ref"
  PolicyRole_RoleName :: "string ref"

record PolicyUser =
  PolicyUser_UserID :: "string ref"
  PolicyUser_UserName :: "string ref"

record PolicyVersion =
  PolicyVersion_CreateDate :: "Time_ref"
  PolicyVersion_Document :: "string ref"
  PolicyVersion_IsDefaultVersion :: "bool ref"
  PolicyVersion_VersionID :: "string ref"

record Policy_SDK =
  Policy_SDK_ARN :: "string ref"
  Policy_SDK_AttachmentCount :: "int64 ref"
  Policy_SDK_CreateDate :: "Time_ref"
  Policy_SDK_DefaultVersionID :: "string ref"
  Policy_SDK_Description :: "string ref"
  Policy_SDK_IsAttachable :: "bool ref"
  Policy_SDK_Path :: "string ref"
  Policy_SDK_PermissionsBoundaryUsageCount :: "int64 ref"
  Policy_SDK_PolicyID :: "string ref"
  Policy_SDK_PolicyName :: "string ref"
  Policy_SDK_Tags :: "Tag ref vec"
  Policy_SDK_UpdateDate :: "Time_ref"

record RoleLastUsed =
  RoleLastUsed_LastUsedDate :: "Time_ref"
  RoleLastUsed_Region :: "string ref"

record RoleDetail =
  RoleDetail_ARN :: "string ref"
  RoleDetail_AssumeRolePolicyDocument :: "string ref"
  RoleDetail_CreateDate :: "Time_ref"
  RoleDetail_InstanceProfileList :: "InstanceProfile_SDK ref vec"
  RoleDetail_Path :: "string ref"
  RoleDetail_PermissionsBoundary :: "AttachedPermissionsBoundary ref"
  RoleDetail_RoleID :: "string ref"
  RoleDetail_RoleLastUsed :: "RoleLastUsed ref"
  RoleDetail_RoleName :: "string ref"
  RoleDetail_Tags :: "Tag ref vec"

record Role_SDK =
  Role_SDK_ARN :: "string ref"
  Role_SDK_AssumeRolePolicyDocument :: "string ref"
  Role_SDK_CreateDate :: "Time_ref"
  Role_SDK_Description :: "string ref"
  Role_SDK_MaxSessionDuration :: "int64 ref"
  Role_SDK_Path :: "string ref"
  Role_SDK_PermissionsBoundary :: "AttachedPermissionsBoundary ref"
  Role_SDK_RoleID :: "string ref"
  Role_SDK_RoleLastUsed :: "RoleLastUsed ref"
  Role_SDK_RoleName :: "string ref"
  Role_SDK_Tags :: "Tag ref vec"

record SAMLProviderListEntry =
  SAMLProviderListEntry_ARN :: "string ref"
  SAMLProviderListEntry_CreateDate :: "Time_ref"
  SAMLProviderListEntry_ValidUntil :: "Time_ref"

record SSHPublicKey =
  SSHPublicKey_UploadDate :: "Time_ref"
  SSHPublicKey_UserName :: "string ref"

record SSHPublicKeyMetadata =
  SSHPublicKeyMetadata_UploadDate :: "Time_ref"
  SSHPublicKeyMetadata_UserName :: "string ref"

record ServerCertificate =
  ServerCertificate_Tags :: "Tag ref vec"

record ServerCertificateMetadata =
  ServerCertificateMetadata_ARN :: "string ref"
  ServerCertificateMetadata_Expiration :: "Time_ref"
  ServerCertificateMetadata_Path :: "string ref"
  ServerCertificateMetadata_ServerCertificateID :: "string ref"
  ServerCertificateMetadata_UploadDate :: "Time_ref"

record ServiceLastAccessed =
  ServiceLastAccessed_LastAuthenticated :: "Time_ref"
  ServiceLastAccessed_LastAuthenticatedEntity :: "string ref"
  ServiceLastAccessed_LastAuthenticatedRegion :: "string ref"

record ServiceSpecificCredential =
  ServiceSpecificCredential_CreateDate :: "Time_ref"
  ServiceSpecificCredential_UserName :: "string ref"

record ServiceSpecificCredentialMetadata =
  ServiceSpecificCredentialMetadata_CreateDate :: "Time_ref"
  ServiceSpecificCredentialMetadata_UserName :: "string ref"

record SigningCertificate =
  SigningCertificate_UploadDate :: "Time_ref"
  SigningCertificate_UserName :: "string ref"

record TrackedActionLastAccessed =
  TrackedActionLastAccessed_ActionName :: "string ref"
  TrackedActionLastAccessed_LastAccessedEntity :: "string ref"
  TrackedActionLastAccessed_LastAccessedRegion :: "string ref"
  TrackedActionLastAccessed_LastAccessedTime :: "Time_ref"

record UserDetail =
  UserDetail_ARN :: "string ref"
  UserDetail_CreateDate :: "Time_ref"
  UserDetail_Path :: "string ref"
  UserDetail_PermissionsBoundary :: "AttachedPermissionsBoundary ref"
  UserDetail_Tags :: "Tag ref vec"
  UserDetail_UserID :: "string ref"
  UserDetail_UserName :: "string ref"

record User_SDK =
  User_SDK_ARN :: "string ref"
  User_SDK_CreateDate :: "Time_ref"
  User_SDK_PasswordLastUsed :: "Time_ref"
  User_SDK_Path :: "string ref"
  User_SDK_PermissionsBoundary :: "AttachedPermissionsBoundary ref"
  User_SDK_Tags :: "Tag ref vec"
  User_SDK_UserID :: "string ref"
  User_SDK_UserName :: "string ref"

record VirtualMFADevice =
  VirtualMFADevice_EnableDate :: "Time_ref"
  VirtualMFADevice_Tags :: "Tag ref vec"
  VirtualMFADevice_User :: "User_SDK ref"

subsection \<open>The custom resource \<open>Group\<close>\<close>

record GroupSpec =
  GroupSpec_InlinePolicies :: "string ref dict"
  GroupSpec_Name :: "string ref"
  GroupSpec_Path :: "string ref"
  GroupSpec_Policies :: "string ref vec"
  GroupSpec_PolicyRefs :: "AWSResourceReferenceWrapper_vec"

record GroupStatus =
  GroupStatus_ACKResourceMetadata :: "ResourceMetadata_ref"
  GroupStatus_Conditions :: "Condition_vec"
  GroupStatus_CreateDate :: "Time_ref"
  GroupStatus_GroupID :: "string ref"

record 'l Group =
  Group_TypeMeta :: "'l"
  Group_ObjectMeta :: "'l"
  Group_Spec :: "GroupSpec"
  Group_Status :: "GroupStatus"

record 'l GroupList =
  GroupList_TypeMeta :: "'l"
  GroupList_ListMeta :: "'l"
  GroupList_Items :: "'l Group vec"

subsection \<open>The custom resource \<open>InstanceProfile\<close>\<close>

record InstanceProfileSpec =
  InstanceProfileSpec_Name :: "string ref"
  InstanceProfileSpec_Path :: "string ref"
  InstanceProfileSpec_Role :: "string ref"
  InstanceProfileSpec_RoleRef :: "AWSResourceReferenceWrapper_ref"
  InstanceProfileSpec_Tags :: "Tag ref vec"

record InstanceProfileStatus =
  InstanceProfileStatus_ACKResourceMetadata :: "ResourceMetadata_ref"
  InstanceProfileStatus_Conditions :: "Condition_vec"
  InstanceProfileStatus_CreateDate :: "Time_ref"
  InstanceProfileStatus_InstanceProfileID :: "string ref"

record 'l InstanceProfile =
  InstanceProfile_TypeMeta :: "'l"
  InstanceProfile_ObjectMeta :: "'l"
  InstanceProfile_Spec :: "InstanceProfileSpec"
  InstanceProfile_Status :: "InstanceProfileStatus"

record 'l InstanceProfileList =
  InstanceProfileList_TypeMeta :: "'l"
  InstanceProfileList_ListMeta :: "'l"
  InstanceProfileList_Items :: "'l InstanceProfile vec"

subsection \<open>The custom resource \<open>OpenIDConnectProvider\<close>\<close>

record OpenIDConnectProviderSpec =
  OpenIDConnectProviderSpec_ClientIDs :: "string ref vec"
  OpenIDConnectProviderSpec_Tags :: "Tag ref vec"
  OpenIDConnectProviderSpec_Thumbprints :: "string ref vec"
  OpenIDConnectProviderSpec_URL :: "string ref"

record OpenIDConnectProviderStatus =
  OpenIDConnectProviderStatus_ACKResourceMetadata :: "ResourceMetadata_ref"
  OpenIDConnectProviderStatus_Conditions :: "Condition_vec"

record 'l OpenIDConnectProvider =
  OpenIDConnectProvider_TypeMeta :: "'l"
  OpenIDConnectProvider_ObjectMeta :: "'l"
  OpenIDConnectProvider_Spec :: "OpenIDConnectProviderSpec"
  OpenIDConnectProvider_Status :: "OpenIDConnectProviderStatus"

record 'l OpenIDConnectProviderList =
  OpenIDConnectProviderList_TypeMeta :: "'l"
  OpenIDConnectProviderList_ListMeta :: "'l"
  OpenIDConnectProviderList_Items :: "'l OpenIDConnectProvider vec"

subsection \<open>The custom resource \<open>Policy\<close>\<close>

record PolicySpec =
  PolicySpec_Description :: "string ref"
  PolicySpec_Name :: "string ref"
  PolicySpec_Path :: "string ref"
  PolicySpec_PolicyDocument :: "string ref"
  PolicySpec_Tags :: "Tag ref vec"

record PolicyStatus =
  PolicyStatus_ACKResourceMetadata :: "ResourceMetadata_ref"
  PolicyStatus_Conditions :: "Condition_vec"
  PolicyStatus_AttachmentCount :: "int64 ref"
  PolicyStatus_CreateDate :: "Time_ref"
  PolicyStatus_DefaultVersionID :: "string ref"
  PolicyStatus_IsAttachable :: "bool ref"
  PolicyStatus_PermissionsBoundaryUsageCount :: "int64 ref"
  PolicyStatus_PolicyID :: "string ref"
  PolicyStatus_UpdateDate :: "Time_ref"

record 'l Policy =
  Policy_TypeMeta :: "'l"
  Policy_ObjectMeta :: "'l"
  Policy_Spec :: "PolicySpec"
  Policy_Status :: "PolicyStatus"

record 'l PolicyList =
  PolicyList_TypeMeta :: "'l"
  PolicyList_ListMeta :: "'l"
  PolicyList_Items :: "'l Policy vec"

subsection \<open>The custom resource \<open>Role\<close>\<close>

record RoleSpec =
  RoleSpec_AssumeRolePolicyDocument :: "string ref"
  RoleSpec_Description :: "string ref"
  RoleSpec_InlinePolicies :: "string ref dict"
  RoleSpec_MaxSessionDuration :: "int64 ref"
  RoleSpec_Name :: "string ref"
  RoleSpec_Path :: "string ref"
  RoleSpec_PermissionsBoundary :: "string ref"
  RoleSpec_PermissionsBoundaryRef :: "AWSResourceReferenceWrapper_ref"
  RoleSpec_Policies :: "string ref vec"
  RoleSpec_PolicyRefs :: "AWSResourceReferenceWrapper_vec"
  RoleSpec_Tags :: "Tag ref vec"

record RoleStatus =
  RoleStatus_ACKResourceMetadata :: "ResourceMetadata_ref"
  RoleStatus_Conditions :: "Condition_vec"
  RoleStatus_CreateDate :: "Time_ref"
  RoleStatus_RoleID :: "string ref"
  RoleStatus_RoleLastUsed :: "RoleLastUsed ref"

record 'l Role =
  Role_TypeMeta :: "'l"
  Role_ObjectMeta :: "'l"
  Role_Spec :: "RoleSpec"
  Role_Status :: "RoleStatus"

record 'l RoleList =
  RoleList_TypeMeta :: "'l"
  RoleList_ListMeta :: "'l"
  RoleList_Items :: "'l Role vec"

subsection \<open>The custom resource \<open>ServiceLinkedRole\<close>\<close>

record ServiceLinkedRoleSpec =
  ServiceLinkedRoleSpec_AWSServiceName :: "string ref"
  ServiceLinkedRoleSpec_CustomSuffix :: "string ref"
  ServiceLinkedRoleSpec_Description :: "string ref"

record ServiceLinkedRoleStatus =
  ServiceLinkedRoleStatus_ACKResourceMetadata :: "ResourceMetadata_ref"
  ServiceLinkedRoleStatus_Conditions :: "Condition_vec"
  ServiceLinkedRoleStatus_AssumeRolePolicyDocument :: "string ref"
  ServiceLinkedRoleStatus_CreateDate :: "Time_ref"
  ServiceLinkedRoleStatus_MaxSessionDuration :: "int64 ref"
  ServiceLinkedRoleStatus_Path :: "string ref"
  ServiceLinkedRoleStatus_PermissionsBoundary :: "AttachedPermissionsBoundary ref"
  ServiceLinkedRoleStatus_RoleID :: "string ref"
  ServiceLinkedRoleStatus_RoleLastUsed :: "RoleLastUsed ref"
  ServiceLinkedRoleStatus_RoleName :: "string ref"
  ServiceLinkedRoleStatus_Tags :: "Tag ref vec"

record 'l ServiceLinkedRole =
  ServiceLinkedRole_TypeMeta :: "'l"
  ServiceLinkedRole_ObjectMeta :: "'l"
  ServiceLinkedRole_Spec :: "ServiceLinkedRoleSpec"
  ServiceLinkedRole_Status :: "ServiceLinkedRoleStatus"

record 'l ServiceLinkedRoleList =
  ServiceLinkedRoleList_TypeMeta :: "'l"
  ServiceLinkedRoleList_ListMeta :: "'l"
  ServiceLinkedRoleList_Items :: "'l ServiceLinkedRole vec"

subsection \<open>The custom resource \<open>User\<close>\<close>

record UserSpec =
  UserSpec_InlinePolicies :: "string ref dict"
  UserSpec_Name :: "string ref"
  UserSpec_Path :: "string ref"
  UserSpec_PermissionsBoundary :: "string ref"
  UserSpec_PermissionsBoundaryRef :: "AWSResourceReferenceWrapper_ref"
  UserSpec_Policies :: "string ref vec"
  UserSpec_PolicyRefs :: "AWSResourceReferenceWrapper_vec"
  UserSpec_Tags :: "Tag ref vec"

record UserStatus =
  UserStatus_ACKResourceMetadata :: "ResourceMetadata_ref"
  UserStatus_Conditions :: "Condition_vec"
  UserStatus_CreateDate :: "Time_ref"
  UserStatus_PasswordLastUsed :: "Time_ref"
  UserStatus_UserID :: "string ref"

record 'l User =
  User_TypeMeta :: "'l"
  User_ObjectMeta :: "'l"
  User_Spec :: "UserSpec"
  User_Status :: "UserStatus"

record 'l UserList =
  UserList_TypeMeta :: "'l"
  UserList_ListMeta :: "'l"
  UserList_Items :: "'l User vec"

end
