(* ===== verification/ApiCells.thy ===== *)
theory ApiCells
  imports ApiTypes
begin

text \<open>
  The cells of the heap: one constructor per type the generated code allocates, that is every
  struct, the strings, numbers and booleans pointers refer to, the arrays behind the slices and
  the entries behind the maps. \<open>Foreign\<close> holds a struct of a library. Every type has its \<open>kind\<close>.
\<close>

named_theorems kinds \<open>the kinds of the heap's cells\<close>

datatype basic_cell =
    String_cell string
  | Int64_cell int64
  | Bool_cell bool
  | Refs_cell "addr option list"
  | Entries_cell "(string \<times> addr option) list"

datatype data1_cell =
    AccessDetail_cell AccessDetail
  | AccessKey_cell AccessKey
  | AccessKeyLastUsed_cell AccessKeyLastUsed
  | AccessKeyMetadata_cell AccessKeyMetadata
  | AttachedPermissionsBoundary_cell AttachedPermissionsBoundary
  | AttachedPolicy_cell AttachedPolicy
  | EntityDetails_cell EntityDetails
  | EntityInfo_cell EntityInfo
  | ErrorDetails_cell ErrorDetails
  | GroupDetail_cell GroupDetail
  | Group_SDK_cell Group_SDK

datatype data2_cell =
    Tag_cell Tag
  | InstanceProfile_SDK_cell InstanceProfile_SDK
  | LoginProfile_cell LoginProfile
  | MFADevice_cell MFADevice
  | ManagedPolicyDetail_cell ManagedPolicyDetail
  | OpenIDConnectProviderListEntry_cell OpenIDConnectProviderListEntry
  | OrganizationsDecisionDetail_cell OrganizationsDecisionDetail
  | PasswordPolicy_cell PasswordPolicy
  | PermissionsBoundaryDecisionDetail_cell PermissionsBoundaryDecisionDetail
  | PolicyDetail_cell PolicyDetail
  | PolicyGrantingServiceAccess_cell PolicyGrantingServiceAccess

datatype data3_cell =
    PolicyGroup_cell PolicyGroup
  | PolicyRole_cell PolicyRole
  | PolicyUser_cell PolicyUser
  | PolicyVersion_cell PolicyVersion
  | Policy_SDK_cell Policy_SDK
  | RoleLastUsed_cell RoleLastUsed
  | RoleDetail_cell RoleDetail
  | Role_SDK_cell Role_SDK
  | SAMLProviderListEntry_cell SAMLProviderListEntry
  | SSHPublicKey_cell SSHPublicKey
  | SSHPublicKeyMetadata_cell SSHPublicKeyMetadata

datatype data4_cell =
    ServerCertificate_cell ServerCertificate
  | ServerCertificateMetadata_cell ServerCertificateMetadata
  | ServiceLastAccessed_cell ServiceLastAccessed
  | ServiceSpecificCredential_cell ServiceSpecificCredential
  | ServiceSpecificCredentialMetadata_cell ServiceSpecificCredentialMetadata
  | SigningCertificate_cell SigningCertificate
  | TrackedActionLastAccessed_cell TrackedActionLastAccessed
  | UserDetail_cell UserDetail
  | User_SDK_cell User_SDK
  | VirtualMFADevice_cell VirtualMFADevice

datatype 'l Group_cells =
    Group_cell "'l Group"
  | GroupList_cell "'l GroupList"
  | GroupSpec_cell GroupSpec
  | GroupStatus_cell GroupStatus
  | Group_array "'l Group list"

datatype 'l InstanceProfile_cells =
    InstanceProfile_cell "'l InstanceProfile"
  | InstanceProfileList_cell "'l InstanceProfileList"
  | InstanceProfileSpec_cell InstanceProfileSpec
  | InstanceProfileStatus_cell InstanceProfileStatus
  | InstanceProfile_array "'l InstanceProfile list"

datatype 'l OpenIDConnectProvider_cells =
    OpenIDConnectProvider_cell "'l OpenIDConnectProvider"
  | OpenIDConnectProviderList_cell "'l OpenIDConnectProviderList"
  | OpenIDConnectProviderSpec_cell OpenIDConnectProviderSpec
  | OpenIDConnectProviderStatus_cell OpenIDConnectProviderStatus
  | OpenIDConnectProvider_array "'l OpenIDConnectProvider list"

datatype 'l Policy_cells =
    Policy_cell "'l Policy"
  | PolicyList_cell "'l PolicyList"
  | PolicySpec_cell PolicySpec
  | PolicyStatus_cell PolicyStatus
  | Policy_array "'l Policy list"

datatype 'l Role_cells =
    Role_cell "'l Role"
  | RoleList_cell "'l RoleList"
  | RoleSpec_cell RoleSpec
  | RoleStatus_cell RoleStatus
  | Role_array "'l Role list"

datatype 'l ServiceLinkedRole_cells =
    ServiceLinkedRole_cell "'l ServiceLinkedRole"
  | ServiceLinkedRoleList_cell "'l ServiceLinkedRoleList"
  | ServiceLinkedRoleSpec_cell ServiceLinkedRoleSpec
  | ServiceLinkedRoleStatus_cell ServiceLinkedRoleStatus
  | ServiceLinkedRole_array "'l ServiceLinkedRole list"

datatype 'l User_cells =
    User_cell "'l User"
  | UserList_cell "'l UserList"
  | UserSpec_cell UserSpec
  | UserStatus_cell UserStatus
  | User_array "'l User list"

datatype 'l cell =
    Basic basic_cell
  | Foreign 'l
  | Data1 data1_cell
  | Data2 data2_cell
  | Data3 data3_cell
  | Data4 data4_cell
  | Group_family "'l Group_cells"
  | InstanceProfile_family "'l InstanceProfile_cells"
  | OpenIDConnectProvider_family "'l OpenIDConnectProvider_cells"
  | Policy_family "'l Policy_cells"
  | Role_family "'l Role_cells"
  | ServiceLinkedRole_family "'l ServiceLinkedRole_cells"
  | User_family "'l User_cells"

definition String_kind :: "('l cell, string) kind" where
  "String_kind = \<lparr>Put = \<lambda>x. Basic (String_cell x), Get = (\<lambda>c. case c of Basic (String_cell x) \<Rightarrow> Some x | _ \<Rightarrow> None)\<rparr>"

lemma String_kind_law [kinds]: "cell_kind String_kind"
  by unfold_locales (simp add: String_kind_def)

definition Int64_kind :: "('l cell, int64) kind" where
  "Int64_kind = \<lparr>Put = \<lambda>x. Basic (Int64_cell x), Get = (\<lambda>c. case c of Basic (Int64_cell x) \<Rightarrow> Some x | _ \<Rightarrow> None)\<rparr>"

lemma Int64_kind_law [kinds]: "cell_kind Int64_kind"
  by unfold_locales (simp add: Int64_kind_def)

definition Bool_kind :: "('l cell, bool) kind" where
  "Bool_kind = \<lparr>Put = \<lambda>x. Basic (Bool_cell x), Get = (\<lambda>c. case c of Basic (Bool_cell x) \<Rightarrow> Some x | _ \<Rightarrow> None)\<rparr>"

lemma Bool_kind_law [kinds]: "cell_kind Bool_kind"
  by unfold_locales (simp add: Bool_kind_def)

definition Refs_kind :: "('l cell, addr option list) kind" where
  "Refs_kind = \<lparr>Put = \<lambda>x. Basic (Refs_cell x), Get = (\<lambda>c. case c of Basic (Refs_cell x) \<Rightarrow> Some x | _ \<Rightarrow> None)\<rparr>"

lemma Refs_kind_law [kinds]: "cell_kind Refs_kind"
  by unfold_locales (simp add: Refs_kind_def)

definition Entries_kind :: "('l cell, (string \<times> addr option) list) kind" where
  "Entries_kind = \<lparr>Put = \<lambda>x. Basic (Entries_cell x), Get = (\<lambda>c. case c of Basic (Entries_cell x) \<Rightarrow> Some x | _ \<Rightarrow> None)\<rparr>"

lemma Entries_kind_law [kinds]: "cell_kind Entries_kind"
  by unfold_locales (simp add: Entries_kind_def)

definition Foreign_kind :: "('l cell, 'l) kind" where
  "Foreign_kind = \<lparr>Put = \<lambda>x. Foreign x, Get = (\<lambda>c. case c of Foreign x \<Rightarrow> Some x | _ \<Rightarrow> None)\<rparr>"

lemma Foreign_kind_law [kinds]: "cell_kind Foreign_kind"
  by unfold_locales (simp add: Foreign_kind_def)

definition AccessDetail_kind :: "('l cell, AccessDetail) kind" where
  "AccessDetail_kind = \<lparr>Put = \<lambda>x. Data1 (AccessDetail_cell x), Get = (\<lambda>c. case c of Data1 (AccessDetail_cell x) \<Rightarrow> Some x | _ \<Rightarrow> None)\<rparr>"

lemma AccessDetail_kind_law [kinds]: "cell_kind AccessDetail_kind"
  by unfold_locales (simp add: AccessDetail_kind_def)

definition AccessKey_kind :: "('l cell, AccessKey) kind" where
  "AccessKey_kind = \<lparr>Put = \<lambda>x. Data1 (AccessKey_cell x), Get = (\<lambda>c. case c of Data1 (AccessKey_cell x) \<Rightarrow> Some x | _ \<Rightarrow> None)\<rparr>"

lemma AccessKey_kind_law [kinds]: "cell_kind AccessKey_kind"
  by unfold_locales (simp add: AccessKey_kind_def)

definition AccessKeyLastUsed_kind :: "('l cell, AccessKeyLastUsed) kind" where
  "AccessKeyLastUsed_kind = \<lparr>Put = \<lambda>x. Data1 (AccessKeyLastUsed_cell x), Get = (\<lambda>c. case c of Data1 (AccessKeyLastUsed_cell x) \<Rightarrow> Some x | _ \<Rightarrow> None)\<rparr>"

lemma AccessKeyLastUsed_kind_law [kinds]: "cell_kind AccessKeyLastUsed_kind"
  by unfold_locales (simp add: AccessKeyLastUsed_kind_def)

definition AccessKeyMetadata_kind :: "('l cell, AccessKeyMetadata) kind" where
  "AccessKeyMetadata_kind = \<lparr>Put = \<lambda>x. Data1 (AccessKeyMetadata_cell x), Get = (\<lambda>c. case c of Data1 (AccessKeyMetadata_cell x) \<Rightarrow> Some x | _ \<Rightarrow> None)\<rparr>"

lemma AccessKeyMetadata_kind_law [kinds]: "cell_kind AccessKeyMetadata_kind"
  by unfold_locales (simp add: AccessKeyMetadata_kind_def)

definition AttachedPermissionsBoundary_kind :: "('l cell, AttachedPermissionsBoundary) kind" where
  "AttachedPermissionsBoundary_kind = \<lparr>Put = \<lambda>x. Data1 (AttachedPermissionsBoundary_cell x), Get = (\<lambda>c. case c of Data1 (AttachedPermissionsBoundary_cell x) \<Rightarrow> Some x | _ \<Rightarrow> None)\<rparr>"

lemma AttachedPermissionsBoundary_kind_law [kinds]: "cell_kind AttachedPermissionsBoundary_kind"
  by unfold_locales (simp add: AttachedPermissionsBoundary_kind_def)

definition AttachedPolicy_kind :: "('l cell, AttachedPolicy) kind" where
  "AttachedPolicy_kind = \<lparr>Put = \<lambda>x. Data1 (AttachedPolicy_cell x), Get = (\<lambda>c. case c of Data1 (AttachedPolicy_cell x) \<Rightarrow> Some x | _ \<Rightarrow> None)\<rparr>"

lemma AttachedPolicy_kind_law [kinds]: "cell_kind AttachedPolicy_kind"
  by unfold_locales (simp add: AttachedPolicy_kind_def)

definition EntityDetails_kind :: "('l cell, EntityDetails) kind" where
  "EntityDetails_kind = \<lparr>Put = \<lambda>x. Data1 (EntityDetails_cell x), Get = (\<lambda>c. case c of Data1 (EntityDetails_cell x) \<Rightarrow> Some x | _ \<Rightarrow> None)\<rparr>"

lemma EntityDetails_kind_law [kinds]: "cell_kind EntityDetails_kind"
  by unfold_locales (simp add: EntityDetails_kind_def)

definition EntityInfo_kind :: "('l cell, EntityInfo) kind" where
  "EntityInfo_kind = \<lparr>Put = \<lambda>x. Data1 (EntityInfo_cell x), Get = (\<lambda>c. case c of Data1 (EntityInfo_cell x) \<Rightarrow> Some x | _ \<Rightarrow> None)\<rparr>"

lemma EntityInfo_kind_law [kinds]: "cell_kind EntityInfo_kind"
  by unfold_locales (simp add: EntityInfo_kind_def)

definition ErrorDetails_kind :: "('l cell, ErrorDetails) kind" where
  "ErrorDetails_kind = \<lparr>Put = \<lambda>x. Data1 (ErrorDetails_cell x), Get = (\<lambda>c. case c of Data1 (ErrorDetails_cell x) \<Rightarrow> Some x | _ \<Rightarrow> None)\<rparr>"

lemma ErrorDetails_kind_law [kinds]: "cell_kind ErrorDetails_kind"
  by unfold_locales (simp add: ErrorDetails_kind_def)

definition GroupDetail_kind :: "('l cell, GroupDetail) kind" where
  "GroupDetail_kind = \<lparr>Put = \<lambda>x. Data1 (GroupDetail_cell x), Get = (\<lambda>c. case c of Data1 (GroupDetail_cell x) \<Rightarrow> Some x | _ \<Rightarrow> None)\<rparr>"

lemma GroupDetail_kind_law [kinds]: "cell_kind GroupDetail_kind"
  by unfold_locales (simp add: GroupDetail_kind_def)

definition Group_SDK_kind :: "('l cell, Group_SDK) kind" where
  "Group_SDK_kind = \<lparr>Put = \<lambda>x. Data1 (Group_SDK_cell x), Get = (\<lambda>c. case c of Data1 (Group_SDK_cell x) \<Rightarrow> Some x | _ \<Rightarrow> None)\<rparr>"

lemma Group_SDK_kind_law [kinds]: "cell_kind Group_SDK_kind"
  by unfold_locales (simp add: Group_SDK_kind_def)

definition Tag_kind :: "('l cell, Tag) kind" where
  "Tag_kind = \<lparr>Put = \<lambda>x. Data2 (Tag_cell x), Get = (\<lambda>c. case c of Data2 (Tag_cell x) \<Rightarrow> Some x | _ \<Rightarrow> None)\<rparr>"

lemma Tag_kind_law [kinds]: "cell_kind Tag_kind"
  by unfold_locales (simp add: Tag_kind_def)

definition InstanceProfile_SDK_kind :: "('l cell, InstanceProfile_SDK) kind" where
  "InstanceProfile_SDK_kind = \<lparr>Put = \<lambda>x. Data2 (InstanceProfile_SDK_cell x), Get = (\<lambda>c. case c of Data2 (InstanceProfile_SDK_cell x) \<Rightarrow> Some x | _ \<Rightarrow> None)\<rparr>"

lemma InstanceProfile_SDK_kind_law [kinds]: "cell_kind InstanceProfile_SDK_kind"
  by unfold_locales (simp add: InstanceProfile_SDK_kind_def)

definition LoginProfile_kind :: "('l cell, LoginProfile) kind" where
  "LoginProfile_kind = \<lparr>Put = \<lambda>x. Data2 (LoginProfile_cell x), Get = (\<lambda>c. case c of Data2 (LoginProfile_cell x) \<Rightarrow> Some x | _ \<Rightarrow> None)\<rparr>"

lemma LoginProfile_kind_law [kinds]: "cell_kind LoginProfile_kind"
  by unfold_locales (simp add: LoginProfile_kind_def)

definition MFADevice_kind :: "('l cell, MFADevice) kind" where
  "MFADevice_kind = \<lparr>Put = \<lambda>x. Data2 (MFADevice_cell x), Get = (\<lambda>c. case c of Data2 (MFADevice_cell x) \<Rightarrow> Some x | _ \<Rightarrow> None)\<rparr>"

lemma MFADevice_kind_law [kinds]: "cell_kind MFADevice_kind"
  by unfold_locales (simp add: MFADevice_kind_def)

definition ManagedPolicyDetail_kind :: "('l cell, ManagedPolicyDetail) kind" where
  "ManagedPolicyDetail_kind = \<lparr>Put = \<lambda>x. Data2 (ManagedPolicyDetail_cell x), Get = (\<lambda>c. case c of Data2 (ManagedPolicyDetail_cell x) \<Rightarrow> Some x | _ \<Rightarrow> None)\<rparr>"

lemma ManagedPolicyDetail_kind_law [kinds]: "cell_kind ManagedPolicyDetail_kind"
  by unfold_locales (simp add: ManagedPolicyDetail_kind_def)

definition OpenIDConnectProviderListEntry_kind :: "('l cell, OpenIDConnectProviderListEntry) kind" where
  "OpenIDConnectProviderListEntry_kind = \<lparr>Put = \<lambda>x. Data2 (OpenIDConnectProviderListEntry_cell x), Get = (\<lambda>c. case c of Data2 (OpenIDConnectProviderListEntry_cell x) \<Rightarrow> Some x | _ \<Rightarrow> None)\<rparr>"

lemma OpenIDConnectProviderListEntry_kind_law [kinds]: "cell_kind OpenIDConnectProviderListEntry_kind"
  by unfold_locales (simp add: OpenIDConnectProviderListEntry_kind_def)

definition OrganizationsDecisionDetail_kind :: "('l cell, OrganizationsDecisionDetail) kind" where
  "OrganizationsDecisionDetail_kind = \<lparr>Put = \<lambda>x. Data2 (OrganizationsDecisionDetail_cell x), Get = (\<lambda>c. case c of Data2 (OrganizationsDecisionDetail_cell x) \<Rightarrow> Some x | _ \<Rightarrow> None)\<rparr>"

lemma OrganizationsDecisionDetail_kind_law [kinds]: "cell_kind OrganizationsDecisionDetail_kind"
  by unfold_locales (simp add: OrganizationsDecisionDetail_kind_def)

definition PasswordPolicy_kind :: "('l cell, PasswordPolicy) kind" where
  "PasswordPolicy_kind = \<lparr>Put = \<lambda>x. Data2 (PasswordPolicy_cell x), Get = (\<lambda>c. case c of Data2 (PasswordPolicy_cell x) \<Rightarrow> Some x | _ \<Rightarrow> None)\<rparr>"

lemma PasswordPolicy_kind_law [kinds]: "cell_kind PasswordPolicy_kind"
  by unfold_locales (simp add: PasswordPolicy_kind_def)

definition PermissionsBoundaryDecisionDetail_kind :: "('l cell, PermissionsBoundaryDecisionDetail) kind" where
  "PermissionsBoundaryDecisionDetail_kind = \<lparr>Put = \<lambda>x. Data2 (PermissionsBoundaryDecisionDetail_cell x), Get = (\<lambda>c. case c of Data2 (PermissionsBoundaryDecisionDetail_cell x) \<Rightarrow> Some x | _ \<Rightarrow> None)\<rparr>"

lemma PermissionsBoundaryDecisionDetail_kind_law [kinds]: "cell_kind PermissionsBoundaryDecisionDetail_kind"
  by unfold_locales (simp add: PermissionsBoundaryDecisionDetail_kind_def)

definition PolicyDetail_kind :: "('l cell, PolicyDetail) kind" where
  "PolicyDetail_kind = \<lparr>Put = \<lambda>x. Data2 (PolicyDetail_cell x), Get = (\<lambda>c. case c of Data2 (PolicyDetail_cell x) \<Rightarrow> Some x | _ \<Rightarrow> None)\<rparr>"

lemma PolicyDetail_kind_law [kinds]: "cell_kind PolicyDetail_kind"
  by unfold_locales (simp add: PolicyDetail_kind_def)

definition PolicyGrantingServiceAccess_kind :: "('l cell, PolicyGrantingServiceAccess) kind" where
  "PolicyGrantingServiceAccess_kind = \<lparr>Put = \<lambda>x. Data2 (PolicyGrantingServiceAccess_cell x), Get = (\<lambda>c. case c of Data2 (PolicyGrantingServiceAccess_cell x) \<Rightarrow> Some x | _ \<Rightarrow> None)\<rparr>"

lemma PolicyGrantingServiceAccess_kind_law [kinds]: "cell_kind PolicyGrantingServiceAccess_kind"
  by unfold_locales (simp add: PolicyGrantingServiceAccess_kind_def)

definition PolicyGroup_kind :: "('l cell, PolicyGroup) kind" where
  "PolicyGroup_kind = \<lparr>Put = \<lambda>x. Data3 (PolicyGroup_cell x), Get = (\<lambda>c. case c of Data3 (PolicyGroup_cell x) \<Rightarrow> Some x | _ \<Rightarrow> None)\<rparr>"

lemma PolicyGroup_kind_law [kinds]: "cell_kind PolicyGroup_kind"
  by unfold_locales (simp add: PolicyGroup_kind_def)

definition PolicyRole_kind :: "('l cell, PolicyRole) kind" where
  "PolicyRole_kind = \<lparr>Put = \<lambda>x. Data3 (PolicyRole_cell x), Get = (\<lambda>c. case c of Data3 (PolicyRole_cell x) \<Rightarrow> Some x | _ \<Rightarrow> None)\<rparr>"

lemma PolicyRole_kind_law [kinds]: "cell_kind PolicyRole_kind"
  by unfold_locales (simp add: PolicyRole_kind_def)

definition PolicyUser_kind :: "('l cell, PolicyUser) kind" where
  "PolicyUser_kind = \<lparr>Put = \<lambda>x. Data3 (PolicyUser_cell x), Get = (\<lambda>c. case c of Data3 (PolicyUser_cell x) \<Rightarrow> Some x | _ \<Rightarrow> None)\<rparr>"

lemma PolicyUser_kind_law [kinds]: "cell_kind PolicyUser_kind"
  by unfold_locales (simp add: PolicyUser_kind_def)

definition PolicyVersion_kind :: "('l cell, PolicyVersion) kind" where
  "PolicyVersion_kind = \<lparr>Put = \<lambda>x. Data3 (PolicyVersion_cell x), Get = (\<lambda>c. case c of Data3 (PolicyVersion_cell x) \<Rightarrow> Some x | _ \<Rightarrow> None)\<rparr>"

lemma PolicyVersion_kind_law [kinds]: "cell_kind PolicyVersion_kind"
  by unfold_locales (simp add: PolicyVersion_kind_def)

definition Policy_SDK_kind :: "('l cell, Policy_SDK) kind" where
  "Policy_SDK_kind = \<lparr>Put = \<lambda>x. Data3 (Policy_SDK_cell x), Get = (\<lambda>c. case c of Data3 (Policy_SDK_cell x) \<Rightarrow> Some x | _ \<Rightarrow> None)\<rparr>"

lemma Policy_SDK_kind_law [kinds]: "cell_kind Policy_SDK_kind"
  by unfold_locales (simp add: Policy_SDK_kind_def)

definition RoleLastUsed_kind :: "('l cell, RoleLastUsed) kind" where
  "RoleLastUsed_kind = \<lparr>Put = \<lambda>x. Data3 (RoleLastUsed_cell x), Get = (\<lambda>c. case c of Data3 (RoleLastUsed_cell x) \<Rightarrow> Some x | _ \<Rightarrow> None)\<rparr>"

lemma RoleLastUsed_kind_law [kinds]: "cell_kind RoleLastUsed_kind"
  by unfold_locales (simp add: RoleLastUsed_kind_def)

definition RoleDetail_kind :: "('l cell, RoleDetail) kind" where
  "RoleDetail_kind = \<lparr>Put = \<lambda>x. Data3 (RoleDetail_cell x), Get = (\<lambda>c. case c of Data3 (RoleDetail_cell x) \<Rightarrow> Some x | _ \<Rightarrow> None)\<rparr>"

lemma RoleDetail_kind_law [kinds]: "cell_kind RoleDetail_kind"
  by unfold_locales (simp add: RoleDetail_kind_def)

definition Role_SDK_kind :: "('l cell, Role_SDK) kind" where
  "Role_SDK_kind = \<lparr>Put = \<lambda>x. Data3 (Role_SDK_cell x), Get = (\<lambda>c. case c of Data3 (Role_SDK_cell x) \<Rightarrow> Some x | _ \<Rightarrow> None)\<rparr>"

lemma Role_SDK_kind_law [kinds]: "cell_kind Role_SDK_kind"
  by unfold_locales (simp add: Role_SDK_kind_def)

definition SAMLProviderListEntry_kind :: "('l cell, SAMLProviderListEntry) kind" where
  "SAMLProviderListEntry_kind = \<lparr>Put = \<lambda>x. Data3 (SAMLProviderListEntry_cell x), Get = (\<lambda>c. case c of Data3 (SAMLProviderListEntry_cell x) \<Rightarrow> Some x | _ \<Rightarrow> None)\<rparr>"

lemma SAMLProviderListEntry_kind_law [kinds]: "cell_kind SAMLProviderListEntry_kind"
  by unfold_locales (simp add: SAMLProviderListEntry_kind_def)

definition SSHPublicKey_kind :: "('l cell, SSHPublicKey) kind" where
  "SSHPublicKey_kind = \<lparr>Put = \<lambda>x. Data3 (SSHPublicKey_cell x), Get = (\<lambda>c. case c of Data3 (SSHPublicKey_cell x) \<Rightarrow> Some x | _ \<Rightarrow> None)\<rparr>"

lemma SSHPublicKey_kind_law [kinds]: "cell_kind SSHPublicKey_kind"
  by unfold_locales (simp add: SSHPublicKey_kind_def)

definition SSHPublicKeyMetadata_kind :: "('l cell, SSHPublicKeyMetadata) kind" where
  "SSHPublicKeyMetadata_kind = \<lparr>Put = \<lambda>x. Data3 (SSHPublicKeyMetadata_cell x), Get = (\<lambda>c. case c of Data3 (SSHPublicKeyMetadata_cell x) \<Rightarrow> Some x | _ \<Rightarrow> None)\<rparr>"

lemma SSHPublicKeyMetadata_kind_law [kinds]: "cell_kind SSHPublicKeyMetadata_kind"
  by unfold_locales (simp add: SSHPublicKeyMetadata_kind_def)

definition ServerCertificate_kind :: "('l cell, ServerCertificate) kind" where
  "ServerCertificate_kind = \<lparr>Put = \<lambda>x. Data4 (ServerCertificate_cell x), Get = (\<lambda>c. case c of Data4 (ServerCertificate_cell x) \<Rightarrow> Some x | _ \<Rightarrow> None)\<rparr>"

lemma ServerCertificate_kind_law [kinds]: "cell_kind ServerCertificate_kind"
  by unfold_locales (simp add: ServerCertificate_kind_def)

definition ServerCertificateMetadata_kind :: "('l cell, ServerCertificateMetadata) kind" where
  "ServerCertificateMetadata_kind = \<lparr>Put = \<lambda>x. Data4 (ServerCertificateMetadata_cell x), Get = (\<lambda>c. case c of Data4 (ServerCertificateMetadata_cell x) \<Rightarrow> Some x | _ \<Rightarrow> None)\<rparr>"

lemma ServerCertificateMetadata_kind_law [kinds]: "cell_kind ServerCertificateMetadata_kind"
  by unfold_locales (simp add: ServerCertificateMetadata_kind_def)

definition ServiceLastAccessed_kind :: "('l cell, ServiceLastAccessed) kind" where
  "ServiceLastAccessed_kind = \<lparr>Put = \<lambda>x. Data4 (ServiceLastAccessed_cell x), Get = (\<lambda>c. case c of Data4 (ServiceLastAccessed_cell x) \<Rightarrow> Some x | _ \<Rightarrow> None)\<rparr>"

lemma ServiceLastAccessed_kind_law [kinds]: "cell_kind ServiceLastAccessed_kind"
  by unfold_locales (simp add: ServiceLastAccessed_kind_def)

definition ServiceSpecificCredential_kind :: "('l cell, ServiceSpecificCredential) kind" where
  "ServiceSpecificCredential_kind = \<lparr>Put = \<lambda>x. Data4 (ServiceSpecificCredential_cell x), Get = (\<lambda>c. case c of Data4 (ServiceSpecificCredential_cell x) \<Rightarrow> Some x | _ \<Rightarrow> None)\<rparr>"

lemma ServiceSpecificCredential_kind_law [kinds]: "cell_kind ServiceSpecificCredential_kind"
  by unfold_locales (simp add: ServiceSpecificCredential_kind_def)

definition ServiceSpecificCredentialMetadata_kind :: "('l cell, ServiceSpecificCredentialMetadata) kind" where
  "ServiceSpecificCredentialMetadata_kind = \<lparr>Put = \<lambda>x. Data4 (ServiceSpecificCredentialMetadata_cell x), Get = (\<lambda>c. case c of Data4 (ServiceSpecificCredentialMetadata_cell x) \<Rightarrow> Some x | _ \<Rightarrow> None)\<rparr>"

lemma ServiceSpecificCredentialMetadata_kind_law [kinds]: "cell_kind ServiceSpecificCredentialMetadata_kind"
  by unfold_locales (simp add: ServiceSpecificCredentialMetadata_kind_def)

definition SigningCertificate_kind :: "('l cell, SigningCertificate) kind" where
  "SigningCertificate_kind = \<lparr>Put = \<lambda>x. Data4 (SigningCertificate_cell x), Get = (\<lambda>c. case c of Data4 (SigningCertificate_cell x) \<Rightarrow> Some x | _ \<Rightarrow> None)\<rparr>"

lemma SigningCertificate_kind_law [kinds]: "cell_kind SigningCertificate_kind"
  by unfold_locales (simp add: SigningCertificate_kind_def)

definition TrackedActionLastAccessed_kind :: "('l cell, TrackedActionLastAccessed) kind" where
  "TrackedActionLastAccessed_kind = \<lparr>Put = \<lambda>x. Data4 (TrackedActionLastAccessed_cell x), Get = (\<lambda>c. case c of Data4 (TrackedActionLastAccessed_cell x) \<Rightarrow> Some x | _ \<Rightarrow> None)\<rparr>"

lemma TrackedActionLastAccessed_kind_law [kinds]: "cell_kind TrackedActionLastAccessed_kind"
  by unfold_locales (simp add: TrackedActionLastAccessed_kind_def)

definition UserDetail_kind :: "('l cell, UserDetail) kind" where
  "UserDetail_kind = \<lparr>Put = \<lambda>x. Data4 (UserDetail_cell x), Get = (\<lambda>c. case c of Data4 (UserDetail_cell x) \<Rightarrow> Some x | _ \<Rightarrow> None)\<rparr>"

lemma UserDetail_kind_law [kinds]: "cell_kind UserDetail_kind"
  by unfold_locales (simp add: UserDetail_kind_def)

definition User_SDK_kind :: "('l cell, User_SDK) kind" where
  "User_SDK_kind = \<lparr>Put = \<lambda>x. Data4 (User_SDK_cell x), Get = (\<lambda>c. case c of Data4 (User_SDK_cell x) \<Rightarrow> Some x | _ \<Rightarrow> None)\<rparr>"

lemma User_SDK_kind_law [kinds]: "cell_kind User_SDK_kind"
  by unfold_locales (simp add: User_SDK_kind_def)

definition VirtualMFADevice_kind :: "('l cell, VirtualMFADevice) kind" where
  "VirtualMFADevice_kind = \<lparr>Put = \<lambda>x. Data4 (VirtualMFADevice_cell x), Get = (\<lambda>c. case c of Data4 (VirtualMFADevice_cell x) \<Rightarrow> Some x | _ \<Rightarrow> None)\<rparr>"

lemma VirtualMFADevice_kind_law [kinds]: "cell_kind VirtualMFADevice_kind"
  by unfold_locales (simp add: VirtualMFADevice_kind_def)

definition Group_kind :: "('l cell, 'l Group) kind" where
  "Group_kind = \<lparr>Put = \<lambda>x. Group_family (Group_cell x), Get = (\<lambda>c. case c of Group_family (Group_cell x) \<Rightarrow> Some x | _ \<Rightarrow> None)\<rparr>"

lemma Group_kind_law [kinds]: "cell_kind Group_kind"
  by unfold_locales (simp add: Group_kind_def)

definition GroupList_kind :: "('l cell, 'l GroupList) kind" where
  "GroupList_kind = \<lparr>Put = \<lambda>x. Group_family (GroupList_cell x), Get = (\<lambda>c. case c of Group_family (GroupList_cell x) \<Rightarrow> Some x | _ \<Rightarrow> None)\<rparr>"

lemma GroupList_kind_law [kinds]: "cell_kind GroupList_kind"
  by unfold_locales (simp add: GroupList_kind_def)

definition GroupSpec_kind :: "('l cell, GroupSpec) kind" where
  "GroupSpec_kind = \<lparr>Put = \<lambda>x. Group_family (GroupSpec_cell x), Get = (\<lambda>c. case c of Group_family (GroupSpec_cell x) \<Rightarrow> Some x | _ \<Rightarrow> None)\<rparr>"

lemma GroupSpec_kind_law [kinds]: "cell_kind GroupSpec_kind"
  by unfold_locales (simp add: GroupSpec_kind_def)

definition GroupStatus_kind :: "('l cell, GroupStatus) kind" where
  "GroupStatus_kind = \<lparr>Put = \<lambda>x. Group_family (GroupStatus_cell x), Get = (\<lambda>c. case c of Group_family (GroupStatus_cell x) \<Rightarrow> Some x | _ \<Rightarrow> None)\<rparr>"

lemma GroupStatus_kind_law [kinds]: "cell_kind GroupStatus_kind"
  by unfold_locales (simp add: GroupStatus_kind_def)

definition Group_items :: "('l cell, 'l Group list) kind" where
  "Group_items = \<lparr>Put = \<lambda>x. Group_family (Group_array x), Get = (\<lambda>c. case c of Group_family (Group_array x) \<Rightarrow> Some x | _ \<Rightarrow> None)\<rparr>"

lemma Group_items_law [kinds]: "cell_kind Group_items"
  by unfold_locales (simp add: Group_items_def)

definition InstanceProfile_kind :: "('l cell, 'l InstanceProfile) kind" where
  "InstanceProfile_kind = \<lparr>Put = \<lambda>x. InstanceProfile_family (InstanceProfile_cell x), Get = (\<lambda>c. case c of InstanceProfile_family (InstanceProfile_cell x) \<Rightarrow> Some x | _ \<Rightarrow> None)\<rparr>"

lemma InstanceProfile_kind_law [kinds]: "cell_kind InstanceProfile_kind"
  by unfold_locales (simp add: InstanceProfile_kind_def)

definition InstanceProfileList_kind :: "('l cell, 'l InstanceProfileList) kind" where
  "InstanceProfileList_kind = \<lparr>Put = \<lambda>x. InstanceProfile_family (InstanceProfileList_cell x), Get = (\<lambda>c. case c of InstanceProfile_family (InstanceProfileList_cell x) \<Rightarrow> Some x | _ \<Rightarrow> None)\<rparr>"

lemma InstanceProfileList_kind_law [kinds]: "cell_kind InstanceProfileList_kind"
  by unfold_locales (simp add: InstanceProfileList_kind_def)

definition InstanceProfileSpec_kind :: "('l cell, InstanceProfileSpec) kind" where
  "InstanceProfileSpec_kind = \<lparr>Put = \<lambda>x. InstanceProfile_family (InstanceProfileSpec_cell x), Get = (\<lambda>c. case c of InstanceProfile_family (InstanceProfileSpec_cell x) \<Rightarrow> Some x | _ \<Rightarrow> None)\<rparr>"

lemma InstanceProfileSpec_kind_law [kinds]: "cell_kind InstanceProfileSpec_kind"
  by unfold_locales (simp add: InstanceProfileSpec_kind_def)

definition InstanceProfileStatus_kind :: "('l cell, InstanceProfileStatus) kind" where
  "InstanceProfileStatus_kind = \<lparr>Put = \<lambda>x. InstanceProfile_family (InstanceProfileStatus_cell x), Get = (\<lambda>c. case c of InstanceProfile_family (InstanceProfileStatus_cell x) \<Rightarrow> Some x | _ \<Rightarrow> None)\<rparr>"

lemma InstanceProfileStatus_kind_law [kinds]: "cell_kind InstanceProfileStatus_kind"
  by unfold_locales (simp add: InstanceProfileStatus_kind_def)

definition InstanceProfile_items :: "('l cell, 'l InstanceProfile list) kind" where
  "InstanceProfile_items = \<lparr>Put = \<lambda>x. InstanceProfile_family (InstanceProfile_array x), Get = (\<lambda>c. case c of InstanceProfile_family (InstanceProfile_array x) \<Rightarrow> Some x | _ \<Rightarrow> None)\<rparr>"

lemma InstanceProfile_items_law [kinds]: "cell_kind InstanceProfile_items"
  by unfold_locales (simp add: InstanceProfile_items_def)

definition OpenIDConnectProvider_kind :: "('l cell, 'l OpenIDConnectProvider) kind" where
  "OpenIDConnectProvider_kind = \<lparr>Put = \<lambda>x. OpenIDConnectProvider_family (OpenIDConnectProvider_cell x), Get = (\<lambda>c. case c of OpenIDConnectProvider_family (OpenIDConnectProvider_cell x) \<Rightarrow> Some x | _ \<Rightarrow> None)\<rparr>"

lemma OpenIDConnectProvider_kind_law [kinds]: "cell_kind OpenIDConnectProvider_kind"
  by unfold_locales (simp add: OpenIDConnectProvider_kind_def)

definition OpenIDConnectProviderList_kind :: "('l cell, 'l OpenIDConnectProviderList) kind" where
  "OpenIDConnectProviderList_kind = \<lparr>Put = \<lambda>x. OpenIDConnectProvider_family (OpenIDConnectProviderList_cell x), Get = (\<lambda>c. case c of OpenIDConnectProvider_family (OpenIDConnectProviderList_cell x) \<Rightarrow> Some x | _ \<Rightarrow> None)\<rparr>"

lemma OpenIDConnectProviderList_kind_law [kinds]: "cell_kind OpenIDConnectProviderList_kind"
  by unfold_locales (simp add: OpenIDConnectProviderList_kind_def)

definition OpenIDConnectProviderSpec_kind :: "('l cell, OpenIDConnectProviderSpec) kind" where
  "OpenIDConnectProviderSpec_kind = \<lparr>Put = \<lambda>x. OpenIDConnectProvider_family (OpenIDConnectProviderSpec_cell x), Get = (\<lambda>c. case c of OpenIDConnectProvider_family (OpenIDConnectProviderSpec_cell x) \<Rightarrow> Some x | _ \<Rightarrow> None)\<rparr>"

lemma OpenIDConnectProviderSpec_kind_law [kinds]: "cell_kind OpenIDConnectProviderSpec_kind"
  by unfold_locales (simp add: OpenIDConnectProviderSpec_kind_def)

definition OpenIDConnectProviderStatus_kind :: "('l cell, OpenIDConnectProviderStatus) kind" where
  "OpenIDConnectProviderStatus_kind = \<lparr>Put = \<lambda>x. OpenIDConnectProvider_family (OpenIDConnectProviderStatus_cell x), Get = (\<lambda>c. case c of OpenIDConnectProvider_family (OpenIDConnectProviderStatus_cell x) \<Rightarrow> Some x | _ \<Rightarrow> None)\<rparr>"

lemma OpenIDConnectProviderStatus_kind_law [kinds]: "cell_kind OpenIDConnectProviderStatus_kind"
  by unfold_locales (simp add: OpenIDConnectProviderStatus_kind_def)

definition OpenIDConnectProvider_items :: "('l cell, 'l OpenIDConnectProvider list) kind" where
  "OpenIDConnectProvider_items = \<lparr>Put = \<lambda>x. OpenIDConnectProvider_family (OpenIDConnectProvider_array x), Get = (\<lambda>c. case c of OpenIDConnectProvider_family (OpenIDConnectProvider_array x) \<Rightarrow> Some x | _ \<Rightarrow> None)\<rparr>"

lemma OpenIDConnectProvider_items_law [kinds]: "cell_kind OpenIDConnectProvider_items"
  by unfold_locales (simp add: OpenIDConnectProvider_items_def)

definition Policy_kind :: "('l cell, 'l Policy) kind" where
  "Policy_kind = \<lparr>Put = \<lambda>x. Policy_family (Policy_cell x), Get = (\<lambda>c. case c of Policy_family (Policy_cell x) \<Rightarrow> Some x | _ \<Rightarrow> None)\<rparr>"

lemma Policy_kind_law [kinds]: "cell_kind Policy_kind"
  by unfold_locales (simp add: Policy_kind_def)

definition PolicyList_kind :: "('l cell, 'l PolicyList) kind" where
  "PolicyList_kind = \<lparr>Put = \<lambda>x. Policy_family (PolicyList_cell x), Get = (\<lambda>c. case c of Policy_family (PolicyList_cell x) \<Rightarrow> Some x | _ \<Rightarrow> None)\<rparr>"

lemma PolicyList_kind_law [kinds]: "cell_kind PolicyList_kind"
  by unfold_locales (simp add: PolicyList_kind_def)

definition PolicySpec_kind :: "('l cell, PolicySpec) kind" where
  "PolicySpec_kind = \<lparr>Put = \<lambda>x. Policy_family (PolicySpec_cell x), Get = (\<lambda>c. case c of Policy_family (PolicySpec_cell x) \<Rightarrow> Some x | _ \<Rightarrow> None)\<rparr>"

lemma PolicySpec_kind_law [kinds]: "cell_kind PolicySpec_kind"
  by unfold_locales (simp add: PolicySpec_kind_def)

definition PolicyStatus_kind :: "('l cell, PolicyStatus) kind" where
  "PolicyStatus_kind = \<lparr>Put = \<lambda>x. Policy_family (PolicyStatus_cell x), Get = (\<lambda>c. case c of Policy_family (PolicyStatus_cell x) \<Rightarrow> Some x | _ \<Rightarrow> None)\<rparr>"

lemma PolicyStatus_kind_law [kinds]: "cell_kind PolicyStatus_kind"
  by unfold_locales (simp add: PolicyStatus_kind_def)

definition Policy_items :: "('l cell, 'l Policy list) kind" where
  "Policy_items = \<lparr>Put = \<lambda>x. Policy_family (Policy_array x), Get = (\<lambda>c. case c of Policy_family (Policy_array x) \<Rightarrow> Some x | _ \<Rightarrow> None)\<rparr>"

lemma Policy_items_law [kinds]: "cell_kind Policy_items"
  by unfold_locales (simp add: Policy_items_def)

definition Role_kind :: "('l cell, 'l Role) kind" where
  "Role_kind = \<lparr>Put = \<lambda>x. Role_family (Role_cell x), Get = (\<lambda>c. case c of Role_family (Role_cell x) \<Rightarrow> Some x | _ \<Rightarrow> None)\<rparr>"

lemma Role_kind_law [kinds]: "cell_kind Role_kind"
  by unfold_locales (simp add: Role_kind_def)

definition RoleList_kind :: "('l cell, 'l RoleList) kind" where
  "RoleList_kind = \<lparr>Put = \<lambda>x. Role_family (RoleList_cell x), Get = (\<lambda>c. case c of Role_family (RoleList_cell x) \<Rightarrow> Some x | _ \<Rightarrow> None)\<rparr>"

lemma RoleList_kind_law [kinds]: "cell_kind RoleList_kind"
  by unfold_locales (simp add: RoleList_kind_def)

definition RoleSpec_kind :: "('l cell, RoleSpec) kind" where
  "RoleSpec_kind = \<lparr>Put = \<lambda>x. Role_family (RoleSpec_cell x), Get = (\<lambda>c. case c of Role_family (RoleSpec_cell x) \<Rightarrow> Some x | _ \<Rightarrow> None)\<rparr>"

lemma RoleSpec_kind_law [kinds]: "cell_kind RoleSpec_kind"
  by unfold_locales (simp add: RoleSpec_kind_def)

definition RoleStatus_kind :: "('l cell, RoleStatus) kind" where
  "RoleStatus_kind = \<lparr>Put = \<lambda>x. Role_family (RoleStatus_cell x), Get = (\<lambda>c. case c of Role_family (RoleStatus_cell x) \<Rightarrow> Some x | _ \<Rightarrow> None)\<rparr>"

lemma RoleStatus_kind_law [kinds]: "cell_kind RoleStatus_kind"
  by unfold_locales (simp add: RoleStatus_kind_def)

definition Role_items :: "('l cell, 'l Role list) kind" where
  "Role_items = \<lparr>Put = \<lambda>x. Role_family (Role_array x), Get = (\<lambda>c. case c of Role_family (Role_array x) \<Rightarrow> Some x | _ \<Rightarrow> None)\<rparr>"

lemma Role_items_law [kinds]: "cell_kind Role_items"
  by unfold_locales (simp add: Role_items_def)

definition ServiceLinkedRole_kind :: "('l cell, 'l ServiceLinkedRole) kind" where
  "ServiceLinkedRole_kind = \<lparr>Put = \<lambda>x. ServiceLinkedRole_family (ServiceLinkedRole_cell x), Get = (\<lambda>c. case c of ServiceLinkedRole_family (ServiceLinkedRole_cell x) \<Rightarrow> Some x | _ \<Rightarrow> None)\<rparr>"

lemma ServiceLinkedRole_kind_law [kinds]: "cell_kind ServiceLinkedRole_kind"
  by unfold_locales (simp add: ServiceLinkedRole_kind_def)

definition ServiceLinkedRoleList_kind :: "('l cell, 'l ServiceLinkedRoleList) kind" where
  "ServiceLinkedRoleList_kind = \<lparr>Put = \<lambda>x. ServiceLinkedRole_family (ServiceLinkedRoleList_cell x), Get = (\<lambda>c. case c of ServiceLinkedRole_family (ServiceLinkedRoleList_cell x) \<Rightarrow> Some x | _ \<Rightarrow> None)\<rparr>"

lemma ServiceLinkedRoleList_kind_law [kinds]: "cell_kind ServiceLinkedRoleList_kind"
  by unfold_locales (simp add: ServiceLinkedRoleList_kind_def)

definition ServiceLinkedRoleSpec_kind :: "('l cell, ServiceLinkedRoleSpec) kind" where
  "ServiceLinkedRoleSpec_kind = \<lparr>Put = \<lambda>x. ServiceLinkedRole_family (ServiceLinkedRoleSpec_cell x), Get = (\<lambda>c. case c of ServiceLinkedRole_family (ServiceLinkedRoleSpec_cell x) \<Rightarrow> Some x | _ \<Rightarrow> None)\<rparr>"

lemma ServiceLinkedRoleSpec_kind_law [kinds]: "cell_kind ServiceLinkedRoleSpec_kind"
  by unfold_locales (simp add: ServiceLinkedRoleSpec_kind_def)

definition ServiceLinkedRoleStatus_kind :: "('l cell, ServiceLinkedRoleStatus) kind" where
  "ServiceLinkedRoleStatus_kind = \<lparr>Put = \<lambda>x. ServiceLinkedRole_family (ServiceLinkedRoleStatus_cell x), Get = (\<lambda>c. case c of ServiceLinkedRole_family (ServiceLinkedRoleStatus_cell x) \<Rightarrow> Some x | _ \<Rightarrow> None)\<rparr>"

lemma ServiceLinkedRoleStatus_kind_law [kinds]: "cell_kind ServiceLinkedRoleStatus_kind"
  by unfold_locales (simp add: ServiceLinkedRoleStatus_kind_def)

definition ServiceLinkedRole_items :: "('l cell, 'l ServiceLinkedRole list) kind" where
  "ServiceLinkedRole_items = \<lparr>Put = \<lambda>x. ServiceLinkedRole_family (ServiceLinkedRole_array x), Get = (\<lambda>c. case c of ServiceLinkedRole_family (ServiceLinkedRole_array x) \<Rightarrow> Some x | _ \<Rightarrow> None)\<rparr>"

lemma ServiceLinkedRole_items_law [kinds]: "cell_kind ServiceLinkedRole_items"
  by unfold_locales (simp add: ServiceLinkedRole_items_def)

definition User_kind :: "('l cell, 'l User) kind" where
  "User_kind = \<lparr>Put = \<lambda>x. User_family (User_cell x), Get = (\<lambda>c. case c of User_family (User_cell x) \<Rightarrow> Some x | _ \<Rightarrow> None)\<rparr>"

lemma User_kind_law [kinds]: "cell_kind User_kind"
  by unfold_locales (simp add: User_kind_def)

definition UserList_kind :: "('l cell, 'l UserList) kind" where
  "UserList_kind = \<lparr>Put = \<lambda>x. User_family (UserList_cell x), Get = (\<lambda>c. case c of User_family (UserList_cell x) \<Rightarrow> Some x | _ \<Rightarrow> None)\<rparr>"

lemma UserList_kind_law [kinds]: "cell_kind UserList_kind"
  by unfold_locales (simp add: UserList_kind_def)

definition UserSpec_kind :: "('l cell, UserSpec) kind" where
  "UserSpec_kind = \<lparr>Put = \<lambda>x. User_family (UserSpec_cell x), Get = (\<lambda>c. case c of User_family (UserSpec_cell x) \<Rightarrow> Some x | _ \<Rightarrow> None)\<rparr>"

lemma UserSpec_kind_law [kinds]: "cell_kind UserSpec_kind"
  by unfold_locales (simp add: UserSpec_kind_def)

definition UserStatus_kind :: "('l cell, UserStatus) kind" where
  "UserStatus_kind = \<lparr>Put = \<lambda>x. User_family (UserStatus_cell x), Get = (\<lambda>c. case c of User_family (UserStatus_cell x) \<Rightarrow> Some x | _ \<Rightarrow> None)\<rparr>"

lemma UserStatus_kind_law [kinds]: "cell_kind UserStatus_kind"
  by unfold_locales (simp add: UserStatus_kind_def)

definition User_items :: "('l cell, 'l User list) kind" where
  "User_items = \<lparr>Put = \<lambda>x. User_family (User_array x), Get = (\<lambda>c. case c of User_family (User_array x) \<Rightarrow> Some x | _ \<Rightarrow> None)\<rparr>"

lemma User_items_law [kinds]: "cell_kind User_items"
  by unfold_locales (simp add: User_items_def)

end
