(* ===== verification/DeepCopyBase.thy ===== *)
theory DeepCopyBase
  imports ApiCells
begin

text \<open>
  What the functions of \<open>zz_generated.deepcopy.go\<close> share: the copies of strings, numbers, lists and
  maps, and the deep copies of the libraries' structs, which are parameters. The record \<open>library\<close>
  holds the functions the code calls, \<open>library_views\<close> how their results read as trees, and
  \<open>library_copies\<close> states the documented contract of a generated \<open>DeepCopyInto\<close> for them.
\<close>

record 'l library =
  Time_DeepCopy :: "('l cell, Time_ref) copier"
  Condition_DeepCopyInto :: "('l cell, 'l) copier"
  ResourceMetadata_DeepCopyInto :: "('l cell, 'l) copier"
  AWSResourceReferenceWrapper_DeepCopyInto :: "('l cell, 'l) copier"
  ObjectMeta_DeepCopyInto :: "('l cell, 'l) copier"
  ListMeta_DeepCopyInto :: "('l cell, 'l) copier"
  MapOrder :: "string list \<Rightarrow> string list" \<comment> \<open>the order in which \<open>range\<close> visits a map\<close>

record 'l library_views =
  Time_view :: "('l cell, 'l, val) view"
  Condition_view :: "('l cell, 'l, val) view"
  ResourceMetadata_view :: "('l cell, 'l, val) view"
  AWSResourceReferenceWrapper_view :: "('l cell, 'l, val) view"
  ObjectMeta_view :: "('l cell, 'l, val) view"
  ListMeta_view :: "('l cell, 'l, val) view"
  TypeMeta_view :: "'l \<Rightarrow> val"

definition library_copies :: "'l library \<Rightarrow> 'l library_views \<Rightarrow> bool" where
  "library_copies L V \<longleftrightarrow>
     deep_copier (view_ref Foreign_kind (Time_view V)) (Time_DeepCopy L) \<and>
     deep_copier (Condition_view V) (Condition_DeepCopyInto L) \<and>
     deep_copier (ResourceMetadata_view V) (ResourceMetadata_DeepCopyInto L) \<and>
     deep_copier (AWSResourceReferenceWrapper_view V) (AWSResourceReferenceWrapper_DeepCopyInto L) \<and>
     deep_copier (ObjectMeta_view V) (ObjectMeta_DeepCopyInto L) \<and>
     deep_copier (ListMeta_view V) (ListMeta_DeepCopyInto L) \<and>
     valid_order (MapOrder L)"

named_theorems copiers \<open>the functions that copy deeply\<close>

lemma library_copiers [copiers]:
  assumes "library_copies L V"
  shows "deep_copier (view_ref Foreign_kind (Time_view V)) (Time_DeepCopy L)"
    and "deep_copier (Condition_view V) (Condition_DeepCopyInto L)"
    and "deep_copier (ResourceMetadata_view V) (ResourceMetadata_DeepCopyInto L)"
    and "deep_copier (AWSResourceReferenceWrapper_view V) (AWSResourceReferenceWrapper_DeepCopyInto L)"
    and "deep_copier (ObjectMeta_view V) (ObjectMeta_DeepCopyInto L)"
    and "deep_copier (ListMeta_view V) (ListMeta_DeepCopyInto L)"
  using assms by (simp_all add: library_copies_def)

lemma library_order: "library_copies L V \<Longrightarrow> valid_order (MapOrder L)"
  by (simp add: library_copies_def)

declare kinds [copiers] copier_plain [copiers] copier_new [copiers] copier_slice [copiers]

lemmas struct_rules = copier_struct next_field no_field copies_fieldI keeps_next keeps_none

text \<open>\<open>*out = new(string); **out = **in\<close>, and the same for \<open>int64\<close> and \<open>bool\<close>\<close>

definition copy_string :: "('l cell, string ref) copier" where
  "copy_string = copy_new String_kind copy_plain"

definition copy_int64 :: "('l cell, int64 ref) copier" where
  "copy_int64 = copy_new Int64_kind copy_plain"

definition copy_bool :: "('l cell, bool ref) copier" where
  "copy_bool = copy_new Bool_kind copy_plain"

definition view_string :: "('l cell, string ref, val) view" where
  "view_string = view_ref String_kind (view_plain Text)"

definition view_int64 :: "('l cell, int64 ref, val) view" where
  "view_int64 = view_ref Int64_kind (view_plain Number)"

definition view_bool :: "('l cell, bool ref, val) view" where
  "view_bool = view_ref Bool_kind (view_plain Boolean)"

text \<open>\<open>*out = make([]*T, len(*in))\<close> and the loop that copies every element that is not nil\<close>

definition copy_refs :: "('l cell, addr option) copier \<Rightarrow> ('l cell, addr option vec) copier" where
  "copy_refs c = copy_slice Refs_kind c"

definition view_refs :: "('l cell, addr option, val) view \<Rightarrow> ('l cell, addr option vec, val) view" where
  "view_refs v = view_slice Refs_kind v"

definition copy_strings :: "('l cell, string ref vec) copier" where
  "copy_strings = copy_refs copy_string"

definition view_strings :: "('l cell, string ref vec, val) view" where
  "view_strings = view_refs view_string"

text \<open>\<open>*out = make(map[string]*string, len(*in))\<close> and the loop that copies every value\<close>

definition copy_strings_map :: "(string list \<Rightarrow> string list) \<Rightarrow> ('l cell, string ref dict) copier" where
  "copy_strings_map ord = copy_dict ord Entries_kind copy_string"

definition view_strings_map :: "('l cell, string ref dict, val) view" where
  "view_strings_map = view_dict Entries_kind view_string"

text \<open>\<open>if in.F != nil { *out = (*in).DeepCopy() }\<close>\<close>

definition copy_pointer :: "('l cell, addr option) copier \<Rightarrow> ('l cell, addr option) copier" where
  "copy_pointer deepCopy p h = (if p \<noteq> None then deepCopy p h else (None, h))"

text \<open>
  \<open>DeepCopyObject\<close>: an interface value is nil or a dynamic type with a pointer, and the pointer of
  an interface that is not nil may be nil itself.
\<close>

type_synonym Object = "(string \<times> addr option) option"

definition as_object ::
  "string \<Rightarrow> ('l cell, addr option) copier \<Rightarrow> addr option \<Rightarrow> 'l cell heap \<Rightarrow> Object \<times> 'l cell heap" where
  "as_object name deepCopy p h =
     (let (c, h) = deepCopy p h
      in if c \<noteq> None then (Some (name, c), h) else (None, h))"

lemma copier_refs [copiers]: "deep_copier v c \<Longrightarrow> deep_copier (view_refs v) (copy_refs c)"
  unfolding view_refs_def copy_refs_def by (rule copier_slice [OF Refs_kind_law])

lemma copier_pointer [copiers]:
  assumes c: "deep_copier (view_ref k v) c"
  shows "deep_copier (view_ref k v) (copy_pointer c)"
proof (rule deep_copierI [OF copier_view [OF c]])
  fix h p u F
  assume "view_ref k v h p = Some (u, F)"
  with deep_copierD [OF c this] show "prefix h (snd (copy_pointer c p h)) \<and>
    fresh_copy (view_ref k v) u (length h) (copy_pointer c p h)"
    by (cases p) (simp_all add: copy_pointer_def fresh_copy_def view_ref_def)
qed

lemma copier_scalars [copiers]:
  "deep_copier view_string copy_string"
  "deep_copier view_int64 copy_int64"
  "deep_copier view_bool copy_bool"
  unfolding view_string_def copy_string_def view_int64_def copy_int64_def view_bool_def copy_bool_def
  by (intro copier_new copier_plain kinds)+

interpretation string_cells: cell_kind String_kind
  by (rule String_kind_law)

interpretation string_views: heap_view view_string
  unfolding view_string_def by (intro view_ref_local view_plain_local)

interpretation string_copies: deep_copier view_string copy_string
  by (rule copier_scalars)

lemma copier_strings [copiers]: "deep_copier view_strings copy_strings"
  unfolding view_strings_def copy_strings_def by (intro copier_refs copier_scalars)

lemma copier_strings_map [copiers]:
  "library_copies L V \<Longrightarrow> deep_copier view_strings_map (copy_strings_map (MapOrder L))"
  unfolding view_strings_map_def copy_strings_map_def
  by (intro copier_dict library_order kinds copier_scalars)

end
