(* ===== verification/DeepCopyData.thy ===== *)
theory DeepCopyData
  imports DeepCopyBase
begin

text \<open>
  \<open>zz_generated.deepcopy.go\<close> for the structs of \<open>types.go\<close>. \<open>T_DeepCopyInto\<close> has one step per statement
  of the function, in its order; \<open>T_DeepCopy\<close> allocates the copy and fills it; \<open>T_view\<close> reads the
  struct's tree. Every function is a deep copy of its struct.
\<close>

text \<open>\<open>AccessDetail\<close>\<close>

definition AccessDetail_DeepCopyInto :: "'l library \<Rightarrow> ('l cell, AccessDetail) copier" where
  "AccessDetail_DeepCopyInto L = copy_struct [
     copy_field AccessDetail_LastAuthenticatedTime AccessDetail_LastAuthenticatedTime_update (copy_pointer (Time_DeepCopy L)),
     copy_field AccessDetail_Region AccessDetail_Region_update copy_string]"

definition AccessDetail_DeepCopy :: "'l library \<Rightarrow> ('l cell, AccessDetail ref) copier" where
  "AccessDetail_DeepCopy L = copy_new AccessDetail_kind (AccessDetail_DeepCopyInto L)"

definition AccessDetail_view :: "'l library_views \<Rightarrow> ('l cell, AccessDetail, val) view" where
  "AccessDetail_view V = view_struct [
     view_field AccessDetail_LastAuthenticatedTime (view_ref Foreign_kind (Time_view V)),
     view_field AccessDetail_Region view_string]"

lemma AccessDetail_DeepCopyInto_copies [copiers]: "library_copies L V \<Longrightarrow> deep_copier (AccessDetail_view V) (AccessDetail_DeepCopyInto L)"
  unfolding AccessDetail_view_def AccessDetail_DeepCopyInto_def by (intro struct_rules copiers; (simp | assumption))

lemma AccessDetail_DeepCopy_copies: "library_copies L V \<Longrightarrow> deep_copier (view_ref AccessDetail_kind (AccessDetail_view V)) (AccessDetail_DeepCopy L)"
  unfolding AccessDetail_DeepCopy_def by (intro copiers; (simp | assumption))

text \<open>\<open>AccessKey\<close>\<close>

definition AccessKey_DeepCopyInto :: "'l library \<Rightarrow> ('l cell, AccessKey) copier" where
  "AccessKey_DeepCopyInto L = copy_struct [
     copy_field AccessKey_CreateDate AccessKey_CreateDate_update (copy_pointer (Time_DeepCopy L)),
     copy_field AccessKey_UserName AccessKey_UserName_update copy_string]"

definition AccessKey_DeepCopy :: "'l library \<Rightarrow> ('l cell, AccessKey ref) copier" where
  "AccessKey_DeepCopy L = copy_new AccessKey_kind (AccessKey_DeepCopyInto L)"

definition AccessKey_view :: "'l library_views \<Rightarrow> ('l cell, AccessKey, val) view" where
  "AccessKey_view V = view_struct [
     view_field AccessKey_CreateDate (view_ref Foreign_kind (Time_view V)),
     view_field AccessKey_UserName view_string]"

lemma AccessKey_DeepCopyInto_copies [copiers]: "library_copies L V \<Longrightarrow> deep_copier (AccessKey_view V) (AccessKey_DeepCopyInto L)"
  unfolding AccessKey_view_def AccessKey_DeepCopyInto_def by (intro struct_rules copiers; (simp | assumption))

lemma AccessKey_DeepCopy_copies: "library_copies L V \<Longrightarrow> deep_copier (view_ref AccessKey_kind (AccessKey_view V)) (AccessKey_DeepCopy L)"
  unfolding AccessKey_DeepCopy_def by (intro copiers; (simp | assumption))

text \<open>\<open>AccessKeyLastUsed\<close>\<close>

definition AccessKeyLastUsed_DeepCopyInto :: "'l library \<Rightarrow> ('l cell, AccessKeyLastUsed) copier" where
  "AccessKeyLastUsed_DeepCopyInto L = copy_struct [
     copy_field AccessKeyLastUsed_LastUsedDate AccessKeyLastUsed_LastUsedDate_update (copy_pointer (Time_DeepCopy L)),
     copy_field AccessKeyLastUsed_Region AccessKeyLastUsed_Region_update copy_string,
     copy_field AccessKeyLastUsed_ServiceName AccessKeyLastUsed_ServiceName_update copy_string]"

definition AccessKeyLastUsed_DeepCopy :: "'l library \<Rightarrow> ('l cell, AccessKeyLastUsed ref) copier" where
  "AccessKeyLastUsed_DeepCopy L = copy_new AccessKeyLastUsed_kind (AccessKeyLastUsed_DeepCopyInto L)"

definition AccessKeyLastUsed_view :: "'l library_views \<Rightarrow> ('l cell, AccessKeyLastUsed, val) view" where
  "AccessKeyLastUsed_view V = view_struct [
     view_field AccessKeyLastUsed_LastUsedDate (view_ref Foreign_kind (Time_view V)),
     view_field AccessKeyLastUsed_Region view_string,
     view_field AccessKeyLastUsed_ServiceName view_string]"

lemma AccessKeyLastUsed_DeepCopyInto_copies [copiers]: "library_copies L V \<Longrightarrow> deep_copier (AccessKeyLastUsed_view V) (AccessKeyLastUsed_DeepCopyInto L)"
  unfolding AccessKeyLastUsed_view_def AccessKeyLastUsed_DeepCopyInto_def by (intro struct_rules copiers; (simp | assumption))

lemma AccessKeyLastUsed_DeepCopy_copies: "library_copies L V \<Longrightarrow> deep_copier (view_ref AccessKeyLastUsed_kind (AccessKeyLastUsed_view V)) (AccessKeyLastUsed_DeepCopy L)"
  unfolding AccessKeyLastUsed_DeepCopy_def by (intro copiers; (simp | assumption))

text \<open>\<open>AccessKeyMetadata\<close>\<close>

definition AccessKeyMetadata_DeepCopyInto :: "'l library \<Rightarrow> ('l cell, AccessKeyMetadata) copier" where
  "AccessKeyMetadata_DeepCopyInto L = copy_struct [
     copy_field AccessKeyMetadata_CreateDate AccessKeyMetadata_CreateDate_update (copy_pointer (Time_DeepCopy L)),
     copy_field AccessKeyMetadata_UserName AccessKeyMetadata_UserName_update copy_string]"

definition AccessKeyMetadata_DeepCopy :: "'l library \<Rightarrow> ('l cell, AccessKeyMetadata ref) copier" where
  "AccessKeyMetadata_DeepCopy L = copy_new AccessKeyMetadata_kind (AccessKeyMetadata_DeepCopyInto L)"

definition AccessKeyMetadata_view :: "'l library_views \<Rightarrow> ('l cell, AccessKeyMetadata, val) view" where
  "AccessKeyMetadata_view V = view_struct [
     view_field AccessKeyMetadata_CreateDate (view_ref Foreign_kind (Time_view V)),
     view_field AccessKeyMetadata_UserName view_string]"

lemma AccessKeyMetadata_DeepCopyInto_copies [copiers]: "library_copies L V \<Longrightarrow> deep_copier (AccessKeyMetadata_view V) (AccessKeyMetadata_DeepCopyInto L)"
  unfolding AccessKeyMetadata_view_def AccessKeyMetadata_DeepCopyInto_def by (intro struct_rules copiers; (simp | assumption))

lemma AccessKeyMetadata_DeepCopy_copies: "library_copies L V \<Longrightarrow> deep_copier (view_ref AccessKeyMetadata_kind (AccessKeyMetadata_view V)) (AccessKeyMetadata_DeepCopy L)"
  unfolding AccessKeyMetadata_DeepCopy_def by (intro copiers; (simp | assumption))

text \<open>\<open>AttachedPermissionsBoundary\<close>\<close>

definition AttachedPermissionsBoundary_DeepCopyInto :: "('l cell, AttachedPermissionsBoundary) copier" where
  "AttachedPermissionsBoundary_DeepCopyInto = copy_struct [
     copy_field AttachedPermissionsBoundary_PermissionsBoundaryARN AttachedPermissionsBoundary_PermissionsBoundaryARN_update copy_string,
     copy_field AttachedPermissionsBoundary_PermissionsBoundaryType AttachedPermissionsBoundary_PermissionsBoundaryType_update copy_string]"

definition AttachedPermissionsBoundary_DeepCopy :: "('l cell, AttachedPermissionsBoundary ref) copier" where
  "AttachedPermissionsBoundary_DeepCopy = copy_new AttachedPermissionsBoundary_kind AttachedPermissionsBoundary_DeepCopyInto"

definition AttachedPermissionsBoundary_view :: "('l cell, AttachedPermissionsBoundary, val) view" where
  "AttachedPermissionsBoundary_view = view_struct [
     view_field AttachedPermissionsBoundary_PermissionsBoundaryARN view_string,
     view_field AttachedPermissionsBoundary_PermissionsBoundaryType view_string]"

lemma AttachedPermissionsBoundary_DeepCopyInto_copies [copiers]: "deep_copier AttachedPermissionsBoundary_view AttachedPermissionsBoundary_DeepCopyInto"
  unfolding AttachedPermissionsBoundary_view_def AttachedPermissionsBoundary_DeepCopyInto_def by (intro struct_rules copiers; (simp | assumption))

lemma AttachedPermissionsBoundary_DeepCopy_copies: "deep_copier (view_ref AttachedPermissionsBoundary_kind AttachedPermissionsBoundary_view) AttachedPermissionsBoundary_DeepCopy"
  unfolding AttachedPermissionsBoundary_DeepCopy_def by (intro copiers; (simp | assumption))

text \<open>\<open>AttachedPolicy\<close>\<close>

definition AttachedPolicy_DeepCopyInto :: "('l cell, AttachedPolicy) copier" where
  "AttachedPolicy_DeepCopyInto = copy_struct [
     copy_field AttachedPolicy_PolicyARN AttachedPolicy_PolicyARN_update copy_string,
     copy_field AttachedPolicy_PolicyName AttachedPolicy_PolicyName_update copy_string]"

definition AttachedPolicy_DeepCopy :: "('l cell, AttachedPolicy ref) copier" where
  "AttachedPolicy_DeepCopy = copy_new AttachedPolicy_kind AttachedPolicy_DeepCopyInto"

definition AttachedPolicy_view :: "('l cell, AttachedPolicy, val) view" where
  "AttachedPolicy_view = view_struct [
     view_field AttachedPolicy_PolicyARN view_string,
     view_field AttachedPolicy_PolicyName view_string]"

lemma AttachedPolicy_DeepCopyInto_copies [copiers]: "deep_copier AttachedPolicy_view AttachedPolicy_DeepCopyInto"
  unfolding AttachedPolicy_view_def AttachedPolicy_DeepCopyInto_def by (intro struct_rules copiers; (simp | assumption))

lemma AttachedPolicy_DeepCopy_copies: "deep_copier (view_ref AttachedPolicy_kind AttachedPolicy_view) AttachedPolicy_DeepCopy"
  unfolding AttachedPolicy_DeepCopy_def by (intro copiers; (simp | assumption))

text \<open>\<open>EntityDetails\<close>\<close>

definition EntityDetails_DeepCopyInto :: "'l library \<Rightarrow> ('l cell, EntityDetails) copier" where
  "EntityDetails_DeepCopyInto L = copy_struct [
     copy_field EntityDetails_LastAuthenticated EntityDetails_LastAuthenticated_update (copy_pointer (Time_DeepCopy L))]"

definition EntityDetails_DeepCopy :: "'l library \<Rightarrow> ('l cell, EntityDetails ref) copier" where
  "EntityDetails_DeepCopy L = copy_new EntityDetails_kind (EntityDetails_DeepCopyInto L)"

definition EntityDetails_view :: "'l library_views \<Rightarrow> ('l cell, EntityDetails, val) view" where
  "EntityDetails_view V = view_struct [
     view_field EntityDetails_LastAuthenticated (view_ref Foreign_kind (Time_view V))]"

lemma EntityDetails_DeepCopyInto_copies [copiers]: "library_copies L V \<Longrightarrow> deep_copier (EntityDetails_view V) (EntityDetails_DeepCopyInto L)"
  unfolding EntityDetails_view_def EntityDetails_DeepCopyInto_def by (intro struct_rules copiers; (simp | assumption))

lemma EntityDetails_DeepCopy_copies: "library_copies L V \<Longrightarrow> deep_copier (view_ref EntityDetails_kind (EntityDetails_view V)) (EntityDetails_DeepCopy L)"
  unfolding EntityDetails_DeepCopy_def by (intro copiers; (simp | assumption))

text \<open>\<open>EntityInfo\<close>\<close>

definition EntityInfo_DeepCopyInto :: "('l cell, EntityInfo) copier" where
  "EntityInfo_DeepCopyInto = copy_struct [
     copy_field EntityInfo_ARN EntityInfo_ARN_update copy_string,
     copy_field EntityInfo_ID EntityInfo_ID_update copy_string,
     copy_field EntityInfo_Name EntityInfo_Name_update copy_string,
     copy_field EntityInfo_Path EntityInfo_Path_update copy_string]"

definition EntityInfo_DeepCopy :: "('l cell, EntityInfo ref) copier" where
  "EntityInfo_DeepCopy = copy_new EntityInfo_kind EntityInfo_DeepCopyInto"

definition EntityInfo_view :: "('l cell, EntityInfo, val) view" where
  "EntityInfo_view = view_struct [
     view_field EntityInfo_ARN view_string,
     view_field EntityInfo_ID view_string,
     view_field EntityInfo_Name view_string,
     view_field EntityInfo_Path view_string]"

lemma EntityInfo_DeepCopyInto_copies [copiers]: "deep_copier EntityInfo_view EntityInfo_DeepCopyInto"
  unfolding EntityInfo_view_def EntityInfo_DeepCopyInto_def by (intro struct_rules copiers; (simp | assumption))

lemma EntityInfo_DeepCopy_copies: "deep_copier (view_ref EntityInfo_kind EntityInfo_view) EntityInfo_DeepCopy"
  unfolding EntityInfo_DeepCopy_def by (intro copiers; (simp | assumption))

text \<open>\<open>ErrorDetails\<close>\<close>

definition ErrorDetails_DeepCopyInto :: "('l cell, ErrorDetails) copier" where
  "ErrorDetails_DeepCopyInto = copy_struct [
     copy_field ErrorDetails_Code ErrorDetails_Code_update copy_string,
     copy_field ErrorDetails_Message ErrorDetails_Message_update copy_string]"

definition ErrorDetails_DeepCopy :: "('l cell, ErrorDetails ref) copier" where
  "ErrorDetails_DeepCopy = copy_new ErrorDetails_kind ErrorDetails_DeepCopyInto"

definition ErrorDetails_view :: "('l cell, ErrorDetails, val) view" where
  "ErrorDetails_view = view_struct [
     view_field ErrorDetails_Code view_string,
     view_field ErrorDetails_Message view_string]"

lemma ErrorDetails_DeepCopyInto_copies [copiers]: "deep_copier ErrorDetails_view ErrorDetails_DeepCopyInto"
  unfolding ErrorDetails_view_def ErrorDetails_DeepCopyInto_def by (intro struct_rules copiers; (simp | assumption))

lemma ErrorDetails_DeepCopy_copies: "deep_copier (view_ref ErrorDetails_kind ErrorDetails_view) ErrorDetails_DeepCopy"
  unfolding ErrorDetails_DeepCopy_def by (intro copiers; (simp | assumption))

text \<open>\<open>GroupDetail\<close>\<close>

definition GroupDetail_DeepCopyInto :: "'l library \<Rightarrow> ('l cell, GroupDetail) copier" where
  "GroupDetail_DeepCopyInto L = copy_struct [
     copy_field GroupDetail_ARN GroupDetail_ARN_update copy_string,
     copy_field GroupDetail_CreateDate GroupDetail_CreateDate_update (copy_pointer (Time_DeepCopy L)),
     copy_field GroupDetail_GroupID GroupDetail_GroupID_update copy_string,
     copy_field GroupDetail_GroupName GroupDetail_GroupName_update copy_string,
     copy_field GroupDetail_Path GroupDetail_Path_update copy_string]"

definition GroupDetail_DeepCopy :: "'l library \<Rightarrow> ('l cell, GroupDetail ref) copier" where
  "GroupDetail_DeepCopy L = copy_new GroupDetail_kind (GroupDetail_DeepCopyInto L)"

definition GroupDetail_view :: "'l library_views \<Rightarrow> ('l cell, GroupDetail, val) view" where
  "GroupDetail_view V = view_struct [
     view_field GroupDetail_ARN view_string,
     view_field GroupDetail_CreateDate (view_ref Foreign_kind (Time_view V)),
     view_field GroupDetail_GroupID view_string,
     view_field GroupDetail_GroupName view_string,
     view_field GroupDetail_Path view_string]"

lemma GroupDetail_DeepCopyInto_copies [copiers]: "library_copies L V \<Longrightarrow> deep_copier (GroupDetail_view V) (GroupDetail_DeepCopyInto L)"
  unfolding GroupDetail_view_def GroupDetail_DeepCopyInto_def by (intro struct_rules copiers; (simp | assumption))

lemma GroupDetail_DeepCopy_copies: "library_copies L V \<Longrightarrow> deep_copier (view_ref GroupDetail_kind (GroupDetail_view V)) (GroupDetail_DeepCopy L)"
  unfolding GroupDetail_DeepCopy_def by (intro copiers; (simp | assumption))

text \<open>\<open>Group_SDK\<close>\<close>

definition Group_SDK_DeepCopyInto :: "'l library \<Rightarrow> ('l cell, Group_SDK) copier" where
  "Group_SDK_DeepCopyInto L = copy_struct [
     copy_field Group_SDK_ARN Group_SDK_ARN_update copy_string,
     copy_field Group_SDK_CreateDate Group_SDK_CreateDate_update (copy_pointer (Time_DeepCopy L)),
     copy_field Group_SDK_GroupID Group_SDK_GroupID_update copy_string,
     copy_field Group_SDK_GroupName Group_SDK_GroupName_update copy_string,
     copy_field Group_SDK_Path Group_SDK_Path_update copy_string]"

definition Group_SDK_DeepCopy :: "'l library \<Rightarrow> ('l cell, Group_SDK ref) copier" where
  "Group_SDK_DeepCopy L = copy_new Group_SDK_kind (Group_SDK_DeepCopyInto L)"

definition Group_SDK_view :: "'l library_views \<Rightarrow> ('l cell, Group_SDK, val) view" where
  "Group_SDK_view V = view_struct [
     view_field Group_SDK_ARN view_string,
     view_field Group_SDK_CreateDate (view_ref Foreign_kind (Time_view V)),
     view_field Group_SDK_GroupID view_string,
     view_field Group_SDK_GroupName view_string,
     view_field Group_SDK_Path view_string]"

lemma Group_SDK_DeepCopyInto_copies [copiers]: "library_copies L V \<Longrightarrow> deep_copier (Group_SDK_view V) (Group_SDK_DeepCopyInto L)"
  unfolding Group_SDK_view_def Group_SDK_DeepCopyInto_def by (intro struct_rules copiers; (simp | assumption))

lemma Group_SDK_DeepCopy_copies: "library_copies L V \<Longrightarrow> deep_copier (view_ref Group_SDK_kind (Group_SDK_view V)) (Group_SDK_DeepCopy L)"
  unfolding Group_SDK_DeepCopy_def by (intro copiers; (simp | assumption))

text \<open>\<open>Tag\<close>\<close>

definition Tag_DeepCopyInto :: "('l cell, Tag) copier" where
  "Tag_DeepCopyInto = copy_struct [
     copy_field Tag_Key Tag_Key_update copy_string,
     copy_field Tag_Value Tag_Value_update copy_string]"

definition Tag_DeepCopy :: "('l cell, Tag ref) copier" where
  "Tag_DeepCopy = copy_new Tag_kind Tag_DeepCopyInto"

definition Tag_view :: "('l cell, Tag, val) view" where
  "Tag_view = view_struct [
     view_field Tag_Key view_string,
     view_field Tag_Value view_string]"

lemma Tag_DeepCopyInto_copies [copiers]: "deep_copier Tag_view Tag_DeepCopyInto"
  unfolding Tag_view_def Tag_DeepCopyInto_def by (intro struct_rules copiers; (simp | assumption))

lemma Tag_DeepCopy_copies: "deep_copier (view_ref Tag_kind Tag_view) Tag_DeepCopy"
  unfolding Tag_DeepCopy_def by (intro copiers; (simp | assumption))

text \<open>\<open>InstanceProfile_SDK\<close>\<close>

definition InstanceProfile_SDK_DeepCopyInto :: "'l library \<Rightarrow> ('l cell, InstanceProfile_SDK) copier" where
  "InstanceProfile_SDK_DeepCopyInto L = copy_struct [
     copy_field InstanceProfile_SDK_ARN InstanceProfile_SDK_ARN_update copy_string,
     copy_field InstanceProfile_SDK_CreateDate InstanceProfile_SDK_CreateDate_update (copy_pointer (Time_DeepCopy L)),
     copy_field InstanceProfile_SDK_InstanceProfileID InstanceProfile_SDK_InstanceProfileID_update copy_string,
     copy_field InstanceProfile_SDK_InstanceProfileName InstanceProfile_SDK_InstanceProfileName_update copy_string,
     copy_field InstanceProfile_SDK_Path InstanceProfile_SDK_Path_update copy_string,
     copy_field InstanceProfile_SDK_Tags InstanceProfile_SDK_Tags_update (copy_refs (copy_new Tag_kind Tag_DeepCopyInto))]"

definition InstanceProfile_SDK_DeepCopy :: "'l library \<Rightarrow> ('l cell, InstanceProfile_SDK ref) copier" where
  "InstanceProfile_SDK_DeepCopy L = copy_new InstanceProfile_SDK_kind (InstanceProfile_SDK_DeepCopyInto L)"

definition InstanceProfile_SDK_view :: "'l library_views \<Rightarrow> ('l cell, InstanceProfile_SDK, val) view" where
  "InstanceProfile_SDK_view V = view_struct [
     view_field InstanceProfile_SDK_ARN view_string,
     view_field InstanceProfile_SDK_CreateDate (view_ref Foreign_kind (Time_view V)),
     view_field InstanceProfile_SDK_InstanceProfileID view_string,
     view_field InstanceProfile_SDK_InstanceProfileName view_string,
     view_field InstanceProfile_SDK_Path view_string,
     view_field InstanceProfile_SDK_Tags (view_refs (view_ref Tag_kind Tag_view))]"

lemma InstanceProfile_SDK_DeepCopyInto_copies [copiers]: "library_copies L V \<Longrightarrow> deep_copier (InstanceProfile_SDK_view V) (InstanceProfile_SDK_DeepCopyInto L)"
  unfolding InstanceProfile_SDK_view_def InstanceProfile_SDK_DeepCopyInto_def by (intro struct_rules copiers; (simp | assumption))

lemma InstanceProfile_SDK_DeepCopy_copies: "library_copies L V \<Longrightarrow> deep_copier (view_ref InstanceProfile_SDK_kind (InstanceProfile_SDK_view V)) (InstanceProfile_SDK_DeepCopy L)"
  unfolding InstanceProfile_SDK_DeepCopy_def by (intro copiers; (simp | assumption))

text \<open>\<open>LoginProfile\<close>\<close>

definition LoginProfile_DeepCopyInto :: "'l library \<Rightarrow> ('l cell, LoginProfile) copier" where
  "LoginProfile_DeepCopyInto L = copy_struct [
     copy_field LoginProfile_CreateDate LoginProfile_CreateDate_update (copy_pointer (Time_DeepCopy L)),
     copy_field LoginProfile_PasswordResetRequired LoginProfile_PasswordResetRequired_update copy_bool,
     copy_field LoginProfile_UserName LoginProfile_UserName_update copy_string]"

definition LoginProfile_DeepCopy :: "'l library \<Rightarrow> ('l cell, LoginProfile ref) copier" where
  "LoginProfile_DeepCopy L = copy_new LoginProfile_kind (LoginProfile_DeepCopyInto L)"

definition LoginProfile_view :: "'l library_views \<Rightarrow> ('l cell, LoginProfile, val) view" where
  "LoginProfile_view V = view_struct [
     view_field LoginProfile_CreateDate (view_ref Foreign_kind (Time_view V)),
     view_field LoginProfile_PasswordResetRequired view_bool,
     view_field LoginProfile_UserName view_string]"

lemma LoginProfile_DeepCopyInto_copies [copiers]: "library_copies L V \<Longrightarrow> deep_copier (LoginProfile_view V) (LoginProfile_DeepCopyInto L)"
  unfolding LoginProfile_view_def LoginProfile_DeepCopyInto_def by (intro struct_rules copiers; (simp | assumption))

lemma LoginProfile_DeepCopy_copies: "library_copies L V \<Longrightarrow> deep_copier (view_ref LoginProfile_kind (LoginProfile_view V)) (LoginProfile_DeepCopy L)"
  unfolding LoginProfile_DeepCopy_def by (intro copiers; (simp | assumption))

text \<open>\<open>MFADevice\<close>\<close>

definition MFADevice_DeepCopyInto :: "'l library \<Rightarrow> ('l cell, MFADevice) copier" where
  "MFADevice_DeepCopyInto L = copy_struct [
     copy_field MFADevice_EnableDate MFADevice_EnableDate_update (copy_pointer (Time_DeepCopy L)),
     copy_field MFADevice_UserName MFADevice_UserName_update copy_string]"

definition MFADevice_DeepCopy :: "'l library \<Rightarrow> ('l cell, MFADevice ref) copier" where
  "MFADevice_DeepCopy L = copy_new MFADevice_kind (MFADevice_DeepCopyInto L)"

definition MFADevice_view :: "'l library_views \<Rightarrow> ('l cell, MFADevice, val) view" where
  "MFADevice_view V = view_struct [
     view_field MFADevice_EnableDate (view_ref Foreign_kind (Time_view V)),
     view_field MFADevice_UserName view_string]"

lemma MFADevice_DeepCopyInto_copies [copiers]: "library_copies L V \<Longrightarrow> deep_copier (MFADevice_view V) (MFADevice_DeepCopyInto L)"
  unfolding MFADevice_view_def MFADevice_DeepCopyInto_def by (intro struct_rules copiers; (simp | assumption))

lemma MFADevice_DeepCopy_copies: "library_copies L V \<Longrightarrow> deep_copier (view_ref MFADevice_kind (MFADevice_view V)) (MFADevice_DeepCopy L)"
  unfolding MFADevice_DeepCopy_def by (intro copiers; (simp | assumption))

text \<open>\<open>ManagedPolicyDetail\<close>\<close>

definition ManagedPolicyDetail_DeepCopyInto :: "'l library \<Rightarrow> ('l cell, ManagedPolicyDetail) copier" where
  "ManagedPolicyDetail_DeepCopyInto L = copy_struct [
     copy_field ManagedPolicyDetail_ARN ManagedPolicyDetail_ARN_update copy_string,
     copy_field ManagedPolicyDetail_AttachmentCount ManagedPolicyDetail_AttachmentCount_update copy_int64,
     copy_field ManagedPolicyDetail_CreateDate ManagedPolicyDetail_CreateDate_update (copy_pointer (Time_DeepCopy L)),
     copy_field ManagedPolicyDetail_DefaultVersionID ManagedPolicyDetail_DefaultVersionID_update copy_string,
     copy_field ManagedPolicyDetail_Description ManagedPolicyDetail_Description_update copy_string,
     copy_field ManagedPolicyDetail_IsAttachable ManagedPolicyDetail_IsAttachable_update copy_bool,
     copy_field ManagedPolicyDetail_Path ManagedPolicyDetail_Path_update copy_string,
     copy_field ManagedPolicyDetail_PermissionsBoundaryUsageCount ManagedPolicyDetail_PermissionsBoundaryUsageCount_update copy_int64,
     copy_field ManagedPolicyDetail_PolicyID ManagedPolicyDetail_PolicyID_update copy_string,
     copy_field ManagedPolicyDetail_PolicyName ManagedPolicyDetail_PolicyName_update copy_string,
     copy_field ManagedPolicyDetail_UpdateDate ManagedPolicyDetail_UpdateDate_update (copy_pointer (Time_DeepCopy L))]"

definition ManagedPolicyDetail_DeepCopy :: "'l library \<Rightarrow> ('l cell, ManagedPolicyDetail ref) copier" where
  "ManagedPolicyDetail_DeepCopy L = copy_new ManagedPolicyDetail_kind (ManagedPolicyDetail_DeepCopyInto L)"

definition ManagedPolicyDetail_view :: "'l library_views \<Rightarrow> ('l cell, ManagedPolicyDetail, val) view" where
  "ManagedPolicyDetail_view V = view_struct [
     view_field ManagedPolicyDetail_ARN view_string,
     view_field ManagedPolicyDetail_AttachmentCount view_int64,
     view_field ManagedPolicyDetail_CreateDate (view_ref Foreign_kind (Time_view V)),
     view_field ManagedPolicyDetail_DefaultVersionID view_string,
     view_field ManagedPolicyDetail_Description view_string,
     view_field ManagedPolicyDetail_IsAttachable view_bool,
     view_field ManagedPolicyDetail_Path view_string,
     view_field ManagedPolicyDetail_PermissionsBoundaryUsageCount view_int64,
     view_field ManagedPolicyDetail_PolicyID view_string,
     view_field ManagedPolicyDetail_PolicyName view_string,
     view_field ManagedPolicyDetail_UpdateDate (view_ref Foreign_kind (Time_view V))]"

lemma ManagedPolicyDetail_DeepCopyInto_copies [copiers]: "library_copies L V \<Longrightarrow> deep_copier (ManagedPolicyDetail_view V) (ManagedPolicyDetail_DeepCopyInto L)"
  unfolding ManagedPolicyDetail_view_def ManagedPolicyDetail_DeepCopyInto_def by (intro struct_rules copiers; (simp | assumption))

lemma ManagedPolicyDetail_DeepCopy_copies: "library_copies L V \<Longrightarrow> deep_copier (view_ref ManagedPolicyDetail_kind (ManagedPolicyDetail_view V)) (ManagedPolicyDetail_DeepCopy L)"
  unfolding ManagedPolicyDetail_DeepCopy_def by (intro copiers; (simp | assumption))

text \<open>\<open>OpenIDConnectProviderListEntry\<close>\<close>

definition OpenIDConnectProviderListEntry_DeepCopyInto :: "('l cell, OpenIDConnectProviderListEntry) copier" where
  "OpenIDConnectProviderListEntry_DeepCopyInto = copy_struct [
     copy_field OpenIDConnectProviderListEntry_ARN OpenIDConnectProviderListEntry_ARN_update copy_string]"

definition OpenIDConnectProviderListEntry_DeepCopy :: "('l cell, OpenIDConnectProviderListEntry ref) copier" where
  "OpenIDConnectProviderListEntry_DeepCopy = copy_new OpenIDConnectProviderListEntry_kind OpenIDConnectProviderListEntry_DeepCopyInto"

definition OpenIDConnectProviderListEntry_view :: "('l cell, OpenIDConnectProviderListEntry, val) view" where
  "OpenIDConnectProviderListEntry_view = view_struct [
     view_field OpenIDConnectProviderListEntry_ARN view_string]"

lemma OpenIDConnectProviderListEntry_DeepCopyInto_copies [copiers]: "deep_copier OpenIDConnectProviderListEntry_view OpenIDConnectProviderListEntry_DeepCopyInto"
  unfolding OpenIDConnectProviderListEntry_view_def OpenIDConnectProviderListEntry_DeepCopyInto_def by (intro struct_rules copiers; (simp | assumption))

lemma OpenIDConnectProviderListEntry_DeepCopy_copies: "deep_copier (view_ref OpenIDConnectProviderListEntry_kind OpenIDConnectProviderListEntry_view) OpenIDConnectProviderListEntry_DeepCopy"
  unfolding OpenIDConnectProviderListEntry_DeepCopy_def by (intro copiers; (simp | assumption))

text \<open>\<open>OrganizationsDecisionDetail\<close>\<close>

definition OrganizationsDecisionDetail_DeepCopyInto :: "('l cell, OrganizationsDecisionDetail) copier" where
  "OrganizationsDecisionDetail_DeepCopyInto = copy_struct [
     copy_field OrganizationsDecisionDetail_AllowedByOrganizations OrganizationsDecisionDetail_AllowedByOrganizations_update copy_bool]"

definition OrganizationsDecisionDetail_DeepCopy :: "('l cell, OrganizationsDecisionDetail ref) copier" where
  "OrganizationsDecisionDetail_DeepCopy = copy_new OrganizationsDecisionDetail_kind OrganizationsDecisionDetail_DeepCopyInto"

definition OrganizationsDecisionDetail_view :: "('l cell, OrganizationsDecisionDetail, val) view" where
  "OrganizationsDecisionDetail_view = view_struct [
     view_field OrganizationsDecisionDetail_AllowedByOrganizations view_bool]"

lemma OrganizationsDecisionDetail_DeepCopyInto_copies [copiers]: "deep_copier OrganizationsDecisionDetail_view OrganizationsDecisionDetail_DeepCopyInto"
  unfolding OrganizationsDecisionDetail_view_def OrganizationsDecisionDetail_DeepCopyInto_def by (intro struct_rules copiers; (simp | assumption))

lemma OrganizationsDecisionDetail_DeepCopy_copies: "deep_copier (view_ref OrganizationsDecisionDetail_kind OrganizationsDecisionDetail_view) OrganizationsDecisionDetail_DeepCopy"
  unfolding OrganizationsDecisionDetail_DeepCopy_def by (intro copiers; (simp | assumption))

text \<open>\<open>PasswordPolicy\<close>\<close>

definition PasswordPolicy_DeepCopyInto :: "('l cell, PasswordPolicy) copier" where
  "PasswordPolicy_DeepCopyInto = copy_struct [
     copy_field PasswordPolicy_AllowUsersToChangePassword PasswordPolicy_AllowUsersToChangePassword_update copy_bool,
     copy_field PasswordPolicy_ExpirePasswords PasswordPolicy_ExpirePasswords_update copy_bool,
     copy_field PasswordPolicy_RequireLowercaseCharacters PasswordPolicy_RequireLowercaseCharacters_update copy_bool,
     copy_field PasswordPolicy_RequireNumbers PasswordPolicy_RequireNumbers_update copy_bool,
     copy_field PasswordPolicy_RequireSymbols PasswordPolicy_RequireSymbols_update copy_bool,
     copy_field PasswordPolicy_RequireUppercaseCharacters PasswordPolicy_RequireUppercaseCharacters_update copy_bool]"

definition PasswordPolicy_DeepCopy :: "('l cell, PasswordPolicy ref) copier" where
  "PasswordPolicy_DeepCopy = copy_new PasswordPolicy_kind PasswordPolicy_DeepCopyInto"

definition PasswordPolicy_view :: "('l cell, PasswordPolicy, val) view" where
  "PasswordPolicy_view = view_struct [
     view_field PasswordPolicy_AllowUsersToChangePassword view_bool,
     view_field PasswordPolicy_ExpirePasswords view_bool,
     view_field PasswordPolicy_RequireLowercaseCharacters view_bool,
     view_field PasswordPolicy_RequireNumbers view_bool,
     view_field PasswordPolicy_RequireSymbols view_bool,
     view_field PasswordPolicy_RequireUppercaseCharacters view_bool]"

lemma PasswordPolicy_DeepCopyInto_copies [copiers]: "deep_copier PasswordPolicy_view PasswordPolicy_DeepCopyInto"
  unfolding PasswordPolicy_view_def PasswordPolicy_DeepCopyInto_def by (intro struct_rules copiers; (simp | assumption))

lemma PasswordPolicy_DeepCopy_copies: "deep_copier (view_ref PasswordPolicy_kind PasswordPolicy_view) PasswordPolicy_DeepCopy"
  unfolding PasswordPolicy_DeepCopy_def by (intro copiers; (simp | assumption))

text \<open>\<open>PermissionsBoundaryDecisionDetail\<close>\<close>

definition PermissionsBoundaryDecisionDetail_DeepCopyInto :: "('l cell, PermissionsBoundaryDecisionDetail) copier" where
  "PermissionsBoundaryDecisionDetail_DeepCopyInto = copy_struct [
     copy_field PermissionsBoundaryDecisionDetail_AllowedByPermissionsBoundary PermissionsBoundaryDecisionDetail_AllowedByPermissionsBoundary_update copy_bool]"

definition PermissionsBoundaryDecisionDetail_DeepCopy :: "('l cell, PermissionsBoundaryDecisionDetail ref) copier" where
  "PermissionsBoundaryDecisionDetail_DeepCopy = copy_new PermissionsBoundaryDecisionDetail_kind PermissionsBoundaryDecisionDetail_DeepCopyInto"

definition PermissionsBoundaryDecisionDetail_view :: "('l cell, PermissionsBoundaryDecisionDetail, val) view" where
  "PermissionsBoundaryDecisionDetail_view = view_struct [
     view_field PermissionsBoundaryDecisionDetail_AllowedByPermissionsBoundary view_bool]"

lemma PermissionsBoundaryDecisionDetail_DeepCopyInto_copies [copiers]: "deep_copier PermissionsBoundaryDecisionDetail_view PermissionsBoundaryDecisionDetail_DeepCopyInto"
  unfolding PermissionsBoundaryDecisionDetail_view_def PermissionsBoundaryDecisionDetail_DeepCopyInto_def by (intro struct_rules copiers; (simp | assumption))

lemma PermissionsBoundaryDecisionDetail_DeepCopy_copies: "deep_copier (view_ref PermissionsBoundaryDecisionDetail_kind PermissionsBoundaryDecisionDetail_view) PermissionsBoundaryDecisionDetail_DeepCopy"
  unfolding PermissionsBoundaryDecisionDetail_DeepCopy_def by (intro copiers; (simp | assumption))

text \<open>\<open>PolicyDetail\<close>\<close>

definition PolicyDetail_DeepCopyInto :: "('l cell, PolicyDetail) copier" where
  "PolicyDetail_DeepCopyInto = copy_struct [
     copy_field PolicyDetail_PolicyDocument PolicyDetail_PolicyDocument_update copy_string,
     copy_field PolicyDetail_PolicyName PolicyDetail_PolicyName_update copy_string]"

definition PolicyDetail_DeepCopy :: "('l cell, PolicyDetail ref) copier" where
  "PolicyDetail_DeepCopy = copy_new PolicyDetail_kind PolicyDetail_DeepCopyInto"

definition PolicyDetail_view :: "('l cell, PolicyDetail, val) view" where
  "PolicyDetail_view = view_struct [
     view_field PolicyDetail_PolicyDocument view_string,
     view_field PolicyDetail_PolicyName view_string]"

lemma PolicyDetail_DeepCopyInto_copies [copiers]: "deep_copier PolicyDetail_view PolicyDetail_DeepCopyInto"
  unfolding PolicyDetail_view_def PolicyDetail_DeepCopyInto_def by (intro struct_rules copiers; (simp | assumption))

lemma PolicyDetail_DeepCopy_copies: "deep_copier (view_ref PolicyDetail_kind PolicyDetail_view) PolicyDetail_DeepCopy"
  unfolding PolicyDetail_DeepCopy_def by (intro copiers; (simp | assumption))

text \<open>\<open>PolicyGrantingServiceAccess\<close>\<close>

definition PolicyGrantingServiceAccess_DeepCopyInto :: "('l cell, PolicyGrantingServiceAccess) copier" where
  "PolicyGrantingServiceAccess_DeepCopyInto = copy_struct [
     copy_field PolicyGrantingServiceAccess_PolicyARN PolicyGrantingServiceAccess_PolicyARN_update copy_string,
     copy_field PolicyGrantingServiceAccess_PolicyName PolicyGrantingServiceAccess_PolicyName_update copy_string]"

definition PolicyGrantingServiceAccess_DeepCopy :: "('l cell, PolicyGrantingServiceAccess ref) copier" where
  "PolicyGrantingServiceAccess_DeepCopy = copy_new PolicyGrantingServiceAccess_kind PolicyGrantingServiceAccess_DeepCopyInto"

definition PolicyGrantingServiceAccess_view :: "('l cell, PolicyGrantingServiceAccess, val) view" where
  "PolicyGrantingServiceAccess_view = view_struct [
     view_field PolicyGrantingServiceAccess_PolicyARN view_string,
     view_field PolicyGrantingServiceAccess_PolicyName view_string]"

lemma PolicyGrantingServiceAccess_DeepCopyInto_copies [copiers]: "deep_copier PolicyGrantingServiceAccess_view PolicyGrantingServiceAccess_DeepCopyInto"
  unfolding PolicyGrantingServiceAccess_view_def PolicyGrantingServiceAccess_DeepCopyInto_def by (intro struct_rules copiers; (simp | assumption))

lemma PolicyGrantingServiceAccess_DeepCopy_copies: "deep_copier (view_ref PolicyGrantingServiceAccess_kind PolicyGrantingServiceAccess_view) PolicyGrantingServiceAccess_DeepCopy"
  unfolding PolicyGrantingServiceAccess_DeepCopy_def by (intro copiers; (simp | assumption))

text \<open>\<open>PolicyGroup\<close>\<close>

definition PolicyGroup_DeepCopyInto :: "('l cell, PolicyGroup) copier" where
  "PolicyGroup_DeepCopyInto = copy_struct [
     copy_field PolicyGroup_GroupID PolicyGroup_GroupID_update copy_string,
     copy_field PolicyGroup_GroupName PolicyGroup_GroupName_update copy_string]"

definition PolicyGroup_DeepCopy :: "('l cell, PolicyGroup ref) copier" where
  "PolicyGroup_DeepCopy = copy_new PolicyGroup_kind PolicyGroup_DeepCopyInto"

definition PolicyGroup_view :: "('l cell, PolicyGroup, val) view" where
  "PolicyGroup_view = view_struct [
     view_field PolicyGroup_GroupID view_string,
     view_field PolicyGroup_GroupName view_string]"

lemma PolicyGroup_DeepCopyInto_copies [copiers]: "deep_copier PolicyGroup_view PolicyGroup_DeepCopyInto"
  unfolding PolicyGroup_view_def PolicyGroup_DeepCopyInto_def by (intro struct_rules copiers; (simp | assumption))

lemma PolicyGroup_DeepCopy_copies: "deep_copier (view_ref PolicyGroup_kind PolicyGroup_view) PolicyGroup_DeepCopy"
  unfolding PolicyGroup_DeepCopy_def by (intro copiers; (simp | assumption))

text \<open>\<open>PolicyRole\<close>\<close>

definition PolicyRole_DeepCopyInto :: "('l cell, PolicyRole) copier" where
  "PolicyRole_DeepCopyInto = copy_struct [
     copy_field PolicyRole_RoleID PolicyRole_RoleID_update copy_string,
     copy_field PolicyRole_RoleName PolicyRole_RoleName_update copy_string]"

definition PolicyRole_DeepCopy :: "('l cell, PolicyRole ref) copier" where
  "PolicyRole_DeepCopy = copy_new PolicyRole_kind PolicyRole_DeepCopyInto"

definition PolicyRole_view :: "('l cell, PolicyRole, val) view" where
  "PolicyRole_view = view_struct [
     view_field PolicyRole_RoleID view_string,
     view_field PolicyRole_RoleName view_string]"

lemma PolicyRole_DeepCopyInto_copies [copiers]: "deep_copier PolicyRole_view PolicyRole_DeepCopyInto"
  unfolding PolicyRole_view_def PolicyRole_DeepCopyInto_def by (intro struct_rules copiers; (simp | assumption))

lemma PolicyRole_DeepCopy_copies: "deep_copier (view_ref PolicyRole_kind PolicyRole_view) PolicyRole_DeepCopy"
  unfolding PolicyRole_DeepCopy_def by (intro copiers; (simp | assumption))

text \<open>\<open>PolicyUser\<close>\<close>

definition PolicyUser_DeepCopyInto :: "('l cell, PolicyUser) copier" where
  "PolicyUser_DeepCopyInto = copy_struct [
     copy_field PolicyUser_UserID PolicyUser_UserID_update copy_string,
     copy_field PolicyUser_UserName PolicyUser_UserName_update copy_string]"

definition PolicyUser_DeepCopy :: "('l cell, PolicyUser ref) copier" where
  "PolicyUser_DeepCopy = copy_new PolicyUser_kind PolicyUser_DeepCopyInto"

definition PolicyUser_view :: "('l cell, PolicyUser, val) view" where
  "PolicyUser_view = view_struct [
     view_field PolicyUser_UserID view_string,
     view_field PolicyUser_UserName view_string]"

lemma PolicyUser_DeepCopyInto_copies [copiers]: "deep_copier PolicyUser_view PolicyUser_DeepCopyInto"
  unfolding PolicyUser_view_def PolicyUser_DeepCopyInto_def by (intro struct_rules copiers; (simp | assumption))

lemma PolicyUser_DeepCopy_copies: "deep_copier (view_ref PolicyUser_kind PolicyUser_view) PolicyUser_DeepCopy"
  unfolding PolicyUser_DeepCopy_def by (intro copiers; (simp | assumption))

text \<open>\<open>PolicyVersion\<close>\<close>

definition PolicyVersion_DeepCopyInto :: "'l library \<Rightarrow> ('l cell, PolicyVersion) copier" where
  "PolicyVersion_DeepCopyInto L = copy_struct [
     copy_field PolicyVersion_CreateDate PolicyVersion_CreateDate_update (copy_pointer (Time_DeepCopy L)),
     copy_field PolicyVersion_Document PolicyVersion_Document_update copy_string,
     copy_field PolicyVersion_IsDefaultVersion PolicyVersion_IsDefaultVersion_update copy_bool,
     copy_field PolicyVersion_VersionID PolicyVersion_VersionID_update copy_string]"

definition PolicyVersion_DeepCopy :: "'l library \<Rightarrow> ('l cell, PolicyVersion ref) copier" where
  "PolicyVersion_DeepCopy L = copy_new PolicyVersion_kind (PolicyVersion_DeepCopyInto L)"

definition PolicyVersion_view :: "'l library_views \<Rightarrow> ('l cell, PolicyVersion, val) view" where
  "PolicyVersion_view V = view_struct [
     view_field PolicyVersion_CreateDate (view_ref Foreign_kind (Time_view V)),
     view_field PolicyVersion_Document view_string,
     view_field PolicyVersion_IsDefaultVersion view_bool,
     view_field PolicyVersion_VersionID view_string]"

lemma PolicyVersion_DeepCopyInto_copies [copiers]: "library_copies L V \<Longrightarrow> deep_copier (PolicyVersion_view V) (PolicyVersion_DeepCopyInto L)"
  unfolding PolicyVersion_view_def PolicyVersion_DeepCopyInto_def by (intro struct_rules copiers; (simp | assumption))

lemma PolicyVersion_DeepCopy_copies: "library_copies L V \<Longrightarrow> deep_copier (view_ref PolicyVersion_kind (PolicyVersion_view V)) (PolicyVersion_DeepCopy L)"
  unfolding PolicyVersion_DeepCopy_def by (intro copiers; (simp | assumption))

text \<open>\<open>Policy_SDK\<close>\<close>

definition Policy_SDK_DeepCopyInto :: "'l library \<Rightarrow> ('l cell, Policy_SDK) copier" where
  "Policy_SDK_DeepCopyInto L = copy_struct [
     copy_field Policy_SDK_ARN Policy_SDK_ARN_update copy_string,
     copy_field Policy_SDK_AttachmentCount Policy_SDK_AttachmentCount_update copy_int64,
     copy_field Policy_SDK_CreateDate Policy_SDK_CreateDate_update (copy_pointer (Time_DeepCopy L)),
     copy_field Policy_SDK_DefaultVersionID Policy_SDK_DefaultVersionID_update copy_string,
     copy_field Policy_SDK_Description Policy_SDK_Description_update copy_string,
     copy_field Policy_SDK_IsAttachable Policy_SDK_IsAttachable_update copy_bool,
     copy_field Policy_SDK_Path Policy_SDK_Path_update copy_string,
     copy_field Policy_SDK_PermissionsBoundaryUsageCount Policy_SDK_PermissionsBoundaryUsageCount_update copy_int64,
     copy_field Policy_SDK_PolicyID Policy_SDK_PolicyID_update copy_string,
     copy_field Policy_SDK_PolicyName Policy_SDK_PolicyName_update copy_string,
     copy_field Policy_SDK_Tags Policy_SDK_Tags_update (copy_refs (copy_new Tag_kind Tag_DeepCopyInto)),
     copy_field Policy_SDK_UpdateDate Policy_SDK_UpdateDate_update (copy_pointer (Time_DeepCopy L))]"

definition Policy_SDK_DeepCopy :: "'l library \<Rightarrow> ('l cell, Policy_SDK ref) copier" where
  "Policy_SDK_DeepCopy L = copy_new Policy_SDK_kind (Policy_SDK_DeepCopyInto L)"

definition Policy_SDK_view :: "'l library_views \<Rightarrow> ('l cell, Policy_SDK, val) view" where
  "Policy_SDK_view V = view_struct [
     view_field Policy_SDK_ARN view_string,
     view_field Policy_SDK_AttachmentCount view_int64,
     view_field Policy_SDK_CreateDate (view_ref Foreign_kind (Time_view V)),
     view_field Policy_SDK_DefaultVersionID view_string,
     view_field Policy_SDK_Description view_string,
     view_field Policy_SDK_IsAttachable view_bool,
     view_field Policy_SDK_Path view_string,
     view_field Policy_SDK_PermissionsBoundaryUsageCount view_int64,
     view_field Policy_SDK_PolicyID view_string,
     view_field Policy_SDK_PolicyName view_string,
     view_field Policy_SDK_Tags (view_refs (view_ref Tag_kind Tag_view)),
     view_field Policy_SDK_UpdateDate (view_ref Foreign_kind (Time_view V))]"

lemma Policy_SDK_DeepCopyInto_copies [copiers]: "library_copies L V \<Longrightarrow> deep_copier (Policy_SDK_view V) (Policy_SDK_DeepCopyInto L)"
  unfolding Policy_SDK_view_def Policy_SDK_DeepCopyInto_def by (intro struct_rules copiers; (simp | assumption))

lemma Policy_SDK_DeepCopy_copies: "library_copies L V \<Longrightarrow> deep_copier (view_ref Policy_SDK_kind (Policy_SDK_view V)) (Policy_SDK_DeepCopy L)"
  unfolding Policy_SDK_DeepCopy_def by (intro copiers; (simp | assumption))

text \<open>\<open>RoleLastUsed\<close>\<close>

definition RoleLastUsed_DeepCopyInto :: "'l library \<Rightarrow> ('l cell, RoleLastUsed) copier" where
  "RoleLastUsed_DeepCopyInto L = copy_struct [
     copy_field RoleLastUsed_LastUsedDate RoleLastUsed_LastUsedDate_update (copy_pointer (Time_DeepCopy L)),
     copy_field RoleLastUsed_Region RoleLastUsed_Region_update copy_string]"

definition RoleLastUsed_DeepCopy :: "'l library \<Rightarrow> ('l cell, RoleLastUsed ref) copier" where
  "RoleLastUsed_DeepCopy L = copy_new RoleLastUsed_kind (RoleLastUsed_DeepCopyInto L)"

definition RoleLastUsed_view :: "'l library_views \<Rightarrow> ('l cell, RoleLastUsed, val) view" where
  "RoleLastUsed_view V = view_struct [
     view_field RoleLastUsed_LastUsedDate (view_ref Foreign_kind (Time_view V)),
     view_field RoleLastUsed_Region view_string]"

lemma RoleLastUsed_DeepCopyInto_copies [copiers]: "library_copies L V \<Longrightarrow> deep_copier (RoleLastUsed_view V) (RoleLastUsed_DeepCopyInto L)"
  unfolding RoleLastUsed_view_def RoleLastUsed_DeepCopyInto_def by (intro struct_rules copiers; (simp | assumption))

lemma RoleLastUsed_DeepCopy_copies: "library_copies L V \<Longrightarrow> deep_copier (view_ref RoleLastUsed_kind (RoleLastUsed_view V)) (RoleLastUsed_DeepCopy L)"
  unfolding RoleLastUsed_DeepCopy_def by (intro copiers; (simp | assumption))

text \<open>\<open>RoleDetail\<close>\<close>

definition RoleDetail_DeepCopyInto :: "'l library \<Rightarrow> ('l cell, RoleDetail) copier" where
  "RoleDetail_DeepCopyInto L = copy_struct [
     copy_field RoleDetail_ARN RoleDetail_ARN_update copy_string,
     copy_field RoleDetail_AssumeRolePolicyDocument RoleDetail_AssumeRolePolicyDocument_update copy_string,
     copy_field RoleDetail_CreateDate RoleDetail_CreateDate_update (copy_pointer (Time_DeepCopy L)),
     copy_field RoleDetail_InstanceProfileList RoleDetail_InstanceProfileList_update (copy_refs (copy_new InstanceProfile_SDK_kind (InstanceProfile_SDK_DeepCopyInto L))),
     copy_field RoleDetail_Path RoleDetail_Path_update copy_string,
     copy_field RoleDetail_PermissionsBoundary RoleDetail_PermissionsBoundary_update (copy_new AttachedPermissionsBoundary_kind AttachedPermissionsBoundary_DeepCopyInto),
     copy_field RoleDetail_RoleID RoleDetail_RoleID_update copy_string,
     copy_field RoleDetail_RoleLastUsed RoleDetail_RoleLastUsed_update (copy_new RoleLastUsed_kind (RoleLastUsed_DeepCopyInto L)),
     copy_field RoleDetail_RoleName RoleDetail_RoleName_update copy_string,
     copy_field RoleDetail_Tags RoleDetail_Tags_update (copy_refs (copy_new Tag_kind Tag_DeepCopyInto))]"

definition RoleDetail_DeepCopy :: "'l library \<Rightarrow> ('l cell, RoleDetail ref) copier" where
  "RoleDetail_DeepCopy L = copy_new RoleDetail_kind (RoleDetail_DeepCopyInto L)"

definition RoleDetail_view :: "'l library_views \<Rightarrow> ('l cell, RoleDetail, val) view" where
  "RoleDetail_view V = view_struct [
     view_field RoleDetail_ARN view_string,
     view_field RoleDetail_AssumeRolePolicyDocument view_string,
     view_field RoleDetail_CreateDate (view_ref Foreign_kind (Time_view V)),
     view_field RoleDetail_InstanceProfileList (view_refs (view_ref InstanceProfile_SDK_kind (InstanceProfile_SDK_view V))),
     view_field RoleDetail_Path view_string,
     view_field RoleDetail_PermissionsBoundary (view_ref AttachedPermissionsBoundary_kind AttachedPermissionsBoundary_view),
     view_field RoleDetail_RoleID view_string,
     view_field RoleDetail_RoleLastUsed (view_ref RoleLastUsed_kind (RoleLastUsed_view V)),
     view_field RoleDetail_RoleName view_string,
     view_field RoleDetail_Tags (view_refs (view_ref Tag_kind Tag_view))]"

lemma RoleDetail_DeepCopyInto_copies [copiers]: "library_copies L V \<Longrightarrow> deep_copier (RoleDetail_view V) (RoleDetail_DeepCopyInto L)"
  unfolding RoleDetail_view_def RoleDetail_DeepCopyInto_def by (intro struct_rules copiers; (simp | assumption))

lemma RoleDetail_DeepCopy_copies: "library_copies L V \<Longrightarrow> deep_copier (view_ref RoleDetail_kind (RoleDetail_view V)) (RoleDetail_DeepCopy L)"
  unfolding RoleDetail_DeepCopy_def by (intro copiers; (simp | assumption))

text \<open>\<open>Role_SDK\<close>\<close>

definition Role_SDK_DeepCopyInto :: "'l library \<Rightarrow> ('l cell, Role_SDK) copier" where
  "Role_SDK_DeepCopyInto L = copy_struct [
     copy_field Role_SDK_ARN Role_SDK_ARN_update copy_string,
     copy_field Role_SDK_AssumeRolePolicyDocument Role_SDK_AssumeRolePolicyDocument_update copy_string,
     copy_field Role_SDK_CreateDate Role_SDK_CreateDate_update (copy_pointer (Time_DeepCopy L)),
     copy_field Role_SDK_Description Role_SDK_Description_update copy_string,
     copy_field Role_SDK_MaxSessionDuration Role_SDK_MaxSessionDuration_update copy_int64,
     copy_field Role_SDK_Path Role_SDK_Path_update copy_string,
     copy_field Role_SDK_PermissionsBoundary Role_SDK_PermissionsBoundary_update (copy_new AttachedPermissionsBoundary_kind AttachedPermissionsBoundary_DeepCopyInto),
     copy_field Role_SDK_RoleID Role_SDK_RoleID_update copy_string,
     copy_field Role_SDK_RoleLastUsed Role_SDK_RoleLastUsed_update (copy_new RoleLastUsed_kind (RoleLastUsed_DeepCopyInto L)),
     copy_field Role_SDK_RoleName Role_SDK_RoleName_update copy_string,
     copy_field Role_SDK_Tags Role_SDK_Tags_update (copy_refs (copy_new Tag_kind Tag_DeepCopyInto))]"

definition Role_SDK_DeepCopy :: "'l library \<Rightarrow> ('l cell, Role_SDK ref) copier" where
  "Role_SDK_DeepCopy L = copy_new Role_SDK_kind (Role_SDK_DeepCopyInto L)"

definition Role_SDK_view :: "'l library_views \<Rightarrow> ('l cell, Role_SDK, val) view" where
  "Role_SDK_view V = view_struct [
     view_field Role_SDK_ARN view_string,
     view_field Role_SDK_AssumeRolePolicyDocument view_string,
     view_field Role_SDK_CreateDate (view_ref Foreign_kind (Time_view V)),
     view_field Role_SDK_Description view_string,
     view_field Role_SDK_MaxSessionDuration view_int64,
     view_field Role_SDK_Path view_string,
     view_field Role_SDK_PermissionsBoundary (view_ref AttachedPermissionsBoundary_kind AttachedPermissionsBoundary_view),
     view_field Role_SDK_RoleID view_string,
     view_field Role_SDK_RoleLastUsed (view_ref RoleLastUsed_kind (RoleLastUsed_view V)),
     view_field Role_SDK_RoleName view_string,
     view_field Role_SDK_Tags (view_refs (view_ref Tag_kind Tag_view))]"

lemma Role_SDK_DeepCopyInto_copies [copiers]: "library_copies L V \<Longrightarrow> deep_copier (Role_SDK_view V) (Role_SDK_DeepCopyInto L)"
  unfolding Role_SDK_view_def Role_SDK_DeepCopyInto_def by (intro struct_rules copiers; (simp | assumption))

lemma Role_SDK_DeepCopy_copies: "library_copies L V \<Longrightarrow> deep_copier (view_ref Role_SDK_kind (Role_SDK_view V)) (Role_SDK_DeepCopy L)"
  unfolding Role_SDK_DeepCopy_def by (intro copiers; (simp | assumption))

text \<open>\<open>SAMLProviderListEntry\<close>\<close>

definition SAMLProviderListEntry_DeepCopyInto :: "'l library \<Rightarrow> ('l cell, SAMLProviderListEntry) copier" where
  "SAMLProviderListEntry_DeepCopyInto L = copy_struct [
     copy_field SAMLProviderListEntry_ARN SAMLProviderListEntry_ARN_update copy_string,
     copy_field SAMLProviderListEntry_CreateDate SAMLProviderListEntry_CreateDate_update (copy_pointer (Time_DeepCopy L)),
     copy_field SAMLProviderListEntry_ValidUntil SAMLProviderListEntry_ValidUntil_update (copy_pointer (Time_DeepCopy L))]"

definition SAMLProviderListEntry_DeepCopy :: "'l library \<Rightarrow> ('l cell, SAMLProviderListEntry ref) copier" where
  "SAMLProviderListEntry_DeepCopy L = copy_new SAMLProviderListEntry_kind (SAMLProviderListEntry_DeepCopyInto L)"

definition SAMLProviderListEntry_view :: "'l library_views \<Rightarrow> ('l cell, SAMLProviderListEntry, val) view" where
  "SAMLProviderListEntry_view V = view_struct [
     view_field SAMLProviderListEntry_ARN view_string,
     view_field SAMLProviderListEntry_CreateDate (view_ref Foreign_kind (Time_view V)),
     view_field SAMLProviderListEntry_ValidUntil (view_ref Foreign_kind (Time_view V))]"

lemma SAMLProviderListEntry_DeepCopyInto_copies [copiers]: "library_copies L V \<Longrightarrow> deep_copier (SAMLProviderListEntry_view V) (SAMLProviderListEntry_DeepCopyInto L)"
  unfolding SAMLProviderListEntry_view_def SAMLProviderListEntry_DeepCopyInto_def by (intro struct_rules copiers; (simp | assumption))

lemma SAMLProviderListEntry_DeepCopy_copies: "library_copies L V \<Longrightarrow> deep_copier (view_ref SAMLProviderListEntry_kind (SAMLProviderListEntry_view V)) (SAMLProviderListEntry_DeepCopy L)"
  unfolding SAMLProviderListEntry_DeepCopy_def by (intro copiers; (simp | assumption))

text \<open>\<open>SSHPublicKey\<close>\<close>

definition SSHPublicKey_DeepCopyInto :: "'l library \<Rightarrow> ('l cell, SSHPublicKey) copier" where
  "SSHPublicKey_DeepCopyInto L = copy_struct [
     copy_field SSHPublicKey_UploadDate SSHPublicKey_UploadDate_update (copy_pointer (Time_DeepCopy L)),
     copy_field SSHPublicKey_UserName SSHPublicKey_UserName_update copy_string]"

definition SSHPublicKey_DeepCopy :: "'l library \<Rightarrow> ('l cell, SSHPublicKey ref) copier" where
  "SSHPublicKey_DeepCopy L = copy_new SSHPublicKey_kind (SSHPublicKey_DeepCopyInto L)"

definition SSHPublicKey_view :: "'l library_views \<Rightarrow> ('l cell, SSHPublicKey, val) view" where
  "SSHPublicKey_view V = view_struct [
     view_field SSHPublicKey_UploadDate (view_ref Foreign_kind (Time_view V)),
     view_field SSHPublicKey_UserName view_string]"

lemma SSHPublicKey_DeepCopyInto_copies [copiers]: "library_copies L V \<Longrightarrow> deep_copier (SSHPublicKey_view V) (SSHPublicKey_DeepCopyInto L)"
  unfolding SSHPublicKey_view_def SSHPublicKey_DeepCopyInto_def by (intro struct_rules copiers; (simp | assumption))

lemma SSHPublicKey_DeepCopy_copies: "library_copies L V \<Longrightarrow> deep_copier (view_ref SSHPublicKey_kind (SSHPublicKey_view V)) (SSHPublicKey_DeepCopy L)"
  unfolding SSHPublicKey_DeepCopy_def by (intro copiers; (simp | assumption))

text \<open>\<open>SSHPublicKeyMetadata\<close>\<close>

definition SSHPublicKeyMetadata_DeepCopyInto :: "'l library \<Rightarrow> ('l cell, SSHPublicKeyMetadata) copier" where
  "SSHPublicKeyMetadata_DeepCopyInto L = copy_struct [
     copy_field SSHPublicKeyMetadata_UploadDate SSHPublicKeyMetadata_UploadDate_update (copy_pointer (Time_DeepCopy L)),
     copy_field SSHPublicKeyMetadata_UserName SSHPublicKeyMetadata_UserName_update copy_string]"

definition SSHPublicKeyMetadata_DeepCopy :: "'l library \<Rightarrow> ('l cell, SSHPublicKeyMetadata ref) copier" where
  "SSHPublicKeyMetadata_DeepCopy L = copy_new SSHPublicKeyMetadata_kind (SSHPublicKeyMetadata_DeepCopyInto L)"

definition SSHPublicKeyMetadata_view :: "'l library_views \<Rightarrow> ('l cell, SSHPublicKeyMetadata, val) view" where
  "SSHPublicKeyMetadata_view V = view_struct [
     view_field SSHPublicKeyMetadata_UploadDate (view_ref Foreign_kind (Time_view V)),
     view_field SSHPublicKeyMetadata_UserName view_string]"

lemma SSHPublicKeyMetadata_DeepCopyInto_copies [copiers]: "library_copies L V \<Longrightarrow> deep_copier (SSHPublicKeyMetadata_view V) (SSHPublicKeyMetadata_DeepCopyInto L)"
  unfolding SSHPublicKeyMetadata_view_def SSHPublicKeyMetadata_DeepCopyInto_def by (intro struct_rules copiers; (simp | assumption))

lemma SSHPublicKeyMetadata_DeepCopy_copies: "library_copies L V \<Longrightarrow> deep_copier (view_ref SSHPublicKeyMetadata_kind (SSHPublicKeyMetadata_view V)) (SSHPublicKeyMetadata_DeepCopy L)"
  unfolding SSHPublicKeyMetadata_DeepCopy_def by (intro copiers; (simp | assumption))

text \<open>\<open>ServerCertificate\<close>\<close>

definition ServerCertificate_DeepCopyInto :: "('l cell, ServerCertificate) copier" where
  "ServerCertificate_DeepCopyInto = copy_struct [
     copy_field ServerCertificate_Tags ServerCertificate_Tags_update (copy_refs (copy_new Tag_kind Tag_DeepCopyInto))]"

definition ServerCertificate_DeepCopy :: "('l cell, ServerCertificate ref) copier" where
  "ServerCertificate_DeepCopy = copy_new ServerCertificate_kind ServerCertificate_DeepCopyInto"

definition ServerCertificate_view :: "('l cell, ServerCertificate, val) view" where
  "ServerCertificate_view = view_struct [
     view_field ServerCertificate_Tags (view_refs (view_ref Tag_kind Tag_view))]"

lemma ServerCertificate_DeepCopyInto_copies [copiers]: "deep_copier ServerCertificate_view ServerCertificate_DeepCopyInto"
  unfolding ServerCertificate_view_def ServerCertificate_DeepCopyInto_def by (intro struct_rules copiers; (simp | assumption))

lemma ServerCertificate_DeepCopy_copies: "deep_copier (view_ref ServerCertificate_kind ServerCertificate_view) ServerCertificate_DeepCopy"
  unfolding ServerCertificate_DeepCopy_def by (intro copiers; (simp | assumption))

text \<open>\<open>ServerCertificateMetadata\<close>\<close>

definition ServerCertificateMetadata_DeepCopyInto :: "'l library \<Rightarrow> ('l cell, ServerCertificateMetadata) copier" where
  "ServerCertificateMetadata_DeepCopyInto L = copy_struct [
     copy_field ServerCertificateMetadata_ARN ServerCertificateMetadata_ARN_update copy_string,
     copy_field ServerCertificateMetadata_Expiration ServerCertificateMetadata_Expiration_update (copy_pointer (Time_DeepCopy L)),
     copy_field ServerCertificateMetadata_Path ServerCertificateMetadata_Path_update copy_string,
     copy_field ServerCertificateMetadata_ServerCertificateID ServerCertificateMetadata_ServerCertificateID_update copy_string,
     copy_field ServerCertificateMetadata_UploadDate ServerCertificateMetadata_UploadDate_update (copy_pointer (Time_DeepCopy L))]"

definition ServerCertificateMetadata_DeepCopy :: "'l library \<Rightarrow> ('l cell, ServerCertificateMetadata ref) copier" where
  "ServerCertificateMetadata_DeepCopy L = copy_new ServerCertificateMetadata_kind (ServerCertificateMetadata_DeepCopyInto L)"

definition ServerCertificateMetadata_view :: "'l library_views \<Rightarrow> ('l cell, ServerCertificateMetadata, val) view" where
  "ServerCertificateMetadata_view V = view_struct [
     view_field ServerCertificateMetadata_ARN view_string,
     view_field ServerCertificateMetadata_Expiration (view_ref Foreign_kind (Time_view V)),
     view_field ServerCertificateMetadata_Path view_string,
     view_field ServerCertificateMetadata_ServerCertificateID view_string,
     view_field ServerCertificateMetadata_UploadDate (view_ref Foreign_kind (Time_view V))]"

lemma ServerCertificateMetadata_DeepCopyInto_copies [copiers]: "library_copies L V \<Longrightarrow> deep_copier (ServerCertificateMetadata_view V) (ServerCertificateMetadata_DeepCopyInto L)"
  unfolding ServerCertificateMetadata_view_def ServerCertificateMetadata_DeepCopyInto_def by (intro struct_rules copiers; (simp | assumption))

lemma ServerCertificateMetadata_DeepCopy_copies: "library_copies L V \<Longrightarrow> deep_copier (view_ref ServerCertificateMetadata_kind (ServerCertificateMetadata_view V)) (ServerCertificateMetadata_DeepCopy L)"
  unfolding ServerCertificateMetadata_DeepCopy_def by (intro copiers; (simp | assumption))

text \<open>\<open>ServiceLastAccessed\<close>\<close>

definition ServiceLastAccessed_DeepCopyInto :: "'l library \<Rightarrow> ('l cell, ServiceLastAccessed) copier" where
  "ServiceLastAccessed_DeepCopyInto L = copy_struct [
     copy_field ServiceLastAccessed_LastAuthenticated ServiceLastAccessed_LastAuthenticated_update (copy_pointer (Time_DeepCopy L)),
     copy_field ServiceLastAccessed_LastAuthenticatedEntity ServiceLastAccessed_LastAuthenticatedEntity_update copy_string,
     copy_field ServiceLastAccessed_LastAuthenticatedRegion ServiceLastAccessed_LastAuthenticatedRegion_update copy_string]"

definition ServiceLastAccessed_DeepCopy :: "'l library \<Rightarrow> ('l cell, ServiceLastAccessed ref) copier" where
  "ServiceLastAccessed_DeepCopy L = copy_new ServiceLastAccessed_kind (ServiceLastAccessed_DeepCopyInto L)"

definition ServiceLastAccessed_view :: "'l library_views \<Rightarrow> ('l cell, ServiceLastAccessed, val) view" where
  "ServiceLastAccessed_view V = view_struct [
     view_field ServiceLastAccessed_LastAuthenticated (view_ref Foreign_kind (Time_view V)),
     view_field ServiceLastAccessed_LastAuthenticatedEntity view_string,
     view_field ServiceLastAccessed_LastAuthenticatedRegion view_string]"

lemma ServiceLastAccessed_DeepCopyInto_copies [copiers]: "library_copies L V \<Longrightarrow> deep_copier (ServiceLastAccessed_view V) (ServiceLastAccessed_DeepCopyInto L)"
  unfolding ServiceLastAccessed_view_def ServiceLastAccessed_DeepCopyInto_def by (intro struct_rules copiers; (simp | assumption))

lemma ServiceLastAccessed_DeepCopy_copies: "library_copies L V \<Longrightarrow> deep_copier (view_ref ServiceLastAccessed_kind (ServiceLastAccessed_view V)) (ServiceLastAccessed_DeepCopy L)"
  unfolding ServiceLastAccessed_DeepCopy_def by (intro copiers; (simp | assumption))

text \<open>\<open>ServiceSpecificCredential\<close>\<close>

definition ServiceSpecificCredential_DeepCopyInto :: "'l library \<Rightarrow> ('l cell, ServiceSpecificCredential) copier" where
  "ServiceSpecificCredential_DeepCopyInto L = copy_struct [
     copy_field ServiceSpecificCredential_CreateDate ServiceSpecificCredential_CreateDate_update (copy_pointer (Time_DeepCopy L)),
     copy_field ServiceSpecificCredential_UserName ServiceSpecificCredential_UserName_update copy_string]"

definition ServiceSpecificCredential_DeepCopy :: "'l library \<Rightarrow> ('l cell, ServiceSpecificCredential ref) copier" where
  "ServiceSpecificCredential_DeepCopy L = copy_new ServiceSpecificCredential_kind (ServiceSpecificCredential_DeepCopyInto L)"

definition ServiceSpecificCredential_view :: "'l library_views \<Rightarrow> ('l cell, ServiceSpecificCredential, val) view" where
  "ServiceSpecificCredential_view V = view_struct [
     view_field ServiceSpecificCredential_CreateDate (view_ref Foreign_kind (Time_view V)),
     view_field ServiceSpecificCredential_UserName view_string]"

lemma ServiceSpecificCredential_DeepCopyInto_copies [copiers]: "library_copies L V \<Longrightarrow> deep_copier (ServiceSpecificCredential_view V) (ServiceSpecificCredential_DeepCopyInto L)"
  unfolding ServiceSpecificCredential_view_def ServiceSpecificCredential_DeepCopyInto_def by (intro struct_rules copiers; (simp | assumption))

lemma ServiceSpecificCredential_DeepCopy_copies: "library_copies L V \<Longrightarrow> deep_copier (view_ref ServiceSpecificCredential_kind (ServiceSpecificCredential_view V)) (ServiceSpecificCredential_DeepCopy L)"
  unfolding ServiceSpecificCredential_DeepCopy_def by (intro copiers; (simp | assumption))

text \<open>\<open>ServiceSpecificCredentialMetadata\<close>\<close>

definition ServiceSpecificCredentialMetadata_DeepCopyInto :: "'l library \<Rightarrow> ('l cell, ServiceSpecificCredentialMetadata) copier" where
  "ServiceSpecificCredentialMetadata_DeepCopyInto L = copy_struct [
     copy_field ServiceSpecificCredentialMetadata_CreateDate ServiceSpecificCredentialMetadata_CreateDate_update (copy_pointer (Time_DeepCopy L)),
     copy_field ServiceSpecificCredentialMetadata_UserName ServiceSpecificCredentialMetadata_UserName_update copy_string]"

definition ServiceSpecificCredentialMetadata_DeepCopy :: "'l library \<Rightarrow> ('l cell, ServiceSpecificCredentialMetadata ref) copier" where
  "ServiceSpecificCredentialMetadata_DeepCopy L = copy_new ServiceSpecificCredentialMetadata_kind (ServiceSpecificCredentialMetadata_DeepCopyInto L)"

definition ServiceSpecificCredentialMetadata_view :: "'l library_views \<Rightarrow> ('l cell, ServiceSpecificCredentialMetadata, val) view" where
  "ServiceSpecificCredentialMetadata_view V = view_struct [
     view_field ServiceSpecificCredentialMetadata_CreateDate (view_ref Foreign_kind (Time_view V)),
     view_field ServiceSpecificCredentialMetadata_UserName view_string]"

lemma ServiceSpecificCredentialMetadata_DeepCopyInto_copies [copiers]: "library_copies L V \<Longrightarrow> deep_copier (ServiceSpecificCredentialMetadata_view V) (ServiceSpecificCredentialMetadata_DeepCopyInto L)"
  unfolding ServiceSpecificCredentialMetadata_view_def ServiceSpecificCredentialMetadata_DeepCopyInto_def by (intro struct_rules copiers; (simp | assumption))

lemma ServiceSpecificCredentialMetadata_DeepCopy_copies: "library_copies L V \<Longrightarrow> deep_copier (view_ref ServiceSpecificCredentialMetadata_kind (ServiceSpecificCredentialMetadata_view V)) (ServiceSpecificCredentialMetadata_DeepCopy L)"
  unfolding ServiceSpecificCredentialMetadata_DeepCopy_def by (intro copiers; (simp | assumption))

text \<open>\<open>SigningCertificate\<close>\<close>

definition SigningCertificate_DeepCopyInto :: "'l library \<Rightarrow> ('l cell, SigningCertificate) copier" where
  "SigningCertificate_DeepCopyInto L = copy_struct [
     copy_field SigningCertificate_UploadDate SigningCertificate_UploadDate_update (copy_pointer (Time_DeepCopy L)),
     copy_field SigningCertificate_UserName SigningCertificate_UserName_update copy_string]"

definition SigningCertificate_DeepCopy :: "'l library \<Rightarrow> ('l cell, SigningCertificate ref) copier" where
  "SigningCertificate_DeepCopy L = copy_new SigningCertificate_kind (SigningCertificate_DeepCopyInto L)"

definition SigningCertificate_view :: "'l library_views \<Rightarrow> ('l cell, SigningCertificate, val) view" where
  "SigningCertificate_view V = view_struct [
     view_field SigningCertificate_UploadDate (view_ref Foreign_kind (Time_view V)),
     view_field SigningCertificate_UserName view_string]"

lemma SigningCertificate_DeepCopyInto_copies [copiers]: "library_copies L V \<Longrightarrow> deep_copier (SigningCertificate_view V) (SigningCertificate_DeepCopyInto L)"
  unfolding SigningCertificate_view_def SigningCertificate_DeepCopyInto_def by (intro struct_rules copiers; (simp | assumption))

lemma SigningCertificate_DeepCopy_copies: "library_copies L V \<Longrightarrow> deep_copier (view_ref SigningCertificate_kind (SigningCertificate_view V)) (SigningCertificate_DeepCopy L)"
  unfolding SigningCertificate_DeepCopy_def by (intro copiers; (simp | assumption))

text \<open>\<open>TrackedActionLastAccessed\<close>\<close>

definition TrackedActionLastAccessed_DeepCopyInto :: "'l library \<Rightarrow> ('l cell, TrackedActionLastAccessed) copier" where
  "TrackedActionLastAccessed_DeepCopyInto L = copy_struct [
     copy_field TrackedActionLastAccessed_ActionName TrackedActionLastAccessed_ActionName_update copy_string,
     copy_field TrackedActionLastAccessed_LastAccessedEntity TrackedActionLastAccessed_LastAccessedEntity_update copy_string,
     copy_field TrackedActionLastAccessed_LastAccessedRegion TrackedActionLastAccessed_LastAccessedRegion_update copy_string,
     copy_field TrackedActionLastAccessed_LastAccessedTime TrackedActionLastAccessed_LastAccessedTime_update (copy_pointer (Time_DeepCopy L))]"

definition TrackedActionLastAccessed_DeepCopy :: "'l library \<Rightarrow> ('l cell, TrackedActionLastAccessed ref) copier" where
  "TrackedActionLastAccessed_DeepCopy L = copy_new TrackedActionLastAccessed_kind (TrackedActionLastAccessed_DeepCopyInto L)"

definition TrackedActionLastAccessed_view :: "'l library_views \<Rightarrow> ('l cell, TrackedActionLastAccessed, val) view" where
  "TrackedActionLastAccessed_view V = view_struct [
     view_field TrackedActionLastAccessed_ActionName view_string,
     view_field TrackedActionLastAccessed_LastAccessedEntity view_string,
     view_field TrackedActionLastAccessed_LastAccessedRegion view_string,
     view_field TrackedActionLastAccessed_LastAccessedTime (view_ref Foreign_kind (Time_view V))]"

lemma TrackedActionLastAccessed_DeepCopyInto_copies [copiers]: "library_copies L V \<Longrightarrow> deep_copier (TrackedActionLastAccessed_view V) (TrackedActionLastAccessed_DeepCopyInto L)"
  unfolding TrackedActionLastAccessed_view_def TrackedActionLastAccessed_DeepCopyInto_def by (intro struct_rules copiers; (simp | assumption))

lemma TrackedActionLastAccessed_DeepCopy_copies: "library_copies L V \<Longrightarrow> deep_copier (view_ref TrackedActionLastAccessed_kind (TrackedActionLastAccessed_view V)) (TrackedActionLastAccessed_DeepCopy L)"
  unfolding TrackedActionLastAccessed_DeepCopy_def by (intro copiers; (simp | assumption))

text \<open>\<open>UserDetail\<close>\<close>

definition UserDetail_DeepCopyInto :: "'l library \<Rightarrow> ('l cell, UserDetail) copier" where
  "UserDetail_DeepCopyInto L = copy_struct [
     copy_field UserDetail_ARN UserDetail_ARN_update copy_string,
     copy_field UserDetail_CreateDate UserDetail_CreateDate_update (copy_pointer (Time_DeepCopy L)),
     copy_field UserDetail_Path UserDetail_Path_update copy_string,
     copy_field UserDetail_PermissionsBoundary UserDetail_PermissionsBoundary_update (copy_new AttachedPermissionsBoundary_kind AttachedPermissionsBoundary_DeepCopyInto),
     copy_field UserDetail_Tags UserDetail_Tags_update (copy_refs (copy_new Tag_kind Tag_DeepCopyInto)),
     copy_field UserDetail_UserID UserDetail_UserID_update copy_string,
     copy_field UserDetail_UserName UserDetail_UserName_update copy_string]"

definition UserDetail_DeepCopy :: "'l library \<Rightarrow> ('l cell, UserDetail ref) copier" where
  "UserDetail_DeepCopy L = copy_new UserDetail_kind (UserDetail_DeepCopyInto L)"

definition UserDetail_view :: "'l library_views \<Rightarrow> ('l cell, UserDetail, val) view" where
  "UserDetail_view V = view_struct [
     view_field UserDetail_ARN view_string,
     view_field UserDetail_CreateDate (view_ref Foreign_kind (Time_view V)),
     view_field UserDetail_Path view_string,
     view_field UserDetail_PermissionsBoundary (view_ref AttachedPermissionsBoundary_kind AttachedPermissionsBoundary_view),
     view_field UserDetail_Tags (view_refs (view_ref Tag_kind Tag_view)),
     view_field UserDetail_UserID view_string,
     view_field UserDetail_UserName view_string]"

lemma UserDetail_DeepCopyInto_copies [copiers]: "library_copies L V \<Longrightarrow> deep_copier (UserDetail_view V) (UserDetail_DeepCopyInto L)"
  unfolding UserDetail_view_def UserDetail_DeepCopyInto_def by (intro struct_rules copiers; (simp | assumption))

lemma UserDetail_DeepCopy_copies: "library_copies L V \<Longrightarrow> deep_copier (view_ref UserDetail_kind (UserDetail_view V)) (UserDetail_DeepCopy L)"
  unfolding UserDetail_DeepCopy_def by (intro copiers; (simp | assumption))

text \<open>\<open>User_SDK\<close>\<close>

definition User_SDK_DeepCopyInto :: "'l library \<Rightarrow> ('l cell, User_SDK) copier" where
  "User_SDK_DeepCopyInto L = copy_struct [
     copy_field User_SDK_ARN User_SDK_ARN_update copy_string,
     copy_field User_SDK_CreateDate User_SDK_CreateDate_update (copy_pointer (Time_DeepCopy L)),
     copy_field User_SDK_PasswordLastUsed User_SDK_PasswordLastUsed_update (copy_pointer (Time_DeepCopy L)),
     copy_field User_SDK_Path User_SDK_Path_update copy_string,
     copy_field User_SDK_PermissionsBoundary User_SDK_PermissionsBoundary_update (copy_new AttachedPermissionsBoundary_kind AttachedPermissionsBoundary_DeepCopyInto),
     copy_field User_SDK_Tags User_SDK_Tags_update (copy_refs (copy_new Tag_kind Tag_DeepCopyInto)),
     copy_field User_SDK_UserID User_SDK_UserID_update copy_string,
     copy_field User_SDK_UserName User_SDK_UserName_update copy_string]"

definition User_SDK_DeepCopy :: "'l library \<Rightarrow> ('l cell, User_SDK ref) copier" where
  "User_SDK_DeepCopy L = copy_new User_SDK_kind (User_SDK_DeepCopyInto L)"

definition User_SDK_view :: "'l library_views \<Rightarrow> ('l cell, User_SDK, val) view" where
  "User_SDK_view V = view_struct [
     view_field User_SDK_ARN view_string,
     view_field User_SDK_CreateDate (view_ref Foreign_kind (Time_view V)),
     view_field User_SDK_PasswordLastUsed (view_ref Foreign_kind (Time_view V)),
     view_field User_SDK_Path view_string,
     view_field User_SDK_PermissionsBoundary (view_ref AttachedPermissionsBoundary_kind AttachedPermissionsBoundary_view),
     view_field User_SDK_Tags (view_refs (view_ref Tag_kind Tag_view)),
     view_field User_SDK_UserID view_string,
     view_field User_SDK_UserName view_string]"

lemma User_SDK_DeepCopyInto_copies [copiers]: "library_copies L V \<Longrightarrow> deep_copier (User_SDK_view V) (User_SDK_DeepCopyInto L)"
  unfolding User_SDK_view_def User_SDK_DeepCopyInto_def by (intro struct_rules copiers; (simp | assumption))

lemma User_SDK_DeepCopy_copies: "library_copies L V \<Longrightarrow> deep_copier (view_ref User_SDK_kind (User_SDK_view V)) (User_SDK_DeepCopy L)"
  unfolding User_SDK_DeepCopy_def by (intro copiers; (simp | assumption))

text \<open>\<open>VirtualMFADevice\<close>\<close>

definition VirtualMFADevice_DeepCopyInto :: "'l library \<Rightarrow> ('l cell, VirtualMFADevice) copier" where
  "VirtualMFADevice_DeepCopyInto L = copy_struct [
     copy_field VirtualMFADevice_EnableDate VirtualMFADevice_EnableDate_update (copy_pointer (Time_DeepCopy L)),
     copy_field VirtualMFADevice_Tags VirtualMFADevice_Tags_update (copy_refs (copy_new Tag_kind Tag_DeepCopyInto)),
     copy_field VirtualMFADevice_User VirtualMFADevice_User_update (copy_new User_SDK_kind (User_SDK_DeepCopyInto L))]"

definition VirtualMFADevice_DeepCopy :: "'l library \<Rightarrow> ('l cell, VirtualMFADevice ref) copier" where
  "VirtualMFADevice_DeepCopy L = copy_new VirtualMFADevice_kind (VirtualMFADevice_DeepCopyInto L)"

definition VirtualMFADevice_view :: "'l library_views \<Rightarrow> ('l cell, VirtualMFADevice, val) view" where
  "VirtualMFADevice_view V = view_struct [
     view_field VirtualMFADevice_EnableDate (view_ref Foreign_kind (Time_view V)),
     view_field VirtualMFADevice_Tags (view_refs (view_ref Tag_kind Tag_view)),
     view_field VirtualMFADevice_User (view_ref User_SDK_kind (User_SDK_view V))]"

lemma VirtualMFADevice_DeepCopyInto_copies [copiers]: "library_copies L V \<Longrightarrow> deep_copier (VirtualMFADevice_view V) (VirtualMFADevice_DeepCopyInto L)"
  unfolding VirtualMFADevice_view_def VirtualMFADevice_DeepCopyInto_def by (intro struct_rules copiers; (simp | assumption))

lemma VirtualMFADevice_DeepCopy_copies: "library_copies L V \<Longrightarrow> deep_copier (view_ref VirtualMFADevice_kind (VirtualMFADevice_view V)) (VirtualMFADevice_DeepCopy L)"
  unfolding VirtualMFADevice_DeepCopy_def by (intro copiers; (simp | assumption))

end
