(* ===== verification/DeepCopyResources.thy ===== *)
theory DeepCopyResources
  imports DeepCopyData
begin

text \<open>
  \<open>zz_generated.deepcopy.go\<close> for the custom resources: the spec, the status, the object and the
  list of each, with \<open>DeepCopyObject\<close> for the last two.
\<close>

text \<open>\<open>GroupSpec\<close>\<close>

definition GroupSpec_DeepCopyInto :: "'l library \<Rightarrow> ('l cell, GroupSpec) copier" where
  "GroupSpec_DeepCopyInto L = copy_struct [
     copy_field GroupSpec_InlinePolicies GroupSpec_InlinePolicies_update (copy_strings_map (MapOrder L)),
     copy_field GroupSpec_Name GroupSpec_Name_update copy_string,
     copy_field GroupSpec_Path GroupSpec_Path_update copy_string,
     copy_field GroupSpec_Policies GroupSpec_Policies_update copy_strings,
     copy_field GroupSpec_PolicyRefs GroupSpec_PolicyRefs_update (copy_refs (copy_new Foreign_kind (AWSResourceReferenceWrapper_DeepCopyInto L)))]"

definition GroupSpec_DeepCopy :: "'l library \<Rightarrow> ('l cell, GroupSpec ref) copier" where
  "GroupSpec_DeepCopy L = copy_new GroupSpec_kind (GroupSpec_DeepCopyInto L)"

definition GroupSpec_view :: "'l library_views \<Rightarrow> ('l cell, GroupSpec, val) view" where
  "GroupSpec_view V = view_struct [
     view_field GroupSpec_InlinePolicies view_strings_map,
     view_field GroupSpec_Name view_string,
     view_field GroupSpec_Path view_string,
     view_field GroupSpec_Policies view_strings,
     view_field GroupSpec_PolicyRefs (view_refs (view_ref Foreign_kind (AWSResourceReferenceWrapper_view V)))]"

lemma GroupSpec_DeepCopyInto_copies [copiers]: "library_copies L V \<Longrightarrow> deep_copier (GroupSpec_view V) (GroupSpec_DeepCopyInto L)"
  unfolding GroupSpec_view_def GroupSpec_DeepCopyInto_def by (intro struct_rules copiers; (simp | assumption))

lemma GroupSpec_DeepCopy_copies: "library_copies L V \<Longrightarrow> deep_copier (view_ref GroupSpec_kind (GroupSpec_view V)) (GroupSpec_DeepCopy L)"
  unfolding GroupSpec_DeepCopy_def by (intro copiers; (simp | assumption))

text \<open>\<open>GroupStatus\<close>\<close>

definition GroupStatus_DeepCopyInto :: "'l library \<Rightarrow> ('l cell, GroupStatus) copier" where
  "GroupStatus_DeepCopyInto L = copy_struct [
     copy_field GroupStatus_ACKResourceMetadata GroupStatus_ACKResourceMetadata_update (copy_new Foreign_kind (ResourceMetadata_DeepCopyInto L)),
     copy_field GroupStatus_Conditions GroupStatus_Conditions_update (copy_refs (copy_new Foreign_kind (Condition_DeepCopyInto L))),
     copy_field GroupStatus_CreateDate GroupStatus_CreateDate_update (copy_pointer (Time_DeepCopy L)),
     copy_field GroupStatus_GroupID GroupStatus_GroupID_update copy_string]"

definition GroupStatus_DeepCopy :: "'l library \<Rightarrow> ('l cell, GroupStatus ref) copier" where
  "GroupStatus_DeepCopy L = copy_new GroupStatus_kind (GroupStatus_DeepCopyInto L)"

definition GroupStatus_view :: "'l library_views \<Rightarrow> ('l cell, GroupStatus, val) view" where
  "GroupStatus_view V = view_struct [
     view_field GroupStatus_ACKResourceMetadata (view_ref Foreign_kind (ResourceMetadata_view V)),
     view_field GroupStatus_Conditions (view_refs (view_ref Foreign_kind (Condition_view V))),
     view_field GroupStatus_CreateDate (view_ref Foreign_kind (Time_view V)),
     view_field GroupStatus_GroupID view_string]"

lemma GroupStatus_DeepCopyInto_copies [copiers]: "library_copies L V \<Longrightarrow> deep_copier (GroupStatus_view V) (GroupStatus_DeepCopyInto L)"
  unfolding GroupStatus_view_def GroupStatus_DeepCopyInto_def by (intro struct_rules copiers; (simp | assumption))

lemma GroupStatus_DeepCopy_copies: "library_copies L V \<Longrightarrow> deep_copier (view_ref GroupStatus_kind (GroupStatus_view V)) (GroupStatus_DeepCopy L)"
  unfolding GroupStatus_DeepCopy_def by (intro copiers; (simp | assumption))

text \<open>\<open>Group\<close>\<close>

definition Group_DeepCopyInto :: "'l library \<Rightarrow> ('l cell, 'l Group) copier" where
  "Group_DeepCopyInto L = copy_struct [
     copy_field Group_TypeMeta Group_TypeMeta_update copy_plain,
     copy_field Group_ObjectMeta Group_ObjectMeta_update (ObjectMeta_DeepCopyInto L),
     copy_field Group_Spec Group_Spec_update (GroupSpec_DeepCopyInto L),
     copy_field Group_Status Group_Status_update (GroupStatus_DeepCopyInto L)]"

definition Group_DeepCopy :: "'l library \<Rightarrow> ('l cell, 'l Group ref) copier" where
  "Group_DeepCopy L = copy_new Group_kind (Group_DeepCopyInto L)"

definition Group_view :: "'l library_views \<Rightarrow> ('l cell, 'l Group, val) view" where
  "Group_view V = view_struct [
     view_field Group_TypeMeta (view_plain (TypeMeta_view V)),
     view_field Group_ObjectMeta (ObjectMeta_view V),
     view_field Group_Spec (GroupSpec_view V),
     view_field Group_Status (GroupStatus_view V)]"

lemma Group_DeepCopyInto_copies [copiers]: "library_copies L V \<Longrightarrow> deep_copier (Group_view V) (Group_DeepCopyInto L)"
  unfolding Group_view_def Group_DeepCopyInto_def by (intro struct_rules copiers; (simp | assumption))

lemma Group_DeepCopy_copies: "library_copies L V \<Longrightarrow> deep_copier (view_ref Group_kind (Group_view V)) (Group_DeepCopy L)"
  unfolding Group_DeepCopy_def by (intro copiers; (simp | assumption))

definition Group_DeepCopyObject :: "'l library \<Rightarrow> 'l Group ref \<Rightarrow> 'l cell heap \<Rightarrow> Object \<times> 'l cell heap" where
  "Group_DeepCopyObject L = as_object ''Group'' (Group_DeepCopy L)"

text \<open>\<open>GroupList\<close>\<close>

definition GroupList_DeepCopyInto :: "'l library \<Rightarrow> ('l cell, 'l GroupList) copier" where
  "GroupList_DeepCopyInto L = copy_struct [
     copy_field GroupList_TypeMeta GroupList_TypeMeta_update copy_plain,
     copy_field GroupList_ListMeta GroupList_ListMeta_update (ListMeta_DeepCopyInto L),
     copy_field GroupList_Items GroupList_Items_update (copy_slice Group_items (Group_DeepCopyInto L))]"

definition GroupList_DeepCopy :: "'l library \<Rightarrow> ('l cell, 'l GroupList ref) copier" where
  "GroupList_DeepCopy L = copy_new GroupList_kind (GroupList_DeepCopyInto L)"

definition GroupList_view :: "'l library_views \<Rightarrow> ('l cell, 'l GroupList, val) view" where
  "GroupList_view V = view_struct [
     view_field GroupList_TypeMeta (view_plain (TypeMeta_view V)),
     view_field GroupList_ListMeta (ListMeta_view V),
     view_field GroupList_Items (view_slice Group_items (Group_view V))]"

lemma GroupList_DeepCopyInto_copies [copiers]: "library_copies L V \<Longrightarrow> deep_copier (GroupList_view V) (GroupList_DeepCopyInto L)"
  unfolding GroupList_view_def GroupList_DeepCopyInto_def by (intro struct_rules copiers; (simp | assumption))

lemma GroupList_DeepCopy_copies: "library_copies L V \<Longrightarrow> deep_copier (view_ref GroupList_kind (GroupList_view V)) (GroupList_DeepCopy L)"
  unfolding GroupList_DeepCopy_def by (intro copiers; (simp | assumption))

definition GroupList_DeepCopyObject :: "'l library \<Rightarrow> 'l GroupList ref \<Rightarrow> 'l cell heap \<Rightarrow> Object \<times> 'l cell heap" where
  "GroupList_DeepCopyObject L = as_object ''GroupList'' (GroupList_DeepCopy L)"

text \<open>\<open>InstanceProfileSpec\<close>\<close>

definition InstanceProfileSpec_DeepCopyInto :: "'l library \<Rightarrow> ('l cell, InstanceProfileSpec) copier" where
  "InstanceProfileSpec_DeepCopyInto L = copy_struct [
     copy_field InstanceProfileSpec_Name InstanceProfileSpec_Name_update copy_string,
     copy_field InstanceProfileSpec_Path InstanceProfileSpec_Path_update copy_string,
     copy_field InstanceProfileSpec_Role InstanceProfileSpec_Role_update copy_string,
     copy_field InstanceProfileSpec_RoleRef InstanceProfileSpec_RoleRef_update (copy_new Foreign_kind (AWSResourceReferenceWrapper_DeepCopyInto L)),
     copy_field InstanceProfileSpec_Tags InstanceProfileSpec_Tags_update (copy_refs (copy_new Tag_kind Tag_DeepCopyInto))]"

definition InstanceProfileSpec_DeepCopy :: "'l library \<Rightarrow> ('l cell, InstanceProfileSpec ref) copier" where
  "InstanceProfileSpec_DeepCopy L = copy_new InstanceProfileSpec_kind (InstanceProfileSpec_DeepCopyInto L)"

definition InstanceProfileSpec_view :: "'l library_views \<Rightarrow> ('l cell, InstanceProfileSpec, val) view" where
  "InstanceProfileSpec_view V = view_struct [
     view_field InstanceProfileSpec_Name view_string,
     view_field InstanceProfileSpec_Path view_string,
     view_field InstanceProfileSpec_Role view_string,
     view_field InstanceProfileSpec_RoleRef (view_ref Foreign_kind (AWSResourceReferenceWrapper_view V)),
     view_field InstanceProfileSpec_Tags (view_refs (view_ref Tag_kind Tag_view))]"

lemma InstanceProfileSpec_DeepCopyInto_copies [copiers]: "library_copies L V \<Longrightarrow> deep_copier (InstanceProfileSpec_view V) (InstanceProfileSpec_DeepCopyInto L)"
  unfolding InstanceProfileSpec_view_def InstanceProfileSpec_DeepCopyInto_def by (intro struct_rules copiers; (simp | assumption))

lemma InstanceProfileSpec_DeepCopy_copies: "library_copies L V \<Longrightarrow> deep_copier (view_ref InstanceProfileSpec_kind (InstanceProfileSpec_view V)) (InstanceProfileSpec_DeepCopy L)"
  unfolding InstanceProfileSpec_DeepCopy_def by (intro copiers; (simp | assumption))

text \<open>\<open>InstanceProfileStatus\<close>\<close>

definition InstanceProfileStatus_DeepCopyInto :: "'l library \<Rightarrow> ('l cell, InstanceProfileStatus) copier" where
  "InstanceProfileStatus_DeepCopyInto L = copy_struct [
     copy_field InstanceProfileStatus_ACKResourceMetadata InstanceProfileStatus_ACKResourceMetadata_update (copy_new Foreign_kind (ResourceMetadata_DeepCopyInto L)),
     copy_field InstanceProfileStatus_Conditions InstanceProfileStatus_Conditions_update (copy_refs (copy_new Foreign_kind (Condition_DeepCopyInto L))),
     copy_field InstanceProfileStatus_CreateDate InstanceProfileStatus_CreateDate_update (copy_pointer (Time_DeepCopy L)),
     copy_field InstanceProfileStatus_InstanceProfileID InstanceProfileStatus_InstanceProfileID_update copy_string]"

definition InstanceProfileStatus_DeepCopy :: "'l library \<Rightarrow> ('l cell, InstanceProfileStatus ref) copier" where
  "InstanceProfileStatus_DeepCopy L = copy_new InstanceProfileStatus_kind (InstanceProfileStatus_DeepCopyInto L)"

definition InstanceProfileStatus_view :: "'l library_views \<Rightarrow> ('l cell, InstanceProfileStatus, val) view" where
  "InstanceProfileStatus_view V = view_struct [
     view_field InstanceProfileStatus_ACKResourceMetadata (view_ref Foreign_kind (ResourceMetadata_view V)),
     view_field InstanceProfileStatus_Conditions (view_refs (view_ref Foreign_kind (Condition_view V))),
     view_field InstanceProfileStatus_CreateDate (view_ref Foreign_kind (Time_view V)),
     view_field InstanceProfileStatus_InstanceProfileID view_string]"

lemma InstanceProfileStatus_DeepCopyInto_copies [copiers]: "library_copies L V \<Longrightarrow> deep_copier (InstanceProfileStatus_view V) (InstanceProfileStatus_DeepCopyInto L)"
  unfolding InstanceProfileStatus_view_def InstanceProfileStatus_DeepCopyInto_def by (intro struct_rules copiers; (simp | assumption))

lemma InstanceProfileStatus_DeepCopy_copies: "library_copies L V \<Longrightarrow> deep_copier (view_ref InstanceProfileStatus_kind (InstanceProfileStatus_view V)) (InstanceProfileStatus_DeepCopy L)"
  unfolding InstanceProfileStatus_DeepCopy_def by (intro copiers; (simp | assumption))

text \<open>\<open>InstanceProfile\<close>\<close>

definition InstanceProfile_DeepCopyInto :: "'l library \<Rightarrow> ('l cell, 'l InstanceProfile) copier" where
  "InstanceProfile_DeepCopyInto L = copy_struct [
     copy_field InstanceProfile_TypeMeta InstanceProfile_TypeMeta_update copy_plain,
     copy_field InstanceProfile_ObjectMeta InstanceProfile_ObjectMeta_update (ObjectMeta_DeepCopyInto L),
     copy_field InstanceProfile_Spec InstanceProfile_Spec_update (InstanceProfileSpec_DeepCopyInto L),
     copy_field InstanceProfile_Status InstanceProfile_Status_update (InstanceProfileStatus_DeepCopyInto L)]"

definition InstanceProfile_DeepCopy :: "'l library \<Rightarrow> ('l cell, 'l InstanceProfile ref) copier" where
  "InstanceProfile_DeepCopy L = copy_new InstanceProfile_kind (InstanceProfile_DeepCopyInto L)"

definition InstanceProfile_view :: "'l library_views \<Rightarrow> ('l cell, 'l InstanceProfile, val) view" where
  "InstanceProfile_view V = view_struct [
     view_field InstanceProfile_TypeMeta (view_plain (TypeMeta_view V)),
     view_field InstanceProfile_ObjectMeta (ObjectMeta_view V),
     view_field InstanceProfile_Spec (InstanceProfileSpec_view V),
     view_field InstanceProfile_Status (InstanceProfileStatus_view V)]"

lemma InstanceProfile_DeepCopyInto_copies [copiers]: "library_copies L V \<Longrightarrow> deep_copier (InstanceProfile_view V) (InstanceProfile_DeepCopyInto L)"
  unfolding InstanceProfile_view_def InstanceProfile_DeepCopyInto_def by (intro struct_rules copiers; (simp | assumption))

lemma InstanceProfile_DeepCopy_copies: "library_copies L V \<Longrightarrow> deep_copier (view_ref InstanceProfile_kind (InstanceProfile_view V)) (InstanceProfile_DeepCopy L)"
  unfolding InstanceProfile_DeepCopy_def by (intro copiers; (simp | assumption))

definition InstanceProfile_DeepCopyObject :: "'l library \<Rightarrow> 'l InstanceProfile ref \<Rightarrow> 'l cell heap \<Rightarrow> Object \<times> 'l cell heap" where
  "InstanceProfile_DeepCopyObject L = as_object ''InstanceProfile'' (InstanceProfile_DeepCopy L)"

text \<open>\<open>InstanceProfileList\<close>\<close>

definition InstanceProfileList_DeepCopyInto :: "'l library \<Rightarrow> ('l cell, 'l InstanceProfileList) copier" where
  "InstanceProfileList_DeepCopyInto L = copy_struct [
     copy_field InstanceProfileList_TypeMeta InstanceProfileList_TypeMeta_update copy_plain,
     copy_field InstanceProfileList_ListMeta InstanceProfileList_ListMeta_update (ListMeta_DeepCopyInto L),
     copy_field InstanceProfileList_Items InstanceProfileList_Items_update (copy_slice InstanceProfile_items (InstanceProfile_DeepCopyInto L))]"

definition InstanceProfileList_DeepCopy :: "'l library \<Rightarrow> ('l cell, 'l InstanceProfileList ref) copier" where
  "InstanceProfileList_DeepCopy L = copy_new InstanceProfileList_kind (InstanceProfileList_DeepCopyInto L)"

definition InstanceProfileList_view :: "'l library_views \<Rightarrow> ('l cell, 'l InstanceProfileList, val) view" where
  "InstanceProfileList_view V = view_struct [
     view_field InstanceProfileList_TypeMeta (view_plain (TypeMeta_view V)),
     view_field InstanceProfileList_ListMeta (ListMeta_view V),
     view_field InstanceProfileList_Items (view_slice InstanceProfile_items (InstanceProfile_view V))]"

lemma InstanceProfileList_DeepCopyInto_copies [copiers]: "library_copies L V \<Longrightarrow> deep_copier (InstanceProfileList_view V) (InstanceProfileList_DeepCopyInto L)"
  unfolding InstanceProfileList_view_def InstanceProfileList_DeepCopyInto_def by (intro struct_rules copiers; (simp | assumption))

lemma InstanceProfileList_DeepCopy_copies: "library_copies L V \<Longrightarrow> deep_copier (view_ref InstanceProfileList_kind (InstanceProfileList_view V)) (InstanceProfileList_DeepCopy L)"
  unfolding InstanceProfileList_DeepCopy_def by (intro copiers; (simp | assumption))

definition InstanceProfileList_DeepCopyObject :: "'l library \<Rightarrow> 'l InstanceProfileList ref \<Rightarrow> 'l cell heap \<Rightarrow> Object \<times> 'l cell heap" where
  "InstanceProfileList_DeepCopyObject L = as_object ''InstanceProfileList'' (InstanceProfileList_DeepCopy L)"

text \<open>\<open>OpenIDConnectProviderSpec\<close>\<close>

definition OpenIDConnectProviderSpec_DeepCopyInto :: "('l cell, OpenIDConnectProviderSpec) copier" where
  "OpenIDConnectProviderSpec_DeepCopyInto = copy_struct [
     copy_field OpenIDConnectProviderSpec_ClientIDs OpenIDConnectProviderSpec_ClientIDs_update copy_strings,
     copy_field OpenIDConnectProviderSpec_Tags OpenIDConnectProviderSpec_Tags_update (copy_refs (copy_new Tag_kind Tag_DeepCopyInto)),
     copy_field OpenIDConnectProviderSpec_Thumbprints OpenIDConnectProviderSpec_Thumbprints_update copy_strings,
     copy_field OpenIDConnectProviderSpec_URL OpenIDConnectProviderSpec_URL_update copy_string]"

definition OpenIDConnectProviderSpec_DeepCopy :: "('l cell, OpenIDConnectProviderSpec ref) copier" where
  "OpenIDConnectProviderSpec_DeepCopy = copy_new OpenIDConnectProviderSpec_kind OpenIDConnectProviderSpec_DeepCopyInto"

definition OpenIDConnectProviderSpec_view :: "('l cell, OpenIDConnectProviderSpec, val) view" where
  "OpenIDConnectProviderSpec_view = view_struct [
     view_field OpenIDConnectProviderSpec_ClientIDs view_strings,
     view_field OpenIDConnectProviderSpec_Tags (view_refs (view_ref Tag_kind Tag_view)),
     view_field OpenIDConnectProviderSpec_Thumbprints view_strings,
     view_field OpenIDConnectProviderSpec_URL view_string]"

lemma OpenIDConnectProviderSpec_DeepCopyInto_copies [copiers]: "deep_copier OpenIDConnectProviderSpec_view OpenIDConnectProviderSpec_DeepCopyInto"
  unfolding OpenIDConnectProviderSpec_view_def OpenIDConnectProviderSpec_DeepCopyInto_def by (intro struct_rules copiers; (simp | assumption))

lemma OpenIDConnectProviderSpec_DeepCopy_copies: "deep_copier (view_ref OpenIDConnectProviderSpec_kind OpenIDConnectProviderSpec_view) OpenIDConnectProviderSpec_DeepCopy"
  unfolding OpenIDConnectProviderSpec_DeepCopy_def by (intro copiers; (simp | assumption))

text \<open>\<open>OpenIDConnectProviderStatus\<close>\<close>

definition OpenIDConnectProviderStatus_DeepCopyInto :: "'l library \<Rightarrow> ('l cell, OpenIDConnectProviderStatus) copier" where
  "OpenIDConnectProviderStatus_DeepCopyInto L = copy_struct [
     copy_field OpenIDConnectProviderStatus_ACKResourceMetadata OpenIDConnectProviderStatus_ACKResourceMetadata_update (copy_new Foreign_kind (ResourceMetadata_DeepCopyInto L)),
     copy_field OpenIDConnectProviderStatus_Conditions OpenIDConnectProviderStatus_Conditions_update (copy_refs (copy_new Foreign_kind (Condition_DeepCopyInto L)))]"

definition OpenIDConnectProviderStatus_DeepCopy :: "'l library \<Rightarrow> ('l cell, OpenIDConnectProviderStatus ref) copier" where
  "OpenIDConnectProviderStatus_DeepCopy L = copy_new OpenIDConnectProviderStatus_kind (OpenIDConnectProviderStatus_DeepCopyInto L)"

definition OpenIDConnectProviderStatus_view :: "'l library_views \<Rightarrow> ('l cell, OpenIDConnectProviderStatus, val) view" where
  "OpenIDConnectProviderStatus_view V = view_struct [
     view_field OpenIDConnectProviderStatus_ACKResourceMetadata (view_ref Foreign_kind (ResourceMetadata_view V)),
     view_field OpenIDConnectProviderStatus_Conditions (view_refs (view_ref Foreign_kind (Condition_view V)))]"

lemma OpenIDConnectProviderStatus_DeepCopyInto_copies [copiers]: "library_copies L V \<Longrightarrow> deep_copier (OpenIDConnectProviderStatus_view V) (OpenIDConnectProviderStatus_DeepCopyInto L)"
  unfolding OpenIDConnectProviderStatus_view_def OpenIDConnectProviderStatus_DeepCopyInto_def by (intro struct_rules copiers; (simp | assumption))

lemma OpenIDConnectProviderStatus_DeepCopy_copies: "library_copies L V \<Longrightarrow> deep_copier (view_ref OpenIDConnectProviderStatus_kind (OpenIDConnectProviderStatus_view V)) (OpenIDConnectProviderStatus_DeepCopy L)"
  unfolding OpenIDConnectProviderStatus_DeepCopy_def by (intro copiers; (simp | assumption))

text \<open>\<open>OpenIDConnectProvider\<close>\<close>

definition OpenIDConnectProvider_DeepCopyInto :: "'l library \<Rightarrow> ('l cell, 'l OpenIDConnectProvider) copier" where
  "OpenIDConnectProvider_DeepCopyInto L = copy_struct [
     copy_field OpenIDConnectProvider_TypeMeta OpenIDConnectProvider_TypeMeta_update copy_plain,
     copy_field OpenIDConnectProvider_ObjectMeta OpenIDConnectProvider_ObjectMeta_update (ObjectMeta_DeepCopyInto L),
     copy_field OpenIDConnectProvider_Spec OpenIDConnectProvider_Spec_update OpenIDConnectProviderSpec_DeepCopyInto,
     copy_field OpenIDConnectProvider_Status OpenIDConnectProvider_Status_update (OpenIDConnectProviderStatus_DeepCopyInto L)]"

definition OpenIDConnectProvider_DeepCopy :: "'l library \<Rightarrow> ('l cell, 'l OpenIDConnectProvider ref) copier" where
  "OpenIDConnectProvider_DeepCopy L = copy_new OpenIDConnectProvider_kind (OpenIDConnectProvider_DeepCopyInto L)"

definition OpenIDConnectProvider_view :: "'l library_views \<Rightarrow> ('l cell, 'l OpenIDConnectProvider, val) view" where
  "OpenIDConnectProvider_view V = view_struct [
     view_field OpenIDConnectProvider_TypeMeta (view_plain (TypeMeta_view V)),
     view_field OpenIDConnectProvider_ObjectMeta (ObjectMeta_view V),
     view_field OpenIDConnectProvider_Spec OpenIDConnectProviderSpec_view,
     view_field OpenIDConnectProvider_Status (OpenIDConnectProviderStatus_view V)]"

lemma OpenIDConnectProvider_DeepCopyInto_copies [copiers]: "library_copies L V \<Longrightarrow> deep_copier (OpenIDConnectProvider_view V) (OpenIDConnectProvider_DeepCopyInto L)"
  unfolding OpenIDConnectProvider_view_def OpenIDConnectProvider_DeepCopyInto_def by (intro struct_rules copiers; (simp | assumption))

lemma OpenIDConnectProvider_DeepCopy_copies: "library_copies L V \<Longrightarrow> deep_copier (view_ref OpenIDConnectProvider_kind (OpenIDConnectProvider_view V)) (OpenIDConnectProvider_DeepCopy L)"
  unfolding OpenIDConnectProvider_DeepCopy_def by (intro copiers; (simp | assumption))

definition OpenIDConnectProvider_DeepCopyObject :: "'l library \<Rightarrow> 'l OpenIDConnectProvider ref \<Rightarrow> 'l cell heap \<Rightarrow> Object \<times> 'l cell heap" where
  "OpenIDConnectProvider_DeepCopyObject L = as_object ''OpenIDConnectProvider'' (OpenIDConnectProvider_DeepCopy L)"

text \<open>\<open>OpenIDConnectProviderList\<close>\<close>

definition OpenIDConnectProviderList_DeepCopyInto :: "'l library \<Rightarrow> ('l cell, 'l OpenIDConnectProviderList) copier" where
  "OpenIDConnectProviderList_DeepCopyInto L = copy_struct [
     copy_field OpenIDConnectProviderList_TypeMeta OpenIDConnectProviderList_TypeMeta_update copy_plain,
     copy_field OpenIDConnectProviderList_ListMeta OpenIDConnectProviderList_ListMeta_update (ListMeta_DeepCopyInto L),
     copy_field OpenIDConnectProviderList_Items OpenIDConnectProviderList_Items_update (copy_slice OpenIDConnectProvider_items (OpenIDConnectProvider_DeepCopyInto L))]"

definition OpenIDConnectProviderList_DeepCopy :: "'l library \<Rightarrow> ('l cell, 'l OpenIDConnectProviderList ref) copier" where
  "OpenIDConnectProviderList_DeepCopy L = copy_new OpenIDConnectProviderList_kind (OpenIDConnectProviderList_DeepCopyInto L)"

definition OpenIDConnectProviderList_view :: "'l library_views \<Rightarrow> ('l cell, 'l OpenIDConnectProviderList, val) view" where
  "OpenIDConnectProviderList_view V = view_struct [
     view_field OpenIDConnectProviderList_TypeMeta (view_plain (TypeMeta_view V)),
     view_field OpenIDConnectProviderList_ListMeta (ListMeta_view V),
     view_field OpenIDConnectProviderList_Items (view_slice OpenIDConnectProvider_items (OpenIDConnectProvider_view V))]"

lemma OpenIDConnectProviderList_DeepCopyInto_copies [copiers]: "library_copies L V \<Longrightarrow> deep_copier (OpenIDConnectProviderList_view V) (OpenIDConnectProviderList_DeepCopyInto L)"
  unfolding OpenIDConnectProviderList_view_def OpenIDConnectProviderList_DeepCopyInto_def by (intro struct_rules copiers; (simp | assumption))

lemma OpenIDConnectProviderList_DeepCopy_copies: "library_copies L V \<Longrightarrow> deep_copier (view_ref OpenIDConnectProviderList_kind (OpenIDConnectProviderList_view V)) (OpenIDConnectProviderList_DeepCopy L)"
  unfolding OpenIDConnectProviderList_DeepCopy_def by (intro copiers; (simp | assumption))

definition OpenIDConnectProviderList_DeepCopyObject :: "'l library \<Rightarrow> 'l OpenIDConnectProviderList ref \<Rightarrow> 'l cell heap \<Rightarrow> Object \<times> 'l cell heap" where
  "OpenIDConnectProviderList_DeepCopyObject L = as_object ''OpenIDConnectProviderList'' (OpenIDConnectProviderList_DeepCopy L)"

text \<open>\<open>PolicySpec\<close>\<close>

definition PolicySpec_DeepCopyInto :: "('l cell, PolicySpec) copier" where
  "PolicySpec_DeepCopyInto = copy_struct [
     copy_field PolicySpec_Description PolicySpec_Description_update copy_string,
     copy_field PolicySpec_Name PolicySpec_Name_update copy_string,
     copy_field PolicySpec_Path PolicySpec_Path_update copy_string,
     copy_field PolicySpec_PolicyDocument PolicySpec_PolicyDocument_update copy_string,
     copy_field PolicySpec_Tags PolicySpec_Tags_update (copy_refs (copy_new Tag_kind Tag_DeepCopyInto))]"

definition PolicySpec_DeepCopy :: "('l cell, PolicySpec ref) copier" where
  "PolicySpec_DeepCopy = copy_new PolicySpec_kind PolicySpec_DeepCopyInto"

definition PolicySpec_view :: "('l cell, PolicySpec, val) view" where
  "PolicySpec_view = view_struct [
     view_field PolicySpec_Description view_string,
     view_field PolicySpec_Name view_string,
     view_field PolicySpec_Path view_string,
     view_field PolicySpec_PolicyDocument view_string,
     view_field PolicySpec_Tags (view_refs (view_ref Tag_kind Tag_view))]"

lemma PolicySpec_DeepCopyInto_copies [copiers]: "deep_copier PolicySpec_view PolicySpec_DeepCopyInto"
  unfolding PolicySpec_view_def PolicySpec_DeepCopyInto_def by (intro struct_rules copiers; (simp | assumption))

lemma PolicySpec_DeepCopy_copies: "deep_copier (view_ref PolicySpec_kind PolicySpec_view) PolicySpec_DeepCopy"
  unfolding PolicySpec_DeepCopy_def by (intro copiers; (simp | assumption))

text \<open>\<open>PolicyStatus\<close>\<close>

definition PolicyStatus_DeepCopyInto :: "'l library \<Rightarrow> ('l cell, PolicyStatus) copier" where
  "PolicyStatus_DeepCopyInto L = copy_struct [
     copy_field PolicyStatus_ACKResourceMetadata PolicyStatus_ACKResourceMetadata_update (copy_new Foreign_kind (ResourceMetadata_DeepCopyInto L)),
     copy_field PolicyStatus_Conditions PolicyStatus_Conditions_update (copy_refs (copy_new Foreign_kind (Condition_DeepCopyInto L))),
     copy_field PolicyStatus_AttachmentCount PolicyStatus_AttachmentCount_update copy_int64,
     copy_field PolicyStatus_CreateDate PolicyStatus_CreateDate_update (copy_pointer (Time_DeepCopy L)),
     copy_field PolicyStatus_DefaultVersionID PolicyStatus_DefaultVersionID_update copy_string,
     copy_field PolicyStatus_IsAttachable PolicyStatus_IsAttachable_update copy_bool,
     copy_field PolicyStatus_PermissionsBoundaryUsageCount PolicyStatus_PermissionsBoundaryUsageCount_update copy_int64,
     copy_field PolicyStatus_PolicyID PolicyStatus_PolicyID_update copy_string,
     copy_field PolicyStatus_UpdateDate PolicyStatus_UpdateDate_update (copy_pointer (Time_DeepCopy L))]"

definition PolicyStatus_DeepCopy :: "'l library \<Rightarrow> ('l cell, PolicyStatus ref) copier" where
  "PolicyStatus_DeepCopy L = copy_new PolicyStatus_kind (PolicyStatus_DeepCopyInto L)"

definition PolicyStatus_view :: "'l library_views \<Rightarrow> ('l cell, PolicyStatus, val) view" where
  "PolicyStatus_view V = view_struct [
     view_field PolicyStatus_ACKResourceMetadata (view_ref Foreign_kind (ResourceMetadata_view V)),
     view_field PolicyStatus_Conditions (view_refs (view_ref Foreign_kind (Condition_view V))),
     view_field PolicyStatus_AttachmentCount view_int64,
     view_field PolicyStatus_CreateDate (view_ref Foreign_kind (Time_view V)),
     view_field PolicyStatus_DefaultVersionID view_string,
     view_field PolicyStatus_IsAttachable view_bool,
     view_field PolicyStatus_PermissionsBoundaryUsageCount view_int64,
     view_field PolicyStatus_PolicyID view_string,
     view_field PolicyStatus_UpdateDate (view_ref Foreign_kind (Time_view V))]"

lemma PolicyStatus_DeepCopyInto_copies [copiers]: "library_copies L V \<Longrightarrow> deep_copier (PolicyStatus_view V) (PolicyStatus_DeepCopyInto L)"
  unfolding PolicyStatus_view_def PolicyStatus_DeepCopyInto_def by (intro struct_rules copiers; (simp | assumption))

lemma PolicyStatus_DeepCopy_copies: "library_copies L V \<Longrightarrow> deep_copier (view_ref PolicyStatus_kind (PolicyStatus_view V)) (PolicyStatus_DeepCopy L)"
  unfolding PolicyStatus_DeepCopy_def by (intro copiers; (simp | assumption))

text \<open>\<open>Policy\<close>\<close>

definition Policy_DeepCopyInto :: "'l library \<Rightarrow> ('l cell, 'l Policy) copier" where
  "Policy_DeepCopyInto L = copy_struct [
     copy_field Policy_TypeMeta Policy_TypeMeta_update copy_plain,
     copy_field Policy_ObjectMeta Policy_ObjectMeta_update (ObjectMeta_DeepCopyInto L),
     copy_field Policy_Spec Policy_Spec_update PolicySpec_DeepCopyInto,
     copy_field Policy_Status Policy_Status_update (PolicyStatus_DeepCopyInto L)]"

definition Policy_DeepCopy :: "'l library \<Rightarrow> ('l cell, 'l Policy ref) copier" where
  "Policy_DeepCopy L = copy_new Policy_kind (Policy_DeepCopyInto L)"

definition Policy_view :: "'l library_views \<Rightarrow> ('l cell, 'l Policy, val) view" where
  "Policy_view V = view_struct [
     view_field Policy_TypeMeta (view_plain (TypeMeta_view V)),
     view_field Policy_ObjectMeta (ObjectMeta_view V),
     view_field Policy_Spec PolicySpec_view,
     view_field Policy_Status (PolicyStatus_view V)]"

lemma Policy_DeepCopyInto_copies [copiers]: "library_copies L V \<Longrightarrow> deep_copier (Policy_view V) (Policy_DeepCopyInto L)"
  unfolding Policy_view_def Policy_DeepCopyInto_def by (intro struct_rules copiers; (simp | assumption))

lemma Policy_DeepCopy_copies: "library_copies L V \<Longrightarrow> deep_copier (view_ref Policy_kind (Policy_view V)) (Policy_DeepCopy L)"
  unfolding Policy_DeepCopy_def by (intro copiers; (simp | assumption))

definition Policy_DeepCopyObject :: "'l library \<Rightarrow> 'l Policy ref \<Rightarrow> 'l cell heap \<Rightarrow> Object \<times> 'l cell heap" where
  "Policy_DeepCopyObject L = as_object ''Policy'' (Policy_DeepCopy L)"

text \<open>\<open>PolicyList\<close>\<close>

definition PolicyList_DeepCopyInto :: "'l library \<Rightarrow> ('l cell, 'l PolicyList) copier" where
  "PolicyList_DeepCopyInto L = copy_struct [
     copy_field PolicyList_TypeMeta PolicyList_TypeMeta_update copy_plain,
     copy_field PolicyList_ListMeta PolicyList_ListMeta_update (ListMeta_DeepCopyInto L),
     copy_field PolicyList_Items PolicyList_Items_update (copy_slice Policy_items (Policy_DeepCopyInto L))]"

definition PolicyList_DeepCopy :: "'l library \<Rightarrow> ('l cell, 'l PolicyList ref) copier" where
  "PolicyList_DeepCopy L = copy_new PolicyList_kind (PolicyList_DeepCopyInto L)"

definition PolicyList_view :: "'l library_views \<Rightarrow> ('l cell, 'l PolicyList, val) view" where
  "PolicyList_view V = view_struct [
     view_field PolicyList_TypeMeta (view_plain (TypeMeta_view V)),
     view_field PolicyList_ListMeta (ListMeta_view V),
     view_field PolicyList_Items (view_slice Policy_items (Policy_view V))]"

lemma PolicyList_DeepCopyInto_copies [copiers]: "library_copies L V \<Longrightarrow> deep_copier (PolicyList_view V) (PolicyList_DeepCopyInto L)"
  unfolding PolicyList_view_def PolicyList_DeepCopyInto_def by (intro struct_rules copiers; (simp | assumption))

lemma PolicyList_DeepCopy_copies: "library_copies L V \<Longrightarrow> deep_copier (view_ref PolicyList_kind (PolicyList_view V)) (PolicyList_DeepCopy L)"
  unfolding PolicyList_DeepCopy_def by (intro copiers; (simp | assumption))

definition PolicyList_DeepCopyObject :: "'l library \<Rightarrow> 'l PolicyList ref \<Rightarrow> 'l cell heap \<Rightarrow> Object \<times> 'l cell heap" where
  "PolicyList_DeepCopyObject L = as_object ''PolicyList'' (PolicyList_DeepCopy L)"

text \<open>\<open>RoleSpec\<close>\<close>

definition RoleSpec_DeepCopyInto :: "'l library \<Rightarrow> ('l cell, RoleSpec) copier" where
  "RoleSpec_DeepCopyInto L = copy_struct [
     copy_field RoleSpec_AssumeRolePolicyDocument RoleSpec_AssumeRolePolicyDocument_update copy_string,
     copy_field RoleSpec_Description RoleSpec_Description_update copy_string,
     copy_field RoleSpec_InlinePolicies RoleSpec_InlinePolicies_update (copy_strings_map (MapOrder L)),
     copy_field RoleSpec_MaxSessionDuration RoleSpec_MaxSessionDuration_update copy_int64,
     copy_field RoleSpec_Name RoleSpec_Name_update copy_string,
     copy_field RoleSpec_Path RoleSpec_Path_update copy_string,
     copy_field RoleSpec_PermissionsBoundary RoleSpec_PermissionsBoundary_update copy_string,
     copy_field RoleSpec_PermissionsBoundaryRef RoleSpec_PermissionsBoundaryRef_update (copy_new Foreign_kind (AWSResourceReferenceWrapper_DeepCopyInto L)),
     copy_field RoleSpec_Policies RoleSpec_Policies_update copy_strings,
     copy_field RoleSpec_PolicyRefs RoleSpec_PolicyRefs_update (copy_refs (copy_new Foreign_kind (AWSResourceReferenceWrapper_DeepCopyInto L))),
     copy_field RoleSpec_Tags RoleSpec_Tags_update (copy_refs (copy_new Tag_kind Tag_DeepCopyInto))]"

definition RoleSpec_DeepCopy :: "'l library \<Rightarrow> ('l cell, RoleSpec ref) copier" where
  "RoleSpec_DeepCopy L = copy_new RoleSpec_kind (RoleSpec_DeepCopyInto L)"

definition RoleSpec_view :: "'l library_views \<Rightarrow> ('l cell, RoleSpec, val) view" where
  "RoleSpec_view V = view_struct [
     view_field RoleSpec_AssumeRolePolicyDocument view_string,
     view_field RoleSpec_Description view_string,
     view_field RoleSpec_InlinePolicies view_strings_map,
     view_field RoleSpec_MaxSessionDuration view_int64,
     view_field RoleSpec_Name view_string,
     view_field RoleSpec_Path view_string,
     view_field RoleSpec_PermissionsBoundary view_string,
     view_field RoleSpec_PermissionsBoundaryRef (view_ref Foreign_kind (AWSResourceReferenceWrapper_view V)),
     view_field RoleSpec_Policies view_strings,
     view_field RoleSpec_PolicyRefs (view_refs (view_ref Foreign_kind (AWSResourceReferenceWrapper_view V))),
     view_field RoleSpec_Tags (view_refs (view_ref Tag_kind Tag_view))]"

lemma RoleSpec_DeepCopyInto_copies [copiers]: "library_copies L V \<Longrightarrow> deep_copier (RoleSpec_view V) (RoleSpec_DeepCopyInto L)"
  unfolding RoleSpec_view_def RoleSpec_DeepCopyInto_def by (intro struct_rules copiers; (simp | assumption))

lemma RoleSpec_DeepCopy_copies: "library_copies L V \<Longrightarrow> deep_copier (view_ref RoleSpec_kind (RoleSpec_view V)) (RoleSpec_DeepCopy L)"
  unfolding RoleSpec_DeepCopy_def by (intro copiers; (simp | assumption))

text \<open>\<open>RoleStatus\<close>\<close>

definition RoleStatus_DeepCopyInto :: "'l library \<Rightarrow> ('l cell, RoleStatus) copier" where
  "RoleStatus_DeepCopyInto L = copy_struct [
     copy_field RoleStatus_ACKResourceMetadata RoleStatus_ACKResourceMetadata_update (copy_new Foreign_kind (ResourceMetadata_DeepCopyInto L)),
     copy_field RoleStatus_Conditions RoleStatus_Conditions_update (copy_refs (copy_new Foreign_kind (Condition_DeepCopyInto L))),
     copy_field RoleStatus_CreateDate RoleStatus_CreateDate_update (copy_pointer (Time_DeepCopy L)),
     copy_field RoleStatus_RoleID RoleStatus_RoleID_update copy_string,
     copy_field RoleStatus_RoleLastUsed RoleStatus_RoleLastUsed_update (copy_new RoleLastUsed_kind (RoleLastUsed_DeepCopyInto L))]"

definition RoleStatus_DeepCopy :: "'l library \<Rightarrow> ('l cell, RoleStatus ref) copier" where
  "RoleStatus_DeepCopy L = copy_new RoleStatus_kind (RoleStatus_DeepCopyInto L)"

definition RoleStatus_view :: "'l library_views \<Rightarrow> ('l cell, RoleStatus, val) view" where
  "RoleStatus_view V = view_struct [
     view_field RoleStatus_ACKResourceMetadata (view_ref Foreign_kind (ResourceMetadata_view V)),
     view_field RoleStatus_Conditions (view_refs (view_ref Foreign_kind (Condition_view V))),
     view_field RoleStatus_CreateDate (view_ref Foreign_kind (Time_view V)),
     view_field RoleStatus_RoleID view_string,
     view_field RoleStatus_RoleLastUsed (view_ref RoleLastUsed_kind (RoleLastUsed_view V))]"

lemma RoleStatus_DeepCopyInto_copies [copiers]: "library_copies L V \<Longrightarrow> deep_copier (RoleStatus_view V) (RoleStatus_DeepCopyInto L)"
  unfolding RoleStatus_view_def RoleStatus_DeepCopyInto_def by (intro struct_rules copiers; (simp | assumption))

lemma RoleStatus_DeepCopy_copies: "library_copies L V \<Longrightarrow> deep_copier (view_ref RoleStatus_kind (RoleStatus_view V)) (RoleStatus_DeepCopy L)"
  unfolding RoleStatus_DeepCopy_def by (intro copiers; (simp | assumption))

text \<open>\<open>Role\<close>\<close>

definition Role_DeepCopyInto :: "'l library \<Rightarrow> ('l cell, 'l Role) copier" where
  "Role_DeepCopyInto L = copy_struct [
     copy_field Role_TypeMeta Role_TypeMeta_update copy_plain,
     copy_field Role_ObjectMeta Role_ObjectMeta_update (ObjectMeta_DeepCopyInto L),
     copy_field Role_Spec Role_Spec_update (RoleSpec_DeepCopyInto L),
     copy_field Role_Status Role_Status_update (RoleStatus_DeepCopyInto L)]"

definition Role_DeepCopy :: "'l library \<Rightarrow> ('l cell, 'l Role ref) copier" where
  "Role_DeepCopy L = copy_new Role_kind (Role_DeepCopyInto L)"

definition Role_view :: "'l library_views \<Rightarrow> ('l cell, 'l Role, val) view" where
  "Role_view V = view_struct [
     view_field Role_TypeMeta (view_plain (TypeMeta_view V)),
     view_field Role_ObjectMeta (ObjectMeta_view V),
     view_field Role_Spec (RoleSpec_view V),
     view_field Role_Status (RoleStatus_view V)]"

lemma Role_DeepCopyInto_copies [copiers]: "library_copies L V \<Longrightarrow> deep_copier (Role_view V) (Role_DeepCopyInto L)"
  unfolding Role_view_def Role_DeepCopyInto_def by (intro struct_rules copiers; (simp | assumption))

lemma Role_DeepCopy_copies: "library_copies L V \<Longrightarrow> deep_copier (view_ref Role_kind (Role_view V)) (Role_DeepCopy L)"
  unfolding Role_DeepCopy_def by (intro copiers; (simp | assumption))

definition Role_DeepCopyObject :: "'l library \<Rightarrow> 'l Role ref \<Rightarrow> 'l cell heap \<Rightarrow> Object \<times> 'l cell heap" where
  "Role_DeepCopyObject L = as_object ''Role'' (Role_DeepCopy L)"

text \<open>\<open>RoleList\<close>\<close>

definition RoleList_DeepCopyInto :: "'l library \<Rightarrow> ('l cell, 'l RoleList) copier" where
  "RoleList_DeepCopyInto L = copy_struct [
     copy_field RoleList_TypeMeta RoleList_TypeMeta_update copy_plain,
     copy_field RoleList_ListMeta RoleList_ListMeta_update (ListMeta_DeepCopyInto L),
     copy_field RoleList_Items RoleList_Items_update (copy_slice Role_items (Role_DeepCopyInto L))]"

definition RoleList_DeepCopy :: "'l library \<Rightarrow> ('l cell, 'l RoleList ref) copier" where
  "RoleList_DeepCopy L = copy_new RoleList_kind (RoleList_DeepCopyInto L)"

definition RoleList_view :: "'l library_views \<Rightarrow> ('l cell, 'l RoleList, val) view" where
  "RoleList_view V = view_struct [
     view_field RoleList_TypeMeta (view_plain (TypeMeta_view V)),
     view_field RoleList_ListMeta (ListMeta_view V),
     view_field RoleList_Items (view_slice Role_items (Role_view V))]"

lemma RoleList_DeepCopyInto_copies [copiers]: "library_copies L V \<Longrightarrow> deep_copier (RoleList_view V) (RoleList_DeepCopyInto L)"
  unfolding RoleList_view_def RoleList_DeepCopyInto_def by (intro struct_rules copiers; (simp | assumption))

lemma RoleList_DeepCopy_copies: "library_copies L V \<Longrightarrow> deep_copier (view_ref RoleList_kind (RoleList_view V)) (RoleList_DeepCopy L)"
  unfolding RoleList_DeepCopy_def by (intro copiers; (simp | assumption))

definition RoleList_DeepCopyObject :: "'l library \<Rightarrow> 'l RoleList ref \<Rightarrow> 'l cell heap \<Rightarrow> Object \<times> 'l cell heap" where
  "RoleList_DeepCopyObject L = as_object ''RoleList'' (RoleList_DeepCopy L)"

text \<open>\<open>ServiceLinkedRoleSpec\<close>\<close>

definition ServiceLinkedRoleSpec_DeepCopyInto :: "('l cell, ServiceLinkedRoleSpec) copier" where
  "ServiceLinkedRoleSpec_DeepCopyInto = copy_struct [
     copy_field ServiceLinkedRoleSpec_AWSServiceName ServiceLinkedRoleSpec_AWSServiceName_update copy_string,
     copy_field ServiceLinkedRoleSpec_CustomSuffix ServiceLinkedRoleSpec_CustomSuffix_update copy_string,
     copy_field ServiceLinkedRoleSpec_Description ServiceLinkedRoleSpec_Description_update copy_string]"

definition ServiceLinkedRoleSpec_DeepCopy :: "('l cell, ServiceLinkedRoleSpec ref) copier" where
  "ServiceLinkedRoleSpec_DeepCopy = copy_new ServiceLinkedRoleSpec_kind ServiceLinkedRoleSpec_DeepCopyInto"

definition ServiceLinkedRoleSpec_view :: "('l cell, ServiceLinkedRoleSpec, val) view" where
  "ServiceLinkedRoleSpec_view = view_struct [
     view_field ServiceLinkedRoleSpec_AWSServiceName view_string,
     view_field ServiceLinkedRoleSpec_CustomSuffix view_string,
     view_field ServiceLinkedRoleSpec_Description view_string]"

lemma ServiceLinkedRoleSpec_DeepCopyInto_copies [copiers]: "deep_copier ServiceLinkedRoleSpec_view ServiceLinkedRoleSpec_DeepCopyInto"
  unfolding ServiceLinkedRoleSpec_view_def ServiceLinkedRoleSpec_DeepCopyInto_def by (intro struct_rules copiers; (simp | assumption))

lemma ServiceLinkedRoleSpec_DeepCopy_copies: "deep_copier (view_ref ServiceLinkedRoleSpec_kind ServiceLinkedRoleSpec_view) ServiceLinkedRoleSpec_DeepCopy"
  unfolding ServiceLinkedRoleSpec_DeepCopy_def by (intro copiers; (simp | assumption))

text \<open>\<open>ServiceLinkedRoleStatus\<close>\<close>

definition ServiceLinkedRoleStatus_DeepCopyInto :: "'l library \<Rightarrow> ('l cell, ServiceLinkedRoleStatus) copier" where
  "ServiceLinkedRoleStatus_DeepCopyInto L = copy_struct [
     copy_field ServiceLinkedRoleStatus_ACKResourceMetadata ServiceLinkedRoleStatus_ACKResourceMetadata_update (copy_new Foreign_kind (ResourceMetadata_DeepCopyInto L)),
     copy_field ServiceLinkedRoleStatus_Conditions ServiceLinkedRoleStatus_Conditions_update (copy_refs (copy_new Foreign_kind (Condition_DeepCopyInto L))),
     copy_field ServiceLinkedRoleStatus_AssumeRolePolicyDocument ServiceLinkedRoleStatus_AssumeRolePolicyDocument_update copy_string,
     copy_field ServiceLinkedRoleStatus_CreateDate ServiceLinkedRoleStatus_CreateDate_update (copy_pointer (Time_DeepCopy L)),
     copy_field ServiceLinkedRoleStatus_MaxSessionDuration ServiceLinkedRoleStatus_MaxSessionDuration_update copy_int64,
     copy_field ServiceLinkedRoleStatus_Path ServiceLinkedRoleStatus_Path_update copy_string,
     copy_field ServiceLinkedRoleStatus_PermissionsBoundary ServiceLinkedRoleStatus_PermissionsBoundary_update (copy_new AttachedPermissionsBoundary_kind AttachedPermissionsBoundary_DeepCopyInto),
     copy_field ServiceLinkedRoleStatus_RoleID ServiceLinkedRoleStatus_RoleID_update copy_string,
     copy_field ServiceLinkedRoleStatus_RoleLastUsed ServiceLinkedRoleStatus_RoleLastUsed_update (copy_new RoleLastUsed_kind (RoleLastUsed_DeepCopyInto L)),
     copy_field ServiceLinkedRoleStatus_RoleName ServiceLinkedRoleStatus_RoleName_update copy_string,
     copy_field ServiceLinkedRoleStatus_Tags ServiceLinkedRoleStatus_Tags_update (copy_refs (copy_new Tag_kind Tag_DeepCopyInto))]"

definition ServiceLinkedRoleStatus_DeepCopy :: "'l library \<Rightarrow> ('l cell, ServiceLinkedRoleStatus ref) copier" where
  "ServiceLinkedRoleStatus_DeepCopy L = copy_new ServiceLinkedRoleStatus_kind (ServiceLinkedRoleStatus_DeepCopyInto L)"

definition ServiceLinkedRoleStatus_view :: "'l library_views \<Rightarrow> ('l cell, ServiceLinkedRoleStatus, val) view" where
  "ServiceLinkedRoleStatus_view V = view_struct [
     view_field ServiceLinkedRoleStatus_ACKResourceMetadata (view_ref Foreign_kind (ResourceMetadata_view V)),
     view_field ServiceLinkedRoleStatus_Conditions (view_refs (view_ref Foreign_kind (Condition_view V))),
     view_field ServiceLinkedRoleStatus_AssumeRolePolicyDocument view_string,
     view_field ServiceLinkedRoleStatus_CreateDate (view_ref Foreign_kind (Time_view V)),
     view_field ServiceLinkedRoleStatus_MaxSessionDuration view_int64,
     view_field ServiceLinkedRoleStatus_Path view_string,
     view_field ServiceLinkedRoleStatus_PermissionsBoundary (view_ref AttachedPermissionsBoundary_kind AttachedPermissionsBoundary_view),
     view_field ServiceLinkedRoleStatus_RoleID view_string,
     view_field ServiceLinkedRoleStatus_RoleLastUsed (view_ref RoleLastUsed_kind (RoleLastUsed_view V)),
     view_field ServiceLinkedRoleStatus_RoleName view_string,
     view_field ServiceLinkedRoleStatus_Tags (view_refs (view_ref Tag_kind Tag_view))]"

lemma ServiceLinkedRoleStatus_DeepCopyInto_copies [copiers]: "library_copies L V \<Longrightarrow> deep_copier (ServiceLinkedRoleStatus_view V) (ServiceLinkedRoleStatus_DeepCopyInto L)"
  unfolding ServiceLinkedRoleStatus_view_def ServiceLinkedRoleStatus_DeepCopyInto_def by (intro struct_rules copiers; (simp | assumption))

lemma ServiceLinkedRoleStatus_DeepCopy_copies: "library_copies L V \<Longrightarrow> deep_copier (view_ref ServiceLinkedRoleStatus_kind (ServiceLinkedRoleStatus_view V)) (ServiceLinkedRoleStatus_DeepCopy L)"
  unfolding ServiceLinkedRoleStatus_DeepCopy_def by (intro copiers; (simp | assumption))

text \<open>\<open>ServiceLinkedRole\<close>\<close>

definition ServiceLinkedRole_DeepCopyInto :: "'l library \<Rightarrow> ('l cell, 'l ServiceLinkedRole) copier" where
  "ServiceLinkedRole_DeepCopyInto L = copy_struct [
     copy_field ServiceLinkedRole_TypeMeta ServiceLinkedRole_TypeMeta_update copy_plain,
     copy_field ServiceLinkedRole_ObjectMeta ServiceLinkedRole_ObjectMeta_update (ObjectMeta_DeepCopyInto L),
     copy_field ServiceLinkedRole_Spec ServiceLinkedRole_Spec_update ServiceLinkedRoleSpec_DeepCopyInto,
     copy_field ServiceLinkedRole_Status ServiceLinkedRole_Status_update (ServiceLinkedRoleStatus_DeepCopyInto L)]"

definition ServiceLinkedRole_DeepCopy :: "'l library \<Rightarrow> ('l cell, 'l ServiceLinkedRole ref) copier" where
  "ServiceLinkedRole_DeepCopy L = copy_new ServiceLinkedRole_kind (ServiceLinkedRole_DeepCopyInto L)"

definition ServiceLinkedRole_view :: "'l library_views \<Rightarrow> ('l cell, 'l ServiceLinkedRole, val) view" where
  "ServiceLinkedRole_view V = view_struct [
     view_field ServiceLinkedRole_TypeMeta (view_plain (TypeMeta_view V)),
     view_field ServiceLinkedRole_ObjectMeta (ObjectMeta_view V),
     view_field ServiceLinkedRole_Spec ServiceLinkedRoleSpec_view,
     view_field ServiceLinkedRole_Status (ServiceLinkedRoleStatus_view V)]"

lemma ServiceLinkedRole_DeepCopyInto_copies [copiers]: "library_copies L V \<Longrightarrow> deep_copier (ServiceLinkedRole_view V) (ServiceLinkedRole_DeepCopyInto L)"
  unfolding ServiceLinkedRole_view_def ServiceLinkedRole_DeepCopyInto_def by (intro struct_rules copiers; (simp | assumption))

lemma ServiceLinkedRole_DeepCopy_copies: "library_copies L V \<Longrightarrow> deep_copier (view_ref ServiceLinkedRole_kind (ServiceLinkedRole_view V)) (ServiceLinkedRole_DeepCopy L)"
  unfolding ServiceLinkedRole_DeepCopy_def by (intro copiers; (simp | assumption))

definition ServiceLinkedRole_DeepCopyObject :: "'l library \<Rightarrow> 'l ServiceLinkedRole ref \<Rightarrow> 'l cell heap \<Rightarrow> Object \<times> 'l cell heap" where
  "ServiceLinkedRole_DeepCopyObject L = as_object ''ServiceLinkedRole'' (ServiceLinkedRole_DeepCopy L)"

text \<open>\<open>ServiceLinkedRoleList\<close>\<close>

definition ServiceLinkedRoleList_DeepCopyInto :: "'l library \<Rightarrow> ('l cell, 'l ServiceLinkedRoleList) copier" where
  "ServiceLinkedRoleList_DeepCopyInto L = copy_struct [
     copy_field ServiceLinkedRoleList_TypeMeta ServiceLinkedRoleList_TypeMeta_update copy_plain,
     copy_field ServiceLinkedRoleList_ListMeta ServiceLinkedRoleList_ListMeta_update (ListMeta_DeepCopyInto L),
     copy_field ServiceLinkedRoleList_Items ServiceLinkedRoleList_Items_update (copy_slice ServiceLinkedRole_items (ServiceLinkedRole_DeepCopyInto L))]"

definition ServiceLinkedRoleList_DeepCopy :: "'l library \<Rightarrow> ('l cell, 'l ServiceLinkedRoleList ref) copier" where
  "ServiceLinkedRoleList_DeepCopy L = copy_new ServiceLinkedRoleList_kind (ServiceLinkedRoleList_DeepCopyInto L)"

definition ServiceLinkedRoleList_view :: "'l library_views \<Rightarrow> ('l cell, 'l ServiceLinkedRoleList, val) view" where
  "ServiceLinkedRoleList_view V = view_struct [
     view_field ServiceLinkedRoleList_TypeMeta (view_plain (TypeMeta_view V)),
     view_field ServiceLinkedRoleList_ListMeta (ListMeta_view V),
     view_field ServiceLinkedRoleList_Items (view_slice ServiceLinkedRole_items (ServiceLinkedRole_view V))]"

lemma ServiceLinkedRoleList_DeepCopyInto_copies [copiers]: "library_copies L V \<Longrightarrow> deep_copier (ServiceLinkedRoleList_view V) (ServiceLinkedRoleList_DeepCopyInto L)"
  unfolding ServiceLinkedRoleList_view_def ServiceLinkedRoleList_DeepCopyInto_def by (intro struct_rules copiers; (simp | assumption))

lemma ServiceLinkedRoleList_DeepCopy_copies: "library_copies L V \<Longrightarrow> deep_copier (view_ref ServiceLinkedRoleList_kind (ServiceLinkedRoleList_view V)) (ServiceLinkedRoleList_DeepCopy L)"
  unfolding ServiceLinkedRoleList_DeepCopy_def by (intro copiers; (simp | assumption))

definition ServiceLinkedRoleList_DeepCopyObject :: "'l library \<Rightarrow> 'l ServiceLinkedRoleList ref \<Rightarrow> 'l cell heap \<Rightarrow> Object \<times> 'l cell heap" where
  "ServiceLinkedRoleList_DeepCopyObject L = as_object ''ServiceLinkedRoleList'' (ServiceLinkedRoleList_DeepCopy L)"

text \<open>\<open>UserSpec\<close>\<close>

definition UserSpec_DeepCopyInto :: "'l library \<Rightarrow> ('l cell, UserSpec) copier" where
  "UserSpec_DeepCopyInto L = copy_struct [
     copy_field UserSpec_InlinePolicies UserSpec_InlinePolicies_update (copy_strings_map (MapOrder L)),
     copy_field UserSpec_Name UserSpec_Name_update copy_string,
     copy_field UserSpec_Path UserSpec_Path_update copy_string,
     copy_field UserSpec_PermissionsBoundary UserSpec_PermissionsBoundary_update copy_string,
     copy_field UserSpec_PermissionsBoundaryRef UserSpec_PermissionsBoundaryRef_update (copy_new Foreign_kind (AWSResourceReferenceWrapper_DeepCopyInto L)),
     copy_field UserSpec_Policies UserSpec_Policies_update copy_strings,
     copy_field UserSpec_PolicyRefs UserSpec_PolicyRefs_update (copy_refs (copy_new Foreign_kind (AWSResourceReferenceWrapper_DeepCopyInto L))),
     copy_field UserSpec_Tags UserSpec_Tags_update (copy_refs (copy_new Tag_kind Tag_DeepCopyInto))]"

definition UserSpec_DeepCopy :: "'l library \<Rightarrow> ('l cell, UserSpec ref) copier" where
  "UserSpec_DeepCopy L = copy_new UserSpec_kind (UserSpec_DeepCopyInto L)"

definition UserSpec_view :: "'l library_views \<Rightarrow> ('l cell, UserSpec, val) view" where
  "UserSpec_view V = view_struct [
     view_field UserSpec_InlinePolicies view_strings_map,
     view_field UserSpec_Name view_string,
     view_field UserSpec_Path view_string,
     view_field UserSpec_PermissionsBoundary view_string,
     view_field UserSpec_PermissionsBoundaryRef (view_ref Foreign_kind (AWSResourceReferenceWrapper_view V)),
     view_field UserSpec_Policies view_strings,
     view_field UserSpec_PolicyRefs (view_refs (view_ref Foreign_kind (AWSResourceReferenceWrapper_view V))),
     view_field UserSpec_Tags (view_refs (view_ref Tag_kind Tag_view))]"

lemma UserSpec_DeepCopyInto_copies [copiers]: "library_copies L V \<Longrightarrow> deep_copier (UserSpec_view V) (UserSpec_DeepCopyInto L)"
  unfolding UserSpec_view_def UserSpec_DeepCopyInto_def by (intro struct_rules copiers; (simp | assumption))

lemma UserSpec_DeepCopy_copies: "library_copies L V \<Longrightarrow> deep_copier (view_ref UserSpec_kind (UserSpec_view V)) (UserSpec_DeepCopy L)"
  unfolding UserSpec_DeepCopy_def by (intro copiers; (simp | assumption))

text \<open>\<open>UserStatus\<close>\<close>

definition UserStatus_DeepCopyInto :: "'l library \<Rightarrow> ('l cell, UserStatus) copier" where
  "UserStatus_DeepCopyInto L = copy_struct [
     copy_field UserStatus_ACKResourceMetadata UserStatus_ACKResourceMetadata_update (copy_new Foreign_kind (ResourceMetadata_DeepCopyInto L)),
     copy_field UserStatus_Conditions UserStatus_Conditions_update (copy_refs (copy_new Foreign_kind (Condition_DeepCopyInto L))),
     copy_field UserStatus_CreateDate UserStatus_CreateDate_update (copy_pointer (Time_DeepCopy L)),
     copy_field UserStatus_PasswordLastUsed UserStatus_PasswordLastUsed_update (copy_pointer (Time_DeepCopy L)),
     copy_field UserStatus_UserID UserStatus_UserID_update copy_string]"

definition UserStatus_DeepCopy :: "'l library \<Rightarrow> ('l cell, UserStatus ref) copier" where
  "UserStatus_DeepCopy L = copy_new UserStatus_kind (UserStatus_DeepCopyInto L)"

definition UserStatus_view :: "'l library_views \<Rightarrow> ('l cell, UserStatus, val) view" where
  "UserStatus_view V = view_struct [
     view_field UserStatus_ACKResourceMetadata (view_ref Foreign_kind (ResourceMetadata_view V)),
     view_field UserStatus_Conditions (view_refs (view_ref Foreign_kind (Condition_view V))),
     view_field UserStatus_CreateDate (view_ref Foreign_kind (Time_view V)),
     view_field UserStatus_PasswordLastUsed (view_ref Foreign_kind (Time_view V)),
     view_field UserStatus_UserID view_string]"

lemma UserStatus_DeepCopyInto_copies [copiers]: "library_copies L V \<Longrightarrow> deep_copier (UserStatus_view V) (UserStatus_DeepCopyInto L)"
  unfolding UserStatus_view_def UserStatus_DeepCopyInto_def by (intro struct_rules copiers; (simp | assumption))

lemma UserStatus_DeepCopy_copies: "library_copies L V \<Longrightarrow> deep_copier (view_ref UserStatus_kind (UserStatus_view V)) (UserStatus_DeepCopy L)"
  unfolding UserStatus_DeepCopy_def by (intro copiers; (simp | assumption))

text \<open>\<open>User\<close>\<close>

definition User_DeepCopyInto :: "'l library \<Rightarrow> ('l cell, 'l User) copier" where
  "User_DeepCopyInto L = copy_struct [
     copy_field User_TypeMeta User_TypeMeta_update copy_plain,
     copy_field User_ObjectMeta User_ObjectMeta_update (ObjectMeta_DeepCopyInto L),
     copy_field User_Spec User_Spec_update (UserSpec_DeepCopyInto L),
     copy_field User_Status User_Status_update (UserStatus_DeepCopyInto L)]"

definition User_DeepCopy :: "'l library \<Rightarrow> ('l cell, 'l User ref) copier" where
  "User_DeepCopy L = copy_new User_kind (User_DeepCopyInto L)"

definition User_view :: "'l library_views \<Rightarrow> ('l cell, 'l User, val) view" where
  "User_view V = view_struct [
     view_field User_TypeMeta (view_plain (TypeMeta_view V)),
     view_field User_ObjectMeta (ObjectMeta_view V),
     view_field User_Spec (UserSpec_view V),
     view_field User_Status (UserStatus_view V)]"

lemma User_DeepCopyInto_copies [copiers]: "library_copies L V \<Longrightarrow> deep_copier (User_view V) (User_DeepCopyInto L)"
  unfolding User_view_def User_DeepCopyInto_def by (intro struct_rules copiers; (simp | assumption))

lemma User_DeepCopy_copies: "library_copies L V \<Longrightarrow> deep_copier (view_ref User_kind (User_view V)) (User_DeepCopy L)"
  unfolding User_DeepCopy_def by (intro copiers; (simp | assumption))

definition User_DeepCopyObject :: "'l library \<Rightarrow> 'l User ref \<Rightarrow> 'l cell heap \<Rightarrow> Object \<times> 'l cell heap" where
  "User_DeepCopyObject L = as_object ''User'' (User_DeepCopy L)"

text \<open>\<open>UserList\<close>\<close>

definition UserList_DeepCopyInto :: "'l library \<Rightarrow> ('l cell, 'l UserList) copier" where
  "UserList_DeepCopyInto L = copy_struct [
     copy_field UserList_TypeMeta UserList_TypeMeta_update copy_plain,
     copy_field UserList_ListMeta UserList_ListMeta_update (ListMeta_DeepCopyInto L),
     copy_field UserList_Items UserList_Items_update (copy_slice User_items (User_DeepCopyInto L))]"

definition UserList_DeepCopy :: "'l library \<Rightarrow> ('l cell, 'l UserList ref) copier" where
  "UserList_DeepCopy L = copy_new UserList_kind (UserList_DeepCopyInto L)"

definition UserList_view :: "'l library_views \<Rightarrow> ('l cell, 'l UserList, val) view" where
  "UserList_view V = view_struct [
     view_field UserList_TypeMeta (view_plain (TypeMeta_view V)),
     view_field UserList_ListMeta (ListMeta_view V),
     view_field UserList_Items (view_slice User_items (User_view V))]"

lemma UserList_DeepCopyInto_copies [copiers]: "library_copies L V \<Longrightarrow> deep_copier (UserList_view V) (UserList_DeepCopyInto L)"
  unfolding UserList_view_def UserList_DeepCopyInto_def by (intro struct_rules copiers; (simp | assumption))

lemma UserList_DeepCopy_copies: "library_copies L V \<Longrightarrow> deep_copier (view_ref UserList_kind (UserList_view V)) (UserList_DeepCopy L)"
  unfolding UserList_DeepCopy_def by (intro copiers; (simp | assumption))

definition UserList_DeepCopyObject :: "'l library \<Rightarrow> 'l UserList ref \<Rightarrow> 'l cell heap \<Rightarrow> Object \<times> 'l cell heap" where
  "UserList_DeepCopyObject L = as_object ''UserList'' (UserList_DeepCopy L)"

end
