(* ===== verification/DeepCopyProperties.thy ===== *)
theory DeepCopyProperties
  imports DeepCopyResources
begin

text \<open>
  The generated deep copies are what the rest of the development takes \<open>DeepCopy\<close> for: the copy of
  a custom resource is the same value, and nothing written through the one is seen by the other.
\<close>

subsection \<open>The specification\<close>

text \<open>
  A value with the tree \<open>u\<close> on the cells \<open>F\<close> is copied in isolation when both values have that tree
  in the new heap, share no cell, and a write to a cell of one leaves the tree of the other.
\<close>

definition isolated_copy :: "('c, 'x, val) view \<Rightarrow> ('c, 'x) copier \<Rightarrow> bool" where
  "isolated_copy view copy \<longleftrightarrow> (\<forall>h x u F y h'. view h x = Some (u, F) \<longrightarrow> copy x h = (y, h') \<longrightarrow>
     (\<exists>F'. view h' x = Some (u, F) \<and> view h' y = Some (u, F') \<and> F \<inter> F' = {} \<and>
       (\<forall>a\<in>F'. \<forall>c. view (h'[a := c]) x = Some (u, F)) \<and>
       (\<forall>a\<in>F. \<forall>c. view (h'[a := c]) y = Some (u, F'))))"

lemma deep_copier_isolated:
  assumes "deep_copier view copy"
  shows "isolated_copy view copy"
  unfolding isolated_copy_def
proof (intro allI impI)
  fix h x u F y h'
  assume v: "view h x = Some (u, F)" and c: "copy x h = (y, h')"
  show "\<exists>F'. view h' x = Some (u, F) \<and> view h' y = Some (u, F') \<and> F \<inter> F' = {} \<and>
       (\<forall>a\<in>F'. \<forall>c. view (h'[a := c]) x = Some (u, F)) \<and>
       (\<forall>a\<in>F. \<forall>c. view (h'[a := c]) y = Some (u, F'))"
    by (rule deep_copier.isolated [OF assms v c]) blast
qed

interpretation tags: deep_copier Tag_view Tag_DeepCopyInto
  by (rule Tag_DeepCopyInto_copies)

interpretation tag_cells: cell_kind Tag_kind
  by (rule Tag_kind_law)

subsection \<open>A library\<close>

text \<open>
  A library whose structs hold no pointers: \<open>metav1.Time\<close> is a number, and so are the others. Its
  copies are assignments, and \<open>range\<close> visits a map backwards.
\<close>

definition flat_library :: "int library" where
  "flat_library = \<lparr>Time_DeepCopy = copy_new Foreign_kind copy_plain,
     Condition_DeepCopyInto = copy_plain, ResourceMetadata_DeepCopyInto = copy_plain,
     AWSResourceReferenceWrapper_DeepCopyInto = copy_plain, ObjectMeta_DeepCopyInto = copy_plain,
     ListMeta_DeepCopyInto = copy_plain, MapOrder = rev\<rparr>"

definition number :: "int \<Rightarrow> val" where
  "number i = Number (word_of_int i)"

definition flat_views :: "int library_views" where
  "flat_views = \<lparr>Time_view = view_plain number, Condition_view = view_plain number,
     ResourceMetadata_view = view_plain number, AWSResourceReferenceWrapper_view = view_plain number,
     ObjectMeta_view = view_plain number, ListMeta_view = view_plain number, TypeMeta_view = number\<rparr>"

lemma flat_library_copies: "library_copies flat_library flat_views"
  by (simp add: library_copies_def flat_library_def flat_views_def copier_plain copier_new Foreign_kind_law)

text \<open>
  A role in memory: two tags that share the string \<open>1\<close> and a nil one, and an inline policy whose
  document is that string again.
\<close>

definition heap_role :: "int Role" where
  "heap_role = \<lparr>Role_TypeMeta = 1, Role_ObjectMeta = 2,
     Role_Spec = \<lparr>RoleSpec_AssumeRolePolicyDocument = Some 1, RoleSpec_Description = None,
       RoleSpec_InlinePolicies = Some 5, RoleSpec_MaxSessionDuration = None, RoleSpec_Name = Some 0,
       RoleSpec_Path = None, RoleSpec_PermissionsBoundary = None, RoleSpec_PermissionsBoundaryRef = None,
       RoleSpec_Policies = None, RoleSpec_PolicyRefs = None, RoleSpec_Tags = Some (4, 1, 2)\<rparr>,
     Role_Status = \<lparr>RoleStatus_ACKResourceMetadata = None, RoleStatus_Conditions = None,
       RoleStatus_CreateDate = Some 6, RoleStatus_RoleID = None, RoleStatus_RoleLastUsed = None\<rparr>\<rparr>"

definition sample_heap :: "int cell heap" where
  "sample_heap = [Basic (String_cell ''a''), Basic (String_cell ''b''),
     Put Tag_kind \<lparr>Tag_Key = Some 0, Tag_Value = Some 1\<rparr>,
     Put Tag_kind \<lparr>Tag_Key = Some 1, Tag_Value = None\<rparr>,
     Basic (Refs_cell [Some 2, Some 3, None]),
     Basic (Entries_cell [(''p'', Some 1), (''q'', None)]), Foreign 7, Put Role_kind heap_role]"

lemma sample_view: "view_ref Role_kind (Role_view flat_views) sample_heap (Some 7) \<noteq> None"
  by (simp add: view_ref_def load_def sample_heap_def Role_kind_def heap_role_def Role_view_def
      RoleSpec_view_def RoleStatus_view_def view_struct_def view_field_def view_string_def view_int64_def
      String_kind_def view_plain_def view_strings_map_def view_dict_def Entries_kind_def view_entry_def
      view_refs_def view_slice_def Refs_kind_def Tag_kind_def Tag_view_def view_strings_def
      flat_views_def Foreign_kind_def)

text \<open>\<open>DeepCopyObject\<close> of a nil resource is the nil interface, not an interface that holds nil.\<close>

lemma as_object_nil: "fst (as_object name (copy_new k c) None h) = None"
  by (simp add: as_object_def copy_new_def)

lemma as_object_copy:
  assumes "view_ref k v h (Some a) = Some (u, F)"
  obtains b where "fst (as_object name (copy_new k c) (Some a) h) = Some (name, Some b)"
    and "fst (copy_new k c (Some a) h) = Some b"
  using assms
  by (auto simp: as_object_def copy_new_def view_ref_def split_beta Let_def split: Option.bind_splits)

subsection \<open>Properties\<close>

text \<open>
  C38. The custom resources are copied deeply: for each of the seven, \<open>DeepCopy\<close> returns a resource
  with the same tree (spec, status, tags, policies, inline policies, references, conditions) on
  cells of its own, so a change made through the copy is not seen in the original, nor the other
  way round.
\<close>

theorem resources_deep_copied:
  assumes "library_copies L V"
  shows "isolated_copy (view_ref Role_kind (Role_view V)) (Role_DeepCopy L) \<and>
    isolated_copy (view_ref Policy_kind (Policy_view V)) (Policy_DeepCopy L) \<and>
    isolated_copy (view_ref User_kind (User_view V)) (User_DeepCopy L) \<and>
    isolated_copy (view_ref Group_kind (Group_view V)) (Group_DeepCopy L) \<and>
    isolated_copy (view_ref InstanceProfile_kind (InstanceProfile_view V)) (InstanceProfile_DeepCopy L) \<and>
    isolated_copy (view_ref OpenIDConnectProvider_kind (OpenIDConnectProvider_view V))
      (OpenIDConnectProvider_DeepCopy L) \<and>
    isolated_copy (view_ref ServiceLinkedRole_kind (ServiceLinkedRole_view V)) (ServiceLinkedRole_DeepCopy L)"
  using assms
  by (intro conjI deep_copier_isolated Role_DeepCopy_copies Policy_DeepCopy_copies User_DeepCopy_copies
      Group_DeepCopy_copies InstanceProfile_DeepCopy_copies OpenIDConnectProvider_DeepCopy_copies
      ServiceLinkedRole_DeepCopy_copies)


theorem resources_deep_copied_witness:
  "isolated_copy (view_ref Role_kind (Role_view flat_views)) (Role_DeepCopy flat_library) \<and>
    (\<exists>u F. view_ref Role_kind (Role_view flat_views) sample_heap (Some 7) = Some (u, F))"
  using resources_deep_copied [OF flat_library_copies] sample_view by simp

end
