(* ===== verification/RoleRefine.thy ===== *)
theory RoleRefine
  imports RoleCrud RoleDelta Principal
begin

text \<open>
  \<open>sdkUpdate\<close> of a role against the abstract specification: the role's entry in the directory of
  \<open>Principal\<close>, and its settings, which only a role has (trust policy, description, session
  duration). The documented effect of the API calls on both is the hypothesis \<open>role_service\<close>; a
  successful update settles the entry and makes the settings meet the custom resource.
\<close>

subsection \<open>Settings and the effect of the API calls\<close>

record settings =
  s_trust :: string
  s_description :: "string option"
  s_duration :: "int32 option"

type_synonym configuration = "string \<Rightarrow> settings"

definition role_service ::
  "('b, 'p) role_sdk \<Rightarrow> ('b \<Rightarrow> directory) \<Rightarrow> ('b \<Rightarrow> configuration) \<Rightarrow> bool" where
  "role_service sdk dir cfg \<longleftrightarrow>
     (\<forall>n p b b'. AttachRolePolicy sdk (Some n) (Some p) b = (None, b') \<longrightarrow>
        dir b' = at n (attach p) (dir b) \<and> cfg b' = cfg b) \<and>
     (\<forall>n p b b'. DetachRolePolicy sdk (Some n) (Some p) b = (None, b') \<longrightarrow>
        dir b' = at n (detach p) (dir b) \<and> cfg b' = cfg b) \<and>
     (\<forall>n k d b b'. PutRolePolicy sdk (Some n) (Some k) (Some d) b = (None, b') \<longrightarrow>
        dir b' = at n (put_inline k d) (dir b) \<and> cfg b' = cfg b) \<and>
     (\<forall>n k b b'. DeleteRolePolicy sdk (Some n) (Some k) b = (None, b') \<longrightarrow>
        dir b' = at n (delete_inline k) (dir b) \<and> cfg b' = cfg b) \<and>
     (\<forall>n p b b'. PutRolePermissionsBoundary sdk (Some n) (Some p) b = (None, b') \<longrightarrow>
        dir b' = at n (set_boundary (Some p)) (dir b) \<and> cfg b' = cfg b) \<and>
     (\<forall>n b b'. DeleteRolePermissionsBoundary sdk (Some n) b = (None, b') \<longrightarrow>
        dir b' = at n (set_boundary None) (dir b) \<and> cfg b' = cfg b) \<and>
     (\<forall>n ts b b'. tag_set ts \<longrightarrow> TagRole sdk (Some n) ts b = (None, b') \<longrightarrow>
        dir b' = at n (add_tags (tag_map ts)) (dir b) \<and> cfg b' = cfg b) \<and>
     (\<forall>n ks b b'. UntagRole sdk (Some n) ks b = (None, b') \<longrightarrow>
        dir b' = at n (remove_tags (set ks)) (dir b) \<and> cfg b' = cfg b) \<and>
     (\<forall>n d b b'. UpdateAssumeRolePolicy sdk (Some n) (Some d) b = (None, b') \<longrightarrow>
        dir b' = dir b \<and> cfg b' = (cfg b)(n := (cfg b n)\<lparr>s_trust := d\<rparr>)) \<and>
     (\<forall>n input b b'. Update_RoleName input = Some n \<longrightarrow> UpdateRole sdk input b = (None, b') \<longrightarrow>
        dir b' = dir b \<and> (\<exists>x. cfg b' = (cfg b)(n := x) \<and> s_trust x = s_trust (cfg b n) \<and>
          (\<forall>d. Update_Description input = Some d \<longrightarrow> s_description x = Some d) \<and>
          (\<forall>i. Update_MaxSessionDuration input = Some i \<longrightarrow> s_duration x = Some i)))"

text \<open>What a resource says of the settings when it was observed, and when it is met.\<close>

definition observes :: "Role \<Rightarrow> settings \<Rightarrow> bool" where
  "observes r x \<longleftrightarrow> Spec_AssumeRolePolicyDocument r = Some (s_trust x) \<and> Spec_Description r = s_description x \<and>
     Spec_MaxSessionDuration r = map_option scast (s_duration x)"

definition meets :: "'d compare_rt \<Rightarrow> settings \<Rightarrow> Role \<Rightarrow> bool" where
  "meets c x r \<longleftrightarrow>
     (\<exists>doc. Spec_AssumeRolePolicyDocument r = Some doc \<and>
        (s_trust x = doc \<or> IAMPolicyDocumentEqual c doc (s_trust x) = (True, None))) \<and>
     (\<forall>d. Spec_Description r = Some d \<longrightarrow> d \<noteq> [] \<longrightarrow> s_description x = Some d) \<and>
     (\<forall>d. Spec_MaxSessionDuration r = Some d \<longrightarrow> d \<noteq> 0 \<longrightarrow> map_option scast (s_duration x) = Some d)"

text \<open>\<open>DifferentExcept\<close> sees every reported path that is not excepted; a missing number differs from
  one that is not zero.\<close>

definition except_ok :: "'d compare_rt \<Rightarrow> string set \<Rightarrow> bool" where
  "except_ok c paths \<longleftrightarrow> (\<forall>d ps q. q \<in> paths \<longrightarrow> q \<notin> set ps \<longrightarrow> DifferentAt c d q \<longrightarrow> DifferentExcept c d ps) \<and>
     (\<forall>i. i \<noteq> 0 \<longrightarrow> HasNilDifferenceInt64 c (Some i) None)"

lemma except_okD:
  "except_ok c paths \<Longrightarrow> \<not> DifferentExcept c d ps \<Longrightarrow> q \<in> paths \<Longrightarrow> q \<notin> set ps \<Longrightarrow> \<not> DifferentAt c d q"
  unfolding except_ok_def by blast

subsection \<open>The hooks on the directory\<close>

interpretation role_calls: holder_calls
  "\<lambda>(rm, r, n, dir). (\<exists>cfg. role_service (sdkapi rm) dir cfg) \<and> Spec_Name r = Some n" "\<lambda>(rm, r, n, dir). rt rm"
  "\<lambda>(rm, r, n, dir). dir" "\<lambda>(rm, r, n, dir). n"
  "\<lambda>(rm, r, n, dir). addManagedPolicy rm r" "\<lambda>(rm, r, n, dir). removeManagedPolicy rm r"
  "\<lambda>(rm, r, n, dir). addInlinePolicy rm r" "\<lambda>(rm, r, n, dir). removeInlinePolicy rm r"
  by unfold_locales
    (auto simp: role_service_def addManagedPolicy_def removeManagedPolicy_def addInlinePolicy_def removeInlinePolicy_def
      prod_eq_iff split_beta split: option.splits)

lemma role_syncManagedPolicies_dir:
  assumes "in_string_ok (rt rm)" and "role_service (sdkapi rm) dir cfg" and "Spec_Name desired = Some n"
    and "elems (Spec_Policies desired) = map Some ds" and "elems (Spec_Policies latest) = map Some ls"
    and "p_managed (dir (aws w) n) = set ls"
    and "syncManagedPolicies rm desired latest w = Some (None, w')"
  shows "dir (aws w') = at n (\<lambda>x. x\<lparr>p_managed := set ds\<rparr>) (dir (aws w))"
  using role_calls.sync_managed [of "(rm, desired, n, dir)" "rt rm" desired ds latest ls w w'] assms
  by (auto simp: syncManagedPolicies_def)

lemma role_syncInlinePolicies_dir:
  assumes "lo_ok (rt rm)" and "role_service (sdkapi rm) dir cfg" and "Spec_Name desired = Some n"
    and "Spec_InlinePolicies desired = point_at ds" "wf_map ds"
    and "Spec_InlinePolicies latest = point_at ls" "wf_map ls" "p_inline (dir (aws w) n) = map_of ls"
    and "syncInlinePolicies rm desired latest w = Some (None, w')"
  shows "dir (aws w') = at n (\<lambda>x. x\<lparr>p_inline := put_documents (\<lambda>d. fst (decodeDocument (rt rm) d)) (map_of ls) (map_of ds)\<rparr>) (dir (aws w))"
  using role_calls.sync_inline [of "(rm, desired, n, dir)" "rt rm" desired ds latest ls w w'] assms
  by (auto simp: syncInlinePolicies_def)

lemma syncRolePermissionsBoundary_dir:
  assumes "role_service (sdkapi rm) dir cfg" and "Spec_Name r = Some n"
    and "syncRolePermissionsBoundary rm r w = Some (None, w')"
  shows "dir (aws w') = at n (set_boundary (nonempty (Spec_PermissionsBoundary r))) (dir (aws w))"
  using assms
  by (cases "Spec_PermissionsBoundary r")
    (auto simp: syncRolePermissionsBoundary_def putRolePermissionsBoundary_def deleteRolePermissionsBoundary_def
      role_service_def nonempty_def prod_eq_iff split: if_splits)

lemma role_syncTags_dir:
  assumes ok: "role_service (sdkapi rm) dir cfg" and n: "Spec_Name desired = Some n"
    and ds: "tag_set (elems (Spec_Tags desired))" and ls: "tag_set (elems (Spec_Tags latest))"
    and p: "p_tags (dir (aws w) n) = tag_map (elems (Spec_Tags latest))"
    and run: "syncTags rm desired latest w = Some (None, w')"
  shows "dir (aws w') = at n (\<lambda>x. x\<lparr>p_tags := synced_tags (tag_map (elems (Spec_Tags latest)))
    (tag_map (elems (Spec_Tags desired)))\<rparr>) (dir (aws w))"
proof -
  let ?ds = "elems (Spec_Tags desired)" and ?ls = "elems (Spec_Tags latest)"
  let ?add = "filter (\<lambda>t. t \<notin> set ?ls) ?ds" and ?del = "filter (\<lambda>t. t \<notin> set ?ds) ?ls"
  have sets: "tag_set ?add" "tag_set ?del" using ds ls by (simp_all add: tag_set_filter)
  obtain u where add: "(if ?add \<noteq> [] then addTags rm desired ?add w else Some (None, w)) = Some (None, u)"
    and del: "(if ?del \<noteq> [] then removeTags rm desired ?del u else Some (None, u)) = Some (None, w')"
    using run ds ls by (auto simp: syncTags_eq split: Option.bind_splits option.splits)
  have "dir (aws u) = at n (add_tags (tag_map ?add)) (dir (aws w))"
    using add ok n sets(1)
    by (cases "?add = []") (auto simp: addTags_def role_service_def prod_eq_iff tag_map_def)
  moreover have "dir (aws w') = at n (remove_tags (set (tag_keys ?del))) (dir (aws u))"
    using del ok n sets(2)
    by (cases "?del = []") (auto simp: removeTags_def traverse_Key role_service_def prod_eq_iff tag_keys_def)
  ultimately show ?thesis using tags_settle [of ?ls ?ds "dir (aws w)" n, OF ls ds p] by simp
qed

subsection \<open>The hooks and the settings\<close>

lemma for_each_same:
  assumes "for_each f xs w = Some (None, w')"
    and "\<And>x u u'. x \<in> set xs \<Longrightarrow> f x u = Some (None, u') \<Longrightarrow> g u' = g u"
  shows "g w' = g w"
  using assms(1) by (rule for_each_invariant [where I = "\<lambda>u. g u = g w"]) (auto dest: assms(2))

lemma role_policy_hooks_cfg:
  assumes ok: "role_service (sdkapi rm) dir cfg" and n: "Spec_Name r = Some n"
  shows "addManagedPolicy rm r (Some p) w = Some (None, w') \<Longrightarrow> cfg (aws w') = cfg (aws w)"
    and "removeManagedPolicy rm r (Some p) w = Some (None, w') \<Longrightarrow> cfg (aws w') = cfg (aws w)"
    and "addInlinePolicy rm r k (Some d) w = Some (None, w') \<Longrightarrow> cfg (aws w') = cfg (aws w)"
    and "removeInlinePolicy rm r k w = Some (None, w') \<Longrightarrow> cfg (aws w') = cfg (aws w)"
    and "syncRolePermissionsBoundary rm r w = Some (None, w') \<Longrightarrow> cfg (aws w') = cfg (aws w)"
    and "tag_set ts \<Longrightarrow> addTags rm r ts w = Some (None, w') \<Longrightarrow> cfg (aws w') = cfg (aws w)"
    and "tag_set ts \<Longrightarrow> removeTags rm r ts w = Some (None, w') \<Longrightarrow> cfg (aws w') = cfg (aws w)"
  using ok n
  by (auto simp: role_service_def addManagedPolicy_def removeManagedPolicy_def addInlinePolicy_def removeInlinePolicy_def
      syncRolePermissionsBoundary_def putRolePermissionsBoundary_def deleteRolePermissionsBoundary_def
      addTags_def removeTags_def traverse_Key prod_eq_iff split_beta split: option.splits if_splits)

lemma role_sync_hooks_cfg:
  assumes ok: "role_service (sdkapi rm) dir cfg" and n: "Spec_Name desired = Some n"
  shows "in_string_ok (rt rm) \<Longrightarrow> elems (Spec_Policies desired) = map Some ds \<Longrightarrow>
      elems (Spec_Policies latest) = map Some ls \<Longrightarrow>
      syncManagedPolicies rm desired latest w = Some (None, w') \<Longrightarrow> cfg (aws w') = cfg (aws w)"
    and "lo_ok (rt rm) \<Longrightarrow> Spec_InlinePolicies desired = point_at dm \<Longrightarrow> wf_map dm \<Longrightarrow>
      Spec_InlinePolicies latest = point_at lm \<Longrightarrow> wf_map lm \<Longrightarrow>
      syncInlinePolicies rm desired latest w = Some (None, w') \<Longrightarrow> cfg (aws w') = cfg (aws w)"
    and "tag_set (elems (Spec_Tags desired)) \<Longrightarrow> tag_set (elems (Spec_Tags latest)) \<Longrightarrow>
      syncTags rm desired latest w = Some (None, w') \<Longrightarrow> cfg (aws w') = cfg (aws w)"
proof -
  note calls = role_policy_hooks_cfg [OF ok n]
  let ?cfg = "\<lambda>u. cfg (aws u)"
  show "?cfg w' = ?cfg w" if r: "in_string_ok (rt rm)" and ps: "elems (Spec_Policies desired) = map Some ds"
    "elems (Spec_Policies latest) = map Some ls" and run: "syncManagedPolicies rm desired latest w = Some (None, w')"
  proof -
    obtain u where "for_each (\<lambda>p. addManagedPolicy rm desired (Some p)) (filter (\<lambda>p. p \<notin> set ls) ds) w = Some (None, u)"
      and "for_each (\<lambda>p. removeManagedPolicy rm desired (Some p)) (filter (\<lambda>p. p \<notin> set ds) ls) u = Some (None, w')"
      using run by (auto simp: syncManagedPolicies_eq [OF r ps] split: Option.bind_splits option.splits)
    then have "?cfg u = ?cfg w" "?cfg w' = ?cfg u"
      by (auto elim!: for_each_same dest: calls)
    then show ?thesis by simp
  qed
  show "?cfg w' = ?cfg w" if lo: "lo_ok (rt rm)" and m: "Spec_InlinePolicies desired = point_at dm" "wf_map dm"
    "Spec_InlinePolicies latest = point_at lm" "wf_map lm" and run: "syncInlinePolicies rm desired latest w = Some (None, w')"
  proof -
    obtain toDelete toAdd where diff: "Difference (rt rm) (ToPairs (rt rm) lm) (ToPairs (rt rm) dm) = (toDelete, toAdd)"
      using lo_difference [OF lo m(4,2)] by metis
    obtain u where "for_each (\<lambda>(k, d). addInlinePolicy rm desired k (Some d)) toAdd w = Some (None, u)"
      and "for_each (removeInlinePolicy rm desired) (stale toAdd toDelete) u = Some (None, w')"
      using run by (auto simp: syncInlinePolicies_eq [OF lo m(1,3) diff] split: Option.bind_splits option.splits)
    then have "?cfg u = ?cfg w" "?cfg w' = ?cfg u"
      by (auto elim!: for_each_same dest: calls)
    then show ?thesis by simp
  qed
  show "?cfg w' = ?cfg w" if ds: "tag_set (elems (Spec_Tags desired))" and ls: "tag_set (elems (Spec_Tags latest))"
    and run: "syncTags rm desired latest w = Some (None, w')"
    using run tag_set_filter [OF ds] tag_set_filter [OF ls]
    by (auto simp: syncTags_eq [OF ds ls] split: Option.bind_splits option.splits if_splits dest!: calls(6,7) [rotated])
qed

lemma putAssumeRolePolicy_effect:
  assumes "role_service (sdkapi rm) dir cfg" and "Spec_Name r = Some n"
    and "Spec_AssumeRolePolicyDocument r = Some doc" and "putAssumeRolePolicy rm r w = Some (None, w')"
  shows "dir (aws w') = dir (aws w)" and "cfg (aws w') = (cfg (aws w))(n := (cfg (aws w) n)\<lparr>s_trust := doc\<rparr>)"
  using assms by (auto simp: putAssumeRolePolicy_def role_service_def prod_eq_iff)

subsection \<open>The delta\<close>

lemma role_delta_of_described:
  assumes c: "comparison_ok c delta_paths" and r: "in_string_ok r"
    and a: "describes a x" and b: "describes b y"
    and delta: "newResourceDelta r c (Some a) (Some b) = Some delta"
  shows "\<not> DifferentAt c delta ''Spec.Policies'' \<Longrightarrow> p_managed x = p_managed y"
    and "\<not> DifferentAt c delta ''Spec.InlinePolicies'' \<Longrightarrow> p_inline x = p_inline y"
    and "\<not> DifferentAt c delta ''Spec.Tags'' \<Longrightarrow> p_tags x = p_tags y"
    and "\<not> DifferentAt c delta ''Spec.PermissionsBoundary'' \<Longrightarrow> p_boundary x = p_boundary y"
    and "\<not> DifferentAt c delta ''Spec.AssumeRolePolicyDocument'' \<Longrightarrow>
      \<not> policyDiffers c (Spec_AssumeRolePolicyDocument a) (Spec_AssumeRolePolicyDocument b)"
    and "\<not> DifferentAt c delta ''Spec.Description'' \<Longrightarrow> \<not> stringDiffers c (Spec_Description a) (Spec_Description b)"
    and "\<not> DifferentAt c delta ''Spec.MaxSessionDuration'' \<Longrightarrow>
      \<not> int64Differs c (Spec_MaxSessionDuration a) (Spec_MaxSessionDuration b)"
proof -
  have tags: "tag_set (elems (Spec_Tags a))" "tag_set (elems (Spec_Tags b))" using a b by (simp_all add: describes_def)
  have delta_eq: "delta = report c (differences c a b)" using newResourceDelta_report [OF r tags, of c] delta by simp
  have at: "DifferentAt c delta q \<longleftrightarrow> (q, True) \<in> set (differences c a b)" if "q \<in> delta_paths" for q
    unfolding delta_eq using c that by (intro DifferentAt_report) (auto simp: comparison_ok_def paths_of_differences)
  have policies: "describes_policies a x" "describes_policies b y" using a b by (simp_all add: describes_def)
  note paths = delta_paths_def differences_def
  show "\<not> DifferentAt c delta ''Spec.Policies'' \<Longrightarrow> p_managed x = p_managed y"
    using at [of "''Spec.Policies''"] described_policies_differ [OF c policies] by (simp add: paths)
  show "\<not> DifferentAt c delta ''Spec.InlinePolicies'' \<Longrightarrow> p_inline x = p_inline y"
    using at [of "''Spec.InlinePolicies''"] described_policies_differ [OF c policies] by (simp add: paths)
  show "\<not> DifferentAt c delta ''Spec.Tags'' \<Longrightarrow> p_tags x = p_tags y"
    using at [of "''Spec.Tags''"] a b tag_map_eq_iff [OF tags]
    by (simp add: paths tagsDiffer_def describes_def)
  show "\<not> DifferentAt c delta ''Spec.PermissionsBoundary'' \<Longrightarrow> p_boundary x = p_boundary y"
    using at [of "''Spec.PermissionsBoundary''"] c a b
      stringDiffers_nonempty [of c "Spec_PermissionsBoundary a" "Spec_PermissionsBoundary b"]
    by (simp add: paths comparison_ok_def describes_def)
  show "\<not> DifferentAt c delta ''Spec.AssumeRolePolicyDocument'' \<Longrightarrow>
      \<not> policyDiffers c (Spec_AssumeRolePolicyDocument a) (Spec_AssumeRolePolicyDocument b)"
    using at [of "''Spec.AssumeRolePolicyDocument''"] by (simp add: paths)
  show "\<not> DifferentAt c delta ''Spec.Description'' \<Longrightarrow> \<not> stringDiffers c (Spec_Description a) (Spec_Description b)"
    using at [of "''Spec.Description''"] by (simp add: paths)
  show "\<not> DifferentAt c delta ''Spec.MaxSessionDuration'' \<Longrightarrow>
      \<not> int64Differs c (Spec_MaxSessionDuration a) (Spec_MaxSessionDuration b)"
    using at [of "''Spec.MaxSessionDuration''"] by (simp add: paths)
qed

subsection \<open>An update\<close>

lemma role_sdkUpdate_steps:
  assumes "sdkUpdate rm c desired latest delta w = Some ((res, None), w')"
  obtains w1 w2 w3 w4 w5 where
    "when_different c delta ''Spec.Policies'' (syncManagedPolicies rm desired latest) w = Some (None, w1)"
    "when_different c delta ''Spec.InlinePolicies'' (syncInlinePolicies rm desired latest) w1 = Some (None, w2)"
    "when_different c delta ''Spec.Tags'' (syncTags rm desired latest) w2 = Some (None, w3)"
    "when_different c delta ''Spec.PermissionsBoundary'' (syncRolePermissionsBoundary rm desired) w3 = Some (None, w4)"
    "when_different c delta ''Spec.AssumeRolePolicyDocument'' (putAssumeRolePolicy rm desired) w4 = Some (None, w5)"
    "(\<not> DifferentExcept c delta [''Spec.Tags'', ''Spec.Policies'', ''Spec.InlinePolicies'',
        ''Spec.PermissionsBoundary'', ''Spec.AssumeRolePolicyDocument''] \<and> w' = w5) \<or>
     (\<exists>input. newUpdateRequestPayload desired = Inr input \<and>
        UpdateRole (sdkapi rm) input (aws w5) = (None, aws w'))"
proof -
  let ?hooks = "for_each (\<lambda>(path, f). when_different c delta path f)
       [(''Spec.Policies'', syncManagedPolicies rm desired latest),
        (''Spec.InlinePolicies'', syncInlinePolicies rm desired latest),
        (''Spec.Tags'', syncTags rm desired latest),
        (''Spec.PermissionsBoundary'', syncRolePermissionsBoundary rm desired),
        (''Spec.AssumeRolePolicyDocument'', putAssumeRolePolicy rm desired)] w"
  from assms obtain w5 where hooks: "?hooks = Some (None, w5)" and
    "(\<not> DifferentExcept c delta [''Spec.Tags'', ''Spec.Policies'', ''Spec.InlinePolicies'',
        ''Spec.PermissionsBoundary'', ''Spec.AssumeRolePolicyDocument''] \<and> w' = w5) \<or>
     (\<exists>input. newUpdateRequestPayload desired = Inr input \<and> UpdateRole (sdkapi rm) input (aws w5) = (None, aws w'))"
    by (cases ?hooks) (auto simp del: for_each.simps simp: sdkUpdate_def Let_def prod_eq_iff split: option.splits if_splits sum.splits)
  moreover from hooks obtain w1 w2 w3 w4 where
    "when_different c delta ''Spec.Policies'' (syncManagedPolicies rm desired latest) w = Some (None, w1)"
    "when_different c delta ''Spec.InlinePolicies'' (syncInlinePolicies rm desired latest) w1 = Some (None, w2)"
    "when_different c delta ''Spec.Tags'' (syncTags rm desired latest) w2 = Some (None, w3)"
    "when_different c delta ''Spec.PermissionsBoundary'' (syncRolePermissionsBoundary rm desired) w3 = Some (None, w4)"
    "when_different c delta ''Spec.AssumeRolePolicyDocument'' (putAssumeRolePolicy rm desired) w4 = Some (None, w5)"
    by (auto simp only: for_each_Cons_None for_each.simps(1) prod.case option.inject prod.inject)
  ultimately show ?thesis using that by blast
qed

lemma when_different_cfg:
  assumes "when_different c delta path f w = Some (None, w')" and "f w = Some (None, w') \<Longrightarrow> cfg (aws w') = cfg (aws w)"
  shows "cfg (aws w') = cfg (aws w)"
  using assms by (auto simp: when_different_def split: if_splits)

lemma observed_meets:
  assumes c: "comparison_ok c delta_paths" "except_ok c delta_paths" and old: "observes latest x"
    and doc: "Spec_AssumeRolePolicyDocument desired = Some doc"
    and trust: "s_trust y = doc \<or> (s_trust y = s_trust x \<and> \<not> policyDiffers c (Some doc) (Spec_AssumeRolePolicyDocument latest))"
    and desc: "s_description y = Spec_Description desired \<or>
      (s_description y = s_description x \<and> \<not> stringDiffers c (Spec_Description desired) (Spec_Description latest)) \<or>
      Spec_Description desired = None"
    and dur: "map_option scast (s_duration y) = Spec_MaxSessionDuration desired \<or>
      (s_duration y = s_duration x \<and> \<not> int64Differs c (Spec_MaxSessionDuration desired) (Spec_MaxSessionDuration latest)) \<or>
      Spec_MaxSessionDuration desired = None"
  shows "meets c y desired"
  unfolding meets_def
proof (intro conjI exI allI impI)
  show "Spec_AssumeRolePolicyDocument desired = Some doc" by (fact doc)
  show "s_trust y = doc \<or> IAMPolicyDocumentEqual c doc (s_trust y) = (True, None)"
    using trust old by (auto simp: observes_def policyDiffers_def)
  show "s_description y = Some d" if "Spec_Description desired = Some d" "d \<noteq> []" for d
    using desc that old stringDiffers_nonempty [of c "Some d" "Spec_Description latest"] c(1)
    by (cases "s_description x") (auto simp: observes_def comparison_ok_def nonempty_def split: if_splits)
  show "map_option scast (s_duration y) = Some d" if "Spec_MaxSessionDuration desired = Some d" "d \<noteq> 0" for d
    using dur that old c(2)
    by (cases "s_duration x") (auto simp: observes_def int64Differs_def except_ok_def)
qed

text \<open>The last step: the general \<open>UpdateRole\<close>, called when another field differs.\<close>

lemma update_role_settings:
  assumes ok: "role_service (sdkapi rm) dir cfg" and n: "Spec_Name desired = Some n"
    and input: "newUpdateRequestPayload desired = Inr input"
    and call: "UpdateRole (sdkapi rm) input b = (None, b')"
  shows "dir b' = dir b \<and> (\<exists>x. cfg b' = (cfg b)(n := x) \<and> s_trust x = s_trust (cfg b n) \<and>
    (\<forall>d. Spec_Description desired = Some d \<longrightarrow> s_description x = Some d) \<and>
    (\<forall>i. Spec_MaxSessionDuration desired = Some i \<longrightarrow> map_option scast (s_duration x) = Some i))"
proof -
  obtain q where q: "maxSessionDurationInput (Spec_MaxSessionDuration desired) = Inr q" "Update_MaxSessionDuration input = q"
    "Update_Description input = Spec_Description desired" "Update_RoleName input = Some n"
    using input n by (auto simp: newUpdateRequestPayload_def split: sum.splits)
  obtain x where x: "dir b' = dir b" "cfg b' = (cfg b)(n := x)" "s_trust x = s_trust (cfg b n)"
    "\<forall>d. Update_Description input = Some d \<longrightarrow> s_description x = Some d"
    "\<forall>i. Update_MaxSessionDuration input = Some i \<longrightarrow> s_duration x = Some i"
    using ok q(4) call unfolding role_service_def by metis
  moreover have "map_option scast (s_duration x) = Some i" if "Spec_MaxSessionDuration desired = Some i" for i
    using maxSessionDurationInput_back [OF q(1)] x(5) q(2) that by (cases q) auto
  ultimately show ?thesis using q(3) by auto
qed

lemma role_sdkUpdate_settles:
  assumes c: "comparison_ok c delta_paths" "except_ok c delta_paths" and r: "in_string_ok (rt rm)" "lo_ok (rt rm)"
    and ok: "role_service (sdkapi rm) dir cfg" and n: "Spec_Name desired = Some n"
    and doc: "Spec_AssumeRolePolicyDocument desired = Some doc"
    and goal: "describes desired goal" and old: "describes latest (dir (aws w) n)" "observes latest (cfg (aws w) n)"
    and delta: "newResourceDelta (rt rm) c (Some desired) (Some latest) = Some delta"
    and run: "sdkUpdate rm c desired latest delta w = Some ((res, None), w')"
  shows "dir (aws w') = (dir (aws w))(n := settled (rt rm) (dir (aws w) n) goal)"
    and "\<exists>x. cfg (aws w') = (cfg (aws w))(n := x) \<and> meets c x desired"
proof -
  let ?old = "dir (aws w) n"
  note D = role_delta_of_described [OF c(1) r(1) goal old(1) delta]
  from role_sdkUpdate_steps [OF run] obtain w1 w2 w3 w4 w5 where
    s1: "when_different c delta ''Spec.Policies'' (syncManagedPolicies rm desired latest) w = Some (None, w1)"
    and s2: "when_different c delta ''Spec.InlinePolicies'' (syncInlinePolicies rm desired latest) w1 = Some (None, w2)"
    and s3: "when_different c delta ''Spec.Tags'' (syncTags rm desired latest) w2 = Some (None, w3)"
    and s4: "when_different c delta ''Spec.PermissionsBoundary'' (syncRolePermissionsBoundary rm desired) w3 = Some (None, w4)"
    and s5: "when_different c delta ''Spec.AssumeRolePolicyDocument'' (putAssumeRolePolicy rm desired) w4 = Some (None, w5)"
    and last: "(\<not> DifferentExcept c delta [''Spec.Tags'', ''Spec.Policies'', ''Spec.InlinePolicies'',
        ''Spec.PermissionsBoundary'', ''Spec.AssumeRolePolicyDocument''] \<and> w' = w5) \<or>
      (\<exists>input. newUpdateRequestPayload desired = Inr input \<and> UpdateRole (sdkapi rm) input (aws w5) = (None, aws w'))" .
  obtain ps qs where ps: "elems (Spec_Policies desired) = map Some ps" "set ps = p_managed goal"
    "elems (Spec_Policies latest) = map Some qs" "set qs = p_managed ?old"
    using goal old(1) by (auto simp: describes_def describes_policies_def)
  obtain m m' where m: "Spec_InlinePolicies desired = point_at m" "wf_map m" "map_of m = p_inline goal"
    "Spec_InlinePolicies latest = point_at m'" "wf_map m'" "map_of m' = p_inline ?old"
    using goal old(1) by (auto simp: describes_def describes_policies_def)
  have tags: "tag_set (elems (Spec_Tags desired))" "tag_set (elems (Spec_Tags latest))"
    using goal old(1) by (simp_all add: describes_def)
  have settled: "dir (aws w4) = (dir (aws w))(n := settled (rt rm) ?old goal)"
    using s1 s2 s3 s4 refl
  proof (rule hooks_settle)
    show "dir (aws w1) = at n (\<lambda>x. x\<lparr>p_managed := p_managed goal\<rparr>) (dir (aws w))"
      if "syncManagedPolicies rm desired latest w = Some (None, w1)"
      using role_syncManagedPolicies_dir [OF r(1) ok n ps(1,3) _ that] ps by simp
    show "dir (aws w2) = at n (\<lambda>x. x\<lparr>p_inline := put_documents (\<lambda>d. fst (decodeDocument (rt rm) d))
        (p_inline ?old) (p_inline goal)\<rparr>) (dir (aws w1))"
      if "p_inline (dir (aws w1) n) = p_inline ?old" "syncInlinePolicies rm desired latest w1 = Some (None, w2)"
      using role_syncInlinePolicies_dir [OF r(2) ok n m(1,2,4,5) _ that(2)] that(1) m(3,6) by simp
    show "dir (aws w3) = at n (\<lambda>x. x\<lparr>p_tags := synced_tags (p_tags ?old) (p_tags goal)\<rparr>) (dir (aws w2))"
      if "p_tags (dir (aws w2) n) = p_tags ?old" "syncTags rm desired latest w2 = Some (None, w3)"
      using role_syncTags_dir [OF ok n _ _ _ that(2)] that(1) goal old(1) by (simp add: describes_def)
    show "dir (aws w4) = at n (set_boundary (p_boundary goal)) (dir (aws w3))"
      if "syncRolePermissionsBoundary rm desired w3 = Some (None, w4)"
      using syncRolePermissionsBoundary_dir [OF ok n that] goal by (simp add: describes_def)
  qed (simp_all add: D)
  have "cfg (aws w1) = cfg (aws w)"
    by (rule when_different_cfg [where cfg = cfg, OF s1 role_sync_hooks_cfg(1) [OF ok n r(1) ps(1,3)]])
  moreover have "cfg (aws w2) = cfg (aws w1)"
    by (rule when_different_cfg [where cfg = cfg, OF s2 role_sync_hooks_cfg(2) [OF ok n r(2) m(1,2,4,5)]])
  moreover have "cfg (aws w3) = cfg (aws w2)"
    by (rule when_different_cfg [where cfg = cfg, OF s3 role_sync_hooks_cfg(3) [OF ok n tags]])
  moreover have "cfg (aws w4) = cfg (aws w3)"
    by (rule when_different_cfg [where cfg = cfg, OF s4 role_policy_hooks_cfg(5) [OF ok n]])
  ultimately have cfg4: "cfg (aws w4) = cfg (aws w)" by simp
  have "\<exists>x. dir (aws w5) = dir (aws w4) \<and> cfg (aws w5) = (cfg (aws w))(n := x) \<and>
      s_description x = s_description (cfg (aws w) n) \<and> s_duration x = s_duration (cfg (aws w) n) \<and>
      (s_trust x = doc \<or> (s_trust x = s_trust (cfg (aws w) n) \<and>
        \<not> policyDiffers c (Some doc) (Spec_AssumeRolePolicyDocument latest)))"
  proof (cases "DifferentAt c delta ''Spec.AssumeRolePolicyDocument''")
    case True
    with s5 have "putAssumeRolePolicy rm desired w4 = Some (None, w5)" by (simp add: when_different_def)
    from putAssumeRolePolicy_effect [OF ok n doc this] show ?thesis
      by (intro exI [of _ "(cfg (aws w) n)\<lparr>s_trust := doc\<rparr>"]) (simp add: cfg4)
  next
    case False
    with s5 D(5) doc cfg4 show ?thesis
      by (intro exI [of _ "cfg (aws w) n"]) (auto simp: when_different_def)
  qed
  then obtain x where x: "dir (aws w5) = dir (aws w4)" "cfg (aws w5) = (cfg (aws w))(n := x)"
    "s_description x = s_description (cfg (aws w) n)" "s_duration x = s_duration (cfg (aws w) n)"
    "s_trust x = doc \<or> (s_trust x = s_trust (cfg (aws w) n) \<and>
      \<not> policyDiffers c (Some doc) (Spec_AssumeRolePolicyDocument latest))" by blast
  have "dir (aws w') = dir (aws w5) \<and> (\<exists>y. cfg (aws w') = (cfg (aws w))(n := y) \<and> meets c y desired)"
    using last
  proof (elim disjE exE conjE)
    assume only: "\<not> DifferentExcept c delta [''Spec.Tags'', ''Spec.Policies'', ''Spec.InlinePolicies'',
        ''Spec.PermissionsBoundary'', ''Spec.AssumeRolePolicyDocument'']" and w': "w' = w5"
    have "\<not> DifferentAt c delta ''Spec.Description''" "\<not> DifferentAt c delta ''Spec.MaxSessionDuration''"
      by (rule except_okD [OF c(2) only]; simp add: delta_paths_def)+
    with D(6,7) x(3,4) have "meets c x desired"
      by (intro observed_meets [OF c old(2) doc x(5)] disjI2 disjI1 conjI)
    with x(2) w' show ?thesis by auto
  next
    fix input
    assume input: "newUpdateRequestPayload desired = Inr input" "UpdateRole (sdkapi rm) input (aws w5) = (None, aws w')"
    from update_role_settings [OF ok n input] obtain y where y: "dir (aws w') = dir (aws w5)"
      "cfg (aws w') = (cfg (aws w5))(n := y)" "s_trust y = s_trust (cfg (aws w5) n)"
      "\<forall>d. Spec_Description desired = Some d \<longrightarrow> s_description y = Some d"
      "\<forall>i. Spec_MaxSessionDuration desired = Some i \<longrightarrow> map_option scast (s_duration y) = Some i" by blast
    have "meets c y desired"
    proof (rule observed_meets [OF c old(2) doc])
      show "s_trust y = doc \<or> (s_trust y = s_trust (cfg (aws w) n) \<and>
          \<not> policyDiffers c (Some doc) (Spec_AssumeRolePolicyDocument latest))"
        using x(2,5) y(3) by simp
    qed (use y(4,5) in auto)
    with x(2) y(1,2) show ?thesis by auto
  qed
  with settled x(1) show "dir (aws w') = (dir (aws w))(n := settled (rt rm) ?old goal)"
    and "\<exists>x. cfg (aws w') = (cfg (aws w))(n := x) \<and> meets c x desired" by auto
qed

subsection \<open>Reading the role back\<close>

text \<open>
  IAM answers the reading calls about \<open>n\<close> in the state \<open>b\<close> with the entry and the settings of \<open>n\<close>:
  the documents percent-encoded, the policies and tags on pages that end.
\<close>

definition answers_settings :: "SdkRole \<Rightarrow> string \<Rightarrow> principal \<Rightarrow> settings \<Rightarrow> bool" where
  "answers_settings role n x s \<longleftrightarrow> Role_RoleName role = Some n \<and>
     Role_AssumeRolePolicyDocument role = Some (pct_encode (s_trust s)) \<and>
     Role_Description role = s_description s \<and> Role_MaxSessionDuration role = s_duration s \<and>
     (case Role_PermissionsBoundary role of Some arn \<Rightarrow> arn | None \<Rightarrow> None) = p_boundary x"

definition role_answers ::
  "('b, 'p) rm \<Rightarrow> ('b \<Rightarrow> directory) \<Rightarrow> ('b \<Rightarrow> configuration) \<Rightarrow> 'b \<Rightarrow> string \<Rightarrow> bool" where
  "role_answers rm dir cfg b n \<longleftrightarrow>
     (\<exists>role ps ts. describes_role rm b n role (map Some ps) (p_inline (dir b n)) ts \<and>
        answers_settings role n (dir b n) (cfg b n) \<and> distinct ps \<and> set ps = p_managed (dir b n) \<and>
        tag_set ts \<and> tag_map ts = p_tags (dir b n)) \<and>
     p_boundary (dir b n) \<noteq> Some [] \<and> read_inline_ok (sdkapi rm) (\<lambda>b n. p_inline (dir b n))"

lemma role_sdkFind_describes:
  assumes ord: "valid_order (map_order (rt rm))" and ans: "role_answers rm dir cfg (aws w) n" and n: "Spec_Name r = Some n"
  shows "\<exists>ko w'. sdkFind rm r w = Some ((Some ko, None), w') \<and> aws w' = aws w \<and>
    describes ko (dir (aws w) n) \<and> observes ko (cfg (aws w) n) \<and>
    Spec_PermissionsBoundary ko = p_boundary (dir (aws w) n)"
proof -
  let ?x = "dir (aws w) n" and ?s = "cfg (aws w) n"
  from ans obtain role ps ts where role: "describes_role rm (aws w) n role (map Some ps) (p_inline ?x) ts"
    "answers_settings role n ?x ?s" and ps: "distinct ps" "set ps = p_managed ?x"
    and ts: "tag_set ts" "tag_map ts = p_tags ?x"
    and boundary: "p_boundary ?x \<noteq> Some []" and inline: "read_inline_ok (sdkapi rm) (\<lambda>b n. p_inline (dir b n))"
    unfolding role_answers_def by blast
  let ?found = "setStatusDefaults rm (fromGetRole role r)"
  have found: "Spec_PermissionsBoundary ?found = p_boundary ?x" "Spec_Description ?found = s_description ?s"
    "Spec_MaxSessionDuration ?found = map_option scast (s_duration ?s)"
    using role(2) by (simp_all add: setStatusDefaults_def Let_def fromGetRole_def answers_settings_def)
  have "Role_RoleName role = Some n" "Role_AssumeRolePolicyDocument role = Some (pct_encode (s_trust ?s))"
    using role(2) by (simp_all add: answers_settings_def)
  from sdkFind_describes [OF ord inline role(1) n this] obtain res w' where
    run: "sdkFind rm r w = Some ((Some (?found\<lparr>Spec_AssumeRolePolicyDocument := Some (s_trust ?s),
        Spec_Policies := Some (map Some ps), Spec_InlinePolicies := res, Spec_Tags := Some ts\<rparr>), None), w')"
    "aws w' = aws w" and res: "wf_map res" "map_of res = map_option Some \<circ> p_inline ?x" by blast
  from point_at_witness [OF res] obtain m where m: "res = point_at m" "wf_map m" "map_of m = p_inline ?x" by blast
  let ?ko = "?found\<lparr>Spec_AssumeRolePolicyDocument := Some (s_trust ?s), Spec_Policies := Some (map Some ps),
    Spec_InlinePolicies := res, Spec_Tags := Some ts\<rparr>"
  have "describes ?ko ?x"
    unfolding describes_def describes_policies_def using ps ts boundary m found(1) by (auto simp: nonempty_def)
  moreover have "observes ?ko ?s" "Spec_PermissionsBoundary ?ko = p_boundary ?x"
    using found by (simp_all add: observes_def)
  ultimately show ?thesis using run by blast
qed

text \<open>The paths for which \<open>sdkUpdate\<close> calls a hook.\<close>

definition role_hook_paths :: "string set" where
  "role_hook_paths = {''Spec.Policies'', ''Spec.InlinePolicies'', ''Spec.Tags'', ''Spec.PermissionsBoundary'',
     ''Spec.AssumeRolePolicyDocument''}"

text \<open>The converse of \<open>role_delta_of_described\<close>: fields that agree are not reported.\<close>

lemma role_delta_of_same:
  assumes c: "comparison_ok c delta_paths" and r: "in_string_ok r" and a: "describes a x" and b: "describes b x"
    and boundary: "Spec_PermissionsBoundary a = Spec_PermissionsBoundary b"
    and doc: "Spec_AssumeRolePolicyDocument a = Some d" "Spec_AssumeRolePolicyDocument b = Some e"
      "IAMPolicyDocumentEqual c d e = (True, None)"
  shows "\<exists>delta. newResourceDelta r c (Some a) (Some b) = Some delta \<and>
    (\<forall>p \<in> role_hook_paths. \<not> DifferentAt c delta p) \<and>
    (Spec_Description a = Spec_Description b \<longrightarrow> \<not> DifferentAt c delta ''Spec.Description'')"
proof -
  have tags: "tag_set (elems (Spec_Tags a))" "tag_set (elems (Spec_Tags b))" using a b by (simp_all add: describes_def)
  have at: "DifferentAt c (report c (differences c a b)) q \<longleftrightarrow> (q, True) \<in> set (differences c a b)" if "q \<in> delta_paths" for q
    using c that by (intro DifferentAt_report) (auto simp: comparison_ok_def paths_of_differences)
  have same: "\<not> stringDiffers c s s" for s
    using c by (cases s) (auto simp: comparison_ok_def stringDiffers_def nil_difference_ok_def)
  have "\<not> policyDiffers c (Some d) (Some e)"
    using c doc(3) by (auto simp: comparison_ok_def policyDiffers_def nil_difference_ok_def)
  moreover have "\<not> stringsDiffer c (Spec_Policies a) (Spec_Policies b)" "\<not> mapsDiffer c (Spec_InlinePolicies a) (Spec_InlinePolicies b)"
    using described_policies_differ [OF c, of a x b x] a b by (simp_all add: describes_def)
  moreover have "\<not> tagsDiffer a b" using a b tag_map_eq_iff [OF tags] by (simp add: tagsDiffer_def describes_def)
  ultimately have "(p, True) \<notin> set (differences c a b)" if "p \<in> role_hook_paths" for p
    using that boundary doc(1,2) same by (auto simp: differences_def role_hook_paths_def)
  moreover have "p \<in> delta_paths" if "p \<in> role_hook_paths" for p
    using that by (auto simp: delta_paths_def role_hook_paths_def)
  ultimately have hooks: "\<forall>p \<in> role_hook_paths. \<not> DifferentAt c (report c (differences c a b)) p"
    using at by simp
  have "\<not> DifferentAt c (report c (differences c a b)) ''Spec.Description''" if "Spec_Description a = Spec_Description b"
    using at [of "''Spec.Description''"] that same by (simp add: differences_def delta_paths_def)
  with hooks show ?thesis by (intro exI [of _ "report c (differences c a b)"] conjI impI newResourceDelta_report [OF r tags])
qed

text \<open>
  The reconciler's round: after a successful update of a goal that can be reached as it is, the
  next \<open>sdkFind\<close> finds it, and the delta calls none of the hooks again.
\<close>

lemma role_update_find_settled:
  assumes c: "comparison_ok c delta_paths" "except_ok c delta_paths" and r: "in_string_ok (rt rm)" "lo_ok (rt rm)" "valid_order (map_order (rt rm))"
    and ok: "role_service (sdkapi rm) dir cfg" and n: "Spec_Name desired = Some n"
    and doc: "Spec_AssumeRolePolicyDocument desired = Some doc" "IAMPolicyDocumentEqual c doc doc = (True, None)"
    and goal: "describes desired goal" "Spec_PermissionsBoundary desired \<noteq> Some []" "reachable_goal (dir (aws w) n) goal"
    and old: "describes latest (dir (aws w) n)" "observes latest (cfg (aws w) n)"
    and delta: "newResourceDelta (rt rm) c (Some desired) (Some latest) = Some delta"
    and run: "sdkUpdate rm c desired latest delta w = Some ((res, None), w')"
    and ans: "role_answers rm dir cfg (aws w') n"
  shows "\<exists>ko delta' w''. sdkFind rm desired w' = Some ((Some ko, None), w'') \<and>
    newResourceDelta (rt rm) c (Some desired) (Some ko) = Some delta' \<and>
    (\<forall>p \<in> role_hook_paths. \<not> DifferentAt c delta' p) \<and>
    (nonempty (Spec_Description desired) \<noteq> None \<longrightarrow> \<not> DifferentAt c delta' ''Spec.Description'') \<and>
    (\<forall>d. Spec_MaxSessionDuration desired = Some d \<longrightarrow> d \<noteq> 0 \<longrightarrow> Spec_MaxSessionDuration ko = Some d)"
proof -
  note settles = role_sdkUpdate_settles [OF c r(1,2) ok n doc(1) goal(1) old delta run]
  from settles(1) goal(3) have entry: "dir (aws w') n = goal" by (simp add: settled_goal)
  from settles(2) have meets: "meets c (cfg (aws w') n) desired" by auto
  from role_sdkFind_describes [OF r(3) ans n] obtain ko w'' where
    ko: "sdkFind rm desired w' = Some ((Some ko, None), w'')" "describes ko goal" "observes ko (cfg (aws w') n)"
      "Spec_PermissionsBoundary ko = p_boundary goal" unfolding entry by blast
  have boundary: "Spec_PermissionsBoundary desired = Spec_PermissionsBoundary ko"
    using goal(1,2) ko(4) by (auto simp: describes_def nonempty_def)
  have trust: "Spec_AssumeRolePolicyDocument ko = Some (s_trust (cfg (aws w') n))"
    "IAMPolicyDocumentEqual c doc (s_trust (cfg (aws w') n)) = (True, None)"
    using ko(3) meets doc by (auto simp: observes_def meets_def)
  from role_delta_of_same [OF c(1) r(1) goal(1) ko(2) boundary doc(1) trust] obtain delta' where
    delta': "newResourceDelta (rt rm) c (Some desired) (Some ko) = Some delta'"
    "\<forall>p \<in> role_hook_paths. \<not> DifferentAt c delta' p"
    "Spec_Description desired = Spec_Description ko \<longrightarrow> \<not> DifferentAt c delta' ''Spec.Description''" by (elim exE conjE)
  have "Spec_Description desired = Spec_Description ko" if "nonempty (Spec_Description desired) \<noteq> None"
  proof -
    from that obtain d where "Spec_Description desired = Some d" "d \<noteq> []"
      by (cases "Spec_Description desired") (auto simp: nonempty_def split: if_splits)
    with ko(3) meets show ?thesis by (simp add: observes_def meets_def)
  qed
  moreover have "Spec_MaxSessionDuration ko = Some d" if "Spec_MaxSessionDuration desired = Some d" "d \<noteq> 0" for d
    using that ko(3) meets by (simp add: observes_def meets_def)
  ultimately show ?thesis using ko(1) delta' by (intro exI conjI) auto
qed

end
