(* ===== verification/RoleRefineProperties.thy ===== *)
theory RoleRefineProperties
  imports RoleRefine RoleSamples "HOL-Library.Char_ord" "HOL-Library.List_Lexorder"
begin

text \<open>
  The refinement of the abstract specification by the update of a role, with a witness on a backend
  whose state is the directory and the settings themselves.
\<close>

subsection \<open>A backend that is the specification\<close>

type_synonym roles = "directory \<times> configuration"

definition on_entry :: "string ptr \<Rightarrow> (principal \<Rightarrow> principal) \<Rightarrow> roles \<Rightarrow> error option \<times> roles" where
  "on_entry n f b = (None, case n of None \<Rightarrow> b | Some m \<Rightarrow> (at m f (fst b), snd b))"

definition on_settings :: "string ptr \<Rightarrow> (settings \<Rightarrow> settings) \<Rightarrow> roles \<Rightarrow> error option \<times> roles" where
  "on_settings n f b = (None, case n of None \<Rightarrow> b | Some m \<Rightarrow> (fst b, (snd b)(m := f (snd b m))))"

definition set_given :: "UpdateRoleInput \<Rightarrow> settings \<Rightarrow> settings" where
  "set_given input x = x\<lparr>
     s_description := (if Update_Description input = None then s_description x else Update_Description input),
     s_duration := (if Update_MaxSessionDuration input = None then s_duration x else Update_MaxSessionDuration input)\<rparr>"

text \<open>What it answers: the description, the tags in the order of their keys, everything on one page.\<close>

definition spec_role :: "string \<Rightarrow> principal \<Rightarrow> settings \<Rightarrow> SdkRole" where
  "spec_role n x s = \<lparr>Role_Arn = Some (''arn:'' @ n), Role_AssumeRolePolicyDocument = Some (pct_encode (s_trust s)),
     Role_CreateDate = Some 0, Role_Description = s_description s, Role_MaxSessionDuration = s_duration s,
     Role_Path = Some ''/'', Role_PermissionsBoundary = Some (p_boundary x), Role_RoleId = None, Role_RoleLastUsed = None,
     Role_RoleName = Some n, Role_Tags = None\<rparr>"

definition tag_list :: "(string \<rightharpoonup> string) \<Rightarrow> Tag list" where
  "tag_list m = map (\<lambda>k. mkTag k (the (m k))) (sorted_list_of_set (dom m))"

definition spec_sdk :: "(roles, string ptr \<times> bool) role_sdk" where
  "spec_sdk = \<lparr>
     GetRole = (\<lambda>n b. ((Some (Some (spec_role (the n) (fst b (the n)) (snd b (the n)))), None), b)),
     CreateRole = (\<lambda>input b. ((None, None), b)),
     UpdateRole = (\<lambda>input. on_settings (Update_RoleName input) (set_given input)),
     DeleteRole = (\<lambda>n b. (None, b)),
     PutRolePermissionsBoundary = (\<lambda>n p. on_entry n (set_boundary p)),
     DeleteRolePermissionsBoundary = (\<lambda>n. on_entry n (set_boundary None)),
     UpdateAssumeRolePolicy = (\<lambda>n p. on_settings n (\<lambda>x. x\<lparr>s_trust := the p\<rparr>)),
     AttachRolePolicy = (\<lambda>n p. on_entry n (attach (the p))),
     DetachRolePolicy = (\<lambda>n p. on_entry n (detach (the p))),
     PutRolePolicy = (\<lambda>n p d. on_entry n (put_inline (the p) (the d))),
     DeleteRolePolicy = (\<lambda>n p. on_entry n (delete_inline (the p))),
     GetRolePolicy = (\<lambda>n p b. ((Some (map_option pct_encode (p_inline (fst b (the n)) (the p))), None), b)),
     TagRole = (\<lambda>n ts. on_entry n (add_tags (tag_map ts))),
     UntagRole = (\<lambda>n ks. on_entry n (remove_tags (set ks))),
     ListRoleTags = (\<lambda>n m b. ((Some \<lparr>Tags = tag_list (p_tags (fst b (the n))), IsTruncated = False, Marker = None\<rparr>, None), b)),
     NewListAttachedRolePoliciesPaginator = (\<lambda>n. (n, True)),
     AttachedRolePolicies_HasMorePages = snd,
     AttachedRolePolicies_NextPage = (\<lambda>p b. (((fst p, False),
        Some (map Some (sorted_list_of_set (p_managed (fst b (the (fst p)))))), None), b)),
     NewListRolePoliciesPaginator = (\<lambda>n. (n, True)),
     RolePolicies_HasMorePages = snd,
     RolePolicies_NextPage = (\<lambda>p b. (((fst p, False),
        Some (sorted_list_of_set (dom (p_inline (fst b (the (fst p)))))), None), b))\<rparr>"

definition spec_rm :: "(roles, string ptr \<times> bool) rm" where
  "spec_rm = \<lparr>rt = sample_rt, EnableCrossNamespace = False, awsAccountID = ''1'', awsRegion = ''us-east-1'',
     awsPartition = ''aws'', sdkapi = spec_sdk\<rparr>"

lemma spec_rm_simps [simp]: "rt spec_rm = sample_rt" "sdkapi spec_rm = spec_sdk"
  by (simp_all add: spec_rm_def)

lemma spec_role_service: "role_service spec_sdk fst snd"
  unfolding role_service_def
  by (auto simp: spec_sdk_def on_entry_def on_settings_def set_given_def) (metis fun_upd_triv)

text \<open>A role with finitely many policies and tags is answered in full.\<close>

lemma tag_list_map:
  assumes "finite (dom m)"
  shows "tag_set (tag_list m)" and "tag_map (tag_list m) = m"
proof -
  show "tag_set (tag_list m)"
    by (simp add: tag_set_def tag_list_def plain_tag_def distinct_map inj_on_def)
  have "tag_map (tag_list m) = map_of (map (\<lambda>k. (k, the (m k))) (sorted_list_of_set (dom m)))"
    by (simp add: tag_map_def tag_list_def o_def)
  then show "tag_map (tag_list m) = m"
    using assms by (auto simp: map_of_map_restrict restrict_map_def fun_eq_iff domIff)
qed

lemma spec_answers:
  assumes "finite (p_managed (fst b n))" and "finite (dom (p_inline (fst b n)))" and "finite (dom (p_tags (fst b n)))"
    and "p_boundary (fst b n) \<noteq> Some []"
  shows "role_answers spec_rm fst snd b n"
proof -
  let ?x = "fst b n"
  let ?ps = "sorted_list_of_set (p_managed ?x)" and ?ks = "sorted_list_of_set (dom (p_inline ?x))"
  have "lists (AttachedRolePolicies_HasMorePages (sdkapi spec_rm)) (attachedPage spec_rm)
      (NewListAttachedRolePoliciesPaginator (sdkapi spec_rm) (Some n)) w [map Some ?ps] w" if "aws w = b" for w
    by (rule lists.page [where p' = "(Some n, False)" and u = w]) (simp_all add: attachedPage_def spec_sdk_def that lists.no_more)
  moreover have "lists (RolePolicies_HasMorePages (sdkapi spec_rm)) (inlinePage spec_rm)
      (NewListRolePoliciesPaginator (sdkapi spec_rm) (Some n)) w [?ks] w" if "aws w = b" for w
    by (rule lists.page [where p' = "(Some n, False)" and u = w]) (simp_all add: inlinePage_def spec_sdk_def that lists.no_more)
  moreover have "serves (tagFetch (spec_rm, Some n)) None w [tag_list (p_tags ?x)] w" if "aws w = b" for w
    by (rule serves.last) (simp add: tagFetch_def spec_sdk_def that)
  ultimately have "describes_role spec_rm b n (spec_role n ?x (snd b n)) (map Some ?ps) (p_inline ?x) (tag_list (p_tags ?x))"
    unfolding describes_role_def using assms(2)
    by (intro conjI allI impI) (simp add: spec_sdk_def, fastforce, fastforce, fastforce)
  moreover have "answers_settings (spec_role n ?x (snd b n)) n ?x (snd b n)"
    by (simp add: answers_settings_def spec_role_def)
  moreover have "read_inline_ok (sdkapi spec_rm) (\<lambda>b n. p_inline (fst b n))"
    by (simp add: read_inline_ok_def spec_sdk_def)
  moreover have "distinct ?ps" "set ?ps = p_managed ?x" using assms(1) by simp_all
  ultimately show ?thesis
    using tag_list_map [OF assms(3)] assms(4) unfolding role_answers_def by blast
qed

lemma sample_except_ok: "except_ok sample_compare delta_paths"
  by (auto simp: except_ok_def sample_compare_def list_ex_iff)

subsection \<open>A concrete update\<close>

definition wanted_role :: Role where
  "wanted_role = sample_role\<lparr>Spec_Policies := Some [Some ''arn:p''], Spec_Tags := Some [mkTag ''team'' ''a''],
     Spec_PermissionsBoundary := Some ''arn:b'', Spec_AssumeRolePolicyDocument := Some ''[]'',
     Spec_Description := Some ''d''\<rparr>"

definition wanted_entry :: principal where
  "wanted_entry = \<lparr>p_managed = {''arn:p''}, p_inline = Map.empty, p_boundary = Some ''arn:b'',
     p_tags = [''team'' \<mapsto> ''a'']\<rparr>"

definition bare_entry :: principal where
  "bare_entry = \<lparr>p_managed = {}, p_inline = Map.empty, p_boundary = None, p_tags = Map.empty\<rparr>"

definition bare_world :: "roles world" where
  "bare_world = \<lparr>aws = (\<lambda>_. bare_entry, \<lambda>_. \<lparr>s_trust = ''{}'', s_description = None, s_duration = Some 3600\<rparr>), api_calls = []\<rparr>"

definition wanted_delta :: "string list" where
  "wanted_delta = [''Spec.Tags'', ''Spec.AssumeRolePolicyDocument'', ''Spec.Description'', ''Spec.PermissionsBoundary'',
     ''Spec.Policies'']"

lemma wanted_role_simps [simp]:
  "Spec_Name wanted_role = Some ''r''" "Spec_Policies wanted_role = Some [Some ''arn:p'']"
  "Spec_InlinePolicies wanted_role = []" "Spec_PermissionsBoundary wanted_role = Some ''arn:b''"
  "Spec_Tags wanted_role = Some [mkTag ''team'' ''a'']" "Spec_AssumeRolePolicyDocument wanted_role = Some ''[]''"
  "Spec_Description wanted_role = Some ''d''" "Spec_MaxSessionDuration wanted_role = Some 3600"
  "Spec_Path wanted_role = None" "Spec_PermissionsBoundaryRef wanted_role = None" "Spec_PolicyRefs wanted_role = None"
  by (simp_all add: wanted_role_def)

lemma wanted_describes: "describes wanted_role wanted_entry" "describes sample_role bare_entry"
proof -
  have "describes_policies wanted_role wanted_entry"
    unfolding describes_policies_def
    by (intro conjI exI [of _ "[''arn:p'']"] exI [of _ "[]"]) (simp_all add: wanted_entry_def)
  then show "describes wanted_role wanted_entry"
    by (simp add: describes_def wanted_entry_def nonempty_def tag_set_def tag_map_def)
  show "describes sample_role bare_entry"
    by (simp add: describes_def describes_policies_def bare_entry_def nonempty_def tag_set_def tag_map_def)
qed

lemma wanted_role_delta:
  "newResourceDelta sample_rt sample_compare (Some wanted_role) (Some sample_role) = Some wanted_delta"
proof -
  have ts: "tag_set (elems (Spec_Tags wanted_role))" "tag_set (elems (Spec_Tags sample_role))"
    using wanted_describes by (simp_all add: describes_def)
  have "in_string_ok sample_rt" by simp
  from newResourceDelta_report [OF this ts, of sample_compare] show ?thesis
    by (simp add: report_def differences_def addWhen_def tagsDiffer_def policyDiffers_def stringDiffers_def
        mapsDiffer_def int64Differs_def stringsDiffer_def wanted_delta_def)
qed

text \<open>Every call succeeds, so the hooks do.\<close>

lemma wanted_role_hooks:
  "\<exists>w'. syncManagedPolicies spec_rm wanted_role sample_role w = Some (None, w')"
  "\<exists>w'. syncTags spec_rm wanted_role sample_role w = Some (None, w')"
  "\<exists>w'. syncRolePermissionsBoundary spec_rm wanted_role w = Some (None, w')"
  "\<exists>w'. putAssumeRolePolicy spec_rm wanted_role w = Some (None, w')"
  "fst (UpdateRole spec_sdk input b) = None"
  by (simp_all add: syncManagedPolicies_def sync_managed_policies_def addManagedPolicy_def syncTags_def notInTags_def
      inTags_def addTags_def syncRolePermissionsBoundary_def putRolePermissionsBoundary_def putAssumeRolePolicy_def
      spec_sdk_def on_entry_def on_settings_def sample_rt_def)

lemma wanted_role_update:
  "\<exists>res w'. sdkUpdate spec_rm sample_compare wanted_role sample_role wanted_delta bare_world = Some ((res, None), w')"
proof -
  obtain w1 where w1: "syncManagedPolicies spec_rm wanted_role sample_role bare_world = Some (None, w1)"
    using wanted_role_hooks(1) by blast
  obtain w2 where w2: "syncTags spec_rm wanted_role sample_role w1 = Some (None, w2)"
    using wanted_role_hooks(2) by blast
  obtain w3 where w3: "syncRolePermissionsBoundary spec_rm wanted_role w2 = Some (None, w3)"
    using wanted_role_hooks(3) by blast
  obtain w4 where w4: "putAssumeRolePolicy spec_rm wanted_role w3 = Some (None, w4)"
    using wanted_role_hooks(4) by blast
  obtain input where "newUpdateRequestPayload wanted_role = Inr input"
    by (auto simp: newUpdateRequestPayload_def maxSessionDurationInput_def int32_of_int64_def)
  with w1 w2 w3 w4 show ?thesis
    by (simp add: sdkUpdate_def when_different_def wanted_delta_def wanted_role_hooks(5) split_beta Let_def)
qed

subsection \<open>The property\<close>

text \<open>
  C3. \<open>sdkUpdate\<close> of a role refines one assignment to the role's entry and settings: when it returns
  without an error, the entry is what the specification \<open>settled\<close> makes of the desired one (the
  desired policies, boundary and tags, but documents that are new or changed are decoded and tags
  whose value was to change are gone), the settings meet the custom resource (its trust policy or
  an equal one, its description, its session duration), and no other role has changed. The delta
  is the one \<open>newResourceDelta\<close> computed.
\<close>

theorem role_update_refines:
  assumes "comparison_ok c delta_paths" and "except_ok c delta_paths" and "in_string_ok (rt rm)" and "lo_ok (rt rm)"
    and "role_service (sdkapi rm) dir cfg" and "Spec_Name desired = Some n"
    and "Spec_AssumeRolePolicyDocument desired = Some doc"
    and "describes desired goal" and "describes latest (dir (aws w) n)" and "observes latest (cfg (aws w) n)"
    and "newResourceDelta (rt rm) c (Some desired) (Some latest) = Some delta"
    and "sdkUpdate rm c desired latest delta w = Some ((res, None), w')"
  shows "dir (aws w') = (dir (aws w))(n := settled (rt rm) (dir (aws w) n) goal) \<and>
    (\<exists>x. cfg (aws w') = (cfg (aws w))(n := x) \<and> meets c x desired)"
  using role_sdkUpdate_settles [OF assms] by blast

lemma role_update_refines_witness:
  "\<exists>res w'. sdkUpdate spec_rm sample_compare wanted_role sample_role wanted_delta bare_world = Some ((res, None), w') \<and>
    fst (aws w') ''r'' = wanted_entry \<and> s_description (snd (aws w') ''r'') = Some ''d''"
proof -
  obtain res w' where run: "sdkUpdate spec_rm sample_compare wanted_role sample_role wanted_delta bare_world = Some ((res, None), w')"
    using wanted_role_update by blast
  have "observes sample_role (snd (aws bare_world) ''r'')"
    by (simp add: observes_def bare_world_def)
  moreover have "comparison_ok sample_compare delta_paths" by (simp add: comparison_ok_def)
  moreover have old: "fst (aws bare_world) ''r'' = bare_entry" by (simp add: bare_world_def)
  ultimately have "fst (aws w') = (fst (aws bare_world))(''r'' := settled sample_rt bare_entry wanted_entry) \<and>
      (\<exists>x. snd (aws w') = (snd (aws bare_world))(''r'' := x) \<and> meets sample_compare x wanted_role)"
    using role_update_refines [OF _ sample_except_ok _ _ _ _ _ wanted_describes(1) _ _ _ run, of fst snd "''r''" "''[]''"]
    by (simp add: wanted_describes(2) spec_role_service wanted_role_delta)
  moreover have "settled sample_rt bare_entry wanted_entry = wanted_entry"
    by (simp add: settled_goal reachable_goal_def bare_entry_def wanted_entry_def)
  ultimately show ?thesis using run by (auto simp: meets_def)
qed

text \<open>
  C7. The rounds of the reconciler of a role converge: after an update that returns no error, towards a
  goal whose new or changed documents have no percent or plus sign and which changes the value of
  no tag, the next \<open>sdkFind\<close> returns a role such that the delta with the desired one calls none of
  the five hooks again, does not report a description that is desired, and the role found has the
  desired session duration.
\<close>

theorem role_reconcile_converges:
  assumes "comparison_ok c delta_paths" and "except_ok c delta_paths"
    and "in_string_ok (rt rm)" and "lo_ok (rt rm)" and "valid_order (map_order (rt rm))"
    and "role_service (sdkapi rm) dir cfg" and "Spec_Name desired = Some n"
    and "Spec_AssumeRolePolicyDocument desired = Some doc" and "IAMPolicyDocumentEqual c doc doc = (True, None)"
    and "describes desired goal" and "Spec_PermissionsBoundary desired \<noteq> Some []" and "reachable_goal (dir (aws w) n) goal"
    and "describes latest (dir (aws w) n)" and "observes latest (cfg (aws w) n)"
    and "newResourceDelta (rt rm) c (Some desired) (Some latest) = Some delta"
    and "sdkUpdate rm c desired latest delta w = Some ((res, None), w')"
    and "role_answers rm dir cfg (aws w') n"
  shows "\<exists>ko delta' w''. sdkFind rm desired w' = Some ((Some ko, None), w'') \<and>
    newResourceDelta (rt rm) c (Some desired) (Some ko) = Some delta' \<and>
    (\<forall>p \<in> role_hook_paths. \<not> DifferentAt c delta' p) \<and>
    (nonempty (Spec_Description desired) \<noteq> None \<longrightarrow> \<not> DifferentAt c delta' ''Spec.Description'') \<and>
    (\<forall>d. Spec_MaxSessionDuration desired = Some d \<longrightarrow> d \<noteq> 0 \<longrightarrow> Spec_MaxSessionDuration ko = Some d)"
  using role_update_find_settled [OF assms] .

lemma role_reconcile_converges_witness:
  "\<exists>w' ko delta' w''. sdkFind spec_rm wanted_role w' = Some ((Some ko, None), w'') \<and>
     fst (aws w') ''r'' = wanted_entry \<and>
     newResourceDelta sample_rt sample_compare (Some wanted_role) (Some ko) = Some delta' \<and>
     ''Spec.Policies'' \<notin> set delta' \<and> ''Spec.Description'' \<notin> set delta' \<and> Spec_MaxSessionDuration ko = Some 3600"
proof -
  obtain res w' where run: "sdkUpdate spec_rm sample_compare wanted_role sample_role wanted_delta bare_world = Some ((res, None), w')"
    using wanted_role_update by blast
  have seen: "observes sample_role (snd (aws bare_world) ''r'')" by (simp add: observes_def bare_world_def)
  have c: "comparison_ok sample_compare delta_paths" by (simp add: comparison_ok_def)
  have old: "fst (aws bare_world) ''r'' = bare_entry" by (simp add: bare_world_def)
  have goal: "reachable_goal bare_entry wanted_entry" by (simp add: reachable_goal_def bare_entry_def wanted_entry_def)
  have "fst (aws w') = (fst (aws bare_world))(''r'' := settled sample_rt bare_entry wanted_entry)"
    using role_sdkUpdate_settles(1) [OF c sample_except_ok _ _ _ _ _ wanted_describes(1) _ _ _ run, of fst snd "''r''" "''[]''"] seen old
    by (simp add: wanted_describes(2) spec_role_service wanted_role_delta)
  with goal have entry: "fst (aws w') ''r'' = wanted_entry" by (simp add: settled_goal [THEN iffD2])
  have ans: "role_answers spec_rm fst snd (aws w') ''r''"
    by (rule spec_answers) (simp_all add: entry wanted_entry_def)
  have "\<exists>ko delta' w''. sdkFind spec_rm wanted_role w' = Some ((Some ko, None), w'') \<and>
      newResourceDelta sample_rt sample_compare (Some wanted_role) (Some ko) = Some delta' \<and>
      (\<forall>p \<in> role_hook_paths. p \<notin> set delta') \<and> ''Spec.Description'' \<notin> set delta' \<and> Spec_MaxSessionDuration ko = Some 3600"
    using role_reconcile_converges [OF c sample_except_ok _ _ _ spec_role_service [folded spec_rm_simps(2)] _ _ _
        wanted_describes(1) _ _ _ _ _ run ans, of "''[]''"] goal seen old
    by (simp add: wanted_describes(2) wanted_role_delta nonempty_def)
  moreover have "''Spec.Policies'' \<in> role_hook_paths" by (simp add: role_hook_paths_def)
  ultimately show ?thesis using entry by blast
qed

end
