(* ===== verification/Reporting.thy ===== *)
theory Reporting
  imports Manager Resource
begin

text \<open>
  What the reconciler relies on in every package, as interfaces: \<open>status_reporter\<close> for the
  conditions that \<open>onError\<close> and \<open>onSuccess\<close> leave on a resource over a history of outcomes, and
  \<open>resource_marks\<close> for the finalizer calls of the descriptor. The theories of the packages'
  interfaces interpret both on their own functions.
\<close>

subsection \<open>The history of outcomes\<close>

definition is_true :: "ConditionType \<Rightarrow> condition list \<Rightarrow> bool" where
  "is_true ty conds \<longleftrightarrow> (\<exists>m. status_of ty conds = Some (Some ConditionTrue, m))"

text \<open>One outcome of an operation, an error or none, reported on a resource.\<close>

definition report_with ::
  "('r ptr \<Rightarrow> error option \<Rightarrow> ('r ptr \<times> error option) option) \<Rightarrow> ('r ptr \<Rightarrow> ('r ptr \<times> error option) option) \<Rightarrow>
     'r \<Rightarrow> error option \<Rightarrow> 'r option" where
  "report_with failed succeeded r err =
     Option.bind (case err of Some e \<Rightarrow> failed (Some r) (Some e) | None \<Rightarrow> succeeded (Some r)) fst"

primrec reports :: "('r \<Rightarrow> error option \<Rightarrow> 'r option) \<Rightarrow> error option list \<Rightarrow> 'r \<Rightarrow> 'r option" where
  "reports report [] r = Some r"
| "reports report (err # errs) r = do { r \<leftarrow> report r err; reports report errs r }"

lemma reports_snoc: "reports report (errs @ [err]) r = do { r \<leftarrow> reports report errs r; report r err }"
  by (induction errs arbitrary: r) simp_all

text \<open>Whether the last outcome that was not a terminal error was an error.\<close>

definition recoverable_after :: "string list \<Rightarrow> bool \<Rightarrow> error option list \<Rightarrow> bool" where
  "recoverable_after codes before errs =
     (let others = filter (\<lambda>err. \<not> terminal_error codes err) errs
      in if others = [] then before else last others \<noteq> None)"

lemma recoverable_after_simps [simp]:
  "recoverable_after codes before [] = before"
  "recoverable_after codes before (errs @ [err]) =
     (if terminal_error codes err then recoverable_after codes before errs else err \<noteq> None)"
  by (simp_all add: recoverable_after_def Let_def)

text \<open>
  The conditions of a resource follow the outcomes reported on it: after any history its Terminal
  condition says whether the last outcome was a terminal error, its Recoverable condition whether
  the last outcome that was not a terminal error was an error.
\<close>

definition follows_outcomes ::
  "('r \<Rightarrow> condition list) \<Rightarrow> string list \<Rightarrow> ('r \<Rightarrow> error option \<Rightarrow> 'r option) \<Rightarrow> bool" where
  "follows_outcomes conds codes report \<longleftrightarrow>
     (\<forall>r errs err. unique_conditions (conds r) \<longrightarrow>
        (\<exists>r'. reports report (errs @ [err]) r = Some r' \<and>
           (is_true ConditionTypeTerminal (conds r') \<longleftrightarrow> terminal_error codes err) \<and>
           (is_true ConditionTypeRecoverable (conds r') \<longleftrightarrow>
              recoverable_after codes (is_true ConditionTypeRecoverable (conds r)) (errs @ [err]))))"

lemma follows_outcomes_D:
  assumes "follows_outcomes conds codes report" and "unique_conditions (conds r)" and "errs \<noteq> []"
  obtains r' where "reports report errs r = Some r'"
    and "is_true ConditionTypeTerminal (conds r') \<longleftrightarrow> terminal_error codes (last errs)"
    and "is_true ConditionTypeRecoverable (conds r') \<longleftrightarrow>
      recoverable_after codes (is_true ConditionTypeRecoverable (conds r)) errs"
  using assms(1,2) that unfolding follows_outcomes_def by (metis append_butlast_last_id [OF assms(3)])

locale status_reporter =
  fixes ok :: "'e \<Rightarrow> bool"
    and report :: "'e \<Rightarrow> 'r \<Rightarrow> error option \<Rightarrow> 'r option"
    and conds :: "'r \<Rightarrow> condition list"
    and codes :: "string list"
  assumes terminal: "ok e \<Longrightarrow> unique_conditions (conds r) \<Longrightarrow> terminal_error codes err \<Longrightarrow>
      \<exists>r'. report e r err = Some r' \<and> unique_conditions (conds r') \<and> is_true ConditionTypeTerminal (conds r') \<and>
        is_true ConditionTypeRecoverable (conds r') = is_true ConditionTypeRecoverable (conds r)"
    and other: "ok e \<Longrightarrow> unique_conditions (conds r) \<Longrightarrow> \<not> terminal_error codes err \<Longrightarrow>
      \<exists>r'. report e r err = Some r' \<and> unique_conditions (conds r') \<and> \<not> is_true ConditionTypeTerminal (conds r') \<and>
        is_true ConditionTypeRecoverable (conds r') = (err \<noteq> None)"
begin

lemma reports_return:
  assumes "ok e" and "unique_conditions (conds r)"
  shows "\<exists>r'. reports (report e) errs r = Some r' \<and> unique_conditions (conds r')"
  using assms(2)
proof (induction errs arbitrary: r)
  case (Cons err errs)
  with terminal [OF assms(1) Cons.prems, of err] other [OF assms(1) Cons.prems, of err]
  show ?case by (cases "terminal_error codes err") fastforce+
qed simp

lemma history:
  assumes "ok e" and "unique_conditions (conds r)" and "reports (report e) (errs @ [err]) r = Some r'"
  shows "is_true ConditionTypeTerminal (conds r') \<longleftrightarrow> terminal_error codes err"
    and "is_true ConditionTypeRecoverable (conds r') \<longleftrightarrow>
      recoverable_after codes (is_true ConditionTypeRecoverable (conds r)) (errs @ [err])"
proof -
  have "(is_true ConditionTypeTerminal (conds r') \<longleftrightarrow> terminal_error codes err) \<and>
    (is_true ConditionTypeRecoverable (conds r') \<longleftrightarrow>
      recoverable_after codes (is_true ConditionTypeRecoverable (conds r)) (errs @ [err]))"
    using assms(3)
  proof (induction errs arbitrary: err r' rule: rev_induct)
    case Nil
    with terminal [OF assms(1,2), of err] other [OF assms(1,2), of err] show ?case
      using recoverable_after_simps(2) [of codes _ "[]" err] by (cases "terminal_error codes err") auto
  next
    case (snoc x errs)
    obtain u where u: "reports (report e) (errs @ [x]) r = Some u" and r': "report e u err = Some r'"
      using snoc.prems by (auto simp: reports_snoc [of _ "errs @ [x]", simplified] split: Option.bind_splits)
    have unique: "unique_conditions (conds u)"
      using reports_return [OF assms(1,2), of "errs @ [x]"] u by auto
    show ?case
    proof (cases "terminal_error codes err")
      case True
      with terminal [OF assms(1) unique True] r' snoc.IH [OF u] show ?thesis by (simp del: append_assoc)
    next
      case False
      with other [OF assms(1) unique False] r' show ?thesis by (auto simp del: append_assoc)
    qed
  qed
  then show "is_true ConditionTypeTerminal (conds r') \<longleftrightarrow> terminal_error codes err"
    and "is_true ConditionTypeRecoverable (conds r') \<longleftrightarrow>
      recoverable_after codes (is_true ConditionTypeRecoverable (conds r)) (errs @ [err])" by blast+
qed

lemma follows:
  assumes "ok e"
  shows "follows_outcomes conds codes (report e)"
  unfolding follows_outcomes_def
proof (intro allI impI)
  fix r errs err
  assume r: "unique_conditions (conds r)"
  from reports_return [OF assms r, of "errs @ [err]"] history [OF assms r, of errs err]
  show "\<exists>r'. reports (report e) (errs @ [err]) r = Some r' \<and>
      (is_true ConditionTypeTerminal (conds r') \<longleftrightarrow> terminal_error codes err) \<and>
      (is_true ConditionTypeRecoverable (conds r') \<longleftrightarrow>
         recoverable_after codes (is_true ConditionTypeRecoverable (conds r)) (errs @ [err]))"
    by blast
qed

end

text \<open>The shared \<open>onError\<close> and \<open>onSuccess\<close> meet the interface, whatever the codes of a package.\<close>

lemma conditions_reporter:
  "status_reporter (\<lambda>rm. aws_error_ok (rt rm))
     (\<lambda>rm :: 'b resourceManager_scheme. report_with (onError rm codes) (onSuccess rm codes))
     (conditions_of :: 'a ack_object_scheme \<Rightarrow> _) codes"
proof
  fix rm :: "'b resourceManager_scheme" and r :: "'a ack_object_scheme" and err
  assume rm: "aws_error_ok (rt rm)" and r: "unique_conditions (conditions_of r)"
  show "\<exists>r'. report_with (onError rm codes) (onSuccess rm codes) r err = Some r' \<and>
      unique_conditions (conditions_of r') \<and> is_true ConditionTypeTerminal (conditions_of r') \<and>
      is_true ConditionTypeRecoverable (conditions_of r') = is_true ConditionTypeRecoverable (conditions_of r)"
    if "terminal_error codes err"
  proof -
    from that obtain e where e: "err = Some e" by (cases err) auto
    from terminal_error_D [OF rm r that [unfolded e]] show ?thesis
      by (fastforce simp: report_with_def e is_true_def)
  qed
  show "\<exists>r'. report_with (onError rm codes) (onSuccess rm codes) r err = Some r' \<and>
      unique_conditions (conditions_of r') \<and> \<not> is_true ConditionTypeTerminal (conditions_of r') \<and>
      is_true ConditionTypeRecoverable (conditions_of r') = (err \<noteq> None)"
    if "\<not> terminal_error codes err"
  proof (cases err)
    case None
    from success_D [OF r, of rm codes] show ?thesis
      by (auto simp: report_with_def None is_true_def)
  next
    case (Some e)
    from nonterminal_error_D [OF r that [unfolded Some], of rm] show ?thesis
      by (auto simp: report_with_def Some is_true_def r status_nonterminal [OF r])
  qed
qed

subsection \<open>The marks of a descriptor\<close>

text \<open>
  Over any sequence of marking and unmarking: the last call decides whether the resource is
  managed, and unmarking a resource that was not managed at first gives it back as it was.
\<close>

definition marks_decide :: "('r \<Rightarrow> bool) \<Rightarrow> ('r \<Rightarrow> 'r) \<Rightarrow> ('r \<Rightarrow> 'r) \<Rightarrow> bool" where
  "marks_decide managed mark unmark \<longleftrightarrow>
     (\<forall>r bs b. managed (fold (\<lambda>b. if b then mark else unmark) (bs @ [b]) r) = b \<and>
        (\<not> managed r \<longrightarrow> unmark (fold (\<lambda>b. if b then mark else unmark) bs r) = r))"

locale resource_marks =
  fixes ok :: "'k \<Rightarrow> bool"
    and managed :: "'r \<Rightarrow> bool"
    and mark :: "'k \<Rightarrow> 'r \<Rightarrow> 'r"
    and unmark :: "'k \<Rightarrow> 'r \<Rightarrow> 'r"
  assumes marks: "ok k \<Longrightarrow> managed (mark k r)"
    and unmarks: "ok k \<Longrightarrow> \<not> managed (unmark k r)"
    and mark_again: "ok k \<Longrightarrow> managed r \<Longrightarrow> mark k r = r"
    and unmark_again: "ok k \<Longrightarrow> \<not> managed r \<Longrightarrow> unmark k r = r"
    and unmark_mark: "ok k \<Longrightarrow> \<not> managed r \<Longrightarrow> unmark k (mark k r) = r"
begin

text \<open>After any sequence of marking and unmarking the last call decides.\<close>

lemma last_mark_decides:
  assumes "ok k"
  shows "managed (fold (\<lambda>b. if b then mark k else unmark k) (bs @ [b]) r) = b"
  using assms by (simp add: marks unmarks)

text \<open>A resource that was not managed is as before once it is unmarked, whatever happened between.\<close>

lemma unmark_restores:
  assumes "ok k" and "\<not> managed r"
  shows "unmark k (fold (\<lambda>b. if b then mark k else unmark k) bs r) = r"
proof -
  have "fold (\<lambda>b. if b then mark k else unmark k) bs r \<in> {r, mark k r}"
  proof (induction bs rule: rev_induct)
    case (snoc b bs)
    then show ?case
      using assms by (auto simp: mark_again marks unmark_again unmark_mark)
  qed simp
  then show ?thesis using assms by (auto simp: unmark_again unmark_mark)
qed

lemma decide: "ok k \<Longrightarrow> marks_decide managed (mark k) (unmark k)"
  unfolding marks_decide_def using last_mark_decides unmark_restores by blast

end

lemma finalizer_marks:
  "resource_marks finalizers_ok (IsManaged f) (\<lambda>k. MarkManaged k f) (\<lambda>k. MarkUnmanaged k f)"
proof
  fix k obj
  assume k: "finalizers_ok k"
  show "IsManaged f (MarkManaged k f obj)" and "\<not> IsManaged f (MarkUnmanaged k f obj)"
    using IsManaged_MarkManaged [OF k] by auto
  show "MarkManaged k f obj = obj" if "IsManaged f obj"
    using that k by (simp add: IsManaged_def containsFinalizer_iff MarkManaged_def finalizers_ok_def)
  show "MarkUnmanaged k f obj = obj" if "\<not> IsManaged f obj"
  proof -
    have "filter (\<lambda>g. g \<noteq> f) (Finalizers obj) = Finalizers obj"
      using that by (auto simp: IsManaged_def containsFinalizer_iff filter_id_conv)
    with k show ?thesis by (simp add: MarkUnmanaged_def finalizers_ok_def)
  qed
  show "MarkUnmanaged k f (MarkManaged k f obj) = obj" if "\<not> IsManaged f obj"
    using MarkUnmanaged_MarkManaged [OF k that] .
qed

end
