(* ===== verification/PolicyPackage.thy ===== *)
theory PolicyPackage
  imports Factory Reporting PolicySdk
begin

text \<open>
  The generated code of \<open>pkg/resource/policy\<close> that is the same text in every package, for the
  policy: its conditions and errors, its manager factory, the marks of its descriptor, its
  identifiers and its tag conversions. The functions are those of the shared theories with the package's type,
  terminal codes and finalizer; the interfaces of \<open>Reporting\<close> are interpreted on them.
\<close>

subsection \<open>sdk.go and manager.go\<close>

definition setStatusDefaults :: "'m resourceManager_scheme \<Rightarrow> Policy \<Rightarrow> Policy" where
  "setStatusDefaults rm ko = Conditions.setStatusDefaults rm ko"

definition terminalAWSError :: "error option \<Rightarrow> bool" where
  "terminalAWSError err = Conditions.terminalAWSError terminalCodes err"

definition updateConditions ::
  "'m resourceManager_scheme \<Rightarrow> Policy \<Rightarrow> bool \<Rightarrow> error option \<Rightarrow> (Policy ptr \<times> bool) option" where
  "updateConditions rm r succeeded err = Conditions.updateConditions rm terminalCodes r succeeded err"

definition onError :: "'m resourceManager_scheme \<Rightarrow> Policy ptr \<Rightarrow> error option \<Rightarrow> (Policy ptr \<times> error option) option" where
  "onError rm r err = Conditions.onError rm terminalCodes r err"

definition onSuccess :: "'m resourceManager_scheme \<Rightarrow> Policy ptr \<Rightarrow> (Policy ptr \<times> error option) option" where
  "onSuccess rm r = Conditions.onSuccess rm terminalCodes r"

definition ARNFromName :: "'m resourceManager_scheme \<Rightarrow> string \<Rightarrow> string" where
  "ARNFromName rm name = Manager.ARNFromName rm name"

definition IsSynced :: "Policy ptr \<Rightarrow> (bool \<times> error option) option" where
  "IsSynced res = Manager.IsSynced res"

subsection \<open>manager_factory.go\<close>

text \<open>\<open>client\<close> is \<open>svcsdk.NewFromConfig\<close>; a factory starts with an empty cache.\<close>

definition newResourceManager ::
  "('cfg \<Rightarrow> string) \<Rightarrow> ('cc \<Rightarrow> 'sdk) \<Rightarrow> ('cfg, 'cc) manager_call \<Rightarrow> ('cfg, 'sdk) managerStruct" where
  "newResourceManager partitionOf client c = Factory.newResourceManager partitionOf client c"

definition ManagerFor ::
  "('cfg \<Rightarrow> string) \<Rightarrow> ('cc \<Rightarrow> 'sdk) \<Rightarrow> ('cfg, 'cc) manager_call \<Rightarrow> ('cfg, 'sdk) rmCache \<Rightarrow>
     ('cfg, 'sdk) managerStruct \<times> ('cfg, 'sdk) rmCache" where
  "ManagerFor partitionOf client c cache = Factory.ManagerFor partitionOf client c cache"

definition newResourceManagerFactory :: "('cfg, 'sdk) rmCache" where
  "newResourceManagerFactory = []"

definition IsAdoptable :: bool where
  "IsAdoptable = True"

definition RequeueOnSuccessSeconds :: int where
  "RequeueOnSuccessSeconds = 0"

subsection \<open>descriptor.go, resource.go and identifiers.go\<close>

definition containsFinalizer :: "Policy \<Rightarrow> string \<Rightarrow> bool" where
  "containsFinalizer obj finalizer = Resource.containsFinalizer obj finalizer"

definition IsManaged :: "Policy \<Rightarrow> bool" where
  "IsManaged obj = Resource.IsManaged FinalizerString obj"

definition MarkManaged :: "k8s_rt \<Rightarrow> Policy \<Rightarrow> Policy" where
  "MarkManaged k obj = Resource.MarkManaged k FinalizerString obj"

definition MarkUnmanaged :: "k8s_rt \<Rightarrow> Policy \<Rightarrow> Policy" where
  "MarkUnmanaged k obj = Resource.MarkUnmanaged k FinalizerString obj"

definition MarkAdopted :: "k8s_rt \<Rightarrow> Policy \<Rightarrow> Policy" where
  "MarkAdopted k obj = Resource.MarkAdopted k obj"

definition Identifiers :: "Policy \<Rightarrow> ResourceMetadata ptr" where
  "Identifiers r = Resource.Identifiers r"

definition IsBeingDeleted :: "Policy \<Rightarrow> bool" where
  "IsBeingDeleted r = Resource.IsBeingDeleted r"

definition Conditions :: "Policy \<Rightarrow> condition slice" where
  "Conditions r = Resource.Conditions r"

definition ReplaceConditions :: "condition slice \<Rightarrow> Policy \<Rightarrow> Policy" where
  "ReplaceConditions conditions r = Resource.ReplaceConditions conditions r"

definition Identifiers_ARN :: "Policy \<Rightarrow> string ptr" where
  "Identifiers_ARN r = Resource.Identifiers_ARN (Identifiers r)"

definition Identifiers_OwnerAccountID :: "Policy \<Rightarrow> string ptr" where
  "Identifiers_OwnerAccountID r = Resource.Identifiers_OwnerAccountID (Identifiers r)"

definition Identifiers_Region :: "Policy \<Rightarrow> string ptr" where
  "Identifiers_Region r = Resource.Identifiers_Region (Identifiers r)"

definition Identifiers_Partition :: "Policy \<Rightarrow> string ptr" where
  "Identifiers_Partition r = Resource.Identifiers_Partition (Identifiers r)"

subsection \<open>tags.go\<close>

definition convertToOrderedACKTags :: "Tag slice \<Rightarrow> (string, string) gomap \<times> string list" where
  "convertToOrderedACKTags tags = AckTags.convertToOrderedACKTags tags"

definition fromACKTags :: "ack_rt \<Rightarrow> (string, string) gomap \<Rightarrow> string list \<Rightarrow> Tag slice" where
  "fromACKTags r tags keyOrder = AckTags.fromACKTags r tags keyOrder"

definition ignoreSystemTags :: "ack_rt \<Rightarrow> (string, string) gomap \<Rightarrow> string list \<Rightarrow> (string, string) gomap" where
  "ignoreSystemTags r tags systemTags = AckTags.ignoreSystemTags r tags systemTags"

definition syncAWSTags :: "ack_rt \<Rightarrow> (string, string) gomap \<Rightarrow> (string, string) gomap \<Rightarrow> (string, string) gomap" where
  "syncAWSTags r a b = AckTags.syncAWSTags r a b"

subsection \<open>The interfaces\<close>

interpretation policy_status: status_reporter "\<lambda>rm. aws_error_ok (rt rm)"
  "\<lambda>rm. report_with (onError rm) (onSuccess rm)" conditions_of terminalCodes
  unfolding onError_def onSuccess_def by (rule conditions_reporter)

interpretation policy_marks: resource_marks finalizers_ok IsManaged MarkManaged MarkUnmanaged
  unfolding IsManaged_def MarkManaged_def MarkUnmanaged_def by (rule finalizer_marks)

subsection \<open>The types of descriptor.go\<close>

definition GroupKind :: "string \<times> string" where
  "GroupKind = (''iam.services.k8s.aws'', ''Policy'')"

definition GroupVersionResource :: "string \<times> string \<times> string" where
  "GroupVersionResource = WithResource GroupVersion ''policies''"

definition GroupVersionKind :: "string \<times> string \<times> string" where
  "GroupVersionKind = WithKind GroupVersion (snd GroupKind)"

text \<open>The zero value of the struct.\<close>

definition EmptyRuntimeObject :: Policy where
  "EmptyRuntimeObject = \<lparr>
     Namespace = '''', DeletionTimestamp = None, Finalizers = [], Annotations = [],
     Status_ACKResourceMetadata = None, Status_Conditions = None, Spec_Description = None,
     Spec_Name = None, Spec_Path = None, Spec_PolicyDocument = None, Spec_Tags = None,
     Status_AttachmentCount = None, Status_CreateDate = None, Status_DefaultVersionID = None,
     Status_IsAttachable = None, Status_PermissionsBoundaryUsageCount = None,
     Status_PolicyID = None, Status_UpdateDate = None\<rparr>"

end
