(* ===== verification/Isolation.thy ===== *)
theory Isolation
  imports Manager Holder Compare
begin

text \<open>
  What a call may touch. AWS is read as a map from the keys of a package's resources (names or ARNs)
  to their entries. \<open>call_on\<close> is the documented effect of one API call: it changes the entry it
  names and no other that exists. \<open>keeps\<close> carries that through the code, one rule per construct,
  for every way a call can end: with a result, with an error at any point, or not at all. The
  entry points of a package are the actions of a transition system whose steps come in any order,
  for any resources; the locale \<open>isolated_package\<close> states what each of them must keep and proves it
  of all sequences.
\<close>

subsection \<open>One API call\<close>

definition call_on :: "('b \<Rightarrow> string \<Rightarrow> 'x option) \<Rightarrow> string ptr \<Rightarrow> ('b \<Rightarrow> 'r \<times> 'b) \<Rightarrow> bool" where
  "call_on view key call \<longleftrightarrow>
     (\<forall>b k. Some k \<noteq> key \<longrightarrow> view b k \<noteq> None \<longrightarrow> view (snd (call b)) k = view b k)"

text \<open>A call that only reads, as far as the entries go.\<close>

abbreviation reads :: "('b \<Rightarrow> string \<Rightarrow> 'x option) \<Rightarrow> ('b \<Rightarrow> 'r \<times> 'b) \<Rightarrow> bool" where
  "reads view call \<equiv> call_on view None call"

text \<open>What exists outside the keys \<open>K\<close> is as it was, after a call or from one state to another.\<close>

definition unharmed :: "('b \<Rightarrow> string \<Rightarrow> 'x option) \<Rightarrow> string set \<Rightarrow> 'b \<Rightarrow> 'b \<Rightarrow> bool" where
  "unharmed view K b b' \<longleftrightarrow> (\<forall>k. k \<notin> K \<longrightarrow> view b k \<noteq> None \<longrightarrow> view b' k = view b k)"

definition within :: "('b \<Rightarrow> string \<Rightarrow> 'x option) \<Rightarrow> string set \<Rightarrow> ('b \<Rightarrow> 'r \<times> 'b) \<Rightarrow> bool" where
  "within view K call \<longleftrightarrow> (\<forall>b. unharmed view K b (snd (call b)))"

lemma unharmed_refl [simp]: "unharmed view K b b"
  by (simp add: unharmed_def)

lemma unharmed_trans: "unharmed view K b b1 \<Longrightarrow> unharmed view K b1 b2 \<Longrightarrow> unharmed view K b b2"
  by (simp add: unharmed_def)

lemma within_call_on: "call_on view key call \<Longrightarrow> set_option key \<subseteq> K \<Longrightarrow> within view K call"
  unfolding call_on_def within_def unharmed_def by (metis option.set_intros subsetD)

lemma call_on_within: "call_on view key call \<longleftrightarrow> (\<forall>K. set_option key \<subseteq> K \<longrightarrow> within view K call)"
proof
  assume "\<forall>K. set_option key \<subseteq> K \<longrightarrow> within view K call"
  then have "within view (set_option key) call" by simp
  then show "call_on view key call" by (auto simp: call_on_def within_def unharmed_def)
qed (simp add: within_call_on)

lemma within_reads: "reads view call \<Longrightarrow> within view K call"
  by (rule within_call_on [where key = None]) simp_all

lemma unharmed_call: "within view K call \<Longrightarrow> unharmed view K b b1 \<Longrightarrow> unharmed view K b (snd (call b1))"
  unfolding within_def by (blast intro: unharmed_trans)

lemma unharmed_mono: "unharmed view K b b1 \<Longrightarrow> K \<subseteq> L \<Longrightarrow> unharmed view L b b1"
  by (auto simp: unharmed_def)

subsection \<open>The code around the calls\<close>

text \<open>Whatever the computation returns, it returns in a state in which nothing else is harmed.\<close>

definition keeps :: "('b \<Rightarrow> string \<Rightarrow> 'x option) \<Rightarrow> string set \<Rightarrow> 'b \<Rightarrow> ('a \<times> 'b world) option \<Rightarrow> bool" where
  "keeps view K b res \<longleftrightarrow> (\<forall>x w'. res = Some (x, w') \<longrightarrow> unharmed view K b (aws w'))"

named_theorems confined \<open>what the functions of the packages keep\<close>

lemma keeps_return [confined]:
  "unharmed view K b (aws w) \<Longrightarrow> keeps view K b (Some (x, w))"
  "keeps view K b None"
  by (simp_all add: keeps_def)

lemma unharmed_record [confined]: "unharmed view K b (aws w) \<Longrightarrow> unharmed view K b (aws (RecordAPICall t i e w))"
  by simp

lemma keeps_call [confined]:
  assumes "within view K call" and "unharmed view K b (aws w)"
    and "\<And>x w. unharmed view K b (aws w) \<Longrightarrow> keeps view K b (f x w)"
  shows "keeps view K b (case sdk_call call w of (x, w) \<Rightarrow> f x w)"
  using assms(3) [of "w\<lparr>aws := snd (call (aws w))\<rparr>"] unharmed_call [OF assms(1,2)] by simp

lemma keeps_bind [confined]:
  assumes "keeps view K b m" and "\<And>x w. unharmed view K b (aws w) \<Longrightarrow> keeps view K b (f x w)"
  shows "keeps view K b (Option.bind m (\<lambda>(x, w). f x w))"
  using assms by (cases m) (auto simp: keeps_def)

lemma keeps_cases [confined]:
  "(P \<Longrightarrow> keeps view K b s) \<Longrightarrow> (\<not> P \<Longrightarrow> keeps view K b t) \<Longrightarrow> keeps view K b (if P then s else t)"
  "keeps view K b s \<Longrightarrow> (\<And>y. p = Some y \<Longrightarrow> keeps view K b (g y)) \<Longrightarrow> keeps view K b (case p of None \<Rightarrow> s | Some y \<Rightarrow> g y)"
  "(\<And>x. v = Inl x \<Longrightarrow> keeps view K b (l x)) \<Longrightarrow> (\<And>y. v = Inr y \<Longrightarrow> keeps view K b (g y)) \<Longrightarrow>
     keeps view K b (case v of Inl x \<Rightarrow> l x | Inr y \<Rightarrow> g y)"
  by (auto split: option.split sum.split)

text \<open>Values that are no computations, bound or taken apart.\<close>

lemma keeps_values:
  "(\<And>x. v = Some x \<Longrightarrow> keeps view K b (f x)) \<Longrightarrow> keeps view K b (Option.bind v f)"
  "(\<And>x y. q = (x, y) \<Longrightarrow> keeps view K b (h x y)) \<Longrightarrow> keeps view K b (case q of (x, y) \<Rightarrow> h x y)"
  "(\<And>x y. q = (x, y) \<Longrightarrow> keeps view K b (g x y w)) \<Longrightarrow> keeps view K b ((case q of (x, y) \<Rightarrow> g x y) w)"
  "(\<And>x y. q = (x, y) \<Longrightarrow> keeps view K b (i x y z w)) \<Longrightarrow> keeps view K b ((case q of (x, y) \<Rightarrow> i x y) z w)"
  by (cases v; simp add: keeps_return) (auto split: prod.split)

lemma keeps_for_each [confined]:
  assumes "\<And>x w. unharmed view K b (aws w) \<Longrightarrow> keeps view K b (f x w)" and "unharmed view K b (aws w)"
  shows "keeps view K b (for_each f xs w)"
  using assms(2)
proof (induction xs arbitrary: w)
  case (Cons x xs)
  show ?case
    unfolding for_each.simps by (intro confined assms Cons) simp_all
qed (simp add: keeps_return)

text \<open>The paginator loop and the policy hooks the packages share.\<close>

lemma keeps_list_pages [confined]:
  assumes "\<And>p. within view K (next_page p)" and "unharmed view K b (aws w)"
  shows "keeps view K b (list_pages has_more next_page absorb p res w)"
proof -
  have "(\<forall>p. within view K (next_page p)) \<longrightarrow> unharmed view K b (aws w) \<longrightarrow> unharmed view K b (aws (snd out))"
    if "list_pages has_more next_page absorb p res w = Some out" for out
  proof (rule list_pages.raw_induct [OF _ that], intro impI)
    fix loop has_more next_page absorb p res w out
    assume IH: "\<And>has_more next_page absorb p res w out. loop has_more next_page absorb p res w = Some out \<Longrightarrow>
        (\<forall>p. within view K (next_page p)) \<longrightarrow> unharmed view K b (aws w) \<longrightarrow> unharmed view K b (aws (snd out))"
      and run: "(if has_more p then do {
          let ((paginator, page, err), w) = sdk_call (next_page p) w;
          (case err of
             Some e \<Rightarrow> Some (Inl e, w)
           | None \<Rightarrow> do { xs \<leftarrow> page; loop has_more next_page absorb paginator (absorb xs res) w }) }
        else Some (Inr res, w)) = Some out"
      and pages: "\<forall>p. within view K (next_page p)" and w: "unharmed view K b (aws w)"
    from pages have "unharmed view K b (snd (next_page p (aws w)))"
      by (intro unharmed_call [OF _ w]) simp
    with run pages w IH show "unharmed view K b (aws (snd out))"
      by (auto simp: split_beta Let_def split: if_splits option.splits Option.bind_splits)
  qed
  with assms show ?thesis by (auto simp: keeps_def)
qed

lemma keeps_sync_managed [confined]:
  assumes "\<And>p w. unharmed view K b (aws w) \<Longrightarrow> keeps view K b (add p w)"
    and "\<And>p w. unharmed view K b (aws w) \<Longrightarrow> keeps view K b (remove p w)"
    and "unharmed view K b (aws w)"
  shows "keeps view K b (sync_managed_policies r add remove desired latest w)"
  unfolding sync_managed_policies_def Let_def by (intro confined keeps_values assms) simp_all

lemma keeps_sync_inline [confined]:
  assumes "\<And>n p w. unharmed view K b (aws w) \<Longrightarrow> keeps view K b (add n p w)"
    and "\<And>p w. unharmed view K b (aws w) \<Longrightarrow> keeps view K b (remove p w)"
    and "unharmed view K b (aws w)"
  shows "keeps view K b (sync_inline_policies r add remove desired latest w)"
  unfolding sync_inline_policies_def remove_stale_def Let_def by (intro confined keeps_values assms) simp_all

lemma keeps_inline_docs [confined]:
  assumes "\<And>p. within view K (get p)" and "unharmed view K b (aws w)"
  shows "keeps view K b (inline_policy_docs r get opID names res w)"
  using assms(2)
proof (induction names arbitrary: res w)
  case (Cons n names)
  have read: "unharmed view K b (aws w') \<Longrightarrow> keeps view K b (inline_policy_docs r get opID names res w')" for res w'
    by (rule Cons.IH)
  show ?case
    unfolding inline_policy_docs.simps Let_def
    by (intro read confined keeps_values assms(1) Cons.prems) simp_all
qed (simp add: keeps_return)

lemma keeps_get_managed [confined]:
  assumes "\<And>p. within view K (next_page p)" and "unharmed view K b (aws w)"
  shows "keeps view K b (get_managed_policies has_more next_page p opID w)"
  unfolding get_managed_policies_def Let_def by (intro confined keeps_values assms) simp_all

lemma keeps_get_inline [confined]:
  assumes "\<And>p. within view K (next_page p)" and "\<And>p. within view K (get p)" and "unharmed view K b (aws w)"
  shows "keeps view K b (get_inline_policies r has_more next_page p opID get opID' w)"
  unfolding get_inline_policies_def Let_def by (intro confined keeps_values assms) simp_all

subsection \<open>The entry points of a package\<close>

lemma keeps_when_different [confined]:
  "keeps view K b (f w) \<Longrightarrow> unharmed view K b (aws w) \<Longrightarrow> keeps view K b (when_different c delta path f w)"
  by (simp add: when_different_def keeps_return)

lemma keeps_read_one:
  assumes "\<And>r. keeps view K b (sdkFind rm r w)"
  shows "keeps view K b (read_one sdkFind mirror codes rm res w)"
  unfolding read_one_def Let_def by (intro confined keeps_values assms) simp_all

lemma keeps_create_or_delete:
  assumes "keeps view K b (operation rm r w)"
  shows "keeps view K b (create_or_delete operation codes rm (Some r) w)"
  unfolding create_or_delete_def bind.bind_lunit by (intro confined keeps_values assms) simp_all

lemma keeps_update_with:
  assumes "keeps view K b (sdkUpdate rm desired latest delta w)"
  shows "keeps view K b (update_with sdkUpdate codes rm (Some desired) (Some latest) delta w)"
  unfolding update_with_def bind.bind_lunit by (intro confined keeps_values assms) simp_all

lemma keeps_late_initialize:
  assumes "\<And>w. unharmed view K b (aws w) \<Longrightarrow> keeps view K b (ReadOne latest w)" and "unharmed view K b (aws w)"
  shows "keeps view K b (late_initialize names ReadOne fill incomplete rm latest w)"
  unfolding late_initialize_def Let_def by (intro confined keeps_values assms) simp_all

text \<open>
  The entry points, for a fixed manager, as the actions the reconciler has; \<open>ep_key\<close> is the key a
  resource names, if it names one.
\<close>

record ('r, 'b, 'd) entry_points =
  ep_key :: "'r \<Rightarrow> string ptr"
  ep_read :: "'r ptr \<Rightarrow> ('b, ('r ptr \<times> error option) \<times> 'r) go"
  ep_create :: "'r ptr \<Rightarrow> ('b, 'r ptr \<times> error option) go"
  ep_update :: "'r ptr \<Rightarrow> 'r ptr \<Rightarrow> 'd \<Rightarrow> ('b, 'r ptr \<times> error option) go"
  ep_delete :: "'r ptr \<Rightarrow> ('b, 'r ptr \<times> error option) go"
  ep_late :: "'r ptr \<Rightarrow> ('b, 'r ptr \<times> error option) go"

text \<open>
  One call of the reconciler, for a resource whose key is in \<open>K\<close>; a read may be for any. The result,
  an error included, is dropped: the next call may be any other.
\<close>

inductive reconcile_call :: "('r, 'b, 'd) entry_points \<Rightarrow> string set \<Rightarrow> 'b world \<Rightarrow> 'b world \<Rightarrow> bool"
  for ep :: "('r, 'b, 'd) entry_points" and K :: "string set" where
  reading: "ep_read ep r w = Some (out, w') \<Longrightarrow> reconcile_call ep K w w'"
| late_initializing: "ep_late ep r w = Some (out, w') \<Longrightarrow> reconcile_call ep K w w'"
| creating: "set_option (ep_key ep r) \<subseteq> K \<Longrightarrow> ep_create ep (Some r) w = Some (out, w') \<Longrightarrow> reconcile_call ep K w w'"
| updating: "set_option (ep_key ep desired) \<subseteq> K \<Longrightarrow> set_option (ep_key ep latest) \<subseteq> K \<Longrightarrow>
     ep_update ep (Some desired) (Some latest) delta w = Some (out, w') \<Longrightarrow> reconcile_call ep K w w'"
| deleting: "set_option (ep_key ep r) \<subseteq> K \<Longrightarrow> ep_delete ep (Some r) w = Some (out, w') \<Longrightarrow> reconcile_call ep K w w'"

abbreviation reconciles :: "('r, 'b, 'd) entry_points \<Rightarrow> string set \<Rightarrow> 'b world \<Rightarrow> 'b world \<Rightarrow> bool" where
  "reconciles ep K \<equiv> (reconcile_call ep K)\<^sup>*\<^sup>*"

locale isolated_package =
  fixes ok :: "'e \<Rightarrow> bool"
    and view :: "'e \<Rightarrow> 'b \<Rightarrow> string \<Rightarrow> 'x option"
    and ep :: "'e \<Rightarrow> ('r, 'b, 'd) entry_points"
  assumes read_keeps: "ok e \<Longrightarrow> keeps (view e) {} (aws w) (ep_read (ep e) r w)"
    and late_keeps: "ok e \<Longrightarrow> keeps (view e) {} (aws w) (ep_late (ep e) r w)"
    and create_keeps: "ok e \<Longrightarrow> set_option (ep_key (ep e) x) \<subseteq> K \<Longrightarrow> keeps (view e) K (aws w) (ep_create (ep e) (Some x) w)"
    and update_keeps: "ok e \<Longrightarrow> set_option (ep_key (ep e) x) \<subseteq> K \<Longrightarrow> set_option (ep_key (ep e) y) \<subseteq> K \<Longrightarrow>
      keeps (view e) K (aws w) (ep_update (ep e) (Some x) (Some y) delta w)"
    and delete_keeps: "ok e \<Longrightarrow> set_option (ep_key (ep e) x) \<subseteq> K \<Longrightarrow> keeps (view e) K (aws w) (ep_delete (ep e) (Some x) w)"
begin

lemma call_keeps:
  assumes "ok e" and "reconcile_call (ep e) K w w'"
  shows "unharmed (view e) K (aws w) (aws w')"
  using assms(2)
proof cases
  case (reading r out)
  with read_keeps [OF assms(1), of w r] show ?thesis by (auto simp: keeps_def intro: unharmed_mono)
next
  case (late_initializing r out)
  with late_keeps [OF assms(1), of w r] show ?thesis by (auto simp: keeps_def intro: unharmed_mono)
next
  case (creating r out)
  with create_keeps [OF assms(1) creating(1), of w] show ?thesis by (simp add: keeps_def)
next
  case (updating desired latest delta out)
  with update_keeps [OF assms(1) updating(1,2), of w delta] show ?thesis by (simp add: keeps_def)
next
  case (deleting r out)
  with delete_keeps [OF assms(1) deleting(1), of w] show ?thesis by (simp add: keeps_def)
qed

text \<open>Any number of calls, in any order, whatever each of them returned.\<close>

lemma calls_keep:
  assumes "ok e" and "reconciles (ep e) K w w'"
  shows "unharmed (view e) K (aws w) (aws w')"
  using assms(2) by induction (auto intro: unharmed_trans call_keeps [OF assms(1)])

text \<open>The calls for \<open>K\<close> in between do not matter to an entry outside \<open>K\<close>: it is as its own calls left it.\<close>

lemma interleaved:
  assumes "ok e" and "reconciles (ep e) K w u" and "k \<notin> K" and "view e (aws w) k = Some x"
  shows "view e (aws u) k = Some x"
  using calls_keep [OF assms(1,2)] assms(3,4) by (simp add: unharmed_def)

text \<open>Reading changes nothing that exists.\<close>

lemma read_only:
  assumes "ok e" and "ep_read (ep e) r w = Some (out, w')" and "view e (aws w) k = Some x"
  shows "view e (aws w') k = Some x"
  using read_keeps [OF assms(1), of w r] assms(2,3) by (auto simp: keeps_def unharmed_def)

end

end
