(* ===== verification/Isolated.thy ===== *)
theory Isolated
  imports Isolation RoleManager UserManager GroupManager PolicySdk ProfileManager ProviderManager LinkedRole
begin

text \<open>
  No package touches what its resource does not name. For each package: what the documentation says
  its API calls change (\<open>..._calls_on\<close>), what every hook and every entry point therefore keeps, and
  the interpretation of \<open>isolated_package\<close> on its entry points. A role, user, group or instance
  profile is named by its name, a policy and a provider by its ARN, a service linked role by the
  role name IAM gave it. The entry points that only read change nothing, for whatever resource.
\<close>


subsection \<open>Roles\<close>

definition role_calls_on :: "('b, 'p) role_sdk \<Rightarrow> ('b \<Rightarrow> string \<Rightarrow> 'x option) \<Rightarrow> bool" where
  "role_calls_on sdk view \<longleftrightarrow>
     (\<forall>i. call_on view (RoleApi.Create_RoleName i) (RoleApi.CreateRole sdk i)) \<and>
     (\<forall>i. call_on view (RoleApi.Update_RoleName i) (RoleApi.UpdateRole sdk i)) \<and>
     (\<forall>n. call_on view n (RoleApi.DeleteRole sdk n)) \<and>
     (\<forall>n q. call_on view n (RoleApi.AttachRolePolicy sdk n q)) \<and>
     (\<forall>n q. call_on view n (RoleApi.DetachRolePolicy sdk n q)) \<and>
     (\<forall>n q d. call_on view n (RoleApi.PutRolePolicy sdk n q d)) \<and>
     (\<forall>n q. call_on view n (RoleApi.DeleteRolePolicy sdk n q)) \<and>
     (\<forall>n q. call_on view n (RoleApi.PutRolePermissionsBoundary sdk n q)) \<and>
     (\<forall>n. call_on view n (RoleApi.DeleteRolePermissionsBoundary sdk n)) \<and>
     (\<forall>n q. call_on view n (RoleApi.UpdateAssumeRolePolicy sdk n q)) \<and>
     (\<forall>n ts. call_on view n (RoleApi.TagRole sdk n ts)) \<and>
     (\<forall>n ks. call_on view n (RoleApi.UntagRole sdk n ks)) \<and>
     (\<forall>n. reads view (RoleApi.GetRole sdk n)) \<and>
     (\<forall>n q. reads view (RoleApi.GetRolePolicy sdk n q)) \<and>
     (\<forall>g. reads view (RoleApi.AttachedRolePolicies_NextPage sdk g)) \<and>
     (\<forall>g. reads view (RoleApi.RolePolicies_NextPage sdk g)) \<and>
     (\<forall>n m. reads view (RoleApi.ListRoleTags sdk n m))"

lemma role_writes [confined]:
  assumes "role_calls_on sdk view" and "set_option n \<subseteq> K"
  shows "within view K (RoleApi.DeleteRole sdk n)"
    and "within view K (RoleApi.AttachRolePolicy sdk n q)"
    and "within view K (RoleApi.DetachRolePolicy sdk n q)"
    and "within view K (RoleApi.PutRolePolicy sdk n q d)"
    and "within view K (RoleApi.DeleteRolePolicy sdk n q)"
    and "within view K (RoleApi.PutRolePermissionsBoundary sdk n q)"
    and "within view K (RoleApi.DeleteRolePermissionsBoundary sdk n)"
    and "within view K (RoleApi.UpdateAssumeRolePolicy sdk n q)"
    and "within view K (RoleApi.TagRole sdk n ts)"
    and "within view K (RoleApi.UntagRole sdk n ks)"

  using assms by (auto simp: role_calls_on_def call_on_within)

lemma role_names [confined]:
  assumes "role_calls_on sdk view"
  shows "set_option (RoleApi.Create_RoleName i) \<subseteq> K \<Longrightarrow> within view K (RoleApi.CreateRole sdk i)"
    and "set_option (RoleApi.Update_RoleName u) \<subseteq> K \<Longrightarrow> within view K (RoleApi.UpdateRole sdk u)"
  using assms by (auto simp: role_calls_on_def call_on_within)

lemma role_reads [confined]:
  assumes "role_calls_on sdk view"
  shows "within view K (RoleApi.GetRole sdk n)"
    and "within view K (RoleApi.GetRolePolicy sdk n q)"
    and "within view K (RoleApi.AttachedRolePolicies_NextPage sdk g)"
    and "within view K (RoleApi.RolePolicies_NextPage sdk g)"
    and "within view K (RoleApi.ListRoleTags sdk n m)"
  using assms by (auto simp: role_calls_on_def call_on_within)

lemma role_calls_keep [confined]:
  assumes "role_calls_on (role_manager.sdkapi rm) view" and "set_option (policy_holder.Spec_Name r) \<subseteq> K" and "unharmed view K b (aws w)"
  shows "keeps view K b (RoleHooks.addManagedPolicy rm r q w)"
    and "keeps view K b (RoleHooks.removeManagedPolicy rm r q w)"
    and "keeps view K b (RoleHooks.addInlinePolicy rm r name d w)"
    and "keeps view K b (RoleHooks.removeInlinePolicy rm r name w)"
    and "keeps view K b (RoleHooks.addTags rm r ts w)"
    and "keeps view K b (RoleHooks.removeTags rm r ts w)"
    and "keeps view K b (RoleHooks.putRolePermissionsBoundary rm r w)"
    and "keeps view K b (RoleHooks.deleteRolePermissionsBoundary rm r w)"
    and "keeps view K b (RoleHooks.putAssumeRolePolicy rm r w)"
  unfolding RoleHooks.addManagedPolicy_def RoleHooks.removeManagedPolicy_def RoleHooks.addInlinePolicy_def RoleHooks.removeInlinePolicy_def RoleHooks.addTags_def RoleHooks.removeTags_def RoleHooks.putRolePermissionsBoundary_def RoleHooks.deleteRolePermissionsBoundary_def RoleHooks.putAssumeRolePolicy_def Let_def
  by (intro confined keeps_values assms; simp add: assms)+

lemma role_hooks_keep [confined]:
  assumes "role_calls_on (role_manager.sdkapi rm) view" and "set_option (policy_holder.Spec_Name r) \<subseteq> K" and "unharmed view K b (aws w)"
  shows "keeps view K b (RoleHooks.syncManagedPolicies rm r l w)"
    and "keeps view K b (RoleHooks.syncInlinePolicies rm r l w)"
    and "keeps view K b (RoleHooks.syncTags rm r l w)"
    and "keeps view K b (RoleHooks.syncRolePermissionsBoundary rm r w)"
  unfolding RoleHooks.syncManagedPolicies_def RoleHooks.syncInlinePolicies_def RoleHooks.syncTags_def RoleHooks.syncRolePermissionsBoundary_def Let_def
  by (intro confined keeps_values assms; simp add: assms)+

lemma role_tagPages_keep [confined]:
  assumes "role_calls_on (role_manager.sdkapi rm) view" and "unharmed view K b (aws w)"
  shows "keeps view K b (RoleHooks.tagPages rm n m res w)"
proof -
  have "role_calls_on (role_manager.sdkapi rm) view \<longrightarrow> unharmed view K b (aws w) \<longrightarrow> unharmed view K b (aws (snd out))"
    if "RoleHooks.tagPages rm n m res w = Some out" for out
    by (rule RoleHooks.tagPages.raw_induct [OF _ that])
      (auto simp: split_beta Let_def intro!: unharmed_call [OF role_reads(5)]
          split: if_splits option.splits Option.bind_splits;
        fastforce intro!: unharmed_call [OF role_reads(5)])
  with assms show ?thesis by (auto simp: keeps_def)
qed

lemma role_gets_keep [confined]:
  assumes "role_calls_on (role_manager.sdkapi rm) view" and "unharmed view K b (aws w)"
  shows "keeps view K b (RoleHooks.getManagedPolicies rm r w)"
    and "keeps view K b (RoleHooks.getInlinePolicies rm r w)"
    and "keeps view K b (RoleHooks.getTags rm r w)"
  unfolding RoleHooks.getManagedPolicies_def RoleHooks.getInlinePolicies_def RoleHooks.getTags_def
  by (intro confined keeps_values assms; simp add: assms)+

lemma role_sdkFind_keeps [confined]:
  assumes "role_calls_on (role_manager.sdkapi rm) view" and "unharmed view K b (aws w)"
  shows "keeps view K b (RoleSdk.sdkFind rm r w)"
  unfolding RoleSdk.sdkFind_def Let_def by (intro confined keeps_values assms; simp add: assms)

lemma role_sdk_keeps [confined]:
  assumes "role_calls_on (role_manager.sdkapi rm) view" and "set_option (policy_holder.Spec_Name r) \<subseteq> K" and "unharmed view K b (aws w)"
  shows "keeps view K b (RoleSdk.sdkCreate rm r w)"
    and "keeps view K b (RoleSdk.sdkUpdate rm c r l delta w)"
    and "keeps view K b (RoleSdk.sdkDelete rm r w)"
  unfolding RoleSdk.sdkCreate_def RoleSdk.sdkUpdate_def RoleSdk.sdkDelete_def RoleSdk.newDeleteRequestPayload_def for_each.simps prod.case Let_def
  by (intro confined keeps_values assms;
      auto simp: assms RoleSdk.newCreateRequestPayload_def RoleSdk.newUpdateRequestPayload_def
        intro: subsetD [OF assms(2)] split: sum.splits)+

definition role_entry_points :: "('b, 'p) role_manager \<Rightarrow> 'd compare_rt \<Rightarrow> (RoleApi.Role, 'b, 'd) entry_points" where
  "role_entry_points rm c = \<lparr>ep_key = policy_holder.Spec_Name, ep_read = RoleManager.ReadOne rm, ep_create = RoleManager.Create rm,
     ep_update = RoleManager.Update rm c, ep_delete = RoleManager.Delete rm, ep_late = RoleManager.LateInitialize rm\<rparr>"

interpretation role_package: isolated_package "\<lambda>(rm, c, view). role_calls_on (role_manager.sdkapi rm) view"
  "\<lambda>(rm, c, view). view" "\<lambda>(rm, c, view). role_entry_points rm c"
  by unfold_locales
    (auto simp: role_entry_points_def RoleManager.ReadOne_def RoleManager.Create_def RoleManager.Update_def RoleManager.Delete_def RoleManager.LateInitialize_def
      intro!: keeps_read_one keeps_create_or_delete keeps_update_with keeps_late_initialize role_sdkFind_keeps role_sdk_keeps)


subsection \<open>Users\<close>

definition user_calls_on :: "('b, 'p) user_sdk \<Rightarrow> ('b \<Rightarrow> string \<Rightarrow> 'x option) \<Rightarrow> bool" where
  "user_calls_on sdk view \<longleftrightarrow>
     (\<forall>i. call_on view (UserHooks.Create_UserName i) (UserHooks.CreateUser sdk i)) \<and>
     (\<forall>i. call_on view (UserHooks.Update_UserName i) (UserHooks.UpdateUser sdk i)) \<and>
     (\<forall>n. call_on view n (UserHooks.DeleteUser sdk n)) \<and>
     (\<forall>n q. call_on view n (UserHooks.AttachUserPolicy sdk n q)) \<and>
     (\<forall>n q. call_on view n (UserHooks.DetachUserPolicy sdk n q)) \<and>
     (\<forall>n q d. call_on view n (UserHooks.PutUserPolicy sdk n q d)) \<and>
     (\<forall>n q. call_on view n (UserHooks.DeleteUserPolicy sdk n q)) \<and>
     (\<forall>n q. call_on view n (UserHooks.PutUserPermissionsBoundary sdk n q)) \<and>
     (\<forall>n. call_on view n (UserHooks.DeleteUserPermissionsBoundary sdk n)) \<and>
     (\<forall>n ts. call_on view n (UserHooks.TagUser sdk n ts)) \<and>
     (\<forall>n ks. call_on view n (UserHooks.UntagUser sdk n ks)) \<and>
     (\<forall>n. reads view (UserHooks.GetUser sdk n)) \<and>
     (\<forall>n q. reads view (UserHooks.GetUserPolicy sdk n q)) \<and>
     (\<forall>g. reads view (UserHooks.AttachedUserPolicies_NextPage sdk g)) \<and>
     (\<forall>g. reads view (UserHooks.UserPolicies_NextPage sdk g)) \<and>
     (\<forall>n m. reads view (UserHooks.ListUserTags sdk n m))"

lemma user_writes [confined]:
  assumes "user_calls_on sdk view" and "set_option n \<subseteq> K"
  shows "within view K (UserHooks.DeleteUser sdk n)"
    and "within view K (UserHooks.AttachUserPolicy sdk n q)"
    and "within view K (UserHooks.DetachUserPolicy sdk n q)"
    and "within view K (UserHooks.PutUserPolicy sdk n q d)"
    and "within view K (UserHooks.DeleteUserPolicy sdk n q)"
    and "within view K (UserHooks.PutUserPermissionsBoundary sdk n q)"
    and "within view K (UserHooks.DeleteUserPermissionsBoundary sdk n)"
    and "within view K (UserHooks.TagUser sdk n ts)"
    and "within view K (UserHooks.UntagUser sdk n ks)"

  using assms by (auto simp: user_calls_on_def call_on_within)

lemma user_names [confined]:
  assumes "user_calls_on sdk view"
  shows "set_option (UserHooks.Create_UserName i) \<subseteq> K \<Longrightarrow> within view K (UserHooks.CreateUser sdk i)"
    and "set_option (UserHooks.Update_UserName u) \<subseteq> K \<Longrightarrow> within view K (UserHooks.UpdateUser sdk u)"
  using assms by (auto simp: user_calls_on_def call_on_within)

lemma user_reads [confined]:
  assumes "user_calls_on sdk view"
  shows "within view K (UserHooks.GetUser sdk n)"
    and "within view K (UserHooks.GetUserPolicy sdk n q)"
    and "within view K (UserHooks.AttachedUserPolicies_NextPage sdk g)"
    and "within view K (UserHooks.UserPolicies_NextPage sdk g)"
    and "within view K (UserHooks.ListUserTags sdk n m)"
  using assms by (auto simp: user_calls_on_def call_on_within)

lemma user_calls_keep [confined]:
  assumes "user_calls_on (user_manager.sdkapi rm) view" and "set_option (policy_holder.Spec_Name r) \<subseteq> K" and "unharmed view K b (aws w)"
  shows "keeps view K b (UserHooks.addManagedPolicy rm r q w)"
    and "keeps view K b (UserHooks.removeManagedPolicy rm r q w)"
    and "keeps view K b (UserHooks.addInlinePolicy rm r name d w)"
    and "keeps view K b (UserHooks.removeInlinePolicy rm r name w)"
    and "keeps view K b (UserHooks.addTags rm r ts w)"
    and "keeps view K b (UserHooks.removeTags rm r ts w)"
    and "keeps view K b (UserHooks.putUserPermissionsBoundary rm r w)"
    and "keeps view K b (UserHooks.deleteUserPermissionsBoundary rm r w)"
  unfolding UserHooks.addManagedPolicy_def UserHooks.removeManagedPolicy_def UserHooks.addInlinePolicy_def UserHooks.removeInlinePolicy_def UserHooks.addTags_def UserHooks.removeTags_def UserHooks.putUserPermissionsBoundary_def UserHooks.deleteUserPermissionsBoundary_def Let_def
  by (intro confined keeps_values assms; simp add: assms)+

lemma user_hooks_keep [confined]:
  assumes "user_calls_on (user_manager.sdkapi rm) view" and "set_option (policy_holder.Spec_Name r) \<subseteq> K" and "unharmed view K b (aws w)"
  shows "keeps view K b (UserHooks.syncManagedPolicies rm r l w)"
    and "keeps view K b (UserHooks.syncInlinePolicies rm r l w)"
    and "keeps view K b (UserHooks.syncTags rm r l w)"
    and "keeps view K b (UserHooks.syncUserPermissionsBoundary rm r w)"
  unfolding UserHooks.syncManagedPolicies_def UserHooks.syncInlinePolicies_def UserHooks.syncTags_def UserHooks.syncUserPermissionsBoundary_def Let_def
  by (intro confined keeps_values assms; simp add: assms)+

lemma user_tagPages_keep [confined]:
  assumes "user_calls_on (user_manager.sdkapi rm) view" and "unharmed view K b (aws w)"
  shows "keeps view K b (UserHooks.tagPages rm n res w)"
proof -
  have "user_calls_on (user_manager.sdkapi rm) view \<longrightarrow> unharmed view K b (aws w) \<longrightarrow> unharmed view K b (aws (snd out))"
    if "UserHooks.tagPages rm n res w = Some out" for out
    by (rule UserHooks.tagPages.raw_induct [OF _ that])
      (auto simp: split_beta Let_def intro!: unharmed_call [OF user_reads(5)]
          split: if_splits option.splits Option.bind_splits;
        fastforce intro!: unharmed_call [OF user_reads(5)])
  with assms show ?thesis by (auto simp: keeps_def)
qed

lemma user_gets_keep [confined]:
  assumes "user_calls_on (user_manager.sdkapi rm) view" and "unharmed view K b (aws w)"
  shows "keeps view K b (UserHooks.getManagedPolicies rm r w)"
    and "keeps view K b (UserHooks.getInlinePolicies rm r w)"
    and "keeps view K b (UserHooks.getTags rm r w)"
  unfolding UserHooks.getManagedPolicies_def UserHooks.getInlinePolicies_def UserHooks.getTags_def
  by (intro confined keeps_values assms; simp add: assms)+

lemma user_sdkFind_keeps [confined]:
  assumes "user_calls_on (user_manager.sdkapi rm) view" and "unharmed view K b (aws w)"
  shows "keeps view K b (UserSdk.sdkFind rm r w)"
  unfolding UserSdk.sdkFind_def Let_def by (intro confined keeps_values assms; simp add: assms)

lemma user_sdk_keeps [confined]:
  assumes "user_calls_on (user_manager.sdkapi rm) view" and "set_option (policy_holder.Spec_Name r) \<subseteq> K" and "unharmed view K b (aws w)"
  shows "keeps view K b (UserSdk.sdkCreate rm r w)"
    and "keeps view K b (UserSdk.sdkUpdate rm c r l delta w)"
    and "keeps view K b (UserSdk.sdkDelete rm r w)"
  unfolding UserSdk.sdkCreate_def UserSdk.sdkUpdate_def UserSdk.sdkDelete_def UserSdk.newDeleteRequestPayload_def for_each.simps prod.case Let_def
  by (intro confined keeps_values assms;
      auto simp: assms UserSdk.newCreateRequestPayload_def UserSdk.newUpdateRequestPayload_def
        intro: subsetD [OF assms(2)] split: sum.splits)+

definition user_entry_points :: "('b, 'p) user_manager \<Rightarrow> 'd compare_rt \<Rightarrow> (UserHooks.User, 'b, 'd) entry_points" where
  "user_entry_points rm c = \<lparr>ep_key = policy_holder.Spec_Name, ep_read = UserManager.ReadOne rm, ep_create = UserManager.Create rm,
     ep_update = UserManager.Update rm c, ep_delete = UserManager.Delete rm, ep_late = UserManager.LateInitialize rm\<rparr>"

interpretation user_package: isolated_package "\<lambda>(rm, c, view). user_calls_on (user_manager.sdkapi rm) view"
  "\<lambda>(rm, c, view). view" "\<lambda>(rm, c, view). user_entry_points rm c"
  by unfold_locales
    (auto simp: user_entry_points_def UserManager.ReadOne_def UserManager.Create_def UserManager.Update_def UserManager.Delete_def UserManager.LateInitialize_def
      intro!: keeps_read_one keeps_create_or_delete keeps_update_with keeps_late_initialize user_sdkFind_keeps user_sdk_keeps)


subsection \<open>Groups\<close>

definition group_calls_on :: "('b, 'p) group_sdk \<Rightarrow> ('b \<Rightarrow> string \<Rightarrow> 'x option) \<Rightarrow> bool" where
  "group_calls_on sdk view \<longleftrightarrow>
     (\<forall>i. call_on view (GroupHooks.Create_GroupName i) (GroupHooks.CreateGroup sdk i)) \<and>
     (\<forall>i. call_on view (GroupHooks.Update_GroupName i) (GroupHooks.UpdateGroup sdk i)) \<and>
     (\<forall>n. call_on view n (GroupHooks.DeleteGroup sdk n)) \<and>
     (\<forall>n q. call_on view n (GroupHooks.AttachGroupPolicy sdk n q)) \<and>
     (\<forall>n q. call_on view n (GroupHooks.DetachGroupPolicy sdk n q)) \<and>
     (\<forall>n q d. call_on view n (GroupHooks.PutGroupPolicy sdk n q d)) \<and>
     (\<forall>n q. call_on view n (GroupHooks.DeleteGroupPolicy sdk n q)) \<and>
     (\<forall>n. reads view (GroupHooks.GetGroup sdk n)) \<and>
     (\<forall>n q. reads view (GroupHooks.GetGroupPolicy sdk n q)) \<and>
     (\<forall>g. reads view (GroupHooks.AttachedGroupPolicies_NextPage sdk g)) \<and>
     (\<forall>g. reads view (GroupHooks.GroupPolicies_NextPage sdk g))"

lemma group_writes [confined]:
  assumes "group_calls_on sdk view" and "set_option n \<subseteq> K"
  shows "within view K (GroupHooks.DeleteGroup sdk n)"
    and "within view K (GroupHooks.AttachGroupPolicy sdk n q)"
    and "within view K (GroupHooks.DetachGroupPolicy sdk n q)"
    and "within view K (GroupHooks.PutGroupPolicy sdk n q d)"
    and "within view K (GroupHooks.DeleteGroupPolicy sdk n q)"

  using assms by (auto simp: group_calls_on_def call_on_within)

lemma group_names [confined]:
  assumes "group_calls_on sdk view"
  shows "set_option (GroupHooks.Create_GroupName i) \<subseteq> K \<Longrightarrow> within view K (GroupHooks.CreateGroup sdk i)"
    and "set_option (GroupHooks.Update_GroupName u) \<subseteq> K \<Longrightarrow> within view K (GroupHooks.UpdateGroup sdk u)"
  using assms by (auto simp: group_calls_on_def call_on_within)

lemma group_reads [confined]:
  assumes "group_calls_on sdk view"
  shows "within view K (GroupHooks.GetGroup sdk n)"
    and "within view K (GroupHooks.GetGroupPolicy sdk n q)"
    and "within view K (GroupHooks.AttachedGroupPolicies_NextPage sdk g)"
    and "within view K (GroupHooks.GroupPolicies_NextPage sdk g)"
  using assms by (auto simp: group_calls_on_def call_on_within)

lemma group_calls_keep [confined]:
  assumes "group_calls_on (group_manager.sdkapi rm) view" and "set_option (policy_holder.Spec_Name r) \<subseteq> K" and "unharmed view K b (aws w)"
  shows "keeps view K b (GroupHooks.addManagedPolicy rm r q w)"
    and "keeps view K b (GroupHooks.removeManagedPolicy rm r q w)"
    and "keeps view K b (GroupHooks.addInlinePolicy rm r name d w)"
    and "keeps view K b (GroupHooks.removeInlinePolicy rm r name w)"
  unfolding GroupHooks.addManagedPolicy_def GroupHooks.removeManagedPolicy_def GroupHooks.addInlinePolicy_def GroupHooks.removeInlinePolicy_def Let_def
  by (intro confined keeps_values assms; simp add: assms)+

lemma group_hooks_keep [confined]:
  assumes "group_calls_on (group_manager.sdkapi rm) view" and "set_option (policy_holder.Spec_Name r) \<subseteq> K" and "unharmed view K b (aws w)"
  shows "keeps view K b (GroupHooks.syncManagedPolicies rm r l w)"
    and "keeps view K b (GroupHooks.syncInlinePolicies rm r l w)"
  unfolding GroupHooks.syncManagedPolicies_def GroupHooks.syncInlinePolicies_def Let_def
  by (intro confined keeps_values assms; simp add: assms)+

lemma group_gets_keep [confined]:
  assumes "group_calls_on (group_manager.sdkapi rm) view" and "unharmed view K b (aws w)"
  shows "keeps view K b (GroupHooks.getManagedPolicies rm r w)"
    and "keeps view K b (GroupHooks.getInlinePolicies rm r w)"
  unfolding GroupHooks.getManagedPolicies_def GroupHooks.getInlinePolicies_def
  by (intro confined keeps_values assms; simp add: assms)+

lemma group_sdkFind_keeps [confined]:
  assumes "group_calls_on (group_manager.sdkapi rm) view" and "unharmed view K b (aws w)"
  shows "keeps view K b (GroupSdk.sdkFind rm r w)"
  unfolding GroupSdk.sdkFind_def Let_def by (intro confined keeps_values assms; simp add: assms)

lemma group_sdk_keeps [confined]:
  assumes "group_calls_on (group_manager.sdkapi rm) view" and "set_option (policy_holder.Spec_Name r) \<subseteq> K" and "unharmed view K b (aws w)"
  shows "keeps view K b (GroupSdk.sdkCreate rm r w)"
    and "keeps view K b (GroupSdk.sdkUpdate rm c r l delta w)"
    and "keeps view K b (GroupSdk.sdkDelete rm r w)"
  unfolding GroupSdk.sdkCreate_def GroupSdk.sdkUpdate_def GroupSdk.sdkDelete_def GroupSdk.newDeleteRequestPayload_def for_each.simps prod.case Let_def
  by (intro confined keeps_values assms;
      auto simp: assms GroupSdk.newCreateRequestPayload_def GroupSdk.newUpdateRequestPayload_def
        intro: subsetD [OF assms(2)] split: sum.splits)+

definition group_entry_points :: "('b, 'p) group_manager \<Rightarrow> 'd compare_rt \<Rightarrow> (GroupHooks.Group, 'b, 'd) entry_points" where
  "group_entry_points rm c = \<lparr>ep_key = policy_holder.Spec_Name, ep_read = GroupManager.ReadOne rm, ep_create = GroupManager.Create rm,
     ep_update = GroupManager.Update rm c, ep_delete = GroupManager.Delete rm, ep_late = GroupManager.LateInitialize rm\<rparr>"

interpretation group_package: isolated_package "\<lambda>(rm, c, view). group_calls_on (group_manager.sdkapi rm) view"
  "\<lambda>(rm, c, view). view" "\<lambda>(rm, c, view). group_entry_points rm c"
  by unfold_locales
    (auto simp: group_entry_points_def GroupManager.ReadOne_def GroupManager.Create_def GroupManager.Update_def GroupManager.Delete_def GroupManager.LateInitialize_def
      intro!: keeps_read_one keeps_create_or_delete keeps_update_with keeps_late_initialize group_sdkFind_keeps group_sdk_keeps)


subsection \<open>Policies\<close>

definition policy_calls_on :: "'b policy_sdk \<Rightarrow> ('b \<Rightarrow> string \<Rightarrow> 'x option) \<Rightarrow> bool" where
  "policy_calls_on sdk view \<longleftrightarrow>
     (\<forall>n. call_on view n (policy_sdk.DeletePolicy sdk n)) \<and>
     (\<forall>n ts. call_on view n (policy_sdk.TagPolicy sdk n ts)) \<and>
     (\<forall>n ks. call_on view n (policy_sdk.UntagPolicy sdk n ks)) \<and>
     (\<forall>n d f. call_on view n (policy_sdk.CreatePolicyVersion sdk n d f)) \<and>
     (\<forall>n i. call_on view n (policy_sdk.DeletePolicyVersion sdk n i)) \<and>
     (\<forall>inp. call_on view (None) (policy_sdk.CreatePolicy sdk inp)) \<and>
     (\<forall>n. reads view (policy_sdk.GetPolicy sdk n)) \<and>
     (\<forall>n m. reads view (policy_sdk.ListPolicyTags sdk n m)) \<and>
     (\<forall>n i. reads view (policy_sdk.GetPolicyVersion sdk n i)) \<and>
     (\<forall>n m. reads view (policy_sdk.ListPolicyVersions sdk n m))"

lemma policy_writes [confined]:
  assumes "policy_calls_on sdk view" and "set_option n \<subseteq> K"
  shows "within view K (policy_sdk.DeletePolicy sdk n)"
    and "within view K (policy_sdk.TagPolicy sdk n ts)"
    and "within view K (policy_sdk.UntagPolicy sdk n ks)"
    and "within view K (policy_sdk.CreatePolicyVersion sdk n d f)"
    and "within view K (policy_sdk.DeletePolicyVersion sdk n i)"
  using assms by (auto simp: policy_calls_on_def call_on_within)

lemma policy_reads [confined]:
  assumes "policy_calls_on sdk view"
  shows "within view K (policy_sdk.GetPolicy sdk n)"
    and "within view K (policy_sdk.ListPolicyTags sdk n m)"
    and "within view K (policy_sdk.GetPolicyVersion sdk n i)"
    and "within view K (policy_sdk.ListPolicyVersions sdk n m)"
    and "within view K (policy_sdk.CreatePolicy sdk inp)"
  using assms by (auto simp: policy_calls_on_def call_on_within)

text \<open>The ARN in the metadata of the status, nil before the resource was created.\<close>

definition status_arn :: "'a ack_object_scheme \<Rightarrow> string ptr" where
  "status_arn r = Option.bind (Status_ACKResourceMetadata r) ARN"

lemma policyArn_key: "policyArn r = Some arn \<Longrightarrow> arn = status_arn r"
  by (auto simp: policyArn_def status_arn_def split: Option.bind_splits)

lemma policyArn_within: "policyArn r = Some arn \<Longrightarrow> set_option (status_arn r) \<subseteq> K \<Longrightarrow> set_option arn \<subseteq> K"
  using policyArn_key [of r arn] by simp

lemma policy_versionPages_keep [confined]:
  assumes "policy_calls_on (policy_manager.sdkapi rm) view" and "unharmed view K b (aws w)"
  shows "keeps view K b (versionPages rm arn m vs w)"
proof -
  have "policy_calls_on (policy_manager.sdkapi rm) view \<longrightarrow> unharmed view K b (aws w) \<longrightarrow> unharmed view K b (aws (snd out))"
    if "versionPages rm arn m vs w = Some out" for out
    by (rule versionPages.raw_induct [OF _ that])
      (auto simp: split_beta Let_def intro!: unharmed_call [OF policy_reads(4)]
          split: if_splits option.splits Option.bind_splits;
        fastforce intro!: unharmed_call [OF policy_reads(4)])
  with assms show ?thesis by (auto simp: keeps_def)
qed

lemma policy_gets_keep [confined]:
  assumes "policy_calls_on (policy_manager.sdkapi rm) view" and "unharmed view K b (aws w)"
  shows "keeps view K b (getPolicyVersions rm arn w)"
    and "keeps view K b (getPolicyVersion rm arn v w)"
    and "keeps view K b (PolicySdk.sdkFind rm r w)"
    and "keeps view K b (PolicySdk.sdkCreate rm r w)"
  unfolding getPolicyVersions_def getPolicyVersion_def PolicySdk.sdkFind_def PolicySdk.sdkCreate_def Let_def
  by (intro confined keeps_values assms; simp add: assms)+

lemma policy_versions_keep [confined]:
  assumes "policy_calls_on (policy_manager.sdkapi rm) view" and "set_option (Some arn) \<subseteq> K" and "unharmed view K b (aws w)"
  shows "keeps view K b (deletePolicyVersion rm arn v w)"
    and "keeps view K b (deleteFirstNonDefault rm arn vs w)"
    and "keeps view K b (ensureVersionsLimitNotExceeded rm arn w)"
proof -
  have *: "keeps view K b (deletePolicyVersion rm arn v w)" if "unharmed view K b (aws w)" for v w
    unfolding deletePolicyVersion_def Let_def by (intro confined keeps_values assms that; simp add: assms that)
  have **: "keeps view K b (deleteFirstNonDefault rm arn vs w)" if "unharmed view K b (aws w)" for vs w
    by (induction vs) (use * that in \<open>auto intro: keeps_return\<close>)
  show "keeps view K b (deletePolicyVersion rm arn v w)" "keeps view K b (deleteFirstNonDefault rm arn vs w)"
    by (rule * ** assms(3))+
  show "keeps view K b (ensureVersionsLimitNotExceeded rm arn w)"
    unfolding ensureVersionsLimitNotExceeded_def by (intro ** confined keeps_values assms; simp add: assms)
qed

lemma policy_calls_keep [confined]:
  assumes "policy_calls_on (policy_manager.sdkapi rm) view" and "set_option (status_arn r) \<subseteq> K" and "unharmed view K b (aws w)"
  shows "keeps view K b (PolicyHooks.addTags rm r ts w)"
    and "keeps view K b (PolicyHooks.removeTags rm r ts w)"
    and "keeps view K b (updatePolicyDocument rm r w)"
    and "keeps view K b (deleteNonDefaultPolicyVersions rm r w)"
  unfolding PolicyHooks.addTags_def PolicyHooks.removeTags_def updatePolicyDocument_def deleteNonDefaultPolicyVersions_def Let_def
  by (intro confined keeps_values assms policyArn_within [OF _ assms(2)];
      auto simp: assms dest: policyArn_within [OF _ assms(2)])+

lemma policy_sdk_keeps [confined]:
  assumes "policy_calls_on (policy_manager.sdkapi rm) view" and "set_option (status_arn r) \<subseteq> K" and "unharmed view K b (aws w)"
  shows "keeps view K b (PolicyHooks.syncTags rm r l w)"
    and "keeps view K b (PolicySdk.sdkUpdate rm c r l delta w)"
    and "keeps view K b (PolicySdk.sdkDelete rm r w)"
proof -
  show tags: "keeps view K b (PolicyHooks.syncTags rm r l w)"
    unfolding PolicyHooks.syncTags_def Let_def by (intro confined keeps_values assms; simp add: assms)
  show "keeps view K b (PolicySdk.sdkUpdate rm c r l delta w)"
    unfolding PolicySdk.sdkUpdate_def customUpdatePolicy_def Let_def
    by (intro tags confined keeps_values assms; simp add: assms)
  show "keeps view K b (PolicySdk.sdkDelete rm r w)"
    unfolding PolicySdk.sdkDelete_def PolicySdk.newDeleteRequestPayload_def Let_def status_arn_def [symmetric]
    by (intro confined keeps_values assms; simp add: assms)
qed

definition policy_entry_points :: "'b policy_manager \<Rightarrow> 'd compare_rt \<Rightarrow> (Policy, 'b, 'd) entry_points" where
  "policy_entry_points rm c = \<lparr>ep_key = status_arn, ep_read = PolicySdk.ReadOne rm, ep_create = PolicySdk.Create rm,
     ep_update = PolicySdk.Update rm c, ep_delete = PolicySdk.Delete rm, ep_late = PolicySdk.LateInitialize rm\<rparr>"

interpretation policy_package: isolated_package "\<lambda>(rm, c, view). policy_calls_on (policy_manager.sdkapi rm) view"
  "\<lambda>(rm, c, view). view" "\<lambda>(rm, c, view). policy_entry_points rm c"
  by unfold_locales
    (auto simp: policy_entry_points_def PolicySdk.ReadOne_def PolicySdk.Create_def PolicySdk.Update_def PolicySdk.Delete_def PolicySdk.LateInitialize_def
      intro!: keeps_read_one keeps_create_or_delete keeps_update_with keeps_late_initialize policy_gets_keep policy_sdk_keeps)


subsection \<open>Instance profiles\<close>

definition profile_calls_on :: "'b profile_sdk \<Rightarrow> ('b \<Rightarrow> string \<Rightarrow> 'x option) \<Rightarrow> bool" where
  "profile_calls_on sdk view \<longleftrightarrow>
     (\<forall>n. call_on view n (profile_sdk.DeleteInstanceProfile sdk n)) \<and>
     (\<forall>n q. call_on view n (profile_sdk.AddRoleToInstanceProfile sdk n q)) \<and>
     (\<forall>n q. call_on view n (profile_sdk.RemoveRoleFromInstanceProfile sdk n q)) \<and>
     (\<forall>n ts. call_on view n (profile_sdk.TagInstanceProfile sdk n ts)) \<and>
     (\<forall>n ks. call_on view n (profile_sdk.UntagInstanceProfile sdk n ks)) \<and>
     (\<forall>inp. call_on view (Create_InstanceProfileName inp) (profile_sdk.CreateInstanceProfile sdk inp)) \<and>
     (\<forall>n. reads view (profile_sdk.GetInstanceProfile sdk n))"

lemma profile_writes [confined]:
  assumes "profile_calls_on sdk view" and "set_option n \<subseteq> K"
  shows "within view K (profile_sdk.DeleteInstanceProfile sdk n)"
    and "within view K (profile_sdk.AddRoleToInstanceProfile sdk n q)"
    and "within view K (profile_sdk.RemoveRoleFromInstanceProfile sdk n q)"
    and "within view K (profile_sdk.TagInstanceProfile sdk n ts)"
    and "within view K (profile_sdk.UntagInstanceProfile sdk n ks)"
  using assms by (auto simp: profile_calls_on_def call_on_within)

lemma profile_reads [confined]:
  assumes "profile_calls_on sdk view"
  shows "within view K (profile_sdk.GetInstanceProfile sdk n)"
    and "set_option (Create_InstanceProfileName inp) \<subseteq> K \<Longrightarrow> within view K (profile_sdk.CreateInstanceProfile sdk inp)"
  using assms by (auto simp: profile_calls_on_def call_on_within)

lemma profile_calls_keep [confined]:
  assumes "profile_calls_on (profile_manager.sdkapi rm) view" and "set_option (InstanceProfile.Spec_Name r) \<subseteq> K" and "unharmed view K b (aws w)"
  shows "keeps view K b (ProfileHooks.addTags rm r ts w)"
    and "keeps view K b (ProfileHooks.removeTags rm r ts w)"
    and "keeps view K b (attachRole rm r w)"
    and "keeps view K b (detachRole rm r w)"
  unfolding ProfileHooks.addTags_def ProfileHooks.removeTags_def attachRole_def detachRole_def Let_def
  by (intro confined keeps_values assms; simp add: assms)+

lemma profile_sdk_keeps [confined]:
  assumes "profile_calls_on (profile_manager.sdkapi rm) view" and "set_option (InstanceProfile.Spec_Name r) \<subseteq> K" and "unharmed view K b (aws w)"
  shows "keeps view K b (ProfileHooks.syncTags rm r l w)"
    and "set_option (InstanceProfile.Spec_Name l) \<subseteq> K \<Longrightarrow> keeps view K b (syncRole rm r l w)"
    and "keeps view K b (ProfileManager.sdkCreate rm r w)"
    and "keeps view K b (ProfileManager.sdkDelete rm r w)"
  unfolding ProfileHooks.syncTags_def syncRole_def ProfileManager.sdkCreate_def ProfileManager.sdkDelete_def
    ProfileManager.newDeleteRequestPayload_def ProfileManager.newCreateRequestPayload_def Let_def
  by (intro confined keeps_values assms; simp add: assms)+

lemma profile_sdkFind_keeps [confined]:
  assumes "profile_calls_on (profile_manager.sdkapi rm) view" and "unharmed view K b (aws w)"
  shows "keeps view K b (ProfileManager.sdkFind rm r w)"
  unfolding ProfileManager.sdkFind_def Let_def by (intro confined keeps_values assms; simp add: assms)

lemma profile_sdkUpdate_keeps [confined]:
  assumes "profile_calls_on (profile_manager.sdkapi rm) view" and "unharmed view K b (aws w)"
    and "set_option (InstanceProfile.Spec_Name r) \<subseteq> K" and "set_option (InstanceProfile.Spec_Name l) \<subseteq> K"
  shows "keeps view K b (ProfileManager.sdkUpdate rm c r l delta w)"
  unfolding ProfileManager.sdkUpdate_def customUpdateInstanceProfile_def for_each.simps prod.case Let_def
  by (intro confined keeps_values assms; simp add: assms)

definition profile_entry_points :: "'b profile_manager \<Rightarrow> 'd compare_rt \<Rightarrow> (InstanceProfile, 'b, 'd) entry_points" where
  "profile_entry_points rm c = \<lparr>ep_key = InstanceProfile.Spec_Name, ep_read = ProfileManager.ReadOne rm, ep_create = ProfileManager.Create rm,
     ep_update = ProfileManager.Update rm c, ep_delete = ProfileManager.Delete rm, ep_late = ProfileManager.LateInitialize rm\<rparr>"

interpretation profile_package: isolated_package "\<lambda>(rm, c, view). profile_calls_on (profile_manager.sdkapi rm) view"
  "\<lambda>(rm, c, view). view" "\<lambda>(rm, c, view). profile_entry_points rm c"
  by unfold_locales
    (auto simp: profile_entry_points_def ProfileManager.ReadOne_def ProfileManager.Create_def ProfileManager.Update_def ProfileManager.Delete_def ProfileManager.LateInitialize_def
      intro!: keeps_read_one keeps_create_or_delete keeps_update_with keeps_late_initialize profile_sdkFind_keeps profile_sdk_keeps profile_sdkUpdate_keeps)


subsection \<open>OpenID Connect providers\<close>

definition provider_calls_on :: "'b provider_sdk \<Rightarrow> ('b \<Rightarrow> string \<Rightarrow> 'x option) \<Rightarrow> bool" where
  "provider_calls_on sdk view \<longleftrightarrow>
     (\<forall>n. call_on view n (provider_sdk.DeleteOpenIDConnectProvider sdk n)) \<and>
     (\<forall>ts n. call_on view n (provider_sdk.UpdateOpenIDConnectProviderThumbprint sdk ts n)) \<and>
     (\<forall>q n. call_on view n (provider_sdk.AddClientIDToOpenIDConnectProvider sdk q n)) \<and>
     (\<forall>q n. call_on view n (provider_sdk.RemoveClientIDFromOpenIDConnectProvider sdk q n)) \<and>
     (\<forall>n us. call_on view n (provider_sdk.TagOpenIDConnectProvider sdk n us)) \<and>
     (\<forall>n ks. call_on view n (provider_sdk.UntagOpenIDConnectProvider sdk n ks)) \<and>
     (\<forall>inp. call_on view (None) (provider_sdk.CreateOpenIDConnectProvider sdk inp)) \<and>
     (\<forall>n. reads view (provider_sdk.GetOpenIDConnectProvider sdk n)) \<and>
     (\<forall>n m. reads view (provider_sdk.ListOpenIDConnectProviderTags sdk n m))"

lemma provider_writes [confined]:
  assumes "provider_calls_on sdk view" and "set_option n \<subseteq> K"
  shows "within view K (provider_sdk.DeleteOpenIDConnectProvider sdk n)"
    and "within view K (provider_sdk.UpdateOpenIDConnectProviderThumbprint sdk ts n)"
    and "within view K (provider_sdk.AddClientIDToOpenIDConnectProvider sdk q n)"
    and "within view K (provider_sdk.RemoveClientIDFromOpenIDConnectProvider sdk q n)"
    and "within view K (provider_sdk.TagOpenIDConnectProvider sdk n us)"
    and "within view K (provider_sdk.UntagOpenIDConnectProvider sdk n ks)"
  using assms by (auto simp: provider_calls_on_def call_on_within)

lemma provider_reads [confined]:
  assumes "provider_calls_on sdk view"
  shows "within view K (provider_sdk.GetOpenIDConnectProvider sdk n)"
    and "within view K (provider_sdk.ListOpenIDConnectProviderTags sdk n m)"
    and "within view K (provider_sdk.CreateOpenIDConnectProvider sdk inp)"
  using assms by (auto simp: provider_calls_on_def call_on_within)

lemma providerArn_within: "providerArn r = Some arn \<Longrightarrow> set_option (status_arn r) \<subseteq> K \<Longrightarrow> set_option arn \<subseteq> K"
  by (auto simp: providerArn_def status_arn_def split: Option.bind_splits)

lemma provider_tagPages_keep [confined]:
  assumes "provider_calls_on (provider_manager.sdkapi rm) view" and "unharmed view K b (aws w)"
  shows "keeps view K b (ProviderHooks.tagPages rm arn m res w)"
proof -
  have "provider_calls_on (provider_manager.sdkapi rm) view \<longrightarrow> unharmed view K b (aws w) \<longrightarrow> unharmed view K b (aws (snd out))"
    if "ProviderHooks.tagPages rm arn m res w = Some out" for out
    by (rule ProviderHooks.tagPages.raw_induct [OF _ that])
      (auto simp: split_beta Let_def intro!: unharmed_call [OF provider_reads(2)]
          split: if_splits option.splits Option.bind_splits;
        fastforce intro!: unharmed_call [OF provider_reads(2)])
  with assms show ?thesis by (auto simp: keeps_def)
qed

lemma provider_gets_keep [confined]:
  assumes "provider_calls_on (provider_manager.sdkapi rm) view" and "unharmed view K b (aws w)"
  shows "keeps view K b (ProviderHooks.getTags rm r w)"
    and "keeps view K b (ProviderManager.sdkFind rm r w)"
    and "keeps view K b (ProviderManager.sdkCreate rm r w)"
proof -
  have *: "keeps view K b (ProviderHooks.getTags rm r w)" if "unharmed view K b (aws w)" for r w
    unfolding ProviderHooks.getTags_def by (intro confined keeps_values assms that; simp add: assms)
  show "keeps view K b (ProviderManager.sdkFind rm r w)" "keeps view K b (ProviderManager.sdkCreate rm r w)"
    unfolding ProviderManager.sdkFind_def ProviderManager.sdkCreate_def Let_def
    by (intro * confined keeps_values assms; simp add: assms)+
  show "keeps view K b (ProviderHooks.getTags rm r w)" by (rule * assms(2))+
qed

lemma provider_calls_keep [confined]:
  assumes "provider_calls_on (provider_manager.sdkapi rm) view" and "set_option (status_arn r) \<subseteq> K" and "unharmed view K b (aws w)"
  shows "keeps view K b (ProviderHooks.addTags rm r ts w)"
    and "keeps view K b (ProviderHooks.removeTags rm r ts w)"
    and "keeps view K b (addClientID rm r cid w)"
    and "keeps view K b (removeClientID rm r cid w)"
    and "keeps view K b (updateThumbprint rm r w)"
  unfolding ProviderHooks.addTags_def ProviderHooks.removeTags_def addClientID_def removeClientID_def updateThumbprint_def
    newAddClientIDRequestPayload_def newRemoveClientIDRequestPayload_def newUpdateThumbprintRequestPayload_def Let_def
  by (intro confined keeps_values assms; auto simp: assms dest: providerArn_within [OF _ assms(2)] split: Option.bind_splits)+

lemma provider_addClientIDs_keeps [confined]:
  assumes "provider_calls_on (provider_manager.sdkapi rm) view" and "set_option (status_arn r) \<subseteq> K" and "unharmed view K b (aws w)"
  shows "keeps view K b (addClientIDs rm r ids m w)"
  using assms(3)
proof (induction ids arbitrary: m w)
  case (Cons i ids)
  show ?case
    unfolding addClientIDs.simps by (intro Cons.IH confined keeps_values assms(1,2) Cons.prems) simp_all
qed (simp add: keeps_return)

lemma provider_sdk_keeps [confined]:
  assumes "provider_calls_on (provider_manager.sdkapi rm) view" and "set_option (status_arn r) \<subseteq> K" and "unharmed view K b (aws w)"
  shows "keeps view K b (ProviderHooks.syncTags rm r w)"
    and "keeps view K b (syncClientIDs rm r l w)"
    and "keeps view K b (ProviderManager.sdkDelete rm r w)"
  unfolding ProviderHooks.syncTags_def syncClientIDs_def ProviderManager.sdkDelete_def
    ProviderManager.newDeleteRequestPayload_def status_arn_def [symmetric] Let_def
  by (intro confined keeps_values assms; simp add: assms)+

lemma provider_sdkUpdate_keeps [confined]:
  assumes "provider_calls_on (provider_manager.sdkapi rm) view" and "set_option (status_arn r) \<subseteq> K" and "unharmed view K b (aws w)"
  shows "keeps view K b (ProviderManager.sdkUpdate rm c r l delta w)"
  unfolding ProviderManager.sdkUpdate_def customUpdateOpenIDConnectProvider_def for_each.simps prod.case Let_def
  by (intro confined keeps_values assms; simp add: assms)

definition provider_entry_points :: "'b provider_manager \<Rightarrow> 'd compare_rt \<Rightarrow> (OpenIDConnectProvider, 'b, 'd) entry_points" where
  "provider_entry_points rm c = \<lparr>ep_key = status_arn, ep_read = ProviderManager.ReadOne rm, ep_create = ProviderManager.Create rm,
     ep_update = ProviderManager.Update rm c, ep_delete = ProviderManager.Delete rm, ep_late = ProviderManager.LateInitialize rm\<rparr>"

interpretation provider_package: isolated_package "\<lambda>(rm, c, view). provider_calls_on (provider_manager.sdkapi rm) view"
  "\<lambda>(rm, c, view). view" "\<lambda>(rm, c, view). provider_entry_points rm c"
  by unfold_locales
    (auto simp: provider_entry_points_def ProviderManager.ReadOne_def ProviderManager.Create_def ProviderManager.Update_def ProviderManager.Delete_def ProviderManager.LateInitialize_def
      intro!: keeps_read_one keeps_create_or_delete keeps_update_with keeps_late_initialize provider_gets_keep provider_sdk_keeps provider_sdkUpdate_keeps)


subsection \<open>Service linked roles\<close>

definition linked_role_calls_on :: "'b linked_role_sdk \<Rightarrow> ('b \<Rightarrow> string \<Rightarrow> 'x option) \<Rightarrow> bool" where
  "linked_role_calls_on sdk view \<longleftrightarrow>
     (\<forall>n d. call_on view n (linked_role_sdk.UpdateRole sdk n d)) \<and>
     (\<forall>n. call_on view n (linked_role_sdk.DeleteServiceLinkedRole sdk n)) \<and>
     (\<forall>inp. call_on view (None) (linked_role_sdk.CreateServiceLinkedRole sdk inp)) \<and>
     (\<forall>n. reads view (linked_role_sdk.GetRole sdk n))"

lemma linked_role_writes [confined]:
  assumes "linked_role_calls_on sdk view" and "set_option n \<subseteq> K"
  shows "within view K (linked_role_sdk.UpdateRole sdk n d)"
    and "within view K (linked_role_sdk.DeleteServiceLinkedRole sdk n)"
  using assms by (auto simp: linked_role_calls_on_def call_on_within)

lemma linked_role_reads [confined]:
  assumes "linked_role_calls_on sdk view"
  shows "within view K (linked_role_sdk.GetRole sdk n)"
    and "within view K (linked_role_sdk.CreateServiceLinkedRole sdk inp)"
  using assms by (auto simp: linked_role_calls_on_def call_on_within)

lemma linked_role_sdk_keeps [confined]:
  assumes "linked_role_calls_on (linked_role_manager.sdkapi rm) view" and "set_option (Status_RoleName r) \<subseteq> K" and "unharmed view K b (aws w)"
  shows "keeps view K b (LinkedRole.sdkUpdate rm r l delta w)"
    and "keeps view K b (LinkedRole.sdkDelete rm r w)"
  unfolding LinkedRole.sdkUpdate_def customUpdateServiceLinkedRole_def LinkedRole.newUpdateRequestPayload_def
    LinkedRole.sdkDelete_def LinkedRole.newDeleteRequestPayload_def prod.case Let_def
  by (intro confined keeps_values assms; simp add: assms)+

lemma linked_role_gets_keep [confined]:
  assumes "linked_role_calls_on (linked_role_manager.sdkapi rm) view" and "unharmed view K b (aws w)"
  shows "keeps view K b (LinkedRole.sdkFind rm r w)"
    and "keeps view K b (LinkedRole.sdkCreate rm r w)"
  unfolding LinkedRole.sdkFind_def customGetServiceLinkedRole_def LinkedRole.sdkCreate_def Let_def
  by (intro confined keeps_values assms; simp add: assms)+

definition linked_role_entry_points :: "'b linked_role_manager \<Rightarrow> 'd compare_rt \<Rightarrow> (ServiceLinkedRole, 'b, 'd) entry_points" where
  "linked_role_entry_points rm c = \<lparr>ep_key = Status_RoleName, ep_read = LinkedRole.ReadOne rm, ep_create = LinkedRole.Create rm,
     ep_update = LinkedRole.Update rm, ep_delete = LinkedRole.Delete rm, ep_late = LinkedRole.LateInitialize rm\<rparr>"

interpretation linked_role_package: isolated_package "\<lambda>(rm, c, view). linked_role_calls_on (linked_role_manager.sdkapi rm) view"
  "\<lambda>(rm, c, view). view" "\<lambda>(rm, c, view). linked_role_entry_points rm c"
  by unfold_locales
    (auto simp: linked_role_entry_points_def LinkedRole.ReadOne_def LinkedRole.Create_def LinkedRole.Update_def LinkedRole.Delete_def LinkedRole.LateInitialize_def
      intro!: keeps_read_one keeps_create_or_delete keeps_update_with keeps_late_initialize linked_role_gets_keep linked_role_sdk_keeps)


end
