(* ===== verification/Descriptors.thy ===== *)
theory Descriptors
  imports RolePackage PolicyPackage UserPackage GroupPackage ProfilePackage ProviderPackage LinkedPackage
begin

text \<open>
  The types at the border to the ACK runtime: the Kubernetes objects the runtime hands to a
  descriptor (\<open>descriptor.go\<close>), the \<open>AWSResource\<close> interface values the packages cast to their own
  resource (\<open>manager.go\<close>, \<open>resource.go\<close>), and the registration of the API types with the scheme
  (\<open>apis/v1alpha1\<close>, \<open>init\<close> of \<open>main.go\<close>). A cast that panics is \<open>None\<close>.
\<close>

subsection \<open>Objects and resources\<close>

text \<open>The dynamic types of \<open>runtime.Object\<close>: this API's resources, their lists, and all others.\<close>

datatype runtime_object =
    GroupObject "GroupHooks.Group"
  | GroupListObject "GroupHooks.Group slice"
  | InstanceProfileObject "ProfileHooks.InstanceProfile"
  | InstanceProfileListObject "ProfileHooks.InstanceProfile slice"
  | OpenIDConnectProviderObject "ProviderHooks.OpenIDConnectProvider"
  | OpenIDConnectProviderListObject "ProviderHooks.OpenIDConnectProvider slice"
  | PolicyObject "PolicyHooks.Policy"
  | PolicyListObject "PolicyHooks.Policy slice"
  | RoleObject "RoleApi.Role"
  | RoleListObject "RoleApi.Role slice"
  | ServiceLinkedRoleObject "LinkedRole.ServiceLinkedRole"
  | ServiceLinkedRoleListObject "LinkedRole.ServiceLinkedRole slice"
  | UserObject "UserHooks.User"
  | UserListObject "UserHooks.User slice"
  | OtherObject string

text \<open>The zero value of the dynamic type: equal for two objects exactly when their types are the same.\<close>

fun zero_object :: "runtime_object \<Rightarrow> runtime_object" where
  "zero_object (GroupObject _) = GroupObject GroupPackage.EmptyRuntimeObject"
| "zero_object (GroupListObject _) = GroupListObject None"
| "zero_object (InstanceProfileObject _) = InstanceProfileObject ProfilePackage.EmptyRuntimeObject"
| "zero_object (InstanceProfileListObject _) = InstanceProfileListObject None"
| "zero_object (OpenIDConnectProviderObject _) = OpenIDConnectProviderObject ProviderPackage.EmptyRuntimeObject"
| "zero_object (OpenIDConnectProviderListObject _) = OpenIDConnectProviderListObject None"
| "zero_object (PolicyObject _) = PolicyObject PolicyPackage.EmptyRuntimeObject"
| "zero_object (PolicyListObject _) = PolicyListObject None"
| "zero_object (RoleObject _) = RoleObject RolePackage.EmptyRuntimeObject"
| "zero_object (RoleListObject _) = RoleListObject None"
| "zero_object (ServiceLinkedRoleObject _) = ServiceLinkedRoleObject LinkedPackage.EmptyRuntimeObject"
| "zero_object (ServiceLinkedRoleListObject _) = ServiceLinkedRoleListObject None"
| "zero_object (UserObject _) = UserObject UserPackage.EmptyRuntimeObject"
| "zero_object (UserListObject _) = UserListObject None"
| "zero_object (OtherObject name) = OtherObject name"

text \<open>The name of the dynamic type, which the scheme takes for the kind.\<close>

fun type_name :: "runtime_object \<Rightarrow> string" where
  "type_name (GroupObject _) = ''Group''"
| "type_name (GroupListObject _) = ''GroupList''"
| "type_name (InstanceProfileObject _) = ''InstanceProfile''"
| "type_name (InstanceProfileListObject _) = ''InstanceProfileList''"
| "type_name (OpenIDConnectProviderObject _) = ''OpenIDConnectProvider''"
| "type_name (OpenIDConnectProviderListObject _) = ''OpenIDConnectProviderList''"
| "type_name (PolicyObject _) = ''Policy''"
| "type_name (PolicyListObject _) = ''PolicyList''"
| "type_name (RoleObject _) = ''Role''"
| "type_name (RoleListObject _) = ''RoleList''"
| "type_name (ServiceLinkedRoleObject _) = ''ServiceLinkedRole''"
| "type_name (ServiceLinkedRoleListObject _) = ''ServiceLinkedRoleList''"
| "type_name (UserObject _) = ''User''"
| "type_name (UserListObject _) = ''UserList''"
| "type_name (OtherObject name) = name"

text \<open>
  The dynamic types of \<open>acktypes.AWSResource\<close>: the \<open>resource\<close> of each package, with its pointer \<open>ko\<close> to
  the custom resource.
\<close>

datatype aws_resource =
    GroupResource "GroupHooks.Group ptr"
  | InstanceProfileResource "ProfileHooks.InstanceProfile ptr"
  | OpenIDConnectProviderResource "ProviderHooks.OpenIDConnectProvider ptr"
  | PolicyResource "PolicyHooks.Policy ptr"
  | RoleResource "RoleApi.Role ptr"
  | ServiceLinkedRoleResource "LinkedRole.ServiceLinkedRole ptr"
  | UserResource "UserHooks.User ptr"

subsection \<open>Group\<close>

definition group_ResourceFromRuntimeObject :: "runtime_object \<Rightarrow> aws_resource option" where
  "group_ResourceFromRuntimeObject obj = (case obj of GroupObject ko \<Rightarrow> Some (GroupResource (Some ko)) | _ \<Rightarrow> None)"

definition group_concreteResource :: "aws_resource \<Rightarrow> GroupHooks.Group ptr option" where
  "group_concreteResource res = (case res of GroupResource ko \<Rightarrow> Some ko | _ \<Rightarrow> None)"

text \<open>For a resource that has a custom resource; the interface value of a nil one is not compared to nil in a useful way.\<close>

definition group_RuntimeObject :: "GroupHooks.Group \<Rightarrow> runtime_object" where
  "group_RuntimeObject ko = GroupObject ko"

subsection \<open>InstanceProfile\<close>

definition profile_ResourceFromRuntimeObject :: "runtime_object \<Rightarrow> aws_resource option" where
  "profile_ResourceFromRuntimeObject obj = (case obj of InstanceProfileObject ko \<Rightarrow> Some (InstanceProfileResource (Some ko)) | _ \<Rightarrow> None)"

definition profile_concreteResource :: "aws_resource \<Rightarrow> ProfileHooks.InstanceProfile ptr option" where
  "profile_concreteResource res = (case res of InstanceProfileResource ko \<Rightarrow> Some ko | _ \<Rightarrow> None)"

text \<open>For a resource that has a custom resource; the interface value of a nil one is not compared to nil in a useful way.\<close>

definition profile_RuntimeObject :: "ProfileHooks.InstanceProfile \<Rightarrow> runtime_object" where
  "profile_RuntimeObject ko = InstanceProfileObject ko"

subsection \<open>OpenIDConnectProvider\<close>

definition provider_ResourceFromRuntimeObject :: "runtime_object \<Rightarrow> aws_resource option" where
  "provider_ResourceFromRuntimeObject obj = (case obj of OpenIDConnectProviderObject ko \<Rightarrow> Some (OpenIDConnectProviderResource (Some ko)) | _ \<Rightarrow> None)"

definition provider_concreteResource :: "aws_resource \<Rightarrow> ProviderHooks.OpenIDConnectProvider ptr option" where
  "provider_concreteResource res = (case res of OpenIDConnectProviderResource ko \<Rightarrow> Some ko | _ \<Rightarrow> None)"

text \<open>For a resource that has a custom resource; the interface value of a nil one is not compared to nil in a useful way.\<close>

definition provider_RuntimeObject :: "ProviderHooks.OpenIDConnectProvider \<Rightarrow> runtime_object" where
  "provider_RuntimeObject ko = OpenIDConnectProviderObject ko"

subsection \<open>Policy\<close>

definition policy_ResourceFromRuntimeObject :: "runtime_object \<Rightarrow> aws_resource option" where
  "policy_ResourceFromRuntimeObject obj = (case obj of PolicyObject ko \<Rightarrow> Some (PolicyResource (Some ko)) | _ \<Rightarrow> None)"

definition policy_concreteResource :: "aws_resource \<Rightarrow> PolicyHooks.Policy ptr option" where
  "policy_concreteResource res = (case res of PolicyResource ko \<Rightarrow> Some ko | _ \<Rightarrow> None)"

text \<open>For a resource that has a custom resource; the interface value of a nil one is not compared to nil in a useful way.\<close>

definition policy_RuntimeObject :: "PolicyHooks.Policy \<Rightarrow> runtime_object" where
  "policy_RuntimeObject ko = PolicyObject ko"

subsection \<open>Role\<close>

definition role_ResourceFromRuntimeObject :: "runtime_object \<Rightarrow> aws_resource option" where
  "role_ResourceFromRuntimeObject obj = (case obj of RoleObject ko \<Rightarrow> Some (RoleResource (Some ko)) | _ \<Rightarrow> None)"

definition role_concreteResource :: "aws_resource \<Rightarrow> RoleApi.Role ptr option" where
  "role_concreteResource res = (case res of RoleResource ko \<Rightarrow> Some ko | _ \<Rightarrow> None)"

text \<open>For a resource that has a custom resource; the interface value of a nil one is not compared to nil in a useful way.\<close>

definition role_RuntimeObject :: "RoleApi.Role \<Rightarrow> runtime_object" where
  "role_RuntimeObject ko = RoleObject ko"

subsection \<open>ServiceLinkedRole\<close>

definition linked_role_ResourceFromRuntimeObject :: "runtime_object \<Rightarrow> aws_resource option" where
  "linked_role_ResourceFromRuntimeObject obj = (case obj of ServiceLinkedRoleObject ko \<Rightarrow> Some (ServiceLinkedRoleResource (Some ko)) | _ \<Rightarrow> None)"

definition linked_role_concreteResource :: "aws_resource \<Rightarrow> LinkedRole.ServiceLinkedRole ptr option" where
  "linked_role_concreteResource res = (case res of ServiceLinkedRoleResource ko \<Rightarrow> Some ko | _ \<Rightarrow> None)"

text \<open>For a resource that has a custom resource; the interface value of a nil one is not compared to nil in a useful way.\<close>

definition linked_role_RuntimeObject :: "LinkedRole.ServiceLinkedRole \<Rightarrow> runtime_object" where
  "linked_role_RuntimeObject ko = ServiceLinkedRoleObject ko"

subsection \<open>User\<close>

definition user_ResourceFromRuntimeObject :: "runtime_object \<Rightarrow> aws_resource option" where
  "user_ResourceFromRuntimeObject obj = (case obj of UserObject ko \<Rightarrow> Some (UserResource (Some ko)) | _ \<Rightarrow> None)"

definition user_concreteResource :: "aws_resource \<Rightarrow> UserHooks.User ptr option" where
  "user_concreteResource res = (case res of UserResource ko \<Rightarrow> Some ko | _ \<Rightarrow> None)"

text \<open>For a resource that has a custom resource; the interface value of a nil one is not compared to nil in a useful way.\<close>

definition user_RuntimeObject :: "UserHooks.User \<Rightarrow> runtime_object" where
  "user_RuntimeObject ko = UserObject ko"

subsection \<open>The scheme\<close>

text \<open>
  \<open>scheme.Builder\<close> of controller-runtime, the scheme of apimachinery (\<open>New\<close> makes the object of a
  group, version and kind) and the two other libraries whose types are registered.
\<close>

record ('s, 'b) scheme_lib =
  NewScheme :: 's
  Builder :: "string \<times> string \<Rightarrow> 'b"
  Register :: "runtime_object list \<Rightarrow> 'b \<Rightarrow> 'b"
  Builder_AddToScheme :: "'b \<Rightarrow> 's \<Rightarrow> error option \<times> 's"
  New :: "'s \<Rightarrow> string \<times> string \<times> string \<Rightarrow> runtime_object option"
  clientgoscheme_AddToScheme :: "'s \<Rightarrow> error option \<times> 's"
  ackv1alpha1_AddToScheme :: "'s \<Rightarrow> error option \<times> 's"

text \<open>The \<open>init\<close> functions of the API package, each run once.\<close>

definition group_init :: "('s, 'b) scheme_lib \<Rightarrow> 'b \<Rightarrow> 'b" where
  "group_init L SchemeBuilder = Register L [GroupObject GroupPackage.EmptyRuntimeObject, GroupListObject None] SchemeBuilder"

definition profile_init :: "('s, 'b) scheme_lib \<Rightarrow> 'b \<Rightarrow> 'b" where
  "profile_init L SchemeBuilder = Register L [InstanceProfileObject ProfilePackage.EmptyRuntimeObject, InstanceProfileListObject None] SchemeBuilder"

definition provider_init :: "('s, 'b) scheme_lib \<Rightarrow> 'b \<Rightarrow> 'b" where
  "provider_init L SchemeBuilder = Register L [OpenIDConnectProviderObject ProviderPackage.EmptyRuntimeObject, OpenIDConnectProviderListObject None] SchemeBuilder"

definition policy_init :: "('s, 'b) scheme_lib \<Rightarrow> 'b \<Rightarrow> 'b" where
  "policy_init L SchemeBuilder = Register L [PolicyObject PolicyPackage.EmptyRuntimeObject, PolicyListObject None] SchemeBuilder"

definition role_init :: "('s, 'b) scheme_lib \<Rightarrow> 'b \<Rightarrow> 'b" where
  "role_init L SchemeBuilder = Register L [RoleObject RolePackage.EmptyRuntimeObject, RoleListObject None] SchemeBuilder"

definition linked_role_init :: "('s, 'b) scheme_lib \<Rightarrow> 'b \<Rightarrow> 'b" where
  "linked_role_init L SchemeBuilder = Register L [ServiceLinkedRoleObject LinkedPackage.EmptyRuntimeObject, ServiceLinkedRoleListObject None] SchemeBuilder"

definition user_init :: "('s, 'b) scheme_lib \<Rightarrow> 'b \<Rightarrow> 'b" where
  "user_init L SchemeBuilder = Register L [UserObject UserPackage.EmptyRuntimeObject, UserListObject None] SchemeBuilder"

text \<open>
  \<open>SchemeBuilder\<close> when the package is initialised: Go runs the \<open>init\<close> functions in the order of the file
  names. \<open>AddToScheme\<close> is bound to the pointer, so it sees all of them.
\<close>

definition SchemeBuilder :: "('s, 'b) scheme_lib \<Rightarrow> 'b" where
  "SchemeBuilder L = fold (\<lambda>init. init L)
     [group_init, profile_init, provider_init, policy_init, role_init, linked_role_init, user_init]
     (Builder L GroupVersion)"

definition AddToScheme :: "('s, 'b) scheme_lib \<Rightarrow> 's \<Rightarrow> error option \<times> 's" where
  "AddToScheme L = Builder_AddToScheme L (SchemeBuilder L)"

text \<open>\<open>init\<close> of \<open>main.go\<close>; the errors are dropped.\<close>

definition main_init :: "('s, 'b) scheme_lib \<Rightarrow> 's \<Rightarrow> 's" where
  "main_init L scheme =
     (let (_, scheme) = clientgoscheme_AddToScheme L scheme;
          (_, scheme) = AddToScheme L scheme;
          (_, scheme) = ackv1alpha1_AddToScheme L scheme
      in scheme)"

subsection \<open>What the libraries promise\<close>

text \<open>
  Beside the registered types a builder adds kinds of its own to its group and version: \<open>Register\<close>
  of controller-runtime calls \<open>metav1.AddToGroupVersion\<close>, which adds \<open>meta_kinds\<close>. A scheme also makes the
  objects of \<open>unversioned_kinds\<close> in whatever group they are asked for, once they are registered.
\<close>

definition meta_kinds :: "string list" where
  "meta_kinds = [''WatchEvent'', ''ListOptions'', ''GetOptions'', ''DeleteOptions'', ''CreateOptions'', ''UpdateOptions'', ''PatchOptions'']"

definition unversioned_kinds :: "string list" where
  "unversioned_kinds = [''Status'', ''APIVersions'', ''APIGroupList'', ''APIGroup'', ''APIResourceList'']"

definition own_kinds :: "runtime_object list \<Rightarrow> bool" where
  "own_kinds objs \<longleftrightarrow> distinct (map type_name objs) \<and> set (map type_name objs) \<inter> set (meta_kinds @ unversioned_kinds) = {}"

text \<open>The scheme after the first call of \<open>main.go\<close>, and after the second one with the registrations \<open>regs\<close>.\<close>

definition client_scheme :: "('s, 'b) scheme_lib \<Rightarrow> 's" where
  "client_scheme L = snd (clientgoscheme_AddToScheme L (NewScheme L))"

definition built_scheme :: "('s, 'b) scheme_lib \<Rightarrow> runtime_object list list \<Rightarrow> 's" where
  "built_scheme L regs = snd (Builder_AddToScheme L (fold (Register L) regs (Builder L GroupVersion)) (client_scheme L))"

text \<open>
  Client-go has no kind of this API's group and version (but the unversioned ones); a builder's
  \<open>AddToScheme\<close> makes each registered type known by its name, when the names are distinct, none of
  those the builder adds itself, and not yet in use. Nothing is said of other kinds. The ACK runtime's
  \<open>AddToScheme\<close>, whose types are in another group, keeps what is known in this one.
\<close>

definition scheme_ok :: "('s, 'b) scheme_lib \<Rightarrow> bool" where
  "scheme_ok L \<longleftrightarrow>
     (\<forall>kind. kind \<notin> set unversioned_kinds \<longrightarrow> New L (client_scheme L) (WithKind GroupVersion kind) = None) \<and>
     (\<forall>regs. own_kinds (concat regs) \<longrightarrow>
        (\<forall>obj \<in> set (concat regs). New L (client_scheme L) (WithKind GroupVersion (type_name obj)) = None) \<longrightarrow>
        (\<forall>obj \<in> set (concat regs). New L (built_scheme L regs) (WithKind GroupVersion (type_name obj)) = Some (zero_object obj))) \<and>
     (\<forall>regs kind obj. own_kinds (concat regs) \<longrightarrow> New L (built_scheme L regs) (WithKind GroupVersion kind) = Some obj \<longrightarrow>
        New L (snd (ackv1alpha1_AddToScheme L (built_scheme L regs))) (WithKind GroupVersion kind) = Some obj)"

text \<open>
  A descriptor fits a scheme: for its kind the scheme makes the empty object of the descriptor; the
  descriptor turns exactly the objects of that type into resources; the manager gets the custom
  resource out of each of them, and the object the resource hands back is the one it was made of.
\<close>

definition fits_scheme ::
  "(string \<times> string \<times> string \<Rightarrow> runtime_object option) \<Rightarrow> string \<times> string \<times> string \<Rightarrow> 'r \<Rightarrow> ('r \<Rightarrow> runtime_object) \<Rightarrow>
     (runtime_object \<Rightarrow> aws_resource option) \<Rightarrow> (aws_resource \<Rightarrow> 'r ptr option) \<Rightarrow> bool" where
  "fits_scheme new_object gvk fresh object cast concrete \<longleftrightarrow>
     new_object gvk = Some (object fresh) \<and>
     (\<forall>obj. cast obj \<noteq> None \<longleftrightarrow> zero_object obj = object fresh) \<and>
     (\<forall>obj res. cast obj = Some res \<longrightarrow> (\<exists>ko. concrete res = Some (Some ko) \<and> object ko = obj))"

text \<open>The types of this API, by the \<open>init\<close> function that registers them.\<close>

definition api_types :: "runtime_object list list" where
  "api_types = [[GroupObject GroupPackage.EmptyRuntimeObject, GroupListObject None],
       [InstanceProfileObject ProfilePackage.EmptyRuntimeObject, InstanceProfileListObject None],
       [OpenIDConnectProviderObject ProviderPackage.EmptyRuntimeObject, OpenIDConnectProviderListObject None],
       [PolicyObject PolicyPackage.EmptyRuntimeObject, PolicyListObject None],
       [RoleObject RolePackage.EmptyRuntimeObject, RoleListObject None],
       [ServiceLinkedRoleObject LinkedPackage.EmptyRuntimeObject, ServiceLinkedRoleListObject None],
       [UserObject UserPackage.EmptyRuntimeObject, UserListObject None]]"

lemma SchemeBuilder_registers: "SchemeBuilder L = fold (Register L) api_types (Builder L GroupVersion)"
  by (simp add: api_types_def SchemeBuilder_def group_init_def profile_init_def provider_init_def policy_init_def role_init_def linked_role_init_def user_init_def)

lemma main_init_makes:
  assumes "scheme_ok L" and "obj \<in> set (concat api_types)"
  shows "New L (main_init L (NewScheme L)) (WithKind GroupVersion (type_name obj)) = Some (zero_object obj)"
proof -
  have own: "own_kinds (concat api_types)"
    by (simp add: own_kinds_def api_types_def meta_kinds_def unversioned_kinds_def)
  then have "New L (client_scheme L) (WithKind GroupVersion (type_name x)) = None" if "x \<in> set (concat api_types)" for x
    using assms(1) that unfolding scheme_ok_def own_kinds_def by (metis disjoint_iff in_set_conv_decomp list.set_map image_eqI set_append UnI2)
  with own assms have "New L (built_scheme L api_types) (WithKind GroupVersion (type_name obj)) = Some (zero_object obj)"
    unfolding scheme_ok_def by blast
  with own assms(1) have "New L (snd (ackv1alpha1_AddToScheme L (built_scheme L api_types))) (WithKind GroupVersion (type_name obj)) =
      Some (zero_object obj)"
    unfolding scheme_ok_def by blast
  then show ?thesis
    by (simp add: main_init_def AddToScheme_def SchemeBuilder_registers built_scheme_def client_scheme_def split_beta)
qed

lemma WithKind_eq [simp]: "WithKind gv a = WithKind gv b \<longleftrightarrow> a = b"
  by (simp add: WithKind_def)

text \<open>What a package promises of its casts; the packages keep the promise below.\<close>

locale castable =
  fixes fresh :: 'r and object :: "'r \<Rightarrow> runtime_object" and wrap :: "'r ptr \<Rightarrow> aws_resource"
    and cast :: "runtime_object \<Rightarrow> aws_resource option" and concrete :: "aws_resource \<Rightarrow> 'r ptr option"
  assumes cast_own: "cast (object ko) = Some (wrap (Some ko))"
    and cast_other: "(\<And>ko. obj \<noteq> object ko) \<Longrightarrow> cast obj = None"
    and concrete_own: "concrete (wrap r) = Some r"
    and same_type: "zero_object obj = object fresh \<longleftrightarrow> (\<exists>ko. obj = object ko)"
begin

lemma accepts: "cast obj \<noteq> None \<longleftrightarrow> zero_object obj = object fresh"
  unfolding same_type using cast_own cast_other by (metis option.distinct(1))

lemma unwraps: "cast obj = Some res \<Longrightarrow> \<exists>ko. concrete res = Some (Some ko) \<and> object ko = obj"
  using cast_own cast_other concrete_own by (metis option.distinct(1) option.inject)

lemma fits: "new_object gvk = Some (object fresh) \<Longrightarrow> fits_scheme new_object gvk fresh object cast concrete"
  unfolding fits_scheme_def using accepts unwraps by blast

end


interpretation group_casts: castable GroupPackage.EmptyRuntimeObject group_RuntimeObject GroupResource group_ResourceFromRuntimeObject group_concreteResource
  unfolding group_RuntimeObject_def group_ResourceFromRuntimeObject_def group_concreteResource_def
  by unfold_locales (auto split: runtime_object.split elim: zero_object.elims)

interpretation profile_casts: castable ProfilePackage.EmptyRuntimeObject profile_RuntimeObject InstanceProfileResource profile_ResourceFromRuntimeObject profile_concreteResource
  unfolding profile_RuntimeObject_def profile_ResourceFromRuntimeObject_def profile_concreteResource_def
  by unfold_locales (auto split: runtime_object.split elim: zero_object.elims)

interpretation provider_casts: castable ProviderPackage.EmptyRuntimeObject provider_RuntimeObject OpenIDConnectProviderResource provider_ResourceFromRuntimeObject provider_concreteResource
  unfolding provider_RuntimeObject_def provider_ResourceFromRuntimeObject_def provider_concreteResource_def
  by unfold_locales (auto split: runtime_object.split elim: zero_object.elims)

interpretation policy_casts: castable PolicyPackage.EmptyRuntimeObject policy_RuntimeObject PolicyResource policy_ResourceFromRuntimeObject policy_concreteResource
  unfolding policy_RuntimeObject_def policy_ResourceFromRuntimeObject_def policy_concreteResource_def
  by unfold_locales (auto split: runtime_object.split elim: zero_object.elims)

interpretation role_casts: castable RolePackage.EmptyRuntimeObject role_RuntimeObject RoleResource role_ResourceFromRuntimeObject role_concreteResource
  unfolding role_RuntimeObject_def role_ResourceFromRuntimeObject_def role_concreteResource_def
  by unfold_locales (auto split: runtime_object.split elim: zero_object.elims)

interpretation linked_role_casts: castable LinkedPackage.EmptyRuntimeObject linked_role_RuntimeObject ServiceLinkedRoleResource linked_role_ResourceFromRuntimeObject linked_role_concreteResource
  unfolding linked_role_RuntimeObject_def linked_role_ResourceFromRuntimeObject_def linked_role_concreteResource_def
  by unfold_locales (auto split: runtime_object.split elim: zero_object.elims)

interpretation user_casts: castable UserPackage.EmptyRuntimeObject user_RuntimeObject UserResource user_ResourceFromRuntimeObject user_concreteResource
  unfolding user_RuntimeObject_def user_ResourceFromRuntimeObject_def user_concreteResource_def
  by unfold_locales (auto split: runtime_object.split elim: zero_object.elims)

lemmas kind_defs =
  GroupPackage.GroupVersionKind_def GroupPackage.GroupKind_def group_RuntimeObject_def
  ProfilePackage.GroupVersionKind_def ProfilePackage.GroupKind_def profile_RuntimeObject_def
  ProviderPackage.GroupVersionKind_def ProviderPackage.GroupKind_def provider_RuntimeObject_def
  PolicyPackage.GroupVersionKind_def PolicyPackage.GroupKind_def policy_RuntimeObject_def
  RolePackage.GroupVersionKind_def RolePackage.GroupKind_def role_RuntimeObject_def
  LinkedPackage.GroupVersionKind_def LinkedPackage.GroupKind_def linked_role_RuntimeObject_def
  UserPackage.GroupVersionKind_def UserPackage.GroupKind_def user_RuntimeObject_def

end
