(* ===== verification/PackageProperties.thy ===== *)
theory PackageProperties
  imports SharedProperties RolePackage PolicyPackage UserPackage GroupPackage ProfilePackage ProviderPackage
    LinkedPackage GroupProperties UserSamples Isolated Descriptors RoleRefineProperties
begin

text \<open>
  Properties of the generated code that hold in each of the seven packages, from the interfaces of
  \<open>Reporting\<close> on the packages' own functions.
\<close>

text \<open>
  C31. In each of the seven packages, with its own terminal codes: whatever outcomes \<open>onError\<close> and
  \<open>onSuccess\<close> reported on a resource, neither ever panics, the Terminal condition is True exactly
  when the last outcome was a terminal error, and the Recoverable condition exactly when the last
  outcome that was not a terminal error was an error.
\<close>

theorem status_follows_outcomes:
  assumes "aws_error_ok (rt rm)"
  shows "follows_outcomes conditions_of RoleSdk.terminalCodes (report_with (RolePackage.onError rm) (RolePackage.onSuccess rm)) \<and>
    follows_outcomes conditions_of PolicySdk.terminalCodes (report_with (PolicyPackage.onError rm) (PolicyPackage.onSuccess rm)) \<and>
    follows_outcomes conditions_of UserSdk.terminalCodes (report_with (UserPackage.onError rm) (UserPackage.onSuccess rm)) \<and>
    follows_outcomes conditions_of GroupSdk.terminalCodes (report_with (GroupPackage.onError rm) (GroupPackage.onSuccess rm)) \<and>
    follows_outcomes conditions_of ProfileManager.terminalCodes (report_with (ProfilePackage.onError rm) (ProfilePackage.onSuccess rm)) \<and>
    follows_outcomes conditions_of ProviderManager.terminalCodes (report_with (ProviderPackage.onError rm) (ProviderPackage.onSuccess rm)) \<and>
    follows_outcomes conditions_of LinkedRole.terminalCodes (report_with (LinkedPackage.onError rm) (LinkedPackage.onSuccess rm))"
  using assms
  by (intro conjI role_status.follows policy_status.follows user_status.follows group_status.follows profile_status.follows
      provider_status.follows linked_status.follows)

text \<open>
  A lost connection and then a malformed document: terminal for a group, recoverable for a user.
\<close>

definition two_errors :: "error option list" where
  "two_errors = [Some (Errorf ''net''), Some (Error (APIError ''MalformedPolicyDocument'') ''bad'' None)]"

lemma status_follows_outcomes_witness:
  "(\<exists>r. reports (report_with (GroupPackage.onError bare_rm) (GroupPackage.onSuccess bare_rm)) two_errors sample_group = Some r \<and>
       is_true ConditionTypeTerminal (conditions_of r)) \<and>
    (\<exists>r. reports (report_with (UserPackage.onError bare_rm) (UserPackage.onSuccess bare_rm)) two_errors sample_user = Some r \<and>
       \<not> is_true ConditionTypeTerminal (conditions_of r) \<and> is_true ConditionTypeRecoverable (conditions_of r))"
proof -
  have sound: "aws_error_ok (rt bare_rm)" by simp
  have net: "\<not> terminal_error codes (Some (Errorf ''net''))"
    and group: "terminal_error GroupSdk.terminalCodes (last two_errors)"
    and user: "\<not> terminal_error UserSdk.terminalCodes (last two_errors)" for codes
    by (simp_all add: two_errors_def terminal_error_def Conditions.terminalAWSError_def ErrorCode_def runtimeTerminal_def
        GroupSdk.terminalCodes_def UserSdk.terminalCodes_def)
  have fresh: "unique_conditions (conditions_of sample_group)" "unique_conditions (conditions_of sample_user)" "two_errors \<noteq> []"
    by (simp_all add: sample_group_def sample_user_def conditions_of_def unique_conditions_def two_errors_def)
  note follows = status_follows_outcomes [OF sound]
  from follows have "follows_outcomes conditions_of GroupSdk.terminalCodes
      (report_with (GroupPackage.onError bare_rm) (GroupPackage.onSuccess bare_rm))" by blast
  from this fresh(1,3) obtain r where "reports (report_with (GroupPackage.onError bare_rm) (GroupPackage.onSuccess bare_rm)) two_errors sample_group = Some r"
      "is_true ConditionTypeTerminal (conditions_of r)"
    by (rule follows_outcomes_D) (use group in simp)
  moreover from follows have "follows_outcomes conditions_of UserSdk.terminalCodes
      (report_with (UserPackage.onError bare_rm) (UserPackage.onSuccess bare_rm))" by blast
  from this fresh(2,3) obtain u where "reports (report_with (UserPackage.onError bare_rm) (UserPackage.onSuccess bare_rm)) two_errors sample_user = Some u"
      "\<not> is_true ConditionTypeTerminal (conditions_of u)" "is_true ConditionTypeRecoverable (conditions_of u)"
    by (rule follows_outcomes_D) (use user in \<open>simp add: recoverable_after_def Let_def two_errors_def\<close>)
  ultimately show ?thesis by blast
qed

text \<open>
  C30. In each of the seven packages the descriptor's finalizer calls are consistent: after any
  sequence of \<open>MarkManaged\<close> and \<open>MarkUnmanaged\<close> the last call decides \<open>IsManaged\<close>, and
  \<open>MarkUnmanaged\<close> gives a resource that was not managed at first back exactly as it was.
\<close>

theorem finalizer_calls_consistent:
  assumes "finalizers_ok k"
  shows "marks_decide RolePackage.IsManaged (RolePackage.MarkManaged k) (RolePackage.MarkUnmanaged k) \<and>
    marks_decide PolicyPackage.IsManaged (PolicyPackage.MarkManaged k) (PolicyPackage.MarkUnmanaged k) \<and>
    marks_decide UserPackage.IsManaged (UserPackage.MarkManaged k) (UserPackage.MarkUnmanaged k) \<and>
    marks_decide GroupPackage.IsManaged (GroupPackage.MarkManaged k) (GroupPackage.MarkUnmanaged k) \<and>
    marks_decide ProfilePackage.IsManaged (ProfilePackage.MarkManaged k) (ProfilePackage.MarkUnmanaged k) \<and>
    marks_decide ProviderPackage.IsManaged (ProviderPackage.MarkManaged k) (ProviderPackage.MarkUnmanaged k) \<and>
    marks_decide LinkedPackage.IsManaged (LinkedPackage.MarkManaged k) (LinkedPackage.MarkUnmanaged k)"
  using assms
  by (intro conjI role_marks.decide policy_marks.decide user_marks.decide group_marks.decide profile_marks.decide
      provider_marks.decide linked_marks.decide)

definition sample_k8s :: k8s_rt where
  "sample_k8s = \<lparr>AddFinalizer = (\<lambda>fs f. if f \<in> set fs then fs else fs @ [f]),
     RemoveFinalizer = (\<lambda>fs f. filter (\<lambda>g. g \<noteq> f) fs), AnnotationAdopted = ''services.k8s.aws/adopted''\<rparr>"

lemma finalizer_calls_consistent_witness:
  "GroupPackage.MarkUnmanaged sample_k8s (GroupPackage.MarkManaged sample_k8s (GroupPackage.MarkManaged sample_k8s sample_group)) =
    sample_group"
proof -
  have "finalizers_ok sample_k8s" by (simp add: finalizers_ok_def sample_k8s_def)
  from finalizer_calls_consistent [OF this]
  have decide: "marks_decide GroupPackage.IsManaged (GroupPackage.MarkManaged sample_k8s) (GroupPackage.MarkUnmanaged sample_k8s)" by blast
  have "\<not> GroupPackage.IsManaged sample_group"
    by (simp add: sample_group_def GroupPackage.IsManaged_def Resource.IsManaged_def Resource.containsFinalizer_def)
  with decide [unfolded marks_decide_def, rule_format, THEN conjunct2, of sample_group "[True, True]"] show ?thesis by simp
qed

subsection \<open>The other roles\<close>

text \<open>
  C11. A resource manager of the role package touches no role but those its resources name. Whatever
  calls of \<open>ReadOne\<close>, \<open>Create\<close>, \<open>Update\<close>, \<open>Delete\<close> and \<open>LateInitialize\<close> the reconciler makes for resources
  whose names are in \<open>K\<close>, in whatever order, and whichever of them fail midway: everything that \<open>view\<close>
  reads of an existing role outside \<open>K\<close> is as it was. \<open>ReadOne\<close> and \<open>LateInitialize\<close> may be for any
  role, so with an empty \<open>K\<close> this says that they change nothing. Of IAM it is assumed that a call with
  a role name changes that role only, and that the calls that read change nothing.
\<close>

theorem role_calls_isolated:
  assumes "role_calls_on (role_manager.sdkapi rm) view" and "reconciles (role_entry_points rm c) K w w'"
    and "k \<notin> K" and "view (aws w) k = Some x"
  shows "view (aws w') k = Some x"
  using role_package.interleaved [of "(rm, c, view)"] assms by simp

definition all_of :: "roles \<Rightarrow> string \<Rightarrow> (principal \<times> settings) option" where
  "all_of b n = Some (fst b n, snd b n)"

lemma spec_calls_on: "role_calls_on spec_sdk all_of"
  by (auto simp: role_calls_on_def spec_sdk_def call_on_def all_of_def on_entry_def on_settings_def at_def
      split: option.splits)

text \<open>The update of the sample role writes to the entry of \<open>r\<close>; the role \<open>s\<close> stays as it was.\<close>

lemma attaching_update:
  "\<exists>out w'. RoleManager.Update spec_rm sample_compare (Some wanted_role) (Some sample_role) [''Spec.Policies''] bare_world = Some (out, w') \<and>
     p_managed (fst (aws w') ''r'') = {''arn:p''}"
  by (simp add: RoleManager.Update_def update_with_def RoleSdk.sdkUpdate_def when_different_def
      RoleHooks.syncManagedPolicies_def sync_managed_policies_def RoleHooks.addManagedPolicy_def spec_sdk_def on_entry_def
      sample_compare_def sample_rt_def bare_world_def bare_entry_def at_def attach_def finish_def Conditions.onSuccess_def Conditions.updateConditions_def
      Conditions.terminalAWSError_def runtimeTerminal_def Let_def)

lemma role_calls_isolated_witness:
  "\<exists>w'. reconciles (role_entry_points spec_rm sample_compare) {''r''} bare_world w' \<and>
     p_managed (fst (aws w') ''r'') = {''arn:p''} \<and> all_of (aws w') ''s'' = all_of (aws bare_world) ''s''"
proof -
  obtain out w' where run: "RoleManager.Update spec_rm sample_compare (Some wanted_role) (Some sample_role) [''Spec.Policies''] bare_world = Some (out, w')"
    and attached: "p_managed (fst (aws w') ''r'') = {''arn:p''}"
    using attaching_update by blast
  from run have calls: "reconciles (role_entry_points spec_rm sample_compare) {''r''} bare_world w'"
    by (intro r_into_rtranclp updating [where desired = wanted_role and latest = sample_role])
      (simp_all add: role_entry_points_def)
  have "all_of (aws w') ''s'' = Some (fst (aws bare_world) ''s'', snd (aws bare_world) ''s'')"
    by (rule role_calls_isolated [OF _ calls]) (use spec_calls_on in \<open>simp_all add: all_of_def [of "aws bare_world"]\<close>)
  with calls attached show ?thesis by (auto simp: all_of_def)
qed

subsection \<open>The types the runtime passes around\<close>

text \<open>
  C29. The types are wired up consistently in all seven packages: with the scheme that the \<open>init\<close>
  functions build, decoding an object of the kind a descriptor names makes the empty object of that
  very descriptor; \<open>ResourceFromRuntimeObject\<close> panics on every object of another type and accepts each
  of its own; the manager of the package gets the custom resource out of what it returns, and the
  resource hands back the object it was made of. No two descriptors name the same kind. Of the
  libraries it is assumed that client-go has no kinds of this API, that \<open>AddToScheme\<close> makes the types
  registered known under their names when these are distinct and none of the kinds it adds itself
  (WatchEvent, ListOptions and the like), and that the ACK runtime keeps them.
\<close>

theorem descriptors_fit_scheme:
  assumes "scheme_ok L"
  defines "new_object \<equiv> New L (main_init L (NewScheme L))"
  shows "fits_scheme new_object GroupPackage.GroupVersionKind GroupPackage.EmptyRuntimeObject group_RuntimeObject
      group_ResourceFromRuntimeObject group_concreteResource \<and>
    fits_scheme new_object ProfilePackage.GroupVersionKind ProfilePackage.EmptyRuntimeObject profile_RuntimeObject
      profile_ResourceFromRuntimeObject profile_concreteResource \<and>
    fits_scheme new_object ProviderPackage.GroupVersionKind ProviderPackage.EmptyRuntimeObject provider_RuntimeObject
      provider_ResourceFromRuntimeObject provider_concreteResource \<and>
    fits_scheme new_object PolicyPackage.GroupVersionKind PolicyPackage.EmptyRuntimeObject policy_RuntimeObject
      policy_ResourceFromRuntimeObject policy_concreteResource \<and>
    fits_scheme new_object RolePackage.GroupVersionKind RolePackage.EmptyRuntimeObject role_RuntimeObject
      role_ResourceFromRuntimeObject role_concreteResource \<and>
    fits_scheme new_object LinkedPackage.GroupVersionKind LinkedPackage.EmptyRuntimeObject linked_role_RuntimeObject
      linked_role_ResourceFromRuntimeObject linked_role_concreteResource \<and>
    fits_scheme new_object UserPackage.GroupVersionKind UserPackage.EmptyRuntimeObject user_RuntimeObject
      user_ResourceFromRuntimeObject user_concreteResource \<and>
    distinct [GroupPackage.GroupVersionKind, ProfilePackage.GroupVersionKind, ProviderPackage.GroupVersionKind, PolicyPackage.GroupVersionKind, RolePackage.GroupVersionKind, LinkedPackage.GroupVersionKind, UserPackage.GroupVersionKind]"
proof -
  have "\<forall>obj \<in> set (concat api_types). New L (main_init L (NewScheme L)) (WithKind GroupVersion (type_name obj)) = Some (zero_object obj)"
    using main_init_makes [OF assms(1)] by blast
  then show ?thesis
    unfolding new_object_def
    by (intro conjI group_casts.fits profile_casts.fits provider_casts.fits policy_casts.fits role_casts.fits
        linked_role_casts.fits user_casts.fits) (simp_all add: kind_defs api_types_def)
qed

text \<open>
  A scheme is the function from kinds to objects, a builder its group and the registered objects. The
  builder adds the kinds of \<open>meta_kinds\<close>, client-go makes the unversioned ones known in every group.
\<close>

definition sample_scheme_lib ::
  "(string \<times> string \<times> string \<Rightarrow> runtime_object option, (string \<times> string) \<times> runtime_object list) scheme_lib" where
  "sample_scheme_lib = \<lparr>
     NewScheme = Map.empty,
     Builder = (\<lambda>gv. (gv, [])),
     Register = (\<lambda>objs b. (fst b, snd b @ objs)),
     Builder_AddToScheme = (\<lambda>b s. (None, \<lambda>gvk. if \<exists>kind. gvk = WithKind (fst b) kind then
        (case find (\<lambda>obj. type_name obj = snd (snd gvk)) (snd b @ map OtherObject meta_kinds) of
           Some obj \<Rightarrow> Some (zero_object obj) | None \<Rightarrow> s gvk) else s gvk)),
     New = (\<lambda>s gvk. s gvk),
     clientgoscheme_AddToScheme = (\<lambda>s. (None, \<lambda>gvk. if gvk = (''apps'', ''v1'', ''Deployment'') then Some (OtherObject ''Deployment'')
        else if snd (snd gvk) \<in> set unversioned_kinds then Some (OtherObject (snd (snd gvk))) else s gvk)),
     ackv1alpha1_AddToScheme = (\<lambda>s. (None, s((''services.k8s.aws'', ''v1alpha1'', ''FieldExport'') \<mapsto> OtherObject ''FieldExport'')))\<rparr>"

lemma sample_register:
  "fold (Register sample_scheme_lib) regs (gv, objs) = (gv, objs @ concat regs)"
  by (induction regs arbitrary: objs) (simp_all add: sample_scheme_lib_def)

lemma find_by_name:
  assumes "distinct (map type_name objs)" and "obj \<in> set objs"
  shows "find (\<lambda>x. type_name x = type_name obj) (objs @ others) = Some obj"
  using assms by (induction objs) auto

lemma sample_built:
  assumes "own_kinds (concat regs)" and "obj \<in> set (concat regs)"
  shows "New sample_scheme_lib (built_scheme sample_scheme_lib regs) (WithKind GroupVersion (type_name obj)) = Some (zero_object obj)"
proof -
  have "Builder sample_scheme_lib GroupVersion = (GroupVersion, [])" by (simp add: sample_scheme_lib_def)
  moreover have "find (\<lambda>x. type_name x = type_name obj) (concat regs @ map OtherObject meta_kinds) = Some obj"
    using assms find_by_name [of "concat regs" obj] by (simp add: own_kinds_def)
  ultimately show ?thesis
    by (simp add: built_scheme_def sample_register) (simp add: sample_scheme_lib_def WithKind_def)
qed

lemma sample_scheme_ok: "scheme_ok sample_scheme_lib"
  unfolding scheme_ok_def using sample_built
  by (auto simp: sample_scheme_lib_def client_scheme_def WithKind_def GroupVersion_def)

lemma descriptors_fit_scheme_witness:
  "New sample_scheme_lib (main_init sample_scheme_lib (NewScheme sample_scheme_lib)) (''iam.services.k8s.aws'', ''v1alpha1'', ''Role'') =
     Some (RoleObject RolePackage.EmptyRuntimeObject) \<and>
   user_ResourceFromRuntimeObject (RoleObject RolePackage.EmptyRuntimeObject) = None"
proof -
  let ?new = "New sample_scheme_lib (main_init sample_scheme_lib (NewScheme sample_scheme_lib))"
  have role: "fits_scheme ?new RolePackage.GroupVersionKind RolePackage.EmptyRuntimeObject role_RuntimeObject
      role_ResourceFromRuntimeObject role_concreteResource"
    and user: "fits_scheme ?new UserPackage.GroupVersionKind UserPackage.EmptyRuntimeObject user_RuntimeObject
      user_ResourceFromRuntimeObject user_concreteResource"
    using descriptors_fit_scheme [OF sample_scheme_ok] by blast+
  have "(''iam.services.k8s.aws'', ''v1alpha1'', ''Role'') = RolePackage.GroupVersionKind"
    by (simp add: RolePackage.GroupVersionKind_def RolePackage.GroupKind_def WithKind_def GroupVersion_def)
  moreover have "user_ResourceFromRuntimeObject (RoleObject RolePackage.EmptyRuntimeObject) = None"
    using user unfolding fits_scheme_def user_RuntimeObject_def
    by (metis runtime_object.distinct(1) zero_object.simps(9) runtime_object.simps)
  ultimately show ?thesis using role by (simp add: fits_scheme_def role_RuntimeObject_def)
qed

end
