(* ===== verification/Controller.thy ===== *)
theory Controller
  imports Ack
begin

text \<open>
  \<open>cmd/controller/main.go\<close> and \<open>pkg/resource/registry.go\<close>: the start of the process. The flags, the
  Kubernetes manager and the ACK service controller are libraries, fields of the record \<open>startup\<close>
  over a state \<open>'w\<close> of the process and the cluster. \<open>os.Exit(1)\<close> is the result \<open>Exited 1\<close>; what is
  only logged is left out.
\<close>

subsection \<open>registry.go and the init functions of the packages\<close>

text \<open>\<open>reg.RegisterResourceManagerFactory(f)\<close>, called by the \<open>init\<close> of each package with its own factory.\<close>

definition RegisterManagerFactory :: "('f \<Rightarrow> 'reg \<Rightarrow> 'reg) \<Rightarrow> 'f \<Rightarrow> 'reg \<Rightarrow> 'reg" where
  "RegisterManagerFactory RegisterResourceManagerFactory f reg = RegisterResourceManagerFactory f reg"

definition GetManagerFactories :: "('reg \<Rightarrow> 'f list) \<Rightarrow> 'reg \<Rightarrow> 'f list" where
  "GetManagerFactories GetResourceManagerFactories reg = GetResourceManagerFactories reg"

subsection \<open>main.go\<close>

definition awsServiceAPIGroup :: string where
  "awsServiceAPIGroup = ''iam.services.k8s.aws''"

definition awsServiceAlias :: string where
  "awsServiceAlias = ''iam''"

text \<open>The version of a dependency in the build info, a list of paths and versions.\<close>

primrec depVersion_loop :: "(string \<times> string) list \<Rightarrow> string \<Rightarrow> string" where
  "depVersion_loop [] path = ''unknown''"
| "depVersion_loop (dep # deps) path = (if fst dep = path then snd dep else depVersion_loop deps path)"

definition depVersion :: "(string \<times> string) list option \<Rightarrow> string \<Rightarrow> string" where
  "depVersion info path = (case info of None \<Rightarrow> ''unknown'' | Some deps \<Rightarrow> depVersion_loop deps path)"

record config =
  WebhookServerAddr :: string
  MetricsAddr :: string
  EnableLeaderElection :: bool
  LeaderElectionNS :: string
  HealthzAddr :: string
  EnableWebhookServer :: bool

record 'sel options =
  DefaultNamespaces :: "string set"
  DefaultLabelSelector :: 'sel
  WebhookHost :: string
  WebhookPort :: int
  BindAddress :: string
  LeaderElection :: bool
  LeaderElectionID :: string
  LeaderElectionNamespace :: string
  HealthProbeBindAddress :: string
  LivenessEndpointName :: string
  ReadinessEndpointName :: string

text \<open>
  The variables of \<open>pkg/version\<close>, which the linker sets when the controller is built, and its two
  constants.
\<close>

record version_vars =
  GitVersion :: string
  GitCommit :: string
  BuildDate :: string

definition ACKGenerateVersion :: string where
  "ACKGenerateVersion = ''v0.62.1-4-gd4aaca5''"

definition ACKGenerateBuildDate :: string where
  "ACKGenerateBuildDate = ''2026-08-18T01:02:29Z''"

text \<open>
  The calls of \<open>main\<close> into the libraries, and the version variables of the build. The version the
  service controller is made with is \<open>acktypes.VersionInfo\<close>, here the list of its fields.
\<close>

record ('w, 'sel, 'rest, 'mgr, 'sc, 'f, 'wh, 'stop) startup =
  version :: version_vars
  ParseFlags :: "'w \<Rightarrow> config \<times> 'w"
  Factories :: "'w \<Rightarrow> 'f list"
  GroupVersionKind :: "'f \<Rightarrow> string"
  Validate :: "config \<Rightarrow> string list \<Rightarrow> 'w \<Rightarrow> error option \<times> 'w"
  GetHostPort :: "string \<Rightarrow> (string \<times> int) \<times> error option"
  GetWatchNamespaces :: "config \<Rightarrow> string list \<times> error option"
  ParseWatchSelectors :: "config \<Rightarrow> 'sel \<times> error option"
  GetConfigOrDie :: "'w \<Rightarrow> 'rest option"
  NewManager :: "'rest \<Rightarrow> 'sel options \<Rightarrow> 'w \<Rightarrow> ('mgr \<times> error option) \<times> 'w"
  SetupSignalHandler :: "'w \<Rightarrow> 'stop \<times> 'w"
  NewServiceController :: "string \<Rightarrow> string \<Rightarrow> string list \<Rightarrow> 'f list \<Rightarrow> 'sc"
  GetWebhooks :: "'w \<Rightarrow> 'wh list"
  Setup :: "'wh \<Rightarrow> 'mgr \<Rightarrow> 'w \<Rightarrow> error option \<times> 'w"
  BindControllerManager :: "'sc \<Rightarrow> 'mgr \<Rightarrow> config \<Rightarrow> 'w \<Rightarrow> error option \<times> 'w"
  AddHealthzCheck :: "'mgr \<Rightarrow> string \<Rightarrow> 'w \<Rightarrow> error option \<times> 'w"
  AddReadyzCheck :: "'mgr \<Rightarrow> string \<Rightarrow> 'w \<Rightarrow> error option \<times> 'w"
  Start :: "'mgr \<Rightarrow> 'stop \<Rightarrow> 'w \<Rightarrow> error option \<times> 'w"

text \<open>The options of the manager: it watches the namespaces of the configuration.\<close>

definition managerOptions :: "config \<Rightarrow> string list \<Rightarrow> 'sel \<Rightarrow> string \<times> int \<Rightarrow> 'sel options" where
  "managerOptions cfg namespaces watchSelectors hostPort = \<lparr>
     DefaultNamespaces = set namespaces,
     DefaultLabelSelector = watchSelectors,
     WebhookHost = fst hostPort,
     WebhookPort = snd hostPort,
     BindAddress = MetricsAddr cfg,
     LeaderElection = EnableLeaderElection cfg,
     LeaderElectionID = ''ack-'' @ awsServiceAPIGroup,
     LeaderElectionNamespace = LeaderElectionNS cfg,
     HealthProbeBindAddress = HealthzAddr cfg,
     LivenessEndpointName = ''/healthz'',
     ReadinessEndpointName = ''/readyz''\<rparr>"

datatype status = Exited nat | Finished

text \<open>\<open>if err != nil { setupLog.Error(err, ...); os.Exit(1) }\<close> and the rest of \<open>main\<close>\<close>

definition or_exit :: "error option \<Rightarrow> ('w \<Rightarrow> status \<times> 'w) \<Rightarrow> 'w \<Rightarrow> status \<times> 'w" where
  "or_exit err rest w = (case err of Some e \<Rightarrow> (Exited 1, w) | None \<Rightarrow> rest w)"

text \<open>A webhook that cannot be set up is only logged.\<close>

definition setupWebhooks ::
  "('w, 'sel, 'rest, 'mgr, 'sc, 'f, 'wh, 'stop) startup \<Rightarrow> config \<Rightarrow> 'mgr \<Rightarrow> 'w \<Rightarrow> 'w" where
  "setupWebhooks L cfg mgr w =
     (if EnableWebhookServer cfg then fold (\<lambda>webhook w. snd (Setup L webhook mgr w)) (GetWebhooks L w) w else w)"

text \<open>From the manager on: bind the controllers, add the checks, start.\<close>

definition runManager ::
  "('w, 'sel, 'rest, 'mgr, 'sc, 'f, 'wh, 'stop) startup \<Rightarrow> config \<Rightarrow> 'mgr \<Rightarrow> 'w \<Rightarrow> status \<times> 'w" where
  "runManager L cfg mgr w =
     (let (stopChan, w) = SetupSignalHandler L w;
          sc = NewServiceController L awsServiceAlias awsServiceAPIGroup
            [GitCommit (version L), GitVersion (version L), BuildDate (version L)] (Factories L w);
          w = setupWebhooks L cfg mgr w;
          (err, w) = BindControllerManager L sc mgr cfg w
      in or_exit err (\<lambda>w.
           let (err, w) = AddHealthzCheck L mgr ''health'' w
           in or_exit err (\<lambda>w.
                let (err, w) = AddReadyzCheck L mgr ''check'' w
                in or_exit err (\<lambda>w.
                     let (err, w) = Start L mgr stopChan w
                     in or_exit err (Pair Finished) w) w) w) w)"

definition main :: "('w, 'sel, 'rest, 'mgr, 'sc, 'f, 'wh, 'stop) startup \<Rightarrow> 'w \<Rightarrow> status \<times> 'w" where
  "main L w =
     (let (cfg, w) = ParseFlags L w;
          managerFactories = Factories L w;
          resourceGVKs = map (GroupVersionKind L) managerFactories;
          (err, w) = Validate L cfg resourceGVKs w
      in or_exit err (\<lambda>w.
           let (hostPort, err) = GetHostPort L (WebhookServerAddr cfg)
           in or_exit err (\<lambda>w.
                let (namespaces, err) = GetWatchNamespaces L cfg
                in or_exit err (\<lambda>w.
                     let (watchSelectors, err) = ParseWatchSelectors L cfg
                     in or_exit err (\<lambda>w. case GetConfigOrDie L w of
                            None \<Rightarrow> (Exited 1, w)
                          | Some rest \<Rightarrow>
                              (let ((mgr, err), w) =
                                 NewManager L rest (managerOptions cfg namespaces watchSelectors hostPort) w
                               in or_exit err (runManager L cfg mgr) w)) w) w) w) w)"

subsection \<open>When the manager is started\<close>

text \<open>Nothing but \<open>Start\<close> changes whether a manager runs.\<close>

definition only_start_runs :: "('w, 'sel, 'rest, 'mgr, 'sc, 'f, 'wh, 'stop) startup \<Rightarrow> ('w \<Rightarrow> 'r) \<Rightarrow> bool" where
  "only_start_runs L runs \<longleftrightarrow>
     (\<forall>w. runs (snd (ParseFlags L w)) = runs w) \<and>
     (\<forall>cfg gvks w. runs (snd (Validate L cfg gvks w)) = runs w) \<and>
     (\<forall>rest opts w. runs (snd (NewManager L rest opts w)) = runs w) \<and>
     (\<forall>w. runs (snd (SetupSignalHandler L w)) = runs w) \<and>
     (\<forall>hook mgr w. runs (snd (Setup L hook mgr w)) = runs w) \<and>
     (\<forall>sc mgr cfg w. runs (snd (BindControllerManager L sc mgr cfg w)) = runs w) \<and>
     (\<forall>mgr name w. runs (snd (AddHealthzCheck L mgr name w)) = runs w) \<and>
     (\<forall>mgr name w. runs (snd (AddReadyzCheck L mgr name w)) = runs w)"

text \<open>A manager is ready to start: made with the options of the configuration, bound, and both checks added.\<close>

definition ready ::
  "('w, 'sel, 'rest, 'mgr, 'sc, 'f, 'wh, 'stop) startup \<Rightarrow> config \<Rightarrow> 'mgr \<Rightarrow> 'w \<Rightarrow> bool" where
  "ready L cfg mgr w \<longleftrightarrow> (\<exists>rest u sc u1 u2 u3.
     fst (NewManager L rest (managerOptions cfg (fst (GetWatchNamespaces L cfg)) (fst (ParseWatchSelectors L cfg))
       (fst (GetHostPort L (WebhookServerAddr cfg)))) u) = (mgr, None) \<and>
     BindControllerManager L sc mgr cfg u1 = (None, u2) \<and>
     AddHealthzCheck L mgr ''health'' u2 = (None, u3) \<and>
     AddReadyzCheck L mgr ''check'' u3 = (None, w))"

lemma webhooks_run_nothing:
  assumes "only_start_runs L runs"
  shows "runs (setupWebhooks L cfg mgr w) = runs w"
proof -
  have "runs (fold (\<lambda>webhook w. snd (Setup L webhook mgr w)) hooks w) = runs w" for hooks
    using assms by (induction hooks arbitrary: w) (simp_all add: only_start_runs_def)
  then show ?thesis by (simp add: setupWebhooks_def)
qed

lemma or_exit_cases:
  assumes "or_exit err k w = (st, w')"
  obtains e where "err = Some e" and "st = Exited 1" and "w' = w" | "err = None" and "k w = (st, w')"
  using assms by (cases err) (auto simp: or_exit_def)

lemma runManager_cases:
  assumes quiet: "only_start_runs L runs" and run: "runManager L cfg mgr w = (st, w')"
    and made: "fst (NewManager L rest (managerOptions cfg (fst (GetWatchNamespaces L cfg)) (fst (ParseWatchSelectors L cfg))
       (fst (GetHostPort L (WebhookServerAddr cfg)))) u) = (mgr, None)"
  shows "(st = Exited 1 \<and> runs w' = runs w) \<or>
    (\<exists>stop v err. ready L cfg mgr v \<and> runs v = runs w \<and>
       Start L mgr stop v = (err, w') \<and> st = (if err = None then Finished else Exited 1))"
proof -
  obtain stop w1 where w1: "SetupSignalHandler L w = (stop, w1)" by fastforce
  define sc where "sc = NewServiceController L awsServiceAlias awsServiceAPIGroup
    [GitCommit (version L), GitVersion (version L), BuildDate (version L)] (Factories L w1)"
  obtain e1 w2 where w2: "BindControllerManager L sc mgr cfg (setupWebhooks L cfg mgr w1) = (e1, w2)" by fastforce
  obtain e2 w3 where w3: "AddHealthzCheck L mgr ''health'' w2 = (e2, w3)" by fastforce
  obtain e3 w4 where w4: "AddReadyzCheck L mgr ''check'' w3 = (e3, w4)" by fastforce
  obtain e4 w5 where w5: "Start L mgr stop w4 = (e4, w5)" by fastforce
  have same: "runs w1 = runs w" "runs w2 = runs w1" "runs w3 = runs w2" "runs w4 = runs w3"
    using quiet webhooks_run_nothing [OF quiet, of cfg mgr w1] w1 w2 w3 w4
    unfolding only_start_runs_def by (metis snd_conv)+
  note unfold = runManager_def w1 w2 w3 w4 w5 sc_def [symmetric]
  show ?thesis
  proof (cases "e1 = None \<and> e2 = None \<and> e3 = None")
    case True
    then have "ready L cfg mgr w4"
      using made w2 w3 w4 unfolding ready_def by blast
    moreover have "Start L mgr stop w4 = (e4, w') \<and> st = (if e4 = None then Finished else Exited 1)"
      using run w5 True by (auto simp: unfold elim!: or_exit_cases)
    ultimately show ?thesis using same by metis
  next
    case False
    with run same show ?thesis by (auto simp: unfold elim!: or_exit_cases)
  qed
qed

lemma main_cases:
  assumes quiet: "only_start_runs L runs" and run: "main L w = (st, w')" and flags: "ParseFlags L w = (cfg, u)"
  shows "(st = Exited 1 \<and> runs w' = runs w) \<or>
    (fst (Validate L cfg (map (GroupVersionKind L) (Factories L u)) u) = None \<and>
     snd (GetHostPort L (WebhookServerAddr cfg)) = None \<and> snd (GetWatchNamespaces L cfg) = None \<and>
     snd (ParseWatchSelectors L cfg) = None \<and>
     (\<exists>mgr stop v err. ready L cfg mgr v \<and> runs v = runs w \<and>
       Start L mgr stop v = (err, w') \<and> st = (if err = None then Finished else Exited 1)))"
proof -
  obtain e1 u1 where u1: "Validate L cfg (map (GroupVersionKind L) (Factories L u)) u = (e1, u1)" by fastforce
  have runs1: "runs u1 = runs w"
    using quiet flags u1 unfolding only_start_runs_def by (metis snd_conv)
  obtain hp e2 where hp: "GetHostPort L (WebhookServerAddr cfg) = (hp, e2)" by fastforce
  obtain ns e3 where ns: "GetWatchNamespaces L cfg = (ns, e3)" by fastforce
  obtain sel e4 where sel: "ParseWatchSelectors L cfg = (sel, e4)" by fastforce
  show ?thesis
  proof (cases "e1 = None \<and> e2 = None \<and> e3 = None \<and> e4 = None \<and> GetConfigOrDie L u1 \<noteq> None")
    case False
    with run runs1 show ?thesis
      by (auto simp: main_def flags u1 hp ns sel elim!: or_exit_cases)
  next
    case True
    then obtain rest where rest: "GetConfigOrDie L u1 = Some rest" by blast
    obtain mgr e5 u2 where mgr: "NewManager L rest (managerOptions cfg ns sel hp) u1 = ((mgr, e5), u2)"
      by (metis prod.exhaust)
    have runs2: "runs u2 = runs w"
      using quiet mgr runs1 unfolding only_start_runs_def by (metis snd_conv)
    have "or_exit e5 (runManager L cfg mgr) u2 = (st, w')"
      using run True rest mgr by (simp add: main_def flags u1 hp ns sel or_exit_def)
    then show ?thesis
    proof (cases rule: or_exit_cases)
      case 1
      with runs2 show ?thesis by simp
    next
      case 2
      from runManager_cases [OF quiet 2(2), of rest u1] mgr ns sel hp 2(1) runs2
      have "(st = Exited 1 \<and> runs w' = runs w) \<or> (\<exists>stop v err. ready L cfg mgr v \<and> runs v = runs w \<and>
          Start L mgr stop v = (err, w') \<and> st = (if err = None then Finished else Exited 1))"
        by simp
      moreover have "fst (Validate L cfg (map (GroupVersionKind L) (Factories L u)) u) = None"
        "snd (GetHostPort L (WebhookServerAddr cfg)) = None" "snd (GetWatchNamespaces L cfg) = None"
        "snd (ParseWatchSelectors L cfg) = None"
        using True by (simp_all add: u1 ns sel hp)
      ultimately show ?thesis by metis
    qed
  qed
qed

subsection \<open>The property\<close>

text \<open>The property of the start of the process, with a witness on a cluster that is a trace of calls.\<close>

definition sample_config :: config where
  "sample_config = \<lparr>WebhookServerAddr = ''0.0.0.0:9443'', MetricsAddr = '':8080'', EnableLeaderElection = True,
     LeaderElectionNS = ''ack'', HealthzAddr = '':8081'', EnableWebhookServer = True\<rparr>"

text \<open>The webhook of this process cannot be set up.\<close>

definition sample_startup ::
  "(string list, unit, unit, unit options, string \<times> string \<times> string list \<times> string list, string, string, unit) startup" where
  "sample_startup = \<lparr>
     version = \<lparr>GitVersion = ''v1'', GitCommit = ''c0ffee'', BuildDate = ''today''\<rparr>,
     ParseFlags = (\<lambda>w. (sample_config, w)),
     Factories = (\<lambda>w. [''Role'', ''User'']),
     GroupVersionKind = (\<lambda>f. awsServiceAPIGroup @ ''/'' @ f),
     Validate = (\<lambda>cfg gvks w. (None, w @ [''validate''])),
     GetHostPort = (\<lambda>addr. ((''0.0.0.0'', 9443), None)),
     GetWatchNamespaces = (\<lambda>cfg. ([''default''], None)),
     ParseWatchSelectors = (\<lambda>cfg. ((), None)),
     GetConfigOrDie = (\<lambda>w. Some ()),
     NewManager = (\<lambda>rest opts w. ((opts, None), w @ [''manager''])),
     SetupSignalHandler = (\<lambda>w. ((), w)),
     NewServiceController = (\<lambda>alias group v fs. (alias, group, v, fs)),
     GetWebhooks = (\<lambda>w. [''conversion'']),
     Setup = (\<lambda>hook mgr w. (Some (Errorf hook), w)),
     BindControllerManager = (\<lambda>sc mgr cfg w. (None, w @ [''bind''])),
     AddHealthzCheck = (\<lambda>mgr name w. (None, w @ [''add '' @ name])),
     AddReadyzCheck = (\<lambda>mgr name w. (None, w @ [''add '' @ name])),
     Start = (\<lambda>mgr stop w. (None, w @ [''start'']))\<rparr>"

lemma sample_only_start_runs: "only_start_runs sample_startup (\<lambda>w. ''start'' \<in> set w)"
  by (auto simp: only_start_runs_def sample_startup_def)

text \<open>
  C39. The process starts the Kubernetes manager only when it is ready: when \<open>main\<close> ends normally, or
  ends with a manager running that was not running before, the configuration, the webhook address,
  the namespaces and the selectors were accepted, and the manager that was started was made with
  the options of that configuration (it watches the configured namespaces only), was bound to the
  controllers and has the health and the readiness check. In every other case \<open>main\<close> exits with
  status 1. A webhook that cannot be set up stops nothing.
\<close>

theorem manager_starts_ready:
  assumes "only_start_runs L runs" and "main L w = (st, w')" and "ParseFlags L w = (cfg, u)"
  shows "(st = Finished \<or> st = Exited 1) \<and>
    (st = Finished \<or> runs w' \<noteq> runs w \<longrightarrow>
      fst (Validate L cfg (map (GroupVersionKind L) (Factories L u)) u) = None \<and>
      snd (GetHostPort L (WebhookServerAddr cfg)) = None \<and> snd (GetWatchNamespaces L cfg) = None \<and>
      snd (ParseWatchSelectors L cfg) = None \<and>
      (\<exists>mgr stop v err. ready L cfg mgr v \<and> runs v = runs w \<and> Start L mgr stop v = (err, w') \<and>
         (st = Finished \<longleftrightarrow> err = None)))"
  using main_cases [OF assms]
proof (elim disjE conjE exE)
  fix mgr stop v err
  assume "ready L cfg mgr v" "runs v = runs w" "Start L mgr stop v = (err, w')" "st = (if err = None then Finished else Exited 1)"
    and checks: "fst (Validate L cfg (map (GroupVersionKind L) (Factories L u)) u) = None"
      "snd (GetHostPort L (WebhookServerAddr cfg)) = None" "snd (GetWatchNamespaces L cfg) = None"
      "snd (ParseWatchSelectors L cfg) = None"
  then have "ready L cfg mgr v \<and> runs v = runs w \<and> Start L mgr stop v = (err, w') \<and> (st = Finished \<longleftrightarrow> err = None)"
    and "st = Finished \<or> st = Exited 1" by simp_all
  with checks show ?thesis by blast
qed simp

lemma manager_starts_ready_witness:
  "main sample_startup [] = (Finished, [''validate'', ''manager'', ''bind'', ''add health'', ''add check'', ''start'']) \<and>
    (\<exists>mgr v. ready sample_startup sample_config mgr v \<and> last v = ''add check'')"
proof -
  have run: "main sample_startup [] = (Finished, [''validate'', ''manager'', ''bind'', ''add health'', ''add check'', ''start''])"
    by (simp add: main_def runManager_def or_exit_def setupWebhooks_def sample_startup_def sample_config_def)
  have flags: "ParseFlags sample_startup [] = (sample_config, [])" by (simp add: sample_startup_def)
  obtain mgr stop v err where "ready sample_startup sample_config mgr v"
    "Start sample_startup mgr stop v = (err, [''validate'', ''manager'', ''bind'', ''add health'', ''add check'', ''start''])"
    using manager_starts_ready [OF sample_only_start_runs run flags] by auto
  moreover from this(2) have "v = [''validate'', ''manager'', ''bind'', ''add health'', ''add check'']"
    by (simp add: sample_startup_def)
  ultimately have "ready sample_startup sample_config mgr v \<and> last v = ''add check''" by simp
  with run show ?thesis by blast
qed

end
