(* ===== verification/Enums.thy ===== *)
theory Enums
  imports Main
begin

text \<open>
  \<open>apis/v1alpha1/enums.go\<close>: the enumerations of the API, one datatype per Go type with its constants
  as constructors, and the string each constant stands for. Go's types are strings that may hold
  other values too; the constants are the values the API documents. In each of them different
  constants are different strings.
\<close>

datatype AccessAdvisorUsageGranularityType = AccessAdvisorUsageGranularityType_ACTION_LEVEL
    | AccessAdvisorUsageGranularityType_SERVICE_LEVEL

primrec AccessAdvisorUsageGranularityType_value :: "AccessAdvisorUsageGranularityType \<Rightarrow> string" where
  "AccessAdvisorUsageGranularityType_value AccessAdvisorUsageGranularityType_ACTION_LEVEL = ''ACTION_LEVEL''"
| "AccessAdvisorUsageGranularityType_value AccessAdvisorUsageGranularityType_SERVICE_LEVEL = ''SERVICE_LEVEL''"

lemma AccessAdvisorUsageGranularityType_value_eq [simp]: "AccessAdvisorUsageGranularityType_value x = AccessAdvisorUsageGranularityType_value y \<longleftrightarrow> x = y"
  by (cases x; cases y; simp)

datatype AssignmentStatusType = AssignmentStatusType_Any | AssignmentStatusType_Assigned
    | AssignmentStatusType_Unassigned

primrec AssignmentStatusType_value :: "AssignmentStatusType \<Rightarrow> string" where
  "AssignmentStatusType_value AssignmentStatusType_Any = ''Any''"
| "AssignmentStatusType_value AssignmentStatusType_Assigned = ''Assigned''"
| "AssignmentStatusType_value AssignmentStatusType_Unassigned = ''Unassigned''"

lemma AssignmentStatusType_value_eq [simp]: "AssignmentStatusType_value x = AssignmentStatusType_value y \<longleftrightarrow> x = y"
  by (cases x; cases y; simp)

datatype ContextKeyTypeEnum = ContextKeyTypeEnum_binary | ContextKeyTypeEnum_binaryList
    | ContextKeyTypeEnum_boolean | ContextKeyTypeEnum_booleanList | ContextKeyTypeEnum_date
    | ContextKeyTypeEnum_dateList | ContextKeyTypeEnum_ip | ContextKeyTypeEnum_ipList
    | ContextKeyTypeEnum_numeric | ContextKeyTypeEnum_numericList | ContextKeyTypeEnum_string
    | ContextKeyTypeEnum_stringList

primrec ContextKeyTypeEnum_value :: "ContextKeyTypeEnum \<Rightarrow> string" where
  "ContextKeyTypeEnum_value ContextKeyTypeEnum_binary = ''binary''"
| "ContextKeyTypeEnum_value ContextKeyTypeEnum_binaryList = ''binaryList''"
| "ContextKeyTypeEnum_value ContextKeyTypeEnum_boolean = ''boolean''"
| "ContextKeyTypeEnum_value ContextKeyTypeEnum_booleanList = ''booleanList''"
| "ContextKeyTypeEnum_value ContextKeyTypeEnum_date = ''date''"
| "ContextKeyTypeEnum_value ContextKeyTypeEnum_dateList = ''dateList''"
| "ContextKeyTypeEnum_value ContextKeyTypeEnum_ip = ''ip''"
| "ContextKeyTypeEnum_value ContextKeyTypeEnum_ipList = ''ipList''"
| "ContextKeyTypeEnum_value ContextKeyTypeEnum_numeric = ''numeric''"
| "ContextKeyTypeEnum_value ContextKeyTypeEnum_numericList = ''numericList''"
| "ContextKeyTypeEnum_value ContextKeyTypeEnum_string = ''string''"
| "ContextKeyTypeEnum_value ContextKeyTypeEnum_stringList = ''stringList''"

lemma ContextKeyTypeEnum_value_eq [simp]: "ContextKeyTypeEnum_value x = ContextKeyTypeEnum_value y \<longleftrightarrow> x = y"
  by (cases x; cases y; simp)

datatype DeletionTaskStatusType = DeletionTaskStatusType_FAILED | DeletionTaskStatusType_IN_PROGRESS
    | DeletionTaskStatusType_NOT_STARTED | DeletionTaskStatusType_SUCCEEDED

primrec DeletionTaskStatusType_value :: "DeletionTaskStatusType \<Rightarrow> string" where
  "DeletionTaskStatusType_value DeletionTaskStatusType_FAILED = ''FAILED''"
| "DeletionTaskStatusType_value DeletionTaskStatusType_IN_PROGRESS = ''IN_PROGRESS''"
| "DeletionTaskStatusType_value DeletionTaskStatusType_NOT_STARTED = ''NOT_STARTED''"
| "DeletionTaskStatusType_value DeletionTaskStatusType_SUCCEEDED = ''SUCCEEDED''"

lemma DeletionTaskStatusType_value_eq [simp]: "DeletionTaskStatusType_value x = DeletionTaskStatusType_value y \<longleftrightarrow> x = y"
  by (cases x; cases y; simp)

datatype EncodingType = EncodingType_PEM | EncodingType_SSH

primrec EncodingType_value :: "EncodingType \<Rightarrow> string" where
  "EncodingType_value EncodingType_PEM = ''PEM''"
| "EncodingType_value EncodingType_SSH = ''SSH''"

lemma EncodingType_value_eq [simp]: "EncodingType_value x = EncodingType_value y \<longleftrightarrow> x = y"
  by (cases x; cases y; simp)

datatype EntityType = EntityType_AWSManagedPolicy | EntityType_Group | EntityType_LocalManagedPolicy
    | EntityType_Role | EntityType_User

primrec EntityType_value :: "EntityType \<Rightarrow> string" where
  "EntityType_value EntityType_AWSManagedPolicy = ''AWSManagedPolicy''"
| "EntityType_value EntityType_Group = ''Group''"
| "EntityType_value EntityType_LocalManagedPolicy = ''LocalManagedPolicy''"
| "EntityType_value EntityType_Role = ''Role''"
| "EntityType_value EntityType_User = ''User''"

lemma EntityType_value_eq [simp]: "EntityType_value x = EntityType_value y \<longleftrightarrow> x = y"
  by (cases x; cases y; simp)

datatype FeatureType = FeatureType_RootCredentialsManagement | FeatureType_RootSessions

primrec FeatureType_value :: "FeatureType \<Rightarrow> string" where
  "FeatureType_value FeatureType_RootCredentialsManagement = ''RootCredentialsManagement''"
| "FeatureType_value FeatureType_RootSessions = ''RootSessions''"

lemma FeatureType_value_eq [simp]: "FeatureType_value x = FeatureType_value y \<longleftrightarrow> x = y"
  by (cases x; cases y; simp)

datatype GlobalEndpointTokenVersion = GlobalEndpointTokenVersion_v1Token
    | GlobalEndpointTokenVersion_v2Token

primrec GlobalEndpointTokenVersion_value :: "GlobalEndpointTokenVersion \<Rightarrow> string" where
  "GlobalEndpointTokenVersion_value GlobalEndpointTokenVersion_v1Token = ''v1Token''"
| "GlobalEndpointTokenVersion_value GlobalEndpointTokenVersion_v2Token = ''v2Token''"

lemma GlobalEndpointTokenVersion_value_eq [simp]: "GlobalEndpointTokenVersion_value x = GlobalEndpointTokenVersion_value y \<longleftrightarrow> x = y"
  by (cases x; cases y; simp)

datatype JobStatusType = JobStatusType_COMPLETED | JobStatusType_FAILED | JobStatusType_IN_PROGRESS

primrec JobStatusType_value :: "JobStatusType \<Rightarrow> string" where
  "JobStatusType_value JobStatusType_COMPLETED = ''COMPLETED''"
| "JobStatusType_value JobStatusType_FAILED = ''FAILED''"
| "JobStatusType_value JobStatusType_IN_PROGRESS = ''IN_PROGRESS''"

lemma JobStatusType_value_eq [simp]: "JobStatusType_value x = JobStatusType_value y \<longleftrightarrow> x = y"
  by (cases x; cases y; simp)

datatype PermissionsBoundaryAttachmentType = PermissionsBoundaryAttachmentType_PermissionsBoundaryPolicy

primrec PermissionsBoundaryAttachmentType_value :: "PermissionsBoundaryAttachmentType \<Rightarrow> string" where
  "PermissionsBoundaryAttachmentType_value PermissionsBoundaryAttachmentType_PermissionsBoundaryPolicy = ''PermissionsBoundaryPolicy''"

lemma PermissionsBoundaryAttachmentType_value_eq [simp]: "PermissionsBoundaryAttachmentType_value x = PermissionsBoundaryAttachmentType_value y \<longleftrightarrow> x = y"
  by (cases x; cases y; simp)

datatype PolicyEvaluationDecisionType = PolicyEvaluationDecisionType_allowed
    | PolicyEvaluationDecisionType_explicitDeny | PolicyEvaluationDecisionType_implicitDeny

primrec PolicyEvaluationDecisionType_value :: "PolicyEvaluationDecisionType \<Rightarrow> string" where
  "PolicyEvaluationDecisionType_value PolicyEvaluationDecisionType_allowed = ''allowed''"
| "PolicyEvaluationDecisionType_value PolicyEvaluationDecisionType_explicitDeny = ''explicitDeny''"
| "PolicyEvaluationDecisionType_value PolicyEvaluationDecisionType_implicitDeny = ''implicitDeny''"

lemma PolicyEvaluationDecisionType_value_eq [simp]: "PolicyEvaluationDecisionType_value x = PolicyEvaluationDecisionType_value y \<longleftrightarrow> x = y"
  by (cases x; cases y; simp)

datatype PolicyOwnerEntityType = PolicyOwnerEntityType_GROUP | PolicyOwnerEntityType_ROLE
    | PolicyOwnerEntityType_USER

primrec PolicyOwnerEntityType_value :: "PolicyOwnerEntityType \<Rightarrow> string" where
  "PolicyOwnerEntityType_value PolicyOwnerEntityType_GROUP = ''GROUP''"
| "PolicyOwnerEntityType_value PolicyOwnerEntityType_ROLE = ''ROLE''"
| "PolicyOwnerEntityType_value PolicyOwnerEntityType_USER = ''USER''"

lemma PolicyOwnerEntityType_value_eq [simp]: "PolicyOwnerEntityType_value x = PolicyOwnerEntityType_value y \<longleftrightarrow> x = y"
  by (cases x; cases y; simp)

datatype PolicyScopeType = PolicyScopeType_AWS | PolicyScopeType_All | PolicyScopeType_Local

primrec PolicyScopeType_value :: "PolicyScopeType \<Rightarrow> string" where
  "PolicyScopeType_value PolicyScopeType_AWS = ''AWS''"
| "PolicyScopeType_value PolicyScopeType_All = ''All''"
| "PolicyScopeType_value PolicyScopeType_Local = ''Local''"

lemma PolicyScopeType_value_eq [simp]: "PolicyScopeType_value x = PolicyScopeType_value y \<longleftrightarrow> x = y"
  by (cases x; cases y; simp)

datatype PolicySourceType = PolicySourceType_aws_managed | PolicySourceType_group | PolicySourceType_none
    | PolicySourceType_resource | PolicySourceType_role | PolicySourceType_user
    | PolicySourceType_user_managed

primrec PolicySourceType_value :: "PolicySourceType \<Rightarrow> string" where
  "PolicySourceType_value PolicySourceType_aws_managed = ''aws-managed''"
| "PolicySourceType_value PolicySourceType_group = ''group''"
| "PolicySourceType_value PolicySourceType_none = ''none''"
| "PolicySourceType_value PolicySourceType_resource = ''resource''"
| "PolicySourceType_value PolicySourceType_role = ''role''"
| "PolicySourceType_value PolicySourceType_user = ''user''"
| "PolicySourceType_value PolicySourceType_user_managed = ''user-managed''"

lemma PolicySourceType_value_eq [simp]: "PolicySourceType_value x = PolicySourceType_value y \<longleftrightarrow> x = y"
  by (cases x; cases y; simp)

datatype PolicyType = PolicyType_INLINE | PolicyType_MANAGED

primrec PolicyType_value :: "PolicyType \<Rightarrow> string" where
  "PolicyType_value PolicyType_INLINE = ''INLINE''"
| "PolicyType_value PolicyType_MANAGED = ''MANAGED''"

lemma PolicyType_value_eq [simp]: "PolicyType_value x = PolicyType_value y \<longleftrightarrow> x = y"
  by (cases x; cases y; simp)

datatype PolicyUsageType = PolicyUsageType_PermissionsBoundary | PolicyUsageType_PermissionsPolicy

primrec PolicyUsageType_value :: "PolicyUsageType \<Rightarrow> string" where
  "PolicyUsageType_value PolicyUsageType_PermissionsBoundary = ''PermissionsBoundary''"
| "PolicyUsageType_value PolicyUsageType_PermissionsPolicy = ''PermissionsPolicy''"

lemma PolicyUsageType_value_eq [simp]: "PolicyUsageType_value x = PolicyUsageType_value y \<longleftrightarrow> x = y"
  by (cases x; cases y; simp)

datatype ReportFormatType = ReportFormatType_text_csv

primrec ReportFormatType_value :: "ReportFormatType \<Rightarrow> string" where
  "ReportFormatType_value ReportFormatType_text_csv = ''text/csv''"

lemma ReportFormatType_value_eq [simp]: "ReportFormatType_value x = ReportFormatType_value y \<longleftrightarrow> x = y"
  by (cases x; cases y; simp)

datatype ReportStateType = ReportStateType_COMPLETE | ReportStateType_INPROGRESS | ReportStateType_STARTED

primrec ReportStateType_value :: "ReportStateType \<Rightarrow> string" where
  "ReportStateType_value ReportStateType_COMPLETE = ''COMPLETE''"
| "ReportStateType_value ReportStateType_INPROGRESS = ''INPROGRESS''"
| "ReportStateType_value ReportStateType_STARTED = ''STARTED''"

lemma ReportStateType_value_eq [simp]: "ReportStateType_value x = ReportStateType_value y \<longleftrightarrow> x = y"
  by (cases x; cases y; simp)

datatype SortKeyType = SortKeyType_LAST_AUTHENTICATED_TIME_ASCENDING
    | SortKeyType_LAST_AUTHENTICATED_TIME_DESCENDING | SortKeyType_SERVICE_NAMESPACE_ASCENDING
    | SortKeyType_SERVICE_NAMESPACE_DESCENDING

primrec SortKeyType_value :: "SortKeyType \<Rightarrow> string" where
  "SortKeyType_value SortKeyType_LAST_AUTHENTICATED_TIME_ASCENDING = ''LAST_AUTHENTICATED_TIME_ASCENDING''"
| "SortKeyType_value SortKeyType_LAST_AUTHENTICATED_TIME_DESCENDING = ''LAST_AUTHENTICATED_TIME_DESCENDING''"
| "SortKeyType_value SortKeyType_SERVICE_NAMESPACE_ASCENDING = ''SERVICE_NAMESPACE_ASCENDING''"
| "SortKeyType_value SortKeyType_SERVICE_NAMESPACE_DESCENDING = ''SERVICE_NAMESPACE_DESCENDING''"

lemma SortKeyType_value_eq [simp]: "SortKeyType_value x = SortKeyType_value y \<longleftrightarrow> x = y"
  by (cases x; cases y; simp)

datatype StatusType = StatusType_Active | StatusType_Inactive

primrec StatusType_value :: "StatusType \<Rightarrow> string" where
  "StatusType_value StatusType_Active = ''Active''"
| "StatusType_value StatusType_Inactive = ''Inactive''"

lemma StatusType_value_eq [simp]: "StatusType_value x = StatusType_value y \<longleftrightarrow> x = y"
  by (cases x; cases y; simp)

datatype SummaryKeyType = SummaryKeyType_AccessKeysPerUserQuota | SummaryKeyType_AccountAccessKeysPresent
    | SummaryKeyType_AccountMFAEnabled | SummaryKeyType_AccountPasswordPresent
    | SummaryKeyType_AccountSigningCertificatesPresent | SummaryKeyType_AttachedPoliciesPerGroupQuota
    | SummaryKeyType_AttachedPoliciesPerRoleQuota | SummaryKeyType_AttachedPoliciesPerUserQuota
    | SummaryKeyType_GlobalEndpointTokenVersion | SummaryKeyType_GroupPolicySizeQuota
    | SummaryKeyType_Groups | SummaryKeyType_GroupsPerUserQuota | SummaryKeyType_GroupsQuota
    | SummaryKeyType_MFADevices | SummaryKeyType_MFADevicesInUse | SummaryKeyType_Policies
    | SummaryKeyType_PoliciesQuota | SummaryKeyType_PolicySizeQuota | SummaryKeyType_PolicyVersionsInUse
    | SummaryKeyType_PolicyVersionsInUseQuota | SummaryKeyType_ServerCertificates
    | SummaryKeyType_ServerCertificatesQuota | SummaryKeyType_SigningCertificatesPerUserQuota
    | SummaryKeyType_UserPolicySizeQuota | SummaryKeyType_Users | SummaryKeyType_UsersQuota
    | SummaryKeyType_VersionsPerPolicyQuota

primrec SummaryKeyType_value :: "SummaryKeyType \<Rightarrow> string" where
  "SummaryKeyType_value SummaryKeyType_AccessKeysPerUserQuota = ''AccessKeysPerUserQuota''"
| "SummaryKeyType_value SummaryKeyType_AccountAccessKeysPresent = ''AccountAccessKeysPresent''"
| "SummaryKeyType_value SummaryKeyType_AccountMFAEnabled = ''AccountMFAEnabled''"
| "SummaryKeyType_value SummaryKeyType_AccountPasswordPresent = ''AccountPasswordPresent''"
| "SummaryKeyType_value SummaryKeyType_AccountSigningCertificatesPresent = ''AccountSigningCertificatesPresent''"
| "SummaryKeyType_value SummaryKeyType_AttachedPoliciesPerGroupQuota = ''AttachedPoliciesPerGroupQuota''"
| "SummaryKeyType_value SummaryKeyType_AttachedPoliciesPerRoleQuota = ''AttachedPoliciesPerRoleQuota''"
| "SummaryKeyType_value SummaryKeyType_AttachedPoliciesPerUserQuota = ''AttachedPoliciesPerUserQuota''"
| "SummaryKeyType_value SummaryKeyType_GlobalEndpointTokenVersion = ''GlobalEndpointTokenVersion''"
| "SummaryKeyType_value SummaryKeyType_GroupPolicySizeQuota = ''GroupPolicySizeQuota''"
| "SummaryKeyType_value SummaryKeyType_Groups = ''Groups''"
| "SummaryKeyType_value SummaryKeyType_GroupsPerUserQuota = ''GroupsPerUserQuota''"
| "SummaryKeyType_value SummaryKeyType_GroupsQuota = ''GroupsQuota''"
| "SummaryKeyType_value SummaryKeyType_MFADevices = ''MFADevices''"
| "SummaryKeyType_value SummaryKeyType_MFADevicesInUse = ''MFADevicesInUse''"
| "SummaryKeyType_value SummaryKeyType_Policies = ''Policies''"
| "SummaryKeyType_value SummaryKeyType_PoliciesQuota = ''PoliciesQuota''"
| "SummaryKeyType_value SummaryKeyType_PolicySizeQuota = ''PolicySizeQuota''"
| "SummaryKeyType_value SummaryKeyType_PolicyVersionsInUse = ''PolicyVersionsInUse''"
| "SummaryKeyType_value SummaryKeyType_PolicyVersionsInUseQuota = ''PolicyVersionsInUseQuota''"
| "SummaryKeyType_value SummaryKeyType_ServerCertificates = ''ServerCertificates''"
| "SummaryKeyType_value SummaryKeyType_ServerCertificatesQuota = ''ServerCertificatesQuota''"
| "SummaryKeyType_value SummaryKeyType_SigningCertificatesPerUserQuota = ''SigningCertificatesPerUserQuota''"
| "SummaryKeyType_value SummaryKeyType_UserPolicySizeQuota = ''UserPolicySizeQuota''"
| "SummaryKeyType_value SummaryKeyType_Users = ''Users''"
| "SummaryKeyType_value SummaryKeyType_UsersQuota = ''UsersQuota''"
| "SummaryKeyType_value SummaryKeyType_VersionsPerPolicyQuota = ''VersionsPerPolicyQuota''"

lemma SummaryKeyType_value_eq [simp]: "SummaryKeyType_value x = SummaryKeyType_value y \<longleftrightarrow> x = y"
  by (cases x; cases y; simp)

end
