(* ===== verification/Spec2Isabelle.thy ===== *)
theory Spec2Isabelle
  imports RoleProperties PolicyProperties SharedProperties UserProperties GroupProperties ProfileProperties
    ProviderProperties LinkedRoleProperties DeepCopyProperties RoleRefineProperties
    PackageProperties Controller Enums
begin

text \<open>
  A verification development for the ACK controller of AWS IAM: a Kubernetes controller that keeps
  IAM roles, policies, users, groups, instance profiles, OpenID Connect providers and
  service-linked roles in line with custom resources.

  \<^bold>\<open>The program.\<close> The ACK runtime, a library, reconciles a custom resource: it resolves references
  to other resources, reads the resource from AWS (\<open>ReadOne\<close>), compares it with the desired one
  (\<open>Delta\<close>), creates, updates or deletes it, and stores the result. This repository gives it one
  package per resource under \<open>pkg/resource\<close>, each of them made of generated files (\<open>sdk.go\<close>,
  \<open>manager.go\<close>, \<open>manager_factory.go\<close>, \<open>delta.go\<close>, \<open>references.go\<close>, \<open>resource.go\<close>, \<open>descriptor.go\<close>,
  \<open>identifiers.go\<close>, \<open>tags.go\<close>) and hand-written hooks (\<open>hooks.go\<close>), and the shared package
  \<open>pkg/util\<close>. The generated code calls the hooks where one API call is not enough: attached and
  inline policies, tags, policy versions. Each package registers its manager factory when it is
  loaded (\<open>pkg/resource/registry.go\<close>); \<open>cmd/controller/main.go\<close> hands the registered factories to the
  runtime and starts the Kubernetes manager.

  \<^bold>\<open>Go in HOL.\<close> (theory \<open>Prelude\<close>) A pointer is an option, a slice an optional list, a map an
  association list whose \<open>range\<close> order is a parameter. A call that panics (a nil dereference) or
  never ends (a paging loop) is \<open>None\<close>; one that returns is \<open>Some\<close> of its results and of the world.
  An \<open>error\<close> result is a value. Integers keep their width. Records have the fields of the structs as
  values, so a deep copy is the identity; where a function changes a resource its caller holds, the
  model returns the changed one too. That this loses nothing is shown on an explicit heap: there
  (theories \<open>GoHeap\<close>, \<open>ApiTypes\<close> and \<open>DeepCopy*\<close>) the same structs hold addresses of cells, the
  generated \<open>DeepCopyInto\<close> functions are translated statement by statement, and a copy is proved to
  be the same tree on cells nobody else refers to. Logging is left out.

  \<^bold>\<open>What is a parameter.\<close> (theory \<open>Ack\<close>) The ACK runtime, the AWS SDK, Kubernetes and the \<open>lo\<close>
  library are not part of the repository. Their functions are the fields of the records
  \<open>ack_rt\<close>, \<open>compare_rt\<close>, \<open>k8s_rt\<close> and of one record per SDK client (\<open>role_sdk\<close>, \<open>user_sdk\<close>,
  \<open>group_sdk\<close>, \<open>policy_sdk\<close>, \<open>profile_sdk\<close>, \<open>provider_sdk\<close>, \<open>linked_role_sdk\<close>); the state of AWS is a
  type variable. \<open>Controller\<close> takes the calls of \<open>main\<close> into the runtime and controller-runtime from
  a record of the same kind, and the deep copies take those of Kubernetes' and the runtime's own
  types from \<open>library\<close>. What the properties need of them is said by named predicates: \<open>in_string_ok\<close>, \<open>lo_ok\<close>, \<open>merge_ok\<close>,
  \<open>delta_ok\<close>, \<open>nil_difference_ok\<close>, \<open>lists_equal_ok\<close>, \<open>aws_error_ok\<close>, \<open>synced_ok\<close>, \<open>finalizers_ok\<close> for the
  libraries; \<open>attach_ok\<close>, \<open>inline_ok\<close>, \<open>tagging_ok\<close>, \<open>versions_ok\<close>, \<open>describes_role\<close>, \<open>user_service\<close>,
  \<open>role_service\<close>, \<open>policy_service\<close>, \<open>group_service\<close>, \<open>profile_service\<close>, \<open>provider_service\<close>, \<open>linked_role_service\<close> and the like for the
  effect of the API calls on what a function reads off the state of AWS; \<open>role_calls_on\<close>,
  \<open>user_calls_on\<close> and so on for which entry of that state a call may change, whether it fails or not;
  \<open>scheme_ok\<close> for the types registered with the scheme (the kinds its libraries add themselves are left
  open). No property assumes that a call which changes AWS succeeds: what these predicates say of its
  effect, they say of a call that returned no error. The witnesses instantiate
  all of them (\<open>Samples\<close>, \<open>RoleSamples\<close>, \<open>UserSamples\<close> and the theories of the properties).

  \<^bold>\<open>The theories.\<close>
  \<^item> \<open>Prelude\<close>, \<open>Ack\<close>: values, control flow, errors, conditions, the world, the libraries.
  \<^item> \<open>Util\<close> (\<open>pkg/util\<close>), \<open>AckTags\<close> (\<open>tags.go\<close>), \<open>TagHooks\<close> (the tag functions of the hooks),
    \<open>Url\<close> (\<open>url.QueryUnescape\<close>), \<open>Compare\<close> (the comparisons of \<open>delta.go\<close>).
  \<^item> \<open>Conditions\<close> (status and conditions, in \<open>sdk.go\<close> and \<open>manager.go\<close>), \<open>Manager\<close> (the entry
    points of \<open>manager.go\<close>), \<open>Resource\<close> (\<open>resource.go\<close>, \<open>identifiers.go\<close>, \<open>descriptor.go\<close>), \<open>Factory\<close>
    (\<open>manager_factory.go\<close>), \<open>References\<close> (\<open>references.go\<close>): the code every package repeats,
    defined once over any resource; a package's own theory fixes its functions and fields.
  \<^item> \<open>RolePackage\<close>, \<open>PolicyPackage\<close>, \<open>UserPackage\<close>, \<open>GroupPackage\<close>, \<open>ProfilePackage\<close>,
    \<open>ProviderPackage\<close>, \<open>LinkedPackage\<close>: that code as each package has it, at its resource type,
    terminal codes and finalizer. \<open>Reporting\<close>: what the reconciler relies on in it, as the locales
    \<open>status_reporter\<close> and \<open>resource_marks\<close>, interpreted in each of the seven theories.
  \<^item> \<open>Controller\<close>: \<open>main\<close>, with each early exit, the registry of manager factories and the version
    variables.
  \<^item> \<open>Descriptors\<close>: the types the ACK runtime passes around. The Kubernetes objects as a union, the
    \<open>AWSResource\<close> values as another, the objects a descriptor makes and accepts, the casts of the
    managers, and the scheme as the \<open>init\<close> functions build it; the locale \<open>castable\<close> is interpreted on
    each package. \<open>Enums\<close>: the constants of \<open>enums.go\<close>.
  \<^item> \<open>GoHeap\<close>: a heap of typed cells, the statements deep copies are made of, and their contracts as
    the locales \<open>cell_kind\<close>, \<open>heap_view\<close> and \<open>deep_copier\<close>. \<open>ApiTypes\<close>: the structs of \<open>types.go\<close> and
    of the seven resources as records of addresses. \<open>ApiCells\<close>, \<open>DeepCopyBase\<close>, \<open>DeepCopyData\<close>,
    \<open>DeepCopyResources\<close>: \<open>DeepCopyInto\<close>, \<open>DeepCopy\<close> and \<open>DeepCopyObject\<close> of every struct, each with the
    proof that it is a deep copier.
  \<^item> \<open>WellFormed\<close>: the form of the resources the entry points return.
  \<^item> \<open>Isolation\<close>: what a call of the API may touch, rules for what the code around the calls keeps, and
    the entry points of a package as the steps of a transition system, in which the reconciler makes
    any calls in any order. \<open>Isolated\<close>: the rules run over every hook and entry point of the seven
    packages; the locale \<open>isolated_package\<close> is interpreted on each of them.
  \<^item> \<open>Sync\<close> and \<open>PolicySync\<close>: the contracts between hooks and API as locales. \<open>api_sync\<close> (one call
    per element to add and to remove), \<open>pager\<close> (a loop over marked pages), \<open>paged_listing\<close> (a loop
    over a paginator), \<open>inline_docs\<close> (a document per name). \<open>Principal\<close>: the abstract specification
    of roles, users and groups, a directory of principals and its operations, with the locale
    \<open>holder_calls\<close> of what a package's policy calls promise, which rests on \<open>api_sync\<close>. The locales
    are interpreted on the hooks' own loops and calls in \<open>Holder\<close>, \<open>RoleSync\<close>, \<open>PolicyVersions\<close>,
    \<open>UserSync\<close>, \<open>GroupSync\<close> and \<open>ProviderSync\<close>.
  \<^item> \<open>Holder\<close>, \<open>HolderReferences\<close>: the policy hooks and the reference resolution that the role, user
    and group packages state in the same words, over any package's calls.
  \<^item> \<open>RoleApi\<close>, \<open>RoleHooks\<close>, \<open>RoleSdk\<close>, \<open>RoleDelta\<close>, \<open>RoleReferences\<close>, \<open>RoleManager\<close>: the role package,
    file by file. \<open>RoleSync\<close> and \<open>RoleCrud\<close>: what its hooks and CRUD calls achieve;
    \<open>RoleRefine\<close>: how an update refines the operations of \<open>Principal\<close>, and what the next
    reading and delta make of it.
  \<^item> \<open>PolicyHooks\<close>, \<open>PolicySdk\<close>: the policy package. \<open>PolicyVersions\<close>: what its hooks
    achieve; \<open>PolicyRefine\<close>: the update as a step on the abstract policies.
  \<^item> \<open>UserHooks\<close>, \<open>UserSdk\<close>, \<open>UserManager\<close> and \<open>GroupHooks\<close>, \<open>GroupSdk\<close>,
    \<open>GroupManager\<close>: the user and the group package; \<open>UserSync\<close>, \<open>GroupSync\<close>: how they refine the
    operations of \<open>Principal\<close>.
  \<^item> \<open>ProfileHooks\<close>, \<open>ProfileManager\<close>, \<open>ProfileSync\<close>: the instance profile package.
    \<open>ProviderHooks\<close>, \<open>ProviderManager\<close>, \<open>ProviderSync\<close>: the OpenID Connect provider package, each
    with its own abstract state. \<open>LinkedRole\<close>: the service linked role package.
  \<^item> \<open>SharedProperties\<close>, \<open>RoleProperties\<close>, \<open>PolicyProperties\<close>, \<open>UserProperties\<close>, \<open>GroupProperties\<close>,
    \<open>ProfileProperties\<close>, \<open>ProviderProperties\<close>, \<open>LinkedRoleProperties\<close>, \<open>RoleRefineProperties\<close>,
    \<open>DeepCopyProperties\<close>, \<open>PackageProperties\<close> (and the end of \<open>Controller\<close>): the properties and
    their witnesses.

  \<^bold>\<open>What is shown.\<close> Refinement: an update of a role, a user, a group or a provider that returns no
  error is one assignment to its abstract state; an update of a policy is one step of a relation, as
  IAM chooses the id of a new version. Convergence: a successful sync or update leaves AWS in
  the desired state (attached policies, tags of a policy, role and tags of an instance profile),
  and exactly which state the inline policies, tags and descriptions end in where they do not; the
  next reading finds it, and for reachable goals the next delta calls no hook. Safety: what no
  partial failure can do; in which state a role, a group or a policy is deleted; and that the limit of
  five versions is never what makes the update of a document fail. Invariants: the
  versions of a policy, the cache of managers under concurrent calls, the form of returned
  resources, the conditions and the finalizer over any history of calls in every package. Deep
  copies: the same tree, and no write through one side is seen by the other. Start-up: the
  Kubernetes manager never starts on a configuration, address, binding or health check that was
  refused. Isolation: no sequence of calls of a package, in whatever order and with whatever failures,
  changes a role, user, group, policy, profile or provider that none of its resources names. Types: every
  descriptor, its manager and the scheme agree on the type of a kind. Round trips: references, tag lists, stored documents. Error reporting: which
  conditions and which error the entry points leave. Paging: a listing that ends is read
  completely, a loop over it returns, and the one loop that does not.

  \<^bold>\<open>Bounds.\<close> No fuel is used. The paging loops are \<open>partial_function (option)\<close>, where \<open>None\<close> is not
  returning, and the theorems about them prove that they return for a listing that ends
  (\<open>serves\<close>, \<open>lists\<close>). \<open>sort.Slice\<close> is a stable sort, as it is for up to twelve elements.

  \<^bold>\<open>Not modelled.\<close> Logging and tracing; the accessors that only hand a part of a Kubernetes object
  through (\<open>MetaObject\<close>, \<open>SetObjectMeta\<close> and the like); the interfaces between packages and runtime as
  such, beyond the casts of \<open>Descriptors\<close>.
\<close>

end
